(* ===== verification/Js_Prelude.thy ===== *)
theory Js_Prelude
  imports Complex_Main "HOL-Library.Sublist" "HOL-Library.AList" "HOL-Library.Char_ord"
    "HOL-Library.List_Lexorder" "HOL-Library.Multiset"
begin

text \<open>
  The fragment of the JavaScript runtime the front end uses, shared by every component theory.

  \<^item> Strings are sequences of Latin-1 code units (\<open>string\<close>); a string that may be \<open>undefined\<close> or
    \<open>null\<close> is a \<open>string option\<close>, and the falsy empty string is written out by \<open>truthy\<close>, \<open>orS\<close>, \<open>orO\<close>.
  \<^item> Numbers are \<open>jsnum\<close>: a finite value (an exact rational, so the rounding of doubles is not
    modelled), the two infinities and \<open>NaN\<close>.
  \<^item> \<open>Array.from(new Set(xs))\<close> is \<open>uniq\<close>; a \<open>Map\<close> is an association list in insertion order, updated by
    \<open>map_set\<close>; a plain object is the same list with own properties only, and \<open>obj_entries\<close> enumerates
    it in the order of the language (array indices first).
  \<^item> \<open>Array.prototype.sort\<close> is the stable \<open>js_sort\<close>; the locale \<open>sort_order\<close> is the contract a comparison
    function has to keep, and the locale \<open>insertion_map\<close> the contract of \<open>Map\<close>.
\<close>

named_theorems js_simps \<open>unfolding rules for the runtime's optional values\<close>
named_theorems uniq_facts \<open>facts about duplicate-free enumerations\<close>

section \<open>Optional and falsy values\<close>

definition truthy :: "string option \<Rightarrow> bool" where
  "truthy v = (case v of None \<Rightarrow> False | Some s \<Rightarrow> s \<noteq> [])"

text \<open>\<open>v || d\<close> with a string default, and with an optional one.\<close>

definition orS :: "string option \<Rightarrow> string \<Rightarrow> string" where
  "orS v d = (case v of None \<Rightarrow> d | Some s \<Rightarrow> (if s = [] then d else s))"

definition orO :: "string option \<Rightarrow> string option \<Rightarrow> string option" where
  "orO v w = (if truthy v then v else w)"

text \<open>\<open>v ?? d\<close>.\<close>

definition coalesce :: "'a option \<Rightarrow> 'a \<Rightarrow> 'a" where
  "coalesce v d = (case v of None \<Rightarrow> d | Some x \<Rightarrow> x)"

text \<open>\<open>(xs || [])\<close> for an optional array: an empty array is truthy, so both give the array.\<close>

abbreviation arr :: "'a list option \<Rightarrow> 'a list" where
  "arr v \<equiv> coalesce v []"

lemma truthy_simps [simp, js_simps]:
  "truthy None = False" "truthy (Some s) = (s \<noteq> [])"
  by (simp_all add: truthy_def)

lemma orS_simps [simp, js_simps]:
  "orS None d = d" "orS (Some []) d = d" "s \<noteq> [] \<Longrightarrow> orS (Some s) d = s"
  by (simp_all add: orS_def)

lemma orS_truthy: "truthy v \<Longrightarrow> orS v d = the v"
  by (cases v) auto

lemma orS_falsy: "\<not> truthy v \<Longrightarrow> orS v d = d"
  by (cases v) auto

lemma orO_simps [simp, js_simps]:
  "orO None w = w" "orO (Some []) w = w" "s \<noteq> [] \<Longrightarrow> orO (Some s) w = Some s"
  by (simp_all add: orO_def)

lemma coalesce_simps [simp, js_simps]:
  "coalesce None d = d" "coalesce (Some x) d = x"
  by (simp_all add: coalesce_def)

section \<open>Strings\<close>

definition js_lower_char :: "char \<Rightarrow> char" where
  "js_lower_char c =
     (let n = (of_char c :: nat) in
      if (65 \<le> n \<and> n \<le> 90) \<or> (192 \<le> n \<and> n \<le> 222 \<and> n \<noteq> 215) then char_of (n + 32) else c)"

definition js_upper_char :: "char \<Rightarrow> char" where
  "js_upper_char c =
     (let n = (of_char c :: nat) in
      if (97 \<le> n \<and> n \<le> 122) \<or> (224 \<le> n \<and> n \<le> 254 \<and> n \<noteq> 247) then char_of (n - 32) else c)"

definition toLowerCase :: "string \<Rightarrow> string" where
  "toLowerCase s = map js_lower_char s"

text \<open>White space of the language within Latin-1: tab to carriage return, space, no-break space.\<close>

definition is_space :: "char \<Rightarrow> bool" where
  "is_space c = (let n = (of_char c :: nat) in (9 \<le> n \<and> n \<le> 13) \<or> n = 32 \<or> n = 160)"

definition trim :: "string \<Rightarrow> string" where
  "trim s = rev (dropWhile is_space (rev (dropWhile is_space s)))"

abbreviation str_includes :: "string \<Rightarrow> string \<Rightarrow> bool" where
  "str_includes s pat \<equiv> sublist pat s"

abbreviation startsWith :: "string \<Rightarrow> string \<Rightarrow> bool" where
  "startsWith s pat \<equiv> prefix pat s"

abbreviation endsWith :: "string \<Rightarrow> string \<Rightarrow> bool" where
  "endsWith s pat \<equiv> suffix pat s"

lemma js_lower_char_idem [simp]: "js_lower_char (js_lower_char c) = js_lower_char c"
  unfolding js_lower_char_def Let_def by auto

lemma toLowerCase_idem [simp]: "toLowerCase (toLowerCase s) = toLowerCase s"
  by (simp add: toLowerCase_def)

lemma length_toLowerCase [simp]: "length (toLowerCase s) = length s"
  by (simp add: toLowerCase_def)

lemma toLowerCase_Nil_iff [simp]: "toLowerCase s = [] \<longleftrightarrow> s = []"
  by (simp add: toLowerCase_def)

lemma toLowerCase_append: "toLowerCase (s @ t) = toLowerCase s @ toLowerCase t"
  by (simp add: toLowerCase_def)

lemma dropWhile_hd_False: "dropWhile P xs = [] \<or> \<not> P (hd (dropWhile P xs))"
  by (induction xs) auto

lemma dropWhile_idem: "dropWhile P (dropWhile P xs) = dropWhile P xs"
  by (induction xs) auto

lemma dropWhile_rev_dropWhile:
  "dropWhile P (rev (dropWhile P (rev (dropWhile P s)))) = rev (dropWhile P (rev (dropWhile P s)))"
proof -
  let ?d = "dropWhile P s"
  let ?r = "rev (dropWhile P (rev ?d))"
  obtain sfx where sfx: "?d = ?r @ sfx"
    by (metis rev_append rev_rev_ident takeWhile_dropWhile_id)
  show ?thesis
  proof (cases "?r = []")
    case True
    then show ?thesis by (metis dropWhile.simps(1))
  next
    case False
    then have "hd ?r = hd ?d" using sfx by (metis hd_append2)
    moreover have "?d \<noteq> []" using sfx False by (metis append_is_Nil_conv)
    then have "\<not> P (hd ?d)" using dropWhile_hd_False[of P s] by auto
    ultimately show ?thesis using False by (cases ?r) auto
  qed
qed

lemma trim_trim [simp]: "trim (trim s) = trim s"
  unfolding trim_def by (simp add: dropWhile_rev_dropWhile dropWhile_idem)

lemma trim_Nil [simp]: "trim [] = []"
  by (simp add: trim_def)

lemma set_trim_subset: "set (trim s) \<subseteq> set s"
  unfolding trim_def by (metis set_dropWhileD set_rev subsetI)

text \<open>A string is trimmed when trimming leaves it alone.\<close>

definition trimmed :: "string \<Rightarrow> bool" where
  "trimmed s = (trim s = s)"

lemma trimmed_trim [simp]: "trimmed (trim s)"
  by (simp add: trimmed_def)

lemma trimmed_iff: "trimmed s \<longleftrightarrow> s = [] \<or> \<not> is_space (hd s) \<and> \<not> is_space (last s)"
proof (cases s)
  case (Cons c cs)
  have "trim s = s \<longleftrightarrow> \<not> is_space c \<and> \<not> is_space (last s)"
  proof (cases "is_space c")
    case True
    then have "length (dropWhile is_space s) < length s"
      using Cons by (simp add: less_Suc_eq_le length_dropWhile_le)
    then have "length (trim s) < length s"
      unfolding trim_def by (metis length_dropWhile_le length_rev order.strict_trans1)
    with True show ?thesis by auto
  next
    case False
    then have "trim s = rev (dropWhile is_space (rev s))" using Cons by (simp add: trim_def)
    moreover have "rev (dropWhile is_space (rev s)) = s \<longleftrightarrow> \<not> is_space (last s)"
      using Cons dropWhile_eq_self_iff[of is_space "rev s"] by (auto simp: hd_rev rev_swap)
    ultimately show ?thesis using False by simp
  qed
  with Cons show ?thesis by (simp add: trimmed_def)
qed (simp add: trimmed_def)

subsection \<open>split and join\<close>

function split_go :: "string \<Rightarrow> string \<Rightarrow> string \<Rightarrow> string list" where
  "split_go sep acc s =
     (if sep \<noteq> [] \<and> prefix sep s then rev acc # split_go sep [] (drop (length sep) s)
      else case s of [] \<Rightarrow> [rev acc] | c # cs \<Rightarrow> split_go sep (c # acc) cs)"
  by pat_completeness auto
termination
  by (relation "measure (\<lambda>(sep, acc, s). length s)")
     (auto dest: prefix_length_le simp: prefix_def)

declare split_go.simps [simp del]

definition js_split :: "string \<Rightarrow> string \<Rightarrow> string list" where
  "js_split sep s = (if sep = [] then map (\<lambda>c. [c]) s else split_go sep [] s)"

fun js_join :: "string \<Rightarrow> string list \<Rightarrow> string" where
  "js_join sep [] = []"
| "js_join sep [x] = x"
| "js_join sep (x # y # xs) = x @ sep @ js_join sep (y # xs)"

text \<open>\<open>s.split(pat).join(v)\<close>, the idiom the code uses to substitute a placeholder.\<close>

definition substitute :: "string \<Rightarrow> string \<Rightarrow> string \<Rightarrow> string" where
  "substitute pat v s = js_join v (js_split pat s)"

lemma split_go_nonempty: "split_go sep acc s \<noteq> []"
  by (induction sep acc s rule: split_go.induct) (subst split_go.simps, auto split: list.splits)

lemma js_join_Cons: "xs \<noteq> [] \<Longrightarrow> js_join sep (x # xs) = x @ sep @ js_join sep xs"
  by (cases xs) auto

lemma js_join_split_go: "sep \<noteq> [] \<Longrightarrow> js_join sep (split_go sep acc s) = rev acc @ s"
proof (induction sep acc s rule: split_go.induct)
  case (1 sep acc s)
  show ?case
  proof (cases "prefix sep s")
    case True
    then obtain t where t: "s = sep @ t" by (auto simp: prefix_def)
    with 1 True show ?thesis
      by (subst split_go.simps) (simp add: js_join_Cons split_go_nonempty)
  next
    case False
    with 1 show ?thesis by (subst split_go.simps) (auto split: list.splits)
  qed
qed

lemma js_join_split: "sep \<noteq> [] \<Longrightarrow> js_join sep (js_split sep s) = s"
  by (simp add: js_split_def js_join_split_go)

lemma split_go_no_sep:
  "sep \<noteq> [] \<Longrightarrow> \<not> sublist sep s \<Longrightarrow> split_go sep acc s = [rev acc @ s]"
proof (induction sep acc s rule: split_go.induct)
  case (1 sep acc s)
  then have np: "\<not> prefix sep s" by (auto simp: prefix_imp_sublist)
  show ?case
  proof (cases s)
    case Nil
    with np show ?thesis by (subst split_go.simps) simp
  next
    case (Cons c cs)
    with 1 np have "\<not> sublist sep cs" by (auto simp: sublist_Cons_right)
    with 1 Cons np show ?thesis by (subst split_go.simps) simp
  qed
qed

lemma substitute_absent: "pat \<noteq> [] \<Longrightarrow> \<not> str_includes s pat \<Longrightarrow> substitute pat v s = s"
  by (simp add: substitute_def js_split_def split_go_no_sep)

lemma substitute_self: "pat \<noteq> [] \<Longrightarrow> substitute pat pat s = s"
  by (simp add: substitute_def js_join_split)

subsection \<open>Decimal numerals\<close>

definition digit_char :: "nat \<Rightarrow> char" where
  "digit_char d = char_of (48 + d)"

definition is_digit :: "char \<Rightarrow> bool" where
  "is_digit c = (let n = (of_char c :: nat) in 48 \<le> n \<and> n \<le> 57)"

definition digit_val :: "char \<Rightarrow> nat" where
  "digit_val c = of_char c - 48"

fun show_nat :: "nat \<Rightarrow> string" where
  "show_nat n = (if n < 10 then [digit_char n] else show_nat (n div 10) @ [digit_char (n mod 10)])"

declare show_nat.simps [simp del]

text \<open>\<open>Number(ds)\<close> for a string of decimal digits, exact for every length.\<close>

definition num_of_digits :: "string \<Rightarrow> nat" where
  "num_of_digits ds = foldl (\<lambda>n c. 10 * n + digit_val c) 0 ds"

lemma is_digit_digit_char [simp]: "d < 10 \<Longrightarrow> is_digit (digit_char d)"
  by (simp add: is_digit_def digit_char_def)

lemma digit_val_digit_char [simp]: "d < 10 \<Longrightarrow> digit_val (digit_char d) = d"
  by (simp add: digit_val_def digit_char_def)

lemma num_of_digits_snoc: "num_of_digits (ds @ [c]) = 10 * num_of_digits ds + digit_val c"
  by (simp add: num_of_digits_def)

lemma show_nat_nonempty [simp]: "show_nat n \<noteq> []"
  by (subst show_nat.simps) simp

lemma num_of_digits_show_nat [simp]: "num_of_digits (show_nat n) = n"
proof (induction n rule: show_nat.induct)
  case (1 n)
  show ?case
  proof (cases "n < 10")
    case True
    then show ?thesis by (subst show_nat.simps) (simp add: num_of_digits_def)
  next
    case False
    with 1 show ?thesis by (subst show_nat.simps) (simp add: num_of_digits_snoc)
  qed
qed

lemma show_nat_digits: "list_all is_digit (show_nat n)"
proof (induction n rule: show_nat.induct)
  case (1 n)
  show ?case
    by (cases "n < 10") (use 1 in \<open>subst show_nat.simps, simp\<close>)+
qed

lemma show_nat_inj [simp]: "show_nat m = show_nat n \<longleftrightarrow> m = n"
  by (metis num_of_digits_show_nat)

section \<open>Numbers\<close>

datatype jsnum = NaN | PosInf | NegInf | Fin rat

fun isFinite :: "jsnum \<Rightarrow> bool" where
  "isFinite (Fin _) = True"
| "isFinite _ = False"

text \<open>\<open>Math.max(0, x)\<close> and \<open>x > 0\<close>.\<close>

fun max0 :: "jsnum \<Rightarrow> jsnum" where
  "max0 NaN = NaN"
| "max0 PosInf = PosInf"
| "max0 NegInf = Fin 0"
| "max0 (Fin r) = Fin (max 0 r)"

fun gt0 :: "jsnum \<Rightarrow> bool" where
  "gt0 (Fin r) = (0 < r)"
| "gt0 PosInf = True"
| "gt0 _ = False"

text \<open>\<open>x + k\<close> for a finite constant \<open>k\<close>.\<close>

fun addk :: "jsnum \<Rightarrow> rat \<Rightarrow> jsnum" where
  "addk (Fin r) k = Fin (r + k)"
| "addk x k = x"

lemma gt0_max0 [simp]: "gt0 (max0 x) = gt0 x"
  by (cases x) auto

lemma max0_id: "gt0 x \<Longrightarrow> max0 x = x"
  by (cases x) auto

section \<open>Sets and maps in insertion order\<close>

text \<open>\<open>Array.from(new Set(xs))\<close>: the first occurrence of every value, in order.\<close>

definition uniq :: "'a list \<Rightarrow> 'a list" where
  "uniq xs = rev (remdups (rev xs))"

lemma set_uniq [simp, uniq_facts]: "set (uniq xs) = set xs"
  by (simp add: uniq_def)

lemma distinct_uniq [simp, uniq_facts]: "distinct (uniq xs)"
  by (simp add: uniq_def)

lemma uniq_distinct: "distinct xs \<Longrightarrow> uniq xs = xs"
  by (simp add: uniq_def distinct_remdups_id)

lemma uniq_idem [simp, uniq_facts]: "uniq (uniq xs) = uniq xs"
  by (simp add: uniq_distinct)

lemma uniq_Nil [simp]: "uniq [] = []"
  by (simp add: uniq_def)

lemma uniq_eq_Nil [simp]: "uniq xs = [] \<longleftrightarrow> xs = []"
  by (metis set_empty set_uniq)

lemma uniq_filter: "uniq (filter P xs) = filter P (uniq xs)"
  by (simp add: uniq_def rev_filter remdups_filter)

lemma length_uniq_le: "length (uniq xs) \<le> length xs"
  by (simp add: uniq_def) (metis length_remdups_leq length_rev)

lemma uniq_singleton [simp]: "uniq [x] = [x]"
  by (simp add: uniq_def)

lemma uniq_append_uniq: "uniq (uniq xs @ ys) = uniq (xs @ ys)"
  by (simp add: uniq_def remdups_append2)

text \<open>\<open>s.add(x)\<close> on a \<open>Set\<close> kept as the list of its values in insertion order.\<close>

definition set_add :: "'a \<Rightarrow> 'a list \<Rightarrow> 'a list" where
  "set_add x xs = (if x \<in> set xs then xs else xs @ [x])"

lemma set_add_facts [simp]: "set (set_add x xs) = insert x (set xs)" "distinct xs \<Longrightarrow> distinct (set_add x xs)"
    "set_add x xs \<noteq> []"
  by (auto simp: set_add_def)

abbreviation map_set :: "'k \<Rightarrow> 'v \<Rightarrow> ('k \<times> 'v) list \<Rightarrow> ('k \<times> 'v) list" where
  "map_set \<equiv> AList.update"

text \<open>
  The contract of \<open>Map\<close> (\<open>set\<close>, \<open>get\<close>, \<open>keys\<close>) the components rely on: a lookup after a \<open>set\<close>, and an
  enumeration that keeps the first-insertion order of the keys. What follows from it, a loop of
  \<open>set\<close> calls, is proved once here.
\<close>

locale insertion_map =
  fixes mempty :: 'm
    and mset_op :: "'k \<Rightarrow> 'v \<Rightarrow> 'm \<Rightarrow> 'm"
    and mget :: "'m \<Rightarrow> 'k \<Rightarrow> 'v option"
    and mkeys :: "'m \<Rightarrow> 'k list"
  assumes get_empty: "mget mempty k = None"
    and get_set: "mget (mset_op k v m) k' = (if k' = k then Some v else mget m k')"
    and keys_empty: "mkeys mempty = []"
    and keys_set: "mkeys (mset_op k v m) = (if k \<in> set (mkeys m) then mkeys m else mkeys m @ [k])"
    and get_keys: "mget m k \<noteq> None \<longleftrightarrow> k \<in> set (mkeys m)"
begin

lemma keys_distinct_set: "distinct (mkeys m) \<Longrightarrow> distinct (mkeys (mset_op k v m))"
  by (simp add: keys_set)

lemma fold_set_get:
  "mget (fold (\<lambda>x. mset_op (f x) (g x)) xs m) k =
     (case find (\<lambda>x. f x = k) (rev xs) of Some x \<Rightarrow> Some (g x) | None \<Rightarrow> mget m k)"
proof (induction xs rule: rev_induct)
  case (snoc x xs)
  then show ?case by (simp add: get_set)
qed simp

lemma fold_set_keys:
  "set (mkeys (fold (\<lambda>x. mset_op (f x) (g x)) xs m)) = set (mkeys m) \<union> f ` set xs"
proof (induction xs rule: rev_induct)
  case (snoc x xs)
  then show ?case by (auto simp: keys_set)
qed simp

lemma fold_set_keys_order:
  "distinct (mkeys m) \<Longrightarrow>
   mkeys (fold (\<lambda>x. mset_op (f x) (g x)) xs m) =
     mkeys m @ filter (\<lambda>k. k \<notin> set (mkeys m)) (uniq (map f xs))"
proof (induction xs rule: rev_induct)
  case (snoc x xs)
  then show ?case by (auto simp: keys_set uniq_def)
qed simp

lemma fold_set_distinct:
  "distinct (mkeys m) \<Longrightarrow> distinct (mkeys (fold (\<lambda>x. mset_op (f x) (g x)) xs m))"
  by (induction xs rule: rev_induct) (simp_all add: keys_distinct_set)

end

lemma map_set_keys:
  "map fst (map_set k v m) = (if k \<in> fst ` set m then map fst m else map fst m @ [k])"
  by (induction m) auto

lemma set_map_set_subset: "set (map_set k v m) \<subseteq> insert (k, v) (set m)"
  by (induction m) auto

lemma map_set_fresh: "k \<notin> fst ` set m \<Longrightarrow> map_set k v m = m @ [(k, v)]"
  by (induction m) auto

interpretation js_map: insertion_map "[]" map_set map_of "map fst"
proof unfold_locales
  show "map_of (map_set k v m) k' = (if k' = k then Some v else map_of m k')" for k k' :: 'k and v :: 'v and m
    by (simp add: update_conv)
  show "map fst (map_set k v m) = (if k \<in> set (map fst m) then map fst m else map fst m @ [k])"
    for k :: 'k and v :: 'v and m
    by (simp add: map_set_keys)
  show "map_of m k \<noteq> None \<longleftrightarrow> k \<in> set (map fst m)" for k :: 'k and m :: "('k \<times> 'v) list"
    by (simp add: map_of_eq_None_iff)
qed simp_all

section \<open>Array search\<close>

lemma find_SomeD: "find P xs = Some x \<Longrightarrow> x \<in> set xs \<and> P x"
  by (induction xs) (auto split: if_splits)

lemma find_unique:
  assumes "x \<in> set xs" "P x" "\<And>y. y \<in> set xs \<Longrightarrow> P y \<Longrightarrow> y = x"
  shows "find P xs = Some x"
proof (cases "find P xs")
  case None
  with assms(1,2) show ?thesis by (auto simp: find_None_iff)
next
  case (Some y)
  from find_SomeD[OF this] have "y = x" by (intro assms(3)) simp_all
  with Some show ?thesis by simp
qed

lemma find_eq_NoneI: "(\<And>x. x \<in> set xs \<Longrightarrow> \<not> P x) \<Longrightarrow> find P xs = None"
  by (induction xs) auto

lemma find_append: "find P (xs @ ys) = (case find P xs of None \<Rightarrow> find P ys | Some x \<Rightarrow> Some x)"
  by (induction xs) auto

lemma find_map: "find P (map f xs) = map_option f (find (P \<circ> f) xs)"
  by (induction xs) auto

lemma find_filter: "find P (filter Q xs) = find (\<lambda>x. Q x \<and> P x) xs"
  by (induction xs) auto

lemma find_cong_set: "(\<And>x. x \<in> set xs \<Longrightarrow> P x = Q x) \<Longrightarrow> find P xs = find Q xs"
  by (induction xs) auto

lemma find_rev_filter: "(\<And>x. P x \<Longrightarrow> Q x) \<Longrightarrow> find P (rev (filter Q xs)) = find P (rev xs)"
  by (subst rev_filter) (auto simp: find_filter intro: find_cong_set)

text \<open>An indexed element is determined by an injective key.\<close>

lemma enumerate_key_unique:
  assumes "distinct (map f xs)" "(i, x) \<in> set (enumerate 0 xs)" "(j, y) \<in> set (enumerate 0 xs)" "f x = f y"
  shows "i = j \<and> x = y"
proof -
  from assms(2,3) have ij: "i < length xs" "x = xs ! i" "j < length xs" "y = xs ! j"
    by (auto simp: in_set_enumerate_eq)
  with assms(1,4) have "i = j"
    by (metis length_map nth_eq_iff_index_eq nth_map)
  with ij show ?thesis by simp
qed

lemma find_enumerate: "map_option snd (find (\<lambda>(i, x). P x) (enumerate k xs)) = find P xs"
  by (induction xs arbitrary: k) auto

text \<open>A filter that only keeps elements of one block of a concatenation.\<close>

lemma filter_concat_single:
  assumes "distinct xs" "x \<in> set xs" "\<And>y. y \<in> set xs \<Longrightarrow> y \<noteq> x \<Longrightarrow> filter P (f y) = []"
  shows "filter P (concat (map f xs)) = filter P (f x)"
  using assms
proof (induction xs)
  case (Cons z zs)
  have none: "filter P (concat (map f zs)) = []" if "x \<notin> set zs" "set zs \<subseteq> set (z # zs)"
    using that Cons.prems(3) by (force simp: filter_empty_conv)
  show ?case
  proof (cases "z = x")
    case True
    with Cons.prems none show ?thesis by auto
  next
    case False
    with Cons show ?thesis by simp
  qed
qed simp

lemma snd_in_set_enumerate: "(j, e) \<in> set (enumerate n es) \<Longrightarrow> e \<in> set es"
  by (auto simp: in_set_enumerate_eq)

lemma ex_enumerate: "(\<exists>j. (j, x) \<in> set (enumerate k xs)) \<longleftrightarrow> x \<in> set xs"
proof -
  have "x \<in> snd ` set (enumerate k xs) \<longleftrightarrow> x \<in> set xs" by (metis List.map_snd_enumerate set_map)
  then show ?thesis by force
qed

lemma map_enumerate_snd: "map (\<lambda>(i, s). f s) (enumerate k xs) = map f xs"
  by (induction xs arbitrary: k) auto

section \<open>Objects\<close>

text \<open>
  Own-property enumeration: the keys that are array indices come first, in ascending order, then the
  other keys in insertion order.
\<close>

definition is_array_index :: "string \<Rightarrow> bool" where
  "is_array_index s =
     (s \<noteq> [] \<and> list_all is_digit s \<and> (s = ''0'' \<or> hd s \<noteq> CHR ''0'') \<and> num_of_digits s < 4294967295)"

definition obj_entries :: "(string \<times> 'a) list \<Rightarrow> (string \<times> 'a) list" where
  "obj_entries ob =
     sort_key (\<lambda>(k, _). num_of_digits k) (filter (\<lambda>(k, _). is_array_index k) ob)
     @ filter (\<lambda>(k, _). \<not> is_array_index k) ob"

lemma mset_obj_entries: "mset (obj_entries ob) = mset ob"
  by (simp add: obj_entries_def case_prod_unfold)

lemma set_obj_entries [simp]: "set (obj_entries ob) = set ob"
  by (metis mset_obj_entries set_mset_mset)

lemma obj_entries_Nil_iff [simp]: "obj_entries ob = [] \<longleftrightarrow> ob = []"
  by (metis set_empty set_obj_entries)

lemma length_obj_entries [simp]: "length (obj_entries ob) = length ob"
  by (metis mset_obj_entries size_mset)

text \<open>Parsed JSON, and the values of type \<open>unknown\<close> the front end inspects.\<close>

datatype json =
    JUndef
  | JNull
  | JBool bool
  | JNum jsnum
  | JStr string
  | JArr "json list"
  | JObj "(string \<times> json) list"

section \<open>Sorting\<close>

fun js_insort :: "('a \<Rightarrow> 'a \<Rightarrow> int) \<Rightarrow> 'a \<Rightarrow> 'a list \<Rightarrow> 'a list" where
  "js_insort cmp x [] = [x]"
| "js_insort cmp x (y # ys) = (if cmp x y \<le> 0 then x # y # ys else y # js_insort cmp x ys)"

definition js_sort :: "('a \<Rightarrow> 'a \<Rightarrow> int) \<Rightarrow> 'a list \<Rightarrow> 'a list" where
  "js_sort cmp xs = foldr (js_insort cmp) xs []"

lemma js_sort_simps [simp]:
  "js_sort cmp [] = []" "js_sort cmp (x # xs) = js_insort cmp x (js_sort cmp xs)"
  by (simp_all add: js_sort_def)

lemma mset_js_insort [simp]: "mset (js_insort cmp x xs) = add_mset x (mset xs)"
  by (induction xs) auto

lemma mset_js_sort [simp]: "mset (js_sort cmp xs) = mset xs"
  by (induction xs) auto

lemma set_js_sort [simp]: "set (js_sort cmp xs) = set xs"
  by (metis mset_js_sort set_mset_mset)

lemma length_js_sort [simp]: "length (js_sort cmp xs) = length xs"
  by (metis mset_js_sort size_mset)

lemma set_js_insort [simp]: "set (js_insort cmp x xs) = insert x (set xs)"
  by (induction xs) auto

text \<open>The order a comparison function has to describe for \<open>sort\<close> to be specified.\<close>

locale sort_order =
  fixes cmp :: "'a \<Rightarrow> 'a \<Rightarrow> int"
  assumes total: "cmp x y \<le> 0 \<or> cmp y x \<le> 0"
    and trans: "cmp x y \<le> 0 \<Longrightarrow> cmp y z \<le> 0 \<Longrightarrow> cmp x z \<le> 0"
begin

lemma cmp_refl: "cmp x x \<le> 0"
  using total[of x x] by simp

lemma sorted_insort:
  "sorted_wrt (\<lambda>a b. cmp a b \<le> 0) xs \<Longrightarrow> sorted_wrt (\<lambda>a b. cmp a b \<le> 0) (js_insort cmp x xs)"
proof (induction xs)
  case (Cons y ys)
  then show ?case using total[of x y] by (auto intro: trans)
qed simp

lemma sorted_js_sort: "sorted_wrt (\<lambda>a b. cmp a b \<le> 0) (js_sort cmp xs)"
  by (induction xs) (simp_all add: sorted_insort)

lemma js_sort_sorted_id: "sorted_wrt (\<lambda>a b. cmp a b \<le> 0) xs \<Longrightarrow> js_sort cmp xs = xs"
proof (induction xs)
  case (Cons x xs)
  then show ?case by (cases xs) auto
qed simp

lemma js_sort_idem: "js_sort cmp (js_sort cmp xs) = js_sort cmp xs"
  by (rule js_sort_sorted_id) (rule sorted_js_sort)

text \<open>Stability: the elements of one class keep their order.\<close>

lemma filter_insort_in:
  "(\<And>a b. P a \<Longrightarrow> P b \<Longrightarrow> cmp a b \<le> 0) \<Longrightarrow> P x \<Longrightarrow>
   sorted_wrt (\<lambda>a b. cmp a b \<le> 0) xs \<Longrightarrow> filter P (js_insort cmp x xs) = x # filter P xs"
  by (induction xs) auto

lemma filter_insort_out: "\<not> P x \<Longrightarrow> filter P (js_insort cmp x xs) = filter P xs"
  by (induction xs) auto

lemma js_sort_stable:
  "(\<And>a b. P a \<Longrightarrow> P b \<Longrightarrow> cmp a b \<le> 0) \<Longrightarrow> filter P (js_sort cmp xs) = filter P xs"
proof (induction xs)
  case (Cons x xs)
  then show ?case
    by (cases "P x") (simp_all add: filter_insort_in filter_insort_out sorted_js_sort)
qed simp

end

lemma sort_order_key: "sort_order lc \<Longrightarrow> sort_order (\<lambda>a b. lc (f a) (f b))"
  unfolding sort_order_def by blast

text \<open>\<open>sort()\<close> without a comparison function: the order of the code units.\<close>

definition code_unit_cmp :: "string \<Rightarrow> string \<Rightarrow> int" where
  "code_unit_cmp s t = (if s < t then - 1 else if s = t then 0 else 1)"

interpretation code_units: sort_order code_unit_cmp
  by unfold_locales (auto simp: code_unit_cmp_def split: if_splits)

end
