(* ===== verification/Fleet_Types.thy ===== *)
theory Fleet_Types
  imports Js_Prelude
begin

text \<open>
  The data model of \<^verbatim>\<open>types/index.ts\<close>: one record or datatype per interface the modelled components
  exchange. A string union that the code only ever compares as a string stays a string (the server may
  send any value); unions the code builds itself are datatypes with a \<open>_str\<close> function to the wire value.
\<close>

section \<open>Lifecycle states and agents\<close>

datatype lifecycle_state = LcUnknown | LcUnconfigured | LcInactive | LcActive | LcFinalized

definition isLifecycleAvailable :: "lifecycle_state \<Rightarrow> bool" where
  "isLifecycleAvailable st = (st = LcActive)"

record lifecycle_info =
  lc_label :: string
  lc_color :: string
  lc_description :: string

fun getLifecycleStateInfo :: "lifecycle_state \<Rightarrow> lifecycle_info" where
  "getLifecycleStateInfo LcActive =
     \<lparr>lc_label = ''ACTIVE'', lc_color = ''green'',
      lc_description = ''Action server is running and accepting goals''\<rparr>"
| "getLifecycleStateInfo LcInactive =
     \<lparr>lc_label = ''INACTIVE'', lc_color = ''yellow'', lc_description = ''Configured but not accepting goals''\<rparr>"
| "getLifecycleStateInfo LcUnconfigured =
     \<lparr>lc_label = ''UNCONFIGURED'', lc_color = ''gray'', lc_description = ''Node created but not configured''\<rparr>"
| "getLifecycleStateInfo LcFinalized =
     \<lparr>lc_label = ''FINALIZED'', lc_color = ''red'', lc_description = ''Node is shutting down''\<rparr>"
| "getLifecycleStateInfo LcUnknown =
     \<lparr>lc_label = ''UNKNOWN'', lc_color = ''gray'',
      lc_description = ''Lifecycle state not available (non-lifecycle node)''\<rparr>"

record agent =
  ag_id :: string
  ag_name :: string
  ag_status :: string
  ag_ip_address :: "string option"
  ag_last_seen :: "string option"
  ag_current_state :: "string option"
  ag_current_state_code :: "string option"
  ag_current_graph_id :: "string option"
  ag_semantic_tags :: "string list option"
  ag_has_capability_template :: "bool option"
  ag_capability_template_saved_at :: "string option"
  ag_capability_template_capability_count :: "jsnum option"
  ag_robot_count :: nat
  ag_created_at :: string

section \<open>State conditions of a step\<close>

record state_condition =
  sc_id :: string
  sc_type :: string
  sc_negated :: "bool option"
  sc_state :: "string option"
  sc_stateOperator :: "string option"
  sc_agentId :: "string option"
  sc_agentType :: "string option"
  sc_agentQuantifier :: "string option"
  sc_agentIds :: "string list option"
  sc_agentState :: "string option"

datatype condition_item =
    Condition state_condition
  | Group string string "condition_item list" "bool option"  \<comment> \<open>id, operator, conditions, negated\<close>

record start_state_config =
  ssc_id :: string
  ssc_quantifier :: string
  ssc_agentId :: "string option"
  ssc_agentType :: "string option"
  ssc_state :: string
  ssc_operator :: "string option"
  ssc_conditionGroup :: "condition_item option"

record start_condition =
  stc_id :: string
  stc_operator :: "string option"
  stc_quantifier :: "string option"
  stc_target_type :: "string option"
  stc_agent_id :: "string option"
  stc_state :: "string option"
  stc_state_operator :: "string option"
  stc_allowed_states :: "string list option"
  stc_max_staleness_sec :: "jsnum option"
  stc_require_online :: "bool option"
  stc_message :: "string option"

datatype action_outcome = Success | Failed | Aborted | Cancelled | Timeout | Rejected

fun outcome_str :: "action_outcome \<Rightarrow> string" where
  "outcome_str Success = ''success''"
| "outcome_str Failed = ''failed''"
| "outcome_str Aborted = ''aborted''"
| "outcome_str Cancelled = ''cancelled''"
| "outcome_str Timeout = ''timeout''"
| "outcome_str Rejected = ''rejected''"

record during_state_target =
  dst_state :: string
  dst_target_type :: "string option"
  dst_agent_id :: "string option"

record end_state =
  es_id :: string
  es_state :: string
  es_label :: "string option"
  es_color :: "string option"
  es_outcome :: "string option"

record state_config =
  scf_state :: string
  scf_conditions :: "state_condition list option"

record action_mapping =
  am_action_type :: string
  am_server :: string
  am_during_state :: "string option"
  am_during_states :: "string list option"

record state_definition =
  sd_id :: string
  sd_name :: string
  sd_description :: "string option"
  sd_states :: "string list"
  sd_default_state :: string
  sd_action_mappings :: "action_mapping list"
  sd_teachable_waypoints :: "string list option"
  sd_version :: nat
  sd_created_at :: string
  sd_updated_at :: string

section \<open>Canonical data types and parameter sources\<close>

datatype canonical_type =
    TBool | TInt8 | TInt16 | TInt32 | TInt64 | TUint8 | TUint16 | TUint32 | TUint64
  | TFloat32 | TFloat64 | TString | TObject | TArray | TAny

fun canonical_str :: "canonical_type \<Rightarrow> string" where
  "canonical_str TBool = ''bool''"
| "canonical_str TInt8 = ''int8''"
| "canonical_str TInt16 = ''int16''"
| "canonical_str TInt32 = ''int32''"
| "canonical_str TInt64 = ''int64''"
| "canonical_str TUint8 = ''uint8''"
| "canonical_str TUint16 = ''uint16''"
| "canonical_str TUint32 = ''uint32''"
| "canonical_str TUint64 = ''uint64''"
| "canonical_str TFloat32 = ''float32''"
| "canonical_str TFloat64 = ''float64''"
| "canonical_str TString = ''string''"
| "canonical_str TObject = ''object''"
| "canonical_str TArray = ''array''"
| "canonical_str TAny = ''any''"

datatype type_category = CBoolean | CInteger | CFloat | CString | CObject | CArray | CAny

datatype data_type_info =
  DataTypeInfo
    (dt_type: canonical_type)
    (dt_category: type_category)
    (dt_isArray: bool)
    (dt_arrayElementType: "data_type_info option")
    (dt_objectFields: "(string \<times> data_type_info) list option")
    (dt_rosType: "string option")

record type_conversion_config =
  tcc_enabled :: bool
  tcc_mode :: string
  tcc_customExpression :: "string option"

record parameter_field_source =
  pfs_source :: string
  pfs_value :: "json option"
  pfs_step_id :: "string option"
  pfs_result_field :: "string option"
  pfs_expression :: "string option"
  pfs_source_type :: "data_type_info option"
  pfs_target_type :: "data_type_info option"
  pfs_conversion :: "type_conversion_config option"

section \<open>Steps, transitions and behavior trees\<close>

record planning_condition =
  pc_variable :: string
  pc_operator :: "string option"
  pc_value :: string

record planning_effect =
  pe_variable :: string
  pe_value :: string

record param_field =
  pf_name :: string
  pf_type :: string
  pf_label :: string

record result_field =
  rf_name :: string
  rf_type :: string
  rf_description :: "string option"
  rf_typeInfo :: "data_type_info option"

record step_params =
  sp_source :: string
  sp_waypoint_id :: "string option"
  sp_data :: "(string \<times> json) list option"
  sp_fields :: "param_field list option"
  sp_field_sources :: "(string \<times> parameter_field_source) list option"

record step_action =
  sa_type :: "string option"
  sa_server :: "string option"
  sa_capability_kind :: "string option"
  sa_params :: "step_params option"
  sa_timeout_sec :: "jsnum option"
  sa_result_schema :: "result_field list option"

record wait_for =
  wf_type :: string
  wf_message :: "string option"
  wf_timeout_sec :: "jsnum option"

record ui_position =
  ui_x :: "jsnum option"
  ui_y :: "jsnum option"

text \<open>
  \<open>TransitionOnFailureConfig\<close>. The loader reads two keys the interface does not declare, \<open>backoffMs\<close>
  and \<open>next\<close>; they are the last two fields.
\<close>

record on_failure_config =
  fc_retry :: "jsnum option"
  fc_fallback :: "string option"
  fc_backoff_ms :: "jsnum option"
  fc_ui :: "ui_position option"
  fc_backoffMs_legacy :: "jsnum option"
  fc_next_legacy :: "string option"

record transition_condition =
  tc_condition :: "string option"
  tc_next :: "string option"
  tc_else :: "string option"
  tc_wait :: "bool option"
  tc_timeout_sec :: "jsnum option"

datatype on_success = SuccStep string | SuccCond transition_condition

datatype on_failure = FailStep string | FailConfig on_failure_config

record outcome_transition =
  ot_outcome :: string
  ot_next :: "string option"
  ot_state :: "string option"

record transition =
  tr_on_success :: "on_success option"
  tr_on_failure :: "on_failure option"
  tr_on_confirm :: "string option"
  tr_on_cancel :: "string option"
  tr_on_timeout :: "string option"
  tr_on_outcomes :: "outcome_transition list option"

record precondition =
  pre_condition :: string
  pre_message :: "string option"

record graph_step =
  gs_id :: string
  gs_name :: "string option"
  gs_ui :: "ui_position option"
  gs_job_name :: "string option"
  gs_auto_generate_states :: "bool option"
  gs_type :: "string option"
  gs_terminal_type :: "string option"
  gs_alert :: "bool option"
  gs_message :: "string option"
  gs_preconditions :: "precondition list option"
  gs_startStates :: "start_state_config list option"
  gs_start_conditions :: "start_condition list option"
  gs_duringStates :: "string list option"
  gs_during_states :: "string list option"
  gs_duringStateTargets :: "during_state_target list option"
  gs_during_state_targets :: "during_state_target list option"
  gs_endStates :: "end_state list option"
  gs_end_states :: "end_state list option"
  gs_preStates :: "state_config list option"
  gs_successStates :: "string list option"
  gs_failureStates :: "string list option"
  gs_pre_states :: "string list option"
  gs_success_states :: "string list option"
  gs_failure_states :: "string list option"
  gs_action :: "step_action option"
  gs_wait_for :: "wait_for option"
  gs_transition :: "transition option"
  gs_resource_acquire :: "string list option"
  gs_resource_release :: "string list option"
  gs_planning_preconditions :: "planning_condition list option"
  gs_planning_effects :: "planning_effect list option"
  gs_planning_during :: "planning_effect list option"

text \<open>The object literals of the code start from objects without any field.\<close>

definition no_step :: "string \<Rightarrow> graph_step" where
  "no_step i =
     \<lparr>gs_id = i, gs_name = None, gs_ui = None, gs_job_name = None, gs_auto_generate_states = None,
      gs_type = None, gs_terminal_type = None, gs_alert = None, gs_message = None,
      gs_preconditions = None, gs_startStates = None, gs_start_conditions = None,
      gs_duringStates = None, gs_during_states = None, gs_duringStateTargets = None,
      gs_during_state_targets = None, gs_endStates = None,
      gs_end_states = None, gs_preStates = None, gs_successStates = None, gs_failureStates = None,
      gs_pre_states = None, gs_success_states = None, gs_failure_states = None, gs_action = None, gs_wait_for = None,
      gs_transition = None, gs_resource_acquire = None, gs_resource_release = None,
      gs_planning_preconditions = None, gs_planning_effects = None, gs_planning_during = None\<rparr>"

definition no_transition :: transition where
  "no_transition =
     \<lparr>tr_on_success = None, tr_on_failure = None, tr_on_confirm = None, tr_on_cancel = None,
      tr_on_timeout = None, tr_on_outcomes = None\<rparr>"

definition no_failure_config :: on_failure_config where
  "no_failure_config =
     \<lparr>fc_retry = None, fc_fallback = None, fc_backoff_ms = None, fc_ui = None,
      fc_backoffMs_legacy = None, fc_next_legacy = None\<rparr>"

record planning_task_spec =
  pt_preconditions :: "planning_condition list option"
  pt_required_resources :: "string list option"
  pt_during_state :: "planning_effect list option"
  pt_result_states :: "planning_effect list option"
  pt_warning_result_states :: "planning_effect list option"
  pt_error_result_states :: "planning_effect list option"
  pt_warning_message_variable :: "string option"
  pt_error_message_variable :: "string option"

record graph_state =
  gst_code :: string
  gst_name :: string
  gst_type :: string
  gst_step_id :: "string option"
  gst_phase :: "string option"
  gst_color :: "string option"
  gst_description :: "string option"
  gst_semantic_tags :: "string list option"

record planning_state_var =
  psv_name :: string
  psv_type :: string
  psv_initial_value :: "string option"
  psv_description :: "string option"

text \<open>The loader guards against a tree without steps (\<open>graph.steps || []\<close>), so the field is optional.\<close>

record behavior_tree =
  bt_id :: string
  bt_name :: string
  bt_description :: "string option"
  bt_agent_id :: "string option"
  bt_agent_name :: "string option"
  bt_entry_point :: "string option"
  bt_preconditions :: "precondition list option"
  bt_steps :: "graph_step list option"
  bt_states :: "graph_state list option"
  bt_planning_states :: "planning_state_var list option"
  bt_planning_task :: "planning_task_spec option"
  bt_task_distributor_id :: "string option"
  bt_required_action_types :: "string list option"
  bt_auto_generate_states :: "bool option"
  bt_version :: nat
  bt_is_template :: bool
  bt_deployment_status :: "string option"
  bt_created_at :: string
  bt_updated_at :: "string option"

section \<open>Task distributors\<close>

record td_state =
  ts_id :: string
  ts_task_distributor_id :: string
  ts_name :: string
  ts_type :: string
  ts_initial_value :: "string option"
  ts_description :: "string option"

record td_merge_policy =
  mp_pattern :: "string option"
  mp_priority :: string

record td_resource =
  tr_id :: string
  tr_task_distributor_id :: string
  tr_name :: string
  tr_kind :: "string option"
  tr_parent_resource_id :: "string option"
  tr_description :: "string option"

record task_distributor =
  td_id :: string
  td_name :: string
  td_description :: "string option"
  td_created_at :: string
  td_updated_at :: string
  td_state_merge_policies :: "td_merge_policy list option"
  td_states :: "td_state list option"
  td_resources :: "td_resource list option"

section \<open>Plans, executions and run-time snapshots\<close>

record step_assignment =
  as_task_id :: string
  as_task_name :: string
  as_behavior_tree_id :: "string option"
  as_step_id :: string
  as_step_name :: string
  as_agent_id :: string
  as_agent_name :: string
  as_order :: int
  as_reason :: string

record plan_result =
  pl_assignments :: "step_assignment list"
  pl_is_valid :: bool
  pl_error_message :: "string option"
  pl_total_tasks :: "nat option"
  pl_total_steps :: nat
  pl_parallel_groups :: nat

record resource_allocation =
  ra_resource :: string
  ra_holder_agent :: "string option"
  ra_holder_agent_id :: "string option"
  ra_holder_agent_name :: "string option"
  ra_plan_id :: "string option"
  ra_problem_id :: "string option"
  ra_plan_execution_id :: "string option"
  ra_task_id :: "string option"
  ra_step_id :: "string option"
  ra_acquired_at :: "string option"

record plan_execution_step =
  xs_task_id :: string
  xs_task_name :: "string option"
  xs_behavior_tree_id :: "string option"
  xs_runtime_task_id :: "string option"
  xs_step_id :: string
  xs_step_name :: string
  xs_agent_id :: string
  xs_agent_name :: string
  xs_order :: int
  xs_status :: string
  xs_started_at :: "string option"
  xs_ended_at :: "string option"
  xs_error :: "string option"

record plan_execution =
  px_id :: string
  px_problem_id :: string
  px_behavior_tree_id :: string
  px_behavior_tree_ids :: "string list option"
  px_status :: string
  px_current_order :: int
  px_total_orders :: int
  px_started_at :: string
  px_completed_at :: "string option"
  px_error :: "string option"
  px_planning_state :: "(string \<times> string) list option"
  px_resources :: "resource_allocation list option"
  px_steps :: "plan_execution_step list"

record realtime_goal_rule =
  rg_id :: string
  rg_name :: string
  rg_priority :: int
  rg_enabled :: bool
  rg_resource_type_id :: "string option"
  rg_resource_type_ids :: "string list option"
  rg_activation_conditions :: "planning_condition list option"
  rg_goal_state :: "(string \<times> string) list"

record realtime_session =
  rs_id :: string
  rs_name :: string
  rs_status :: string
  rs_behavior_tree_ids :: "string list"
  rs_task_distributor_id :: "string option"
  rs_agent_ids :: "string list"
  rs_tick_interval_sec :: jsnum
  rs_goals :: "realtime_goal_rule list"
  rs_effective_state :: "(string \<times> string) list option"
  rs_current_state :: "(string \<times> string) list"
  rs_live_state :: "(string \<times> string) list option"
  rs_selected_goal_id :: "string option"
  rs_selected_goal_name :: "string option"
  rs_selected_agent_id :: "string option"
  rs_selected_agent_name :: "string option"
  rs_selected_resource_id :: "string option"
  rs_selected_resource_name :: "string option"
  rs_active_execution_id :: "string option"
  rs_active_execution_ids :: "string list option"
  rs_active_execution_status :: "string option"
  rs_last_error :: "string option"
  rs_last_plan :: "plan_result option"
  rs_started_at :: string
  rs_updated_at :: string

record blocking_condition =
  bc_condition_id :: string
  bc_description :: string
  bc_target_agent_id :: "string option"
  bc_target_agent_name :: "string option"
  bc_required_state :: string
  bc_current_state :: "string option"
  bc_reason :: string

record robot_snapshot =
  rb_id :: "string option"
  rb_name :: "string option"
  rb_agent_id :: "string option"
  rb_current_state :: "string option"
  rb_state_code :: "string option"
  rb_current_graph_id :: "string option"
  rb_execution_phase :: "string option"
  rb_semantic_tags :: "string list option"
  rb_is_online :: "bool option"
  rb_is_executing :: "bool option"
  rb_current_task_id :: "string option"
  rb_current_step_id :: "string option"
  rb_staleness_sec :: "jsnum option"
  rb_is_waiting_for_precondition :: "bool option"
  rb_waiting_for_precondition_since :: "string option"
  rb_blocking_conditions :: "blocking_condition list option"
  rb_precondition_timeout_sec :: "jsnum option"
  rb_agent_name :: "string option"
  rb_state :: "string option"
  rb_state_updated_at :: "string option"

end
