(* ===== verification/Editor_Helpers.thy ===== *)
theory Editor_Helpers
  imports Fleet_Types
begin

text \<open>
  The pure helper functions of the task editor (\<^verbatim>\<open>pages/ActionGraph/index.tsx\<close>, top of the file): outcomes
  and end states, terminal steps, capability kinds, server names and job names, the hide lists of the
  palette. The save, load and edit theories are built on them.
\<close>

section \<open>Outcomes of an action\<close>

definition normalizeOutcome :: "string option \<Rightarrow> action_outcome option" where
  "normalizeOutcome value =
     (if \<not> truthy value then None
      else let lower = toLowerCase (the value) in
        if lower = ''success'' \<or> lower = ''succeeded'' then Some Success
        else if lower = ''failed'' \<or> lower = ''failure'' \<or> lower = ''error'' then Some Failed
        else if lower = ''aborted'' \<or> lower = ''abort'' then Some Aborted
        else if lower = ''cancelled'' \<or> lower = ''canceled'' \<or> lower = ''cancel'' then Some Cancelled
        else if lower = ''timeout'' \<or> lower = ''timed_out'' then Some Timeout
        else if lower = ''rejected'' then Some Rejected
        else None)"

text \<open>The keyword search on label and state that every outcome inference shares.\<close>

definition keyword_outcome :: "string \<Rightarrow> string \<Rightarrow> action_outcome option" where
  "keyword_outcome label stateValue =
     (if str_includes label ''timeout'' \<or> str_includes stateValue ''timeout'' then Some Timeout
      else if str_includes label ''cancel'' \<or> str_includes stateValue ''cancel'' then Some Cancelled
      else if str_includes label ''abort'' \<or> str_includes stateValue ''abort'' then Some Aborted
      else if str_includes label ''fail'' \<or> str_includes label ''error''
              \<or> str_includes stateValue ''fail'' \<or> str_includes stateValue ''error'' then Some Failed
      else if str_includes label ''success'' \<or> str_includes label ''complete''
              \<or> str_includes stateValue ''idle'' \<or> str_includes stateValue ''ready'' then Some Success
      else None)"

definition inferOutcome :: "end_state \<Rightarrow> nat \<Rightarrow> action_outcome" where
  "inferOutcome endState index =
     (case normalizeOutcome (es_outcome endState) of
        Some out \<Rightarrow> out
      | None \<Rightarrow>
          (case keyword_outcome (toLowerCase (orS (es_label endState) []))
                  (toLowerCase (es_state endState)) of
             Some out \<Rightarrow> out
           | None \<Rightarrow> if index = 0 then Success else Failed))"

datatype outcome_category = CatSuccess | CatFailure

definition outcomeCategory :: "action_outcome \<Rightarrow> outcome_category" where
  "outcomeCategory out = (if out = Success then CatSuccess else CatFailure)"

text \<open>\<open>normalizeOutcome(endState.outcome) || inferOutcome(endState, idx)\<close>, the expression the loader and
  \<open>onConnect\<close> evaluate.\<close>

definition resolved_outcome :: "end_state \<Rightarrow> nat \<Rightarrow> action_outcome" where
  "resolved_outcome es idx = coalesce (normalizeOutcome (es_outcome es)) (inferOutcome es idx)"

record categorized =
  cat_successStates :: "string list"
  cat_failureStates :: "string list"
  cat_outcomes :: "(string \<times> action_outcome) list"

text \<open>The loop of \<open>categorizeEndStates\<close>, with the index of the end state it looks at.\<close>

fun categorize_go :: "nat \<Rightarrow> end_state list \<Rightarrow> categorized \<Rightarrow> categorized" where
  "categorize_go i [] c = c"
| "categorize_go i (es # rest) c =
     (let out = inferOutcome es i;
          c1 = c\<lparr>cat_outcomes := map_set (es_id es) out (cat_outcomes c)\<rparr>;
          c2 = (if outcomeCategory out = CatSuccess
                then c1\<lparr>cat_successStates := cat_successStates c1 @ [es_state es]\<rparr>
                else c1\<lparr>cat_failureStates := cat_failureStates c1 @ [es_state es]\<rparr>)
      in categorize_go (Suc i) rest c2)"

definition categorizeEndStates :: "end_state list \<Rightarrow> categorized" where
  "categorizeEndStates endStates =
     (let c = categorize_go 0 endStates
                \<lparr>cat_successStates = [], cat_failureStates = [], cat_outcomes = []\<rparr>
      in \<lparr>cat_successStates = uniq (filter (\<lambda>s. s \<noteq> []) (cat_successStates c)),
          cat_failureStates = uniq (filter (\<lambda>s. s \<noteq> []) (cat_failureStates c)),
          cat_outcomes = cat_outcomes c\<rparr>)"

definition named_end_state :: "string \<Rightarrow> string \<Rightarrow> string \<Rightarrow> string \<Rightarrow> nat \<Rightarrow> end_state" where
  "named_end_state idp lab out st index =
     \<lparr>es_id = idp @ show_nat index, es_state = st,
      es_label = Some (if index = 0 then lab else lab @ '' '' @ show_nat (index + 1)),
      es_color = None, es_outcome = Some out\<rparr>"

definition buildEndStates ::
  "string list \<Rightarrow> string list \<Rightarrow> string \<Rightarrow> string \<Rightarrow> end_state list" where
  "buildEndStates successStates failureStates defaultSuccess defaultFailure =
     (let successList = (if successStates \<noteq> [] then successStates else [defaultSuccess]);
          failureList = (if failureStates \<noteq> [] then failureStates else [defaultFailure])
      in map (\<lambda>(i, st). named_end_state ''end-success-'' ''Success'' ''success'' st i)
             (enumerate 0 successList)
         @ map (\<lambda>(i, st). named_end_state ''end-failure-'' ''Failure'' ''failed'' st i)
             (enumerate 0 failureList))"

fun capitalize :: "string \<Rightarrow> string" where
  "capitalize [] = []"
| "capitalize (c # cs) = js_upper_char c # cs"

definition buildEndStatesFromOutcomes ::
  "outcome_transition list \<Rightarrow> string \<Rightarrow> string \<Rightarrow> end_state list" where
  "buildEndStatesFromOutcomes outcomes defaultSuccess defaultFailure =
     map (\<lambda>(index, out).
            let normalized = coalesce (normalizeOutcome (Some (ot_outcome out))) Failed
            in \<lparr>es_id = ''end-outcome-'' @ show_nat index,
                es_state = orS (ot_state out) (if normalized = Success then defaultSuccess else defaultFailure),
                es_label = Some (capitalize (ot_outcome out)),
                es_color = None,
                es_outcome = Some (outcome_str normalized)\<rparr>)
         (enumerate 0 outcomes)"

subsection \<open>Facts about outcomes\<close>

lemma normalizeOutcome_outcome_str [simp]: "normalizeOutcome (Some (outcome_str out)) = Some out"
  by (cases out; simp only: outcome_str.simps; code_simp)

lemma normalizeOutcome_None [simp]: "normalizeOutcome None = None"
  by (simp add: normalizeOutcome_def)

lemma normalizeOutcome_toLowerCase: "normalizeOutcome (Some (toLowerCase s)) = normalizeOutcome (Some s)"
  by (simp add: normalizeOutcome_def)

lemma resolved_outcome_normalized:
  "normalizeOutcome (es_outcome es) = Some out \<Longrightarrow> resolved_outcome es i = out"
  by (simp add: resolved_outcome_def)

lemma resolved_outcome_infer: "resolved_outcome es i = inferOutcome es i"
  by (cases "normalizeOutcome (es_outcome es)") (simp_all add: resolved_outcome_def inferOutcome_def)

lemma outcomeCategory_success [simp]: "outcomeCategory out = CatSuccess \<longleftrightarrow> out = Success"
  by (simp add: outcomeCategory_def)

lemma outcomeCategory_failure [simp]: "outcomeCategory out = CatFailure \<longleftrightarrow> out \<noteq> Success"
  by (simp add: outcomeCategory_def)

lemma outcome_str_nonempty [simp]: "outcome_str out \<noteq> []"
  by (cases out) auto

lemma outcome_str_inj [simp]: "outcome_str a = outcome_str b \<longleftrightarrow> a = b"
  by (metis normalizeOutcome_outcome_str option.inject)

subsection \<open>The categories partition the end states\<close>

text \<open>The states the loop collects are those of the end states with a matching outcome, in order.\<close>

lemma categorize_go_success:
  "cat_successStates (categorize_go i es c) =
     cat_successStates c @ map (es_state \<circ> snd) (filter (\<lambda>(j, e). inferOutcome e j = Success) (enumerate i es))"
  by (induction i es c rule: categorize_go.induct) (simp_all add: Let_def)

lemma categorize_go_failure:
  "cat_failureStates (categorize_go i es c) =
     cat_failureStates c @ map (es_state \<circ> snd) (filter (\<lambda>(j, e). inferOutcome e j \<noteq> Success) (enumerate i es))"
  by (induction i es c rule: categorize_go.induct) (simp_all add: Let_def)

lemma categorize_go_outcomes:
  "cat_outcomes (categorize_go i es c) =
     fold (\<lambda>(j, e). map_set (es_id e) (inferOutcome e j)) (enumerate i es) (cat_outcomes c)"
  by (induction i es c rule: categorize_go.induct) (simp_all add: Let_def)

lemma categorizeEndStates_success_set:
  "set (cat_successStates (categorizeEndStates es)) =
     {es_state e |e j. (j, e) \<in> set (enumerate 0 es) \<and> inferOutcome e j = Success \<and> es_state e \<noteq> []}"
  by (force simp: categorizeEndStates_def Let_def categorize_go_success)

lemma categorizeEndStates_failure_set:
  "set (cat_failureStates (categorizeEndStates es)) =
     {es_state e |e j. (j, e) \<in> set (enumerate 0 es) \<and> inferOutcome e j \<noteq> Success \<and> es_state e \<noteq> []}"
  by (force simp: categorizeEndStates_def Let_def categorize_go_failure)

lemma categorizeEndStates_outcomes_get:
  assumes "distinct (map es_id es)" and "(j, e) \<in> set (enumerate 0 es)"
  shows "map_of (cat_outcomes (categorizeEndStates es)) (es_id e) = Some (inferOutcome e j)"
proof -
  let ?xs = "enumerate 0 es"
  have "cat_outcomes (categorizeEndStates es) =
      fold (\<lambda>x. map_set (es_id (snd x)) (inferOutcome (snd x) (fst x))) ?xs []"
    by (simp add: categorizeEndStates_def Let_def categorize_go_outcomes case_prod_unfold)
  moreover have "find (\<lambda>x. es_id (snd x) = es_id e) (rev ?xs) = Some (j, e)"
  proof (rule find_unique)
    fix x assume "x \<in> set (rev ?xs)" "es_id (snd x) = es_id e"
    then show "x = (j, e)"
      using enumerate_key_unique[OF assms(1), of "fst x" "snd x" j e] assms(2)
      by (auto simp: prod_eq_iff)
  qed (use assms(2) in auto)
  ultimately show ?thesis by (simp add: js_map.fold_set_get)
qed

text \<open>\<open>categorizeEndStates\<close> sorts the non-empty states of the end states into success and failure states: each
  list holds exactly the states with such an outcome, without repetition, none is lost, and with unique ids
  the outcome map gives every end state the outcome it was sorted by.\<close>

theorem categories_complete:
  assumes "distinct (map es_id es)"
  shows "set (cat_successStates (categorizeEndStates es)) \<union> set (cat_failureStates (categorizeEndStates es)) =
           {st \<in> es_state ` set es. st \<noteq> []}
     \<and> distinct (cat_successStates (categorizeEndStates es)) \<and> distinct (cat_failureStates (categorizeEndStates es))
     \<and> (\<forall>(j, e) \<in> set (enumerate 0 es). es_state e \<noteq> [] \<longrightarrow>
           map_of (cat_outcomes (categorizeEndStates es)) (es_id e) = Some (inferOutcome e j)
           \<and> es_state e \<in> set (if inferOutcome e j = Success then cat_successStates (categorizeEndStates es)
                             else cat_failureStates (categorizeEndStates es)))"
proof (intro conjI)
  show "set (cat_successStates (categorizeEndStates es)) \<union> set (cat_failureStates (categorizeEndStates es)) =
           {st \<in> es_state ` set es. st \<noteq> []}"
    unfolding categorizeEndStates_success_set categorizeEndStates_failure_set
    by (auto simp: image_iff dest: snd_in_set_enumerate) (metis ex_enumerate)
  show "distinct (cat_successStates (categorizeEndStates es))" "distinct (cat_failureStates (categorizeEndStates es))"
    by (simp_all add: categorizeEndStates_def Let_def)
qed (use categorizeEndStates_outcomes_get[OF assms] in
     \<open>auto simp: categorizeEndStates_success_set categorizeEndStates_failure_set\<close>)

definition sample_categorized :: "end_state list" where
  "sample_categorized =
     [\<lparr>es_id = ''a'', es_state = ''idle'', es_label = Some ''Done'', es_color = None, es_outcome = None\<rparr>,
      \<lparr>es_id = ''b'', es_state = ''error'', es_label = Some ''Timeout'', es_color = None, es_outcome = None\<rparr>]"

theorem categories_complete_witness:
  "set (cat_successStates (categorizeEndStates sample_categorized))
     \<union> set (cat_failureStates (categorizeEndStates sample_categorized)) = {''idle'', ''error''}"
proof -
  have d: "distinct (map es_id sample_categorized)" by code_simp
  have "{st \<in> es_state ` set sample_categorized. st \<noteq> []} = {''idle'', ''error''}"
    by (auto simp: sample_categorized_def)
  with categories_complete[OF d] show ?thesis by simp
qed

section \<open>Terminal steps\<close>

datatype terminal_subtype = SubEnd | SubError | SubWarning

fun subtype_str :: "terminal_subtype \<Rightarrow> string" where
  "subtype_str SubEnd = ''End''"
| "subtype_str SubError = ''Error''"
| "subtype_str SubWarning = ''Warning''"

text \<open>The cast \<open>subtype as TerminalEventSubtype\<close> behind the guard of the save loop.\<close>

definition terminal_subtype_of :: "string \<Rightarrow> terminal_subtype option" where
  "terminal_subtype_of s =
     (if s = ''End'' then Some SubEnd else if s = ''Error'' then Some SubError
      else if s = ''Warning'' then Some SubWarning else None)"

record terminal_payload =
  tp_terminal_type :: string
  tp_alert :: bool
  tp_message :: "string option"

definition eventSubtypeToTerminalPayload :: "terminal_subtype \<Rightarrow> string option \<Rightarrow> terminal_payload" where
  "eventSubtypeToTerminalPayload subtype debugMessage =
     (let message = trim (orS debugMessage []);
          msg = (if message = [] then None else Some message)
      in if subtype = SubError then \<lparr>tp_terminal_type = ''failure'', tp_alert = True, tp_message = msg\<rparr>
         else if subtype = SubWarning then \<lparr>tp_terminal_type = ''success'', tp_alert = True, tp_message = msg\<rparr>
         else \<lparr>tp_terminal_type = ''success'', tp_alert = False, tp_message = msg\<rparr>)"

definition terminalStepToEventSubtype :: "graph_step \<Rightarrow> terminal_subtype" where
  "terminalStepToEventSubtype step =
     (let terminalType = toLowerCase (orS (gs_terminal_type step) [])
      in if terminalType = ''failure'' then SubError
         else if terminalType = ''warning'' \<or> (coalesce (gs_alert step) False \<and> terminalType \<noteq> ''failure'')
         then SubWarning
         else SubEnd)"

text \<open>The three terminal nodes survive a save: reading back the \<open>terminal_type\<close> and \<open>alert\<close> that the save
  writes for an End, Error or Warning node gives the same node, and the message is stored trimmed, or not
  at all when it is blank.\<close>

theorem terminal_payload_roundtrip:
  "let p = eventSubtypeToTerminalPayload sub msg;
       step = (no_step i)\<lparr>gs_terminal_type := Some (tp_terminal_type p), gs_alert := Some (tp_alert p)\<rparr>
   in terminalStepToEventSubtype step = sub
      \<and> tp_message p = (if trim (orS msg []) = [] then None else Some (trim (orS msg [])))"
proof -
  have lower: "toLowerCase ''failure'' = ''failure''" "toLowerCase ''success'' = ''success''" by code_simp+
  show ?thesis
    by (cases sub) (simp_all add: eventSubtypeToTerminalPayload_def terminalStepToEventSubtype_def Let_def lower)
qed

lemma terminal_subtype_of_str [simp]: "terminal_subtype_of (subtype_str s) = Some s"
  by (cases s) (simp_all add: terminal_subtype_of_def)

lemma terminal_subtype_of_Some: "terminal_subtype_of x = Some s \<Longrightarrow> x = subtype_str s"
  by (auto simp: terminal_subtype_of_def split: if_splits)

section \<open>Capabilities, servers and job names\<close>

definition inferCapabilityKindFromActionType :: "string option \<Rightarrow> string" where
  "inferCapabilityKindFromActionType actionType =
     (if str_includes (toLowerCase (orS actionType [])) ''/srv/'' then ''service'' else ''action'')"

definition normalizeCapabilityKind :: "string option \<Rightarrow> string option \<Rightarrow> string" where
  "normalizeCapabilityKind kind actionType =
     (let normalizedKind = map_option (\<lambda>k. trim (toLowerCase k)) kind
      in if normalizedKind = Some ''service'' then ''service''
         else if normalizedKind = Some ''action'' then ''action''
         else inferCapabilityKindFromActionType actionType)"

lemma normalizeCapabilityKind_values:
  "normalizeCapabilityKind k t = ''service'' \<or> normalizeCapabilityKind k t = ''action''"
  by (simp add: normalizeCapabilityKind_def inferCapabilityKindFromActionType_def Let_def)

lemma normalizeCapabilityKind_fixed:
  "normalizeCapabilityKind (Some ''service'') t = ''service''"
  "normalizeCapabilityKind (Some ''action'') t = ''action''"
proof -
  have "trim (toLowerCase ''service'') = ''service''" "trim (toLowerCase ''action'') = ''action''"
    by code_simp+
  then show "normalizeCapabilityKind (Some ''service'') t = ''service''"
    "normalizeCapabilityKind (Some ''action'') t = ''action''"
    by (simp_all add: normalizeCapabilityKind_def)
qed

lemma normalizeCapabilityKind_idem [simp]:
  "normalizeCapabilityKind (Some (normalizeCapabilityKind k t)) t' = normalizeCapabilityKind k t"
  using normalizeCapabilityKind_values[of k t] by (auto simp: normalizeCapabilityKind_fixed)

text \<open>\<open>serverName.split('/').filter(Boolean)\<close> and its last part.\<close>

definition getServerLeafName :: "string option \<Rightarrow> string" where
  "getServerLeafName serverName =
     (if \<not> truthy serverName then []
      else let parts = filter (\<lambda>p. p \<noteq> []) (js_split ''/'' (the serverName))
           in if parts = [] then the serverName else last parts)"

fun collapse_slashes :: "string \<Rightarrow> string" where
  "collapse_slashes [] = []"
| "collapse_slashes [c] = [c]"
| "collapse_slashes (c # d # s) =
     (if c = CHR ''/'' \<and> d = CHR ''/'' then collapse_slashes (d # s) else c # collapse_slashes (d # s))"

definition normalizeLegacyNamespaceServer :: "string option \<Rightarrow> string" where
  "normalizeLegacyNamespaceServer serverName =
     (if \<not> truthy serverName then []
      else let trimmed = trim (the serverName)
           in if trimmed = [] then []
              else if \<not> str_includes trimmed ''{namespace}'' then trimmed
              else collapse_slashes (substitute ''{namespace}'' [] trimmed))"

text \<open>A server name the normalisation leaves alone.\<close>

definition normal_server :: "string option \<Rightarrow> bool" where
  "normal_server sv = (case sv of None \<Rightarrow> True | Some s \<Rightarrow> s \<noteq> [] \<and> normalizeLegacyNamespaceServer sv = s)"

lemma normal_server_orO:
  "normal_server sv \<Longrightarrow> orO (Some (normalizeLegacyNamespaceServer sv)) sv = sv"
  by (cases sv) (auto simp: normal_server_def normalizeLegacyNamespaceServer_def orO_def)

lemma normalizeLegacyNamespaceServer_plain:
  "trimmed s \<Longrightarrow> \<not> str_includes s ''{namespace}'' \<Longrightarrow> normalizeLegacyNamespaceServer (Some s) = s"
  by (auto simp: normalizeLegacyNamespaceServer_def trimmed_def)

text \<open>The regular expression \<open>/^agent(?=[\s_-]|$)/i\<close> of \<open>formatTaskManagerName\<close>.\<close>

definition formatTaskManagerName :: "string option \<Rightarrow> string" where
  "formatTaskManagerName value =
     (let raw = trim (orS value [])
      in if raw = [] then []
         else if startsWith (toLowerCase raw) ''agent'' \<and>
                 (case drop 5 raw of [] \<Rightarrow> True
                  | c # _ \<Rightarrow> is_space c \<or> c = CHR ''_'' \<or> c = CHR ''-'')
         then ''Task Manager'' @ drop 5 raw
         else raw)"

definition getDefaultJobNameTemplate :: "string option \<Rightarrow> string option \<Rightarrow> string" where
  "getDefaultJobNameTemplate serverName fallbackLabel =
     (let base = trim (orS (Some (getServerLeafName serverName)) (orS fallbackLabel ''action''))
      in if base \<noteq> [] then base @ ''/'' else ''action/'')"

lemma getDefaultJobNameTemplate_nonempty [simp]: "getDefaultJobNameTemplate s l \<noteq> []"
  by (simp add: getDefaultJobNameTemplate_def Let_def)

section \<open>Hide lists of the palette\<close>

definition getDiscoveredActionHideKey :: "string \<Rightarrow> string \<Rightarrow> string" where
  "getDiscoveredActionHideKey actionType actionServerName = actionType @ ''|'' @ actionServerName"

definition getDiscoveredServiceHideKey :: "string \<Rightarrow> string \<Rightarrow> string" where
  "getDiscoveredServiceHideKey serviceType serviceName = serviceType @ ''|'' @ serviceName"

definition DEFAULT_HIDDEN_SERVICE_NAME_SUFFIXES :: "string list" where
  "DEFAULT_HIDDEN_SERVICE_NAME_SUFFIXES =
     [''/change_state'', ''/get_state'', ''/get_available_states'', ''/get_available_transitions'',
      ''/describe_parameters'', ''/get_parameter_types'', ''/get_parameters'', ''/list_parameters'',
      ''/set_parameters'', ''/set_parameters_atomically'']"

definition DEFAULT_HIDDEN_SERVICE_TYPE_NAMES :: "string list" where
  "DEFAULT_HIDDEN_SERVICE_TYPE_NAMES =
     [''getstate'', ''changestate'', ''getavailablestates'', ''getavailabletransitions'',
      ''describeparameters'', ''getparametertypes'', ''getparameters'', ''listparameters'',
      ''setparameters'', ''setparametersatomically'']"

definition shouldDefaultHideDiscoveredService :: "string \<Rightarrow> string \<Rightarrow> bool" where
  "shouldDefaultHideDiscoveredService serviceType serviceName =
     (let normalizedServiceName = toLowerCase serviceName
      in if list_ex (\<lambda>sfx. endsWith normalizedServiceName sfx) DEFAULT_HIDDEN_SERVICE_NAME_SUFFIXES then True
         else let leaf = filter (\<lambda>c. c \<noteq> CHR ''_'') (toLowerCase (last (js_split ''/'' serviceType)))
              in leaf \<in> set DEFAULT_HIDDEN_SERVICE_TYPE_NAMES)"

text \<open>\<open>new Set(prev)\<close>, then \<open>add\<close> or \<open>delete\<close>, then back to an array.\<close>

definition toggle_key :: "string \<Rightarrow> bool \<Rightarrow> string list \<Rightarrow> string list" where
  "toggle_key k add prev =
     (let nxt = uniq prev
      in if add then (if k \<in> set nxt then nxt else nxt @ [k]) else filter (\<lambda>x. x \<noteq> k) nxt)"

definition toggleDiscoveredActionHidden :: "string \<Rightarrow> bool \<Rightarrow> string list \<Rightarrow> string list" where
  "toggleDiscoveredActionHidden hideKey hide prev = toggle_key hideKey hide prev"

definition toggleDiscoveredServiceHidden ::
  "string \<Rightarrow> bool \<Rightarrow> bool \<Rightarrow> string list \<times> string list \<Rightarrow> string list \<times> string list" where
  "toggleDiscoveredServiceHidden hideKey isDefaultHidden hide st =
     (let (hidden, shownDefault) = st
      in (toggle_key hideKey hide hidden,
          if hide then toggle_key hideKey False shownDefault
          else if isDefaultHidden then toggle_key hideKey True shownDefault
          else toggle_key hideKey False shownDefault))"

text \<open>Whether the palette lists a discovered service under \<open>Hidden\<close>.\<close>

definition service_isHidden :: "string \<Rightarrow> bool \<Rightarrow> string list \<times> string list \<Rightarrow> bool" where
  "service_isHidden hideKey isDefaultHidden st =
     (let (hidden, shownDefault) = st
      in if hideKey \<in> set shownDefault then False else hideKey \<in> set hidden \<or> isDefaultHidden)"

lemma set_toggle_key: "set (toggle_key k add prev) = (if add then insert k (set prev) else set prev - {k})"
  by (auto simp: toggle_key_def Let_def)

text \<open>Toggling a service in the palette does what the eye icon says: afterwards the service is hidden exactly
  when hiding was asked for, also when it is hidden by default, every other service keeps its visibility,
  and neither stored list has a key twice.\<close>

theorem toggle_service_visibility:
  "let st' = toggleDiscoveredServiceHidden k dflt hide st
   in service_isHidden k dflt st' = hide
      \<and> (k' = k \<or> service_isHidden k' dflt' st' = service_isHidden k' dflt' st)
      \<and> distinct (fst st') \<and> distinct (snd st')"
  by (auto simp: toggleDiscoveredServiceHidden_def service_isHidden_def case_prod_unfold Let_def set_toggle_key)
     (auto simp: toggle_key_def Let_def)

definition toOptionalString :: "string option \<Rightarrow> string option" where
  "toOptionalString value = (let trimmed = trim (orS value []) in if trimmed \<noteq> [] then Some trimmed else None)"

section \<open>Colours\<close>

definition ACTION_COLORS :: "(string \<times> string) list" where
  "ACTION_COLORS =
     [(''nav2_msgs/NavigateToPose'', ''#fb7185''),
      (''control_msgs/FollowJointTrajectory'', ''#f97316''),
      (''control_msgs/GripperCommand'', ''#ef4444''),
      (''std_srvs/Trigger'', ''#0ea5e9'')]"

definition getActionColor :: "string \<Rightarrow> string" where
  "getActionColor actionType = orS (map_of ACTION_COLORS actionType) ''#f87171''"

fun OUTCOME_EDGE_COLORS :: "action_outcome \<Rightarrow> string" where
  "OUTCOME_EDGE_COLORS Success = ''#22c55e''"
| "OUTCOME_EDGE_COLORS Failed = ''#ef4444''"
| "OUTCOME_EDGE_COLORS Aborted = ''#ef4444''"
| "OUTCOME_EDGE_COLORS Cancelled = ''#6b7280''"
| "OUTCOME_EDGE_COLORS Timeout = ''#f59e0b''"
| "OUTCOME_EDGE_COLORS Rejected = ''#ef4444''"

datatype state_color_type = ColSuccess | ColError | ColNeutral

fun STATE_COLOR_OPTIONS :: "state_color_type \<Rightarrow> string" where
  "STATE_COLOR_OPTIONS ColSuccess = ''#22c55e''"
| "STATE_COLOR_OPTIONS ColError = ''#ef4444''"
| "STATE_COLOR_OPTIONS ColNeutral = ''#6b7280''"

definition DEFAULT_STATE_COLORS :: "(string \<times> state_color_type) list" where
  "DEFAULT_STATE_COLORS =
     [(''idle'', ColSuccess), (''completed'', ColSuccess), (''ready'', ColSuccess), (''done'', ColSuccess),
      (''error'', ColError), (''failed'', ColError), (''fault'', ColError), (''cancelled'', ColError)]"

definition getStateColorType :: "(string \<times> state_color_type) list \<Rightarrow> string \<Rightarrow> state_color_type" where
  "getStateColorType stateColorsMap st =
     coalesce (map_of stateColorsMap st) (coalesce (map_of DEFAULT_STATE_COLORS st) ColNeutral)"

definition getStateColor :: "(string \<times> state_color_type) list \<Rightarrow> string \<Rightarrow> string" where
  "getStateColor stateColorsMap st = STATE_COLOR_OPTIONS (getStateColorType stateColorsMap st)"

end
