(* ===== verification/Graph_Canvas.thy ===== *)
theory Graph_Canvas
  imports Editor_Helpers
begin

text \<open>
  The canvas of the task editor: the React Flow nodes and edges the page keeps in its state, with the
  node data of \<^verbatim>\<open>nodes/types.ts\<close> and of the object literals in \<^verbatim>\<open>pages/ActionGraph/index.tsx\<close>. A field
  that a literal leaves out is \<open>undefined\<close>, that is \<open>None\<close>.
\<close>

definition START_NODE_ID :: string where
  "START_NODE_ID = ''__behavior_tree_start__''"

definition START_NODE_COLOR :: string where
  "START_NODE_COLOR = ''#22c55e''"

definition ACTION_NODE_DRAG_HANDLE_SELECTOR :: string where
  "ACTION_NODE_DRAG_HANDLE_SELECTOR = ''.action-node-drag-handle''"

datatype node_type = NAction | NEvent | NRetry | NTransition

record agent_option =
  ao_id :: string
  ao_name :: string

record node_data =
  nd_label :: "string option"
  nd_subtype :: "string option"
  nd_color :: "string option"
  nd_actionType :: "string option"
  nd_server :: "string option"
  nd_capabilityKind :: "string option"
  nd_jobName :: "string option"
  nd_params :: "(string \<times> json) list option"
  nd_fieldSources :: "(string \<times> parameter_field_source) list option"
  nd_waypointId :: "string option"
  nd_successStates :: "string list option"
  nd_failureStates :: "string list option"
  nd_endStates :: "end_state list option"
  nd_successState :: "string option"
  nd_failureState :: "string option"
  nd_initialState :: "string option"
  nd_finalState :: "string option"
  nd_fromState :: "string option"
  nd_toState :: "string option"
  nd_debugMessage :: "string option"
  nd_resourceAcquire :: "string list option"
  nd_resourceRelease :: "string list option"
  nd_availableStates :: "string list option"
  nd_availableAgents :: "agent_option list option"
  nd_taskDistributorId :: "string option"
  nd_taskDistributorStates :: "td_state list option"
  nd_taskDistributorResources :: "td_resource list option"
  nd_maxRetries :: "jsnum option"
  nd_backoffMs :: "jsnum option"
  nd_isEditing :: "bool option"
  nd_resultFields :: "result_field list option"
  nd_autoGenerateStates :: "bool option"
  nd_generatedStates :: "graph_state list option"
  nd_startStates :: "start_state_config list option"
  nd_duringStates :: "string list option"
  nd_duringStateTargets :: "during_state_target list option"
  nd_availableWaypoints :: "agent_option list option"
  nd_isParameterEditing :: "bool option"

definition no_data :: node_data where
  "no_data =
     \<lparr>nd_label = None, nd_subtype = None, nd_color = None, nd_actionType = None, nd_server = None,
      nd_capabilityKind = None, nd_jobName = None, nd_params = None, nd_fieldSources = None,
      nd_waypointId = None, nd_successStates = None, nd_failureStates = None, nd_endStates = None,
      nd_successState = None, nd_failureState = None, nd_initialState = None, nd_finalState = None,
      nd_fromState = None, nd_toState = None, nd_debugMessage = None, nd_resourceAcquire = None,
      nd_resourceRelease = None, nd_availableStates = None, nd_availableAgents = None,
      nd_taskDistributorId = None, nd_taskDistributorStates = None,
      nd_taskDistributorResources = None, nd_maxRetries = None, nd_backoffMs = None,
      nd_isEditing = None, nd_resultFields = None, nd_autoGenerateStates = None,
      nd_generatedStates = None, nd_startStates = None, nd_duringStates = None,
      nd_duringStateTargets = None, nd_availableWaypoints = None, nd_isParameterEditing = None\<rparr>"

record flow_node =
  n_id :: string
  n_type :: node_type
  n_x :: jsnum
  n_y :: jsnum
  n_dragHandle :: "string option"
  n_selected :: bool
  n_data :: node_data

record flow_edge =
  e_id :: string
  e_source :: string
  e_target :: string
  e_sourceHandle :: "string option"
  e_targetHandle :: "string option"
  e_type :: string
  e_color :: string  \<comment> \<open>of \<open>markerEnd\<close> and of \<open>style.stroke\<close>, always the same\<close>
  e_dash :: "string option"
  e_outcome :: "action_outcome option"
  e_selected :: bool

text \<open>\<open>smoothstep\<close> edges of the loader, with an arrow head in the stroke's colour.\<close>

definition smoothstep ::
  "string \<Rightarrow> string \<Rightarrow> string \<Rightarrow> string option \<Rightarrow> string option \<Rightarrow> string \<Rightarrow> string option \<Rightarrow> flow_edge" where
  "smoothstep i src tgt sh th color dash =
     \<lparr>e_id = i, e_source = src, e_target = tgt, e_sourceHandle = sh, e_targetHandle = th,
      e_type = ''smoothstep'', e_color = color, e_dash = dash, e_outcome = None, e_selected = False\<rparr>"

lemma smoothstep_sel [simp]:
  "e_id (smoothstep i src tgt sh th c d) = i"
  "e_source (smoothstep i src tgt sh th c d) = src"
  "e_target (smoothstep i src tgt sh th c d) = tgt"
  "e_sourceHandle (smoothstep i src tgt sh th c d) = sh"
  "e_targetHandle (smoothstep i src tgt sh th c d) = th"
  by (simp_all add: smoothstep_def)

definition node_by_id :: "flow_node list \<Rightarrow> string \<Rightarrow> flow_node option" where
  "node_by_id nodes i = find (\<lambda>n. n_id n = i) nodes"

definition outgoing :: "flow_edge list \<Rightarrow> string \<Rightarrow> flow_edge list" where
  "outgoing edges i = filter (\<lambda>e. e_source e = i) edges"

lemma node_by_id_Some: "node_by_id nodes i = Some n \<Longrightarrow> n \<in> set nodes \<and> n_id n = i"
  unfolding node_by_id_def by (auto dest: find_SomeD)

end
