(* ===== verification/Graph_Load.thy ===== *)
theory Graph_Load
  imports Graph_Canvas
begin

text \<open>
  Opening a task: \<open>convertActionGraphToGraph\<close> turns the steps of a behavior tree into the nodes and edges of
  the canvas (\<^verbatim>\<open>pages/ActionGraph/index.tsx\<close>, bottom of the file). One group of definitions per part of the
  per-step loop: position, colour and kind, end states, node data, retry block, edges. Edges are pushed
  in the order of the code; the flag \<open>retryInputEdgeAdded\<close> is threaded through the outcome loop.
\<close>

section \<open>What the loop reads before the steps\<close>

definition first_or :: "string list \<Rightarrow> string \<Rightarrow> string" where
  "first_or xs d = (case xs of [] \<Rightarrow> d | x # _ \<Rightarrow> if x = [] then d else x)"

definition default_state :: "string list \<Rightarrow> string" where
  "default_state availableStates =
     (if ''idle'' \<in> set availableStates then ''idle'' else first_or availableStates ''idle'')"

definition error_state :: "string list \<Rightarrow> string" where
  "error_state availableStates =
     (if ''error'' \<in> set availableStates then ''error'' else first_or (rev availableStates) ''error'')"

record load_context =
  lx_mappings :: "action_mapping list"   \<comment> \<open>\<open>stateDef?.action_mappings || []\<close>\<close>
  lx_states :: "string list"
  lx_agents :: "agent_option list"

definition load_start_node :: "load_context \<Rightarrow> flow_node" where
  "load_start_node cx =
     \<lparr>n_id = START_NODE_ID, n_type = NEvent, n_x = Fin 80, n_y = Fin 100, n_dragHandle = None,
      n_selected = False,
      n_data = no_data\<lparr>nd_label := Some ''Start'', nd_subtype := Some ''Start'',
        nd_color := Some START_NODE_COLOR, nd_initialState := Some (default_state (lx_states cx)),
        nd_availableStates := Some (lx_states cx), nd_availableAgents := Some (lx_agents cx),
        nd_isEditing := Some False\<rparr>\<rparr>"

section \<open>Position, kind and colour of a step's node\<close>

definition stored_position :: "graph_step \<Rightarrow> (rat \<times> rat) option" where
  "stored_position step =
     (case gs_ui step of
        Some ui \<Rightarrow> (case (ui_x ui, ui_y ui) of (Some (Fin x), Some (Fin y)) \<Rightarrow> Some (x, y) | _ \<Rightarrow> None)
      | None \<Rightarrow> None)"

definition load_position :: "nat \<Rightarrow> graph_step \<Rightarrow> rat \<times> rat" where
  "load_position index step =
     coalesce (stored_position step)
       (300 + of_nat (index mod 3) * 300, 100 + of_nat (index div 3) * 200)"

abbreviation step_type :: "graph_step \<Rightarrow> string option" where
  "step_type step \<equiv> Option.bind (gs_action step) sa_type"

abbreviation step_server :: "graph_step \<Rightarrow> string option" where
  "step_server step \<equiv> Option.bind (gs_action step) sa_server"

definition load_kind :: "graph_step \<Rightarrow> string" where
  "load_kind step = normalizeCapabilityKind (Option.bind (gs_action step) sa_capability_kind) (step_type step)"

definition load_mapping :: "load_context \<Rightarrow> graph_step \<Rightarrow> action_mapping option" where
  "load_mapping cx step =
     (case find (\<lambda>m. Some (am_action_type m) = step_type step) (lx_mappings cx) of
        Some m \<Rightarrow> Some m
      | None \<Rightarrow> find (\<lambda>m. Some (am_server m) = step_server step) (lx_mappings cx))"

text \<open>The colour and the action type of the node.\<close>

definition load_color_type :: "load_context \<Rightarrow> graph_step \<Rightarrow> string \<times> string option" where
  "load_color_type cx step =
     (let service = (load_kind step = ''service'');
          base = (if service then ''#0ea5e9'' else ''#f87171'')
      in case load_mapping cx step of
           Some m \<Rightarrow>
             if \<not> service then (getActionColor (am_action_type m), Some (am_action_type m))
             else (if truthy (step_type step) then ''#0ea5e9'' else base, step_type step)
         | None \<Rightarrow>
             (if truthy (step_type step)
              then (if service then ''#0ea5e9'' else getActionColor (the (step_type step))) else base,
              step_type step))"

section \<open>End states\<close>

abbreviation outcomes_of :: "graph_step \<Rightarrow> outcome_transition list" where
  "outcomes_of step \<equiv> arr (Option.bind (gs_transition step) tr_on_outcomes)"

definition load_success_states :: "load_context \<Rightarrow> graph_step \<Rightarrow> string list" where
  "load_success_states cx step =
     coalesce (gs_successStates step) (coalesce (gs_success_states step) [default_state (lx_states cx)])"

definition load_failure_states :: "load_context \<Rightarrow> graph_step \<Rightarrow> string list" where
  "load_failure_states cx step =
     coalesce (gs_failureStates step) (coalesce (gs_failure_states step) [error_state (lx_states cx)])"

definition base_end_states :: "load_context \<Rightarrow> graph_step \<Rightarrow> end_state list" where
  "base_end_states cx step =
     (let ds = default_state (lx_states cx); es = error_state (lx_states cx);
          fromOutcomes = buildEndStatesFromOutcomes (outcomes_of step) ds es
      in coalesce (gs_endStates step)
           (coalesce (gs_end_states step)
             (if fromOutcomes \<noteq> [] then fromOutcomes
              else buildEndStates (load_success_states cx step) (load_failure_states cx step) ds es)))"

abbreviation load_outcome :: "outcome_transition \<Rightarrow> action_outcome" where
  "load_outcome t \<equiv> coalesce (normalizeOutcome (Some (ot_outcome t))) Failed"

definition end_state_matches :: "nat \<Rightarrow> outcome_transition \<Rightarrow> end_state \<Rightarrow> bool" where
  "end_state_matches idx t es =
     (resolved_outcome es idx = load_outcome t
      \<and> (\<not> truthy (ot_state t) \<or> Some (es_state es) = ot_state t))"

definition enrich_step ::
  "load_context \<Rightarrow> graph_step \<Rightarrow> nat \<times> outcome_transition \<Rightarrow> end_state list \<Rightarrow> end_state list" where
  "enrich_step cx step it enriched =
     (let (idx, t) = it
      in case find (end_state_matches idx t) enriched of
           Some _ \<Rightarrow> enriched
         | None \<Rightarrow> enriched @
             [\<lparr>es_id = ''end-outcome-'' @ gs_id step @ ''-'' @ show_nat idx,
               es_state = orS (ot_state t) (if load_outcome t = Success then default_state (lx_states cx)
                                            else error_state (lx_states cx)),
               es_label = Some (capitalize (ot_outcome t)), es_color = None,
               es_outcome = Some (outcome_str (load_outcome t))\<rparr>])"

definition load_end_states :: "load_context \<Rightarrow> graph_step \<Rightarrow> end_state list" where
  "load_end_states cx step =
     fold (enrich_step cx step) (enumerate 0 (outcomes_of step)) (base_end_states cx step)"

section \<open>The node of a step\<close>

definition is_terminal :: "graph_step \<Rightarrow> bool" where
  "is_terminal step = (gs_type step = Some ''terminal'')"

definition terminal_final_state :: "load_context \<Rightarrow> terminal_subtype \<Rightarrow> string" where
  "terminal_final_state cx sub =
     (if sub = SubError then error_state (lx_states cx)
      else if sub = SubWarning \<and> ''warning'' \<in> set (lx_states cx) then ''warning''
      else default_state (lx_states cx))"

definition load_node_data :: "load_context \<Rightarrow> graph_step \<Rightarrow> node_data" where
  "load_node_data cx step =
     (let normalizedServer = normalizeLegacyNamespaceServer (step_server step);
          subtype = orS (Some normalizedServer) (orS (step_type step) ''Unknown'');
          (color, actionType) = load_color_type cx step;
          server = orO (Some normalizedServer) (step_server step);
          sub = terminalStepToEventSubtype step;
          params = Option.bind (gs_action step) sa_params
      in no_data
           \<lparr>nd_label := Some (orS (gs_name step) (gs_id step)),
            nd_subtype := Some (if is_terminal step then subtype_str sub else subtype),
            nd_color := Some color,
            nd_actionType := actionType,
            nd_server := server,
            nd_capabilityKind := Some (load_kind step),
            nd_successStates := Some (load_success_states cx step),
            nd_failureStates := Some (load_failure_states cx step),
            nd_endStates := Some (load_end_states cx step),
            nd_successState := Some (first_or (load_success_states cx step) (default_state (lx_states cx))),
            nd_failureState := Some (first_or (load_failure_states cx step) (error_state (lx_states cx))),
            nd_params := Some (arr (Option.bind params sp_data)),
            nd_fieldSources := Option.bind params sp_field_sources,
            nd_waypointId := Option.bind params sp_waypoint_id,
            nd_jobName := Some (orS (gs_job_name step)
               (if is_terminal step then []
                else getDefaultJobNameTemplate server (Some (orS (gs_name step) (gs_id step))))),
            nd_resourceAcquire := Some (uniq (arr (gs_resource_acquire step))),
            nd_resourceRelease := Some (uniq (arr (gs_resource_release step))),
            nd_finalState := (if is_terminal step then Some (terminal_final_state cx sub) else None),
            nd_debugMessage := (if is_terminal step then Some (orS (gs_message step) []) else None),
            nd_availableStates := Some (lx_states cx),
            nd_availableAgents := Some (lx_agents cx),
            nd_isEditing := Some False\<rparr>)"

definition load_step_node :: "load_context \<Rightarrow> nat \<Rightarrow> graph_step \<Rightarrow> flow_node" where
  "load_step_node cx index step =
     (let (x, y) = load_position index step
      in \<lparr>n_id = gs_id step, n_type = (if is_terminal step then NEvent else NAction), n_x = Fin x, n_y = Fin y,
          n_dragHandle = (if is_terminal step then None else Some ACTION_NODE_DRAG_HANDLE_SELECTOR),
          n_selected = False, n_data = load_node_data cx step\<rparr>)"

section \<open>The retry block of a step\<close>

definition failure_config :: "graph_step \<Rightarrow> on_failure_config" where
  "failure_config step =
     (case Option.bind (gs_transition step) tr_on_failure of
        Some (FailConfig c) \<Rightarrow> c
      | _ \<Rightarrow> no_failure_config)"

definition retry_count :: "graph_step \<Rightarrow> jsnum" where
  "retry_count step = max0 (coalesce (fc_retry (failure_config step)) (Fin 0))"

definition retry_backoff :: "graph_step \<Rightarrow> jsnum" where
  "retry_backoff step =
     max0 (coalesce (fc_backoff_ms (failure_config step))
             (coalesce (fc_backoffMs_legacy (failure_config step)) (Fin 0)))"

definition retry_fallback :: "graph_step \<Rightarrow> string" where
  "retry_fallback step =
     coalesce (fc_fallback (failure_config step)) (coalesce (fc_next_legacy (failure_config step)) [])"

definition has_retry :: "graph_step \<Rightarrow> bool" where
  "has_retry step = (gt0 (retry_count step) \<or> gt0 (retry_backoff step))"

definition retry_id :: "string \<Rightarrow> string" where
  "retry_id i = i @ ''__retry''"

definition finite_opt :: "jsnum option \<Rightarrow> rat option" where
  "finite_opt v = (case v of Some (Fin r) \<Rightarrow> Some r | _ \<Rightarrow> None)"

definition load_retry_node :: "nat \<Rightarrow> graph_step \<Rightarrow> flow_node" where
  "load_retry_node index step =
     (let (x, y) = load_position index step; ui = fc_ui (failure_config step)
      in \<lparr>n_id = retry_id (gs_id step), n_type = NRetry,
          n_x = Fin (coalesce (finite_opt (Option.bind ui ui_x)) (x + 180)),
          n_y = Fin (coalesce (finite_opt (Option.bind ui ui_y)) (y + 84)),
          n_dragHandle = None, n_selected = False,
          n_data = no_data\<lparr>nd_label := Some ''Retry Block'', nd_subtype := Some ''Retry'',
            nd_color := Some ''#f59e0b'', nd_maxRetries := Some (retry_count step),
            nd_backoffMs := Some (retry_backoff step), nd_isEditing := Some False\<rparr>\<rparr>)"

definition load_step_nodes :: "load_context \<Rightarrow> nat \<Rightarrow> graph_step \<Rightarrow> flow_node list" where
  "load_step_nodes cx index step =
     load_step_node cx index step # (if has_retry step then [load_retry_node index step] else [])"

section \<open>The edges of a step\<close>

definition retry_input_edge :: "graph_step \<Rightarrow> string option \<Rightarrow> flow_edge" where
  "retry_input_edge step handle =
     smoothstep (gs_id step @ ''-fail->'' @ retry_id (gs_id step)) (gs_id step) (retry_id (gs_id step))
       handle (Some ''retry-in'') ''#f59e0b'' (Some ''5,5'')"

definition retry_loop_edges :: "graph_step \<Rightarrow> flow_edge list" where
  "retry_loop_edges step =
     (if has_retry step
      then [smoothstep (retry_id (gs_id step) @ ''->'' @ gs_id step @ ''::retry'') (retry_id (gs_id step))
              (gs_id step) (Some ''retry-out'') (Some ''in'') ''#f59e0b'' (Some ''5,5'')]
      else [])"

definition retry_fallback_edges :: "graph_step list \<Rightarrow> graph_step \<Rightarrow> flow_edge list" where
  "retry_fallback_edges steps step =
     (let target = retry_fallback step
      in if \<not> has_retry step \<or> target = [] then []
         else if target \<notin> set (map gs_id steps) then []
         else if target = gs_id step then []
         else let fallbackStep = find (\<lambda>s. gs_id s = target) (rev steps);
                  warning = (case fallbackStep of Some s \<Rightarrow> terminalStepToEventSubtype s = SubWarning | None \<Rightarrow> False);
                  color = (if warning then ''#f59e0b'' else ''#ef4444'')
              in [smoothstep (retry_id (gs_id step) @ ''->'' @ target @ ''::retry-failed'') (retry_id (gs_id step))
                    target (Some ''retry-failed'') (Some ''state-in'') color (Some ''5,5'')])"

definition handle_of_category :: "end_state list \<Rightarrow> outcome_category \<Rightarrow> string option" where
  "handle_of_category ess cat =
     map_option (es_id \<circ> snd) (find (\<lambda>(idx, es). outcomeCategory (resolved_outcome es idx) = cat) (enumerate 0 ess))"

definition outcome_edge :: "graph_step \<Rightarrow> end_state list \<Rightarrow> nat \<Rightarrow> outcome_transition \<Rightarrow> string \<Rightarrow> flow_edge" where
  "outcome_edge step ess idx t target =
     smoothstep (gs_id step @ ''-outcome-'' @ show_nat idx @ ''->'' @ target) (gs_id step) target
       (Some (case find (end_state_matches idx t) ess of
                Some es \<Rightarrow> es_id es
              | None \<Rightarrow> ''end-outcome-'' @ gs_id step @ ''-'' @ show_nat idx))
       (Some ''state-in'') (OUTCOME_EDGE_COLORS (load_outcome t))
       (if load_outcome t = Success then None else Some ''5,5'')"

text \<open>The body of \<open>outcomeTransitions.forEach\<close>: the edges so far and \<open>retryInputEdgeAdded\<close>.\<close>

definition outcome_edge_step ::
  "graph_step \<Rightarrow> end_state list \<Rightarrow> nat \<times> outcome_transition \<Rightarrow> flow_edge list \<times> bool \<Rightarrow> flow_edge list \<times> bool" where
  "outcome_edge_step step ess it acc =
     (let (idx, t) = it; (edges, added) = acc
      in if \<not> truthy (ot_next t) then acc
         else if has_retry step \<and> outcomeCategory (load_outcome t) \<noteq> CatSuccess
         then (if added then acc
               else let handle = map_option es_id (find (\<lambda>es. outcomeCategory (resolved_outcome es idx) \<noteq> CatSuccess
                        \<and> (\<not> truthy (ot_state t) \<or> Some (es_state es) = ot_state t)) ess)
                    in (edges @ [retry_input_edge step handle], True))
         else (edges @ [outcome_edge step ess idx t (the (ot_next t))], added))"

definition outcome_edges :: "graph_step list \<Rightarrow> graph_step \<Rightarrow> end_state list \<Rightarrow> flow_edge list" where
  "outcome_edges steps step ess =
     (let (edges, added) = fold (outcome_edge_step step ess) (enumerate 0 (outcomes_of step)) ([], False)
      in edges
         @ (if has_retry step \<and> \<not> added
            then [retry_input_edge step (handle_of_category ess CatFailure)] else [])
         @ retry_fallback_edges steps step)"

definition succ_truthy :: "on_success option \<Rightarrow> bool" where
  "succ_truthy v = (case v of None \<Rightarrow> False | Some (SuccStep s) \<Rightarrow> s \<noteq> [] | Some (SuccCond _) \<Rightarrow> True)"

definition fail_truthy :: "on_failure option \<Rightarrow> bool" where
  "fail_truthy v = (case v of None \<Rightarrow> False | Some (FailStep s) \<Rightarrow> s \<noteq> [] | Some (FailConfig _) \<Rightarrow> True)"

definition succ_target :: "on_success option \<Rightarrow> string option" where
  "succ_target v = (case v of None \<Rightarrow> None | Some (SuccStep s) \<Rightarrow> Some s | Some (SuccCond c) \<Rightarrow> tc_next c)"

definition fail_target :: "on_failure option \<Rightarrow> string option" where
  "fail_target v = (case v of None \<Rightarrow> None | Some (FailStep s) \<Rightarrow> Some s | Some (FailConfig c) \<Rightarrow> fc_fallback c)"

text \<open>The branch for steps without \<open>on_outcomes\<close>.\<close>

definition plain_edges :: "graph_step list \<Rightarrow> graph_step \<Rightarrow> end_state list \<Rightarrow> flow_edge list" where
  "plain_edges steps step ess =
     (let onSuccess = Option.bind (gs_transition step) tr_on_success;
          onFailure = Option.bind (gs_transition step) tr_on_failure;
          successHandle = handle_of_category ess CatSuccess;
          failureHandle = handle_of_category ess CatFailure
      in (if succ_truthy onSuccess \<and> truthy (succ_target onSuccess)
          then [smoothstep (gs_id step @ ''->'' @ the (succ_target onSuccess)) (gs_id step)
                  (the (succ_target onSuccess)) successHandle (Some ''state-in'') ''#22c55e'' None]
          else [])
         @ (if fail_truthy onFailure
            then (if has_retry step
                  then retry_input_edge step failureHandle # retry_fallback_edges steps step
                  else if truthy (fail_target onFailure)
                  then [smoothstep (gs_id step @ ''-fail->'' @ the (fail_target onFailure)) (gs_id step)
                          (the (fail_target onFailure)) failureHandle (Some ''state-in'') ''#ef4444'' (Some ''5,5'')]
                  else [])
            else []))"

definition load_step_edges :: "load_context \<Rightarrow> graph_step list \<Rightarrow> graph_step \<Rightarrow> flow_edge list" where
  "load_step_edges cx steps step =
     (let ess = load_end_states cx step
      in retry_loop_edges step
         @ (if outcomes_of step \<noteq> [] then outcome_edges steps step ess else plain_edges steps step ess))"

section \<open>The whole graph\<close>

definition load_entry :: "behavior_tree \<Rightarrow> string option" where
  "load_entry g =
     (let steps = arr (bt_steps g);
          firstId = (case steps of [] \<Rightarrow> None | s # _ \<Rightarrow> Some (gs_id s));
          preferredEntry = orO (bt_entry_point g) firstId
      in if truthy preferredEntry \<and> the preferredEntry \<in> set (map gs_id steps) then preferredEntry else firstId)"

definition start_edges :: "string option \<Rightarrow> flow_edge list" where
  "start_edges entry =
     (if truthy entry
      then [smoothstep (START_NODE_ID @ ''->'' @ the entry) START_NODE_ID (the entry)
              (Some ''state-out'') (Some ''state-in'') START_NODE_COLOR None]
      else [])"

definition convertActionGraphToGraph :: "load_context \<Rightarrow> behavior_tree \<Rightarrow> flow_node list \<times> flow_edge list" where
  "convertActionGraphToGraph cx g =
     (let steps = arr (bt_steps g)
      in (load_start_node cx # concat (map (\<lambda>(i, s). load_step_nodes cx i s) (enumerate 0 steps)),
          concat (map (load_step_edges cx steps) steps) @ start_edges (load_entry g)))"

section \<open>Shape of the loaded canvas\<close>

lemma load_step_node_sel [simp]:
  "n_id (load_step_node cx i s) = gs_id s"
  "n_type (load_step_node cx i s) = (if is_terminal s then NEvent else NAction)"
  "n_data (load_step_node cx i s) = load_node_data cx s"
  by (simp_all add: load_step_node_def Let_def case_prod_unfold)

lemma load_retry_node_sel [simp]:
  "n_id (load_retry_node i s) = retry_id (gs_id s)"
  "n_type (load_retry_node i s) = NRetry"
  "nd_maxRetries (n_data (load_retry_node i s)) = Some (retry_count s)"
  "nd_backoffMs (n_data (load_retry_node i s)) = Some (retry_backoff s)"
  by (simp_all add: load_retry_node_def Let_def case_prod_unfold)

lemma load_start_node_sel [simp]:
  "n_id (load_start_node cx) = START_NODE_ID" "n_type (load_start_node cx) = NEvent"
  "nd_subtype (n_data (load_start_node cx)) = Some ''Start''"
  by (simp_all add: load_start_node_def)

text \<open>Every edge of a step starts at the step or at its retry block.\<close>

lemma outcome_fold_sources:
  "(\<forall>e \<in> set (fst acc). e_source e = gs_id step) \<Longrightarrow>
   \<forall>e \<in> set (fst (fold (outcome_edge_step step ess) xs acc)). e_source e = gs_id step"
proof (induction xs arbitrary: acc)
  case (Cons x xs)
  have "\<forall>e \<in> set (fst (outcome_edge_step step ess x acc)). e_source e = gs_id step"
    using Cons.prems
    by (auto simp: outcome_edge_step_def outcome_edge_def retry_input_edge_def Let_def case_prod_unfold
             split: if_splits)
  from Cons.IH[OF this] show ?case by simp
qed simp

lemma fallback_edges_source: "e \<in> set (retry_fallback_edges steps step) \<Longrightarrow> e_source e = retry_id (gs_id step)"
  by (auto simp: retry_fallback_edges_def Let_def split: if_splits)

lemma load_step_edges_source:
  "e \<in> set (load_step_edges cx steps step) \<Longrightarrow> e_source e = gs_id step \<or> e_source e = retry_id (gs_id step)"
  using outcome_fold_sources[of "([], False)" step]
  by (auto simp: load_step_edges_def outcome_edges_def plain_edges_def retry_loop_edges_def
                 retry_input_edge_def Let_def case_prod_unfold
           dest: fallback_edges_source split: if_splits)

lemma outcome_edge_sel [simp]:
  "e_source (outcome_edge s ess i t tg) = gs_id s" "e_target (outcome_edge s ess i t tg) = tg"
  by (simp_all add: outcome_edge_def)

abbreviation loaded_nodes :: "load_context \<Rightarrow> graph_step list \<Rightarrow> flow_node list" where
  "loaded_nodes cx steps \<equiv> load_start_node cx # concat (map (\<lambda>(i, s). load_step_nodes cx i s) (enumerate 0 steps))"

abbreviation loaded_edges :: "load_context \<Rightarrow> graph_step list \<Rightarrow> string option \<Rightarrow> flow_edge list" where
  "loaded_edges cx steps v \<equiv> concat (map (load_step_edges cx steps) steps) @ start_edges v"

subsection \<open>Which edges leave a node of the loaded canvas\<close>

lemma retry_id_neq [simp]: "retry_id i \<noteq> i" "i \<noteq> retry_id i"
  by (simp_all add: retry_id_def)

lemma retry_id_inj [simp]: "retry_id i = retry_id j \<longleftrightarrow> i = j"
  by (simp add: retry_id_def)

lemma START_neq_retry [simp]: "START_NODE_ID \<noteq> retry_id i" "retry_id i \<noteq> START_NODE_ID"
proof -
  have "last START_NODE_ID \<noteq> last (retry_id i)"
    by (simp add: START_NODE_ID_def retry_id_def)
  then show "START_NODE_ID \<noteq> retry_id i" "retry_id i \<noteq> START_NODE_ID" by auto
qed

lemma outgoing_append [simp]: "outgoing (es @ es') i = outgoing es i @ outgoing es' i"
  by (simp add: outgoing_def)

lemma outgoing_start_edges: "i \<noteq> START_NODE_ID \<Longrightarrow> outgoing (start_edges v) i = []"
  by (simp add: outgoing_def start_edges_def)

lemma outgoing_loaded:
  assumes "distinct (map gs_id steps)" "s \<in> set steps" "i = gs_id s \<or> i = retry_id (gs_id s)"
    and "\<And>s'. s' \<in> set steps \<Longrightarrow> retry_id (gs_id s') \<notin> set (map gs_id steps)" "i \<noteq> START_NODE_ID"
  shows "outgoing (loaded_edges cx steps v) i =
         outgoing (load_step_edges cx steps s) i"
proof -
  have "filter (\<lambda>e. e_source e = i) (concat (map (load_step_edges cx steps) steps)) =
        filter (\<lambda>e. e_source e = i) (load_step_edges cx steps s)"
  proof (rule filter_concat_single)
    show "distinct steps" using assms(1) by (simp add: distinct_map)
    fix y assume y: "y \<in> set steps" "y \<noteq> s"
    with assms(1,2) have ne: "gs_id y \<noteq> gs_id s" by (auto simp: distinct_map dest: inj_onD)
    have "gs_id y \<noteq> retry_id (gs_id s)" "gs_id s \<noteq> retry_id (gs_id y)"
      using assms(2,4) y(1) by (metis image_eqI set_map)+
    with ne assms(3) show "filter (\<lambda>e. e_source e = i) (load_step_edges cx steps y) = []"
      by (auto simp: filter_empty_conv dest!: load_step_edges_source)
  qed (rule assms(2))
  then show ?thesis using assms(5) by (simp add: outgoing_start_edges) (simp add: outgoing_def)
qed

end
