(* ===== verification/Graph_Edit.thy ===== *)
theory Graph_Edit
  imports Graph_Load
begin

text \<open>
  Editing the canvas: the callbacks React Flow invokes on the task editor (\<open>onConnect\<close>, \<open>onDrop\<close>,
  \<open>onEdgesChange\<close>), deletion, and the controls of the retry block (\<^verbatim>\<open>pages/ActionGraph/index.tsx\<close>,
  \<^verbatim>\<open>nodes/StateRetryNode.tsx\<close>).

  React Flow is not part of the repository: what the editor uses of it (\<open>addEdge\<close>, \<open>applyEdgeChanges\<close>, \<open>applyNodeChanges\<close>
  and the \<open>setEdges\<close> of \<open>useReactFlow\<close>) are arguments, and \<open>react_flow_law\<close> states their documented behaviour. The edit
  operations form the step relation \<open>edit_step\<close>. \<open>canvas_ok\<close> is invariant under it: it is \<open>canvas_inv\<close> but for edges of
  nodes whose removal the guard of \<open>onEdgesChange\<close> did not follow.
\<close>

section \<open>Connecting two handles\<close>

record connection =
  cn_source :: "string option"
  cn_target :: "string option"
  cn_sourceHandle :: "string option"
  cn_targetHandle :: "string option"

text \<open>An edge that still lacks the id \<open>addEdge\<close> chooses.\<close>

type_synonym pending_edge = "string \<Rightarrow> flow_edge"
type_synonym add_edge = "pending_edge \<Rightarrow> flow_edge list \<Rightarrow> flow_edge list"

definition same_handle :: "string option \<Rightarrow> string option \<Rightarrow> bool" where
  "same_handle h h' = (h = h' \<or> (\<not> truthy h \<and> \<not> truthy h'))"

definition connection_exists :: "flow_edge \<Rightarrow> flow_edge list \<Rightarrow> bool" where
  "connection_exists e eds =
     list_ex (\<lambda>x. e_source x = e_source e \<and> e_target x = e_target e
        \<and> same_handle (e_sourceHandle x) (e_sourceHandle e) \<and> same_handle (e_targetHandle x) (e_targetHandle e)) eds"

text \<open>\<open>addEdge\<close>: an edge between the same handles leaves the array alone, any other edge is appended with
  an id of the library's choice.\<close>

definition add_edge_law :: "add_edge \<Rightarrow> bool" where
  "add_edge_law ae = (\<forall>mk eds. \<exists>i. ae mk eds = (if connection_exists (mk i) eds then eds else eds @ [mk i]))"

definition is_type :: "node_type \<Rightarrow> flow_node option \<Rightarrow> bool" where
  "is_type ty n = (case n of None \<Rightarrow> False | Some x \<Rightarrow> n_type x = ty)"

definition connect_target_handle :: "flow_node option \<Rightarrow> connection \<Rightarrow> string" where
  "connect_target_handle targetNode c =
     orS (cn_targetHandle c)
       (if is_type NAction targetNode then ''in''
        else if is_type NRetry targetNode then ''retry-in'' else ''state-in'')"

definition end_states_of :: "flow_node option \<Rightarrow> end_state list" where
  "end_states_of n = arr (Option.bind n (\<lambda>x. nd_endStates (n_data x)))"

definition connect_source_handle :: "flow_node option \<Rightarrow> flow_node option \<Rightarrow> connection \<Rightarrow> string option" where
  "connect_source_handle sourceNode targetNode c =
     (if truthy (cn_sourceHandle c) then cn_sourceHandle c
      else if is_type NRetry sourceNode then Some ''retry-out''
      else case end_states_of sourceNode of
             [] \<Rightarrow> cn_sourceHandle c
           | es0 # _ \<Rightarrow>
               if is_type NRetry targetNode
               then Some (orS (handle_of_category (end_states_of sourceNode) CatFailure) (es_id es0))
               else Some (es_id es0))"

definition connect_outcome :: "flow_node option \<Rightarrow> string option \<Rightarrow> action_outcome option" where
  "connect_outcome sourceNode sourceHandleId =
     map_option (\<lambda>es. resolved_outcome es 0)
       (find (\<lambda>es. Some (es_id es) = sourceHandleId) (end_states_of sourceNode))"

definition start_edge :: "string \<Rightarrow> string \<Rightarrow> string \<Rightarrow> pending_edge" where
  "start_edge tgt sh th = (\<lambda>i. smoothstep i START_NODE_ID tgt (Some sh) (Some th) START_NODE_COLOR None)"

definition connect_edge ::
  "flow_node option \<Rightarrow> string \<Rightarrow> string \<Rightarrow> string option \<Rightarrow> string \<Rightarrow> action_outcome option \<Rightarrow> pending_edge" where
  "connect_edge sourceNode src tgt sh th out =
     (let isRetrySource = is_type NRetry sourceNode;
          color = (if isRetrySource then (if sh = Some ''retry-failed'' then ''#ef4444'' else ''#f59e0b'')
                   else case out of Some k \<Rightarrow> OUTCOME_EDGE_COLORS k | None \<Rightarrow> ''#22c55e'')
      in (\<lambda>i. (smoothstep i src tgt sh (Some th) color
                (if isRetrySource \<or> out \<noteq> Some Success then Some ''5,5'' else None))\<lparr>e_outcome := out\<rparr>))"

definition isSameConnection :: "string \<Rightarrow> string \<Rightarrow> string option \<Rightarrow> string option \<Rightarrow> flow_edge \<Rightarrow> bool" where
  "isSameConnection src tgt sh th e =
     (e_source e = src \<and> e_target e = tgt \<and> e_sourceHandle e = sh \<and> e_targetHandle e = th)"

text \<open>The updater \<open>setEdges\<close> gets: remove the same connection, or replace what holds a retry port and add.\<close>

definition toggle_connection ::
  "add_edge \<Rightarrow> bool \<Rightarrow> bool \<Rightarrow> string \<Rightarrow> string \<Rightarrow> string option \<Rightarrow> string \<Rightarrow> pending_edge
   \<Rightarrow> flow_edge list \<Rightarrow> flow_edge list" where
  "toggle_connection ae retrySource retryTarget src tgt sh th mk eds =
     (if list_ex (isSameConnection src tgt sh (Some th)) eds
      then filter (\<lambda>e. \<not> isSameConnection src tgt sh (Some th) e) eds
      else let next1 = (if retrySource \<and> truthy sh
                        then filter (\<lambda>e. \<not> (e_source e = src \<and> e_sourceHandle e = sh)) eds else eds);
               next2 = (if retryTarget \<and> th \<noteq> []
                        then filter (\<lambda>e. \<not> (e_target e = tgt \<and> e_targetHandle e = Some th)) next1 else next1)
           in ae mk next2)"

definition onConnect :: "add_edge \<Rightarrow> flow_node list \<Rightarrow> connection \<Rightarrow> flow_edge list \<Rightarrow> flow_edge list" where
  "onConnect ae nodes c eds =
     (if \<not> truthy (cn_source c) \<or> \<not> truthy (cn_target c) then eds
      else if cn_target c = Some START_NODE_ID then eds
      else let src = the (cn_source c); tgt = the (cn_target c);
               targetNode = node_by_id nodes tgt;
               th = connect_target_handle targetNode c
           in if src = START_NODE_ID
              then ae (start_edge tgt (orS (cn_sourceHandle c) ''state-out'') th)
                      (filter (\<lambda>e. e_source e \<noteq> START_NODE_ID) eds)
              else let sourceNode = node_by_id nodes src;
                       sh = connect_source_handle sourceNode targetNode c;
                       out = connect_outcome sourceNode sh
                   in if is_type NRetry targetNode \<and> out = Some Success then eds
                      else toggle_connection ae (is_type NRetry sourceNode) (is_type NRetry targetNode)
                             src tgt sh th (connect_edge sourceNode src tgt sh th out) eds)"

section \<open>Dropping a palette item\<close>

record palette_item =
  pi_type :: string
  pi_subtype :: "string option"
  pi_label :: "string option"
  pi_color :: "string option"
  pi_actionType :: "string option"
  pi_server :: "string option"
  pi_duringState :: "string option"
  pi_robotCount :: "nat option"
  pi_agentName :: "string option"
  pi_isAvailable :: "bool option"
  pi_capabilityKind :: "string option"
  pi_providerNode :: "string option"
  pi_isLifecycleNode :: "bool option"
  pi_lifecycleState :: "lifecycle_state option"
  pi_hideKey :: "string option"
  pi_isHidden :: "bool option"
  pi_isDefaultHidden :: "bool option"
  pi_isDraggable :: "bool option"
  pi_maxRetries :: "jsnum option"
  pi_backoffMs :: "jsnum option"

record drop_context =
  dc_availableStates :: "string list"
  dc_availableAgents :: "agent_option list"
  dc_isEditing :: bool
  dc_taskDistributorId :: "string option"
  dc_tdStates :: "td_state list"
  dc_tdResources :: "td_resource list"

text \<open>
  The canvas: the nodes, the edges and \<open>pendingDeletionsRef\<close>. The last field is no part of the program: it records the nodes
  that were removed while an edge of theirs stayed.
\<close>

record canvas =
  cv_nodes :: "flow_node list"
  cv_edges :: "flow_edge list"
  cv_pending :: "string list"
  cv_left :: "string list"

definition DEFAULT_STATES :: "string list" where
  "DEFAULT_STATES = [''idle'', ''busy'', ''error'', ''completed'', ''waiting'']"

definition availableStates :: "state_definition option \<Rightarrow> string list" where
  "availableStates stateDef =
     (case stateDef of None \<Rightarrow> DEFAULT_STATES | Some d \<Rightarrow> if sd_states d \<noteq> [] then sd_states d else DEFAULT_STATES)"

text \<open>The default states; \<open>availableStates\<close> is never empty, so the empty strings are not reached.\<close>

definition drop_success_state :: "string list \<Rightarrow> string" where
  "drop_success_state states =
     (if ''idle'' \<in> set states then ''idle'' else case states of [] \<Rightarrow> [] | s # _ \<Rightarrow> s)"

definition drop_failure_state :: "string list \<Rightarrow> string" where
  "drop_failure_state states =
     (if ''error'' \<in> set states then ''error'' else case rev states of [] \<Rightarrow> [] | s # _ \<Rightarrow> s)"

definition drop_end_states :: "string list \<Rightarrow> end_state list" where
  "drop_end_states states =
     (let ok = drop_success_state states; ko = drop_failure_state states;
          mk = (\<lambda>i st lab col. \<lparr>es_id = i, es_state = st, es_label = Some lab, es_color = Some col, es_outcome = Some i\<rparr>)
      in [mk ''success'' ok ''Success'' ''#22c55e'', mk ''failed'' ko ''Failed'' ''#ef4444'',
          mk ''aborted'' ko ''Aborted'' ''#ef4444'', mk ''cancelled'' ko ''Cancelled'' ''#6b7280''])"

definition finite_or :: "jsnum option \<Rightarrow> rat \<Rightarrow> jsnum" where
  "finite_or v d = (case v of Some (Fin r) \<Rightarrow> Fin r | _ \<Rightarrow> Fin d)"

definition drop_retry_node :: "drop_context \<Rightarrow> palette_item \<Rightarrow> string \<Rightarrow> jsnum \<times> jsnum \<Rightarrow> flow_node" where
  "drop_retry_node dc it newId pos =
     \<lparr>n_id = newId, n_type = NRetry, n_x = fst pos, n_y = snd pos, n_dragHandle = None, n_selected = False,
      n_data = no_data\<lparr>nd_label := Some (orS (pi_label it) ''Retry Block''),
        nd_subtype := Some (orS (pi_subtype it) ''Retry''), nd_color := Some (orS (pi_color it) ''#f59e0b''),
        nd_maxRetries := Some (finite_or (pi_maxRetries it) 3), nd_backoffMs := Some (finite_or (pi_backoffMs it) 0),
        nd_isEditing := Some (dc_isEditing dc)\<rparr>\<rparr>"

definition drop_start_node :: "drop_context \<Rightarrow> jsnum \<times> jsnum \<Rightarrow> flow_node" where
  "drop_start_node dc pos =
     \<lparr>n_id = START_NODE_ID, n_type = NEvent, n_x = fst pos, n_y = snd pos, n_dragHandle = None, n_selected = False,
      n_data = no_data\<lparr>nd_label := Some ''Start'', nd_subtype := Some ''Start'', nd_color := Some START_NODE_COLOR,
        nd_initialState := Some (drop_success_state (dc_availableStates dc)),
        nd_availableStates := Some (dc_availableStates dc), nd_availableAgents := Some (dc_availableAgents dc),
        nd_isEditing := Some (dc_isEditing dc)\<rparr>\<rparr>"

text \<open>The edges after a start node is dropped: the entry edge is rebuilt with its canonical id.\<close>

definition drop_start_edges :: "flow_edge list \<Rightarrow> flow_edge list" where
  "drop_start_edges eds =
     (let existingEntry = find (\<lambda>e. e_source e = START_NODE_ID \<and> e_target e \<noteq> []) eds;
          filtered = filter (\<lambda>e. e_source e \<noteq> START_NODE_ID \<and> e_target e \<noteq> START_NODE_ID) eds
      in case existingEntry of
           Some e \<Rightarrow> filtered @ [smoothstep (START_NODE_ID @ ''->'' @ e_target e) START_NODE_ID (e_target e)
                                  (Some ''state-out'') (Some ''state-in'') START_NODE_COLOR None]
         | None \<Rightarrow> filtered)"

definition drop_step_node :: "drop_context \<Rightarrow> palette_item \<Rightarrow> string \<Rightarrow> jsnum \<times> jsnum \<Rightarrow> flow_node" where
  "drop_step_node dc it newId pos =
     (let actionLike = (pi_type it = ''action'' \<or> pi_type it = ''service'');
          ok = drop_success_state (dc_availableStates dc); ko = drop_failure_state (dc_availableStates dc)
      in \<lparr>n_id = newId, n_type = (if actionLike then NAction else NEvent), n_x = fst pos, n_y = snd pos,
          n_dragHandle = (if actionLike then Some ACTION_NODE_DRAG_HANDLE_SELECTOR else None), n_selected = False,
          n_data = no_data
            \<lparr>nd_label := pi_label it, nd_subtype := pi_subtype it, nd_color := pi_color it,
             nd_actionType := pi_actionType it, nd_server := pi_server it,
             nd_capabilityKind := (if actionLike
                then Some (orS (pi_capabilityKind it) (if pi_type it = ''service'' then ''service'' else ''action''))
                else None),
             nd_successStates := Some [ok], nd_failureStates := Some [ko],
             nd_successState := Some ok, nd_failureState := Some ko, nd_initialState := Some ok,
             nd_finalState := Some (if pi_subtype it = Some ''Error'' then ko
                else if pi_subtype it = Some ''Warning'' \<and> ''warning'' \<in> set (dc_availableStates dc) then ''warning''
                else ok),
             nd_fromState := Some ok, nd_toState := pi_subtype it,
             nd_availableStates := Some (dc_availableStates dc), nd_availableAgents := Some (dc_availableAgents dc),
             nd_params := Some [], nd_debugMessage := Some [],
             nd_jobName := Some (if pi_type it = ''action''
                then getDefaultJobNameTemplate (orO (pi_server it) (pi_subtype it)) (pi_label it)
                else orS (pi_label it) (orS (pi_subtype it) [])),
             nd_endStates := Some (drop_end_states (dc_availableStates dc)),
             nd_taskDistributorId := dc_taskDistributorId dc,
             nd_taskDistributorStates := Some (dc_tdStates dc),
             nd_taskDistributorResources := Some (dc_tdResources dc),
             nd_resourceAcquire := Some [], nd_resourceRelease := Some [],
             nd_isEditing := Some (dc_isEditing dc)\<rparr>\<rparr>)"

text \<open>The parsed payload is \<open>None\<close> when the drag carries no data or \<open>JSON.parse\<close> throws. The id
  \<open>getNodeId()\<close> draws and the flow position are arguments.\<close>

definition onDrop :: "drop_context \<Rightarrow> palette_item option \<Rightarrow> string \<Rightarrow> jsnum \<times> jsnum \<Rightarrow> canvas \<Rightarrow> canvas" where
  "onDrop dc data newId pos cv =
     (case data of
        None \<Rightarrow> cv
      | Some it \<Rightarrow>
          if pi_type it \<notin> {''action'', ''service'', ''event'', ''retry''} then cv
          else if pi_type it = ''retry'' then cv\<lparr>cv_nodes := cv_nodes cv @ [drop_retry_node dc it newId pos]\<rparr>
          else if pi_type it = ''event'' \<and> pi_subtype it = Some ''Start''
          then cv\<lparr>cv_nodes := filter (\<lambda>n. n_id n \<noteq> START_NODE_ID) (cv_nodes cv) @ [drop_start_node dc pos],
                  cv_edges := drop_start_edges (cv_edges cv)\<rparr>
          else cv\<lparr>cv_nodes := cv_nodes cv @ [drop_step_node dc it newId pos]\<rparr>)"

section \<open>Deleting\<close>

definition deleteEdge :: "string \<Rightarrow> canvas \<Rightarrow> canvas" where
  "deleteEdge edgeId cv =
     cv\<lparr>cv_pending := (if edgeId \<in> set (cv_pending cv) then cv_pending cv else cv_pending cv @ [edgeId]),
        cv_edges := filter (\<lambda>e. e_id e \<noteq> edgeId) (cv_edges cv)\<rparr>"

definition deleteSelectedElements :: "bool \<Rightarrow> canvas \<Rightarrow> canvas" where
  "deleteSelectedElements isEditing cv =
     (let selectedNodeIds = map n_id (filter n_selected (cv_nodes cv));
          selectedEdgeIds = map e_id (filter e_selected (cv_edges cv))
      in if \<not> isEditing \<or> (selectedNodeIds = [] \<and> selectedEdgeIds = []) then cv
         else cv\<lparr>cv_nodes := filter (\<lambda>n. n_id n \<notin> set selectedNodeIds) (cv_nodes cv),
                 cv_edges := filter (\<lambda>e. e_id e \<notin> set selectedEdgeIds \<and> e_source e \<notin> set selectedNodeIds
                                          \<and> e_target e \<notin> set selectedNodeIds) (cv_edges cv)\<rparr>)"

text \<open>The two inputs of the retry block; the value is the number typed.\<close>

definition update_node_data :: "string \<Rightarrow> (node_data \<Rightarrow> node_data) \<Rightarrow> canvas \<Rightarrow> canvas" where
  "update_node_data i f cv =
     cv\<lparr>cv_nodes := map (\<lambda>n. if n_id n = i then n\<lparr>n_data := f (n_data n)\<rparr> else n) (cv_nodes cv)\<rparr>"

definition setMaxRetries :: "string \<Rightarrow> jsnum \<Rightarrow> canvas \<Rightarrow> canvas" where
  "setMaxRetries i v cv = update_node_data i (nd_maxRetries_update (\<lambda>_. Some (max0 v))) cv"

definition setBackoffMs :: "string \<Rightarrow> jsnum \<Rightarrow> canvas \<Rightarrow> canvas" where
  "setBackoffMs i v cv = update_node_data i (nd_backoffMs_update (\<lambda>_. Some (max0 v))) cv"

section \<open>Edge changes reported by React Flow\<close>

datatype edge_change = ChRemove string | ChSelect string bool

definition change_allowed :: "flow_node list \<Rightarrow> flow_edge list \<Rightarrow> string \<Rightarrow> bool" where
  "change_allowed nodes edges i =
     (case find (\<lambda>e. e_id e = i) edges of
        Some e \<Rightarrow> \<not> (list_ex (\<lambda>n. n_id n = e_source e) nodes \<and> list_ex (\<lambda>n. n_id n = e_target e) nodes)
      | None \<Rightarrow> True)"

text \<open>The \<open>filter\<close> over the changes: the pending deletions it has not yet consumed, and the changes kept.\<close>

fun filter_changes ::
  "flow_node list \<Rightarrow> flow_edge list \<Rightarrow> string list \<Rightarrow> edge_change list \<Rightarrow> string list \<times> edge_change list" where
  "filter_changes nodes edges pending [] = (pending, [])"
| "filter_changes nodes edges pending (ChSelect i b # chs) =
     (let (p, kept) = filter_changes nodes edges pending chs in (p, ChSelect i b # kept))"
| "filter_changes nodes edges pending (ChRemove i # chs) =
     (if i \<in> set pending
      then (let (p, kept) = filter_changes nodes edges (filter (\<lambda>x. x \<noteq> i) pending) chs in (p, ChRemove i # kept))
      else if change_allowed nodes edges i
      then (let (p, kept) = filter_changes nodes edges pending chs in (p, ChRemove i # kept))
      else filter_changes nodes edges pending chs)"

text \<open>\<open>defaultOnEdgesChange\<close> is React Flow's \<open>applyEdgeChanges\<close>, the argument \<open>aec\<close>: it drops the removed
  edges and keeps the ends of the others.\<close>

type_synonym apply_edge_changes = "edge_change list \<Rightarrow> flow_edge list \<Rightarrow> flow_edge list"

definition same_ends :: "flow_edge \<Rightarrow> flow_edge \<Rightarrow> bool" where
  "same_ends e e' =
     (e_id e = e_id e' \<and> e_source e = e_source e' \<and> e_target e = e_target e'
      \<and> e_sourceHandle e = e_sourceHandle e' \<and> e_targetHandle e = e_targetHandle e')"

definition edge_changes_law :: "apply_edge_changes \<Rightarrow> bool" where
  "edge_changes_law aec =
     (\<forall>chs eds. list_all2 same_ends (aec chs eds) (filter (\<lambda>e. ChRemove (e_id e) \<notin> set chs) eds))"

definition onEdgesChange :: "apply_edge_changes \<Rightarrow> edge_change list \<Rightarrow> canvas \<Rightarrow> canvas" where
  "onEdgesChange aec changes cv =
     (let (pending, filteredChanges) = filter_changes (cv_nodes cv) (cv_edges cv) (cv_pending cv) changes
      in cv\<lparr>cv_pending := pending,
            cv_edges := (if filteredChanges \<noteq> [] then aec filteredChanges (cv_edges cv) else cv_edges cv)\<rparr>)"

section \<open>Node changes, and removing a node by its button\<close>

definition ends_of :: "flow_edge list \<Rightarrow> string set" where
  "ends_of eds = e_source ` set eds \<union> e_target ` set eds"

text \<open>The nodes of \<open>ns\<close> that are gone from \<open>cv\<close> although an edge of \<open>cv\<close> still has them as an end.\<close>

definition leave_behind :: "flow_node list \<Rightarrow> canvas \<Rightarrow> canvas" where
  "leave_behind ns cv =
     cv\<lparr>cv_left := cv_left cv
          @ filter (\<lambda>i. i \<notin> set (map n_id (cv_nodes cv)) \<and> i \<in> ends_of (cv_edges cv)) (map n_id ns)\<rparr>"

text \<open>The default \<open>onNodesChange\<close> is React Flow's \<open>applyNodeChanges\<close>: it drops removed nodes, selects, moves and measures the others
  and leaves their data alone.\<close>

datatype node_change = NRemove string | NSelect string bool | NMove string jsnum jsnum

type_synonym apply_node_changes = "node_change list \<Rightarrow> flow_node list \<Rightarrow> flow_node list"

definition same_node :: "flow_node \<Rightarrow> flow_node \<Rightarrow> bool" where
  "same_node n n' = (n_id n = n_id n' \<and> n_type n = n_type n' \<and> n_data n = n_data n')"

definition node_changes_law :: "apply_node_changes \<Rightarrow> bool" where
  "node_changes_law anc =
     (\<forall>chs ns. list_all2 same_node (anc chs ns) (filter (\<lambda>n. NRemove (n_id n) \<notin> set chs) ns))"

definition onNodesChange :: "apply_node_changes \<Rightarrow> node_change list \<Rightarrow> canvas \<Rightarrow> canvas" where
  "onNodesChange anc chs cv = leave_behind (cv_nodes cv) (cv\<lparr>cv_nodes := anc chs (cv_nodes cv)\<rparr>)"

text \<open>
  The \<open>setEdges\<close> of \<open>useReactFlow\<close> does not change the edges of a controlled flow: it reports the change to \<open>onEdgesChange\<close>,
  either as one reset per edge that is to be there (\<open>Inl\<close>: no removal, so nothing is filtered) or as removals (\<open>Inr\<close>).
\<close>

type_synonym set_edges_report = "flow_edge list \<Rightarrow> flow_edge list \<Rightarrow> flow_edge list + edge_change list"

definition set_edges_law :: "set_edges_report \<Rightarrow> bool" where
  "set_edges_law se =
     (\<forall>cur next. se cur next = Inl next \<or> se cur next = Inr (map (ChRemove \<circ> e_id) (filter (\<lambda>e. e \<notin> set next) cur)))"

definition reported_edges :: "apply_edge_changes \<Rightarrow> set_edges_report \<Rightarrow> flow_edge list \<Rightarrow> canvas \<Rightarrow> canvas" where
  "reported_edges aec se next cv =
     (case se (cv_edges cv) next of
        Inl items \<Rightarrow> cv\<lparr>cv_edges := items\<rparr>
      | Inr chs \<Rightarrow> onEdgesChange aec chs cv)"

text \<open>
  \<open>removeNode\<close> of the retry block (and of the other nodes). Both updates happen in one handler, so the guard still sees
  the nodes of the last rendering, the removed one included. The node itself goes through the default handler.
\<close>

definition removeNode :: "apply_edge_changes \<Rightarrow> set_edges_report \<Rightarrow> string \<Rightarrow> bool \<Rightarrow> canvas \<Rightarrow> canvas" where
  "removeNode aec se i isEditing cv =
     (if \<not> isEditing then cv
      else let cv1 = reported_edges aec se (filter (\<lambda>e. e_source e \<noteq> i \<and> e_target e \<noteq> i) (cv_edges cv)) cv
           in leave_behind (cv_nodes cv) (cv1\<lparr>cv_nodes := filter (\<lambda>n. n_id n \<noteq> i) (cv_nodes cv1)\<rparr>))"

text \<open>What the editor uses of React Flow.\<close>

record react_flow =
  rf_addEdge :: add_edge
  rf_applyEdgeChanges :: apply_edge_changes
  rf_applyNodeChanges :: apply_node_changes
  rf_setEdges :: set_edges_report

definition react_flow_law :: "react_flow \<Rightarrow> bool" where
  "react_flow_law rf =
     (add_edge_law (rf_addEdge rf) \<and> edge_changes_law (rf_applyEdgeChanges rf)
      \<and> node_changes_law (rf_applyNodeChanges rf) \<and> set_edges_law (rf_setEdges rf))"

section \<open>Effects that refresh node data\<close>

definition applyAvailableStates :: "string list \<Rightarrow> canvas \<Rightarrow> canvas" where
  "applyAvailableStates states cv =
     cv\<lparr>cv_nodes := map (\<lambda>n. n\<lparr>n_data := (n_data n)\<lparr>nd_availableStates := Some states\<rparr>\<rparr>) (cv_nodes cv)\<rparr>"

definition applyAvailableAgents :: "agent_option list \<Rightarrow> canvas \<Rightarrow> canvas" where
  "applyAvailableAgents ags cv =
     cv\<lparr>cv_nodes := map (\<lambda>n. n\<lparr>n_data := (n_data n)\<lparr>nd_availableAgents := Some ags\<rparr>\<rparr>) (cv_nodes cv)\<rparr>"

text \<open>The editability flag of every node, and the drag handle of action nodes.\<close>

definition applyIsEditing :: "bool \<Rightarrow> canvas \<Rightarrow> canvas" where
  "applyIsEditing isEditing cv =
     cv\<lparr>cv_nodes := map (\<lambda>n. if nd_isEditing (n_data n) = Some isEditing then n
                                 else n\<lparr>n_data := (n_data n)\<lparr>nd_isEditing := Some isEditing\<rparr>\<rparr>) (cv_nodes cv)\<rparr>"

definition applyDragHandles :: "canvas \<Rightarrow> canvas" where
  "applyDragHandles cv =
     cv\<lparr>cv_nodes := map (\<lambda>n. if n_type n \<noteq> NAction \<or> n_dragHandle n = Some ACTION_NODE_DRAG_HANDLE_SELECTOR then n
                                 else n\<lparr>n_dragHandle := Some ACTION_NODE_DRAG_HANDLE_SELECTOR\<rparr>) (cv_nodes cv)\<rparr>"

definition filterResourceTokens :: "td_resource list \<Rightarrow> string list option \<Rightarrow> string list" where
  "filterResourceTokens tdResources values =
     (let validTypeIds = map tr_id (filter (\<lambda>r. tr_kind r = Some ''type'') tdResources);
          validInstanceIds = map tr_id (filter (\<lambda>r. orS (tr_kind r) ''instance'' \<noteq> ''type'') tdResources)
      in filter (\<lambda>v. if startsWith v ''type:'' then drop 5 v \<in> set validTypeIds
                    else if startsWith v ''instance:'' then drop 9 v \<in> set validInstanceIds else True) (arr values))"

definition applyTaskDistributor ::
  "string option \<Rightarrow> td_state list \<Rightarrow> td_resource list \<Rightarrow> canvas \<Rightarrow> canvas" where
  "applyTaskDistributor tdId states resources cv =
     cv\<lparr>cv_nodes := map (\<lambda>n. n\<lparr>n_data := (n_data n)
          \<lparr>nd_taskDistributorId := tdId, nd_taskDistributorStates := Some states,
           nd_taskDistributorResources := Some resources,
           nd_resourceAcquire := Some (filterResourceTokens resources (nd_resourceAcquire (n_data n))),
           nd_resourceRelease := Some (filterResourceTokens resources (nd_resourceRelease (n_data n)))\<rparr>\<rparr>) (cv_nodes cv)\<rparr>"

section \<open>The invariant of the canvas\<close>

text \<open>
  What the editor keeps true of the canvas: node ids are unique, no edge dangles, at most one edge
  leaves the start node and none enters it, each port of a retry block carries at most one edge
  (the entry edge, which replaces nothing but another entry edge, apart), and an event node is the
  start node or a terminal.
\<close>

definition edges_attached :: "canvas \<Rightarrow> bool" where
  "edges_attached cv =
     (list_all (\<lambda>e. e_source e \<in> set (map n_id (cv_nodes cv))) (cv_edges cv)
      \<and> list_all (\<lambda>e. e_target e \<in> set (map n_id (cv_nodes cv))) (cv_edges cv))"

definition start_edges_ok :: "flow_edge list \<Rightarrow> bool" where
  "start_edges_ok eds =
     (length (filter (\<lambda>e. e_source e = START_NODE_ID) eds) \<le> 1 \<and> list_all (\<lambda>e. e_target e \<noteq> START_NODE_ID) eds)"

definition ports_single :: "string \<Rightarrow> flow_edge list \<Rightarrow> bool" where
  "ports_single i eds =
     (distinct (map e_sourceHandle (filter (\<lambda>e. e_source e = i) eds))
      \<and> distinct (map e_targetHandle (filter (\<lambda>e. e_target e = i \<and> e_source e \<noteq> START_NODE_ID) eds)))"

definition retry_ports_ok :: "canvas \<Rightarrow> bool" where
  "retry_ports_ok cv =
     list_all (\<lambda>n. n_type n = NRetry \<longrightarrow> ports_single (n_id n) (cv_edges cv)) (cv_nodes cv)"

definition events_ok :: "flow_node list \<Rightarrow> bool" where
  "events_ok nodes =
     list_all (\<lambda>n. (n_id n = START_NODE_ID \<longrightarrow> n_type n = NEvent)
        \<and> (n_type n = NEvent \<longrightarrow> n_id n = START_NODE_ID \<or> Option.bind (nd_subtype (n_data n)) terminal_subtype_of \<noteq> None)) nodes"

definition canvas_inv :: "canvas \<Rightarrow> bool" where
  "canvas_inv cv =
     (distinct (map n_id (cv_nodes cv)) \<and> edges_attached cv \<and> start_edges_ok (cv_edges cv)
      \<and> retry_ports_ok cv \<and> events_ok (cv_nodes cv))"

text \<open>The same when edges may still have nodes of \<open>L\<close> as ends, and the invariant of the editor: these are the nodes whose
  edges stayed.\<close>

definition ends_in :: "string set \<Rightarrow> canvas \<Rightarrow> bool" where
  "ends_in L cv = (ends_of (cv_edges cv) \<subseteq> set (map n_id (cv_nodes cv)) \<union> L)"

definition canvas_rel :: "string set \<Rightarrow> canvas \<Rightarrow> bool" where
  "canvas_rel L cv =
     (distinct (map n_id (cv_nodes cv)) \<and> ends_in L cv \<and> start_edges_ok (cv_edges cv)
      \<and> retry_ports_ok cv \<and> events_ok (cv_nodes cv))"

definition canvas_ok :: "canvas \<Rightarrow> bool" where
  "canvas_ok cv = canvas_rel (set (cv_left cv)) cv"

lemma canvas_inv_rel: "canvas_inv cv = canvas_rel {} cv"
  by (auto simp: canvas_inv_def canvas_rel_def edges_attached_def ends_in_def ends_of_def list_all_iff)

text \<open>The items of the palette that end as an event are the start node and the terminals, and a fresh id
  is one no node has or had.\<close>

definition palette_ok :: "palette_item \<Rightarrow> bool" where
  "palette_ok it =
     (pi_type it = ''event'' \<longrightarrow> pi_subtype it = Some ''Start'' \<or> Option.bind (pi_subtype it) terminal_subtype_of \<noteq> None)"

definition fresh_id :: "string \<Rightarrow> canvas \<Rightarrow> bool" where
  "fresh_id i cv = (i \<noteq> START_NODE_ID \<and> i \<notin> set (map n_id (cv_nodes cv)) \<and> i \<notin> set (cv_left cv))"

text \<open>React Flow reports connections between handles of nodes that are on the canvas.\<close>

definition on_canvas :: "canvas \<Rightarrow> string option \<Rightarrow> bool" where
  "on_canvas cv v = (case v of None \<Rightarrow> True | Some i \<Rightarrow> i \<in> set (map n_id (cv_nodes cv)))"

inductive edit_step :: "react_flow \<Rightarrow> canvas \<Rightarrow> canvas \<Rightarrow> bool" for rf where
  connect: "on_canvas cv (cn_source c) \<Longrightarrow> on_canvas cv (cn_target c) \<Longrightarrow>
    edit_step rf cv (cv\<lparr>cv_edges := onConnect (rf_addEdge rf) (cv_nodes cv) c (cv_edges cv)\<rparr>)"
| drop: "(\<And>it. data = Some it \<Longrightarrow> palette_ok it) \<Longrightarrow> fresh_id newId cv \<Longrightarrow>
    edit_step rf cv (onDrop dc data newId pos cv)"
| delete_edge: "edit_step rf cv (deleteEdge i cv)"
| delete_selected: "edit_step rf cv (deleteSelectedElements isEditing cv)"
| remove_node: "edit_step rf cv (removeNode (rf_applyEdgeChanges rf) (rf_setEdges rf) i isEditing cv)"
| max_retries: "edit_step rf cv (setMaxRetries i v cv)"
| backoff: "edit_step rf cv (setBackoffMs i v cv)"
| field: "(\<And>d. nd_subtype (f d) = nd_subtype d) \<Longrightarrow> edit_step rf cv (update_node_data i f cv)"
| nodes_change: "edit_step rf cv (onNodesChange (rf_applyNodeChanges rf) nchs cv)"
| edges_change: "edit_step rf cv (onEdgesChange (rf_applyEdgeChanges rf) chs cv)"
| states_loaded: "edit_step rf cv (applyAvailableStates sts cv)"
| agents_loaded: "edit_step rf cv (applyAvailableAgents ags cv)"
| distributor_loaded: "edit_step rf cv (applyTaskDistributor tdId tds tdr cv)"
| editability: "edit_step rf cv (applyIsEditing isEditing cv)"
| drag_handles: "edit_step rf cv (applyDragHandles cv)"

subsection \<open>Fewer edges keep the invariant\<close>

text \<open>An edge list whose ends form a sublist of another one's.\<close>

lemma same_ends_map: "list_all2 same_ends xs ys \<Longrightarrow> map (\<lambda>e. (e_source e, e_target e, e_sourceHandle e, e_targetHandle e)) xs
    = map (\<lambda>e. (e_source e, e_target e, e_sourceHandle e, e_targetHandle e)) ys"
  by (induction rule: list_all2_induct) (auto simp: same_ends_def)

lemma filter_swap: "filter P (filter Q xs) = filter Q (filter P xs)"
  by (simp add: conj_commute)

lemma ports_single_filter: "ports_single i eds \<Longrightarrow> ports_single i (filter P eds)"
  unfolding ports_single_def by (subst (1 2) filter_swap) (simp only: distinct_map_filter)

lemma start_edges_ok_filter: "start_edges_ok eds \<Longrightarrow> start_edges_ok (filter P eds)"
proof -
  have "length (filter Q (filter P xs)) \<le> length (filter Q xs)" for Q and xs :: "flow_edge list"
    by (induction xs) auto
  then show "start_edges_ok eds \<Longrightarrow> start_edges_ok (filter P eds)"
    by (force simp: start_edges_ok_def list_all_iff intro: order_trans)
qed

lemma canvas_rel_filter_edges: "canvas_rel L cv \<Longrightarrow> canvas_rel L (cv\<lparr>cv_edges := filter P (cv_edges cv)\<rparr>)"
  by (auto simp: canvas_rel_def ends_in_def ends_of_def retry_ports_ok_def list_all_iff start_edges_ok_filter ports_single_filter)

lemma canvas_rel_parts: "cv_nodes a = cv_nodes b \<Longrightarrow> cv_edges a = cv_edges b \<Longrightarrow> canvas_rel L a = canvas_rel L b"
  by (simp add: canvas_rel_def ends_in_def ends_of_def retry_ports_ok_def)

lemma canvas_rel_pending [simp]: "canvas_rel L (cv\<lparr>cv_pending := p\<rparr>) = canvas_rel L cv"
  by (simp add: canvas_rel_def ends_in_def ends_of_def retry_ports_ok_def)

text \<open>The invariant only looks at the ends of the edges.\<close>

lemma map_filter_through: "map h xs = map h ys \<Longrightarrow> (\<And>x. P x = Q (h x)) \<Longrightarrow> (\<And>x. f x = g (h x)) \<Longrightarrow>
   map f (filter P xs) = map f (filter P ys)"
proof (induction xs arbitrary: ys)
  case (Cons x xs)
  then obtain y zs where "ys = y # zs" "h x = h y" "map h xs = map h zs" by (cases ys) auto
  with Cons show ?case by auto
qed simp

lemma list_all_image: "list_all (\<lambda>x. P (f x)) xs = (\<forall>y \<in> f ` set xs. P y)"
  by (simp add: list_all_iff)

lemma canvas_rel_same_ends:
  assumes "list_all2 same_ends eds (cv_edges cv)" "canvas_rel L cv"
  shows "canvas_rel L (cv\<lparr>cv_edges := eds\<rparr>)"
proof -
  let ?h = "\<lambda>e. (e_source e, e_target e, e_sourceHandle e, e_targetHandle e)"
  have m: "map ?h eds = map ?h (cv_edges cv)" by (rule same_ends_map[OF assms(1)])
  have f1: "map e_sourceHandle (filter (\<lambda>e. e_source e = i) eds) = map e_sourceHandle (filter (\<lambda>e. e_source e = i) (cv_edges cv))" for i
    by (rule map_filter_through[OF m, where Q = "\<lambda>(s, t, sh, th). s = i" and g = "\<lambda>(s, t, sh, th). sh"]) simp_all
  have f2: "map e_targetHandle (filter (\<lambda>e. e_target e = i \<and> e_source e \<noteq> START_NODE_ID) eds) =
      map e_targetHandle (filter (\<lambda>e. e_target e = i \<and> e_source e \<noteq> START_NODE_ID) (cv_edges cv))" for i
    by (rule map_filter_through[OF m, where Q = "\<lambda>(s, t, sh, th). t = i \<and> s \<noteq> START_NODE_ID" and g = "\<lambda>(s, t, sh, th). th"]) simp_all
  have l: "length (filter (\<lambda>e. e_source e = i) eds) = length (filter (\<lambda>e. e_source e = i) (cv_edges cv))" for i
    using arg_cong[OF f1, of length] by simp
  have "map e_source eds = map e_source (cv_edges cv)" "map e_target eds = map e_target (cv_edges cv)"
    using arg_cong[OF m, of "map fst"] arg_cong[OF m, of "map (fst \<circ> snd)"] by (simp_all add: comp_def)
  then have ends: "e_source ` set eds = e_source ` set (cv_edges cv)" "e_target ` set eds = e_target ` set (cv_edges cv)"
    by (metis set_map)+
  have "list_all (\<lambda>e. e_target e \<noteq> START_NODE_ID) eds = list_all (\<lambda>e. e_target e \<noteq> START_NODE_ID) (cv_edges cv)"
    by (simp_all only: list_all_image[where f = e_target and P = "\<lambda>s. s \<noteq> START_NODE_ID"] ends)
  with assms(2) f1 f2 l show ?thesis
    by (simp add: canvas_rel_def ends_in_def ends_of_def ends start_edges_ok_def retry_ports_ok_def ports_single_def)
qed

subsection \<open>Each operation keeps the invariant\<close>

lemma canvas_rel_map_nodes:
  assumes "\<And>n. n_id (f n) = n_id n \<and> n_type (f n) = n_type n \<and> nd_subtype (n_data (f n)) = nd_subtype (n_data n)"
    and "canvas_rel L cv"
  shows "canvas_rel L (cv\<lparr>cv_nodes := map f (cv_nodes cv)\<rparr>)"
  using assms by (simp add: canvas_rel_def ends_in_def ends_of_def retry_ports_ok_def events_ok_def list_all_iff comp_def)

lemma canvas_rel_delete_nodes:
  assumes "canvas_rel L cv"
  shows "canvas_rel L (cv\<lparr>cv_nodes := filter (\<lambda>n. n_id n \<notin> S) (cv_nodes cv),
                       cv_edges := filter (\<lambda>e. P e \<and> e_source e \<notin> S \<and> e_target e \<notin> S) (cv_edges cv)\<rparr>)"
  using canvas_rel_filter_edges[OF assms, of "\<lambda>e. P e \<and> e_source e \<notin> S \<and> e_target e \<notin> S"]
  by (auto simp: canvas_rel_def ends_in_def ends_of_def retry_ports_ok_def events_ok_def list_all_iff distinct_map_filter)

lemma canvas_rel_add_node:
  assumes "canvas_rel L cv" "n_id n \<notin> set (map n_id (cv_nodes cv))" "n_type n = NRetry \<Longrightarrow> n_id n \<notin> L"
    and "n_id n = START_NODE_ID \<longrightarrow> n_type n = NEvent"
    and "n_type n = NEvent \<longrightarrow> n_id n = START_NODE_ID \<or> Option.bind (nd_subtype (n_data n)) terminal_subtype_of \<noteq> None"
  shows "canvas_rel L (cv\<lparr>cv_nodes := cv_nodes cv @ [n]\<rparr>)"
proof -
  have "ports_single (n_id n) (cv_edges cv)" if "n_type n = NRetry"
  proof -
    have "n_id n \<notin> ends_of (cv_edges cv)" using assms(1-3) that by (auto simp: canvas_rel_def ends_in_def)
    then have "filter (\<lambda>e. e_source e = n_id n) (cv_edges cv) = []"
      "filter (\<lambda>e. e_target e = n_id n \<and> e_source e \<noteq> START_NODE_ID) (cv_edges cv) = []"
      by (auto simp: ends_of_def filter_empty_conv image_iff)
    then show ?thesis by (simp add: ports_single_def)
  qed
  with assms show ?thesis
    by (auto simp: canvas_rel_def ends_in_def retry_ports_ok_def events_ok_def list_all_iff)
qed

lemma canvas_rel_add_edge:
  assumes "canvas_rel L cv" "e_source e \<in> set (map n_id (cv_nodes cv)) \<union> L" "e_target e \<in> set (map n_id (cv_nodes cv)) \<union> L"
    and "e_target e \<noteq> START_NODE_ID"
    and "e_source e = START_NODE_ID \<longrightarrow> list_all (\<lambda>x. e_source x \<noteq> START_NODE_ID) (cv_edges cv)"
    and "\<And>n x. n \<in> set (cv_nodes cv) \<Longrightarrow> n_type n = NRetry \<Longrightarrow> n_id n = e_source e \<Longrightarrow> x \<in> set (cv_edges cv) \<Longrightarrow>
           e_source x = e_source e \<Longrightarrow> e_sourceHandle x \<noteq> e_sourceHandle e"
    and "\<And>n x. n \<in> set (cv_nodes cv) \<Longrightarrow> n_type n = NRetry \<Longrightarrow> n_id n = e_target e \<Longrightarrow> e_source e \<noteq> START_NODE_ID \<Longrightarrow>
           x \<in> set (cv_edges cv) \<Longrightarrow> e_target x = e_target e \<Longrightarrow> e_targetHandle x \<noteq> e_targetHandle e"
  shows "canvas_rel L (cv\<lparr>cv_edges := cv_edges cv @ [e]\<rparr>)"
proof -
  have "ports_single (n_id n) (cv_edges cv @ [e])" if n: "n \<in> set (cv_nodes cv)" "n_type n = NRetry" for n
  proof -
    have p: "ports_single (n_id n) (cv_edges cv)"
      using assms(1) n by (simp add: canvas_rel_def retry_ports_ok_def list_all_iff)
    have "e_source e = n_id n \<Longrightarrow> e_sourceHandle e \<notin> e_sourceHandle ` {x \<in> set (cv_edges cv). e_source x = n_id n}"
      "e_target e = n_id n \<Longrightarrow> e_source e \<noteq> START_NODE_ID \<Longrightarrow>
         e_targetHandle e \<notin> e_targetHandle ` {x \<in> set (cv_edges cv). e_target x = n_id n}"
      using assms(6,7)[OF n] by force+
    with p show ?thesis by (auto simp: ports_single_def)
  qed
  moreover have "start_edges_ok (cv_edges cv @ [e])"
    using assms(1,4,5) by (auto simp: canvas_rel_def start_edges_ok_def list_all_iff filter_empty_conv)
  ultimately show ?thesis
    using assms(1-3) by (simp add: canvas_rel_def ends_in_def ends_of_def retry_ports_ok_def list_all_iff)
qed

text \<open>What \<open>addEdge\<close> does to the invariant, whatever id it chooses.\<close>

lemma canvas_rel_ae:
  assumes "add_edge_law ae" "canvas_rel L cv" "\<And>i. canvas_rel L (cv\<lparr>cv_edges := cv_edges cv @ [mk i]\<rparr>)"
  shows "canvas_rel L (cv\<lparr>cv_edges := ae mk (cv_edges cv)\<rparr>)"
proof -
  obtain i where "ae mk (cv_edges cv) = (if connection_exists (mk i) (cv_edges cv) then cv_edges cv else cv_edges cv @ [mk i])"
    using assms(1) unfolding add_edge_law_def by blast
  with assms(2,3) show ?thesis by simp
qed

lemma connect_target_handle_nonempty [simp]: "connect_target_handle n c \<noteq> []"
  by (auto simp: connect_target_handle_def orS_def split: option.splits)

lemma retry_source_handle: "is_type NRetry n \<Longrightarrow> truthy (connect_source_handle n m c)"
  by (simp add: connect_source_handle_def)

lemma connect_edge_sel [simp]:
  "e_source (connect_edge n src tgt sh th out i) = src" "e_target (connect_edge n src tgt sh th out i) = tgt"
  "e_sourceHandle (connect_edge n src tgt sh th out i) = sh" "e_targetHandle (connect_edge n src tgt sh th out i) = Some th"
  by (simp_all add: connect_edge_def Let_def)

lemma start_edge_sel [simp]:
  "e_source (start_edge tgt sh th i) = START_NODE_ID" "e_target (start_edge tgt sh th i) = tgt"
  "e_sourceHandle (start_edge tgt sh th i) = Some sh" "e_targetHandle (start_edge tgt sh th i) = Some th"
  by (simp_all add: start_edge_def)

text \<open>With unique ids the type of a node can be read through \<open>nodes.find\<close>.\<close>

lemma node_by_id_unique:
  "distinct (map n_id nodes) \<Longrightarrow> n \<in> set nodes \<Longrightarrow> node_by_id nodes (n_id n) = Some n"
  unfolding node_by_id_def by (rule find_unique) (auto simp: distinct_map dest: inj_onD)

lemma retry_is_type:
  "distinct (map n_id nodes) \<Longrightarrow> n \<in> set nodes \<Longrightarrow> n_type n = NRetry \<Longrightarrow> is_type NRetry (node_by_id nodes (n_id n))"
  by (simp add: node_by_id_unique is_type_def)

lemma toggle_connection_inv:
  assumes law: "add_edge_law ae" and inv: "canvas_rel L cv"
    and ends: "src \<in> set (map n_id (cv_nodes cv))" "tgt \<in> set (map n_id (cv_nodes cv))" "tgt \<noteq> START_NODE_ID" "src \<noteq> START_NODE_ID"
    and mk: "\<And>i. e_source (mk i) = src \<and> e_target (mk i) = tgt \<and> e_sourceHandle (mk i) = sh \<and> e_targetHandle (mk i) = Some th"
    and th: "th \<noteq> []" and sh: "is_type NRetry (node_by_id (cv_nodes cv) src) \<Longrightarrow> truthy sh"
  shows "canvas_rel L (cv\<lparr>cv_edges := toggle_connection ae (is_type NRetry (node_by_id (cv_nodes cv) src))
           (is_type NRetry (node_by_id (cv_nodes cv) tgt)) src tgt sh th mk (cv_edges cv)\<rparr>)"
proof -
  let ?rs = "is_type NRetry (node_by_id (cv_nodes cv) src)" and ?rt = "is_type NRetry (node_by_id (cv_nodes cv) tgt)"
  let ?n1 = "if ?rs \<and> truthy sh then filter (\<lambda>e. \<not> (e_source e = src \<and> e_sourceHandle e = sh)) (cv_edges cv) else cv_edges cv"
  let ?n2 = "if ?rt \<and> th \<noteq> [] then filter (\<lambda>e. \<not> (e_target e = tgt \<and> e_targetHandle e = Some th)) ?n1 else ?n1"
  from inv have d: "distinct (map n_id (cv_nodes cv))" by (simp add: canvas_rel_def)
  have inv1: "canvas_rel L (cv\<lparr>cv_edges := ?n1\<rparr>)" using inv canvas_rel_filter_edges[OF inv] by simp
  have inv2: "canvas_rel L (cv\<lparr>cv_edges := ?n2\<rparr>)" using inv1 canvas_rel_filter_edges[OF inv1] by simp
  have n1: "e_sourceHandle x \<noteq> sh" if "?rs" "x \<in> set ?n2" "e_source x = src" for x
    using that sh by (auto split: if_splits)
  have n2: "e_targetHandle x \<noteq> Some th" if "?rt" "x \<in> set ?n2" "e_target x = tgt" for x
    using that th by (auto split: if_splits)
  let ?cv = "cv\<lparr>cv_edges := ?n2\<rparr>"
  have "canvas_rel L (?cv\<lparr>cv_edges := cv_edges ?cv @ [mk i]\<rparr>)" for i
  proof (rule canvas_rel_add_edge[OF inv2])
    fix n x assume n: "n \<in> set (cv_nodes ?cv)" "n_type n = NRetry" "x \<in> set (cv_edges ?cv)"
    from n have r: "is_type NRetry (node_by_id (cv_nodes cv) (n_id n))" using retry_is_type[OF d] by simp
    show "n_id n = e_source (mk i) \<Longrightarrow> e_source x = e_source (mk i) \<Longrightarrow> e_sourceHandle x \<noteq> e_sourceHandle (mk i)"
      using n1[of x] n(3) mk[of i] r by simp
    show "n_id n = e_target (mk i) \<Longrightarrow> e_target x = e_target (mk i) \<Longrightarrow> e_targetHandle x \<noteq> e_targetHandle (mk i)"
      using n2[of x] n(3) mk[of i] r by simp
  qed (use mk[of i] ends in simp_all)
  then have "canvas_rel L (cv\<lparr>cv_edges := ae mk ?n2\<rparr>)"
    using canvas_rel_ae[OF law inv2, of mk] by simp
  then show ?thesis
    using canvas_rel_filter_edges[OF inv] by (simp add: toggle_connection_def Let_def)
qed

lemma onConnect_inv:
  assumes law: "add_edge_law ae" and inv: "canvas_rel L cv" and "on_canvas cv (cn_source c)" "on_canvas cv (cn_target c)"
  shows "canvas_rel L (cv\<lparr>cv_edges := onConnect ae (cv_nodes cv) c (cv_edges cv)\<rparr>)"
proof (cases "truthy (cn_source c) \<and> truthy (cn_target c) \<and> cn_target c \<noteq> Some START_NODE_ID")
  case False
  with inv show ?thesis by (auto simp: onConnect_def)
next
  case True
  then obtain src tgt where st: "cn_source c = Some src" "cn_target c = Some tgt" "tgt \<noteq> START_NODE_ID" "src \<noteq> []" "tgt \<noteq> []"
    by (auto simp: truthy_def split: option.splits)
  with assms(3,4) have on: "src \<in> set (map n_id (cv_nodes cv))" "tgt \<in> set (map n_id (cv_nodes cv))"
    by (simp_all add: on_canvas_def)
  show ?thesis
  proof (cases "src = START_NODE_ID")
    case True
    let ?cv = "cv\<lparr>cv_edges := filter (\<lambda>e. e_source e \<noteq> START_NODE_ID) (cv_edges cv)\<rparr>"
    let ?mk = "start_edge tgt (orS (cn_sourceHandle c) ''state-out'') (connect_target_handle (node_by_id (cv_nodes cv) tgt) c)"
    have i: "canvas_rel L ?cv" by (rule canvas_rel_filter_edges[OF inv])
    have no: "n_type n \<noteq> NRetry" if "n \<in> set (cv_nodes cv)" "n_id n = START_NODE_ID" for n
      using inv that by (auto simp: canvas_rel_def events_ok_def list_all_iff)
    have "canvas_rel L (?cv\<lparr>cv_edges := cv_edges ?cv @ [?mk i]\<rparr>)" for i
      by (rule canvas_rel_add_edge[OF i]) (use on st True no in \<open>auto simp: list_all_iff\<close>)
    from canvas_rel_ae[OF law i this] st True show ?thesis by (simp add: onConnect_def Let_def)
  next
    case False
    with st show ?thesis
      using inv toggle_connection_inv[OF law inv on st(3) False]
      by (simp add: onConnect_def Let_def retry_source_handle)
  qed
qed

lemma onDrop_inv:
  assumes "canvas_rel L cv" "fresh_id newId cv" "L \<subseteq> set (cv_left cv)" "\<And>it. data = Some it \<Longrightarrow> palette_ok it"
  shows "canvas_rel L (onDrop dc data newId pos cv)"
proof (cases "\<exists>it. data = Some it \<and> pi_type it = ''event'' \<and> pi_subtype it = Some ''Start''")
  case True
  let ?P = "\<lambda>e. e_source e \<noteq> START_NODE_ID \<and> e_target e \<noteq> START_NODE_ID"
  let ?cv1 = "cv\<lparr>cv_nodes := filter (\<lambda>n. n_id n \<noteq> START_NODE_ID) (cv_nodes cv), cv_edges := filter ?P (cv_edges cv)\<rparr>"
  let ?cv2 = "?cv1\<lparr>cv_nodes := cv_nodes ?cv1 @ [drop_start_node dc pos]\<rparr>"
  have i1: "canvas_rel L ?cv1"
    using canvas_rel_delete_nodes[OF assms(1), where S = "{START_NODE_ID}" and P = "\<lambda>_. True"] by simp
  have i2: "canvas_rel L ?cv2" by (rule canvas_rel_add_node[OF i1]) (auto simp: drop_start_node_def)
  have "canvas_rel L (?cv2\<lparr>cv_edges := drop_start_edges (cv_edges cv)\<rparr>)"
  proof (cases "find (\<lambda>e. e_source e = START_NODE_ID \<and> e_target e \<noteq> []) (cv_edges cv)")
    case None
    have "canvas_rel L ?cv2 = canvas_rel L (?cv2\<lparr>cv_edges := drop_start_edges (cv_edges cv)\<rparr>)"
      by (rule canvas_rel_parts) (simp_all add: drop_start_edges_def None)
    with i2 show ?thesis by blast
  next
    case (Some e)
    let ?e = "smoothstep (START_NODE_ID @ ''->'' @ e_target e) START_NODE_ID (e_target e)
                (Some ''state-out'') (Some ''state-in'') START_NODE_COLOR None"
    from find_SomeD[OF Some] assms(1) have e: "e_target e \<in> n_id ` set (cv_nodes cv) \<union> L" "e_target e \<noteq> START_NODE_ID"
      by (auto simp: canvas_rel_def ends_in_def ends_of_def start_edges_ok_def list_all_iff)
    have "canvas_rel L (?cv2\<lparr>cv_edges := cv_edges ?cv2 @ [?e]\<rparr>)"
    proof (rule canvas_rel_add_edge[OF i2])
      show "e_target ?e \<in> set (map n_id (cv_nodes ?cv2)) \<union> L" using e by auto
    qed (use e in \<open>auto simp: drop_start_node_def list_all_iff\<close>)
    with Some show ?thesis by (simp add: drop_start_edges_def)
  qed
  moreover from True have "canvas_rel L (onDrop dc data newId pos cv) =
      canvas_rel L (?cv2\<lparr>cv_edges := drop_start_edges (cv_edges cv)\<rparr>)"
    by (intro canvas_rel_parts) (auto simp: onDrop_def)
  ultimately show ?thesis by blast
next
  case False
  show ?thesis
  proof (cases data)
    case None
    with assms(1) show ?thesis by (simp add: onDrop_def)
  next
    case (Some it)
    have "canvas_rel L (cv\<lparr>cv_nodes := cv_nodes cv @ [drop_retry_node dc it newId pos]\<rparr>)"
      by (rule canvas_rel_add_node[OF assms(1)]) (use assms(2,3) in \<open>auto simp: fresh_id_def drop_retry_node_def\<close>)
    moreover have "canvas_rel L (cv\<lparr>cv_nodes := cv_nodes cv @ [drop_step_node dc it newId pos]\<rparr>)"
      if "pi_type it \<in> {''action'', ''service'', ''event''}"
      by (rule canvas_rel_add_node[OF assms(1)])
         (use assms(2,3) assms(4)[OF Some] False Some that in \<open>auto simp: fresh_id_def palette_ok_def drop_step_node_def Let_def\<close>)
    ultimately show ?thesis using Some False assms(1) by (auto simp: onDrop_def)
  qed
qed

lemma onEdgesChange_inv:
  assumes "edge_changes_law aec" "canvas_rel L cv"
  shows "canvas_rel L (onEdgesChange aec chs cv)"
proof -
  obtain p kept where f: "filter_changes (cv_nodes cv) (cv_edges cv) (cv_pending cv) chs = (p, kept)"
    by (metis prod.exhaust)
  let ?cv = "cv\<lparr>cv_edges := filter (\<lambda>e. ChRemove (e_id e) \<notin> set kept) (cv_edges cv)\<rparr>"
  have "canvas_rel L (?cv\<lparr>cv_edges := aec kept (cv_edges cv)\<rparr>)"
    by (rule canvas_rel_same_ends) (use assms in \<open>simp_all add: edge_changes_law_def canvas_rel_filter_edges\<close>)
  then have "canvas_rel L (cv\<lparr>cv_edges := aec kept (cv_edges cv)\<rparr>)" by simp
  then have "canvas_rel L ((cv\<lparr>cv_edges := aec kept (cv_edges cv)\<rparr>)\<lparr>cv_pending := p\<rparr>)" by (simp only: canvas_rel_pending)
  moreover have "canvas_rel L (cv\<lparr>cv_pending := p\<rparr>)" using assms(2) by simp
  ultimately show ?thesis
    by (cases "kept = []") (simp_all add: onEdgesChange_def f canvas_rel_def ends_in_def ends_of_def retry_ports_ok_def)
qed

lemma deleteEdge_inv: "canvas_rel L cv \<Longrightarrow> canvas_rel L (deleteEdge i cv)"
  using canvas_rel_filter_edges[of L cv "\<lambda>e. e_id e \<noteq> i"]
  by (simp add: deleteEdge_def canvas_rel_def ends_in_def ends_of_def retry_ports_ok_def)

lemma deleteSelectedElements_inv: "canvas_rel L cv \<Longrightarrow> canvas_rel L (deleteSelectedElements b cv)"
  unfolding deleteSelectedElements_def Let_def by (simp add: canvas_rel_delete_nodes)

text \<open>Nodes that go while edges stay: what is left behind is recorded.\<close>

lemma same_node_simps:
  "list_all2 same_node ns' ns \<Longrightarrow> map n_id ns' = map n_id ns \<and> events_ok ns' = events_ok ns
     \<and> retry_ports_ok (cv\<lparr>cv_nodes := ns'\<rparr>) = retry_ports_ok (cv\<lparr>cv_nodes := ns\<rparr>)"
  by (induction rule: list_all2_induct) (auto simp: same_node_def events_ok_def retry_ports_ok_def)

lemma leave_behind_ok:
  assumes "canvas_rel (set (cv_left cv)) cv" "list_all2 same_node ns' (filter P (cv_nodes cv))"
  shows "canvas_ok (leave_behind (cv_nodes cv) (cv\<lparr>cv_nodes := ns'\<rparr>))"
proof -
  from same_node_simps[OF assms(2), of cv] have n: "map n_id ns' = map n_id (filter P (cv_nodes cv))"
    "events_ok ns' = events_ok (filter P (cv_nodes cv))"
    "retry_ports_ok (cv\<lparr>cv_nodes := ns'\<rparr>) = retry_ports_ok (cv\<lparr>cv_nodes := filter P (cv_nodes cv)\<rparr>)" by blast+
  from assms(1) have c: "distinct (map n_id (cv_nodes cv))" "ends_of (cv_edges cv) \<subseteq> set (map n_id (cv_nodes cv)) \<union> set (cv_left cv)"
    "start_edges_ok (cv_edges cv)" "retry_ports_ok cv" "events_ok (cv_nodes cv)" by (simp_all add: canvas_rel_def ends_in_def)
  have "distinct (map n_id ns')" unfolding n(1) using c(1) by (rule distinct_map_filter)
  moreover have "events_ok ns'" unfolding n(2) using c(5) by (simp add: events_ok_def list_all_iff)
  moreover have "retry_ports_ok (cv\<lparr>cv_nodes := ns'\<rparr>)" unfolding n(3) using c(4) by (simp add: retry_ports_ok_def list_all_iff)
  moreover have "ends_in (set (cv_left (leave_behind (cv_nodes cv) (cv\<lparr>cv_nodes := ns'\<rparr>)))) (cv\<lparr>cv_nodes := ns'\<rparr>)"
    using c(2) by (auto simp: ends_in_def leave_behind_def)
  ultimately show ?thesis using c(3)
    by (simp add: canvas_ok_def canvas_rel_def leave_behind_def ends_in_def retry_ports_ok_def)
qed

lemma onNodesChange_inv:
  "node_changes_law anc \<Longrightarrow> canvas_ok cv \<Longrightarrow> canvas_ok (onNodesChange anc chs cv)"
  using leave_behind_ok[of cv "anc chs (cv_nodes cv)" "\<lambda>n. NRemove (n_id n) \<notin> set chs"]
  by (simp add: onNodesChange_def canvas_ok_def node_changes_law_def)

lemma reported_edges_inv:
  assumes "edge_changes_law aec" "set_edges_law se" "canvas_rel L cv"
  shows "canvas_rel L (reported_edges aec se (filter P (cv_edges cv)) cv)"
proof -
  from assms(2) have "se (cv_edges cv) (filter P (cv_edges cv)) = Inl (filter P (cv_edges cv))
      \<or> (\<exists>chs. se (cv_edges cv) (filter P (cv_edges cv)) = Inr chs)" unfolding set_edges_law_def by blast
  then show ?thesis
    using onEdgesChange_inv[OF assms(1,3)] canvas_rel_filter_edges[OF assms(3), of P] by (auto simp: reported_edges_def)
qed

lemma reported_edges_frame [simp]:
  "cv_nodes (reported_edges aec se next cv) = cv_nodes cv" "cv_left (reported_edges aec se next cv) = cv_left cv"
  by (auto simp: reported_edges_def onEdgesChange_def case_prod_unfold Let_def split: sum.splits)

lemma removeNode_inv:
  assumes "edge_changes_law aec" "set_edges_law se" "canvas_ok cv"
  shows "canvas_ok (removeNode aec se i b cv)"
proof -
  let ?P = "\<lambda>e. e_source e \<noteq> i \<and> e_target e \<noteq> i" and ?Q = "\<lambda>n. n_id n \<noteq> i"
  let ?cv = "reported_edges aec se (filter ?P (cv_edges cv)) cv"
  have "canvas_rel (set (cv_left ?cv)) ?cv"
    using reported_edges_inv[OF assms(1,2), of _ cv ?P] assms(3) by (simp add: canvas_ok_def)
  from leave_behind_ok[OF this, of "filter ?Q (cv_nodes ?cv)" ?Q] show ?thesis
    using assms(3) by (simp add: removeNode_def Let_def same_node_def list.rel_refl)
qed

text \<open>The other operations leave the record of removed nodes alone.\<close>

lemma left_simps [simp]:
  "cv_left (onDrop dc data newId pos cv) = cv_left cv" "cv_left (deleteEdge i cv) = cv_left cv"
  "cv_left (deleteSelectedElements b cv) = cv_left cv" "cv_left (onEdgesChange aec chs cv) = cv_left cv"
  "cv_left (update_node_data i f cv) = cv_left cv" "cv_left (setMaxRetries i v cv) = cv_left cv"
  "cv_left (setBackoffMs i v cv) = cv_left cv" "cv_left (applyAvailableStates sts cv) = cv_left cv"
  "cv_left (applyAvailableAgents ags cv) = cv_left cv" "cv_left (applyTaskDistributor tdId tds tdr cv) = cv_left cv"
  "cv_left (applyIsEditing b cv) = cv_left cv" "cv_left (applyDragHandles cv) = cv_left cv"
  by (simp_all add: onDrop_def deleteEdge_def deleteSelectedElements_def onEdgesChange_def update_node_data_def setMaxRetries_def
      setBackoffMs_def applyAvailableStates_def applyAvailableAgents_def applyTaskDistributor_def applyIsEditing_def
      applyDragHandles_def Let_def case_prod_unfold split: option.splits)

lemma update_node_data_inv:
  "(\<And>d. nd_subtype (f d) = nd_subtype d) \<Longrightarrow> canvas_rel L cv \<Longrightarrow> canvas_rel L (update_node_data i f cv)"
  unfolding update_node_data_def by (rule canvas_rel_map_nodes) auto

lemma edit_step_ok:
  assumes "edit_step rf cv cv'" "react_flow_law rf" "canvas_ok cv"
  shows "canvas_ok cv'"
proof -
  have law: "add_edge_law (rf_addEdge rf)" "edge_changes_law (rf_applyEdgeChanges rf)" "node_changes_law (rf_applyNodeChanges rf)"
    "set_edges_law (rf_setEdges rf)" using assms(2) by (simp_all add: react_flow_law_def)
  have c: "canvas_rel (set (cv_left cv)) cv" using assms(3) by (simp add: canvas_ok_def)
  show ?thesis
    using assms(1)
  proof (cases rule: edit_step.cases)
    case (remove_node i isEditing)
    then show ?thesis using removeNode_inv[OF law(2,4) assms(3)] by simp
  next
    case (nodes_change nchs)
    then show ?thesis using onNodesChange_inv[OF law(3) assms(3)] by simp
  next
    case (field f i)
    then show ?thesis using update_node_data_inv[of f] c by (simp add: canvas_ok_def)
  next
    case (connect c')
    then show ?thesis using onConnect_inv[OF law(1) c] by (simp add: canvas_ok_def)
  next
    case (drop data newId dc pos)
    then show ?thesis using onDrop_inv[OF c, of newId data] by (simp add: canvas_ok_def)
  qed (use c in \<open>auto simp: canvas_ok_def setMaxRetries_def setBackoffMs_def update_node_data_inv deleteEdge_inv
        deleteSelectedElements_inv onEdgesChange_inv[OF law(2)] applyAvailableStates_def applyAvailableAgents_def
        applyTaskDistributor_def applyIsEditing_def applyDragHandles_def intro!: canvas_rel_map_nodes\<close>)
qed

section \<open>Connecting twice\<close>

text \<open>Whether the handles a connection resolves to are joined by an edge.\<close>

definition joined :: "flow_node list \<Rightarrow> connection \<Rightarrow> flow_edge list \<Rightarrow> bool" where
  "joined nodes c eds =
     (let src = the (cn_source c); tgt = the (cn_target c); sn = node_by_id nodes src; tn = node_by_id nodes tgt
      in list_ex (isSameConnection src tgt (connect_source_handle sn tn c) (Some (connect_target_handle tn c))) eds)"

text \<open>A connection that \<open>onConnect\<close> does not refuse: it joins two nodes, does not touch the start node,
  comes from a handle with an id and is not success into retry.\<close>

definition accepted :: "flow_node list \<Rightarrow> connection \<Rightarrow> bool" where
  "accepted nodes c =
     (truthy (cn_source c) \<and> truthy (cn_target c) \<and> cn_target c \<noteq> Some START_NODE_ID \<and> cn_source c \<noteq> Some START_NODE_ID
      \<and> (let sn = node_by_id nodes (the (cn_source c)); tn = node_by_id nodes (the (cn_target c));
             sh = connect_source_handle sn tn c
         in truthy sh \<and> \<not> (is_type NRetry tn \<and> connect_outcome sn sh = Some Success)))"

text \<open>A connection from the start node to another node, and a connection that is refused.\<close>

definition from_start :: "connection \<Rightarrow> bool" where
  "from_start c = (cn_source c = Some START_NODE_ID \<and> truthy (cn_target c) \<and> cn_target c \<noteq> Some START_NODE_ID)"

definition refused :: "flow_node list \<Rightarrow> connection \<Rightarrow> bool" where
  "refused nodes c =
     (\<not> truthy (cn_source c) \<or> \<not> truthy (cn_target c) \<or> cn_target c = Some START_NODE_ID
      \<or> cn_source c \<noteq> Some START_NODE_ID
        \<and> (let sn = node_by_id nodes (the (cn_source c)); tn = node_by_id nodes (the (cn_target c))
           in is_type NRetry tn \<and> connect_outcome sn (connect_source_handle sn tn c) = Some Success))"

text \<open>A concrete \<open>addEdge\<close> and a concrete \<open>applyEdgeChanges\<close> that satisfy the laws.\<close>

definition plain_add_edge :: add_edge where
  "plain_add_edge mk eds =
     (let e = mk (''edge-'' @ show_nat (length eds)) in if connection_exists e eds then eds else eds @ [e])"

definition plain_node_changes :: apply_node_changes where
  "plain_node_changes chs ns =
     map (\<lambda>n. if NSelect (n_id n) True \<in> set chs then n\<lparr>n_selected := True\<rparr>
              else if NSelect (n_id n) False \<in> set chs then n\<lparr>n_selected := False\<rparr> else n)
       (filter (\<lambda>n. NRemove (n_id n) \<notin> set chs) ns)"

text \<open>React Flow 11 reports removals only when no edge is left.\<close>

definition plain_set_edges :: set_edges_report where
  "plain_set_edges cur next = (if next = [] then Inr (map (ChRemove \<circ> e_id) cur) else Inl next)"

definition plain_edge_changes :: apply_edge_changes where
  "plain_edge_changes chs eds =
     map (\<lambda>e. if ChSelect (e_id e) True \<in> set chs then e\<lparr>e_selected := True\<rparr>
              else if ChSelect (e_id e) False \<in> set chs then e\<lparr>e_selected := False\<rparr> else e)
       (filter (\<lambda>e. ChRemove (e_id e) \<notin> set chs) eds)"

lemma plain_add_edge_law: "add_edge_law plain_add_edge"
  unfolding add_edge_law_def
proof (intro allI)
  fix mk :: pending_edge and eds
  show "\<exists>i. plain_add_edge mk eds = (if connection_exists (mk i) eds then eds else eds @ [mk i])"
    by (rule exI[of _ "''edge-'' @ show_nat (length eds)"]) (simp add: plain_add_edge_def Let_def)
qed

lemma plain_edge_changes_law: "edge_changes_law plain_edge_changes"
  by (simp add: edge_changes_law_def plain_edge_changes_def list_all2_map1 same_ends_def list.rel_refl)

lemma plain_node_changes_law: "node_changes_law plain_node_changes"
  by (simp add: node_changes_law_def plain_node_changes_def list_all2_map1 same_node_def list.rel_refl)

lemma plain_set_edges_law: "set_edges_law plain_set_edges"
  by (simp add: set_edges_law_def plain_set_edges_def)

definition plain_react_flow :: react_flow where
  "plain_react_flow =
     \<lparr>rf_addEdge = plain_add_edge, rf_applyEdgeChanges = plain_edge_changes, rf_applyNodeChanges = plain_node_changes,
      rf_setEdges = plain_set_edges\<rparr>"

lemma plain_react_flow_law: "react_flow_law plain_react_flow"
  by (simp add: react_flow_law_def plain_react_flow_def plain_add_edge_law plain_edge_changes_law plain_node_changes_law
      plain_set_edges_law)

lemma truthy_same_handle: "truthy h \<Longrightarrow> same_handle x h = (x = h)"
  by (auto simp: same_handle_def)

lemma accepted_toggles:
  assumes "add_edge_law ae" "accepted nodes c"
  shows "joined nodes c (onConnect ae nodes c eds) \<longleftrightarrow> \<not> joined nodes c eds"
proof -
  from assms(2) obtain src tgt where st: "cn_source c = Some src" "cn_target c = Some tgt" "src \<noteq> []" "tgt \<noteq> []"
    "tgt \<noteq> START_NODE_ID" "src \<noteq> START_NODE_ID"
    by (auto simp: accepted_def truthy_def split: option.splits)
  define sn tn where n: "sn = node_by_id nodes src" "tn = node_by_id nodes tgt"
  define sh th where h: "sh = connect_source_handle sn tn c" "th = connect_target_handle tn c"
  let ?mk = "connect_edge sn src tgt sh th (connect_outcome sn sh)"
  have on: "onConnect ae nodes c eds =
      toggle_connection ae (is_type NRetry sn) (is_type NRetry tn) src tgt sh th ?mk eds"
    using assms(2) st by (auto simp: onConnect_def accepted_def Let_def n h)
  have j: "joined nodes c es = list_ex (isSameConnection src tgt sh (Some th)) es" for es
    by (simp add: joined_def Let_def st n h)
  from assms(2) have t: "truthy sh" "truthy (Some th)" by (simp_all add: accepted_def st n h Let_def)
  have added: "list_ex (isSameConnection src tgt sh (Some th)) (ae ?mk es)" for es
  proof -
    obtain i where i: "ae ?mk es = (if connection_exists (?mk i) es then es else es @ [?mk i])"
      using assms(1) unfolding add_edge_law_def by blast
    show ?thesis
      unfolding i using t by (auto simp: connection_exists_def truthy_same_handle isSameConnection_def list_ex_iff)
  qed
  show ?thesis
  proof (cases "list_ex (isSameConnection src tgt sh (Some th)) eds")
    case True
    then show ?thesis unfolding on j toggle_connection_def by (simp add: list_ex_iff)
  next
    case False
    then show ?thesis unfolding on j toggle_connection_def by (simp add: added Let_def)
  qed
qed

lemma from_start_replaces:
  assumes "add_edge_law ae" "from_start c"
  shows "\<exists>e. filter (\<lambda>x. e_source x = START_NODE_ID) (onConnect ae nodes c eds) = [e] \<and> Some (e_target e) = cn_target c
    \<and> e_targetHandle e = Some (connect_target_handle (node_by_id nodes (e_target e)) c)"
    and "filter (\<lambda>x. e_source x \<noteq> START_NODE_ID) (onConnect ae nodes c eds) = filter (\<lambda>x. e_source x \<noteq> START_NODE_ID) eds"
proof -
  from assms(2) obtain tgt where t: "cn_source c = Some START_NODE_ID" "cn_target c = Some tgt" "tgt \<noteq> START_NODE_ID" "tgt \<noteq> []"
    by (auto simp: from_start_def truthy_def split: option.splits)
  let ?rest = "filter (\<lambda>x. e_source x \<noteq> START_NODE_ID) eds"
  let ?mk = "start_edge tgt (orS (cn_sourceHandle c) ''state-out'') (connect_target_handle (node_by_id nodes tgt) c)"
  have "truthy (Some START_NODE_ID)" by code_simp
  with t have on: "onConnect ae nodes c eds = ae ?mk ?rest" by (simp add: onConnect_def Let_def)
  obtain i where "ae ?mk ?rest = (if connection_exists (?mk i) ?rest then ?rest else ?rest @ [?mk i])"
    using assms(1) unfolding add_edge_law_def by blast
  then have a: "onConnect ae nodes c eds = ?rest @ [?mk i]"
    unfolding on by (auto simp: connection_exists_def list_ex_iff)
  show "\<exists>e. filter (\<lambda>x. e_source x = START_NODE_ID) (onConnect ae nodes c eds) = [e] \<and> Some (e_target e) = cn_target c
    \<and> e_targetHandle e = Some (connect_target_handle (node_by_id nodes (e_target e)) c)"
    unfolding a using t(2) by (simp add: filter_empty_conv)
  show "filter (\<lambda>x. e_source x \<noteq> START_NODE_ID) (onConnect ae nodes c eds) = ?rest" unfolding a by simp
qed

lemma refused_unchanged: "refused nodes c \<Longrightarrow> onConnect ae nodes c eds = eds"
  by (auto simp: refused_def onConnect_def Let_def truthy_def split: option.splits)

text \<open>C6. What drawing a connection does, case by case. From a handle with an id, the start node apart, an accepted connection is
  a toggle: it joins the two handles exactly when they were not joined before, whatever edges it had to replace at
  the ports of a retry block. A connection from the start node replaces: it leaves exactly one edge from the start node,
  to the target of the connection, and all other edges. A refused connection (an end missing, into the start node,
  or a success outcome into a retry block) changes nothing.\<close>

theorem connect_toggles:
  assumes "add_edge_law ae"
  shows "(accepted nodes c \<longrightarrow> (joined nodes c (onConnect ae nodes c eds) \<longleftrightarrow> \<not> joined nodes c eds))
    \<and> (from_start c \<longrightarrow>
         (\<exists>e. filter (\<lambda>x. e_source x = START_NODE_ID) (onConnect ae nodes c eds) = [e] \<and> Some (e_target e) = cn_target c)
         \<and> filter (\<lambda>x. e_source x \<noteq> START_NODE_ID) (onConnect ae nodes c eds) = filter (\<lambda>x. e_source x \<noteq> START_NODE_ID) eds)
    \<and> (refused nodes c \<longrightarrow> onConnect ae nodes c eds = eds)"
  using accepted_toggles[OF assms] from_start_replaces[OF assms, of c nodes eds] refused_unchanged by blast

definition sample_node :: "string \<Rightarrow> node_type \<Rightarrow> end_state list \<Rightarrow> flow_node" where
  "sample_node i ty ess =
     \<lparr>n_id = i, n_type = ty, n_x = Fin 0, n_y = Fin 0, n_dragHandle = None, n_selected = False,
      n_data = no_data\<lparr>nd_endStates := Some ess\<rparr>\<rparr>"

definition sample_nodes :: "flow_node list" where
  "sample_nodes = [sample_node ''a'' NAction (drop_end_states [''idle'', ''error'']), sample_node ''r'' NRetry []]"

definition sample_connection :: connection where
  "sample_connection = \<lparr>cn_source = Some ''a'', cn_target = Some ''r'', cn_sourceHandle = None, cn_targetHandle = None\<rparr>"

theorem connect_toggles_witness:
  "accepted sample_nodes sample_connection \<and>
   joined sample_nodes sample_connection (onConnect plain_add_edge sample_nodes sample_connection [])
   \<and> (\<exists>e. filter (\<lambda>x. e_source x = START_NODE_ID)
             (onConnect plain_add_edge sample_nodes (sample_connection\<lparr>cn_source := Some START_NODE_ID\<rparr>) []) = [e])"
proof -
  have a: "accepted sample_nodes sample_connection" by code_simp
  have "\<not> joined sample_nodes sample_connection []" by code_simp
  moreover have "from_start (sample_connection\<lparr>cn_source := Some START_NODE_ID\<rparr>)" by code_simp
  ultimately show ?thesis using connect_toggles[OF plain_add_edge_law, of sample_nodes sample_connection "[]"]
      connect_toggles[OF plain_add_edge_law, of sample_nodes "sample_connection\<lparr>cn_source := Some START_NODE_ID\<rparr>" "[]"] a by blast
qed

section \<open>Spurious removals\<close>

lemma list_all2_member: "list_all2 P xs ys \<Longrightarrow> y \<in> set ys \<Longrightarrow> \<exists>x \<in> set xs. P x y"
  by (induction rule: list_all2_induct) auto

lemma filter_changes_blocked:
  assumes "i \<notin> set pending" "\<not> change_allowed nodes edges i"
  shows "ChRemove i \<notin> set (snd (filter_changes nodes edges pending chs))"
  using assms
  by (induction nodes edges pending chs rule: filter_changes.induct)
     (auto simp: Let_def case_prod_unfold split: if_splits)


definition sample_canvas :: canvas where
  "sample_canvas =
     \<lparr>cv_nodes = sample_nodes, cv_edges = onConnect plain_add_edge sample_nodes sample_connection [], cv_pending = [], cv_left = []\<rparr>"


section \<open>A retry connection that is refused\<close>

text \<open>
  \<open>onConnect\<close> picks the source handle of a connection into a retry block by the outcome inferred at the end
  state's own index, but judges the connection by the outcome inferred at index 0. An end state without
  an outcome or a keyword is a failure at index 1 and a success at index 0: the handle is chosen because
  it is a failure and the connection is then refused as a success.
\<close>

definition unnamed_end_states :: "end_state list" where
  "unnamed_end_states =
     [\<lparr>es_id = ''ok'', es_state = ''idle'', es_label = None, es_color = None, es_outcome = Some ''success''\<rparr>,
      \<lparr>es_id = ''other'', es_state = ''parked'', es_label = None, es_color = None, es_outcome = None\<rparr>]"

text \<open>A retry block cannot be attached to the (only) failure end state of an action when that end state
  has neither an outcome nor a keyword: the connection is dropped although the handle it resolves to is a
  failure for the save.\<close>

theorem retry_default_handle_refused:
  "let nodes = [sample_node ''a'' NAction unnamed_end_states, sample_node ''r'' NRetry []];
       sh = connect_source_handle (node_by_id nodes ''a'') (node_by_id nodes ''r'') sample_connection
   in sh = Some ''other'' \<and> inferOutcome (unnamed_end_states ! 1) 1 = Failed
      \<and> onConnect ae nodes sample_connection eds = eds"
proof -
  let ?nodes = "[sample_node ''a'' NAction unnamed_end_states, sample_node ''r'' NRetry []]"
  have sh: "connect_source_handle (node_by_id ?nodes ''a'') (node_by_id ?nodes ''r'') sample_connection = Some ''other''"
    and out: "connect_outcome (node_by_id ?nodes ''a'') (Some ''other'') = Some Success"
    and r: "is_type NRetry (node_by_id ?nodes ''r'')"
    and inf: "inferOutcome (unnamed_end_states ! 1) 1 = Failed"
    and c: "truthy (cn_source sample_connection)" "cn_source sample_connection = Some ''a''"
      "cn_target sample_connection = Some ''r''" "''a'' \<noteq> START_NODE_ID" "''r'' \<noteq> START_NODE_ID"
    by code_simp+
  then show ?thesis by (simp add: onConnect_def Let_def)
qed

end
