(* ===== verification/Graph_Save.thy ===== *)
theory Graph_Save
  imports Graph_Canvas
begin

text \<open>
  Saving the canvas: \<open>convertGraphToSteps\<close> compiles nodes and edges into the steps of a behavior tree,
  \<open>validateGraph\<close> lists what is missing and \<open>handleSave\<close> decides whether the save is sent
  (\<^verbatim>\<open>pages/ActionGraph/index.tsx\<close>, \<open>ActionGraphEditor\<close>).

  A retry node is no step: an edge from a failure end state into it becomes the object form of
  \<open>transition.on_failure\<close>. The lemmas give the steps, the entry point and the transitions of the result.
\<close>

section \<open>Retry blocks\<close>

definition retry_nodes :: "flow_node list \<Rightarrow> (string \<times> flow_node) list" where
  "retry_nodes nodes = map (\<lambda>n. (n_id n, n)) (filter (\<lambda>n. n_type n = NRetry) nodes)"

text \<open>\<open>retryNodes.get(id)\<close>: the last retry node with the id, as \<open>new Map(entries)\<close> keeps it.\<close>

definition retry_get :: "flow_node list \<Rightarrow> string \<Rightarrow> flow_node option" where
  "retry_get nodes i = map_of (rev (retry_nodes nodes)) i"

definition resolveRetryEdge :: "flow_edge list \<Rightarrow> string \<Rightarrow> string \<Rightarrow> string option" where
  "resolveRetryEdge edges retryNodeId sourceStepId =
     (let outs = outgoing edges retryNodeId;
          retryOutEdge = find (\<lambda>e. (e_sourceHandle e = Some ''retry-out'' \<or> e_sourceHandle e = Some ''state-out'')
                                    \<and> e_target e = sourceStepId) outs;
          failedFallbackEdge = find (\<lambda>e. e_sourceHandle e = Some ''retry-failed'') outs;
          warningFallbackEdge = find (\<lambda>e. e_sourceHandle e = Some ''retry-warning'') outs;
          legacyFallbackEdge = find (\<lambda>e. (\<not> truthy (e_sourceHandle e) \<or> e_sourceHandle e = Some ''state-out'')
                                    \<and> Some (e_id e) \<noteq> map_option e_id retryOutEdge
                                    \<and> e_target e \<noteq> sourceStepId) outs
      in orO (map_option e_target failedFallbackEdge)
           (orO (map_option e_target warningFallbackEdge) (map_option e_target legacyFallbackEdge)))"

record retry_config =
  rc_retry :: jsnum
  rc_backoff_ms :: jsnum
  rc_fallback :: "string option"
  rc_ui :: ui_position

definition finite_or_undefined :: "jsnum \<Rightarrow> jsnum option" where
  "finite_or_undefined x = (if isFinite x then Some x else None)"

definition resolveRetryTarget ::
  "flow_node list \<Rightarrow> flow_edge list \<Rightarrow> flow_node \<Rightarrow> flow_edge \<Rightarrow> string option \<times> retry_config option" where
  "resolveRetryTarget nodes edges node edge =
     (case retry_get nodes (e_target edge) of
        None \<Rightarrow> (Some (e_target edge), None)
      | Some retryNode \<Rightarrow>
          (let maxRetries = max0 (coalesce (nd_maxRetries (n_data retryNode)) (Fin 0));
               backoffMs = max0 (coalesce (nd_backoffMs (n_data retryNode)) (Fin 0));
               fallbackTarget = resolveRetryEdge edges (n_id retryNode) (n_id node)
           in (fallbackTarget,
               Some \<lparr>rc_retry = maxRetries, rc_backoff_ms = backoffMs, rc_fallback = fallbackTarget,
                     rc_ui = \<lparr>ui_x = finite_or_undefined (n_x retryNode),
                              ui_y = finite_or_undefined (n_y retryNode)\<rparr>\<rparr>)))"

section \<open>The transitions of one node\<close>

type_synonym trans_acc = "outcome_transition list \<times> retry_config option"

definition save_outcome :: "(string \<times> action_outcome) list \<Rightarrow> end_state \<Rightarrow> nat \<Rightarrow> action_outcome" where
  "save_outcome outcomes endState index =
     coalesce (normalizeOutcome (es_outcome endState))
       (coalesce (map_of outcomes (es_id endState)) (inferOutcome endState index))"

text \<open>The body of \<open>endStates.forEach\<close>.\<close>

definition end_state_step ::
  "flow_node list \<Rightarrow> flow_edge list \<Rightarrow> flow_node \<Rightarrow> (string \<times> action_outcome) list
   \<Rightarrow> nat \<times> end_state \<Rightarrow> trans_acc \<Rightarrow> trans_acc" where
  "end_state_step nodes edges node outcomes ies acc =
     (let (index, endState) = ies; (outcomeTransitions, failureRetryConfig) = acc
      in case find (\<lambda>e. e_sourceHandle e = Some (es_id endState)) (outgoing edges (n_id node)) of
           None \<Rightarrow> acc
         | Some edge \<Rightarrow>
             (let normalizedOutcome = save_outcome outcomes endState index;
                  (target, retryConfig) = resolveRetryTarget nodes edges node edge
              in if retryConfig \<noteq> None \<and> outcomeCategory normalizedOutcome \<noteq> CatSuccess
                 then (outcomeTransitions,
                       if failureRetryConfig = None then retryConfig else failureRetryConfig)
                 else let nextTarget = orS target (e_target edge)
                      in if nextTarget = [] then acc
                         else (outcomeTransitions @
                                 [\<lparr>ot_outcome = outcome_str normalizedOutcome, ot_next = Some nextTarget,
                                   ot_state = Some (es_state endState)\<rparr>],
                               failureRetryConfig)))"

definition node_transitions :: "flow_node list \<Rightarrow> flow_edge list \<Rightarrow> flow_node \<Rightarrow> trans_acc" where
  "node_transitions nodes edges node =
     (let endStates = arr (nd_endStates (n_data node));
          outcomes = cat_outcomes (categorizeEndStates endStates)
      in fold (end_state_step nodes edges node outcomes) (enumerate 0 endStates) ([], None))"

definition build_transition :: "trans_acc \<Rightarrow> transition" where
  "build_transition acc =
     (let (outcomeTransitions, failureRetryConfig) = acc;
          fallbackSuccess = find (\<lambda>t. ot_outcome t = ''success'') outcomeTransitions;
          fallbackFailure = find (\<lambda>t. ot_outcome t \<noteq> ''success'') outcomeTransitions;
          failureNext = Option.bind fallbackFailure ot_next
      in no_transition
           \<lparr>tr_on_success := map_option SuccStep (Option.bind fallbackSuccess ot_next),
            tr_on_failure :=
              (case failureRetryConfig of
                 Some rc \<Rightarrow> Some (FailConfig (no_failure_config
                   \<lparr>fc_retry := Some (rc_retry rc), fc_backoff_ms := Some (rc_backoff_ms rc),
                    fc_fallback := orO (rc_fallback rc) failureNext, fc_ui := Some (rc_ui rc)\<rparr>))
               | None \<Rightarrow> map_option FailStep failureNext),
            tr_on_outcomes := (if outcomeTransitions \<noteq> [] then Some outcomeTransitions else None)\<rparr>)"

section \<open>Steps\<close>

definition terminal_step :: "flow_node \<Rightarrow> terminal_subtype \<Rightarrow> graph_step" where
  "terminal_step node subtype =
     (let payload = eventSubtypeToTerminalPayload subtype (nd_debugMessage (n_data node))
      in (no_step (n_id node))
           \<lparr>gs_name := nd_label (n_data node), gs_type := Some ''terminal'',
            gs_terminal_type := Some (tp_terminal_type payload), gs_alert := Some (tp_alert payload),
            gs_message := tp_message payload,
            gs_ui := Some \<lparr>ui_x = Some (n_x node), ui_y = Some (n_y node)\<rparr>\<rparr>)"

definition save_params :: "node_data \<Rightarrow> step_params" where
  "save_params d =
     (case nd_fieldSources d of
        Some (f # fs) \<Rightarrow> \<lparr>sp_source = ''mapped'', sp_waypoint_id = None, sp_data = Some (arr (nd_params d)), sp_fields = None,
                          sp_field_sources = Some (f # fs)\<rparr>
      | _ \<Rightarrow> \<lparr>sp_source = ''inline'', sp_waypoint_id = None, sp_data = Some (arr (nd_params d)), sp_fields = None,
               sp_field_sources = None\<rparr>)"

definition save_action :: "node_data \<Rightarrow> step_action" where
  "save_action d =
     \<lparr>sa_type = orO (nd_actionType d) (nd_subtype d),
      sa_server = orO (Some (normalizeLegacyNamespaceServer (nd_server d))) (nd_server d),
      sa_capability_kind =
        Some (normalizeCapabilityKind (nd_capabilityKind d) (orO (nd_actionType d) (nd_subtype d))),
      sa_params = Some (save_params d),
      sa_timeout_sec = None, sa_result_schema = None\<rparr>"

definition action_step :: "flow_node list \<Rightarrow> flow_edge list \<Rightarrow> flow_node \<Rightarrow> graph_step" where
  "action_step nodes edges node =
     (let d = n_data node;
          endStates = arr (nd_endStates d);
          cat = categorizeEndStates endStates
      in (no_step (n_id node))
           \<lparr>gs_name := nd_label d,
            gs_ui := Some \<lparr>ui_x = Some (n_x node), ui_y = Some (n_y node)\<rparr>,
            gs_job_name := orO (nd_jobName d) None,
            gs_action := Some (save_action d),
            gs_end_states := Some endStates,
            gs_success_states := Some (if cat_successStates cat \<noteq> [] then cat_successStates cat
                                       else arr (nd_successStates d)),
            gs_failure_states := Some (if cat_failureStates cat \<noteq> [] then cat_failureStates cat
                                       else arr (nd_failureStates d)),
            gs_resource_acquire := Some (uniq (filter (\<lambda>r. r \<noteq> []) (arr (nd_resourceAcquire d)))),
            gs_resource_release := Some (uniq (filter (\<lambda>r. r \<noteq> []) (arr (nd_resourceRelease d)))),
            gs_transition := Some (build_transition (node_transitions nodes edges node))\<rparr>)"

text \<open>The body of \<open>nodes.forEach\<close>: the steps one node pushes.\<close>

definition node_steps :: "flow_node list \<Rightarrow> flow_edge list \<Rightarrow> flow_node \<Rightarrow> graph_step list" where
  "node_steps nodes edges node =
     (case n_type node of
        NEvent \<Rightarrow> (case Option.bind (nd_subtype (n_data node)) terminal_subtype_of of
                     Some subtype \<Rightarrow> [terminal_step node subtype]
                   | None \<Rightarrow> [])
      | NRetry \<Rightarrow> []
      | _ \<Rightarrow> [action_step nodes edges node])"

definition save_entry_point :: "flow_edge list \<Rightarrow> graph_step list \<Rightarrow> string option" where
  "save_entry_point edges steps =
     (let startTarget = map_option e_target (find (\<lambda>e. e_source e = START_NODE_ID) edges)
      in if truthy startTarget \<and> the startTarget \<in> set (map gs_id steps) then startTarget
         else case steps of [] \<Rightarrow> None | s # _ \<Rightarrow> Some (gs_id s))"

definition convertGraphToSteps ::
  "flow_node list \<Rightarrow> flow_edge list \<Rightarrow> graph_step list \<times> string option" where
  "convertGraphToSteps nodes edges =
     (let steps = concat (map (node_steps nodes edges) nodes)
      in (steps, save_entry_point edges steps))"

section \<open>Validation and the save decision\<close>

text \<open>The messages of \<open>validateGraph\<close>; the save is blocked by those that contain \<open>Action Type\<close> or
  \<open>Action Server\<close>, which are the two constructors \<open>NoActionType\<close> and \<open>NoActionServer\<close>.\<close>

datatype graph_error = StartNotConnected | NoActionNodes | NoActionType | NoActionServer | NoOutgoingEdge

record validation_error =
  ve_nodeId :: string
  ve_nodeName :: string
  ve_errors :: "graph_error list"

definition node_errors :: "flow_edge list \<Rightarrow> flow_node \<Rightarrow> graph_error list" where
  "node_errors edges node =
     (if \<not> truthy (nd_actionType (n_data node)) \<and> \<not> truthy (nd_subtype (n_data node)) then [NoActionType] else [])
     @ (if \<not> truthy (nd_server (n_data node)) then [NoActionServer] else [])
     @ (if outgoing edges (n_id node) = [] then [NoOutgoingEdge] else [])"

definition validateGraph :: "flow_node list \<Rightarrow> flow_edge list \<Rightarrow> validation_error list" where
  "validateGraph nodes edges =
     (let actionNodes = filter (\<lambda>n. n_type n = NAction) nodes
      in (if find (\<lambda>e. e_source e = START_NODE_ID) edges = None
          then [\<lparr>ve_nodeId = START_NODE_ID, ve_nodeName = ''Start'', ve_errors = [StartNotConnected]\<rparr>] else [])
         @ (if actionNodes = []
            then [\<lparr>ve_nodeId = ''__graph__'', ve_nodeName = ''Graph'', ve_errors = [NoActionNodes]\<rparr>] else [])
         @ concat (map (\<lambda>node.
             if node_errors edges node \<noteq> []
             then [\<lparr>ve_nodeId = n_id node, ve_nodeName = orS (nd_label (n_data node)) (n_id node),
                    ve_errors = node_errors edges node\<rparr>] else []) actionNodes))"

definition blocking :: "graph_error \<Rightarrow> bool" where
  "blocking e = (e = NoActionType \<or> e = NoActionServer)"

record save_request =
  sr_templateId :: string
  sr_steps :: "graph_step list"
  sr_entryPoint :: "string option"
  sr_planningTask :: planning_task_spec
  sr_lockSessionId :: string

datatype save_decision = NothingSelected | SaveBlocked | SaveDeclined | SaveSent save_request

text \<open>
  \<open>handleSave\<close>: the new validation errors (\<open>None\<close> when they are left alone) and what is sent. The
  answer to \<open>window.confirm\<close> is an argument.
\<close>

definition handleSave ::
  "string option \<Rightarrow> flow_node list \<Rightarrow> flow_edge list \<Rightarrow> planning_task_spec \<Rightarrow> string \<Rightarrow> bool
   \<Rightarrow> validation_error list option \<times> save_decision" where
  "handleSave selectedTemplateId nodes edges planningTask sessionId proceed =
     (if \<not> truthy selectedTemplateId then (None, NothingSelected)
      else let errors = validateGraph nodes edges
           in (Some errors,
               if list_ex (\<lambda>e. list_ex blocking (ve_errors e)) errors then SaveBlocked
               else if errors \<noteq> [] \<and> \<not> proceed then SaveDeclined
               else let (steps, entryPoint) = convertGraphToSteps nodes edges
                    in SaveSent \<lparr>sr_templateId = the selectedTemplateId, sr_steps = steps,
                                 sr_entryPoint = entryPoint, sr_planningTask = planningTask,
                                 sr_lockSessionId = sessionId\<rparr>))"

section \<open>What is saved\<close>

text \<open>The nodes that become steps: every node but retry blocks and start (or unknown) events.\<close>

definition becomes_step :: "flow_node \<Rightarrow> bool" where
  "becomes_step n =
     (case n_type n of
        NEvent \<Rightarrow> Option.bind (nd_subtype (n_data n)) terminal_subtype_of \<noteq> None
      | NRetry \<Rightarrow> False
      | _ \<Rightarrow> True)"

lemma action_step_id [simp]: "gs_id (action_step nodes edges n) = n_id n"
  by (simp add: action_step_def Let_def no_step_def)

lemma terminal_step_id [simp]: "gs_id (terminal_step n s) = n_id n"
  by (simp add: terminal_step_def Let_def no_step_def)

lemma node_steps_ids: "map gs_id (node_steps nodes edges n) = (if becomes_step n then [n_id n] else [])"
  by (auto simp: node_steps_def becomes_step_def split: node_type.splits option.splits)

lemma concat_map_if: "concat (map (\<lambda>x. if P x then [f x] else []) xs) = map f (filter P xs)"
  by (induction xs) auto

lemma saved_ids:
  "map gs_id (fst (convertGraphToSteps nodes edges)) = map n_id (filter becomes_step nodes)"
  by (simp add: convertGraphToSteps_def Let_def map_concat comp_def node_steps_ids concat_map_if)

lemma save_entry_point_in:
  "steps \<noteq> [] \<Longrightarrow> \<exists>i. save_entry_point edges steps = Some i \<and> i \<in> set (map gs_id steps)"
  by (cases steps) (auto simp: save_entry_point_def Let_def truthy_def split: option.splits)

lemma snd_convert: "snd (convertGraphToSteps nodes edges) = save_entry_point edges (fst (convertGraphToSteps nodes edges))"
  by (simp add: convertGraphToSteps_def Let_def)

subsection \<open>The invariant of the transition loop\<close>

text \<open>What one outcome transition says of the canvas: it comes from an end state with an edge, and a
  failure outcome never passes through a retry block.\<close>

definition transition_of ::
  "flow_node list \<Rightarrow> flow_edge list \<Rightarrow> flow_node \<Rightarrow> outcome_transition \<Rightarrow> bool" where
  "transition_of nodes edges node t =
     (\<exists>es e out. es \<in> set (arr (nd_endStates (n_data node))) \<and> e \<in> set (outgoing edges (n_id node))
        \<and> e_sourceHandle e = Some (es_id es) \<and> ot_state t = Some (es_state es) \<and> ot_outcome t = outcome_str out
        \<and> (if retry_get nodes (e_target e) = None then ot_next t = Some (e_target e) \<and> e_target e \<noteq> []
           else out = Success))"

lemma end_state_step_inv:
  assumes "\<And>t. t \<in> set (fst acc) \<Longrightarrow> transition_of nodes edges node t"
    and "(i, es) \<in> set (enumerate 0 (arr (nd_endStates (n_data node))))"
    and "t \<in> set (fst (end_state_step nodes edges node outs (i, es) acc))"
  shows "transition_of nodes edges node t"
proof -
  obtain ts rc where acc: "acc = (ts, rc)" by (cases acc)
  from assms(2) have es: "es \<in> set (arr (nd_endStates (n_data node)))"
    by (rule snd_in_set_enumerate)
  show ?thesis
  proof (cases "find (\<lambda>e. e_sourceHandle e = Some (es_id es)) (outgoing edges (n_id node))")
    case None
    with assms(1,3) show ?thesis by (simp add: end_state_step_def)
  next
    case (Some e)
    from find_SomeD[OF Some] have e: "e \<in> set (outgoing edges (n_id node))" "e_sourceHandle e = Some (es_id es)"
      by simp_all
    show ?thesis
    proof (cases "t \<in> set ts")
      case True
      with assms(1) acc show ?thesis by simp
    next
      case False
      with assms(3) Some acc es e show ?thesis
        unfolding transition_of_def end_state_step_def resolveRetryTarget_def
        by (cases "retry_get nodes (e_target e)")
           (auto simp: Let_def orS_def split: if_splits option.splits
                 intro!: exI[of _ es] exI[of _ e] exI[of _ "save_outcome outs es i"])
    qed
  qed
qed

lemma fold_end_states_inv:
  "(\<And>t. t \<in> set (fst acc) \<Longrightarrow> transition_of nodes edges node t) \<Longrightarrow>
   set xs \<subseteq> set (enumerate 0 (arr (nd_endStates (n_data node)))) \<Longrightarrow>
   t \<in> set (fst (fold (end_state_step nodes edges node outs) xs acc)) \<Longrightarrow> transition_of nodes edges node t"
proof (induction xs arbitrary: acc)
  case (Cons x xs)
  obtain i es where x: "x = (i, es)" by (cases x)
  show ?case
    by (rule Cons.IH[where acc = "end_state_step nodes edges node outs x acc"])
       (use Cons.prems x in \<open>auto intro: end_state_step_inv\<close>)
qed simp

lemma node_transitions_inv:
  "t \<in> set (fst (node_transitions nodes edges node)) \<Longrightarrow> transition_of nodes edges node t"
  unfolding node_transitions_def Let_def by (erule fold_end_states_inv[rotated 2]) auto

section \<open>Properties of a save\<close>

text \<open>A saved task with steps always has an entry point, it is one of the saved steps, it is the step the
  start node points to when the first entry edge leads to a step, and the first step otherwise.\<close>

theorem saved_entry_point:
  assumes "convertGraphToSteps nodes edges = (steps, entry)" "steps \<noteq> []"
  shows "\<exists>i. entry = Some i \<and> i \<in> set (map gs_id steps)
     \<and> (case find (\<lambda>e. e_source e = START_NODE_ID) edges of
          None \<Rightarrow> i = gs_id (hd steps)
        | Some e \<Rightarrow> i = (if e_target e \<noteq> [] \<and> e_target e \<in> set (map gs_id steps) then e_target e else gs_id (hd steps)))"
proof -
  have e: "entry = save_entry_point edges steps"
    using assms(1) by (auto simp: convertGraphToSteps_def Let_def)
  show ?thesis
    using assms(2) unfolding e save_entry_point_def Let_def
    by (cases steps; cases "find (\<lambda>e. e_source e = START_NODE_ID) edges") auto
qed

text \<open>A canvas of one terminal node and the edge into it.\<close>

definition end_node :: flow_node where
  "end_node = \<lparr>n_id = ''done'', n_type = NEvent, n_x = Fin 0, n_y = Fin 0, n_dragHandle = None, n_selected = False,
     n_data = no_data\<lparr>nd_subtype := Some ''End''\<rparr>\<rparr>"

definition entry_edge :: flow_edge where
  "entry_edge = smoothstep ''e'' START_NODE_ID ''done'' None None START_NODE_COLOR None"

theorem saved_entry_point_witness:
  "snd (convertGraphToSteps [end_node] [entry_edge]) = Some ''done''"
proof -
  obtain steps entry where c: "convertGraphToSteps [end_node] [entry_edge] = (steps, entry)" by (metis prod.exhaust)
  have "map gs_id steps = [''done'']"
    using saved_ids[of "[end_node]" "[entry_edge]"] c
    by (simp add: end_node_def becomes_step_def terminal_subtype_of_def)
  then show ?thesis
    using saved_entry_point[OF c] c by (auto simp: entry_edge_def)
qed

text \<open>C7. With a task selected, the save is blocked exactly when some action node has no action type and no
  subtype, or no server; every other problem of the graph only asks for confirmation, and without one the
  request carries the compiled graph under the editor's lock session.\<close>

theorem save_decision_correct:
  assumes "truthy template"
  shows "snd (handleSave template nodes edges pt session proceed) =
     (if \<exists>n \<in> set nodes. n_type n = NAction \<and>
           ((\<not> truthy (nd_actionType (n_data n)) \<and> \<not> truthy (nd_subtype (n_data n))) \<or> \<not> truthy (nd_server (n_data n)))
      then SaveBlocked
      else if validateGraph nodes edges \<noteq> [] \<and> \<not> proceed then SaveDeclined
      else SaveSent \<lparr>sr_templateId = the template, sr_steps = fst (convertGraphToSteps nodes edges),
                     sr_entryPoint = snd (convertGraphToSteps nodes edges), sr_planningTask = pt,
                     sr_lockSessionId = session\<rparr>)"
proof -
  have b: "list_ex blocking (node_errors edges n) \<longleftrightarrow>
      (\<not> truthy (nd_actionType (n_data n)) \<and> \<not> truthy (nd_subtype (n_data n))) \<or> \<not> truthy (nd_server (n_data n))" for n
    by (simp add: node_errors_def blocking_def)
  have "list_ex (\<lambda>e. list_ex blocking (ve_errors e)) (validateGraph nodes edges) \<longleftrightarrow>
      (\<exists>n \<in> set nodes. n_type n = NAction \<and> list_ex blocking (node_errors edges n))"
  proof -
    have "list_ex (\<lambda>e. list_ex blocking (ve_errors e)) (validateGraph nodes edges) \<longleftrightarrow>
        (\<exists>n \<in> set nodes. n_type n = NAction \<and> node_errors edges n \<noteq> [] \<and> list_ex blocking (node_errors edges n))"
      unfolding validateGraph_def Let_def concat_map_if 
      by (auto simp: Bex_set[symmetric] bex_Un blocking_def[of StartNotConnected] blocking_def[of NoActionNodes])
    then show ?thesis by fastforce
  qed
  with b show ?thesis using assms by (simp add: handleSave_def Let_def case_prod_unfold)
qed

definition no_planning_task :: planning_task_spec where
  "no_planning_task =
     \<lparr>pt_preconditions = None, pt_required_resources = None, pt_during_state = None, pt_result_states = None,
      pt_warning_result_states = None, pt_error_result_states = None, pt_warning_message_variable = None,
      pt_error_message_variable = None\<rparr>"

theorem save_decision_correct_witness:
  "snd (handleSave (Some ''t'') [end_node\<lparr>n_type := NAction\<rparr>] [] no_planning_task ''s'' True) = SaveBlocked"
  using save_decision_correct[of "Some ''t''" "[end_node\<lparr>n_type := NAction\<rparr>]" "[]" no_planning_task "''s''" True]
  by (simp add: end_node_def no_data_def)

end
