(* ===== verification/Graph_Roundtrip.thy ===== *)
theory Graph_Roundtrip
  imports Graph_Save Graph_Load
begin

text \<open>
  Opening a task and saving it again. \<open>canonical_task\<close> describes the tasks the editor itself writes (every
  field the save fills, nothing else; transitions in the order of the end states; retry blocks with their
  stored position); for those the round trip through the canvas is the identity. The last section shows
  what happens outside that set, where the loader drops information.
\<close>

section \<open>Canonical tasks\<close>

definition canonical_end_states :: "end_state list \<Rightarrow> bool" where
  "canonical_end_states ess =
     (distinct (map es_id ess) \<and> distinct (map (\<lambda>e. (normalizeOutcome (es_outcome e), es_state e)) ess)
      \<and> list_all (\<lambda>e. normalizeOutcome (es_outcome e) \<noteq> None \<and> es_state e \<noteq> []) ess)"

definition key_matches :: "end_state \<Rightarrow> outcome_transition \<Rightarrow> bool" where
  "key_matches es t =
     (map_option outcome_str (normalizeOutcome (es_outcome es)) = Some (ot_outcome t)
      \<and> ot_state t = Some (es_state es))"

text \<open>The transition of each end state that has one, in the order of the end states.\<close>

definition along :: "end_state list \<Rightarrow> outcome_transition list \<Rightarrow> outcome_transition list" where
  "along ess ots = concat (map (\<lambda>es. case find (key_matches es) ots of None \<Rightarrow> [] | Some t \<Rightarrow> [t]) ess)"

definition canonical_outcomes :: "string list \<Rightarrow> end_state list \<Rightarrow> outcome_transition list \<Rightarrow> bool" where
  "canonical_outcomes ids ess ots =
     (along ess ots = ots \<and> list_all (\<lambda>t. truthy (ot_next t) \<and> the (ot_next t) \<in> set ids) ots)"

definition is_failure_end :: "end_state \<Rightarrow> bool" where
  "is_failure_end es = (normalizeOutcome (es_outcome es) \<noteq> Some Success)"

definition canonical_retry :: "string list \<Rightarrow> string \<Rightarrow> end_state list \<Rightarrow> outcome_transition list \<Rightarrow> retry_config \<Rightarrow> bool" where
  "canonical_retry ids sid ess ots rc =
     ((gt0 (rc_retry rc) \<or> gt0 (rc_backoff_ms rc)) \<and> max0 (rc_retry rc) = rc_retry rc
      \<and> max0 (rc_backoff_ms rc) = rc_backoff_ms rc
      \<and> finite_opt (ui_x (rc_ui rc)) \<noteq> None \<and> finite_opt (ui_y (rc_ui rc)) \<noteq> None
      \<and> (case rc_fallback rc of None \<Rightarrow> True | Some f \<Rightarrow> f \<noteq> [] \<and> f \<in> set ids \<and> f \<noteq> sid)
      \<and> list_all (\<lambda>t. ot_outcome t = ''success'') ots \<and> list_ex is_failure_end ess)"

text \<open>The retry configuration a transition carries.\<close>

definition retry_of :: "transition \<Rightarrow> retry_config option" where
  "retry_of tr =
     (case tr_on_failure tr of
        Some (FailConfig c) \<Rightarrow>
          Some \<lparr>rc_retry = coalesce (fc_retry c) (Fin 0), rc_backoff_ms = coalesce (fc_backoff_ms c) (Fin 0),
                rc_fallback = fc_fallback c, rc_ui = coalesce (fc_ui c) \<lparr>ui_x = None, ui_y = None\<rparr>\<rparr>
      | _ \<Rightarrow> None)"

definition canonical_transition :: "string list \<Rightarrow> string \<Rightarrow> end_state list \<Rightarrow> transition \<Rightarrow> bool" where
  "canonical_transition ids sid ess tr =
     (let ots = arr (tr_on_outcomes tr)
      in tr = build_transition (ots, retry_of tr)
         \<and> canonical_outcomes ids ess ots
         \<and> (case retry_of tr of None \<Rightarrow> True | Some rc \<Rightarrow> canonical_retry ids sid ess ots rc))"

definition canonical_params :: "step_params \<Rightarrow> bool" where
  "canonical_params p =
     (sp_waypoint_id p = None \<and> sp_data p \<noteq> None \<and> sp_fields p = None
      \<and> (case sp_field_sources p of
           None \<Rightarrow> sp_source p = ''inline''
         | Some fs \<Rightarrow> fs \<noteq> [] \<and> sp_source p = ''mapped''))"

definition canonical_action :: "load_context \<Rightarrow> graph_step \<Rightarrow> step_action \<Rightarrow> bool" where
  "canonical_action cx step a =
     (truthy (sa_type a) \<and> normal_server (sa_server a)
      \<and> (sa_capability_kind a = Some ''action'' \<or> sa_capability_kind a = Some ''service'')
      \<and> (case sa_params a of None \<Rightarrow> False | Some p \<Rightarrow> canonical_params p)
      \<and> sa_timeout_sec a = None \<and> sa_result_schema a = None
      \<and> snd (load_color_type cx step) = sa_type a)"

definition canonical_set :: "string list option \<Rightarrow> bool" where
  "canonical_set v = (case v of None \<Rightarrow> False | Some xs \<Rightarrow> distinct xs \<and> [] \<notin> set xs)"

definition canonical_action_step :: "load_context \<Rightarrow> string list \<Rightarrow> graph_step \<Rightarrow> bool" where
  "canonical_action_step cx ids s =
     (s = (no_step (gs_id s))
            \<lparr>gs_name := gs_name s, gs_ui := gs_ui s, gs_job_name := gs_job_name s, gs_action := gs_action s,
             gs_end_states := gs_end_states s, gs_success_states := gs_success_states s,
             gs_failure_states := gs_failure_states s, gs_resource_acquire := gs_resource_acquire s,
             gs_resource_release := gs_resource_release s, gs_transition := gs_transition s\<rparr>
      \<and> truthy (gs_name s) \<and> truthy (gs_job_name s) \<and> stored_position s \<noteq> None
      \<and> (case gs_action s of None \<Rightarrow> False | Some a \<Rightarrow> canonical_action cx s a)
      \<and> canonical_set (gs_resource_acquire s) \<and> canonical_set (gs_resource_release s)
      \<and> (case (gs_end_states s, gs_success_states s, gs_failure_states s, gs_transition s) of
           (Some ess, Some ss, Some fs, Some tr) \<Rightarrow>
             canonical_end_states ess
             \<and> (let cat = categorizeEndStates ess
                in (cat_successStates cat \<noteq> [] \<longrightarrow> ss = cat_successStates cat)
                   \<and> (cat_failureStates cat \<noteq> [] \<longrightarrow> fs = cat_failureStates cat))
             \<and> canonical_transition ids (gs_id s) ess tr
         | _ \<Rightarrow> False))"

definition canonical_terminal_step :: "graph_step \<Rightarrow> bool" where
  "canonical_terminal_step s =
     (s = (no_step (gs_id s))
            \<lparr>gs_name := gs_name s, gs_ui := gs_ui s, gs_type := Some ''terminal'',
             gs_terminal_type := gs_terminal_type s, gs_alert := gs_alert s, gs_message := gs_message s\<rparr>
      \<and> truthy (gs_name s) \<and> stored_position s \<noteq> None
      \<and> (gs_terminal_type s, gs_alert s) \<in>
          {(Some ''failure'', Some True), (Some ''success'', Some True), (Some ''success'', Some False)}
      \<and> (case gs_message s of None \<Rightarrow> True | Some m \<Rightarrow> m \<noteq> [] \<and> trimmed m))"

definition canonical_task :: "load_context \<Rightarrow> behavior_tree \<Rightarrow> bool" where
  "canonical_task cx g =
     (let steps = arr (bt_steps g); ids = map gs_id steps
      in distinct ids \<and> START_NODE_ID \<notin> set ids
         \<and> list_all (\<lambda>i. retry_id i \<notin> set ids) ids
         \<and> list_all (\<lambda>s. canonical_terminal_step s \<or> canonical_action_step cx ids s) steps
         \<and> (if steps = [] then bt_entry_point g = None
            else truthy (bt_entry_point g) \<and> the (bt_entry_point g) \<in> set ids))"

section \<open>Loading canonical end states\<close>

lemma key_matchesD:
  assumes "key_matches es t"
  shows "normalizeOutcome (es_outcome es) = Some (load_outcome t)" "ot_outcome t = outcome_str (load_outcome t)"
    "ot_state t = Some (es_state es)"
proof -
  from assms obtain y where y: "normalizeOutcome (es_outcome es) = Some y" "ot_outcome t = outcome_str y"
    by (auto simp: key_matches_def)
  then show "normalizeOutcome (es_outcome es) = Some (load_outcome t)" "ot_outcome t = outcome_str (load_outcome t)"
    by simp_all
  show "ot_state t = Some (es_state es)" using assms by (simp add: key_matches_def)
qed

lemma canonical_end_states_match:
  assumes "canonical_end_states ess" "es \<in> set ess" "key_matches es t"
  shows "find (end_state_matches i t) ess = Some es"
proof (rule find_unique)
  from assms have s: "es_state es \<noteq> []" "normalizeOutcome (es_outcome es) \<noteq> None"
    by (auto simp: canonical_end_states_def list_all_iff)
  show "end_state_matches i t es"
    using key_matchesD[OF assms(3)] by (simp add: end_state_matches_def resolved_outcome_def)
  fix y assume y: "y \<in> set ess" "end_state_matches i t y"
  from assms(1) y(1) have n: "normalizeOutcome (es_outcome y) \<noteq> None"
    by (auto simp: canonical_end_states_def list_all_iff)
  with y(2) assms(3) s
  have "(normalizeOutcome (es_outcome y), es_state y) = (normalizeOutcome (es_outcome es), es_state es)"
    using key_matchesD[OF assms(3)] by (auto simp: end_state_matches_def resolved_outcome_def)
  with assms(1,2) y(1) show "y = es"
    by (auto simp: canonical_end_states_def distinct_map dest: inj_onD)
qed (rule assms(2))

lemma along_member:
  assumes "along ess ots = ots" "t \<in> set ots"
  obtains es where "es \<in> set ess" "key_matches es t"
proof -
  from assms have "t \<in> set (along ess ots)" by simp
  then obtain es where "es \<in> set ess" "find (key_matches es) ots = Some t"
    by (auto simp: along_def split: option.splits)
  with that show thesis by (auto dest: find_SomeD)
qed

lemma enrich_canonical:
  assumes "canonical_end_states ess" "along ess ots = ots" "set xs \<subseteq> set (enumerate 0 ots)"
  shows "fold (enrich_step cx s) xs ess = ess"
  using assms(3)
proof (induction xs)
  case (Cons x xs)
  obtain i t where x: "x = (i, t)" by (cases x)
  with Cons.prems have "t \<in> set ots" by (auto dest: snd_in_set_enumerate)
  then obtain es where "es \<in> set ess" "key_matches es t" by (rule along_member[OF assms(2)])
  then have "find (end_state_matches i t) ess = Some es"
    by (rule canonical_end_states_match[OF assms(1)])
  with Cons x show ?case by (simp add: enrich_step_def)
qed simp

lemma canonical_keys_eq:
  assumes "canonical_end_states ess" "es \<in> set ess" "es' \<in> set ess" "key_matches es t" "key_matches es' t"
  shows "es = es'"
  using canonical_end_states_match[OF assms(1,2,4)] canonical_end_states_match[OF assms(1,3,5)] by simp

lemma canonical_ids_eq:
  "canonical_end_states ess \<Longrightarrow> es \<in> set ess \<Longrightarrow> es' \<in> set ess \<Longrightarrow> es_id es = es_id es' \<Longrightarrow> es = es'"
  by (auto simp: canonical_end_states_def distinct_map dest: inj_onD)

section \<open>The edges of a canonical step\<close>

lemma outcome_edge_handle:
  assumes "canonical_end_states ess" "es \<in> set ess" "key_matches es t"
  shows "e_sourceHandle (outcome_edge s ess i t tg) = Some (es_id es)"
  by (simp add: outcome_edge_def canonical_end_states_match[OF assms])

abbreviation own_edges :: "graph_step \<Rightarrow> end_state list \<Rightarrow> (nat \<times> outcome_transition) list \<Rightarrow> flow_edge list" where
  "own_edges s ess its \<equiv> map (\<lambda>(i, t). outcome_edge s ess i t (the (ot_next t))) its"

text \<open>When no transition needs the retry block the loop emits one edge per transition.\<close>

lemma outcome_fold_plain:
  "\<forall>(i, t) \<in> set its. truthy (ot_next t) \<and> (has_retry s \<longrightarrow> load_outcome t = Success) \<Longrightarrow>
   fold (outcome_edge_step s ess) its (es, b) = (es @ own_edges s ess its, b)"
  by (induction its arbitrary: es) (auto simp: outcome_edge_step_def)

text \<open>Searching the emitted edges by handle is searching the transitions by end state.\<close>

lemma find_own_edge:
  assumes "canonical_end_states ess" "es \<in> set ess"
    and "\<And>i t. (i, t) \<in> set its \<Longrightarrow> \<exists>es' \<in> set ess. key_matches es' t"
  shows "map_option e_target (find (\<lambda>e. e_sourceHandle e = Some (es_id es)) (own_edges s ess its)) =
         map_option (the \<circ> ot_next) (find (key_matches es) (map snd its))"
  using assms(3)
proof (induction its)
  case (Cons x its)
  obtain i t where x: "x = (i, t)" by (cases x)
  from Cons.prems[of i t] x obtain es' where es': "es' \<in> set ess" "key_matches es' t" by auto
  have "e_sourceHandle (outcome_edge s ess i t (the (ot_next t))) = Some (es_id es) \<longleftrightarrow> key_matches es t"
    using outcome_edge_handle[OF assms(1) es'] canonical_ids_eq[OF assms(1) es'(1) assms(2)]
      canonical_keys_eq[OF assms(1) assms(2) es'(1) _ es'(2)] es'(2) by auto
  with Cons x show ?case by auto
qed simp

section \<open>The save loop over canonical end states\<close>

lemma end_state_step_none:
  "find (\<lambda>e. e_sourceHandle e = Some (es_id es)) (outgoing edges (n_id node)) = None \<Longrightarrow>
   end_state_step nodes edges node outs (i, es) acc = acc"
  by (simp add: end_state_step_def Let_def)

lemma end_state_step_plain:
  assumes "map_option e_target (find (\<lambda>e. e_sourceHandle e = Some (es_id es)) (outgoing edges (n_id node))) = Some g"
    and "retry_get nodes g = None" "g \<noteq> []"
  shows "end_state_step nodes edges node outs (i, es) acc =
    (fst acc @ [\<lparr>ot_outcome = outcome_str (save_outcome outs es i), ot_next = Some g,
                 ot_state = Some (es_state es)\<rparr>], snd acc)"
  using assms by (auto simp: end_state_step_def resolveRetryTarget_def Let_def case_prod_unfold)

definition config_of :: "flow_edge list \<Rightarrow> flow_node \<Rightarrow> flow_node \<Rightarrow> retry_config" where
  "config_of edges node rn =
     \<lparr>rc_retry = max0 (coalesce (nd_maxRetries (n_data rn)) (Fin 0)),
      rc_backoff_ms = max0 (coalesce (nd_backoffMs (n_data rn)) (Fin 0)),
      rc_fallback = resolveRetryEdge edges (n_id rn) (n_id node),
      rc_ui = \<lparr>ui_x = finite_or_undefined (n_x rn), ui_y = finite_or_undefined (n_y rn)\<rparr>\<rparr>"

lemma end_state_step_retry:
  assumes "map_option e_target (find (\<lambda>e. e_sourceHandle e = Some (es_id es)) (outgoing edges (n_id node))) = Some g"
    and "retry_get nodes g = Some rn" "save_outcome outs es i \<noteq> Success"
  shows "end_state_step nodes edges node outs (i, es) acc =
    (fst acc, if snd acc = None then Some (config_of edges node rn) else snd acc)"
  using assms
  by (auto simp: end_state_step_def resolveRetryTarget_def config_of_def Let_def case_prod_unfold prod_eq_iff)

text \<open>If every end state contributes \<open>f\<close> and \<open>g\<close> independently of the others, so does the loop.\<close>

lemma fold_end_states:
  assumes "\<And>i es acc. (i, es) \<in> set (enumerate k ess) \<Longrightarrow>
      h (i, es) acc = (fst acc @ f es, if snd acc = None then g es else snd acc)"
  shows "fold h (enumerate k ess) acc =
    (fst acc @ concat (map f ess),
     if snd acc = None then Option.bind (find (\<lambda>es. g es \<noteq> None) ess) g else snd acc)"
  using assms
proof (induction ess arbitrary: k acc)
  case (Cons es ess)
  have "h (k, es) acc = (fst acc @ f es, if snd acc = None then g es else snd acc)"
    by (rule Cons.prems) simp
  moreover have "fold h (enumerate (Suc k) ess) acc' =
    (fst acc' @ concat (map f ess),
     if snd acc' = None then Option.bind (find (\<lambda>es. g es \<noteq> None) ess) g else snd acc')" for acc'
    by (rule Cons.IH) (use Cons.prems in auto)
  ultimately show ?case by auto
qed (simp add: prod_eq_iff)

lemma save_outcome_normalized:
  "normalizeOutcome (es_outcome es) = Some out \<Longrightarrow> save_outcome outs es i = out"
  by (simp add: save_outcome_def)

section \<open>The retry block of a canonical step\<close>

lemma canonical_success_only:
  assumes "list_all (\<lambda>t. ot_outcome t = ''success'') ots"
  shows "find (\<lambda>t. ot_outcome t \<noteq> ''success'') ots = None"
  using assms by (auto simp: list_all_iff intro: find_eq_NoneI)

lemma canonical_with_retry:
  assumes "gs_transition s = Some tr" "tr = build_transition (ots, retry_of tr)" "retry_of tr = Some rc"
    and "canonical_retry ids sid ess ots rc"
  shows "retry_count s = rc_retry rc" "retry_backoff s = rc_backoff_ms rc" "has_retry s"
    "retry_fallback s = coalesce (rc_fallback rc) []" "fc_ui (failure_config s) = Some (rc_ui rc)"
    "fail_truthy (tr_on_failure tr)"
proof -
  from assms(4) have so: "find (\<lambda>t. ot_outcome t \<noteq> ''success'') ots = None"
    by (intro canonical_success_only) (simp add: canonical_retry_def)
  let ?c = "no_failure_config\<lparr>fc_retry := Some (rc_retry rc), fc_backoff_ms := Some (rc_backoff_ms rc),
      fc_fallback := orO (rc_fallback rc) None, fc_ui := Some (rc_ui rc)\<rparr>"
  from assms(2,3) so have tf: "tr_on_failure tr = Some (FailConfig ?c)"
    by (subst assms(2)) (simp add: build_transition_def Let_def no_transition_def)
  then have fc: "failure_config s = ?c" using assms(1) by (simp add: failure_config_def)
  show "retry_count s = rc_retry rc" "retry_backoff s = rc_backoff_ms rc"
    using assms(4) by (simp_all add: retry_count_def retry_backoff_def fc canonical_retry_def)
  then show "has_retry s" using assms(4) by (simp add: has_retry_def canonical_retry_def)
  show "retry_fallback s = coalesce (rc_fallback rc) []"
    using assms(4) by (auto simp: retry_fallback_def fc canonical_retry_def orO_def no_failure_config_def
        coalesce_def truthy_def split: option.splits)
  show "fc_ui (failure_config s) = Some (rc_ui rc)" by (simp add: fc)
  show "fail_truthy (tr_on_failure tr)" by (simp add: tf fail_truthy_def)
qed

lemma canonical_without_retry:
  assumes "gs_transition s = Some tr" "retry_of tr = None"
  shows "\<not> has_retry s"
  using assms
  by (auto simp: has_retry_def retry_count_def retry_backoff_def failure_config_def retry_of_def
      no_failure_config_def split: option.splits on_failure.splits)

lemma failure_handle:
  assumes "canonical_end_states ess"
  shows "handle_of_category ess CatFailure = map_option es_id (find is_failure_end ess)"
proof -
  have "find (\<lambda>(idx, es). outcomeCategory (resolved_outcome es idx) = CatFailure) (enumerate 0 ess) =
        find (\<lambda>(idx, es). is_failure_end es) (enumerate 0 ess)"
  proof (rule find_cong_set)
    fix x assume "x \<in> set (enumerate 0 ess)"
    then have "snd x \<in> set ess" by (metis prod.collapse snd_in_set_enumerate)
    with assms obtain out where "normalizeOutcome (es_outcome (snd x)) = Some out"
      by (auto simp: canonical_end_states_def list_all_iff)
    then show "(case x of (idx, es) \<Rightarrow> outcomeCategory (resolved_outcome es idx) = CatFailure) =
               (case x of (idx, es) \<Rightarrow> is_failure_end es)"
      by (auto simp: resolved_outcome_def is_failure_end_def split: prod.splits)
  qed
  then show ?thesis
    by (simp add: handle_of_category_def find_enumerate flip: option.map_comp)
qed

text \<open>The edges that leave a canonical step, as the save loop finds them.\<close>

definition retry_input_of :: "graph_step \<Rightarrow> end_state list \<Rightarrow> flow_edge list" where
  "retry_input_of s ess =
     (if has_retry s then [retry_input_edge s (map_option es_id (find is_failure_end ess))] else [])"

lemma outgoing_own [simp]: "outgoing (own_edges s ess its) (gs_id s) = own_edges s ess its"
  by (induction its) (auto simp: outgoing_def)

lemma outgoing_own_retry [simp]: "outgoing (own_edges s ess its) (retry_id (gs_id s)) = []"
  by (induction its) (auto simp: outgoing_def)

lemma outgoing_retry_parts [simp]:
  "outgoing (retry_loop_edges s) (gs_id s) = []"
  "outgoing (retry_fallback_edges steps s) (gs_id s) = []"
  "outgoing (retry_input_of s ess) (gs_id s) = retry_input_of s ess"
  "outgoing (retry_loop_edges s) (retry_id (gs_id s)) = retry_loop_edges s"
  "outgoing (retry_fallback_edges steps s) (retry_id (gs_id s)) = retry_fallback_edges steps s"
  "outgoing (retry_input_of s ess) (retry_id (gs_id s)) = []"
  by (auto simp: outgoing_def retry_loop_edges_def retry_input_of_def retry_input_edge_def filter_empty_conv
           intro!: filter_True dest!: fallback_edges_source)

lemma canonical_step_edges:
  assumes tr: "gs_transition s = Some tr" "canonical_transition ids (gs_id s) ess tr"
    and ess: "canonical_end_states ess" "load_end_states cx s = ess"
  shows "load_step_edges cx steps s =
    retry_loop_edges s @ own_edges s ess (enumerate 0 (outcomes_of s)) @ retry_input_of s ess
    @ retry_fallback_edges steps s"
proof -
  let ?ots = "arr (tr_on_outcomes tr)"
  from tr have ots: "outcomes_of s = ?ots" by simp
  from tr(2) have c: "tr = build_transition (?ots, retry_of tr)" "canonical_outcomes ids ess ?ots"
    "case retry_of tr of None \<Rightarrow> True | Some rc \<Rightarrow> canonical_retry ids (gs_id s) ess ?ots rc"
    by (simp_all add: canonical_transition_def Let_def)
  have fb: "\<not> has_retry s \<Longrightarrow> retry_fallback_edges steps s = []"
    by (simp add: retry_fallback_edges_def Let_def)
  show ?thesis
  proof (cases "?ots = []")
    case False
    have "\<forall>(i, t) \<in> set (enumerate 0 ?ots). truthy (ot_next t) \<and> (has_retry s \<longrightarrow> load_outcome t = Success)"
    proof (clarify, intro conjI impI)
      fix i t assume t: "(i, t) \<in> set (enumerate 0 ?ots)"
      then have t': "t \<in> set ?ots" by (rule snd_in_set_enumerate)
      with c(2) show "truthy (ot_next t)" by (simp add: canonical_outcomes_def list_all_iff)
      assume "has_retry s"
      with canonical_without_retry[OF tr(1)] obtain rc where "retry_of tr = Some rc" by (cases "retry_of tr") auto
      with c(3) t' have "ot_outcome t = outcome_str Success"
        by (simp add: canonical_retry_def list_all_iff)
      then show "load_outcome t = Success" by (simp del: outcome_str.simps)
    qed
    from outcome_fold_plain[OF this] False ots show ?thesis
      by (simp add: load_step_edges_def ess outcome_edges_def failure_handle[OF ess(1)] retry_input_of_def fb)
  next
    case True
    have nosucc: "tr_on_success tr = None"
      by (subst c(1)) (simp add: True build_transition_def no_transition_def)
    show ?thesis
    proof (cases "retry_of tr")
      case None
      then have "tr_on_failure tr = None"
        by (subst c(1)) (simp add: True build_transition_def no_transition_def)
      with True tr(1) nosucc canonical_without_retry[OF tr(1) None] show ?thesis
        by (simp add: load_step_edges_def ess plain_edges_def succ_truthy_def fail_truthy_def retry_input_of_def
            retry_loop_edges_def fb Let_def)
    next
      case (Some rc)
      with c(3) have "canonical_retry ids (gs_id s) ess ?ots rc" by simp
      from canonical_with_retry[OF tr(1) c(1) Some this] True tr(1) nosucc show ?thesis
        by (simp add: load_step_edges_def ess plain_edges_def succ_truthy_def retry_input_of_def
            failure_handle[OF ess(1)] Let_def)
    qed
  qed
qed

section \<open>Saving a loaded canonical step\<close>

lemma find_retry_input:
  assumes "canonical_end_states ess" "es \<in> set ess"
  shows "map_option e_target (find (\<lambda>e. e_sourceHandle e = Some (es_id es)) (retry_input_of s ess)) =
    (if has_retry s \<and> find is_failure_end ess = Some es then Some (retry_id (gs_id s)) else None)"
proof -
  have "es_id fe = es_id es \<longleftrightarrow> fe = es" if "find is_failure_end ess = Some fe" for fe
    using that canonical_ids_eq[OF assms(1) _ assms(2)] by (auto dest: find_SomeD)
  then show ?thesis
    by (cases "find is_failure_end ess") (auto simp: retry_input_of_def retry_input_edge_def)
qed

lemma find_step_edge:
  assumes "canonical_end_states ess" "es \<in> set ess" "along ess ots = ots"
  shows "map_option e_target (find (\<lambda>e. e_sourceHandle e = Some (es_id es))
            (own_edges s ess (enumerate 0 ots) @ retry_input_of s ess)) =
    (case find (key_matches es) ots of
       Some t \<Rightarrow> Some (the (ot_next t))
     | None \<Rightarrow> if has_retry s \<and> find is_failure_end ess = Some es then Some (retry_id (gs_id s)) else None)"
proof -
  have "map_option e_target (find (\<lambda>e. e_sourceHandle e = Some (es_id es)) (own_edges s ess (enumerate 0 ots))) =
        map_option (the \<circ> ot_next) (find (key_matches es) (map snd (enumerate 0 ots)))"
    by (rule find_own_edge[OF assms(1,2)]) (metis snd_in_set_enumerate along_member[OF assms(3)])
  then show ?thesis
    using find_retry_input[OF assms(1,2), of s]
    by (auto simp: find_append split: option.splits)
qed

lemma canonical_node_transitions:
  assumes edges: "outgoing edges (n_id node) = own_edges s ess (enumerate 0 ots) @ retry_input_of s ess"
    and node: "nd_endStates (n_data node) = Some ess"
    and ess: "canonical_end_states ess" and ots: "canonical_outcomes ids ess ots"
    and plain: "\<And>t. t \<in> set ots \<Longrightarrow> retry_get nodes (the (ot_next t)) = None"
    and retry: "has_retry s \<Longrightarrow> retry_get nodes (retry_id (gs_id s)) = Some rn"
      "has_retry s \<Longrightarrow> list_all (\<lambda>t. ot_outcome t = ''success'') ots \<and> list_ex is_failure_end ess"
  shows "node_transitions nodes edges node = (ots, if has_retry s then Some (config_of edges node rn) else None)"
proof -
  let ?f = "\<lambda>es. case find (key_matches es) ots of None \<Rightarrow> [] | Some t \<Rightarrow> [t]"
  let ?g = "\<lambda>es. if has_retry s \<and> find is_failure_end ess = Some es then Some (config_of edges node rn) else None"
  let ?outs = "cat_outcomes (categorizeEndStates ess)"
  from ots have al: "along ess ots = ots" by (simp add: canonical_outcomes_def)
  have "end_state_step nodes edges node ?outs (i, es) acc =
      (fst acc @ ?f es, if snd acc = None then ?g es else snd acc)"
    if "(i, es) \<in> set (enumerate 0 ess)" for i es acc
  proof -
    from that have es: "es \<in> set ess" by (rule snd_in_set_enumerate)
    note fe = find_step_edge[OF ess es al, of s, folded edges]
    show ?thesis
    proof (cases "find (key_matches es) ots")
      case (Some t)
      from find_SomeD[OF Some] have t: "t \<in> set ots" "key_matches es t" by simp_all
      from t(1) ots have nx: "truthy (ot_next t)" by (simp add: canonical_outcomes_def list_all_iff)
      have "\<lparr>ot_outcome = outcome_str (save_outcome ?outs es i), ot_next = Some (the (ot_next t)),
              ot_state = Some (es_state es)\<rparr> = t"
        using key_matchesD[OF t(2)] nx by (cases t) (auto simp: save_outcome_normalized truthy_def split: option.splits)
      moreover have "?g es = None"
        using retry(2) t key_matchesD[OF t(2)] outcome_str_inj[of "load_outcome t" Success]
        by (auto simp: list_all_iff is_failure_end_def dest!: find_SomeD)
      ultimately show ?thesis
        using end_state_step_plain[of es edges node "the (ot_next t)" nodes ?outs i acc] fe Some plain[OF t(1)] nx
        by (auto simp: truthy_def split: option.splits)
    next
      case None
      show ?thesis
      proof (cases "has_retry s \<and> find is_failure_end ess = Some es")
        case True
        then have "is_failure_end es" by (auto dest: find_SomeD)
        moreover from ess es obtain out where "normalizeOutcome (es_outcome es) = Some out"
          by (auto simp: canonical_end_states_def list_all_iff)
        ultimately have "save_outcome ?outs es i \<noteq> Success"
          by (auto simp: save_outcome_normalized is_failure_end_def)
        with end_state_step_retry[of es edges node _ nodes rn ?outs i acc] fe None True retry(1) show ?thesis
          by (auto split: if_splits)
      next
        case False
        with fe None have "find (\<lambda>e. e_sourceHandle e = Some (es_id es)) (outgoing edges (n_id node)) = None"
          by simp
        from end_state_step_none[OF this] None False show ?thesis by (auto simp: prod_eq_iff)
      qed
    qed
  qed
  from fold_end_states[of 0 ess "end_state_step nodes edges node ?outs" ?f ?g, OF this]
  have "node_transitions nodes edges node = (along ess ots, Option.bind (find (\<lambda>es. ?g es \<noteq> None) ess) ?g)"
    by (simp add: node_transitions_def node along_def)
  moreover have "Option.bind (find (\<lambda>es. ?g es \<noteq> None) ess) ?g =
      (if has_retry s then Some (config_of edges node rn) else None)"
  proof (cases "has_retry s")
    case True
    with retry(2) obtain fe where fe: "find is_failure_end ess = Some fe"
      by (cases "find is_failure_end ess") (auto simp: find_None_iff list_ex_iff)
    then have "find (\<lambda>es. ?g es \<noteq> None) ess = Some fe"
      using True by (intro find_unique) (auto dest: find_SomeD split: if_splits)
    with fe True show ?thesis by simp
  next
    case False
    then have "find (\<lambda>es. ?g es \<noteq> None) ess = None" by (intro find_eq_NoneI) simp
    with False show ?thesis by simp
  qed
  ultimately show ?thesis using al by simp
qed

subsection \<open>Retry nodes of the loaded canvas\<close>

lemma filter_retry_loaded:
  "filter (\<lambda>n. n_type n = NRetry) (concat (map (\<lambda>(i, s). load_step_nodes cx i s) (enumerate k steps))) =
   map (\<lambda>(i, s). load_retry_node i s) (filter (\<lambda>(i, s). has_retry s) (enumerate k steps))"
  by (induction steps arbitrary: k) (auto simp: load_step_nodes_def)

lemma retry_nodes_loaded:
  "retry_nodes (loaded_nodes cx steps) =
   map (\<lambda>(i, s). (retry_id (gs_id s), load_retry_node i s)) (filter (\<lambda>(i, s). has_retry s) (enumerate 0 steps))"
proof -
  have "filter (\<lambda>n. n_type n = NRetry) (loaded_nodes cx steps) =
        map (\<lambda>(i, s). load_retry_node i s) (filter (\<lambda>(i, s). has_retry s) (enumerate 0 steps))"
    by (simp add: filter_retry_loaded)
  then show ?thesis by (auto simp: retry_nodes_def)
qed

lemma distinct_retry_keys:
  assumes "distinct (map gs_id steps)"
  shows "distinct (map fst (retry_nodes (loaded_nodes cx steps)))"
proof -
  have "distinct (map (\<lambda>(i, s). retry_id (gs_id s)) (enumerate 0 steps))"
    using assms unfolding map_enumerate_snd by (simp add: distinct_map inj_on_def)
  then have "distinct (map (\<lambda>(i, s). retry_id (gs_id s)) (filter (\<lambda>(i, s). has_retry s) (enumerate 0 steps)))"
    by (rule distinct_map_filter)
  then show ?thesis unfolding retry_nodes_loaded by (simp add: comp_def case_prod_unfold)
qed

lemma retry_get_loaded:
  assumes "distinct (map gs_id steps)" "(i, s) \<in> set (enumerate 0 steps)" "has_retry s"
  shows "retry_get (loaded_nodes cx steps) (retry_id (gs_id s)) = Some (load_retry_node i s)"
  unfolding retry_get_def
proof (rule map_of_is_SomeI)
  show "distinct (map fst (rev (retry_nodes (loaded_nodes cx steps))))"
    using distinct_retry_keys[OF assms(1), of cx] by (simp flip: rev_map)
  show "(retry_id (gs_id s), load_retry_node i s) \<in> set (rev (retry_nodes (loaded_nodes cx steps)))"
    unfolding retry_nodes_loaded using assms(2,3) by force
qed

lemma retry_get_step_id:
  assumes "\<And>s. s \<in> set steps \<Longrightarrow> retry_id (gs_id s) \<noteq> i"
  shows "retry_get (loaded_nodes cx steps) i = None"
proof -
  have "i \<notin> fst ` set (retry_nodes (loaded_nodes cx steps))"
    unfolding retry_nodes_loaded using assms by (fastforce dest: snd_in_set_enumerate)
  then show ?thesis by (simp add: retry_get_def map_of_eq_None_iff)
qed

lemma canonical_config:
  assumes out: "outgoing edges (retry_id (gs_id s)) = retry_loop_edges s @ retry_fallback_edges steps s"
    and tr: "gs_transition s = Some tr" "tr = build_transition (ots, retry_of tr)" "retry_of tr = Some rc"
    and rc: "canonical_retry (map gs_id steps) (gs_id s) ess ots rc" and node: "n_id node = gs_id s"
  shows "config_of edges node (load_retry_node i s) = rc"
proof -
  note f = canonical_with_retry[OF tr rc]
  have "resolveRetryEdge edges (retry_id (gs_id s)) (gs_id s) = rc_fallback rc"
    using rc f(3,4)
    by (cases "rc_fallback rc")
       (auto simp: resolveRetryEdge_def out retry_loop_edges_def retry_fallback_edges_def canonical_retry_def Let_def)
  moreover from rc obtain x y where "rc_ui rc = \<lparr>ui_x = Some (Fin x), ui_y = Some (Fin y)\<rparr>"
    by (cases "rc_ui rc") (auto simp: canonical_retry_def finite_opt_def split: option.splits jsnum.splits)
  ultimately show ?thesis using rc f(1,2,5) node
    by (cases rc) (simp add: config_of_def canonical_retry_def load_retry_node_def Let_def case_prod_unfold
        finite_or_undefined_def finite_opt_def)
qed

subsection \<open>The data of a canonical step\<close>

lemma canonical_params_save:
  "canonical_params p \<Longrightarrow> nd_params d = sp_data p \<Longrightarrow> nd_fieldSources d = sp_field_sources p \<Longrightarrow> save_params d = p"
  by (cases p) (auto simp: save_params_def canonical_params_def split: option.splits list.splits)

lemma canonical_action_save:
  assumes "gs_action s = Some a" "canonical_action cx s a"
  shows "save_action (load_node_data cx s) = a"
proof -
  from assms(2) obtain p where p: "sa_params a = Some p" "canonical_params p"
    by (auto simp: canonical_action_def split: option.splits)
  have ns: "orO (Some (normalizeLegacyNamespaceServer (sa_server a))) (sa_server a) = sa_server a"
    using assms(2) by (intro normal_server_orO) (simp add: canonical_action_def)
  have "save_params (load_node_data cx s) = p"
    by (rule canonical_params_save[OF p(2)])
       (use p assms(1) in \<open>auto simp: load_node_data_def Let_def case_prod_unfold canonical_params_def coalesce_def\<close>)
  with assms p(1) ns show ?thesis
    by (cases a) (auto simp: save_action_def load_node_data_def Let_def case_prod_unfold canonical_action_def
        load_kind_def normalizeCapabilityKind_fixed orO_def)
qed

lemma canonical_set_save: "canonical_set v \<Longrightarrow> Some (uniq (filter (\<lambda>r. r \<noteq> []) (uniq (arr v)))) = v"
  by (cases v) (auto simp: canonical_set_def uniq_distinct intro!: filter_True)

lemma canonical_action_fields:
  assumes "canonical_action_step cx ids s"
  shows "gs_endStates s = None" "gs_successStates s = None" "gs_failureStates s = None" "\<not> is_terminal s"
proof -
  from assms have eq: "s = (no_step (gs_id s))
            \<lparr>gs_name := gs_name s, gs_ui := gs_ui s, gs_job_name := gs_job_name s, gs_action := gs_action s,
             gs_end_states := gs_end_states s, gs_success_states := gs_success_states s,
             gs_failure_states := gs_failure_states s, gs_resource_acquire := gs_resource_acquire s,
             gs_resource_release := gs_resource_release s, gs_transition := gs_transition s\<rparr>"
    unfolding canonical_action_step_def by (rule conjunct1)
  show "gs_endStates s = None" by (subst eq) (simp add: no_step_def)
  show "gs_successStates s = None" by (subst eq) (simp add: no_step_def)
  show "gs_failureStates s = None" by (subst eq) (simp add: no_step_def)
  have "gs_type s = None" by (subst eq) (simp add: no_step_def)
  then show "\<not> is_terminal s" by (simp add: is_terminal_def)
qed

lemma canonical_terminal_fields:
  assumes "canonical_terminal_step s"
  shows "is_terminal s" "gs_transition s = None"
proof -
  from assms have eq: "s = (no_step (gs_id s))
            \<lparr>gs_name := gs_name s, gs_ui := gs_ui s, gs_type := Some ''terminal'',
             gs_terminal_type := gs_terminal_type s, gs_alert := gs_alert s, gs_message := gs_message s\<rparr>"
    unfolding canonical_terminal_step_def by (rule conjunct1)
  have "gs_type s = Some ''terminal''" by (subst eq) simp
  then show "is_terminal s" by (simp add: is_terminal_def)
  show "gs_transition s = None" by (subst eq) (simp add: no_step_def)
qed

lemma stored_position_ui:
  "stored_position s \<noteq> None \<Longrightarrow>
   \<exists>x y. gs_ui s = Some \<lparr>ui_x = Some (Fin x), ui_y = Some (Fin y)\<rparr> \<and> (\<forall>i. load_position i s = (x, y))"
  by (auto simp: stored_position_def load_position_def split: option.splits jsnum.splits)

lemma load_step_node_position:
  "load_position i s = (x, y) \<Longrightarrow> n_x (load_step_node cx i s) = Fin x \<and> n_y (load_step_node cx i s) = Fin y"
  by (simp add: load_step_node_def Let_def)

lemma canonical_terminal_parts:
  assumes "canonical_terminal_step s"
  shows "truthy (gs_name s)" "stored_position s \<noteq> None"
    "(gs_terminal_type s, gs_alert s) \<in>
       {(Some ''failure'', Some True), (Some ''success'', Some True), (Some ''success'', Some False)}"
    "case gs_message s of None \<Rightarrow> True | Some m \<Rightarrow> m \<noteq> [] \<and> trimmed m"
  using assms unfolding canonical_terminal_step_def by - (elim conjE, assumption)+

lemma canonical_payload_roundtrip:
  assumes "(gs_terminal_type s, gs_alert s) \<in>
       {(Some ''failure'', Some True), (Some ''success'', Some True), (Some ''success'', Some False)}"
    and "case gs_message s of None \<Rightarrow> True | Some m \<Rightarrow> m \<noteq> [] \<and> trimmed m"
  shows "eventSubtypeToTerminalPayload (terminalStepToEventSubtype s) (Some (orS (gs_message s) [])) =
      \<lparr>tp_terminal_type = the (gs_terminal_type s), tp_alert = the (gs_alert s), tp_message = gs_message s\<rparr>"
proof -
  have lower: "toLowerCase ''failure'' = ''failure''" "toLowerCase ''success'' = ''success''" by code_simp+
  from assms show ?thesis
    by (auto simp: eventSubtypeToTerminalPayload_def terminalStepToEventSubtype_def lower trimmed_def
        split: option.splits)
qed

lemma terminal_roundtrip:
  assumes "canonical_terminal_step s"
  shows "node_steps nodes edges (load_step_node cx i s) = [s]"
proof -
  note c = canonical_terminal_parts[OF assms]
  from stored_position_ui[OF c(2)] obtain x y where
    ui: "gs_ui s = Some \<lparr>ui_x = Some (Fin x), ui_y = Some (Fin y)\<rparr>" "load_position i s = (x, y)" by auto
  let ?d = "load_node_data cx s"
  have d: "nd_subtype ?d = Some (subtype_str (terminalStepToEventSubtype s))" "nd_label ?d = gs_name s"
    "nd_debugMessage ?d = Some (orS (gs_message s) [])"
    using c(1) canonical_terminal_fields(1)[OF assms]
    by (simp_all add: load_node_data_def Let_def case_prod_unfold orS_truthy) (auto simp: truthy_def split: option.splits)
  note pay = canonical_payload_roundtrip[OF c(3,4)]
  have "terminal_step (load_step_node cx i s) (terminalStepToEventSubtype s) =
      (no_step (gs_id s))
            \<lparr>gs_name := gs_name s, gs_ui := gs_ui s, gs_type := Some ''terminal'',
             gs_terminal_type := gs_terminal_type s, gs_alert := gs_alert s, gs_message := gs_message s\<rparr>"
    using load_step_node_position[OF ui(2), of cx] c(3)
    by (auto simp: terminal_step_def d ui pay Let_def no_step_def)
  also have "\<dots> = s" using assms by (simp add: canonical_terminal_step_def)
  finally show ?thesis
    using canonical_terminal_fields(1)[OF assms] by (simp add: node_steps_def d)
qed

lemma canonical_action_parts:
  assumes "canonical_action_step cx ids s"
  obtains a ess ss fs tr where "gs_action s = Some a" "canonical_action cx s a" "gs_end_states s = Some ess"
    "gs_success_states s = Some ss" "gs_failure_states s = Some fs" "gs_transition s = Some tr"
    "canonical_end_states ess" "canonical_transition ids (gs_id s) ess tr"
    "cat_successStates (categorizeEndStates ess) \<noteq> [] \<longrightarrow> ss = cat_successStates (categorizeEndStates ess)"
    "cat_failureStates (categorizeEndStates ess) \<noteq> [] \<longrightarrow> fs = cat_failureStates (categorizeEndStates ess)"
    "truthy (gs_name s)" "truthy (gs_job_name s)" "stored_position s \<noteq> None"
    "canonical_set (gs_resource_acquire s)" "canonical_set (gs_resource_release s)"
proof -
  from assms have p: "truthy (gs_name s)" "truthy (gs_job_name s)" "stored_position s \<noteq> None"
    "case gs_action s of None \<Rightarrow> False | Some a \<Rightarrow> canonical_action cx s a"
    "canonical_set (gs_resource_acquire s)" "canonical_set (gs_resource_release s)"
    "case (gs_end_states s, gs_success_states s, gs_failure_states s, gs_transition s) of
           (Some ess, Some ss, Some fs, Some tr) \<Rightarrow>
             canonical_end_states ess
             \<and> (let cat = categorizeEndStates ess
                in (cat_successStates cat \<noteq> [] \<longrightarrow> ss = cat_successStates cat)
                   \<and> (cat_failureStates cat \<noteq> [] \<longrightarrow> fs = cat_failureStates cat))
             \<and> canonical_transition ids (gs_id s) ess tr
         | _ \<Rightarrow> False"
    unfolding canonical_action_step_def by - (elim conjE, assumption)+
  from p(4) obtain a where a: "gs_action s = Some a" "canonical_action cx s a"
    by (cases "gs_action s") auto
  from p(7) obtain ess ss fs tr where "gs_end_states s = Some ess" "gs_success_states s = Some ss"
    "gs_failure_states s = Some fs" "gs_transition s = Some tr"
    by (auto split: option.splits)
  with p a that[of a ess ss fs tr] show thesis by (simp add: Let_def)
qed

lemma action_roundtrip:
  assumes s: "canonical_action_step cx ids s" and tr: "gs_transition s = Some tr"
    and es: "load_end_states cx s = arr (gs_end_states s)"
    and nt: "build_transition (node_transitions nodes edges (load_step_node cx i s)) = tr"
  shows "node_steps nodes edges (load_step_node cx i s) = [s]"
proof -
  obtain a ess ss fs tr' where c: "gs_action s = Some a" "canonical_action cx s a" "gs_end_states s = Some ess"
    "gs_success_states s = Some ss" "gs_failure_states s = Some fs" "gs_transition s = Some tr'"
    "canonical_end_states ess" "canonical_transition ids (gs_id s) ess tr'"
    "cat_successStates (categorizeEndStates ess) \<noteq> [] \<longrightarrow> ss = cat_successStates (categorizeEndStates ess)"
    "cat_failureStates (categorizeEndStates ess) \<noteq> [] \<longrightarrow> fs = cat_failureStates (categorizeEndStates ess)"
    "truthy (gs_name s)" "truthy (gs_job_name s)" "stored_position s \<noteq> None"
    "canonical_set (gs_resource_acquire s)" "canonical_set (gs_resource_release s)"
    by (rule canonical_action_parts[OF s])
  from stored_position_ui[OF c(13)] obtain x y where
    ui: "gs_ui s = Some \<lparr>ui_x = Some (Fin x), ui_y = Some (Fin y)\<rparr>" "load_position i s = (x, y)" by auto
  note f = canonical_action_fields[OF s]
  let ?d = "load_node_data cx s"
  have d: "nd_label ?d = gs_name s" "orO (nd_jobName ?d) None = gs_job_name s" "nd_endStates ?d = Some ess"
    "nd_successStates ?d = Some ss" "nd_failureStates ?d = Some fs"
    "nd_resourceAcquire ?d = Some (uniq (arr (gs_resource_acquire s)))"
    "nd_resourceRelease ?d = Some (uniq (arr (gs_resource_release s)))"
    using c es f by (auto simp: load_node_data_def Let_def case_prod_unfold load_success_states_def
        load_failure_states_def truthy_def orS_def split: option.splits)
  have "action_step nodes edges (load_step_node cx i s) = (no_step (gs_id s))
            \<lparr>gs_name := gs_name s, gs_ui := gs_ui s, gs_job_name := gs_job_name s, gs_action := gs_action s,
             gs_end_states := gs_end_states s, gs_success_states := gs_success_states s,
             gs_failure_states := gs_failure_states s, gs_resource_acquire := gs_resource_acquire s,
             gs_resource_release := gs_resource_release s, gs_transition := gs_transition s\<rparr>"
    using c load_step_node_position[OF ui(2), of cx] canonical_set_save[OF c(14)] canonical_set_save[OF c(15)]
    by (simp add: action_step_def d ui nt tr canonical_action_save[OF c(1,2)] Let_def)
  also have "\<dots> = s" using s by (simp add: canonical_action_step_def)
  finally show ?thesis using f(4) by (simp add: node_steps_def)
qed

section \<open>The round trip\<close>

lemma canonical_step_roundtrip:
  assumes ids: "distinct (map gs_id steps)" "START_NODE_ID \<notin> set (map gs_id steps)"
      "\<And>s'. s' \<in> set steps \<Longrightarrow> retry_id (gs_id s') \<notin> set (map gs_id steps)"
    and s: "(i, s) \<in> set (enumerate 0 steps)"
      "canonical_terminal_step s \<or> canonical_action_step cx (map gs_id steps) s"
  shows "node_steps (loaded_nodes cx steps) (loaded_edges cx steps v) (load_step_node cx i s) = [s]"
  using s(2)
proof
  assume act: "canonical_action_step cx (map gs_id steps) s"
  let ?nodes = "loaded_nodes cx steps" and ?edges = "loaded_edges cx steps v" and ?node = "load_step_node cx i s"
  from act obtain ess tr where c: "gs_end_states s = Some ess" "gs_transition s = Some tr"
    "canonical_end_states ess" "canonical_transition (map gs_id steps) (gs_id s) ess tr"
    by (elim canonical_action_parts)
  let ?ots = "arr (tr_on_outcomes tr)"
  from c(4) have t: "tr = build_transition (?ots, retry_of tr)" "canonical_outcomes (map gs_id steps) ess ?ots"
    "\<And>rc. retry_of tr = Some rc \<Longrightarrow> canonical_retry (map gs_id steps) (gs_id s) ess ?ots rc"
    by (simp_all add: canonical_transition_def Let_def)
  have es: "load_end_states cx s = ess"
    using enrich_canonical[OF c(3) _ order_refl, of ?ots] t(2) c(1,2) canonical_action_fields(1)[OF act]
    by (simp add: load_end_states_def base_end_states_def canonical_outcomes_def)
  note edges = canonical_step_edges[OF c(2,4,3) es, of steps]
  from s(1) have mem: "s \<in> set steps" by (rule snd_in_set_enumerate)
  have nst: "gs_id s \<noteq> START_NODE_ID" using ids(2) mem by force
  have out: "outgoing ?edges (gs_id s) = own_edges s ess (enumerate 0 ?ots) @ retry_input_of s ess"
    "outgoing ?edges (retry_id (gs_id s)) = retry_loop_edges s @ retry_fallback_edges steps s"
    using outgoing_loaded[OF ids(1) mem _ ids(3), of "gs_id s" cx v]
      outgoing_loaded[OF ids(1) mem _ ids(3), of "retry_id (gs_id s)" cx v] nst c(2)
    by (simp_all add: edges)
  have "node_transitions ?nodes ?edges ?node =
      (?ots, if has_retry s then Some (config_of ?edges ?node (load_retry_node i s)) else None)"
  proof (rule canonical_node_transitions[OF _ _ c(3) t(2)])
    fix tt assume "tt \<in> set ?ots"
    with t(2) have "the (ot_next tt) \<in> set (map gs_id steps)" by (simp add: canonical_outcomes_def list_all_iff)
    with ids(3) show "retry_get ?nodes (the (ot_next tt)) = None" by (intro retry_get_step_id) metis
  next
    assume "has_retry s"
    with canonical_without_retry[OF c(2)] obtain rc where "retry_of tr = Some rc" by (cases "retry_of tr") auto
    from t(3)[OF this] show "list_all (\<lambda>t. ot_outcome t = ''success'') ?ots \<and> list_ex is_failure_end ess"
      by (simp add: canonical_retry_def)
  qed (use out es retry_get_loaded[OF ids(1) s(1)] in \<open>simp_all add: load_node_data_def Let_def case_prod_unfold\<close>)
  also have "\<dots> = (?ots, retry_of tr)"
  proof (cases "retry_of tr")
    case None
    then show ?thesis using canonical_without_retry[OF c(2)] by simp
  next
    case (Some rc)
    from canonical_with_retry(3)[OF c(2) t(1) Some t(3)[OF Some]] Some show ?thesis
      using canonical_config[OF out(2) c(2) t(1) Some t(3)[OF Some], of ?node i] by simp
  qed
  finally show ?thesis
    using action_roundtrip[OF act c(2)] es c(1) t(1) by simp
qed (rule terminal_roundtrip)

lemma retry_no_steps [simp]: "node_steps nodes edges (load_retry_node i s) = []"
  by (simp add: node_steps_def)

lemma start_no_steps [simp]: "node_steps nodes edges (load_start_node cx) = []"
  by (simp add: node_steps_def terminal_subtype_of_def)

lemma concat_loaded_steps:
  assumes "\<And>i s. (i, s) \<in> set (enumerate k xs) \<Longrightarrow> f (load_step_node cx i s) = [s]"
    and "\<And>i s. f (load_retry_node i s) = []"
  shows "concat (map f (concat (map (\<lambda>(i, s). load_step_nodes cx i s) (enumerate k xs)))) = xs"
  using assms(1)
proof (induction xs arbitrary: k)
  case (Cons x xs)
  have "f (load_step_node cx k x) = [x]" by (rule Cons.prems) simp
  moreover have "concat (map f (concat (map (\<lambda>(i, s). load_step_nodes cx i s) (enumerate (Suc k) xs)))) = xs"
    by (rule Cons.IH) (use Cons.prems in auto)
  ultimately show ?case by (simp add: load_step_nodes_def assms(2))
qed simp

lemma loaded_start_edge:
  assumes "START_NODE_ID \<notin> set (map gs_id steps)" "truthy v"
  shows "map_option e_target (find (\<lambda>e. e_source e = START_NODE_ID) (loaded_edges cx steps v)) = v"
proof -
  have "find (\<lambda>e. e_source e = START_NODE_ID) (concat (map (load_step_edges cx steps) steps)) = None"
    using assms(1) by (intro find_eq_NoneI) (force dest!: load_step_edges_source)
  with assms(2) show ?thesis by (cases v) (auto simp: find_append start_edges_def)
qed


section \<open>A task with a retry block and two terminal steps\<close>

definition sample_context :: load_context where
  "sample_context =
     \<lparr>lx_mappings = [\<lparr>am_action_type = ''nav2_msgs/NavigateToPose'', am_server = ''/nav'', am_during_state = None,
                      am_during_states = None\<rparr>],
      lx_states = [''idle'', ''error''], lx_agents = []\<rparr>"

definition sample_end_states :: "end_state list" where
  "sample_end_states =
     [\<lparr>es_id = ''ok'', es_state = ''idle'', es_label = Some ''Success'', es_color = None, es_outcome = Some ''success''\<rparr>,
      \<lparr>es_id = ''ko'', es_state = ''error'', es_label = Some ''Failure'', es_color = None, es_outcome = Some ''failed''\<rparr>]"

definition sample_action_step :: graph_step where
  "sample_action_step = (no_step ''move'')
     \<lparr>gs_name := Some ''Move'', gs_ui := Some \<lparr>ui_x = Some (Fin 300), ui_y = Some (Fin 100)\<rparr>,
      gs_job_name := Some ''nav/'',
      gs_action := Some \<lparr>sa_type = Some ''nav2_msgs/NavigateToPose'', sa_server = Some ''/nav'',
        sa_capability_kind = Some ''action'',
        sa_params = Some \<lparr>sp_source = ''inline'', sp_waypoint_id = None, sp_data = Some [], sp_fields = None,
          sp_field_sources = None\<rparr>,
        sa_timeout_sec = None, sa_result_schema = None\<rparr>,
      gs_end_states := Some sample_end_states,
      gs_success_states := Some [''idle''], gs_failure_states := Some [''error''],
      gs_resource_acquire := Some [''door''], gs_resource_release := Some [],
      gs_transition := Some (no_transition
        \<lparr>tr_on_success := Some (SuccStep ''done''),
         tr_on_failure := Some (FailConfig (no_failure_config
           \<lparr>fc_retry := Some (Fin 3), fc_backoff_ms := Some (Fin 500), fc_fallback := Some ''stop'',
            fc_ui := Some \<lparr>ui_x = Some (Fin 480), ui_y = Some (Fin 184)\<rparr>\<rparr>)),
         tr_on_outcomes := Some [\<lparr>ot_outcome = ''success'', ot_next = Some ''done'', ot_state = Some ''idle''\<rparr>]\<rparr>)\<rparr>"

definition sample_terminal_step :: "string \<Rightarrow> string \<Rightarrow> bool \<Rightarrow> graph_step" where
  "sample_terminal_step i ty alert = (no_step i)
     \<lparr>gs_name := Some i, gs_ui := Some \<lparr>ui_x = Some (Fin 600), ui_y = Some (Fin 100)\<rparr>,
      gs_type := Some ''terminal'', gs_terminal_type := Some ty, gs_alert := Some alert\<rparr>"

definition sample_task :: behavior_tree where
  "sample_task =
     \<lparr>bt_id = ''t1'', bt_name = ''Task'', bt_description = None, bt_agent_id = None, bt_agent_name = None,
      bt_entry_point = Some ''move'', bt_preconditions = None,
      bt_steps = Some [sample_action_step, sample_terminal_step ''done'' ''success'' False,
                       sample_terminal_step ''stop'' ''failure'' True],
      bt_states = None, bt_planning_states = None,
      bt_planning_task = None, bt_task_distributor_id = None, bt_required_action_types = None,
      bt_auto_generate_states = None, bt_version = 1, bt_is_template = True, bt_deployment_status = None,
      bt_created_at = [], bt_updated_at = None\<rparr>"

lemma canonical_sample_task: "canonical_task sample_context sample_task"
  by code_simp


end
