(* ===== verification/Graph_Session.thy ===== *)
theory Graph_Session
  imports Graph_Edit Graph_Roundtrip
begin

text \<open>
  An editing session: a task is opened, edited and saved. The canvas a well-formed task is opened to
  satisfies the invariant of the editor, every sequence of edits keeps it, and what the save compiles from
  a closed canvas is a task whose transitions lead to steps of the task.
\<close>

section \<open>Opening a task\<close>

definition open_canvas :: "load_context \<Rightarrow> behavior_tree \<Rightarrow> canvas" where
  "open_canvas cx g =
     (case convertActionGraphToGraph cx g of (nodes, edges) \<Rightarrow> \<lparr>cv_nodes = nodes, cv_edges = edges, cv_pending = [], cv_left = []\<rparr>)"

text \<open>The steps a transition of the stored task leads to, the fallback of a retry block apart (the loader
  drops a fallback that is no step).\<close>

definition step_targets :: "graph_step \<Rightarrow> string list" where
  "step_targets step =
     (if outcomes_of step \<noteq> []
      then map (the \<circ> ot_next) (filter (\<lambda>t. truthy (ot_next t)) (outcomes_of step))
      else let s = Option.bind (gs_transition step) tr_on_success; f = Option.bind (gs_transition step) tr_on_failure
           in (if succ_truthy s \<and> truthy (succ_target s) then [the (succ_target s)] else [])
              @ (if fail_truthy f \<and> \<not> has_retry step \<and> truthy (fail_target f) then [the (fail_target f)] else []))"

definition well_formed_task :: "behavior_tree \<Rightarrow> bool" where
  "well_formed_task g =
     (let steps = arr (bt_steps g); ids = map gs_id steps
      in distinct ids \<and> START_NODE_ID \<notin> set ids \<and> list_all (\<lambda>i. retry_id i \<notin> set ids) ids
         \<and> list_all (\<lambda>s. list_all (\<lambda>t. t \<in> set ids) (step_targets s)) steps)"

abbreviation step_node_ids :: "graph_step \<Rightarrow> string list" where
  "step_node_ids s \<equiv> gs_id s # (if has_retry s then [retry_id (gs_id s)] else [])"

lemma loaded_node_ids:
  "map n_id (loaded_nodes cx steps) = START_NODE_ID # concat (map step_node_ids steps)"
proof -
  have "map n_id (concat (map (\<lambda>(i, s). load_step_nodes cx i s) (enumerate k steps))) = concat (map step_node_ids steps)" for k
    by (induction steps arbitrary: k) (simp_all add: load_step_nodes_def)
  then show ?thesis by simp
qed

lemma distinct_step_node_ids:
  "distinct (map gs_id steps) \<Longrightarrow> (\<And>s s'. s \<in> set steps \<Longrightarrow> s' \<in> set steps \<Longrightarrow> retry_id (gs_id s) \<noteq> gs_id s') \<Longrightarrow>
   distinct (concat (map step_node_ids steps))"
proof (induction steps)
  case (Cons s steps)
  have "distinct (concat (map step_node_ids steps))" by (rule Cons.IH) (use Cons.prems in auto)
  moreover have "set (step_node_ids s) \<inter> set (concat (map step_node_ids steps)) = {}"
    using Cons.prems(1) Cons.prems(2)[of s] Cons.prems(2)[of _ s] by (auto split: if_splits) (metis image_eqI)+
  ultimately show ?case by (simp split: if_splits)
qed simp

text \<open>The ends of the edges of one step.\<close>

lemma outcome_fold_targets:
  assumes "\<And>i t. (i, t) \<in> set xs \<Longrightarrow> truthy (ot_next t) \<Longrightarrow> the (ot_next t) \<in> A"
    and "\<And>e. e \<in> set (fst acc) \<Longrightarrow> e_target e \<in> A \<or> (e_target e = retry_id (gs_id step) \<and> has_retry step)"
    and "e \<in> set (fst (fold (outcome_edge_step step ess) xs acc))"
  shows "e_target e \<in> A \<or> (e_target e = retry_id (gs_id step) \<and> has_retry step)"
  using assms
proof (induction xs arbitrary: acc)
  case (Cons x xs)
  obtain i t where x: "x = (i, t)" by (cases x)
  show ?case
  proof (rule Cons.IH[where acc = "outcome_edge_step step ess x acc"])
    fix e assume "e \<in> set (fst (outcome_edge_step step ess x acc))"
    with Cons.prems(2)[of e] Cons.prems(1)[of i t] x
    show "e_target e \<in> A \<or> (e_target e = retry_id (gs_id step) \<and> has_retry step)"
      by (auto simp: outcome_edge_step_def retry_input_edge_def Let_def case_prod_unfold split: if_splits)
  qed (use Cons.prems in auto)
qed simp

lemma outcome_fold_retry_count:
  assumes "\<And>i t. (i, t) \<in> set xs \<Longrightarrow> truthy (ot_next t) \<Longrightarrow> the (ot_next t) \<noteq> retry_id (gs_id step)"
    and "length (filter (\<lambda>e. e_target e = retry_id (gs_id step)) (fst acc)) \<le> (if snd acc then 1 else 0)"
  shows "length (filter (\<lambda>e. e_target e = retry_id (gs_id step)) (fst (fold (outcome_edge_step step ess) xs acc)))
         \<le> (if snd (fold (outcome_edge_step step ess) xs acc) then 1 else 0)"
  using assms
proof (induction xs arbitrary: acc)
  case (Cons x xs)
  obtain i t where x: "x = (i, t)" by (cases x)
  show ?case
    unfolding fold_simps
  proof (rule Cons.IH)
    show "length (filter (\<lambda>e. e_target e = retry_id (gs_id step)) (fst (outcome_edge_step step ess x acc)))
        \<le> (if snd (outcome_edge_step step ess x acc) then 1 else 0)"
      using Cons.prems(2) Cons.prems(1)[of i t] x
      by (auto simp: outcome_edge_step_def retry_input_edge_def Let_def case_prod_unfold split: if_splits)
  qed (use Cons.prems in auto)
qed simp

lemma fallback_edges_facts:
  assumes "e \<in> set (retry_fallback_edges steps step)"
  shows "has_retry step" "e_target e \<in> gs_id ` set steps" "e_source e = retry_id (gs_id step)"
    "e_sourceHandle e = Some ''retry-failed''"
  using assms by (auto simp: retry_fallback_edges_def Let_def split: if_splits)

lemma load_step_edges_target:
  assumes "e \<in> set (load_step_edges cx steps step)" "set (step_targets step) \<subseteq> gs_id ` set steps" "step \<in> set steps"
  shows "e_target e \<in> gs_id ` set steps \<or> (e_target e = retry_id (gs_id step) \<and> has_retry step)"
proof (cases "outcomes_of step = []")
  case True
  with assms show ?thesis
    by (auto simp: load_step_edges_def plain_edges_def step_targets_def retry_loop_edges_def retry_input_edge_def Let_def
             dest: fallback_edges_facts split: if_splits)
next
  case False
  have t: "the (ot_next t) \<in> gs_id ` set steps" if "(i, t) \<in> set (enumerate 0 (outcomes_of step))" "truthy (ot_next t)" for i t
    using assms(2) False snd_in_set_enumerate[OF that(1)] that(2) by (auto simp: step_targets_def)
  have f: "e_target e \<in> gs_id ` set steps \<or> (e_target e = retry_id (gs_id step) \<and> has_retry step)"
    if "e \<in> set (fst (fold (outcome_edge_step step (load_end_states cx step)) (enumerate 0 (outcomes_of step)) ([], False)))" for e
    by (rule outcome_fold_targets[OF t _ that]) simp_all
  from assms(1) False assms(3) show ?thesis
    by (auto simp: load_step_edges_def outcome_edges_def retry_loop_edges_def retry_input_edge_def Let_def case_prod_unfold
             dest: fallback_edges_facts f split: if_splits)
qed

lemma load_step_edges_source_node:
  assumes "e \<in> set (load_step_edges cx steps step)"
  shows "e_source e = gs_id step \<or> (e_source e = retry_id (gs_id step) \<and> has_retry step)"
  using assms outcome_fold_sources[of "([], False)" step]
  by (auto simp: load_step_edges_def outcome_edges_def plain_edges_def retry_loop_edges_def
                 retry_input_edge_def Let_def case_prod_unfold
           dest: fallback_edges_facts split: if_splits)

text \<open>The ports of a loaded retry block carry one edge each.\<close>

lemma distinct_short: "length xs \<le> 1 \<Longrightarrow> distinct xs"
  by (cases xs) auto

lemma loaded_retry_sources:
  "distinct (map e_sourceHandle (outgoing (load_step_edges cx steps s) (retry_id (gs_id s))))"
proof -
  let ?out = "\<lambda>es. outgoing es (retry_id (gs_id s))" and ?fb = "retry_fallback_edges steps s"
  have own: "?out es = []" if "\<forall>e \<in> set es. e_source e = gs_id s" for es
    using that by (auto simp: outgoing_def filter_empty_conv)
  have fold: "?out (fst (fold (outcome_edge_step s ess) xs ([], False))) = []" for ess xs
    using outcome_fold_sources[of "([], False)"] by (intro own) simp
  have fb: "?out ?fb = ?fb" using fallback_edges_facts(3)[of _ steps s] by (auto simp: outgoing_def)
  have ri: "?out [retry_input_edge s h] = []" for h by (rule own) (simp add: retry_input_edge_def)
  have "?out (outcome_edges steps s ess) = ?fb" for ess
    by (simp add: outcome_edges_def Let_def case_prod_unfold fold fb ri) (simp add: outgoing_def)
  moreover have "?out (plain_edges steps s ess) = [] \<or> ?out (plain_edges steps s ess) = ?fb" for ess
    using fb by (auto simp: plain_edges_def outgoing_def Let_def retry_input_edge_def)
  ultimately have "?out (load_step_edges cx steps s) \<in> {?out (retry_loop_edges s), ?out (retry_loop_edges s) @ ?fb}"
    by (auto simp: load_step_edges_def Let_def)
  moreover have "map e_sourceHandle (?out (retry_loop_edges s)) \<in> {[], [Some ''retry-out'']}"
    by (simp add: retry_loop_edges_def outgoing_def)
  moreover have "map e_sourceHandle ?fb \<in> {[], [Some ''retry-failed'']}"
    by (simp add: retry_fallback_edges_def Let_def)
  ultimately show ?thesis by fastforce
qed

lemma loaded_retry_targets:
  assumes "retry_id (gs_id s) \<notin> gs_id ` set steps" "set (step_targets s) \<subseteq> gs_id ` set steps" "s \<in> set steps"
  shows "length (filter (\<lambda>e. e_target e = retry_id (gs_id s)) (load_step_edges cx steps s)) \<le> 1"
proof -
  let ?f = "filter (\<lambda>e. e_target e = retry_id (gs_id s))"
  have fb: "?f (retry_fallback_edges steps s) = []" "?f (retry_loop_edges s) = []"
    using assms(1) fallback_edges_facts(2)[of _ steps s]
    by (simp_all add: filter_empty_conv retry_loop_edges_def) metis
  show ?thesis
  proof (cases "outcomes_of s = []")
    case True
    with assms(1,2) have "length (?f (plain_edges steps s ess)) \<le> 1" for ess
      using fb by (auto simp: plain_edges_def step_targets_def Let_def)
    with True fb show ?thesis by (simp add: load_step_edges_def)
  next
    case False
    have t: "the (ot_next t) \<noteq> retry_id (gs_id s)" if "(i, t) \<in> set (enumerate 0 (outcomes_of s))" "truthy (ot_next t)" for i t
      using assms(1,2) False snd_in_set_enumerate[OF that(1)] that(2)
      by (simp add: step_targets_def image_subset_iff) metis
    let ?r = "fold (outcome_edge_step s (load_end_states cx s)) (enumerate 0 (outcomes_of s)) ([], False)"
    have "length (?f (fst ?r)) \<le> (if snd ?r then 1 else 0)"
      by (rule outcome_fold_retry_count) (use t in auto)
    with False fb show ?thesis
      by (auto simp: load_step_edges_def outcome_edges_def Let_def case_prod_unfold split: if_splits)
  qed
qed

text \<open>Edges into the retry block of a step are edges of that step.\<close>

lemma into_loaded_retry:
  assumes "distinct (map gs_id steps)" "s \<in> set steps"
    and "\<And>s'. s' \<in> set steps \<Longrightarrow> retry_id (gs_id s') \<notin> set (map gs_id steps)"
    and "\<And>s'. s' \<in> set steps \<Longrightarrow> set (step_targets s') \<subseteq> gs_id ` set steps"
  shows "filter (\<lambda>e. e_target e = retry_id (gs_id s)) (concat (map (load_step_edges cx steps) steps)) =
         filter (\<lambda>e. e_target e = retry_id (gs_id s)) (load_step_edges cx steps s)"
proof (rule filter_concat_single)
  show "distinct steps" using assms(1) by (simp add: distinct_map)
  fix y assume y: "y \<in> set steps" "y \<noteq> s"
  with assms(1,2) have ne: "gs_id y \<noteq> gs_id s" by (auto simp: distinct_map dest: inj_onD)
  show "filter (\<lambda>e. e_target e = retry_id (gs_id s)) (load_step_edges cx steps y) = []"
    using load_step_edges_target[OF _ assms(4)[OF y(1)] y(1), of _ cx] assms(3)[OF assms(2)] ne
    by (simp add: filter_empty_conv) (metis retry_id_inj)
qed (rule assms(2))

lemma wf_task_parts:
  assumes "well_formed_task g"
  defines "steps \<equiv> arr (bt_steps g)"
  shows "distinct (map gs_id steps)" "START_NODE_ID \<notin> gs_id ` set steps"
    "\<And>s. s \<in> set steps \<Longrightarrow> retry_id (gs_id s) \<notin> gs_id ` set steps"
    "\<And>s. s \<in> set steps \<Longrightarrow> set (step_targets s) \<subseteq> gs_id ` set steps"
  using assms(1) unfolding well_formed_task_def steps_def Let_def by (auto simp: list_all_iff)

lemma load_entry_in: "truthy (load_entry g) \<Longrightarrow> the (load_entry g) \<in> gs_id ` set (arr (bt_steps g))"
  by (auto simp: load_entry_def Let_def split: if_splits list.splits)

lemma start_edges_sel:
  "e \<in> set (start_edges v) \<Longrightarrow> e_source e = START_NODE_ID \<and> truthy v \<and> e_target e = the v"
  by (auto simp: start_edges_def split: if_splits)

lemma loaded_nodes_mem:
  "n \<in> set (loaded_nodes cx steps) \<longleftrightarrow> n = load_start_node cx \<or>
     (\<exists>i s. (i, s) \<in> set (enumerate 0 steps) \<and> (n = load_step_node cx i s \<or> (has_retry s \<and> n = load_retry_node i s)))"
  by (force simp: load_step_nodes_def)

lemma loaded_edges_mem:
  "e \<in> set (loaded_edges cx steps v) \<longleftrightarrow> e \<in> set (start_edges v) \<or> (\<exists>s \<in> set steps. e \<in> set (load_step_edges cx steps s))"
  by auto

lemma loaded_ports:
  assumes "well_formed_task g" "s \<in> set (arr (bt_steps g))"
  shows "ports_single (retry_id (gs_id s)) (loaded_edges cx (arr (bt_steps g)) (load_entry g))"
proof -
  let ?steps = "arr (bt_steps g)" and ?es = "loaded_edges cx (arr (bt_steps g)) (load_entry g)"
  note wf = wf_task_parts[OF assms(1)]
  have "outgoing ?es (retry_id (gs_id s)) = outgoing (load_step_edges cx ?steps s) (retry_id (gs_id s))"
    by (rule outgoing_loaded[OF wf(1) assms(2)]) (use wf(3) in simp_all)
  then have src: "distinct (map e_sourceHandle (filter (\<lambda>e. e_source e = retry_id (gs_id s)) ?es))"
    using loaded_retry_sources[of cx ?steps s] by (simp add: outgoing_def)
  have "the (load_entry g) \<noteq> retry_id (gs_id s)" if "truthy (load_entry g)"
    using load_entry_in[OF that] wf(3)[OF assms(2)] by metis
  then have "filter (\<lambda>e. e_target e = retry_id (gs_id s)) (start_edges (load_entry g)) = []"
    by (auto simp: start_edges_def)
  then have "length (filter (\<lambda>e. e_target e = retry_id (gs_id s)) ?es) \<le> 1"
    using into_loaded_retry[OF wf(1) assms(2) _ wf(4), of cx] wf(3) loaded_retry_targets[OF wf(3)[OF assms(2)] wf(4)[OF assms(2)] assms(2), of cx]
    by simp
  then have "distinct (map e_targetHandle (filter (\<lambda>e. e_target e = retry_id (gs_id s)) ?es))"
    by (intro distinct_short) simp
  from distinct_map_filter[OF this, of "\<lambda>e. e_source e \<noteq> START_NODE_ID"] src show ?thesis
    by (simp add: ports_single_def conj_commute)
qed

lemma loaded_attached:
  assumes "well_formed_task g"
  shows "edges_attached (open_canvas cx g)"
proof -
  let ?steps = "arr (bt_steps g)"
  note wf = wf_task_parts[OF assms]
  have ids: "set (map n_id (cv_nodes (open_canvas cx g))) = insert START_NODE_ID (\<Union>s \<in> set ?steps. set (step_node_ids s))"
    by (simp only: open_canvas_def convertActionGraphToGraph_def Let_def prod.case canvas.select_convs loaded_node_ids) simp
  have es: "set (cv_edges (open_canvas cx g)) = set (loaded_edges cx ?steps (load_entry g))"
    by (simp add: open_canvas_def convertActionGraphToGraph_def Let_def)
  have "e_source e \<in> set (map n_id (cv_nodes (open_canvas cx g))) \<and> e_target e \<in> set (map n_id (cv_nodes (open_canvas cx g)))"
    if "e \<in> set (cv_edges (open_canvas cx g))" for e
  proof (cases "e \<in> set (start_edges (load_entry g))")
    case True
    with load_entry_in[of g] show ?thesis unfolding ids by (auto dest!: start_edges_sel)
  next
    case False
    with that obtain s where s: "s \<in> set ?steps" "e \<in> set (load_step_edges cx ?steps s)"
      unfolding es loaded_edges_mem by blast
    from load_step_edges_source_node[OF s(2)] load_step_edges_target[OF s(2) wf(4)[OF s(1)] s(1)] s(1)
    show ?thesis unfolding ids by auto
  qed
  then show ?thesis by (simp add: edges_attached_def list_all_iff)
qed

lemma loaded_start_ok:
  assumes "well_formed_task g"
  shows "start_edges_ok (cv_edges (open_canvas cx g))"
proof -
  let ?steps = "arr (bt_steps g)" and ?own = "concat (map (load_step_edges cx (arr (bt_steps g))) (arr (bt_steps g)))"
  note wf = wf_task_parts[OF assms]
  have "filter (\<lambda>e. e_source e = START_NODE_ID) ?own = []"
    using wf(2) by (force simp: filter_empty_conv dest!: load_step_edges_source)
  moreover have "length (start_edges (load_entry g)) \<le> 1" by (simp add: start_edges_def)
  then have "length (filter (\<lambda>e. e_source e = START_NODE_ID) (start_edges (load_entry g))) \<le> 1"
    using length_filter_le order_trans by blast
  moreover have "e_target e \<noteq> START_NODE_ID" if "e \<in> set (loaded_edges cx ?steps (load_entry g))" for e
    using that wf(2) load_entry_in[of g] load_step_edges_target[OF _ wf(4), of e cx] unfolding loaded_edges_mem
    by (metis START_neq_retry(2) start_edges_sel)
  ultimately show ?thesis
    by (simp add: start_edges_ok_def open_canvas_def convertActionGraphToGraph_def Let_def list_all_iff)
qed

lemma open_canvas_inv:
  assumes "well_formed_task g"
  shows "canvas_inv (open_canvas cx g)"
proof -
  let ?steps = "arr (bt_steps g)"
  note wf = wf_task_parts[OF assms]
  have n: "cv_nodes (open_canvas cx g) = loaded_nodes cx ?steps"
    and e: "cv_edges (open_canvas cx g) = loaded_edges cx ?steps (load_entry g)"
    by (simp_all add: open_canvas_def convertActionGraphToGraph_def Let_def)
  have "distinct (concat (map step_node_ids ?steps))"
    by (rule distinct_step_node_ids[OF wf(1)]) (use wf(3) in force)
  moreover have "START_NODE_ID \<notin> set (concat (map step_node_ids ?steps))" using wf(2) by auto
  ultimately have "distinct (map n_id (cv_nodes (open_canvas cx g)))"
    unfolding n loaded_node_ids by simp
  moreover have "retry_ports_ok (open_canvas cx g)"
    unfolding retry_ports_ok_def n e list_all_iff Ball_def loaded_nodes_mem
    using loaded_ports[OF assms, of _ cx] by (auto dest!: snd_in_set_enumerate split: if_splits)
  moreover have "events_ok (cv_nodes (open_canvas cx g))"
    unfolding events_ok_def n list_all_iff Ball_def loaded_nodes_mem
    using wf(2) by (auto simp: load_node_data_def Let_def case_prod_unfold dest!: snd_in_set_enumerate split: if_splits)
      (metis image_eqI)
  ultimately show ?thesis
    using loaded_attached[OF assms, of cx] loaded_start_ok[OF assms, of cx] by (simp add: canvas_inv_def)
qed

lemma canvas_inv_ok: "canvas_inv cv \<Longrightarrow> canvas_ok cv"
  by (auto simp: canvas_inv_rel canvas_ok_def canvas_rel_def ends_in_def)

section \<open>Every canvas of a session\<close>

lemma edits_ok: "(edit_step rf)\<^sup>*\<^sup>* cv cv' \<Longrightarrow> react_flow_law rf \<Longrightarrow> canvas_ok cv \<Longrightarrow> canvas_ok cv'"
  by (induction rule: rtranclp_induct) (blast intro: edit_step_ok)+

text \<open>C2. From the opening of a well-formed task on, whatever the user connects, drops, selects, moves, deletes or edits and
  whatever React Flow reports: node ids stay unique, at most one edge leaves the start node and none enters it, every
  port of a retry block carries at most one edge (the entry edge apart), every event node is the start node or a
  terminal, and both ends of every edge are nodes of the canvas or nodes recorded as removed while the guard of
  \<open>onEdgesChange\<close> kept an edge of theirs. As long as there is no such node, no edge dangles.\<close>

theorem session_invariant:
  assumes "react_flow_law rf" "well_formed_task g" "(edit_step rf)\<^sup>*\<^sup>* (open_canvas cx g) cv"
  shows "canvas_ok cv \<and> (cv_left cv = [] \<longrightarrow> canvas_inv cv)"
  using edits_ok[OF assms(3,1) canvas_inv_ok[OF open_canvas_inv[OF assms(2)]]] by (auto simp: canvas_ok_def canvas_inv_rel)

lemma sample_well_formed: "well_formed_task sample_task"
  by code_simp

theorem session_invariant_witness:
  "let c1 = setMaxRetries ''move__retry'' (Fin 5) (open_canvas sample_context sample_task);
       c2 = deleteSelectedElements True (onNodesChange plain_node_changes [NSelect ''move'' True] c1)
   in canvas_inv c2 \<and> ''move'' \<in> set (map n_id (cv_nodes c1)) \<and> ''move'' \<notin> set (map n_id (cv_nodes c2))"
proof -
  let ?c0 = "open_canvas sample_context sample_task" and ?ed = "edit_step plain_react_flow"
  let ?c1 = "setMaxRetries ''move__retry'' (Fin 5) ?c0"
  let ?cs = "onNodesChange plain_node_changes [NSelect ''move'' True] ?c1"
  have "?ed ?c0 ?c1" by (rule edit_step.max_retries)
  moreover have "?ed ?c1 ?cs" using edit_step.nodes_change[of plain_react_flow ?c1] by (simp add: plain_react_flow_def)
  moreover have "?ed ?cs (deleteSelectedElements True ?cs)" by (rule edit_step.delete_selected)
  ultimately have "?ed\<^sup>*\<^sup>* ?c0 (deleteSelectedElements True ?cs)"
    by (meson converse_rtranclp_into_rtranclp rtranclp.rtrancl_refl)
  from session_invariant[OF plain_react_flow_law sample_well_formed this]
  have "cv_left (deleteSelectedElements True ?cs) = [] \<longrightarrow> canvas_inv (deleteSelectedElements True ?cs)" by blast
  moreover have "cv_left (deleteSelectedElements True ?cs) = []" "''move'' \<in> set (map n_id (cv_nodes ?c1))"
    "''move'' \<notin> set (map n_id (cv_nodes (deleteSelectedElements True ?cs)))" by code_simp+
  ultimately show ?thesis by (simp add: Let_def)
qed

text \<open>
  Removing a node by its button can leave an edge behind: when no edge would remain, React Flow reports the removals, the guard of
  \<open>onEdgesChange\<close> takes them for the ones of a re-rendering, since the node is still among the nodes it looks at, and the edge
  of the removed node stays.
\<close>

definition last_edge_canvas :: canvas where
  "last_edge_canvas =
     (let nodes = [sample_node ''a'' NAction (drop_end_states [''idle'', ''error'']), sample_node ''b'' NAction []]
      in \<lparr>cv_nodes = nodes,
          cv_edges = onConnect plain_add_edge nodes \<lparr>cn_source = Some ''a'', cn_target = Some ''b'', cn_sourceHandle = None, cn_targetHandle = None\<rparr> [],
          cv_pending = [], cv_left = []\<rparr>)"

theorem remove_last_edge_dangles:
  "let cv = removeNode plain_edge_changes plain_set_edges ''b'' True last_edge_canvas
   in canvas_inv last_edge_canvas \<and> map n_id (cv_nodes cv) = [''a''] \<and> map e_target (cv_edges cv) = [''b''] \<and> \<not> canvas_inv cv"
  by code_simp


section \<open>The targets of a saved task\<close>

definition saved_targets :: "graph_step \<Rightarrow> string list" where
  "saved_targets s =
     (case gs_transition s of
        None \<Rightarrow> []
      | Some tr \<Rightarrow> filter (\<lambda>t. t \<noteq> [])
          (map (\<lambda>t. orS (ot_next t) []) (arr (tr_on_outcomes tr))
           @ [orS (succ_target (tr_on_success tr)) [], orS (fail_target (tr_on_failure tr)) []]))"

text \<open>No edge joins two retry blocks, and an edge from an end state into a retry block belongs to an outcome
  other than success.\<close>

definition retry_edges_apart :: "canvas \<Rightarrow> bool" where
  "retry_edges_apart cv =
     list_all (\<lambda>e. retry_get (cv_nodes cv) (e_source e) = None \<or> retry_get (cv_nodes cv) (e_target e) = None) (cv_edges cv)"

definition retry_inputs_failures :: "canvas \<Rightarrow> bool" where
  "retry_inputs_failures cv =
     list_all (\<lambda>n. let ess = arr (nd_endStates (n_data n))
        in list_all (\<lambda>(i, es). case find (\<lambda>e. e_sourceHandle e = Some (es_id es)) (outgoing (cv_edges cv) (n_id n)) of
               None \<Rightarrow> True
             | Some e \<Rightarrow> retry_get (cv_nodes cv) (e_target e) = None
                         \<or> save_outcome (cat_outcomes (categorizeEndStates ess)) es i \<noteq> Success)
             (enumerate 0 ess)) (cv_nodes cv)"

lemma retry_get_Some: "retry_get nodes i = Some r \<Longrightarrow> r \<in> set nodes \<and> n_id r = i \<and> n_type r = NRetry"
  by (auto simp: retry_get_def retry_nodes_def dest!: map_of_SomeD)

lemma retry_get_None:
  assumes "retry_get nodes i = None" "n \<in> set nodes" "n_id n = i"
  shows "n_type n \<noteq> NRetry"
  using assms by (auto simp: retry_get_def retry_nodes_def map_of_eq_None_iff image_iff)

text \<open>On a canvas with the invariant an edge that does not enter a retry block enters a step.\<close>

lemma edge_into_step:
  assumes "canvas_inv cv" "e \<in> set (cv_edges cv)" "retry_get (cv_nodes cv) (e_target e) = None"
  shows "e_target e \<in> set (map n_id (filter becomes_step (cv_nodes cv)))"
proof -
  from assms(1,2) obtain n where n: "n \<in> set (cv_nodes cv)" "n_id n = e_target e" "e_target e \<noteq> START_NODE_ID"
    by (auto simp: canvas_inv_def edges_attached_def start_edges_ok_def list_all_iff)
  then have "n_type n \<noteq> NRetry" using retry_get_None[OF assms(3)] by simp
  moreover have "n_type n = NEvent \<Longrightarrow> Option.bind (nd_subtype (n_data n)) terminal_subtype_of \<noteq> None"
    using assms(1) n by (auto simp: canvas_inv_def events_ok_def list_all_iff)
  ultimately have "becomes_step n" by (cases "n_type n") (simp_all add: becomes_step_def)
  with n show ?thesis by force
qed

lemma truthy_found:
  "truthy (map_option e_target (find P (outgoing edges r))) \<Longrightarrow>
   \<exists>e \<in> set edges. e_source e = r \<and> map_option e_target (find P (outgoing edges r)) = Some (e_target e)"
  by (auto simp: truthy_def outgoing_def split: option.splits dest!: find_SomeD)

lemma resolveRetryEdge_target:
  assumes "truthy (resolveRetryEdge edges r s)"
  shows "\<exists>e \<in> set edges. e_source e = r \<and> resolveRetryEdge edges r s = Some (e_target e)"
  using assms truthy_found[of _ edges r] unfolding resolveRetryEdge_def Let_def orO_def
  by (auto split: if_splits)

text \<open>The invariant of the transition loop: every target is a step.\<close>

definition acc_targets_ok :: "string set \<Rightarrow> trans_acc \<Rightarrow> bool" where
  "acc_targets_ok ids acc =
     (list_all (\<lambda>t. \<exists>i \<in> ids. ot_next t = Some i) (fst acc)
      \<and> (case snd acc of None \<Rightarrow> True | Some rc \<Rightarrow> truthy (rc_fallback rc) \<longrightarrow> the (rc_fallback rc) \<in> ids))"

lemma end_state_step_targets:
  assumes inv: "canvas_inv cv" and apart: "retry_edges_apart cv" and acc: "acc_targets_ok ids acc"
    and ids: "ids = set (map n_id (filter becomes_step (cv_nodes cv)))"
    and fail: "\<And>e. find (\<lambda>e. e_sourceHandle e = Some (es_id es)) (outgoing (cv_edges cv) (n_id node)) = Some e \<Longrightarrow>
        retry_get (cv_nodes cv) (e_target e) = None \<or> save_outcome outs es i \<noteq> Success"
  shows "acc_targets_ok ids (end_state_step (cv_nodes cv) (cv_edges cv) node outs (i, es) acc)"
proof (cases "find (\<lambda>e. e_sourceHandle e = Some (es_id es)) (outgoing (cv_edges cv) (n_id node))")
  case None
  with acc show ?thesis by (simp add: end_state_step_def case_prod_unfold)
next
  case (Some e)
  then have e: "e \<in> set (cv_edges cv)" by (auto simp: outgoing_def dest!: find_SomeD)
  show ?thesis
  proof (cases "retry_get (cv_nodes cv) (e_target e)")
    case None
    from edge_into_step[OF inv e None] have "e_target e \<in> ids" by (simp add: ids)
    with acc Some None show ?thesis
      by (auto simp: end_state_step_def resolveRetryTarget_def acc_targets_ok_def orS_def Let_def case_prod_unfold)
  next
    case (Some r)
    note r = Some retry_get_Some[OF Some]
    have fb: "the v \<in> ids" if v: "v = resolveRetryEdge (cv_edges cv) (n_id r) (n_id node)" "truthy v" for v
    proof -
      obtain e' where e': "e' \<in> set (cv_edges cv)" "e_source e' = n_id r" "v = Some (e_target e')"
        using resolveRetryEdge_target[of "cv_edges cv" "n_id r" "n_id node"] v by auto
      with apart r have "retry_get (cv_nodes cv) (e_target e') = None" by (auto simp: retry_edges_apart_def list_all_iff)
      from edge_into_step[OF inv e'(1) this] e' show ?thesis by (simp add: ids)
    qed
    have "save_outcome outs es i \<noteq> Success" using fail \<open>find _ _ = Some e\<close> r by fastforce
    with acc \<open>find _ _ = Some e\<close> r fb show ?thesis
      by (auto simp: end_state_step_def resolveRetryTarget_def acc_targets_ok_def Let_def case_prod_unfold split: option.splits)
  qed
qed

lemma node_transitions_targets:
  assumes inv: "canvas_inv cv" "retry_edges_apart cv" and ri: "retry_inputs_failures cv" and n: "node \<in> set (cv_nodes cv)"
  shows "acc_targets_ok (set (map n_id (filter becomes_step (cv_nodes cv)))) (node_transitions (cv_nodes cv) (cv_edges cv) node)"
proof -
  let ?ids = "set (map n_id (filter becomes_step (cv_nodes cv)))" and ?ess = "arr (nd_endStates (n_data node))"
  let ?outs = "cat_outcomes (categorizeEndStates ?ess)"
  have ok: "retry_get (cv_nodes cv) (e_target e) = None \<or> save_outcome ?outs es i \<noteq> Success"
    if "(i, es) \<in> set (enumerate 0 ?ess)"
      "find (\<lambda>e. e_sourceHandle e = Some (es_id es)) (outgoing (cv_edges cv) (n_id node)) = Some e" for i es e
    using ri n that unfolding retry_inputs_failures_def list_all_iff Let_def by fastforce
  have "acc_targets_ok ?ids (fold (end_state_step (cv_nodes cv) (cv_edges cv) node ?outs) xs acc)"
    if "acc_targets_ok ?ids acc" "set xs \<subseteq> set (enumerate 0 ?ess)" for xs acc
    using that
  proof (induction xs arbitrary: acc)
    case (Cons x xs)
    obtain i es where x: "x = (i, es)" by (cases x)
    show ?case
      unfolding fold_simps
    proof (rule Cons.IH)
      show "acc_targets_ok ?ids (end_state_step (cv_nodes cv) (cv_edges cv) node ?outs x acc)"
        unfolding x by (rule end_state_step_targets[OF inv Cons.prems(1) refl]) (rule ok, use Cons.prems x in auto)
    qed (use Cons.prems in auto)
  qed simp
  from this[of "([], None)"] show ?thesis by (simp add: node_transitions_def Let_def acc_targets_ok_def)
qed

lemma build_transition_targets:
  assumes "acc_targets_ok ids acc" "gs_transition s = Some (build_transition acc)"
  shows "set (saved_targets s) \<subseteq> ids"
proof -
  obtain ts rc where acc: "acc = (ts, rc)" by (cases acc)
  with assms(1) have ts: "\<And>t. t \<in> set ts \<Longrightarrow> \<exists>i \<in> ids. ot_next t = Some i"
    and rc: "\<And>r. rc = Some r \<Longrightarrow> truthy (rc_fallback r) \<Longrightarrow> the (rc_fallback r) \<in> ids"
    by (auto simp: acc_targets_ok_def list_all_iff)
  let ?tr = "build_transition acc"
  have out: "orS (ot_next t) [] \<in> ids" if "t \<in> set (arr (tr_on_outcomes ?tr))" "orS (ot_next t) [] \<noteq> []" for t
    using that ts by (fastforce simp: build_transition_def acc Let_def orS_def split: if_splits)
  have nxt: "i \<in> ids" if "Option.bind (find P ts) ot_next = Some i" for P i
    using that ts by (cases "find P ts") (fastforce dest: find_SomeD)+
  have "orS (succ_target (tr_on_success ?tr)) [] \<in> ids" if "orS (succ_target (tr_on_success ?tr)) [] \<noteq> []"
    using that nxt[of "\<lambda>t. ot_outcome t = ''success''"]
    by (auto simp: build_transition_def acc Let_def succ_target_def orS_def split: option.splits if_splits)
  moreover have "orS (fail_target (tr_on_failure ?tr)) [] \<in> ids" if f: "orS (fail_target (tr_on_failure ?tr)) [] \<noteq> []"
  proof (cases rc)
    case None
    with f nxt[of "\<lambda>t. ot_outcome t \<noteq> ''success''"] show ?thesis
      by (auto simp: build_transition_def acc Let_def fail_target_def orS_def split: option.splits if_splits)
  next
    case (Some r)
    with f rc nxt[of "\<lambda>t. ot_outcome t \<noteq> ''success''"] show ?thesis
      by (auto simp: build_transition_def acc Let_def fail_target_def orS_def orO_def truthy_def split: option.splits if_splits)
  qed
  ultimately show ?thesis using out by (auto simp: saved_targets_def assms(2))
qed

lemma saved_targets_are_steps:
  assumes "canvas_inv cv" "retry_edges_apart cv" "retry_inputs_failures cv"
    and "convertGraphToSteps (cv_nodes cv) (cv_edges cv) = (steps, entry)" "s \<in> set steps"
  shows "set (saved_targets s) \<subseteq> set (map gs_id steps)"
proof -
  have ids: "map gs_id steps = map n_id (filter becomes_step (cv_nodes cv))"
    using saved_ids[of "cv_nodes cv" "cv_edges cv"] assms(4) by simp
  from assms(4,5) obtain n where n: "n \<in> set (cv_nodes cv)" "s \<in> set (node_steps (cv_nodes cv) (cv_edges cv) n)"
    by (auto simp: convertGraphToSteps_def Let_def)
  show ?thesis
  proof (cases "gs_transition s = Some (build_transition (node_transitions (cv_nodes cv) (cv_edges cv) n))")
    case True
    from build_transition_targets[OF node_transitions_targets[OF assms(1-3) n(1)] True] show ?thesis
      unfolding ids .
  next
    case False
    with n(2) have "gs_transition s = None"
      by (auto simp: node_steps_def action_step_def terminal_step_def no_step_def Let_def split: node_type.splits option.splits)
    then show ?thesis by (simp add: saved_targets_def)
  qed
qed


lemma sample_saved:
  "convertGraphToSteps (cv_nodes (open_canvas sample_context sample_task)) (cv_edges (open_canvas sample_context sample_task)) =
     ([sample_action_step, sample_terminal_step ''done'' ''success'' False, sample_terminal_step ''stop'' ''failure'' True],
      Some ''move'')"
  by code_simp


section \<open>Connections the save cannot express\<close>

definition retry_chain :: canvas where
  "retry_chain =
     (let nodes = [sample_node ''a'' NAction (drop_end_states [''idle'', ''error'']), sample_node ''r1'' NRetry [],
                   sample_node ''r2'' NRetry []];
          c = \<lambda>s h t. \<lparr>cn_source = Some s, cn_target = Some t, cn_sourceHandle = Some h, cn_targetHandle = None\<rparr>
      in \<lparr>cv_nodes = nodes,
          cv_edges = onConnect plain_add_edge nodes (c ''r1'' ''retry-failed'' ''r2'')
                       (onConnect plain_add_edge nodes (c ''a'' ''failed'' ''r1'') []),
          cv_pending = [], cv_left = []\<rparr>)"

text \<open>The editor accepts an edge from the failure port of one retry block into another. The canvas keeps
  its invariant, but the saved step then falls back to the second retry block, which is no step of the
  task: the reference dangles.\<close>

theorem retry_chain_dangles:
  "canvas_inv retry_chain \<and>
   (case convertGraphToSteps (cv_nodes retry_chain) (cv_edges retry_chain) of (steps, entry) \<Rightarrow>
      map gs_id steps = [''a''] \<and> saved_targets (hd steps) = [''r2''])"
proof
  show "canvas_inv retry_chain" by code_simp
  show "case convertGraphToSteps (cv_nodes retry_chain) (cv_edges retry_chain) of (steps, entry) \<Rightarrow>
      map gs_id steps = [''a''] \<and> saved_targets (hd steps) = [''r2'']" by code_simp
qed

definition failure_edges_task :: behavior_tree where
  "failure_edges_task = sample_task\<lparr>bt_steps := Some
     [sample_action_step
        \<lparr>gs_end_states := Some (drop_end_states [''idle'', ''error'']),
         gs_transition := map_option (\<lambda>tr. tr\<lparr>tr_on_outcomes := Some
           [\<lparr>ot_outcome = ''success'', ot_next = Some ''done'', ot_state = Some ''idle''\<rparr>,
            \<lparr>ot_outcome = ''cancelled'', ot_next = Some ''stop'', ot_state = Some ''error''\<rparr>]\<rparr>)
             (gs_transition sample_action_step)\<rparr>,
      sample_terminal_step ''done'' ''success'' False, sample_terminal_step ''stop'' ''failure'' True]\<rparr>"

text \<open>A step may have a retry block on one failure outcome and an edge of its own on another. Opening such
  a task turns the other edge into the retry block's input, so saving it unchanged drops the outcome
  transition \<open>cancelled\<close> that was stored.\<close>

theorem retry_absorbs_failure_edges:
  "well_formed_task failure_edges_task \<and>
   (let cv = open_canvas sample_context failure_edges_task;
        before = map ot_outcome (outcomes_of (hd (arr (bt_steps failure_edges_task))));
        after = map ot_outcome (outcomes_of (hd (fst (convertGraphToSteps (cv_nodes cv) (cv_edges cv)))))
    in before = [''success'', ''cancelled''] \<and> after = [''success''])"
proof
  show "well_formed_task failure_edges_task" by code_simp
  show "let cv = open_canvas sample_context failure_edges_task;
        before = map ot_outcome (outcomes_of (hd (arr (bt_steps failure_edges_task))));
        after = map ot_outcome (outcomes_of (hd (fst (convertGraphToSteps (cv_nodes cv) (cv_edges cv)))))
    in before = [''success'', ''cancelled''] \<and> after = [''success'']" by code_simp
qed

end
