(* ===== verification/Planning_Task.thy ===== *)
theory Planning_Task
  imports Fleet_Types
begin

text \<open>
  Planning annotations of a task (\<^verbatim>\<open>pages/ActionGraph/index.tsx\<close>, \<^verbatim>\<open>pages/PDDL/index.tsx\<close>): resource tokens, placeholders in
  state variables and the state they stand for, the suggestions offered for a variable, the clean-up of a
  specification on load and against a task distributor, and the union of the annotations of several tasks.
  \<open>localeCompare\<close> is the parameter \<open>lc\<close>.
\<close>

section \<open>Tokens and placeholders\<close>

definition emptyPlanningTask :: planning_task_spec where
  "emptyPlanningTask =
     \<lparr>pt_preconditions = Some [], pt_required_resources = Some [], pt_during_state = Some [], pt_result_states = Some [],
      pt_warning_result_states = Some [], pt_error_result_states = Some [], pt_warning_message_variable = Some [],
      pt_error_message_variable = Some []\<rparr>"

record planning_agent_option =
  pa_id :: string
  pa_name :: string

definition getStateDefaultValue :: "td_state option \<Rightarrow> string" where
  "getStateDefaultValue v =
     (case v of None \<Rightarrow> [] | Some sv \<Rightarrow>
        if ts_type sv = ''bool'' then ''true'' else if ts_type sv = ''int'' then ''0'' else orS (ts_initial_value sv) [])"

definition formatPlanningResourceToken :: "string \<Rightarrow> td_resource list \<Rightarrow> string" where
  "formatPlanningResourceToken token resources =
     (if startsWith token ''type:''
      then (case find (\<lambda>r. tr_id r = drop 5 token) resources of None \<Rightarrow> token | Some r \<Rightarrow> ''TYPE '' @ tr_name r)
      else if startsWith token ''instance:''
      then (case find (\<lambda>r. tr_id r = drop 9 token) resources of None \<Rightarrow> token | Some r \<Rightarrow> tr_name r)
      else token)"

definition buildPlanningResourceTokenSet :: "td_resource list \<Rightarrow> string list" where
  "buildPlanningResourceTokenSet resources =
     uniq (map (\<lambda>r. (if tr_kind r = Some ''type'' then ''type'' else ''instance'') @ '':'' @ tr_id r) resources)"

definition containsPlanningPlaceholder :: "string \<Rightarrow> bool" where
  "containsPlanningPlaceholder v = (str_includes v ''{{resource.'' \<or> str_includes v ''{{agent.'' \<or> str_includes v ''{{agent}}'')"

text \<open>The closure \<open>apply\<close> of \<open>buildPlanningPlaceholderCandidates\<close>: one placeholder, every value.\<close>

definition apply_placeholder :: "string \<Rightarrow> string list \<Rightarrow> string list \<Rightarrow> string list" where
  "apply_placeholder ph values candidates =
     (if length values = 0 then candidates
      else uniq (concat (map (\<lambda>c. if str_includes c ph then map (\<lambda>v. substitute ph v c) values else [c]) candidates)))"

definition buildPlanningPlaceholderCandidates ::
  "string \<Rightarrow> td_resource list \<Rightarrow> planning_agent_option list \<Rightarrow> string list" where
  "buildPlanningPlaceholderCandidates variable resources agents =
     (let resourceNames = map tr_name (filter (\<lambda>r. tr_kind r \<noteq> Some ''type'' \<and> tr_name r \<noteq> []) resources);
          agentNames = uniq (filter (\<lambda>s. s \<noteq> []) (map (\<lambda>a. trim (pa_name a)) agents));
          agentIDs = uniq (filter (\<lambda>s. s \<noteq> []) (map (\<lambda>a. trim (pa_id a)) agents))
      in apply_placeholder ''{{agent}}'' agentNames
           (apply_placeholder ''{{agent.id}}'' agentIDs
             (apply_placeholder ''{{agent.name}}'' agentNames
               (apply_placeholder ''{{resource.name}}'' resourceNames [variable]))))"

definition buildTemplateLoadSignature :: "behavior_tree \<Rightarrow> string" where
  "buildTemplateLoadSignature t =
     js_join ''|'' [bt_id t, show_nat (bt_version t), orS (bt_updated_at t) [], bt_created_at t,
       orS (bt_entry_point t) [], show_nat (length (arr (bt_steps t)))]"

definition inferPlanningStateVar ::
  "string \<Rightarrow> td_state list \<Rightarrow> td_resource list \<Rightarrow> planning_agent_option list \<Rightarrow> td_state option" where
  "inferPlanningStateVar variable states resources agents =
     (case find (\<lambda>s. ts_name s = variable) states of
        Some exact \<Rightarrow> Some exact
      | None \<Rightarrow>
          if \<not> containsPlanningPlaceholder variable then None
          else case List.map_filter (\<lambda>c. find (\<lambda>s. ts_name s = c) states)
                      (buildPlanningPlaceholderCandidates variable resources agents) of
                 [] \<Rightarrow> None
               | first # rest \<Rightarrow>
                   if list_all (\<lambda>s. ts_type s = ts_type first) (first # rest) then Some first else None)"

section \<open>Suggestions\<close>

definition suggestion_priority :: "string \<Rightarrow> int" where
  "suggestion_priority v =
     (if str_includes v ''{{resource.name}}'' then 0
      else if str_includes v ''{{agent.name}}'' \<or> str_includes v ''{{agent.id}}'' \<or> str_includes v ''{{agent}}'' then 1 else 2)"

definition suggestion_cmp :: "(string \<Rightarrow> string \<Rightarrow> int) \<Rightarrow> string \<Rightarrow> string \<Rightarrow> int" where
  "suggestion_cmp lc l r =
     (let byPriority = suggestion_priority l - suggestion_priority r in if byPriority \<noteq> 0 then byPriority else lc l r)"

definition resource_suggestions :: "td_state list \<Rightarrow> td_resource list \<Rightarrow> string list" where
  "resource_suggestions states resources =
     concat (map (\<lambda>s. map (\<lambda>r. substitute (tr_name r) ''{{resource.name}}'' (ts_name s))
         (filter (\<lambda>r. str_includes (ts_name s) (tr_name r)) resources)) states)"

definition agent_suggestions :: "td_state list \<Rightarrow> planning_agent_option list \<Rightarrow> string list" where
  "agent_suggestions states agents =
     concat (map (\<lambda>s. concat (map (\<lambda>a.
         (if pa_name a \<noteq> [] \<and> str_includes (ts_name s) (pa_name a)
          then [substitute (pa_name a) ''{{agent.name}}'' (ts_name s), substitute (pa_name a) ''{{agent}}'' (ts_name s)] else [])
         @ (if pa_id a \<noteq> [] \<and> str_includes (ts_name s) (pa_id a)
            then [substitute (pa_id a) ''{{agent.id}}'' (ts_name s)] else [])) agents)) states)"

definition buildPlanningVariableSuggestions ::
  "(string \<Rightarrow> string \<Rightarrow> int) \<Rightarrow> td_state list \<Rightarrow> td_resource list \<Rightarrow> planning_agent_option list \<Rightarrow> string list" where
  "buildPlanningVariableSuggestions lc states resources agents =
     (let instanceResources = filter (\<lambda>r. tr_kind r \<noteq> Some ''type'' \<and> tr_name r \<noteq> []) resources;
          namedAgents = filter (\<lambda>a. pa_id a \<noteq> [] \<or> pa_name a \<noteq> [])
            (map (\<lambda>a. \<lparr>pa_id = trim (pa_id a), pa_name = trim (pa_name a)\<rparr>) agents)
      in js_sort (suggestion_cmp lc)
           (uniq (filter (\<lambda>n. n \<noteq> []) (map ts_name states) @ resource_suggestions states instanceResources
                  @ agent_suggestions states namedAgents)))"

section \<open>Clean-up\<close>

definition isPlanningStateReferenceAllowed :: "string \<Rightarrow> td_state list \<Rightarrow> bool" where
  "isPlanningStateReferenceAllowed variable states =
     (list_ex (\<lambda>s. ts_name s = variable) states \<or> containsPlanningPlaceholder variable)"

definition normalizedRequiredResources :: "string list option \<Rightarrow> string list" where
  "normalizedRequiredResources ts = uniq (filter (\<lambda>t. t \<noteq> []) (map trim (arr ts)))"

definition with_operator :: "planning_condition \<Rightarrow> planning_condition" where
  "with_operator c = c\<lparr>pc_operator := Some (orS (pc_operator c) ''=='')\<rparr>"

definition filterPlanningTaskForDistributor ::
  "planning_task_spec \<Rightarrow> td_state list \<Rightarrow> td_resource list \<Rightarrow> planning_task_spec" where
  "filterPlanningTaskForDistributor spec states resources =
     (let tokens = buildPlanningResourceTokenSet resources;
          required = normalizedRequiredResources (pt_required_resources spec);
          ok = (\<lambda>v. isPlanningStateReferenceAllowed v states);
          effects = (\<lambda>es. filter (\<lambda>e. ok (pe_variable e)) (arr es));
          var = (\<lambda>v. if ok (orS v []) then orS v [] else [])
      in \<lparr>pt_preconditions = Some (map with_operator
            (filter (\<lambda>c. ok (pc_variable c)) (arr (pt_preconditions spec)))),
          pt_required_resources = Some (if length tokens > 0 then filter (\<lambda>t. t \<in> set tokens) required else required),
          pt_during_state = Some (take 1 (effects (pt_during_state spec))),
          pt_result_states = Some (effects (pt_result_states spec)),
          pt_warning_result_states = Some (effects (pt_warning_result_states spec)),
          pt_error_result_states = Some (effects (pt_error_result_states spec)),
          pt_warning_message_variable = Some (var (pt_warning_message_variable spec)),
          pt_error_message_variable = Some (var (pt_error_message_variable spec))\<rparr>)"

definition normalizePlanningTask :: "planning_task_spec option \<Rightarrow> planning_task_spec" where
  "normalizePlanningTask spec =
     (let s = coalesce spec \<lparr>pt_preconditions = None, pt_required_resources = None, pt_during_state = None,
            pt_result_states = None, pt_warning_result_states = None, pt_error_result_states = None,
            pt_warning_message_variable = None, pt_error_message_variable = None\<rparr>;
          effects = (\<lambda>es. filter (\<lambda>e. pe_variable e \<noteq> []) (arr es))
      in \<lparr>pt_preconditions = Some (map with_operator
            (filter (\<lambda>c. pc_variable c \<noteq> []) (arr (pt_preconditions s)))),
          pt_required_resources = Some (uniq (filter (\<lambda>t. t \<noteq> []) (arr (pt_required_resources s)))),
          pt_during_state = Some (take 1 (effects (pt_during_state s))),
          pt_result_states = Some (effects (pt_result_states s)),
          pt_warning_result_states = Some (effects (pt_warning_result_states s)),
          pt_error_result_states = Some (effects (pt_error_result_states s)),
          pt_warning_message_variable = Some (trim (orS (pt_warning_message_variable s) [])),
          pt_error_message_variable = Some (trim (orS (pt_error_message_variable s) []))\<rparr>)"

section \<open>Union of annotations\<close>

definition EMPTY_PLANNING_TASK :: planning_task_spec where
  "EMPTY_PLANNING_TASK =
     \<lparr>pt_preconditions = Some [], pt_required_resources = Some [], pt_during_state = Some [], pt_result_states = Some [],
      pt_warning_result_states = None, pt_error_result_states = None, pt_warning_message_variable = None,
      pt_error_message_variable = None\<rparr>"

definition merge_conditions ::
  "planning_condition list \<Rightarrow> (string \<times> string option \<times> string) list \<Rightarrow> (string \<times> string option \<times> string) list" where
  "merge_conditions cs m = fold (\<lambda>c. map_set (pc_variable c) (pc_operator c, pc_value c)) (filter (\<lambda>c. pc_variable c \<noteq> []) cs) m"

definition merge_effects :: "planning_effect list \<Rightarrow> (string \<times> string) list \<Rightarrow> (string \<times> string) list" where
  "merge_effects es m = fold (\<lambda>e. map_set (pe_variable e) (pe_value e)) (filter (\<lambda>e. pe_variable e \<noteq> []) es) m"

definition task_entries :: "(planning_task_spec \<Rightarrow> 'a list option) \<Rightarrow> planning_task_spec option list \<Rightarrow> 'a list list" where
  "task_entries f tasks = map (\<lambda>t. case t of None \<Rightarrow> [] | Some s \<Rightarrow> arr (f s)) tasks"

definition mergePlanningTasks :: "planning_task_spec option list \<Rightarrow> planning_task_spec" where
  "mergePlanningTasks tasks =
     (let pre = fold merge_conditions (task_entries pt_preconditions tasks) [];
          req = uniq (filter (\<lambda>r. r \<noteq> []) (concat (task_entries pt_required_resources tasks)));
          during = fold merge_effects (task_entries pt_during_state tasks) [];
          results = fold merge_effects (task_entries pt_result_states tasks) []
      in EMPTY_PLANNING_TASK
           \<lparr>pt_preconditions := Some (map (\<lambda>(v, op, x). \<lparr>pc_variable = v, pc_operator = op, pc_value = x\<rparr>) pre),
            pt_required_resources := Some req,
            pt_during_state := Some (map (\<lambda>(v, x). \<lparr>pe_variable = v, pe_value = x\<rparr>) during),
            pt_result_states := Some (map (\<lambda>(v, x). \<lparr>pe_variable = v, pe_value = x\<rparr>) results)\<rparr>)"

section \<open>Substituting a placeholder back\<close>

text \<open>A separator that does not overlap itself is found again where it was inserted.\<close>

definition unbordered :: "string \<Rightarrow> bool" where
  "unbordered p = (p \<noteq> [] \<and> (\<forall>k \<in> {0<..<length p}. take k p \<noteq> drop (length p - k) p))"

lemma unborderedD: "unbordered p \<Longrightarrow> p = q @ t \<Longrightarrow> q \<noteq> [] \<Longrightarrow> t \<noteq> [] \<Longrightarrow> \<not> prefix t p"
proof
  assume p: "unbordered p" "p = q @ t" "q \<noteq> []" "t \<noteq> []" "prefix t p"
  then have "take (length t) p = t" by (metis append_eq_conv_conj prefix_def)
  moreover have "drop (length p - length t) p = t" using p(2) by simp
  moreover have "length t \<in> {0<..<length p}" using p(2-4) by simp
  ultimately show False using p(1) unfolding unbordered_def by metis
qed

lemma no_early_match:
  assumes "unbordered sep" "\<not> sublist sep q" "q \<noteq> []"
  shows "\<not> prefix sep (q @ sep @ r)"
proof
  assume "prefix sep (q @ sep @ r)"
  then consider "prefix sep q" | t where "sep = q @ t" "prefix t (sep @ r)"
    unfolding prefix_append by blast
  then show False
  proof cases
    case 1
    with assms(2) show False by (simp add: prefix_imp_sublist)
  next
    case (2 t)
    then have "prefix t sep" by (metis prefix_append prefix_length_le suffixI suffix_length_le prefix_length_prefix prefixI)
    moreover have "t \<noteq> []" using 2(1) assms(2) by auto
    ultimately show False using unborderedD[OF assms(1) 2(1) assms(3)] by simp
  qed
qed

lemma split_go_piece:
  assumes "unbordered sep" "\<not> sublist sep p"
  shows "split_go sep acc (p @ sep @ r) = (rev acc @ p) # split_go sep [] r"
  using assms(2)
proof (induction p arbitrary: acc)
  case Nil
  from assms(1) have "sep \<noteq> []" by (simp add: unbordered_def)
  then show ?case by (subst split_go.simps) simp
next
  case (Cons c p)
  from no_early_match[OF assms(1) Cons.prems, of r] have "\<not> prefix sep (c # p @ sep @ r)" by simp
  moreover have "\<not> sublist sep p" using Cons.prems by (auto simp: sublist_Cons_right)
  ultimately show ?case using Cons.IH[of "c # acc"] by (subst split_go.simps) simp
qed

lemma js_split_join:
  "unbordered sep \<Longrightarrow> ps \<noteq> [] \<Longrightarrow> (\<And>p. p \<in> set ps \<Longrightarrow> \<not> sublist sep p) \<Longrightarrow> js_split sep (js_join sep ps) = ps"
proof (induction ps)
  case (Cons p ps)
  then have sep: "sep \<noteq> []" by (simp add: unbordered_def)
  show ?case
  proof (cases ps)
    case Nil
    with Cons sep show ?thesis by (simp add: js_split_def split_go_no_sep)
  next
    case (Cons q qs)
    with Cons.IH Cons.prems sep show ?thesis by (simp add: js_split_def split_go_piece js_join_Cons)
  qed
qed simp

lemma split_go_pieces: "q \<in> set (split_go sep acc s) \<Longrightarrow> sublist q (rev acc @ s)"
proof (induction sep acc s arbitrary: q rule: split_go.induct)
  case (1 sep acc s)
  show ?case
  proof (cases "sep \<noteq> [] \<and> prefix sep s")
    case True
    then obtain t where t: "s = sep @ t" by (auto simp: prefix_def)
    with 1 True have "q = rev acc \<or> sublist q t" by (subst (asm) split_go.simps) auto
    moreover have "sublist t (rev acc @ s)" using t by (metis append.assoc sublist_append_leftI sublist_order.order_refl)
    ultimately show ?thesis by (auto intro: sublist_order.order_trans)
  next
    case False
    with 1 show ?thesis by (subst (asm) (2) split_go.simps) (auto split: list.splits)
  qed
qed

lemma js_split_pieces: "sep \<noteq> [] \<Longrightarrow> q \<in> set (js_split sep s) \<Longrightarrow> sublist q s"
  using split_go_pieces[of q sep "[]" s] by (simp add: js_split_def)

lemma js_split_nonempty: "sep \<noteq> [] \<Longrightarrow> js_split sep s \<noteq> []"
  by (simp add: js_split_def split_go_nonempty)

lemma substitute_back:
  assumes "unbordered ph" "v \<noteq> []" "\<not> str_includes s ph"
  shows "substitute ph v (substitute v ph s) = s"
proof -
  have "js_split ph (js_join ph (js_split v s)) = js_split v s"
    using assms js_split_pieces[OF assms(2)] by (intro js_split_join) (auto simp: js_split_nonempty intro: sublist_order.order_trans)
  then show ?thesis using assms(2) by (simp add: substitute_def js_join_split)
qed

lemma split_go_hit: "sep \<noteq> [] \<Longrightarrow> sublist sep s \<Longrightarrow> \<exists>x y zs. split_go sep acc s = x # y # zs"
proof (induction sep acc s rule: split_go.induct)
  case (1 sep acc s)
  show ?case
  proof (cases "prefix sep s")
    case True
    with 1(3) show ?thesis
      using split_go_nonempty[of sep "[]" "drop (length sep) s"] by (subst split_go.simps) (auto simp: neq_Nil_conv)
  next
    case False
    with 1(3,4) obtain c cs where s: "s = c # cs" "sublist sep cs" by (cases s) (auto simp: sublist_Cons_right)
    with 1(2)[of c cs] 1(3) False show ?thesis by (subst split_go.simps) simp
  qed
qed

lemma substitute_includes: "v \<noteq> [] \<Longrightarrow> str_includes s v \<Longrightarrow> str_includes (substitute v w s) w"
  using split_go_hit[of v s "[]"] by (auto simp: substitute_def js_split_def js_join_Cons)

lemma apply_placeholder_hit:
  "c \<in> set cs \<Longrightarrow> str_includes c ph \<Longrightarrow> v \<in> set vs \<Longrightarrow> substitute ph v c \<in> set (apply_placeholder ph vs cs)"
  unfolding apply_placeholder_def by (cases vs) force+

lemma apply_placeholder_keep: "c \<in> set cs \<Longrightarrow> \<not> str_includes c ph \<Longrightarrow> c \<in> set (apply_placeholder ph vs cs)"
  unfolding apply_placeholder_def by (cases vs) force+

text \<open>A suggested template leads back to the state it was built from: for every state name that contains the
  name of a resource instance and no placeholder of its own, the suggestion with that name replaced by
  \<open>{{resource.name}}\<close> is offered, and the state's name is among the candidates the suggestion stands for.\<close>

theorem suggestion_resolves:
  assumes "s \<in> set states" "r \<in> set resources" "tr_kind r \<noteq> Some ''type''" "tr_name r \<noteq> []"
    and "str_includes (ts_name s) (tr_name r)"
    and "\<forall>ph \<in> {''{{resource.name}}'', ''{{agent.name}}'', ''{{agent.id}}'', ''{{agent}}''}. \<not> str_includes (ts_name s) ph"
  shows "substitute (tr_name r) ''{{resource.name}}'' (ts_name s) \<in> set (buildPlanningVariableSuggestions lc states resources agents)
       \<and> ts_name s \<in> set (buildPlanningPlaceholderCandidates (substitute (tr_name r) ''{{resource.name}}'' (ts_name s)) resources agents)"
proof
  let ?t = "substitute (tr_name r) ''{{resource.name}}'' (ts_name s)"
  show "?t \<in> set (buildPlanningVariableSuggestions lc states resources agents)"
    using assms(1-5) unfolding buildPlanningVariableSuggestions_def resource_suggestions_def Let_def by auto
  have ub: "unbordered ''{{resource.name}}''" by code_simp
  have undo: "substitute ''{{resource.name}}'' (tr_name r) ?t = ts_name s"
    using assms(4,6) by (intro substitute_back[OF ub]) auto
  have inc: "str_includes ?t ''{{resource.name}}''"
    using assms(4,5) by (rule substitute_includes)
  let ?names = "map tr_name (filter (\<lambda>r. tr_kind r \<noteq> Some ''type'' \<and> tr_name r \<noteq> []) resources)"
  have "substitute ''{{resource.name}}'' (tr_name r) ?t \<in> set (apply_placeholder ''{{resource.name}}'' ?names [?t])"
    using assms(2-4) inc by (intro apply_placeholder_hit) auto
  with assms(6) show "ts_name s \<in> set (buildPlanningPlaceholderCandidates ?t resources agents)"
    unfolding buildPlanningPlaceholderCandidates_def Let_def undo
    by (intro apply_placeholder_keep[where ph = "''{{agent}}''"] apply_placeholder_keep[where ph = "''{{agent.id}}''"]
        apply_placeholder_keep[where ph = "''{{agent.name}}''"]) simp_all
qed

definition arm_resource :: td_resource where
  "arm_resource = \<lparr>tr_id = ''r1'', tr_task_distributor_id = ''d'', tr_name = ''arm1'', tr_kind = None,
     tr_parent_resource_id = None, tr_description = None\<rparr>"

definition arm_status :: td_state where
  "arm_status = \<lparr>ts_id = ''s1'', ts_task_distributor_id = ''d'', ts_name = ''arm1_status'', ts_type = ''string'',
     ts_initial_value = None, ts_description = None\<rparr>"

theorem suggestion_resolves_witness:
  "''arm1_status'' \<in> set (buildPlanningPlaceholderCandidates ''{{resource.name}}_status'' [arm_resource] [])"
proof -
  have "arm_status \<in> set [arm_status]" "arm_resource \<in> set [arm_resource]" "tr_kind arm_resource \<noteq> Some ''type''"
      "tr_name arm_resource \<noteq> []" "str_includes (ts_name arm_status) (tr_name arm_resource)"
      "\<forall>ph \<in> {''{{resource.name}}'', ''{{agent.name}}'', ''{{agent.id}}'', ''{{agent}}''}. \<not> str_includes (ts_name arm_status) ph"
    by (simp, simp, code_simp, code_simp, code_simp, code_simp)
  note res = suggestion_resolves[OF this, of "\<lambda>_ _. 0" "[]"]
  have "substitute (tr_name arm_resource) ''{{resource.name}}'' (ts_name arm_status) = ''{{resource.name}}_status''"
      "ts_name arm_status = ''arm1_status''" by code_simp+
  with res show ?thesis by metis
qed

section \<open>The order of the suggestions\<close>

text \<open>Ties are broken by \<open>localeCompare\<close>: whenever that is an order, the comparison of the suggestions is one.\<close>

locale locale_compare = names: sort_order lc for lc :: "string \<Rightarrow> string \<Rightarrow> int"

sublocale locale_compare \<subseteq> suggestions: sort_order "suggestion_cmp lc"
proof
  fix x y z :: string
  show "suggestion_cmp lc x y \<le> 0 \<or> suggestion_cmp lc y x \<le> 0"
    using names.total[of x y] by (auto simp: suggestion_cmp_def Let_def)
  show "suggestion_cmp lc x z \<le> 0" if "suggestion_cmp lc x y \<le> 0" "suggestion_cmp lc y z \<le> 0"
    using that names.trans[of x y z] by (auto simp: suggestion_cmp_def Let_def split: if_splits)
qed

context locale_compare
begin

lemma sorted_suggestions:
  "sorted_wrt (\<lambda>a b. suggestion_priority a < suggestion_priority b
      \<or> suggestion_priority a = suggestion_priority b \<and> lc a b \<le> 0) (js_sort (suggestion_cmp lc) xs)"
  by (rule sorted_wrt_mono_rel[OF _ suggestions.sorted_js_sort]) (auto simp: suggestion_cmp_def Let_def split: if_splits)

end

interpretation code_unit_names: locale_compare code_unit_cmp
  by (simp add: locale_compare_def code_units.sort_order_axioms)

text \<open>The suggestions list every state name and every template derived from one, once each, templates over
  resources first, then templates over agents, then plain names, and each group in the order of
  \<open>localeCompare\<close>.\<close>

theorem suggestions_ordered:
  assumes "sort_order lc"
  shows "distinct (buildPlanningVariableSuggestions lc states resources agents)
    \<and> sorted_wrt (\<lambda>a b. suggestion_priority a < suggestion_priority b
          \<or> suggestion_priority a = suggestion_priority b \<and> lc a b \<le> 0)
        (buildPlanningVariableSuggestions lc states resources agents)
    \<and> (\<forall>s \<in> set states. ts_name s \<noteq> [] \<longrightarrow> ts_name s \<in> set (buildPlanningVariableSuggestions lc states resources agents))"
proof -
  from assms have "locale_compare lc" by (simp add: locale_compare_def)
  moreover have "distinct (js_sort (suggestion_cmp lc) (uniq xs))" for xs
    by (metis distinct_uniq mset_eq_imp_distinct_iff mset_js_sort)
  ultimately show ?thesis
    unfolding buildPlanningVariableSuggestions_def Let_def by (simp add: locale_compare.sorted_suggestions)
qed

theorem suggestions_ordered_witness:
  "''arm1_status'' \<in> set (buildPlanningVariableSuggestions code_unit_cmp [arm_status] [arm_resource] [])"
  using suggestions_ordered[OF code_units.sort_order_axioms, of "[arm_status]" "[arm_resource]" "[]"]
  by (simp add: arm_status_def)

section \<open>Clean specifications\<close>

text \<open>What the editor promises of a specification it has cleaned up against the states and resources of a task
  distributor.\<close>

definition planning_variables :: "planning_task_spec \<Rightarrow> string list" where
  "planning_variables spec =
     map pc_variable (arr (pt_preconditions spec))
     @ map pe_variable (arr (pt_during_state spec) @ arr (pt_result_states spec) @ arr (pt_warning_result_states spec)
         @ arr (pt_error_result_states spec))
     @ filter (\<lambda>v. v \<noteq> []) [orS (pt_warning_message_variable spec) [], orS (pt_error_message_variable spec) []]"

definition clean_spec :: "td_state list \<Rightarrow> td_resource list \<Rightarrow> planning_task_spec \<Rightarrow> bool" where
  "clean_spec states resources spec =
     (list_all (\<lambda>v. isPlanningStateReferenceAllowed v states) (planning_variables spec)
      \<and> list_all (\<lambda>c. truthy (pc_operator c)) (arr (pt_preconditions spec))
      \<and> length (arr (pt_during_state spec)) \<le> 1
      \<and> distinct (arr (pt_required_resources spec))
      \<and> list_all (\<lambda>t. t \<noteq> [] \<and> trimmed t \<and> (resources = [] \<or> t \<in> set (buildPlanningResourceTokenSet resources)))
          (arr (pt_required_resources spec)))"

lemma orS_nonempty [simp]: "d \<noteq> [] \<Longrightarrow> orS v d \<noteq> []"
  by (simp add: orS_def split: option.splits)

lemma orS_Some_Nil [simp]: "orS (Some v) [] = v"
  by (simp add: orS_def)

lemma orS_Some_orS [simp]: "d \<noteq> [] \<Longrightarrow> orS (Some (orS v d)) d = orS v d"
  by (simp add: orS_def split: option.splits)

lemma token_set_Nil_iff [simp]: "buildPlanningResourceTokenSet resources = [] \<longleftrightarrow> resources = []"
  by (simp add: buildPlanningResourceTokenSet_def)

lemma with_operator_simps [simp]:
  "pc_variable (with_operator c) = pc_variable c" "truthy (pc_operator (with_operator c))"
  "with_operator (with_operator c) = with_operator c"
  by (simp_all add: with_operator_def truthy_def)

lemma normalized_tokens:
  "distinct (normalizedRequiredResources ts)" "t \<in> set (normalizedRequiredResources ts) \<Longrightarrow> t \<noteq> [] \<and> trimmed t"
  by (auto simp: normalizedRequiredResources_def)

lemma normalized_tokens_id:
  assumes "distinct ts" "\<And>t. t \<in> set ts \<Longrightarrow> t \<noteq> [] \<and> trimmed t"
  shows "normalizedRequiredResources (Some ts) = ts"
proof -
  have "map trim ts = ts" by (rule map_idI) (use assms(2) in \<open>auto simp: trimmed_def\<close>)
  moreover have "filter (\<lambda>t. t \<noteq> []) ts = ts" using assms(2) by (auto simp: filter_id_conv)
  ultimately show ?thesis using assms(1) by (simp add: normalizedRequiredResources_def uniq_distinct)
qed

lemma normalized_tokens_idem [simp]:
  "normalizedRequiredResources (Some (normalizedRequiredResources ts)) = normalizedRequiredResources ts"
  "normalizedRequiredResources (Some (filter P (normalizedRequiredResources ts))) = filter P (normalizedRequiredResources ts)"
  by (intro normalized_tokens_id; auto simp: normalized_tokens(1) dest!: normalized_tokens(2))+

lemma filter_spec_clean: "clean_spec states resources (filterPlanningTaskForDistributor spec states resources)"
  unfolding clean_spec_def planning_variables_def filterPlanningTaskForDistributor_def Let_def
  by (auto simp: list_all_iff normalized_tokens(1) dest: in_set_takeD dest!: normalized_tokens(2))

lemma take1_filter [simp]: "take (Suc 0) (filter P (take (Suc 0) (filter P xs))) = take (Suc 0) (filter P xs)"
  by (cases "filter P xs") (auto simp: filter_eq_Cons_iff)

lemma filter_spec_idem:
  "filterPlanningTaskForDistributor (filterPlanningTaskForDistributor spec states resources) states resources =
   filterPlanningTaskForDistributor spec states resources"
  unfolding filterPlanningTaskForDistributor_def Let_def
  by (simp add: filter_map comp_def)

lemma filter_spec_results:
  "arr (pt_result_states (filterPlanningTaskForDistributor spec states resources)) =
     filter (\<lambda>e. isPlanningStateReferenceAllowed (pe_variable e) states) (arr (pt_result_states spec))"
  by (simp add: filterPlanningTaskForDistributor_def Let_def)

text \<open>The specifications a pass leaves as they are: clean ones with every list present.\<close>

definition complete_spec :: "planning_task_spec \<Rightarrow> bool" where
  "complete_spec spec \<longleftrightarrow>
     pt_preconditions spec \<noteq> None \<and> pt_required_resources spec \<noteq> None \<and> pt_during_state spec \<noteq> None \<and> pt_result_states spec \<noteq> None
     \<and> pt_warning_result_states spec \<noteq> None \<and> pt_error_result_states spec \<noteq> None
     \<and> pt_warning_message_variable spec \<noteq> None \<and> pt_error_message_variable spec \<noteq> None"

lemma with_operator_id: "truthy (pc_operator c) \<Longrightarrow> with_operator c = c"
  by (cases c) (auto simp: with_operator_def truthy_def orS_def split: option.splits)

lemma filter_spec_complete: "complete_spec (filterPlanningTaskForDistributor spec states resources)"
  by (simp add: complete_spec_def filterPlanningTaskForDistributor_def Let_def)

lemma filter_spec_fixed:
  assumes "clean_spec states resources spec" "complete_spec spec"
  shows "filterPlanningTaskForDistributor spec states resources = spec"
proof -
  have all: "list_all (\<lambda>v. isPlanningStateReferenceAllowed v states) (planning_variables spec)" using assms(1) by (simp add: clean_spec_def)
  then have ops: "map with_operator (filter (\<lambda>c. isPlanningStateReferenceAllowed (pc_variable c) states) (arr (pt_preconditions spec)))
      = arr (pt_preconditions spec)"
    using assms(1) by (simp add: clean_spec_def planning_variables_def list_all_iff filter_id_conv with_operator_id map_idI cong: filter_cong)
  have res: "normalizedRequiredResources (pt_required_resources spec) = arr (pt_required_resources spec)"
    using assms normalized_tokens_id[of "arr (pt_required_resources spec)"]
    by (cases "pt_required_resources spec") (auto simp: clean_spec_def complete_spec_def list_all_iff)
  show ?thesis
    using all ops res assms
    by (cases spec) (auto simp: filterPlanningTaskForDistributor_def Let_def clean_spec_def complete_spec_def planning_variables_def
        list_all_iff filter_id_conv split: if_splits)
qed

text \<open>C31. Cleaning a specification against a task distributor leaves a clean one: every variable names one of its states or a
  placeholder, every precondition has an operator, there is at most one state for the duration of the task, and the resource tokens are
  trimmed, not empty, mentioned once and, unless the distributor has no resources (then the tokens of any distributor stay), offered by it. Nothing else
  is lost: each allowed precondition and effect, the first allowed state for the duration, each offered token, and the variable of each kind of message if it is
  allowed stay. A specification is left as it is exactly when it is clean and no field of it is missing, so a second pass changes
  nothing.\<close>

theorem planning_filter_correct:
  "clean_spec states resources (filterPlanningTaskForDistributor spec states resources)
   \<and> (filterPlanningTaskForDistributor spec states resources = spec \<longleftrightarrow> clean_spec states resources spec \<and> complete_spec spec)
   \<and> filterPlanningTaskForDistributor (filterPlanningTaskForDistributor spec states resources) states resources =
       filterPlanningTaskForDistributor spec states resources
   \<and> (\<forall>c \<in> set (arr (pt_preconditions spec)). isPlanningStateReferenceAllowed (pc_variable c) states \<longrightarrow>
        (\<exists>c' \<in> set (arr (pt_preconditions (filterPlanningTaskForDistributor spec states resources))).
           pc_variable c' = pc_variable c \<and> pc_value c' = pc_value c \<and> (truthy (pc_operator c) \<longrightarrow> c' = c)))
   \<and> (\<forall>field \<in> {pt_result_states, pt_warning_result_states, pt_error_result_states}. \<forall>e \<in> set (arr (field spec)).
        isPlanningStateReferenceAllowed (pe_variable e) states \<longrightarrow> e \<in> set (arr (field (filterPlanningTaskForDistributor spec states resources))))
   \<and> (\<forall>e. find (\<lambda>e. isPlanningStateReferenceAllowed (pe_variable e) states) (arr (pt_during_state spec)) = Some e \<longrightarrow>
        arr (pt_during_state (filterPlanningTaskForDistributor spec states resources)) = [e])
   \<and> (\<forall>field \<in> {pt_warning_message_variable, pt_error_message_variable}. \<forall>v.
        field spec = Some v \<and> isPlanningStateReferenceAllowed v states \<longrightarrow> field (filterPlanningTaskForDistributor spec states resources) = Some v)
   \<and> (\<forall>t \<in> set (arr (pt_required_resources spec)).
        trim t \<noteq> [] \<and> (resources = [] \<or> trim t \<in> set (buildPlanningResourceTokenSet resources)) \<longrightarrow>
        trim t \<in> set (arr (pt_required_resources (filterPlanningTaskForDistributor spec states resources))))"
proof (intro conjI)
  show "filterPlanningTaskForDistributor spec states resources = spec \<longleftrightarrow> clean_spec states resources spec \<and> complete_spec spec"
    using filter_spec_fixed filter_spec_clean filter_spec_complete by metis
  show "\<forall>c \<in> set (arr (pt_preconditions spec)). isPlanningStateReferenceAllowed (pc_variable c) states \<longrightarrow>
        (\<exists>c' \<in> set (arr (pt_preconditions (filterPlanningTaskForDistributor spec states resources))).
           pc_variable c' = pc_variable c \<and> pc_value c' = pc_value c \<and> (truthy (pc_operator c) \<longrightarrow> c' = c))"
  proof (intro ballI impI)
    fix c
    assume "c \<in> set (arr (pt_preconditions spec))" "isPlanningStateReferenceAllowed (pc_variable c) states"
    then have "with_operator c \<in> set (arr (pt_preconditions (filterPlanningTaskForDistributor spec states resources)))"
      by (simp add: filterPlanningTaskForDistributor_def Let_def)
    moreover have "pc_value (with_operator c) = pc_value c" by (simp add: with_operator_def)
    ultimately show "\<exists>c' \<in> set (arr (pt_preconditions (filterPlanningTaskForDistributor spec states resources))).
        pc_variable c' = pc_variable c \<and> pc_value c' = pc_value c \<and> (truthy (pc_operator c) \<longrightarrow> c' = c)"
      using with_operator_id with_operator_simps(1) by metis
  qed
  have "find P es = Some e \<Longrightarrow> take (Suc 0) (filter P es) = [e]" for P and es :: "planning_effect list" and e
    by (induction es) (auto split: if_splits)
  then show "\<forall>e. find (\<lambda>e. isPlanningStateReferenceAllowed (pe_variable e) states) (arr (pt_during_state spec)) = Some e \<longrightarrow>
        arr (pt_during_state (filterPlanningTaskForDistributor spec states resources)) = [e]"
    by (simp add: filterPlanningTaskForDistributor_def Let_def)
qed (use filter_spec_clean filter_spec_idem in \<open>auto simp: filterPlanningTaskForDistributor_def Let_def normalizedRequiredResources_def\<close>)

definition stray_spec :: planning_task_spec where
  "stray_spec = EMPTY_PLANNING_TASK\<lparr>pt_required_resources := Some ['' type:x'', ''type:y''],
     pt_preconditions := Some [\<lparr>pc_variable = ''gone'', pc_operator = None, pc_value = ''1''\<rparr>, \<lparr>pc_variable = ''{{agent}}_at'', pc_operator = Some ''!='', pc_value = ''2''\<rparr>]\<rparr>"

theorem planning_filter_correct_witness:
  "\<lparr>pc_variable = ''{{agent}}_at'', pc_operator = Some ''!='', pc_value = ''2''\<rparr>
     \<in> set (arr (pt_preconditions (filterPlanningTaskForDistributor stray_spec [] [])))
   \<and> ''type:x'' \<in> set (arr (pt_required_resources (filterPlanningTaskForDistributor stray_spec [] [])))
   \<and> filterPlanningTaskForDistributor stray_spec [] [] \<noteq> stray_spec"
proof -
  let ?c = "\<lparr>pc_variable = ''{{agent}}_at'', pc_operator = Some ''!='', pc_value = ''2''\<rparr>"
  have c: "?c \<in> set (arr (pt_preconditions stray_spec))" "truthy (pc_operator ?c)" and t: "'' type:x'' \<in> set (arr (pt_required_resources stray_spec))"
    by (simp_all add: stray_spec_def truthy_def)
  have "isPlanningStateReferenceAllowed (pc_variable ?c) []" "trim '' type:x'' = ''type:x''" "\<not> clean_spec [] [] stray_spec" by code_simp+
  then show ?thesis using planning_filter_correct[of "[]" "[]" stray_spec] c t by (metis list.distinct(1))
qed

section \<open>The union\<close>

text \<open>The reference: the value a variable has in the union is the one written last.\<close>

definition last_effect :: "planning_effect list \<Rightarrow> string \<Rightarrow> string option" where
  "last_effect es v = map_option pe_value (find (\<lambda>e. pe_variable e = v) (rev es))"

lemma merge_effects_concat: "fold merge_effects ess m = merge_effects (concat ess) m"
  by (induction ess arbitrary: m) (simp_all add: merge_effects_def)

lemma merge_conditions_concat: "fold merge_conditions css m = merge_conditions (concat css) m"
  by (induction css arbitrary: m) (simp_all add: merge_conditions_def)

lemma merge_effects_get: "v \<noteq> [] \<Longrightarrow> map_of (merge_effects es []) v = last_effect es v"
  unfolding merge_effects_def js_map.fold_set_get last_effect_def
  by (subst find_rev_filter) (auto split: option.splits)

lemma merge_effects_keys: "map fst (merge_effects es []) = uniq (filter (\<lambda>v. v \<noteq> []) (map pe_variable es))"
  using js_map.fold_set_keys_order[of "[]" pe_variable pe_value "filter (\<lambda>e. pe_variable e \<noteq> []) es"]
  by (simp add: merge_effects_def filter_map comp_def)

lemma merge_conditions_keys: "map fst (merge_conditions cs []) = uniq (filter (\<lambda>v. v \<noteq> []) (map pc_variable cs))"
  using js_map.fold_set_keys_order[of "[]" pc_variable "\<lambda>c. (pc_operator c, pc_value c)" "filter (\<lambda>c. pc_variable c \<noteq> []) cs"]
  by (simp add: merge_conditions_def filter_map comp_def)

lemma set_all_entries: "distinct (map fst m) \<Longrightarrow> fold (\<lambda>x. map_set (fst x) (snd x)) m [] = m"
proof (induction m rule: rev_induct)
  case (snoc x m)
  then show ?case by (cases x) (auto simp: map_set_fresh)
qed simp

definition effects_of :: "(string \<times> string) list \<Rightarrow> planning_effect list" where
  "effects_of m = map (\<lambda>(v, x). \<lparr>pe_variable = v, pe_value = x\<rparr>) m"

definition conditions_of :: "(string \<times> string option \<times> string) list \<Rightarrow> planning_condition list" where
  "conditions_of m = map (\<lambda>(v, op, x). \<lparr>pc_variable = v, pc_operator = op, pc_value = x\<rparr>) m"

lemma merge_again:
  assumes "distinct (map fst m)" "[] \<notin> set (map fst m)"
  shows "merge_effects (effects_of m) [] = m"
proof -
  have "filter (\<lambda>e. pe_variable e \<noteq> []) (effects_of m) = effects_of m"
    using assms(2) by (force simp: effects_of_def filter_id_conv)
  then show ?thesis
    using set_all_entries[OF assms(1)] by (simp add: merge_effects_def effects_of_def fold_map comp_def case_prod_unfold)
qed

lemma merge_conditions_again:
  assumes "distinct (map fst m)" "[] \<notin> set (map fst m)"
  shows "merge_conditions (conditions_of m) [] = m"
proof -
  have "filter (\<lambda>c. pc_variable c \<noteq> []) (conditions_of m) = conditions_of m"
    using assms(2) by (force simp: conditions_of_def filter_id_conv)
  then show ?thesis
    using set_all_entries[OF assms(1)] by (simp add: merge_conditions_def conditions_of_def fold_map comp_def case_prod_unfold)
qed

lemma merge_again_keys:
  "merge_effects (effects_of (merge_effects es [])) [] = merge_effects es []"
  "merge_conditions (conditions_of (merge_conditions cs [])) [] = merge_conditions cs []"
  by (rule merge_again merge_conditions_again; simp add: merge_effects_keys merge_conditions_keys)+

lemma merge_fields:
  "pt_preconditions (mergePlanningTasks ts) = Some (conditions_of (merge_conditions (concat (task_entries pt_preconditions ts)) []))"
  "pt_during_state (mergePlanningTasks ts) = Some (effects_of (merge_effects (concat (task_entries pt_during_state ts)) []))"
  "pt_result_states (mergePlanningTasks ts) = Some (effects_of (merge_effects (concat (task_entries pt_result_states ts)) []))"
  "pt_required_resources (mergePlanningTasks ts) = Some (uniq (filter (\<lambda>r. r \<noteq> []) (concat (task_entries pt_required_resources ts))))"
  by (simp_all add: mergePlanningTasks_def Let_def merge_effects_concat merge_conditions_concat effects_of_def conditions_of_def)

lemma merge_append:
  "merge_effects (es @ fs) m = merge_effects fs (merge_effects es m)"
  "merge_conditions (cs @ ds) n = merge_conditions ds (merge_conditions cs n)"
  by (simp_all add: merge_effects_def merge_conditions_def)

lemma last_effect_merged: "v \<noteq> [] \<Longrightarrow> last_effect (effects_of (merge_effects es [])) v = last_effect es v"
  using merge_effects_get[of v "effects_of (merge_effects es [])"] merge_effects_get[of v es] by (simp add: merge_again_keys)

text \<open>The union of the annotations of several tasks gives every variable the value the last task that mentions it
  writes, mentions a variable once, in the order of its first mention, and can be built in stages: merging
  a union with further tasks is merging all of them.\<close>

theorem merge_planning_tasks:
  "(\<forall>v. v \<noteq> [] \<longrightarrow> last_effect (arr (pt_result_states (mergePlanningTasks ts))) v = last_effect (concat (task_entries pt_result_states ts)) v)
   \<and> map pe_variable (arr (pt_result_states (mergePlanningTasks ts))) =
       uniq (filter (\<lambda>v. v \<noteq> []) (map pe_variable (concat (task_entries pt_result_states ts))))
   \<and> mergePlanningTasks (Some (mergePlanningTasks ts) # us) = mergePlanningTasks (ts @ us)"
proof (intro conjI allI impI)
  show "last_effect (arr (pt_result_states (mergePlanningTasks ts))) v = last_effect (concat (task_entries pt_result_states ts)) v"
    if "v \<noteq> []" for v
    using that by (simp add: merge_fields last_effect_merged)
  show "map pe_variable (arr (pt_result_states (mergePlanningTasks ts))) =
      uniq (filter (\<lambda>v. v \<noteq> []) (map pe_variable (concat (task_entries pt_result_states ts))))"
    by (simp add: merge_fields effects_of_def comp_def case_prod_unfold flip: merge_effects_keys)
  have e: "task_entries f (Some s # us) = arr (f s) # task_entries f us" "task_entries f (ts @ us) = task_entries f ts @ task_entries f us"
    for f :: "planning_task_spec \<Rightarrow> 'a list option" and s
    by (simp_all add: task_entries_def)
  show "mergePlanningTasks (Some (mergePlanningTasks ts) # us) = mergePlanningTasks (ts @ us)"
    unfolding mergePlanningTasks_def[of "Some _ # us"] mergePlanningTasks_def[of "ts @ us"] Let_def
    by (simp add: e merge_fields merge_effects_concat merge_conditions_concat merge_append merge_again_keys
        uniq_append_uniq flip: uniq_filter)
qed

definition docked :: "string \<Rightarrow> planning_task_spec" where
  "docked v = EMPTY_PLANNING_TASK\<lparr>pt_result_states := Some [\<lparr>pe_variable = ''docked'', pe_value = v\<rparr>]\<rparr>"

theorem merge_planning_tasks_witness:
  "last_effect (arr (pt_result_states (mergePlanningTasks [Some (docked ''true''), None, Some (docked ''false'')]))) ''docked'' = Some ''false''"
proof -
  have "last_effect (concat (task_entries pt_result_states [Some (docked ''true''), None, Some (docked ''false'')])) ''docked'' = Some ''false''"
    by (simp add: task_entries_def docked_def last_effect_def)
  then show ?thesis using merge_planning_tasks[of "[Some (docked ''true''), None, Some (docked ''false'')]" "[]"] by simp
qed

end
