(* ===== verification/Template_Load.thy ===== *)
theory Template_Load
  imports Graph_Session Planning_Task
begin

text \<open>
  The task editor as a page (\<^verbatim>\<open>pages/ActionGraph/index.tsx\<close>): which task is selected, when the canvas is cleared and
  loaded, the record of the last saved state and the unsaved-changes flag. The effects are functions on the state
  of the page; \<open>page_step\<close> interleaves selections, arriving data, edits and the replies to saves.

  \<open>JSON.stringify\<close> on nodes and on edges is an argument (\<open>jn\<close>, \<open>je\<close>); nothing is assumed of it. The flag
  \<open>hasUnsavedChanges\<close> is a \<open>useMemo\<close> over nodes and edges, so it is a field that is recomputed when they change and
  only then.
\<close>

section \<open>State and effects\<close>

datatype save_status = StIdle | StSaving | StSaved | StError

record editor_page =
  ep_templateId :: "string option"
  ep_pendingCreated :: "string option"
  ep_canvas :: canvas
  ep_loaded :: "(string \<times> string) option"   \<comment> \<open>id and signature of the loaded task\<close>
  ep_lastSaved :: "(string \<times> string) option"
  ep_saveStatus :: save_status
  ep_hasUnsavedChanges :: bool

definition init_page :: "string option \<Rightarrow> editor_page" where
  "init_page lastOpened =
     \<lparr>ep_templateId = lastOpened, ep_pendingCreated = None, ep_canvas = \<lparr>cv_nodes = [], cv_edges = [], cv_pending = [], cv_left = []\<rparr>,
      ep_loaded = None, ep_lastSaved = None, ep_saveStatus = StIdle, ep_hasUnsavedChanges = False\<rparr>"

text \<open>The task opened last, from the browser's storage (\<open>None\<close>: no such key or no access).\<close>

definition loadLastOpenedTaskId :: "string option \<Rightarrow> string option" where
  "loadLastOpenedTaskId stored =
     (if \<not> truthy stored then None else let t = trim (the stored) in if t \<noteq> [] then Some t else None)"

text \<open>The effect that keeps the selection valid against the sorted list of tasks.\<close>

definition keepSelection :: "bool \<Rightarrow> string list \<Rightarrow> editor_page \<Rightarrow> editor_page" where
  "keepSelection templatesLoading ids p =
     (if templatesLoading then p
      else case ids of
        [] \<Rightarrow> p\<lparr>ep_templateId := None, ep_pendingCreated := None\<rparr>
      | first # _ \<Rightarrow>
          if truthy (ep_pendingCreated p)
          then (if the (ep_pendingCreated p) \<in> set ids
                then p\<lparr>ep_templateId := ep_pendingCreated p, ep_pendingCreated := None\<rparr> else p)
          else if truthy (ep_templateId p) \<and> the (ep_templateId p) \<in> set ids then p
          else p\<lparr>ep_templateId := Some first\<rparr>)"

definition hasUnsavedChanges :: "(flow_node list \<Rightarrow> string) \<Rightarrow> (flow_edge list \<Rightarrow> string) \<Rightarrow> editor_page \<Rightarrow> bool" where
  "hasUnsavedChanges jn je p =
     (case ep_lastSaved p of
        None \<Rightarrow> False
      | Some (n, e) \<Rightarrow> cv_nodes (ep_canvas p) \<noteq> [] \<and> (jn (cv_nodes (ep_canvas p)) \<noteq> n \<or> je (cv_edges (ep_canvas p)) \<noteq> e))"

definition rememo :: "(flow_node list \<Rightarrow> string) \<Rightarrow> (flow_edge list \<Rightarrow> string) \<Rightarrow> editor_page \<Rightarrow> editor_page" where
  "rememo jn je p = p\<lparr>ep_hasUnsavedChanges := hasUnsavedChanges jn je p\<rparr>"

text \<open>The effect on a change of \<open>templateId\<close>: another task is loaded, so the canvas is cleared.\<close>

definition switchEffect :: "(flow_node list \<Rightarrow> string) \<Rightarrow> (flow_edge list \<Rightarrow> string) \<Rightarrow> editor_page \<Rightarrow> editor_page" where
  "switchEffect jn je p =
     (let loadedTemplateId = (if truthy (map_option fst (ep_loaded p)) then map_option fst (ep_loaded p) else None)
      in if ep_templateId p \<noteq> loadedTemplateId \<and> loadedTemplateId \<noteq> None
         then rememo jn je (p\<lparr>ep_canvas := (ep_canvas p)\<lparr>cv_nodes := [], cv_edges := [], cv_left := []\<rparr>,
                  ep_saveStatus := StIdle, ep_lastSaved := None\<rparr>)
         else p)"

text \<open>The effect that loads the data of the selected task (\<open>None\<close>: the query has none).\<close>

definition loadEffect ::
  "(flow_node list \<Rightarrow> string) \<Rightarrow> (flow_edge list \<Rightarrow> string) \<Rightarrow> load_context \<Rightarrow> behavior_tree option \<Rightarrow> editor_page \<Rightarrow> editor_page" where
  "loadEffect jn je cx selectedTemplate p =
     (case selectedTemplate of
        None \<Rightarrow> p
      | Some t \<Rightarrow>
          if truthy (ep_templateId p) \<and> Some (bt_id t) = ep_templateId p
          then let signature = buildTemplateLoadSignature t
               in if ep_loaded p = Some (bt_id t, signature) then p
                  else let (initialNodes, initialEdges) = convertActionGraphToGraph cx t
                       in rememo jn je (p\<lparr>ep_canvas := (ep_canvas p)\<lparr>cv_nodes := initialNodes, cv_edges := initialEdges, cv_left := []\<rparr>,
                             ep_loaded := Some (bt_id t, signature),
                             ep_lastSaved := Some (jn initialNodes, je initialEdges), ep_saveStatus := StIdle\<rparr>)
          else p)"

text \<open>Saving: the state captured when the request is sent, and the replies.\<close>

definition saveSent :: "(flow_node list \<Rightarrow> string) \<Rightarrow> (flow_edge list \<Rightarrow> string) \<Rightarrow> editor_page \<Rightarrow> (string \<times> string) \<times> editor_page" where
  "saveSent jn je p = ((jn (cv_nodes (ep_canvas p)), je (cv_edges (ep_canvas p))), p\<lparr>ep_saveStatus := StSaving\<rparr>)"

definition saveSucceeded :: "string \<times> string \<Rightarrow> editor_page \<Rightarrow> editor_page" where
  "saveSucceeded stateToSave p = p\<lparr>ep_saveStatus := StSaved, ep_lastSaved := Some stateToSave\<rparr>"

definition saveFailed :: "editor_page \<Rightarrow> editor_page" where
  "saveFailed p = p\<lparr>ep_saveStatus := StError\<rparr>"

definition saveErrorTimeout :: "editor_page \<Rightarrow> editor_page" where
  "saveErrorTimeout p = p\<lparr>ep_saveStatus := StIdle\<rparr>"

section \<open>The page as a step relation\<close>

text \<open>\<open>srv\<close>: the tasks the server may deliver. A change of the selection is followed by the clearing effect; the
  data of a task may arrive at any time, at once when the query has it in its cache.\<close>

inductive page_step ::
  "behavior_tree set \<Rightarrow> react_flow \<Rightarrow> (flow_node list \<Rightarrow> string) \<Rightarrow> (flow_edge list \<Rightarrow> string)
   \<Rightarrow> editor_page \<Rightarrow> editor_page \<Rightarrow> bool" for srv rf jn je where
  select: "i \<noteq> ep_templateId p \<Longrightarrow> page_step srv rf jn je p (switchEffect jn je (p\<lparr>ep_templateId := i, ep_pendingCreated := c\<rparr>))"
| keep: "q = keepSelection l ids p \<Longrightarrow>
    page_step srv rf jn je p (if ep_templateId q \<noteq> ep_templateId p then switchEffect jn je q else q)"
| data: "t \<in> srv \<Longrightarrow> page_step srv rf jn je p (loadEffect jn je cx (Some t) p)"
| edit: "edit_step rf (ep_canvas p) cv \<Longrightarrow> page_step srv rf jn je p (rememo jn je (p\<lparr>ep_canvas := cv\<rparr>))"
| save: "page_step srv rf jn je p (snd (saveSent jn je p))"
| saved: "page_step srv rf jn je p (saveSucceeded captured p)"
| failed: "page_step srv rf jn je p (saveFailed p)"
| timeout: "page_step srv rf jn je p (saveErrorTimeout p)"

definition blank :: "canvas \<Rightarrow> bool" where
  "blank cv = (cv_nodes cv = [] \<and> cv_edges cv = [] \<and> cv_left cv = [])"

definition opened :: "load_context \<Rightarrow> behavior_tree \<Rightarrow> canvas \<Rightarrow> bool" where
  "opened cx t cv = ((cv_nodes cv, cv_edges cv) = convertActionGraphToGraph cx t \<and> cv_left cv = [])"

text \<open>Where the canvas comes from: from an empty one by edits, or from the task that is both selected and loaded.\<close>

definition canvas_origin :: "behavior_tree set \<Rightarrow> react_flow \<Rightarrow> editor_page \<Rightarrow> bool" where
  "canvas_origin srv rf p =
     (\<exists>c0. (edit_step rf)\<^sup>*\<^sup>* c0 (ep_canvas p)
        \<and> (blank c0
           \<or> (\<exists>t \<in> srv. \<exists>cx. bt_id t \<noteq> [] \<and> ep_templateId p = Some (bt_id t)
                \<and> map_option fst (ep_loaded p) = Some (bt_id t) \<and> opened cx t c0)))"

lemma rememo_simps [simp]:
  "ep_templateId (rememo jn je p) = ep_templateId p" "ep_canvas (rememo jn je p) = ep_canvas p"
  "ep_loaded (rememo jn je p) = ep_loaded p" "ep_lastSaved (rememo jn je p) = ep_lastSaved p"
  "ep_saveStatus (rememo jn je p) = ep_saveStatus p"
  by (simp_all add: rememo_def)

lemma origin_cong:
  assumes "ep_canvas q = ep_canvas p" "ep_templateId q = ep_templateId p" "ep_loaded q = ep_loaded p"
  shows "canvas_origin srv rf q = canvas_origin srv rf p"
  using assms by (simp add: canvas_origin_def)

lemma origin_blank: "blank (ep_canvas p) \<Longrightarrow> canvas_origin srv rf p"
  unfolding canvas_origin_def by blast

text \<open>Selecting another task: the canvas of the loaded one is cleared, and one that came from an empty canvas
  still does.\<close>

lemma switchEffect_if:
  "switchEffect jn je p =
     (if truthy (map_option fst (ep_loaded p)) \<and> ep_templateId p \<noteq> map_option fst (ep_loaded p)
      then rememo jn je (p\<lparr>ep_canvas := (ep_canvas p)\<lparr>cv_nodes := [], cv_edges := [], cv_left := []\<rparr>,
             ep_saveStatus := StIdle, ep_lastSaved := None\<rparr>)
      else p)"
  by (auto simp: switchEffect_def truthy_def Let_def split: option.splits)

lemma switch_origin:
  assumes "canvas_origin srv rf p" "ep_canvas q = ep_canvas p" "ep_loaded q = ep_loaded p"
    and "ep_templateId q \<noteq> ep_templateId p"
  shows "canvas_origin srv rf (switchEffect jn je q)"
proof (cases "truthy (map_option fst (ep_loaded q)) \<and> ep_templateId q \<noteq> map_option fst (ep_loaded q)")
  case True
  then show ?thesis by (intro origin_blank) (simp add: switchEffect_if blank_def)
next
  case False
  with assms obtain c0 where "(edit_step rf)\<^sup>*\<^sup>* c0 (ep_canvas q)" "blank c0"
    unfolding canvas_origin_def by (auto simp: truthy_def)
  then have "canvas_origin srv rf q" unfolding canvas_origin_def by blast
  with False show ?thesis by (simp only: switchEffect_if if_False)
qed

lemma load_origin:
  assumes "canvas_origin srv rf p" "t \<in> srv"
  shows "canvas_origin srv rf (loadEffect jn je cx (Some t) p)"
proof (cases "loadEffect jn je cx (Some t) p = p")
  case False
  obtain ns es where c: "convertActionGraphToGraph cx t = (ns, es)" by fastforce
  have i: "ep_templateId p = Some (bt_id t)" "bt_id t \<noteq> []" "ep_loaded p \<noteq> Some (bt_id t, buildTemplateLoadSignature t)"
  proof -
    from False show "ep_templateId p = Some (bt_id t)" by (simp add: loadEffect_def split: if_splits)
    with False show "bt_id t \<noteq> []" by (auto simp: loadEffect_def truthy_def)
    from False show "ep_loaded p \<noteq> Some (bt_id t, buildTemplateLoadSignature t)" by (auto simp: loadEffect_def Let_def)
  qed
  then have "ep_canvas (loadEffect jn je cx (Some t) p) = (ep_canvas p)\<lparr>cv_nodes := ns, cv_edges := es, cv_left := []\<rparr>"
      "ep_loaded (loadEffect jn je cx (Some t) p) = Some (bt_id t, buildTemplateLoadSignature t)"
      "ep_templateId (loadEffect jn je cx (Some t) p) = Some (bt_id t)"
    by (simp_all add: loadEffect_def c truthy_def)
  moreover have "opened cx t ((ep_canvas p)\<lparr>cv_nodes := ns, cv_edges := es, cv_left := []\<rparr>)" by (simp add: opened_def c)
  ultimately show ?thesis using assms(2) i(2) unfolding canvas_origin_def
    by (intro exI[of _ "(ep_canvas p)\<lparr>cv_nodes := ns, cv_edges := es, cv_left := []\<rparr>"] conjI disjI2 bexI[of _ t] exI[of _ cx]) simp_all
qed (use assms in simp)

lemma keepSelection_frame [simp]:
  "ep_canvas (keepSelection l ids p) = ep_canvas p" "ep_loaded (keepSelection l ids p) = ep_loaded p"
  by (simp_all add: keepSelection_def split: list.splits)

lemma page_step_origin:
  assumes "page_step srv rf jn je p q" "canvas_origin srv rf p"
  shows "canvas_origin srv rf q"
  using assms
proof (cases rule: page_step.cases)
  case (select i c)
  then show ?thesis using switch_origin[OF assms(2), of "p\<lparr>ep_templateId := i, ep_pendingCreated := c\<rparr>"] by simp
next
  case (keep r l ids)
  then show ?thesis
    using switch_origin[OF assms(2), of r] origin_cong[of r p] assms(2)
    by (cases "ep_templateId r = ep_templateId p") simp_all
next
  case (data t cx)
  then show ?thesis using load_origin[OF assms(2)] by simp
next
  case (edit cv)
  then show ?thesis using assms(2) unfolding canvas_origin_def
    by (simp del: rtranclp.simps) (meson rtranclp.rtrancl_into_rtrancl)
qed (use assms(2) in \<open>simp_all add: saveSent_def saveSucceeded_def saveFailed_def saveErrorTimeout_def canvas_origin_def\<close>)

lemma page_origin: "(page_step srv rf jn je)\<^sup>*\<^sup>* (init_page lastOpened) p \<Longrightarrow> canvas_origin srv rf p"
  by (induction rule: rtranclp_induct) (simp add: origin_blank init_page_def blank_def, rule page_step_origin)

lemma blank_inv: "blank cv \<Longrightarrow> canvas_inv cv"
  by (simp add: blank_def canvas_inv_def edges_attached_def start_edges_ok_def retry_ports_ok_def events_ok_def)

lemma opened_inv: "well_formed_task t \<Longrightarrow> opened cx t cv \<Longrightarrow> canvas_inv cv"
  using open_canvas_inv[of t cx]
  by (auto simp: opened_def open_canvas_def canvas_inv_def edges_attached_def retry_ports_ok_def split: prod.splits)

text \<open>C9. The editor never shows one task under the name of another: however selections, arriving data, edits and
  saves interleave, the canvas comes by edits either from an empty canvas or from the opening of the task that
  is selected. When all tasks on the server are well formed it satisfies the invariant of the editor: the full one, unless a
  node was removed while the guard of \<open>onEdgesChange\<close> kept an edge of it, and then the one that allows such edges.\<close>

theorem no_stale_canvas:
  assumes "react_flow_law rf" "\<forall>t \<in> srv. well_formed_task t"
    and "(page_step srv rf jn je)\<^sup>*\<^sup>* (init_page (loadLastOpenedTaskId stored)) p"
  shows "canvas_ok (ep_canvas p) \<and> (cv_left (ep_canvas p) = [] \<longrightarrow> canvas_inv (ep_canvas p))
    \<and> (\<exists>c0. (edit_step rf)\<^sup>*\<^sup>* c0 (ep_canvas p)
         \<and> (blank c0 \<or> (\<exists>t \<in> srv. \<exists>cx. ep_templateId p = Some (bt_id t) \<and> opened cx t c0)))"
proof -
  from page_origin[OF assms(3)] obtain c0 where c: "(edit_step rf)\<^sup>*\<^sup>* c0 (ep_canvas p)"
      "blank c0 \<or> (\<exists>t \<in> srv. \<exists>cx. ep_templateId p = Some (bt_id t) \<and> opened cx t c0)"
    unfolding canvas_origin_def by auto
  then have "canvas_inv c0" using assms(2) blank_inv opened_inv by blast
  then have "canvas_ok (ep_canvas p)" using edits_ok[OF c(1) assms(1)] canvas_inv_ok by blast
  then show ?thesis using c by (auto simp: canvas_ok_def canvas_inv_rel)
qed

section \<open>Switching back before the other task has loaded\<close>

text \<open>Selecting another task and returning before it was loaded leaves the canvas empty: clearing does not forget the
  loaded task, so its data is taken to be on the canvas already. Saving then sends the task without any step.\<close>

theorem quick_switch_blanks:
  assumes "ep_templateId p = Some (bt_id t)" "bt_id t \<noteq> []" "ep_loaded p = Some (bt_id t, buildTemplateLoadSignature t)"
    and "i \<noteq> Some (bt_id t)"
    and "q = loadEffect jn je cx (Some t)
           (switchEffect jn je ((switchEffect jn je (p\<lparr>ep_templateId := i\<rparr>))\<lparr>ep_templateId := Some (bt_id t)\<rparr>))"
  shows "blank (ep_canvas q) \<and> \<not> ep_hasUnsavedChanges q \<and> ep_templateId q = Some (bt_id t)
    \<and> (\<exists>errors. handleSave (ep_templateId q) (cv_nodes (ep_canvas q)) (cv_edges (ep_canvas q)) planning sid True =
         (Some errors, SaveSent \<lparr>sr_templateId = bt_id t, sr_steps = [], sr_entryPoint = None,
            sr_planningTask = planning, sr_lockSessionId = sid\<rparr>))"
proof -
  let ?c = "(ep_canvas p)\<lparr>cv_nodes := [], cv_edges := [], cv_left := []\<rparr>"
  have q: "ep_canvas q = ?c \<and> \<not> ep_hasUnsavedChanges q \<and> ep_templateId q = Some (bt_id t)"
    using assms by (simp add: switchEffect_def loadEffect_def rememo_def hasUnsavedChanges_def truthy_def Let_def)
  then show ?thesis using assms(2)
    by (simp add: blank_def handleSave_def truthy_def validateGraph_def convertGraphToSteps_def save_entry_point_def
        blocking_def Let_def)
qed

text \<open>A successful save does not reset the unsaved-changes flag: it is recomputed only when the nodes or edges
  change, although a recomputation would find nothing to save.\<close>

theorem save_leaves_flag:
  assumes "ep_hasUnsavedChanges p" "(captured, sent) = saveSent jn je p"
  shows "ep_hasUnsavedChanges (saveSucceeded captured sent) \<and> \<not> hasUnsavedChanges jn je (saveSucceeded captured sent)"
  using assms by (simp add: saveSent_def saveSucceeded_def hasUnsavedChanges_def)

section \<open>Concrete pages\<close>

definition sample_page :: "string option \<Rightarrow> editor_page" where
  "sample_page stored = loadEffect (\<lambda>_. ''n'') (\<lambda>_. ''e'') sample_context (Some sample_task) ((init_page stored)\<lparr>ep_templateId := Some (bt_id sample_task)\<rparr>)"

theorem no_stale_canvas_witness:
  "canvas_inv (ep_canvas (sample_page (Some (bt_id sample_task))))"
proof -
  let ?j = "\<lambda>_::flow_node list. ''n''" and ?k = "\<lambda>_::flow_edge list. ''e''"
  have l: "cv_left (ep_canvas (sample_page (Some (bt_id sample_task)))) = []" by code_simp
  have i: "loadLastOpenedTaskId (Some (bt_id sample_task)) = Some (bt_id sample_task)" by code_simp
  have "page_step {sample_task} plain_react_flow ?j ?k (init_page (Some (bt_id sample_task)))
      (sample_page (Some (bt_id sample_task)))"
    using page_step.data[of sample_task "{sample_task}"] by (simp add: sample_page_def init_page_def)
  then have "(page_step {sample_task} plain_react_flow ?j ?k)\<^sup>*\<^sup>*
      (init_page (loadLastOpenedTaskId (Some (bt_id sample_task)))) (sample_page (Some (bt_id sample_task)))"
    unfolding i by (rule r_into_rtranclp)
  then show ?thesis
    using no_stale_canvas[of plain_react_flow "{sample_task}" ?j ?k "Some (bt_id sample_task)"]
      plain_react_flow_law sample_well_formed l by blast
qed

theorem quick_switch_blanks_witness:
  "blank (ep_canvas (loadEffect (\<lambda>_. ''n'') (\<lambda>_. ''e'') sample_context (Some sample_task)
     (switchEffect (\<lambda>_. ''n'') (\<lambda>_. ''e'') ((switchEffect (\<lambda>_. ''n'') (\<lambda>_. ''e'')
        ((sample_page None)\<lparr>ep_templateId := Some ''other''\<rparr>))\<lparr>ep_templateId := Some (bt_id sample_task)\<rparr>))))"
proof -
  have "ep_templateId (sample_page None) = Some (bt_id sample_task)" "bt_id sample_task \<noteq> []"
    "ep_loaded (sample_page None) = Some (bt_id sample_task, buildTemplateLoadSignature sample_task)"
    "Some ''other'' \<noteq> Some (bt_id sample_task)"
    by code_simp+
  from quick_switch_blanks[OF this refl] show ?thesis by blast
qed

end
