(* ===== verification/Task_Backup.thy ===== *)
theory Task_Backup
  imports Graph_Save
begin

text \<open>
  Saving tasks to files and loading them again (\<^verbatim>\<open>pages/ActionGraph/index.tsx\<close>): the snapshots written for a task set
  and for a single task, and the import, which writes every task of a file to the server and replaces its
  assignments.

  The server is the argument \<open>ok\<close>, which says of every request whether it succeeds, together with the replies of
  the reading calls (\<open>None\<close>: the call fails). An import returns the requests it sends, in order. A field of a
  file that may be absent or of another type than expected is an option.
\<close>

section \<open>Snapshots\<close>

record assignment_info =
  ai_id :: string
  ai_agent_id :: string
  ai_agent_name :: string
  ai_behavior_tree_id :: string
  ai_behavior_tree_name :: string
  ai_robot_count :: "jsnum option"
  ai_server_version :: jsnum
  ai_deployed_version :: "jsnum option"
  ai_deployment_status :: string
  ai_enabled :: bool
  ai_deployed_at :: "string option"

record assignment_snapshot =
  as_agent_id :: "string option"
  as_agent_name :: "string option"
  as_enabled :: "bool option"
  as_priority :: "jsnum option"

record template_snapshot =
  sn_id :: "string option"
  sn_name :: "string option"
  sn_description :: "string option"
  sn_entry_point :: "string option"
  sn_preconditions :: "precondition list option"
  sn_steps :: "graph_step list option"   \<comment> \<open>\<open>None\<close>: not an array\<close>
  sn_states :: "graph_state list option"
  sn_planning_states :: "planning_state_var list option"
  sn_planning_task :: "planning_task_spec option"
  sn_task_distributor_id :: "string option"

record backup_entry =
  be_template :: "template_snapshot option"
  be_assignments :: "assignment_snapshot list option"

record task_set_backup =
  tb_version :: nat
  tb_exported_at :: string
  tb_source :: string
  tb_templates :: "backup_entry list option"

definition buildTaskSetTemplateSnapshot :: "behavior_tree \<Rightarrow> template_snapshot" where
  "buildTaskSetTemplateSnapshot t =
     \<lparr>sn_id = Some (bt_id t), sn_name = Some (orS (Some (bt_name t)) (bt_id t)),
      sn_description = toOptionalString (bt_description t), sn_entry_point = toOptionalString (bt_entry_point t),
      sn_preconditions = bt_preconditions t, sn_steps = Some (arr (bt_steps t)), sn_states = bt_states t,
      sn_planning_states = bt_planning_states t, sn_planning_task = bt_planning_task t,
      sn_task_distributor_id = toOptionalString (bt_task_distributor_id t)\<rparr>"

definition assignment_snapshot_of :: "assignment_info \<Rightarrow> assignment_snapshot" where
  "assignment_snapshot_of a =
     \<lparr>as_agent_id = Some (ai_agent_id a), as_agent_name = Some (ai_agent_name a), as_enabled = Some (ai_enabled a),
      as_priority = Some (Fin 0)\<rparr>"

text \<open>\<open>Promise.all\<close>: the replies of all calls, or nothing when one fails.\<close>

fun promise_all :: "'a option list \<Rightarrow> 'a list option" where
  "promise_all [] = Some []"
| "promise_all (None # xs) = None"
| "promise_all (Some x # xs) = map_option (Cons x) (promise_all xs)"

datatype 'a export_result = NothingToExport | ExportCancelled | ExportFailed | Exported 'a

text \<open>\<open>fetch\<close>: task and assignments by id; \<open>stored\<close>: whether the file could be written.\<close>

definition handleExportTaskSet ::
  "string \<Rightarrow> bool \<Rightarrow> (string \<Rightarrow> (behavior_tree \<times> assignment_info list) option) \<Rightarrow> behavior_tree list option
   \<Rightarrow> task_set_backup export_result" where
  "handleExportTaskSet now stored fetch templates =
     (case templates of
        None \<Rightarrow> ExportFailed
      | Some items \<Rightarrow>
          if items = [] then NothingToExport
          else case promise_all (map (\<lambda>item. map_option (\<lambda>(t, as).
                        \<lparr>be_template = Some (buildTaskSetTemplateSnapshot t),
                         be_assignments = Some (map assignment_snapshot_of as)\<rparr>) (fetch (bt_id item))) items) of
                 None \<Rightarrow> ExportFailed
               | Some entries \<Rightarrow>
                   if stored
                   then Exported \<lparr>tb_version = 1, tb_exported_at = now, tb_source = ''multi-robot-supervision/task-editor'',
                                  tb_templates = Some entries\<rparr>
                   else ExportFailed)"

text \<open>The single task is written from the canvas, with the other fields of the selected task. The file name is
  the answer to a prompt.\<close>

definition handleExportSelectedTask ::
  "string option \<Rightarrow> string option \<Rightarrow> bool \<Rightarrow> flow_node list \<Rightarrow> flow_edge list \<Rightarrow> behavior_tree option \<Rightarrow> planning_task_spec
   \<Rightarrow> (string \<times> template_snapshot) export_result" where
  "handleExportSelectedTask selectedTemplateId requestedFileName stored nodes edges selected planningTask =
     (if \<not> truthy selectedTemplateId then NothingToExport
      else case requestedFileName of
        None \<Rightarrow> ExportCancelled
      | Some name \<Rightarrow>
          if trim name = [] then ExportCancelled
          else let (steps, entryPoint) = convertGraphToSteps nodes edges;
                   snapshot = \<lparr>sn_id = selectedTemplateId,
                     sn_name = orO (map_option bt_name selected) selectedTemplateId,
                     sn_description = toOptionalString (Option.bind selected bt_description),
                     sn_entry_point = toOptionalString (orO entryPoint (Option.bind selected bt_entry_point)),
                     sn_preconditions = Option.bind selected bt_preconditions, sn_steps = Some steps,
                     sn_states = Option.bind selected bt_states,
                     sn_planning_states = Option.bind selected bt_planning_states,
                     sn_planning_task = Some planningTask,
                     sn_task_distributor_id = toOptionalString (Option.bind selected bt_task_distributor_id)\<rparr>
               in if stored then Exported (trim name, snapshot) else ExportFailed)"

section \<open>Requests\<close>

record template_body =
  bd_name :: string
  bd_description :: "string option"
  bd_entry_point :: "string option"
  bd_preconditions :: "precondition list option"
  bd_steps :: "graph_step list"
  bd_states :: "graph_state list option"
  bd_planning_states :: "planning_state_var list option"
  bd_planning_task :: "planning_task_spec option"
  bd_task_distributor_id :: "string option"

datatype task_request =
    CreateTemplate string template_body
  | UpdateTemplate string template_body
  | UnassignAgent string string
  | AssignAgent string string bool jsnum

definition create_body :: "string \<Rightarrow> graph_step list \<Rightarrow> template_snapshot \<Rightarrow> template_body" where
  "create_body templateName steps sn =
     \<lparr>bd_name = templateName, bd_description = orO (sn_description sn) None, bd_entry_point = orO (sn_entry_point sn) None,
      bd_preconditions = sn_preconditions sn, bd_steps = steps, bd_states = sn_states sn, bd_planning_states = None,
      bd_planning_task = sn_planning_task sn, bd_task_distributor_id = None\<rparr>"

definition update_body :: "string \<Rightarrow> graph_step list \<Rightarrow> template_snapshot \<Rightarrow> template_body" where
  "update_body templateName steps sn =
     \<lparr>bd_name = templateName, bd_description = Some (orS (sn_description sn) []),
      bd_entry_point = Some (orS (sn_entry_point sn) []), bd_preconditions = sn_preconditions sn, bd_steps = steps,
      bd_states = sn_states sn, bd_planning_states = sn_planning_states sn, bd_planning_task = sn_planning_task sn,
      bd_task_distributor_id = Some (orS (sn_task_distributor_id sn) [])\<rparr>"

text \<open>Create the task unless it exists, then update it: the requests sent, and whether both succeeded.\<close>

definition upsert :: "(task_request \<Rightarrow> bool) \<Rightarrow> bool \<Rightarrow> string \<Rightarrow> string \<Rightarrow> graph_step list \<Rightarrow> template_snapshot
   \<Rightarrow> task_request list \<times> bool" where
  "upsert ok exists templateID templateName steps sn =
     (let create = CreateTemplate templateID (create_body templateName steps sn);
          update = UpdateTemplate templateID (update_body templateName steps sn)
      in if \<not> exists \<and> \<not> ok create then ([create], False)
         else ((if exists then [] else [create]) @ [update], ok update))"

section \<open>Importing a task set\<close>

definition add_agent_name :: "agent \<Rightarrow> (string \<times> string) list \<Rightarrow> (string \<times> string) list" where
  "add_agent_name a m =
     (let rawName = trim (ag_name a); formattedName = formatTaskManagerName (Some rawName);
          m1 = (if rawName \<noteq> [] then map_set rawName (ag_id a) m else m)
      in if formattedName \<noteq> [] then map_set formattedName (ag_id a) m1 else m1)"

definition agent_names :: "agent list \<Rightarrow> (string \<times> string) list" where
  "agent_names agents = fold add_agent_name agents []"

definition resolve_agent :: "agent list \<Rightarrow> assignment_snapshot \<Rightarrow> string" where
  "resolve_agent agents a =
     (let rawAgentID = trim (orS (as_agent_id a) []); rawAgentName = trim (orS (as_agent_name a) []);
          formattedAgentName = formatTaskManagerName (Some rawAgentName); byName = agent_names agents
      in if rawAgentID \<in> set (map ag_id agents) then rawAgentID
         else orS (map_of byName rawAgentName) (orS (map_of byName formattedAgentName) []))"

record import_state =
  im_existing :: "string list"
  im_requests :: "task_request list"
  im_imported :: nat
  im_assigned :: nat
  im_missing :: nat
  im_failed :: "string list"

definition finite_priority :: "jsnum option \<Rightarrow> jsnum" where
  "finite_priority p = (case p of Some (Fin r) \<Rightarrow> Fin r | _ \<Rightarrow> Fin 0)"

definition import_assignment :: "(task_request \<Rightarrow> bool) \<Rightarrow> agent list \<Rightarrow> string \<Rightarrow> assignment_snapshot \<Rightarrow> import_state \<Rightarrow> import_state" where
  "import_assignment ok agents templateID a st =
     (let resolvedAgentID = resolve_agent agents a;
          request = AssignAgent templateID resolvedAgentID (as_enabled a \<noteq> Some False) (finite_priority (as_priority a))
      in if resolvedAgentID = [] then st\<lparr>im_missing := im_missing st + 1\<rparr>
         else st\<lparr>im_requests := im_requests st @ [request],
                 im_assigned := im_assigned st + (if ok request then 1 else 0)\<rparr>)"

definition import_entry ::
  "(task_request \<Rightarrow> bool) \<Rightarrow> (string \<Rightarrow> assignment_info list option) \<Rightarrow> agent list \<Rightarrow> backup_entry \<Rightarrow> import_state \<Rightarrow> import_state" where
  "import_entry ok current agents entry st =
     (case be_template entry of
        None \<Rightarrow> st
      | Some sn \<Rightarrow>
          let templateID = trim (orS (sn_id sn) []) in
          if templateID = [] then st
          else
            let steps = arr (sn_steps sn);
                templateName = orS (map_option trim (sn_name sn)) templateID;
                exists = (templateID \<in> set (im_existing st));
                (sent, succeeded) = upsert ok exists templateID templateName steps sn;
                created = (exists \<or> ok (CreateTemplate templateID (create_body templateName steps sn)));
                st1 = st\<lparr>im_requests := im_requests st @ sent,
                         im_existing := (if created then (if exists then im_existing st else im_existing st @ [templateID])
                                         else im_existing st)\<rparr>
            in if \<not> succeeded then st1\<lparr>im_failed := im_failed st1 @ [templateID]\<rparr>
               else
                 let cleared = map (\<lambda>a. UnassignAgent templateID (ai_agent_id a)) (arr (current templateID));
                     st2 = st1\<lparr>im_imported := im_imported st1 + 1, im_requests := im_requests st1 @ cleared\<rparr>
                 in fold (import_assignment ok agents templateID) (arr (be_assignments entry)) st2)"

datatype import_result = InvalidBackup | ImportCancelled | ImportFailed | Imported import_state "string option"

text \<open>The second component of \<open>Imported\<close> is the task that is selected afterwards, if any.\<close>

definition importTaskSetBackup ::
  "(task_request \<Rightarrow> bool) \<Rightarrow> (string \<Rightarrow> assignment_info list option) \<Rightarrow> agent list \<Rightarrow> bool \<Rightarrow> string list option
   \<Rightarrow> backup_entry list option \<Rightarrow> import_result" where
  "importTaskSetBackup ok current agents confirmed listed templates =
     (case arr templates of
        [] \<Rightarrow> InvalidBackup
      | first # _ \<Rightarrow>
          if \<not> confirmed then ImportCancelled
          else case listed of
            None \<Rightarrow> ImportFailed
          | Some ids \<Rightarrow>
              Imported (fold (import_entry ok current agents) (arr templates)
                 \<lparr>im_existing = uniq ids, im_requests = [], im_imported = 0, im_assigned = 0, im_missing = 0, im_failed = []\<rparr>)
                (orO (Option.bind (be_template first) sn_id) None))"

section \<open>Importing a single task\<close>

text \<open>A file holds the snapshot under \<open>template\<close> or is the snapshot itself. The result is the requests sent and the
  task selected when all succeeded.\<close>

datatype task_file = Wrapped template_snapshot | Bare template_snapshot

fun file_snapshot :: "task_file \<Rightarrow> template_snapshot" where
  "file_snapshot (Wrapped sn) = sn"
| "file_snapshot (Bare sn) = sn"

datatype single_result = SingleInvalid | SingleCancelled | SingleFailed "task_request list" | SingleImported "task_request list" string

definition handleImportSingleTask ::
  "(task_request \<Rightarrow> bool) \<Rightarrow> bool \<Rightarrow> string list option \<Rightarrow> task_file option \<Rightarrow> single_result" where
  "handleImportSingleTask ok confirmed listed file =
     (case file of
        None \<Rightarrow> SingleFailed []
      | Some f \<Rightarrow>
          let sn = file_snapshot f; templateID = trim (orS (sn_id sn) []) in
          if templateID = [] \<or> sn_steps sn = None then SingleInvalid
          else if \<not> confirmed then SingleCancelled
          else case listed of
            None \<Rightarrow> SingleFailed []
          | Some ids \<Rightarrow>
              let (sent, succeeded) = upsert ok (templateID \<in> set ids) templateID
                                        (orS (map_option trim (sn_name sn)) templateID) (the (sn_steps sn)) sn
              in if succeeded then SingleImported sent templateID else SingleFailed sent)"

section \<open>What an import sends\<close>

lemma import_assignment_frame [simp]:
  "im_existing (import_assignment ok ags i a st) = im_existing st"
  "im_imported (import_assignment ok ags i a st) = im_imported st"
  "im_failed (import_assignment ok ags i a st) = im_failed st"
  by (simp_all add: import_assignment_def Let_def)

lemma import_assignments_frame [simp]:
  "im_existing (fold (import_assignment ok ags i) as st) = im_existing st"
  "im_imported (fold (import_assignment ok ags i) as st) = im_imported st"
  "im_failed (fold (import_assignment ok ags i) as st) = im_failed st"
  by (induction as arbitrary: st) simp_all

definition assign_requests :: "agent list \<Rightarrow> string \<Rightarrow> assignment_snapshot list \<Rightarrow> task_request list" where
  "assign_requests ags i as =
     map (\<lambda>a. AssignAgent i (resolve_agent ags a) (as_enabled a \<noteq> Some False) (finite_priority (as_priority a)))
       (filter (\<lambda>a. resolve_agent ags a \<noteq> []) as)"

lemma import_assignments_requests:
  "im_requests (fold (import_assignment ok ags i) as st) = im_requests st @ assign_requests ags i as"
  by (induction as arbitrary: st) (simp_all add: import_assignment_def assign_requests_def Let_def)

lemma import_assignments_missing:
  "im_missing (fold (import_assignment ok ags i) as st) = im_missing st + length (filter (\<lambda>a. resolve_agent ags a = []) as)"
  by (induction as arbitrary: st) (simp_all add: import_assignment_def Let_def)

text \<open>The id an entry is imported under, empty when it is skipped.\<close>

definition entry_id :: "backup_entry \<Rightarrow> string" where
  "entry_id e = (case be_template e of None \<Rightarrow> [] | Some sn \<Rightarrow> trim (orS (sn_id sn) []))"

definition entry_upsert :: "(task_request \<Rightarrow> bool) \<Rightarrow> string list \<Rightarrow> backup_entry \<Rightarrow> task_request list \<times> bool" where
  "entry_upsert ok existing e =
     (let sn = the (be_template e); i = entry_id e
      in upsert ok (i \<in> set existing) i (orS (map_option trim (sn_name sn)) i) (arr (sn_steps sn)) sn)"

definition entry_requests ::
  "(task_request \<Rightarrow> bool) \<Rightarrow> (string \<Rightarrow> assignment_info list option) \<Rightarrow> agent list \<Rightarrow> string list \<Rightarrow> backup_entry \<Rightarrow> task_request list" where
  "entry_requests ok current ags existing e =
     (if entry_id e = [] then []
      else fst (entry_upsert ok existing e)
        @ (if snd (entry_upsert ok existing e)
           then map (\<lambda>a. UnassignAgent (entry_id e) (ai_agent_id a)) (arr (current (entry_id e)))
                @ assign_requests ags (entry_id e) (arr (be_assignments e))
           else []))"

lemma import_entry_requests:
  "im_requests (import_entry ok current ags e st) = im_requests st @ entry_requests ok current ags (im_existing st) e"
  by (simp add: import_entry_def entry_requests_def entry_upsert_def entry_id_def Let_def import_assignments_requests
      split: option.split prod.split)

lemma import_entry_counts:
  "im_imported (import_entry ok current ags e st) =
     im_imported st + (if entry_id e \<noteq> [] \<and> snd (entry_upsert ok (im_existing st) e) then 1 else 0)"
  "im_failed (import_entry ok current ags e st) =
     im_failed st @ (if entry_id e \<noteq> [] \<and> \<not> snd (entry_upsert ok (im_existing st) e) then [entry_id e] else [])"
  by (simp_all add: import_entry_def entry_upsert_def entry_id_def Let_def split: option.split prod.split)

lemma import_entry_missing:
  "entry_id e \<noteq> [] \<Longrightarrow> snd (entry_upsert ok (im_existing st) e) \<Longrightarrow>
   im_missing (import_entry ok current ags e st) =
     im_missing st + length (filter (\<lambda>a. resolve_agent ags a = []) (arr (be_assignments e)))"
  by (auto simp: import_entry_def entry_upsert_def entry_id_def Let_def import_assignments_missing
      split: option.splits prod.splits)

text \<open>The agent an assignment is resolved to is a known one.\<close>

lemma snd_map_set: "snd ` set (map_set k v xs) \<subseteq> insert v (snd ` set xs)"
  using set_map_set_subset[of k v xs] by force

lemma add_agent_name_range: "snd ` set (add_agent_name a m) \<subseteq> insert (ag_id a) (snd ` set m)"
proof -
  let ?m1 = "if trim (ag_name a) \<noteq> [] then map_set (trim (ag_name a)) (ag_id a) m else m"
  have 1: "snd ` set ?m1 \<subseteq> insert (ag_id a) (snd ` set m)"
    by (cases "trim (ag_name a) \<noteq> []") (simp_all only: if_True if_False snd_map_set subset_insertI simp_thms)
  then have "snd ` set (map_set k (ag_id a) ?m1) \<subseteq> insert (ag_id a) (snd ` set m)" for k
    using snd_map_set[of k "ag_id a" ?m1] by (simp only: subset_iff insert_iff) blast
  with 1 show ?thesis unfolding add_agent_name_def Let_def
    by (cases "formatTaskManagerName (Some (trim (ag_name a))) \<noteq> []") (simp_all only: if_True if_False simp_thms)
qed

lemma agent_names_range: "snd ` set (fold add_agent_name ags m) \<subseteq> snd ` set m \<union> ag_id ` set ags"
proof (induction ags arbitrary: m)
  case (Cons a ags)
  show ?case using Cons.IH[of "add_agent_name a m"] add_agent_name_range[of a m] by auto
qed simp

lemma resolve_agent_known:
  assumes "resolve_agent ags a \<noteq> []"
  shows "resolve_agent ags a \<in> ag_id ` set ags"
proof -
  have r: "map_of (agent_names ags) k = Some v \<Longrightarrow> v \<in> ag_id ` set ags" for k v
    using agent_names_range[of ags "[]"] map_of_SomeD[of "agent_names ags" k v]
    by (force simp: agent_names_def)
  then show ?thesis
    using assms by (auto simp: resolve_agent_def Let_def orS_def truthy_def dest: r split: if_splits option.splits)
qed

section \<open>Failures stay local\<close>

text \<open>A task is known to the server, or its creation succeeded.\<close>

definition created_before :: "(task_request \<Rightarrow> bool) \<Rightarrow> string list \<Rightarrow> task_request list \<Rightarrow> string \<Rightarrow> bool" where
  "created_before ok ids rqs i = (i \<in> set ids \<or> (\<exists>b. CreateTemplate i b \<in> set rqs \<and> ok (CreateTemplate i b)))"

definition written :: "(task_request \<Rightarrow> bool) \<Rightarrow> task_request list \<Rightarrow> string \<Rightarrow> bool" where
  "written ok rqs i = (\<exists>b. UpdateTemplate i b \<in> set rqs \<and> ok (UpdateTemplate i b))"

fun request_sound :: "(task_request \<Rightarrow> bool) \<Rightarrow> string list \<Rightarrow> (string \<Rightarrow> assignment_info list option) \<Rightarrow> agent list \<Rightarrow> task_request list \<Rightarrow> task_request \<Rightarrow> bool" where
  "request_sound ok ids current ags rqs (CreateTemplate i b) = (i \<notin> set ids)"
| "request_sound ok ids current ags rqs (UpdateTemplate i b) = created_before ok ids rqs i"
| "request_sound ok ids current ags rqs (UnassignAgent i a) = (written ok rqs i \<and> a \<in> ai_agent_id ` set (arr (current i)))"
| "request_sound ok ids current ags rqs (AssignAgent i a e p) = (written ok rqs i \<and> a \<in> ag_id ` set ags)"

lemma request_sound_mono:
  "request_sound ok ids current ags rqs r \<Longrightarrow> set rqs \<subseteq> set rqs' \<Longrightarrow> request_sound ok ids current ags rqs' r"
  by (cases r) (auto simp: created_before_def written_def)

definition existing_sound :: "(task_request \<Rightarrow> bool) \<Rightarrow> string list \<Rightarrow> import_state \<Rightarrow> bool" where
  "existing_sound ok ids st \<longleftrightarrow> set ids \<subseteq> set (im_existing st)
     \<and> (\<forall>i \<in> set (im_existing st). created_before ok ids (im_requests st) i)"

lemma import_entry_existing:
  "im_existing (import_entry ok current ags e st) =
     (if entry_id e \<noteq> [] \<and> entry_id e \<notin> set (im_existing st)
         \<and> ok (CreateTemplate (entry_id e) (create_body (orS (map_option trim (sn_name (the (be_template e)))) (entry_id e))
                 (arr (sn_steps (the (be_template e)))) (the (be_template e))))
      then im_existing st @ [entry_id e] else im_existing st)"
  by (simp add: import_entry_def entry_id_def Let_def split: option.split prod.split)

lemma existing_sound_step:
  assumes "existing_sound ok ids st"
  shows "existing_sound ok ids (import_entry ok current ags e st)"
proof -
  let ?st' = "import_entry ok current ags e st"
  have old: "created_before ok ids (im_requests ?st') i" if "i \<in> set (im_existing st)" for i
    using assms that by (auto simp: existing_sound_def created_before_def import_entry_requests)
  have new: "created_before ok ids (im_requests ?st') (entry_id e)"
    if "im_existing ?st' = im_existing st @ [entry_id e]"
    using that unfolding import_entry_existing
    by (auto simp: created_before_def import_entry_requests entry_requests_def entry_upsert_def upsert_def Let_def split: if_splits)
  show ?thesis
  proof (cases "im_existing ?st' = im_existing st")
    case True
    then show ?thesis using assms old by (simp add: existing_sound_def)
  next
    case False
    then have "im_existing ?st' = im_existing st @ [entry_id e]"
      unfolding import_entry_existing by (simp split: if_splits)
    then show ?thesis using assms old new by (simp add: existing_sound_def) blast
  qed
qed

lemma created_before_mono:
  "created_before ok ids rqs i \<Longrightarrow> created_before ok ids (rqs @ rest) i"
  by (auto simp: created_before_def)

text \<open>What an entry sends: the creation unless the task exists, the update unless that failed, and the assignments
  when the update succeeded.\<close>

lemma entry_requests_cases:
  assumes "entry_id e \<noteq> []"
  obtains cr up where
    "\<exists>b. cr = CreateTemplate (entry_id e) b" "\<exists>b. up = UpdateTemplate (entry_id e) b"
    "entry_requests ok current ags existing e =
       (if entry_id e \<in> set existing then [] else [cr])
       @ (if entry_id e \<notin> set existing \<and> \<not> ok cr then []
          else up # (if ok up then map (\<lambda>a. UnassignAgent (entry_id e) (ai_agent_id a)) (arr (current (entry_id e)))
                              @ assign_requests ags (entry_id e) (arr (be_assignments e)) else []))"
proof -
  let ?sn = "the (be_template e)" and ?i = "entry_id e"
  let ?name = "orS (map_option trim (sn_name ?sn)) ?i" and ?steps = "arr (sn_steps ?sn)"
  show thesis
    by (rule that[of "CreateTemplate ?i (create_body ?name ?steps ?sn)" "UpdateTemplate ?i (update_body ?name ?steps ?sn)"])
      (use assms in \<open>simp_all add: entry_requests_def entry_upsert_def upsert_def Let_def\<close>)
qed

lemma agent_requests_sound:
  assumes "written ok rqs i"
    and "q \<in> set (map (\<lambda>a. UnassignAgent i (ai_agent_id a)) (arr (current i)) @ assign_requests ags i as)"
  shows "request_sound ok ids current ags rqs q"
  using assms resolve_agent_known[of ags] by (auto simp: assign_requests_def)

lemma entry_requests_sound:
  assumes "existing_sound ok ids st" "r \<in> set (entry_requests ok current ags (im_existing st) e)"
  shows "request_sound ok ids current ags (im_requests st @ entry_requests ok current ags (im_existing st) e) r"
proof -
  let ?new = "entry_requests ok current ags (im_existing st) e" and ?i = "entry_id e"
  let ?agents = "map (\<lambda>a. UnassignAgent ?i (ai_agent_id a)) (arr (current ?i)) @ assign_requests ags ?i (arr (be_assignments e))"
  have "?i \<noteq> []" using assms(2) by (auto simp: entry_requests_def)
  then obtain cr up where cr: "\<exists>b. cr = CreateTemplate ?i b" and up: "\<exists>b. up = UpdateTemplate ?i b" and new: "?new =
      (if ?i \<in> set (im_existing st) then [] else [cr])
      @ (if ?i \<notin> set (im_existing st) \<and> \<not> ok cr then [] else up # (if ok up then ?agents else []))"
    by (rule entry_requests_cases)
  have known: "?i \<in> set (im_existing st) \<Longrightarrow> created_before ok ids (im_requests st @ ?new) ?i"
    using assms(1) by (intro created_before_mono) (simp add: existing_sound_def)
  consider (create) "r = cr" "?i \<notin> set (im_existing st)"
    | (update) "r = up" "?i \<in> set (im_existing st) \<or> cr \<in> set ?new \<and> ok cr"
    | (agents) "r \<in> set ?agents" "up \<in> set ?new" "ok up"
    using assms(2) unfolding new by (auto split: if_splits)
  then show ?thesis
  proof cases
    case create
    then show ?thesis using assms(1) cr by (auto simp: existing_sound_def)
  next
    case update
    then have "created_before ok ids (im_requests st @ ?new) ?i" using known cr by (auto simp: created_before_def)
    then show ?thesis using update(1) up by auto
  next
    case agents
    then have "written ok (im_requests st @ ?new) ?i" using up by (auto simp: written_def)
    then show ?thesis using agents(1) by (rule agent_requests_sound)
  qed
qed

definition import_sound :: "(task_request \<Rightarrow> bool) \<Rightarrow> string list \<Rightarrow> (string \<Rightarrow> assignment_info list option) \<Rightarrow> agent list \<Rightarrow> import_state \<Rightarrow> bool" where
  "import_sound ok ids current ags st \<longleftrightarrow> existing_sound ok ids st \<and> list_all (request_sound ok ids current ags (im_requests st)) (im_requests st)"

lemma import_entry_sound:
  assumes "import_sound ok ids current ags st"
  shows "import_sound ok ids current ags (import_entry ok current ags e st)"
proof -
  let ?new = "entry_requests ok current ags (im_existing st) e"
  from assms have ex: "existing_sound ok ids st"
    and old: "\<And>r. r \<in> set (im_requests st) \<Longrightarrow> request_sound ok ids current ags (im_requests st) r"
    by (simp_all add: import_sound_def list_all_iff)
  have "request_sound ok ids current ags (im_requests st @ ?new) r" if "r \<in> set (im_requests st)" for r
    by (rule request_sound_mono[OF old[OF that]]) simp
  with entry_requests_sound[OF ex] have "list_all (request_sound ok ids current ags (im_requests st @ ?new)) (im_requests st @ ?new)"
    by (simp only: list_all_iff set_append Un_iff) blast
  then show ?thesis using existing_sound_step[OF ex] by (simp only: import_sound_def import_entry_requests)
qed

lemma import_entries_sound:
  "import_sound ok ids current ags st \<Longrightarrow> import_sound ok ids current ags (fold (import_entry ok current ags) es st)"
  by (induction es arbitrary: st) (simp_all add: import_entry_sound)

lemma import_entries_requests_mono:
  "set (im_requests st) \<subseteq> set (im_requests (fold (import_entry ok current ags) es st))"
proof (induction es arbitrary: st)
  case (Cons e es)
  show ?case using Cons.IH[of "import_entry ok current ags e st"] by (auto simp: import_entry_requests)
qed simp

lemma import_entries_account:
  "im_imported (fold (import_entry ok current ags) es st) + length (im_failed (fold (import_entry ok current ags) es st)) =
     im_imported st + length (im_failed st) + length (filter (\<lambda>e. entry_id e \<noteq> []) es)"
  by (induction es arbitrary: st) (auto simp: import_entry_counts)

definition attempted :: "task_request list \<Rightarrow> string \<Rightarrow> bool" where
  "attempted rqs i = (\<exists>b. CreateTemplate i b \<in> set rqs \<or> UpdateTemplate i b \<in> set rqs)"

lemma import_entries_attempted:
  "e \<in> set es \<Longrightarrow> entry_id e \<noteq> [] \<Longrightarrow> attempted (im_requests (fold (import_entry ok current ags) es st)) (entry_id e)"
proof (induction es arbitrary: st)
  case (Cons x es)
  show ?case
  proof (cases "x = e")
    case True
    then have "attempted (im_requests (import_entry ok current ags x st)) (entry_id e)"
      using Cons.prems(2)
      by (auto simp: attempted_def import_entry_requests entry_requests_def entry_upsert_def upsert_def Let_def)
    then show ?thesis
      using import_entries_requests_mono[of "import_entry ok current ags x st" ok current ags es]
      by (auto simp: attempted_def)
  next
    case False
    then show ?thesis using Cons by simp
  qed
qed simp


section \<open>Export and import\<close>

text \<open>A task whose texts carry no surrounding spaces, and the update that writes it back.\<close>

definition tidy_task :: "behavior_tree \<Rightarrow> bool" where
  "tidy_task t = (trimmed (bt_id t) \<and> bt_id t \<noteq> [] \<and> trimmed (bt_name t) \<and> bt_name t \<noteq> []
     \<and> trimmed (orS (bt_description t) []) \<and> trimmed (orS (bt_entry_point t) []) \<and> trimmed (orS (bt_task_distributor_id t) []))"

definition restoring_update :: "behavior_tree \<Rightarrow> task_request" where
  "restoring_update t = UpdateTemplate (bt_id t)
     \<lparr>bd_name = bt_name t, bd_description = Some (orS (bt_description t) []), bd_entry_point = Some (orS (bt_entry_point t) []),
      bd_preconditions = bt_preconditions t, bd_steps = arr (bt_steps t), bd_states = bt_states t,
      bd_planning_states = bt_planning_states t, bd_planning_task = bt_planning_task t,
      bd_task_distributor_id = Some (orS (bt_task_distributor_id t) [])\<rparr>"

definition restoring_assignments :: "behavior_tree \<Rightarrow> assignment_info list \<Rightarrow> task_request list" where
  "restoring_assignments t as = map (\<lambda>a. AssignAgent (bt_id t) (ai_agent_id a) (ai_enabled a) (Fin 0)) as"

definition known_agents :: "agent list \<Rightarrow> assignment_info list \<Rightarrow> bool" where
  "known_agents ags = list_all (\<lambda>a. trimmed (ai_agent_id a) \<and> ai_agent_id a \<noteq> [] \<and> ai_agent_id a \<in> set (map ag_id ags))"

fun is_update :: "task_request \<Rightarrow> bool" where
  "is_update (UpdateTemplate i b) = True"
| "is_update _ = False"

fun is_assign :: "task_request \<Rightarrow> bool" where
  "is_assign (AssignAgent i a e p) = True"
| "is_assign _ = False"

definition exported_entry :: "behavior_tree \<times> assignment_info list \<Rightarrow> backup_entry" where
  "exported_entry = (\<lambda>(t, as). \<lparr>be_template = Some (buildTaskSetTemplateSnapshot t), be_assignments = Some (map assignment_snapshot_of as)\<rparr>)"

lemma promise_all_map: "promise_all (map (\<lambda>x. map_option f (g x)) xs) = Some ys \<Longrightarrow>
   ys = map (\<lambda>x. f (the (g x))) xs \<and> list_all (\<lambda>x. g x \<noteq> None) xs"
proof (induction xs arbitrary: ys)
  case (Cons x xs)
  then show ?case by (cases "g x") auto
qed simp

lemma optional_string_default: "orS (toOptionalString v) [] = trim (orS v [])"
  by (simp add: toOptionalString_def Let_def)

lemma resolve_known: "trimmed (ai_agent_id a) \<Longrightarrow> ai_agent_id a \<noteq> [] \<Longrightarrow> ai_agent_id a \<in> set (map ag_id ags) \<Longrightarrow>
   resolve_agent ags (assignment_snapshot_of a) = ai_agent_id a"
  by (simp add: resolve_agent_def assignment_snapshot_of_def trimmed_def Let_def)

lemma assign_requests_exported:
  "known_agents ags as \<Longrightarrow> assign_requests ags (bt_id t) (map assignment_snapshot_of as) = restoring_assignments t as"
proof (induction as)
  case (Cons a as)
  then have "resolve_agent ags (assignment_snapshot_of a) = ai_agent_id a" "ai_agent_id a \<noteq> []"
    by (simp_all add: known_agents_def resolve_known)
  with Cons show ?case
    by (simp add: assign_requests_def restoring_assignments_def known_agents_def assignment_snapshot_of_def finite_priority_def)
qed (simp add: assign_requests_def restoring_assignments_def)

lemma exported_entry_id: "tidy_task t \<Longrightarrow> entry_id (exported_entry (t, as)) = bt_id t"
  by (simp add: entry_id_def exported_entry_def buildTaskSetTemplateSnapshot_def tidy_task_def trimmed_def)

lemma exported_entry_upsert:
  assumes "tidy_task t"
  shows "snd (entry_upsert (\<lambda>_. True) existing (exported_entry (t, as)))
    \<and> filter is_update (fst (entry_upsert (\<lambda>_. True) existing (exported_entry (t, as)))) = [restoring_update t]
    \<and> filter is_assign (fst (entry_upsert (\<lambda>_. True) existing (exported_entry (t, as)))) = []"
  using assms exported_entry_id[OF assms]
  by (simp add: entry_upsert_def upsert_def update_body_def restoring_update_def exported_entry_def
      buildTaskSetTemplateSnapshot_def optional_string_default tidy_task_def trimmed_def Let_def)

lemma assign_requests_no_update: "filter is_update (assign_requests ags i as) = []"
  by (simp add: assign_requests_def filter_empty_conv)

lemma unassign_neither: "filter is_update (map (\<lambda>a. UnassignAgent i (ai_agent_id a)) xs) = []"
    "filter is_assign (map (\<lambda>a. UnassignAgent i (ai_agent_id a)) xs) = []"
  by (simp_all add: filter_empty_conv)

lemma restoring_all_assign: "filter is_assign (restoring_assignments t as) = restoring_assignments t as"
  by (simp add: restoring_assignments_def filter_id_conv)

lemma exported_entry_requests:
  assumes "tidy_task t" "known_agents ags as"
  shows "filter is_update (entry_requests (\<lambda>_. True) current ags existing (exported_entry (t, as))) = [restoring_update t]
    \<and> filter is_assign (entry_requests (\<lambda>_. True) current ags existing (exported_entry (t, as))) = restoring_assignments t as"
proof -
  have as: "arr (be_assignments (exported_entry (t, as))) = map assignment_snapshot_of as" by (simp add: exported_entry_def)
  have ne: "bt_id t \<noteq> []" using assms(1) by (simp add: tidy_task_def)
  note up = exported_entry_upsert[OF assms(1), of existing as]
  show ?thesis
    using up ne
    by (simp add: entry_requests_def exported_entry_id[OF assms(1)] as assign_requests_exported[OF assms(2)] unassign_neither
        restoring_all_assign assign_requests_no_update[of ags "bt_id t" "map assignment_snapshot_of as", unfolded assign_requests_exported[OF assms(2)]])
qed

lemma exported_entry_missing:
  assumes "tidy_task t" "known_agents ags as"
  shows "im_missing (import_entry (\<lambda>_. True) current ags (exported_entry (t, as)) st) = im_missing st"
proof -
  have "filter (\<lambda>a. resolve_agent ags a = []) (map assignment_snapshot_of as) = []"
    using assms(2) by (auto simp: filter_empty_conv known_agents_def list_all_iff resolve_known)
  then show ?thesis
    using import_entry_missing[of "exported_entry (t, as)" "\<lambda>_. True" st current ags] exported_entry_upsert[OF assms(1)]
      exported_entry_id[OF assms(1), of as] assms(1)
    by (simp add: tidy_task_def exported_entry_def)
qed

lemma import_exported:
  assumes "list_all (\<lambda>(t, as). tidy_task t \<and> known_agents ags as) tas"
  shows "(let st' = fold (import_entry (\<lambda>_. True) current ags) (map exported_entry tas) st
    in filter is_update (im_requests st') = filter is_update (im_requests st) @ map (restoring_update \<circ> fst) tas
       \<and> filter is_assign (im_requests st') = filter is_assign (im_requests st) @ concat (map (\<lambda>(t, as). restoring_assignments t as) tas)
       \<and> im_imported st' = im_imported st + length tas \<and> im_failed st' = im_failed st \<and> im_missing st' = im_missing st)"
  using assms
proof (induction tas arbitrary: st)
  case (Cons ta tas)
  obtain t as where ta: "ta = (t, as)" by (cases ta)
  with Cons.prems have t: "tidy_task t" "known_agents ags as" and rest: "list_all (\<lambda>(t, as). tidy_task t \<and> known_agents ags as) tas"
    by simp_all
  let ?st1 = "import_entry (\<lambda>_. True) current ags (exported_entry (t, as)) st"
  have ne: "bt_id t \<noteq> []" using t(1) by (simp add: tidy_task_def)
  show ?case
    using Cons.IH[OF rest, of ?st1] exported_entry_requests[OF t, of current "im_existing st"] exported_entry_missing[OF t, of current st]
      exported_entry_upsert[OF t(1), of "im_existing st" as] exported_entry_id[OF t(1), of as] ne
    by (simp add: ta Let_def import_entry_requests import_entry_counts)
qed simp

text \<open>C15. A task set written to a file and loaded again is restored as far as the file goes, provided the server accepts every request of the
  import, the ids, names and other texts of the tasks carry no surrounding spaces, ids and names are not empty, and every assigned agent still exists under
  its id: for every task, in order, one update is sent with all its fields, and one assignment for each agent it was assigned to, with its enabled flag
  but with priority 0, which is what the export writes; every task counts as imported, and no agent as missing.\<close>

theorem task_set_roundtrip:
  assumes "handleExportTaskSet now stored fetch (Some items) = Exported b"
    and "list_all (\<lambda>(t, as). tidy_task t \<and> known_agents ags as) (map (\<lambda>item. the (fetch (bt_id item))) items)"
    and "importTaskSetBackup (\<lambda>_. True) current ags True (Some ids) (tb_templates b) = Imported st selected"
  shows "filter is_update (im_requests st) = map (\<lambda>item. restoring_update (fst (the (fetch (bt_id item))))) items
    \<and> filter is_assign (im_requests st) =
        concat (map (\<lambda>item. case the (fetch (bt_id item)) of (t, as) \<Rightarrow> restoring_assignments t as) items)
    \<and> im_imported st = length items \<and> im_failed st = [] \<and> im_missing st = 0"
proof -
  let ?tas = "map (\<lambda>item. the (fetch (bt_id item))) items"
  let ?st0 = "\<lparr>im_existing = uniq ids, im_requests = [], im_imported = 0, im_assigned = 0, im_missing = 0, im_failed = []\<rparr>"
  obtain entries where e: "promise_all (map (\<lambda>item. map_option exported_entry (fetch (bt_id item))) items) = Some entries"
      "tb_templates b = Some entries"
    using assms(1) by (auto simp: handleExportTaskSet_def exported_entry_def split: if_splits option.splits)
  from promise_all_map[OF e(1)] have entries: "entries = map exported_entry ?tas" by simp
  have st: "st = fold (import_entry (\<lambda>_. True) current ags) (map exported_entry ?tas) ?st0"
    using assms(3) by (auto simp: importTaskSetBackup_def e(2) entries split: list.splits)
  from import_exported[OF assms(2), of current ?st0] show ?thesis
    unfolding st[symmetric] by (simp add: Let_def comp_def case_prod_unfold)
qed

section \<open>A concrete task set\<close>

definition backup_task :: behavior_tree where
  "backup_task =
     \<lparr>bt_id = ''pick'', bt_name = ''Pick'', bt_description = Some ''take a box'', bt_agent_id = None, bt_agent_name = None,
      bt_entry_point = None, bt_preconditions = None, bt_steps = Some [], bt_states = None, bt_planning_states = None,
      bt_planning_task = None, bt_task_distributor_id = Some ''td1'', bt_required_action_types = None,
      bt_auto_generate_states = None, bt_version = 3, bt_is_template = True, bt_deployment_status = None,
      bt_created_at = ''t0'', bt_updated_at = None\<rparr>"

definition backup_agent :: agent where
  "backup_agent =
     \<lparr>ag_id = ''a1'', ag_name = ''agent_1'', ag_status = ''online'', ag_ip_address = None, ag_last_seen = None,
      ag_current_state = None, ag_current_state_code = None, ag_current_graph_id = None, ag_semantic_tags = None,
      ag_has_capability_template = None, ag_capability_template_saved_at = None,
      ag_capability_template_capability_count = None, ag_robot_count = 1, ag_created_at = ''t0''\<rparr>"

definition backup_assignment :: assignment_info where
  "backup_assignment =
     \<lparr>ai_id = ''x'', ai_agent_id = ''a1'', ai_agent_name = ''agent_1'', ai_behavior_tree_id = ''pick'',
      ai_behavior_tree_name = ''Pick'', ai_robot_count = None, ai_server_version = Fin 3, ai_deployed_version = None,
      ai_deployment_status = ''pending'', ai_enabled = False, ai_deployed_at = None\<rparr>"

definition backup_file :: "backup_entry list" where
  "backup_file = [exported_entry (backup_task, [backup_assignment])]"

definition backup_import :: "(task_request \<Rightarrow> bool) \<Rightarrow> import_state" where
  "backup_import ok = fold (import_entry ok (\<lambda>_. None) [backup_agent]) backup_file
     \<lparr>im_existing = [], im_requests = [], im_imported = 0, im_assigned = 0, im_missing = 0, im_failed = []\<rparr>"

theorem task_set_roundtrip_witness:
  "filter is_update (im_requests (backup_import (\<lambda>_. True))) = [restoring_update backup_task]"
proof -
  let ?b = "\<lparr>tb_version = 1, tb_exported_at = ''now'', tb_source = ''multi-robot-supervision/task-editor'', tb_templates = Some backup_file\<rparr>"
  have 1: "handleExportTaskSet ''now'' True (\<lambda>_. Some (backup_task, [backup_assignment])) (Some [backup_task]) = Exported ?b"
    by (simp add: handleExportTaskSet_def backup_file_def exported_entry_def)
  have 2: "list_all (\<lambda>(t, as). tidy_task t \<and> known_agents [backup_agent] as)
      (map (\<lambda>item. the (Some (backup_task, [backup_assignment]))) [backup_task])"
    by code_simp
  have 3: "importTaskSetBackup (\<lambda>_. True) (\<lambda>_. None) [backup_agent] True (Some []) (tb_templates ?b) =
      Imported (backup_import (\<lambda>_. True)) (Some ''pick'')"
    by (simp add: importTaskSetBackup_def backup_file_def backup_import_def exported_entry_def uniq_def
        buildTaskSetTemplateSnapshot_def backup_task_def)
  from task_set_roundtrip[OF 1 2 3] show ?thesis by simp
qed


end
