(* ===== verification/Agent_Match.thy ===== *)
theory Agent_Match
  imports Graph_Save
begin

text \<open>
  Matching agents to the task on the canvas (\<^verbatim>\<open>pages/ActionGraph/index.tsx\<close>): the capabilities the action nodes need, the ones
  every agent offers, and the list of agents with what they lack.

  Of a server's description only the agent and the type are used; both may be empty. The order of the list is that of
  \<open>js_sort\<close> with the comparison of the page, \<open>lc\<close> standing for \<open>localeCompare\<close>; that comparison is no order when
  agents have two different statuses other than online, and the theorem on the list does not depend on it.
\<close>

record capability_server =
  cs_agent_id :: string
  cs_type :: string

record rtm_template =
  rt_id :: string
  rt_name :: string
  rt_status :: string
  rt_hasAllCapabilities :: bool
  rt_missingCount :: nat
  rt_totalCapabilities :: nat

definition node_action_type :: "flow_node \<Rightarrow> string" where
  "node_action_type n = trim (orS (orO (nd_actionType (n_data n)) (nd_subtype (n_data n))) [])"

definition node_kind :: "flow_node \<Rightarrow> string" where
  "node_kind n = normalizeCapabilityKind (nd_capabilityKind (n_data n)) (Some (node_action_type n))"

definition requiredCapabilityKeys :: "flow_node list \<Rightarrow> string list" where
  "requiredCapabilityKeys nodes =
     js_sort code_unit_cmp (uniq (map (\<lambda>n. node_kind n @ '':'' @ node_action_type n)
       (filter (\<lambda>n. n_type n = NAction \<and> node_action_type n \<noteq> []) nodes)))"

definition add_capability :: "string \<Rightarrow> capability_server \<Rightarrow> (string \<times> string list) list \<Rightarrow> (string \<times> string list) list" where
  "add_capability kind srv byAgent =
     (if cs_agent_id srv = [] \<or> cs_type srv = [] then byAgent
      else map_set (cs_agent_id srv)
             (let caps = arr (map_of byAgent (cs_agent_id srv)); key = kind @ '':'' @ cs_type srv
              in if key \<in> set caps then caps else caps @ [key]) byAgent)"

definition capabilityTemplateByAgent :: "capability_server list \<Rightarrow> capability_server list \<Rightarrow> (string \<times> string list) list" where
  "capabilityTemplateByAgent action_servers service_servers =
     fold (add_capability ''service'') service_servers (fold (add_capability ''action'') action_servers [])"

definition rtm_entry :: "(string \<times> string list) list \<Rightarrow> string list \<Rightarrow> agent \<Rightarrow> rtm_template" where
  "rtm_entry byAgent required a =
     (let provided = arr (map_of byAgent (ag_id a)); missing = filter (\<lambda>k. k \<notin> set provided) required
      in \<lparr>rt_id = ag_id a,
          rt_name = orS (Some (formatTaskManagerName (Some (ag_name a)))) (orS (Some (formatTaskManagerName (Some (ag_id a)))) (ag_id a)),
          rt_status = ag_status a, rt_hasAllCapabilities = (length missing = 0), rt_missingCount = length missing,
          rt_totalCapabilities = length provided\<rparr>)"

definition rtm_cmp :: "(string \<Rightarrow> string \<Rightarrow> int) \<Rightarrow> rtm_template \<Rightarrow> rtm_template \<Rightarrow> int" where
  "rtm_cmp lc a b =
     (if rt_hasAllCapabilities a \<noteq> rt_hasAllCapabilities b then (if rt_hasAllCapabilities a then -1 else 1)
      else if rt_status a \<noteq> rt_status b then (if rt_status a = ''online'' then -1 else 1)
      else lc (rt_name a) (rt_name b))"

definition compatibleRtmTemplates ::
  "(string \<Rightarrow> string \<Rightarrow> int) \<Rightarrow> agent list \<Rightarrow> (string \<times> string list) list \<Rightarrow> string list \<Rightarrow> rtm_template list" where
  "compatibleRtmTemplates lc agents byAgent required =
     js_sort (rtm_cmp lc) (map (rtm_entry byAgent required)
       (filter (\<lambda>a. map_of byAgent (ag_id a) \<noteq> None \<or> ag_has_capability_template a = Some True) agents))"

definition compatibleRtmTemplateCount :: "rtm_template list \<Rightarrow> nat" where
  "compatibleRtmTemplateCount templates = length (filter rt_hasAllCapabilities templates)"

section \<open>What an agent offers\<close>

definition offers :: "capability_server list \<Rightarrow> string \<Rightarrow> string \<Rightarrow> bool" where
  "offers servers a ty = list_ex (\<lambda>s. cs_agent_id s = a \<and> cs_type s = ty) servers"

lemma fold_capabilities:
  "a \<noteq> [] \<Longrightarrow> set (arr (map_of (fold (add_capability kind) servers m) a)) =
     set (arr (map_of m a)) \<union> {kind @ '':'' @ ty | ty. ty \<noteq> [] \<and> offers servers a ty}"
proof (induction servers arbitrary: m)
  case (Cons s servers)
  have "set (arr (map_of (add_capability kind s m) a)) =
      set (arr (map_of m a)) \<union> (if cs_agent_id s = a \<and> cs_type s \<noteq> [] then {kind @ '':'' @ cs_type s} else {})"
    using Cons.prems by (auto simp: add_capability_def update_conv Let_def)
  then show ?case using Cons.IH[OF Cons.prems, of "add_capability kind s m"] Cons.prems by (auto simp: offers_def)
qed (simp add: offers_def)

lemma provided_keys:
  assumes "a \<noteq> []" "ty \<noteq> []" "kind = ''action'' \<or> kind = ''service''"
  shows "kind @ '':'' @ ty \<in> set (arr (map_of (capabilityTemplateByAgent actions services) a))
    \<longleftrightarrow> offers (if kind = ''action'' then actions else services) a ty"
  using assms by (auto simp: capabilityTemplateByAgent_def fold_capabilities)

lemma required_keys:
  "set (requiredCapabilityKeys nodes) =
     {node_kind n @ '':'' @ node_action_type n | n. n \<in> set nodes \<and> n_type n = NAction \<and> node_action_type n \<noteq> []}"
  by (auto simp: requiredCapabilityKeys_def)

text \<open>An agent is offered as able to run the task exactly when it offers the action or service of every action node that
  names one; the list holds every agent with known capabilities, and the count the able ones.\<close>

theorem rtm_match_correct:
  assumes "r \<in> set (compatibleRtmTemplates lc agents (capabilityTemplateByAgent actions services) (requiredCapabilityKeys nodes))"
    and "rt_id r \<noteq> []"
  shows "rt_hasAllCapabilities r \<longleftrightarrow>
    (\<forall>n \<in> set nodes. n_type n = NAction \<and> node_action_type n \<noteq> [] \<longrightarrow>
       offers (if node_kind n = ''action'' then actions else services) (rt_id r) (node_action_type n))"
proof -
  let ?by = "capabilityTemplateByAgent actions services" and ?req = "requiredCapabilityKeys nodes"
  from assms(1) obtain a where r: "r = rtm_entry ?by ?req a" by (auto simp: compatibleRtmTemplates_def)
  have kinds: "node_kind n = ''action'' \<or> node_kind n = ''service''" for n
    using normalizeCapabilityKind_values by (auto simp: node_kind_def)
  have "rt_hasAllCapabilities r \<longleftrightarrow> (\<forall>k \<in> set ?req. k \<in> set (arr (map_of ?by (ag_id a))))"
    by (auto simp: r rtm_entry_def Let_def filter_empty_conv)
  also have "\<dots> \<longleftrightarrow> (\<forall>n \<in> set nodes. n_type n = NAction \<and> node_action_type n \<noteq> [] \<longrightarrow>
      node_kind n @ '':'' @ node_action_type n \<in> set (arr (map_of ?by (ag_id a))))"
    unfolding required_keys by blast
  finally show ?thesis
    using assms(2) provided_keys[of "ag_id a", OF _ _ kinds] by (simp add: r rtm_entry_def Let_def)
qed

text \<open>The comparison is no order: of two equally able agents with different statuses other than online, each is placed after
  the other.\<close>

theorem rtm_cmp_inconsistent:
  assumes "rt_hasAllCapabilities a = rt_hasAllCapabilities b" "rt_status a = ''offline''" "rt_status b = ''warning''"
  shows "rtm_cmp lc a b = 1 \<and> rtm_cmp lc b a = 1"
  using assms by (simp add: rtm_cmp_def)

end
