(* ===== verification/Tree_Viewer.thy ===== *)
theory Tree_Viewer
  imports Graph_Session
begin

text \<open>
  The read-only view of a task (\<^verbatim>\<open>components/BehaviorTreeViewer.tsx\<close>), shown on the monitoring and planning
  pages: \<open>convertBehaviorTreeToGraph\<close> lays the steps out in a compacted copy of the editor's coordinates and
  draws the transitions, with a retry block next to every step that retries. Coordinates are exact
  rationals. The helper closures that share the flags \<open>retry...EdgeAdded\<close> and the arrays \<open>nodes\<close> and
  \<open>edges\<close> are functions on the record of that state.
\<close>

section \<open>Helpers\<close>

definition view_inferCapabilityKind :: "string option \<Rightarrow> string" where
  "view_inferCapabilityKind actionType =
     (let normalizedType = toLowerCase (orS actionType [])
      in if str_includes normalizedType ''/srv/'' then ''service'' else ''action'')"

definition view_normalizeCapabilityKind :: "string option \<Rightarrow> string option \<Rightarrow> string" where
  "view_normalizeCapabilityKind kind actionType =
     (let normalizedKind = toLowerCase (orS kind [])
      in if normalizedKind = ''service'' then ''service''
         else if normalizedKind = ''action'' then ''action''
         else view_inferCapabilityKind actionType)"

definition clamp :: "rat \<Rightarrow> rat \<Rightarrow> rat \<Rightarrow> rat" where
  "clamp value lo hi = min hi (max lo value)"

definition median :: "rat list \<Rightarrow> rat" where
  "median values =
     (if length values = 0 then 0
      else
        let sorted_values = sort values;
            middle = length sorted_values div 2
        in if length sorted_values mod 2 = 0
           then (sorted_values ! (middle - 1) + sorted_values ! middle) / 2
           else sorted_values ! middle)"

definition positiveAxisDiffs :: "rat list \<Rightarrow> rat list" where
  "positiveAxisDiffs values =
     (if length values < 2 then []
      else
        let sorted_values = sort (uniq values)
        in filter (\<lambda>diff. diff > 1)
             (map (\<lambda>i. sorted_values ! i - sorted_values ! (i - 1)) [1..<length sorted_values]))"

definition view_normalizeOutcome :: "string option \<Rightarrow> string" where
  "view_normalizeOutcome outcome =
     (let normalized = toLowerCase (orS outcome [])
      in if normalized = [] then []
         else if normalized \<in> {''success'', ''succeeded'', ''done''} then ''success''
         else if normalized \<in> {''failed'', ''failure'', ''error'', ''abort''} then ''failed''
         else normalized)"

section \<open>Positions\<close>

type_synonym positions = "(string \<times> rat \<times> rat) list"

definition view_fallback :: "bool \<Rightarrow> nat \<Rightarrow> rat \<times> rat" where
  "view_fallback isCompact index =
     (let cols = (if isCompact then 2 else 3)
      in ((if isCompact then 50 else 300) + of_nat (index mod cols) * (if isCompact then 200 else 300),
          (if isCompact then 50 else 100) + of_nat (index div cols) * (if isCompact then 110 else 200)))"

definition stepPositions :: "bool \<Rightarrow> graph_step list \<Rightarrow> positions" where
  "stepPositions isCompact steps =
     fold (\<lambda>(index, step). map_set (gs_id step) (coalesce (stored_position step) (view_fallback isCompact index)))
       (enumerate 0 steps) []"

text \<open>The scale of one axis: \<open>clamp(target / (median(diffs) || fallback), lo, 1)\<close>.\<close>

definition axis_scale :: "rat \<Rightarrow> rat \<Rightarrow> rat \<Rightarrow> rat list \<Rightarrow> rat" where
  "axis_scale target fallback lo values =
     (let m = median (positiveAxisDiffs values);
          sourceSpacing = (if m = 0 then fallback else m)
      in clamp (target / sourceSpacing) lo 1)"

definition view_scale_x :: "bool \<Rightarrow> rat list \<Rightarrow> rat" where
  "view_scale_x isCompact =
     axis_scale (if isCompact then 170 else 235) (if isCompact then 200 else 300) (if isCompact then 7/10 else 1/2)"

definition view_scale_y :: "bool \<Rightarrow> rat list \<Rightarrow> rat" where
  "view_scale_y isCompact =
     axis_scale (if isCompact then 95 else 145) (if isCompact then 110 else 200) (if isCompact then 72/100 else 1/2)"

definition preview_base :: "bool \<Rightarrow> rat" where
  "preview_base isCompact = (if isCompact then 50 else 100)"

definition min_list_rat :: "rat list \<Rightarrow> rat" where
  "min_list_rat xs = Min (set xs)"

definition displayPositions :: "bool \<Rightarrow> positions \<Rightarrow> positions" where
  "displayPositions isCompact ps =
     (let xs = map (fst \<circ> snd) ps; ys = map (snd \<circ> snd) ps;
          minX = min_list_rat xs; minY = min_list_rat ys;
          scaleX = view_scale_x isCompact xs; scaleY = view_scale_y isCompact ys
      in map (\<lambda>(stepId, x, y).
            (stepId, preview_base isCompact + (x - minX) * scaleX, preview_base isCompact + (y - minY) * scaleY)) ps)"

definition view_entry :: "behavior_tree \<Rightarrow> string option" where
  "view_entry bt =
     orO (bt_entry_point bt) (case arr (bt_steps bt) of [] \<Rightarrow> None | s # _ \<Rightarrow> Some (gs_id s))"

definition start_position :: "bool \<Rightarrow> string option \<Rightarrow> positions \<Rightarrow> rat \<times> rat" where
  "start_position isCompact entryPoint shown =
     (let offset = (if isCompact then 130 else 190)
      in case (if truthy entryPoint then map_of shown (the entryPoint) else None) of
           Some (x, y) \<Rightarrow> (x - offset, y)
         | None \<Rightarrow>
             if length shown > 0
             then (min_list_rat (map (fst \<circ> snd) shown) - offset,
                   sum_list (map (snd \<circ> snd) shown) / of_nat (length shown))
             else ((if isCompact then 20 else 80), (if isCompact then 20 else 100)))"

section \<open>Nodes and edges of the view\<close>

datatype view_data =
    StartData string string string  \<comment> \<open>label, subtype, colour\<close>
  | StepData
      (vd_label: string) (vd_subtype: string) (vd_color: string) (vd_server: "string option")
      (vd_duringState: "string option") (vd_isActive: bool) (vd_isCompleted: bool) (vd_isFailed: bool)
  | RetryData string jsnum jsnum bool  \<comment> \<open>label, maxRetries, backoffMs, isActive\<close>

record view_node =
  vn_id :: string
  vn_type :: node_type
  vn_x :: rat
  vn_y :: rat
  vn_data :: view_data

text \<open>All edges are of type \<open>smoothstep\<close>, with an arrow head in the colour of the stroke.\<close>

record view_edge =
  ve_id :: string
  ve_source :: string
  ve_target :: string
  ve_sourceHandle :: string
  ve_targetHandle :: string
  ve_color :: string
  ve_strokeWidth :: rat
  ve_strokeDasharray :: "string option"
  ve_animated :: bool

record view_props =
  vp_mappings :: "action_mapping list"
  vp_currentStepId :: "string option"
  vp_completedSteps :: "string list"
  vp_failedSteps :: "string list"
  vp_compact :: bool

definition view_mapping :: "view_props \<Rightarrow> graph_step \<Rightarrow> action_mapping option" where
  "view_mapping p step =
     (case find (\<lambda>m. Some (am_action_type m) = step_type step) (vp_mappings p) of
        Some m \<Rightarrow> Some m
      | None \<Rightarrow> find (\<lambda>m. Some (am_server m) = step_server step) (vp_mappings p))"

definition view_kind :: "graph_step \<Rightarrow> string" where
  "view_kind step = view_normalizeCapabilityKind (Option.bind (gs_action step) sa_capability_kind) (step_type step)"

definition view_color :: "view_props \<Rightarrow> graph_step \<Rightarrow> string" where
  "view_color p step =
     (let service = (view_kind step = ''service'')
      in if view_mapping p step \<noteq> None \<and> \<not> service then getActionColor (am_action_type (the (view_mapping p step)))
         else if truthy (step_type step) then (if service then ''#0ea5e9'' else getActionColor (the (step_type step)))
         else (if service then ''#0ea5e9'' else ''#f87171''))"

definition view_during_state :: "view_props \<Rightarrow> graph_step \<Rightarrow> string option" where
  "view_during_state p step =
     (let fromMapping =
            (case view_mapping p step of
               Some m \<Rightarrow>
                 if view_kind step \<noteq> ''service''
                 then orO (case am_during_states m of Some (d # _) \<Rightarrow> Some d | _ \<Rightarrow> None) (am_during_state m)
                 else None
             | None \<Rightarrow> None);
          targets = (case gs_duringStateTargets step of Some ts \<Rightarrow> Some ts | None \<Rightarrow> gs_during_state_targets step);
          states = (case gs_duringStates step of Some ss \<Rightarrow> Some ss | None \<Rightarrow> gs_during_states step)
      in case targets of
           Some (t # ts) \<Rightarrow>
             Some (dst_state (coalesce
               (find (\<lambda>x. \<not> truthy (dst_target_type x) \<or> dst_target_type x = Some ''self'') (t # ts)) t))
         | _ \<Rightarrow> (case states of Some (s # _) \<Rightarrow> Some s | _ \<Rightarrow> fromMapping))"

definition view_step_node :: "view_props \<Rightarrow> rat \<times> rat \<Rightarrow> graph_step \<Rightarrow> view_node" where
  "view_step_node p position step =
     (let isTerminal = (gs_type step = Some ''terminal'')
      in \<lparr>vn_id = gs_id step, vn_type = (if isTerminal then NEvent else NAction),
          vn_x = fst position, vn_y = snd position,
          vn_data = StepData
            (orS (gs_job_name step) (orS (gs_name step) (gs_id step)))
            (if isTerminal
             then (if gs_terminal_type step = Some ''failure'' then ''Error''
                   else if gs_alert step = Some True then ''Warning'' else ''End'')
             else orS (step_server step) (orS (step_type step) ''Unknown''))
            (view_color p step) (step_server step) (view_during_state p step)
            (vp_currentStepId p = Some (gs_id step))
            (gs_id step \<in> set (vp_completedSteps p)) (gs_id step \<in> set (vp_failedSteps p))\<rparr>)"

section \<open>The retry block of a step\<close>

definition view_retry_fallback :: "graph_step \<Rightarrow> string" where
  "view_retry_fallback step =
     (case Option.bind (gs_transition step) tr_on_failure of
        Some (FailConfig c) \<Rightarrow> coalesce (fc_fallback c) (coalesce (fc_next_legacy c) [])
      | Some (FailStep s) \<Rightarrow> s
      | None \<Rightarrow> [])"

definition retry_view_id :: "string \<Rightarrow> string" where
  "retry_view_id i = i @ ''__retry_view''"

record view_state =
  vs_nodes :: "view_node list"
  vs_edges :: "view_edge list"
  vs_retryInputEdgeAdded :: bool
  vs_retryLoopEdgeAdded :: bool
  vs_retryFallbackEdgeAdded :: bool

definition ensureRetryNode :: "view_props \<Rightarrow> rat \<times> rat \<Rightarrow> graph_step \<Rightarrow> view_state \<Rightarrow> view_state" where
  "ensureRetryNode p position step st =
     (if \<not> has_retry step then st
      else if \<exists>n \<in> set (vs_nodes st). vn_id n = retry_view_id (gs_id step) then st
      else
        let ui = fc_ui (failure_config step)
        in st\<lparr>vs_nodes := vs_nodes st @
             [\<lparr>vn_id = retry_view_id (gs_id step), vn_type = NRetry,
               vn_x = coalesce (finite_opt (Option.bind ui ui_x)) (fst position + 180),
               vn_y = coalesce (finite_opt (Option.bind ui ui_y)) (snd position + 76),
               vn_data = RetryData ''Retry'' (retry_count step) (retry_backoff step)
                 (vp_currentStepId p = Some (gs_id step))\<rparr>]\<rparr>)"

definition push_edge :: "view_edge \<Rightarrow> view_state \<Rightarrow> view_state" where
  "push_edge e st = st\<lparr>vs_edges := vs_edges st @ [e]\<rparr>"

definition addRetryInputEdge :: "view_props \<Rightarrow> rat \<times> rat \<Rightarrow> graph_step \<Rightarrow> view_state \<Rightarrow> view_state" where
  "addRetryInputEdge p position step st =
     (if \<not> has_retry step \<or> vs_retryInputEdgeAdded st then st
      else (push_edge
        \<lparr>ve_id = gs_id step @ ''-fail->'' @ retry_view_id (gs_id step),
         ve_source = gs_id step, ve_target = retry_view_id (gs_id step),
         ve_sourceHandle = ''failure-out'', ve_targetHandle = ''retry-in'', ve_color = ''#f59e0b'',
         ve_strokeWidth = 18/10, ve_strokeDasharray = Some ''4,4'', ve_animated = False\<rparr>
        (ensureRetryNode p position step st))\<lparr>vs_retryInputEdgeAdded := True\<rparr>)"

definition addRetryLoopEdge :: "view_props \<Rightarrow> rat \<times> rat \<Rightarrow> graph_step \<Rightarrow> view_state \<Rightarrow> view_state" where
  "addRetryLoopEdge p position step st =
     (if \<not> has_retry step \<or> vs_retryLoopEdgeAdded st then st
      else (push_edge
        \<lparr>ve_id = retry_view_id (gs_id step) @ ''->'' @ gs_id step @ ''::retry'',
         ve_source = retry_view_id (gs_id step), ve_target = gs_id step,
         ve_sourceHandle = ''retry-out'', ve_targetHandle = ''state-in'', ve_color = ''#f59e0b'',
         ve_strokeWidth = 16/10, ve_strokeDasharray = Some ''5,5'', ve_animated = False\<rparr>
        (ensureRetryNode p position step st))\<lparr>vs_retryLoopEdgeAdded := True\<rparr>)"

definition addRetryFallbackEdge ::
  "view_props \<Rightarrow> graph_step list \<Rightarrow> rat \<times> rat \<Rightarrow> graph_step \<Rightarrow> string option \<Rightarrow> view_state \<Rightarrow> view_state" where
  "addRetryFallbackEdge p steps position step target st =
     (let fallbackTarget = orS target (view_retry_fallback step)
      in if \<not> has_retry step \<or> vs_retryFallbackEdgeAdded st \<or> fallbackTarget = [] then st
         else
           let fallbackSubtype =
                 (case find (\<lambda>s. gs_id s = fallbackTarget) steps of
                    Some s \<Rightarrow> (if gs_terminal_type s = Some ''failure'' then ''Error''
                               else if gs_alert s = Some True then ''Warning'' else ''End'')
                  | None \<Rightarrow> []);
               edgeColor = (if fallbackSubtype = ''Warning'' then ''#f59e0b'' else ''#ef4444'')
           in (push_edge
             \<lparr>ve_id = retry_view_id (gs_id step) @ ''->'' @ fallbackTarget @ ''::fallback'',
              ve_source = retry_view_id (gs_id step), ve_target = fallbackTarget,
              ve_sourceHandle = ''retry-failed'', ve_targetHandle = ''state-in'', ve_color = edgeColor,
              ve_strokeWidth = 16/10, ve_strokeDasharray = Some ''4,4'', ve_animated = False\<rparr>
             (ensureRetryNode p position step st))\<lparr>vs_retryFallbackEdgeAdded := True\<rparr>)"

section \<open>The transitions of a step\<close>

definition view_outcome_edge ::
  "view_props \<Rightarrow> graph_step list \<Rightarrow> rat \<times> rat \<Rightarrow> graph_step \<Rightarrow> nat \<times> outcome_transition \<Rightarrow> view_state \<Rightarrow> view_state" where
  "view_outcome_edge p steps position step it st =
     (let (outcomeIndex, t) = it;
          isActive = (vp_currentStepId p = Some (gs_id step));
          isSuccessOutcome = (view_normalizeOutcome (Some (ot_outcome t)) = ''success'')
      in if \<not> truthy (ot_next t) then st
         else if has_retry step \<and> \<not> isSuccessOutcome
         then addRetryFallbackEdge p steps position step (ot_next t) (addRetryInputEdge p position step st)
         else push_edge
           \<lparr>ve_id = gs_id step @ ''-outcome-'' @ show_nat outcomeIndex @ ''->'' @ the (ot_next t),
            ve_source = gs_id step, ve_target = the (ot_next t),
            ve_sourceHandle = (if isSuccessOutcome then ''success-out'' else ''failure-out''),
            ve_targetHandle = ''state-in'',
            ve_color = (if isSuccessOutcome then (if isActive then ''#22d3ee'' else ''#22c55e'') else ''#ef4444''),
            ve_strokeWidth = (if isSuccessOutcome \<and> isActive then 25/10 else 15/10),
            ve_strokeDasharray = (if isSuccessOutcome then None else Some ''4,4''),
            ve_animated = (isSuccessOutcome \<and> isActive)\<rparr> st)"

definition view_outcome_edges ::
  "view_props \<Rightarrow> graph_step list \<Rightarrow> rat \<times> rat \<Rightarrow> graph_step \<Rightarrow> view_state \<Rightarrow> view_state" where
  "view_outcome_edges p steps position step st =
     (let st1 = fold (view_outcome_edge p steps position step) (enumerate 0 (outcomes_of step)) st;
          st2 = (if has_retry step \<and> \<not> vs_retryInputEdgeAdded st1 then addRetryInputEdge p position step st1 else st1);
          st3 = (if has_retry step \<and> \<not> vs_retryLoopEdgeAdded st2 then addRetryLoopEdge p position step st2 else st2)
      in if has_retry step \<and> \<not> vs_retryFallbackEdgeAdded st3
         then addRetryFallbackEdge p steps position step None st3 else st3)"

definition view_success_edge :: "view_props \<Rightarrow> graph_step \<Rightarrow> view_state \<Rightarrow> view_state" where
  "view_success_edge p step st =
     (let onSuccess = Option.bind (gs_transition step) tr_on_success;
          isActive = (vp_currentStepId p = Some (gs_id step))
      in if succ_truthy onSuccess \<and> truthy (succ_target onSuccess)
         then push_edge
           \<lparr>ve_id = gs_id step @ ''->'' @ the (succ_target onSuccess),
            ve_source = gs_id step, ve_target = the (succ_target onSuccess),
            ve_sourceHandle = ''success-out'', ve_targetHandle = ''state-in'',
            ve_color = (if isActive then ''#22d3ee'' else ''#22c55e''),
            ve_strokeWidth = (if isActive then 25/10 else 15/10), ve_strokeDasharray = None,
            ve_animated = isActive\<rparr> st
         else st)"

definition view_fail_target :: "on_failure \<Rightarrow> string option" where
  "view_fail_target f =
     (case f of FailStep s \<Rightarrow> Some s | FailConfig c \<Rightarrow> orO (fc_fallback c) (fc_next_legacy c))"

definition view_failure_edge ::
  "view_props \<Rightarrow> graph_step list \<Rightarrow> rat \<times> rat \<Rightarrow> graph_step \<Rightarrow> view_state \<Rightarrow> view_state" where
  "view_failure_edge p steps position step st =
     (let onFailure = Option.bind (gs_transition step) tr_on_failure
      in if \<not> fail_truthy onFailure then st
         else
           let target = view_fail_target (the onFailure)
           in if has_retry step
              then addRetryFallbackEdge p steps position step target (addRetryInputEdge p position step st)
              else if truthy target
              then push_edge
                \<lparr>ve_id = gs_id step @ ''-fail->'' @ the target, ve_source = gs_id step, ve_target = the target,
                 ve_sourceHandle = ''failure-out'', ve_targetHandle = ''state-in'', ve_color = ''#ef4444'',
                 ve_strokeWidth = 15/10, ve_strokeDasharray = Some ''4,4'', ve_animated = False\<rparr> st
              else st)"

text \<open>The body of \<open>behaviorTree.steps.forEach\<close>; the flags start afresh for every step.\<close>

definition view_step ::
  "view_props \<Rightarrow> graph_step list \<Rightarrow> positions \<Rightarrow> nat \<times> graph_step \<Rightarrow> view_node list \<times> view_edge list \<Rightarrow>
     view_node list \<times> view_edge list" where
  "view_step p steps shown it acc =
     (let (index, step) = it;
          position = coalesce (map_of shown (gs_id step)) (view_fallback (vp_compact p) index);
          st0 = \<lparr>vs_nodes = fst acc @ [view_step_node p position step], vs_edges = snd acc,
                 vs_retryInputEdgeAdded = False, vs_retryLoopEdgeAdded = False, vs_retryFallbackEdgeAdded = False\<rparr>;
          st1 = (if has_retry step
                 then addRetryFallbackEdge p steps position step None (addRetryLoopEdge p position step st0) else st0);
          st2 = (if length (outcomes_of step) > 0 then view_outcome_edges p steps position step st1
                 else view_failure_edge p steps position step (view_success_edge p step st1))
      in (vs_nodes st2, vs_edges st2))"

definition view_start_node :: "view_props \<Rightarrow> string option \<Rightarrow> positions \<Rightarrow> view_node" where
  "view_start_node p entryPoint shown =
     (let (x, y) = start_position (vp_compact p) entryPoint shown
      in \<lparr>vn_id = ''__behavior_tree_start__'', vn_type = NEvent, vn_x = x, vn_y = y,
          vn_data = StartData ''Start'' ''Start'' ''#22c55e''\<rparr>)"

definition view_start_edges :: "string option \<Rightarrow> view_edge list" where
  "view_start_edges entryPoint =
     (if truthy entryPoint
      then [\<lparr>ve_id = ''__behavior_tree_start__'' @ ''->'' @ the entryPoint,
             ve_source = ''__behavior_tree_start__'', ve_target = the entryPoint,
             ve_sourceHandle = ''state-out'', ve_targetHandle = ''state-in'', ve_color = ''#22c55e'',
             ve_strokeWidth = 15/10, ve_strokeDasharray = None, ve_animated = False\<rparr>]
      else [])"

definition convertBehaviorTreeToGraph ::
  "view_props \<Rightarrow> behavior_tree option \<Rightarrow> view_node list \<times> view_edge list" where
  "convertBehaviorTreeToGraph p behaviorTree =
     (case behaviorTree of
        None \<Rightarrow> ([], [])
      | Some bt \<Rightarrow>
          let steps = arr (bt_steps bt);
              entryPoint = view_entry bt;
              shown = displayPositions (vp_compact p) (stepPositions (vp_compact p) steps);
              (nodes, edges) =
                fold (view_step p steps shown) (enumerate 0 steps) ([view_start_node p entryPoint shown], [])
          in (nodes, edges @ view_start_edges entryPoint))"

section \<open>The mini version\<close>

definition mini_currentIndex :: "behavior_tree \<Rightarrow> string option \<Rightarrow> nat option" where
  "mini_currentIndex bt currentStepId =
     map_option fst (find (\<lambda>(i, s). Some (gs_id s) = currentStepId) (enumerate 0 (arr (bt_steps bt))))"

text \<open>\<open>currentIndex + 1 / totalSteps\<close>: 0 when the current step is not one of the task's.\<close>

definition mini_progress :: "behavior_tree \<Rightarrow> string option \<Rightarrow> nat \<times> nat" where
  "mini_progress bt currentStepId =
     ((case mini_currentIndex bt currentStepId of None \<Rightarrow> 0 | Some i \<Rightarrow> i + 1), length (arr (bt_steps bt)))"

definition mini_bars :: "behavior_tree \<Rightarrow> string option \<Rightarrow> string list option \<Rightarrow> (string \<times> string \<times> string) list" where
  "mini_bars bt currentStepId completedSteps =
     map (\<lambda>step.
        (gs_id step,
         (if Some (gs_id step) = currentStepId then ''bg-blue-500 animate-pulse''
          else if gs_id step \<in> set (coalesce completedSteps []) then ''bg-green-500''
          else ''bg-gray-700''),
         orS (gs_job_name step) (orS (gs_name step) (gs_id step)))) (arr (bt_steps bt))"

section \<open>The layout\<close>

lemma clamp_bounds: "lo \<le> hi \<Longrightarrow> lo \<le> clamp v lo hi \<and> clamp v lo hi \<le> hi"
  by (auto simp: clamp_def)

lemma axis_scale_bounds: "lo \<le> 1 \<Longrightarrow> axis_scale target fallback lo values \<in> {lo..1}"
  by (simp add: axis_scale_def Let_def clamp_bounds)

definition min_scale_x :: "bool \<Rightarrow> rat" where
  "min_scale_x isCompact = (if isCompact then 7/10 else 1/2)"

definition min_scale_y :: "bool \<Rightarrow> rat" where
  "min_scale_y isCompact = (if isCompact then 72/100 else 1/2)"

lemma view_scale_bounds:
  "view_scale_x isCompact xs \<in> {min_scale_x isCompact..1}" "view_scale_y isCompact ys \<in> {min_scale_y isCompact..1}"
  unfolding view_scale_x_def view_scale_y_def min_scale_x_def min_scale_y_def
  by (rule axis_scale_bounds, simp)+

lemma displayPositions_lookup:
  assumes "distinct (map fst ps)" "(i, x, y) \<in> set ps"
  shows "map_of (displayPositions isCompact ps) i =
    Some (preview_base isCompact + (x - min_list_rat (map (fst \<circ> snd) ps)) * view_scale_x isCompact (map (fst \<circ> snd) ps),
          preview_base isCompact + (y - min_list_rat (map (snd \<circ> snd) ps)) * view_scale_y isCompact (map (snd \<circ> snd) ps))"
proof -
  have "map fst (displayPositions isCompact ps) = map fst ps"
    by (simp add: displayPositions_def Let_def case_prod_unfold)
  then have "distinct (map fst (displayPositions isCompact ps))" using assms(1) by simp
  then show ?thesis
    by (rule map_of_is_SomeI) (use assms(2) in \<open>force simp: displayPositions_def Let_def\<close>)
qed

lemma stepPositions_distinct: "distinct (map fst (stepPositions isCompact steps))"
  unfolding stepPositions_def case_prod_unfold by (rule js_map.fold_set_distinct) simp

lemma stepPositions_keys: "set (map fst (stepPositions isCompact steps)) = gs_id ` set steps"
proof -
  have "(\<lambda>it. gs_id (snd it)) ` set (enumerate 0 steps) = gs_id ` set steps"
    by (metis image_image list.set_map map_snd_enumerate)
  then show ?thesis
    unfolding stepPositions_def case_prod_unfold js_map.fold_set_keys by simp
qed

lemma min_list_rat_le: "x \<in> set xs \<Longrightarrow> min_list_rat xs \<le> x"
  by (simp add: min_list_rat_def)

lemma scaled_difference:
  fixes lo s a b m base :: rat
  assumes "lo \<le> s" "s \<le> 1" "b \<le> a"
  shows "lo * (a - b) \<le> (base + (a - m) * s) - (base + (b - m) * s)"
    "(base + (a - m) * s) - (base + (b - m) * s) \<le> a - b"
proof -
  have "(base + (a - m) * s) - (base + (b - m) * s) = s * (a - b)" by (simp add: algebra_simps)
  then show "lo * (a - b) \<le> (base + (a - m) * s) - (base + (b - m) * s)"
    "(base + (a - m) * s) - (base + (b - m) * s) \<le> a - b"
    using assms mult_right_mono[of lo s "a - b"] mult_right_mono[of s 1 "a - b"] by simp_all
qed

lemma axis_layout:
  fixes a b base :: rat
  assumes "s \<in> {lo..1}" "0 \<le> lo" "a \<in> set vs"
  defines "m \<equiv> min_list_rat vs"
  shows "base \<le> base + (a - m) * s" "b \<le> a \<Longrightarrow> lo * (a - b) \<le> (base + (a - m) * s) - (base + (b - m) * s)"
    "b \<le> a \<Longrightarrow> (base + (a - m) * s) - (base + (b - m) * s) \<le> a - b"
  using assms scaled_difference[of lo s b a base m] min_list_rat_le[of a vs] by simp_all

section \<open>The nodes drawn\<close>

definition ids_of :: "view_state \<Rightarrow> string set" where
  "ids_of st = vn_id ` set (vs_nodes st)"

text \<open>
  While a step is drawn: the nodes so far stay, the step's own node is there, and every edge leaves a node
  that is drawn and leads to one, or to a step (set \<open>T\<close>) still to be drawn.
\<close>

definition drawing :: "string set \<Rightarrow> view_node set \<Rightarrow> string \<Rightarrow> view_state \<Rightarrow> bool" where
  "drawing T N i st =
     (N \<subseteq> set (vs_nodes st) \<and> i \<in> ids_of st \<and>
      (\<forall>e \<in> set (vs_edges st). ve_source e \<in> ids_of st \<and> ve_target e \<in> ids_of st \<union> T))"

lemma drawing_flags [simp]:
  "drawing T N i (st\<lparr>vs_retryInputEdgeAdded := b\<rparr>) = drawing T N i st"
  "drawing T N i (st\<lparr>vs_retryLoopEdgeAdded := b\<rparr>) = drawing T N i st"
  "drawing T N i (st\<lparr>vs_retryFallbackEdgeAdded := b\<rparr>) = drawing T N i st"
  by (simp_all add: drawing_def ids_of_def)

lemma drawing_push:
  "drawing T N i st \<Longrightarrow> ve_source e \<in> ids_of st \<Longrightarrow> ve_target e \<in> ids_of st \<union> T \<Longrightarrow> drawing T N i (push_edge e st)"
  by (auto simp: drawing_def push_edge_def ids_of_def)

lemma drawing_ensure: "drawing T N i st \<Longrightarrow> drawing T N i (ensureRetryNode p position step st)"
  by (auto simp: drawing_def ensureRetryNode_def ids_of_def Let_def)

lemma ensure_ids:
  "has_retry step \<Longrightarrow> retry_view_id (gs_id step) \<in> ids_of (ensureRetryNode p position step st)"
  "ids_of st \<subseteq> ids_of (ensureRetryNode p position step st)"
  by (auto simp: ensureRetryNode_def ids_of_def Let_def intro: rev_image_eqI)

lemma drawing_id: "drawing T N i st \<Longrightarrow> i \<in> ids_of st"
  by (simp add: drawing_def)

lemma drawing_retry_edges:
  assumes "drawing T N (gs_id step) st"
  shows "drawing T N (gs_id step) (addRetryInputEdge p position step st)"
    "drawing T N (gs_id step) (addRetryLoopEdge p position step st)"
    "orS target (view_retry_fallback step) \<in> insert [] T \<Longrightarrow>
       drawing T N (gs_id step) (addRetryFallbackEdge p steps position step target st)"
proof -
  note facts = drawing_ensure[OF assms] ensure_ids drawing_id[OF drawing_ensure[OF assms]]
  show "drawing T N (gs_id step) (addRetryInputEdge p position step st)"
    "drawing T N (gs_id step) (addRetryLoopEdge p position step st)"
    using assms by (auto simp: addRetryInputEdge_def addRetryLoopEdge_def intro!: drawing_push facts)
  show "drawing T N (gs_id step) (addRetryFallbackEdge p steps position step target st)"
    if "orS target (view_retry_fallback step) \<in> insert [] T"
    using assms that by (auto simp: addRetryFallbackEdge_def Let_def intro!: drawing_push facts)
qed

text \<open>The steps the view of a step points to.\<close>

definition view_targets :: "graph_step \<Rightarrow> string list" where
  "view_targets step =
     filter (\<lambda>t. t \<noteq> [])
       (view_retry_fallback step # map (\<lambda>t. orS (ot_next t) []) (outcomes_of step) @
        [orS (succ_target (Option.bind (gs_transition step) tr_on_success)) [],
         orS (Option.bind (Option.bind (gs_transition step) tr_on_failure) view_fail_target) []])"

lemma truthy_nonempty: "truthy v \<Longrightarrow> the v \<noteq> []"
  by (auto simp: truthy_def split: option.splits)

lemma view_targets_in:
  "t \<in> set (outcomes_of step) \<Longrightarrow> truthy (ot_next t) \<Longrightarrow> the (ot_next t) \<in> set (view_targets step)"
  "truthy (succ_target (Option.bind (gs_transition step) tr_on_success)) \<Longrightarrow>
     the (succ_target (Option.bind (gs_transition step) tr_on_success)) \<in> set (view_targets step)"
  "Option.bind (gs_transition step) tr_on_failure = Some f \<Longrightarrow> truthy (view_fail_target f) \<Longrightarrow>
     the (view_fail_target f) \<in> set (view_targets step)"
  "view_retry_fallback step \<in> insert [] (set (view_targets step))"
  by (auto simp: view_targets_def orS_truthy truthy_nonempty intro!: rev_image_eqI)

lemma drawing_outcome_edge:
  assumes "drawing T N (gs_id step) st" "set (view_targets step) \<subseteq> T" "t \<in> set (outcomes_of step)"
  shows "drawing T N (gs_id step) (view_outcome_edge p steps position step (k, t) st)"
proof (cases "truthy (ot_next t)")
  case True
  then have "the (ot_next t) \<in> T" using assms(2,3) view_targets_in(1) by blast
  then show ?thesis
    using assms(1) drawing_id[OF assms(1)]
    by (auto simp: view_outcome_edge_def Let_def True orS_truthy intro!: drawing_push drawing_retry_edges)
qed (simp add: view_outcome_edge_def assms(1))

lemma drawing_outcome_edges:
  assumes "drawing T N (gs_id step) st" "set (view_targets step) \<subseteq> T"
  shows "drawing T N (gs_id step) (view_outcome_edges p steps position step st)"
proof -
  have "drawing T N (gs_id step) (fold (view_outcome_edge p steps position step) its st)"
    if "snd ` set its \<subseteq> set (outcomes_of step)" for its
    using assms(1) that
  proof (induction its arbitrary: st)
    case (Cons it its)
    then show ?case using drawing_outcome_edge[OF Cons.prems(1) assms(2), of "snd it" p steps position "fst it"] by simp
  qed simp
  moreover have "snd ` set (enumerate 0 (outcomes_of step)) \<subseteq> set (outcomes_of step)"
    by (metis list.set_map map_snd_enumerate order_refl)
  moreover have "orS None (view_retry_fallback step) \<in> insert [] T"
    using view_targets_in(4)[of step] assms(2) by auto
  ultimately show ?thesis
    by (simp add: view_outcome_edges_def Let_def drawing_retry_edges)
qed

lemma drawing_plain_edges:
  assumes "drawing T N (gs_id step) st" "set (view_targets step) \<subseteq> T"
  shows "drawing T N (gs_id step) (view_success_edge p step st)"
    "drawing T N (gs_id step) (view_failure_edge p steps position step st)"
proof -
  show "drawing T N (gs_id step) (view_success_edge p step st)"
    using assms drawing_id[OF assms(1)] view_targets_in(2)[of step]
    by (auto simp: view_success_edge_def Let_def intro!: drawing_push)
  show "drawing T N (gs_id step) (view_failure_edge p steps position step st)"
  proof (cases "fail_truthy (Option.bind (gs_transition step) tr_on_failure)")
    case True
    then obtain f where f: "Option.bind (gs_transition step) tr_on_failure = Some f"
      by (auto simp: fail_truthy_def split: option.splits)
    have "orS (view_fail_target f) (view_retry_fallback step) \<in> insert [] T"
      using view_targets_in(3)[OF f] view_targets_in(4)[of step] assms(2)
      by (cases "truthy (view_fail_target f)") (auto simp: orS_truthy orS_falsy)
    then show ?thesis
      using assms(1) drawing_id[OF assms(1)] view_targets_in(3)[OF f] assms(2) True
      by (auto simp: view_failure_edge_def Let_def f intro!: drawing_push drawing_retry_edges)
  qed (simp add: view_failure_edge_def assms(1))
qed

definition drawn :: "string set \<Rightarrow> view_node list \<times> view_edge list \<Rightarrow> bool" where
  "drawn T acc =
     (\<forall>e \<in> set (snd acc). ve_source e \<in> vn_id ` set (fst acc) \<and> ve_target e \<in> vn_id ` set (fst acc) \<union> T)"

definition drawn_position :: "view_props \<Rightarrow> positions \<Rightarrow> nat \<times> graph_step \<Rightarrow> rat \<times> rat" where
  "drawn_position p shown it = coalesce (map_of shown (gs_id (snd it))) (view_fallback (vp_compact p) (fst it))"

lemma view_step_drawn:
  assumes "drawn T acc" "set (view_targets (snd it)) \<subseteq> T"
  shows "drawn T (view_step p steps shown it acc)"
    "insert (view_step_node p (drawn_position p shown it) (snd it)) (set (fst acc)) \<subseteq> set (fst (view_step p steps shown it acc))"
proof -
  obtain k step where it: "it = (k, step)" by (cases it)
  define position where "position = drawn_position p shown it"
  define node where "node = view_step_node p position step"
  define st0 where "st0 = \<lparr>vs_nodes = fst acc @ [node], vs_edges = snd acc, vs_retryInputEdgeAdded = False,
    vs_retryLoopEdgeAdded = False, vs_retryFallbackEdgeAdded = False\<rparr>"
  define st1 where "st1 = (if has_retry step
    then addRetryFallbackEdge p steps position step None (addRetryLoopEdge p position step st0) else st0)"
  define st2 where "st2 = (if length (outcomes_of step) > 0 then view_outcome_edges p steps position step st1
    else view_failure_edge p steps position step (view_success_edge p step st1))"
  let ?N = "insert node (set (fst acc))"
  have targets: "set (view_targets step) \<subseteq> T" using assms(2) it by simp
  have "orS None (view_retry_fallback step) \<in> insert [] T" using view_targets_in(4)[of step] targets by auto
  moreover have "vn_id node = gs_id step" by (simp add: node_def view_step_node_def Let_def)
  then have "drawing T ?N (gs_id step) st0"
    using assms(1) by (auto simp: drawing_def drawn_def st0_def ids_of_def)
  ultimately have "drawing T ?N (gs_id step) st1" by (simp add: st1_def drawing_retry_edges)
  then have st2: "drawing T ?N (gs_id step) st2"
    using targets by (simp add: st2_def drawing_outcome_edges drawing_plain_edges)
  have "view_step p steps shown it acc = (vs_nodes st2, vs_edges st2)"
    by (simp add: view_step_def Let_def it st2_def st1_def st0_def node_def position_def drawn_position_def)
  then show "drawn T (view_step p steps shown it acc)"
    "insert (view_step_node p (drawn_position p shown it) (snd it)) (set (fst acc)) \<subseteq> set (fst (view_step p steps shown it acc))"
    using st2 by (auto simp: drawing_def drawn_def ids_of_def node_def position_def it)
qed

lemma view_steps_drawn:
  assumes "drawn T acc" "\<And>it. it \<in> set its \<Longrightarrow> set (view_targets (snd it)) \<subseteq> T"
  shows "drawn T (fold (view_step p steps shown) its acc) \<and>
    (\<lambda>it. view_step_node p (drawn_position p shown it) (snd it)) ` set its \<union> set (fst acc)
       \<subseteq> set (fst (fold (view_step p steps shown) its acc))"
  using assms
proof (induction its arbitrary: acc)
  case (Cons it its)
  note one = view_step_drawn[OF Cons.prems(1), where it = it and p = p and steps = steps and shown = shown]
  have target: "set (view_targets (snd it)) \<subseteq> T" using Cons.prems(2) by simp
  have "drawn T (fold (view_step p steps shown) its (view_step p steps shown it acc)) \<and>
    (\<lambda>it. view_step_node p (drawn_position p shown it) (snd it)) ` set its \<union> set (fst (view_step p steps shown it acc))
       \<subseteq> set (fst (fold (view_step p steps shown) its (view_step p steps shown it acc)))"
    using Cons.prems(2) by (intro Cons.IH one(1) target) simp
  with one(2)[OF target] show ?case by simp blast
qed simp

lemma convert_steps_drawn:
  assumes "bt_steps bt = Some steps" "\<And>s. s \<in> set steps \<Longrightarrow> set (view_targets s) \<subseteq> T"
  shows "\<exists>nodes edges. convertBehaviorTreeToGraph p (Some bt) = (nodes, edges @ view_start_edges (view_entry bt)) \<and>
    drawn T (nodes, edges) \<and> ''__behavior_tree_start__'' \<in> vn_id ` set nodes \<and>
    (\<forall>it \<in> set (enumerate 0 steps). view_step_node p
       (drawn_position p (displayPositions (vp_compact p) (stepPositions (vp_compact p) steps)) it) (snd it) \<in> set nodes)"
proof -
  define shown where "shown = displayPositions (vp_compact p) (stepPositions (vp_compact p) steps)"
  let ?start = "view_start_node p (view_entry bt) shown"
  have "set (view_targets (snd it)) \<subseteq> T" if "it \<in> set (enumerate 0 steps)" for it
    using assms(2) snd_in_set_enumerate[of "fst it" "snd it"] that by simp
  then have *: "drawn T (fold (view_step p steps shown) (enumerate 0 steps) ([?start], [])) \<and>
      (\<lambda>it. view_step_node p (drawn_position p shown it) (snd it)) ` set (enumerate 0 steps) \<union> {?start}
      \<subseteq> set (fst (fold (view_step p steps shown) (enumerate 0 steps) ([?start], [])))"
    using view_steps_drawn[of T "([?start], [])" "enumerate 0 steps" p steps shown] by (simp add: drawn_def)
  obtain nodes edges where ne: "fold (view_step p steps shown) (enumerate 0 steps) ([?start], []) = (nodes, edges)"
    by (cases "fold (view_step p steps shown) (enumerate 0 steps) ([?start], [])")
  have "vn_id ?start = ''__behavior_tree_start__''" by (simp add: view_start_node_def case_prod_unfold Let_def)
  then have "''__behavior_tree_start__'' \<in> vn_id ` set nodes"
    using * ne by (metis Un_insert_right fst_conv image_eqI insert_subset)
  moreover have "convertBehaviorTreeToGraph p (Some bt) = (nodes, edges @ view_start_edges (view_entry bt))"
    using ne by (simp add: convertBehaviorTreeToGraph_def assms(1) Let_def shown_def)
  ultimately show ?thesis using * ne unfolding shown_def[symmetric] by (intro exI[of _ nodes] exI[of _ edges]) auto
qed

definition view_well_formed :: "behavior_tree \<Rightarrow> bool" where
  "view_well_formed bt =
     (let steps = arr (bt_steps bt); ids = map gs_id steps
      in list_all (\<lambda>s. list_all (\<lambda>t. t \<in> set ids) (view_targets s)) steps \<and>
         (truthy (bt_entry_point bt) \<longrightarrow> the (bt_entry_point bt) \<in> set ids))"

lemma view_entry_in: "view_well_formed bt \<Longrightarrow> truthy (view_entry bt) \<Longrightarrow> the (view_entry bt) \<in> gs_id ` set (arr (bt_steps bt))"
  by (auto simp: view_entry_def view_well_formed_def Let_def orO_def split: if_splits list.splits)

lemma view_edges_connected:
  assumes "view_well_formed bt" "bt_steps bt = Some steps" "e \<in> set (snd (convertBehaviorTreeToGraph p (Some bt)))"
  shows "{ve_source e, ve_target e} \<subseteq> vn_id ` set (fst (convertBehaviorTreeToGraph p (Some bt)))"
proof -
  let ?T = "gs_id ` set steps"
  have "set (view_targets s) \<subseteq> ?T" if "s \<in> set steps" for s
    using assms(1,2) that by (fastforce simp: view_well_formed_def Let_def list_all_iff)
  from convert_steps_drawn[OF assms(2) this, of p] obtain nodes edges where
    c: "convertBehaviorTreeToGraph p (Some bt) = (nodes, edges @ view_start_edges (view_entry bt))"
      "drawn ?T (nodes, edges)" "''__behavior_tree_start__'' \<in> vn_id ` set nodes"
    and steps: "\<forall>it \<in> set (enumerate 0 steps). view_step_node p
       (drawn_position p (displayPositions (vp_compact p) (stepPositions (vp_compact p) steps)) it) (snd it) \<in> set nodes"
    by blast
  have "?T \<subseteq> vn_id ` set nodes"
  proof
    fix i assume "i \<in> ?T"
    then obtain k s where s: "(k, s) \<in> set (enumerate 0 steps)" "i = gs_id s" using ex_enumerate by fastforce
    from steps s(1) show "i \<in> vn_id ` set nodes"
      by (intro rev_image_eqI[OF bspec[OF steps s(1)]]) (simp add: view_step_node_def Let_def s(2))
  qed
  then show ?thesis
    using c assms(3) view_entry_in[OF assms(1)] by (auto simp: drawn_def view_start_edges_def assms(2) split: if_splits)
qed

text \<open>C21. 
  C0. The view of a task keeps the editor's layout: every step is drawn at or below and to the right of the
  corner of the preview, and for two steps the distance on each axis shrinks by the same factor, at least
  0.5 (compact: 0.7 and 0.72) and at most 1, so that their order is kept; the leftmost step is drawn at the
  left margin.
\<close>

theorem view_layout_bounds:
  assumes steps: "bt_steps bt = Some steps" "s \<in> set steps" "s' \<in> set steps"
    and pos: "map_of (stepPositions (vp_compact p) steps) (gs_id s) = Some (x, y)"
      "map_of (stepPositions (vp_compact p) steps) (gs_id s') = Some (x', y')"
  shows "\<exists>X Y X' Y'.
    view_step_node p (X, Y) s \<in> set (fst (convertBehaviorTreeToGraph p (Some bt))) \<and>
    view_step_node p (X', Y') s' \<in> set (fst (convertBehaviorTreeToGraph p (Some bt))) \<and>
    preview_base (vp_compact p) \<le> X \<and> preview_base (vp_compact p) \<le> Y \<and>
    (x' \<le> x \<longrightarrow> min_scale_x (vp_compact p) * (x - x') \<le> X - X' \<and> X - X' \<le> x - x') \<and>
    (y' \<le> y \<longrightarrow> min_scale_y (vp_compact p) * (y - y') \<le> Y - Y' \<and> Y - Y' \<le> y - y') \<and>
    ((\<forall>(i, u, v) \<in> set (stepPositions (vp_compact p) steps). x \<le> u) \<longrightarrow> X = preview_base (vp_compact p))"
proof -
  define c where "c = vp_compact p"
  define ps where "ps = stepPositions c steps"
  define xs ys where "xs = map (fst \<circ> snd) ps" and "ys = map (snd \<circ> snd) ps"
  define X where "X u = preview_base c + (u - min_list_rat xs) * view_scale_x c xs" for u
  define Y where "Y u = preview_base c + (u - min_list_rat ys) * view_scale_y c ys" for u
  obtain nodes edges where
    c: "convertBehaviorTreeToGraph p (Some bt) = (nodes, edges @ view_start_edges (view_entry bt))"
    and nodes: "\<forall>it \<in> set (enumerate 0 steps). view_step_node p (drawn_position p (displayPositions c ps) it) (snd it) \<in> set nodes"
    using convert_steps_drawn[OF steps(1), of UNIV p] unfolding c_def ps_def by auto
  have node: "view_step_node p (X u, Y v) t \<in> set nodes"
    if t: "t \<in> set steps" and uv: "map_of ps (gs_id t) = Some (u, v)" for t u v
  proof -
    obtain k where k: "(k, t) \<in> set (enumerate 0 steps)" using t ex_enumerate[of t 0 steps] by blast
    have "map_of (displayPositions c ps) (gs_id t) = Some (X u, Y v)"
      using displayPositions_lookup[of ps "gs_id t" u v c] stepPositions_distinct[of c steps] map_of_SomeD[OF uv]
      by (simp add: X_def Y_def ps_def xs_def ys_def)
    with bspec[OF nodes k] show ?thesis by (simp add: drawn_position_def)
  qed
  have mem: "x \<in> set xs" "y \<in> set ys"
    using map_of_SomeD[OF pos(1)] unfolding xs_def ys_def ps_def c_def by force+
  have lo: "0 \<le> min_scale_x c" "0 \<le> min_scale_y c" by (simp_all add: min_scale_x_def min_scale_y_def)
  note X = axis_layout[OF view_scale_bounds(1)[of c xs] lo(1) mem(1),
      where base = "preview_base c", folded X_def]
  note Y = axis_layout[OF view_scale_bounds(2)[of c ys] lo(2) mem(2),
      where base = "preview_base c", folded Y_def]
  have "X x = preview_base c" if "\<forall>(i, u, v) \<in> set ps. x \<le> u"
  proof -
    have "min_list_rat xs = x"
      unfolding min_list_rat_def using mem(1) that by (intro Min_eqI) (auto simp: xs_def)
    then show ?thesis by (simp add: X_def)
  qed
  then show ?thesis
    using node[OF steps(2)] node[OF steps(3)] pos X Y c unfolding c_def[symmetric] ps_def[symmetric]
    by (intro exI[of _ "X x"] exI[of _ "Y y"] exI[of _ "X x'"] exI[of _ "Y y'"]) simp
qed

definition far_apart :: behavior_tree where
  "far_apart = sample_task
     \<lparr>bt_steps := Some [(no_step ''a'')\<lparr>gs_ui := Some \<lparr>ui_x = Some (Fin 1000), ui_y = Some (Fin 400)\<rparr>\<rparr>,
                        (no_step ''b'')\<lparr>gs_ui := Some \<lparr>ui_x = Some (Fin 1600), ui_y = Some (Fin 400)\<rparr>\<rparr>]\<rparr>"

definition plain_props :: view_props where
  "plain_props = \<lparr>vp_mappings = [], vp_currentStepId = None, vp_completedSteps = [], vp_failedSteps = [], vp_compact = False\<rparr>"

theorem view_layout_bounds_witness:
  "\<exists>X Y X' Y'.
    view_step_node plain_props (X, Y) (arr (bt_steps far_apart) ! 1) \<in> set (fst (convertBehaviorTreeToGraph plain_props (Some far_apart))) \<and>
    view_step_node plain_props (X', Y') (arr (bt_steps far_apart) ! 0) \<in> set (fst (convertBehaviorTreeToGraph plain_props (Some far_apart))) \<and>
    300 \<le> X - X' \<and> X - X' \<le> 600"
proof -
  let ?steps = "arr (bt_steps far_apart)"
  have pos: "map_of (stepPositions (vp_compact plain_props) ?steps) (gs_id (?steps ! 1)) = Some (1600, 400)"
    "map_of (stepPositions (vp_compact plain_props) ?steps) (gs_id (?steps ! 0)) = Some (1000, 400)"
    by code_simp+
  have steps: "bt_steps far_apart = Some ?steps" "?steps ! 1 \<in> set ?steps" "?steps ! 0 \<in> set ?steps"
    by (simp_all add: far_apart_def)
  have "min_scale_x (vp_compact plain_props) * (1600 - 1000) = 300" by code_simp
  then show ?thesis
    using view_layout_bounds[OF steps pos] by (elim exE conjE) (intro exI conjI, assumption, assumption, simp_all)
qed

section \<open>The view of a saved task\<close>

lemma saved_step_transition:
  assumes "s \<in> set (fst (convertGraphToSteps nodes edges))"
  shows "gs_transition s = None \<or> (\<exists>acc. gs_transition s = Some (build_transition acc))"
proof -
  from assms obtain n where n: "s \<in> set (node_steps nodes edges n)"
    by (auto simp: convertGraphToSteps_def Let_def)
  have "gs_transition s = None" if "gs_transition s \<noteq> Some (build_transition (node_transitions nodes edges n))"
    using n that
    by (auto simp: node_steps_def action_step_def terminal_step_def no_step_def Let_def split: node_type.splits option.splits)
  then show ?thesis by blast
qed

lemma build_transition_view:
  "tr_on_failure (build_transition acc) = Some f \<Longrightarrow> view_fail_target f = fail_target (Some f) \<or>
     \<not> truthy (view_fail_target f)"
  by (cases acc) (auto simp: build_transition_def view_fail_target_def fail_target_def no_failure_config_def orO_def Let_def
      split: option.splits if_splits)

lemma view_targets_saved:
  assumes "gs_transition s = None \<or> (\<exists>acc. gs_transition s = Some (build_transition acc))"
  shows "set (view_targets s) \<subseteq> set (saved_targets s)"
proof (cases "gs_transition s")
  case None
  then show ?thesis by (simp add: view_targets_def view_retry_fallback_def succ_target_def)
next
  case (Some tr)
  then obtain acc where tr: "tr = build_transition acc" using assms by auto
  have "view_retry_fallback s \<in> {[], orS (fail_target (tr_on_failure tr)) []}"
    by (cases acc) (auto simp: view_retry_fallback_def Some tr build_transition_def fail_target_def no_failure_config_def Let_def
        orS_def truthy_def split: option.splits if_splits)
  moreover have "orS (Option.bind (tr_on_failure tr) view_fail_target) [] \<in> {[], orS (fail_target (tr_on_failure tr)) []}"
    using build_transition_view[of acc] by (cases "tr_on_failure tr") (auto simp: tr orS_falsy)
  ultimately show ?thesis by (auto simp: view_targets_def saved_targets_def Some succ_target_def)
qed



text \<open>
  A retry block whose position is stored is drawn at the editor's coordinates, while its step is moved and
  scaled with the others: the block of a step stored at (1000, 400) with the block 180 to the right of it
  appears more than a thousand units away from the step.
\<close>

definition stored_retry :: behavior_tree where
  "stored_retry = sample_task
     \<lparr>bt_steps := Some [(no_step ''a'')\<lparr>gs_ui := Some \<lparr>ui_x = Some (Fin 1000), ui_y = Some (Fin 400)\<rparr>,
        gs_transition := Some (no_transition\<lparr>tr_on_failure := Some (FailConfig (no_failure_config
          \<lparr>fc_retry := Some (Fin 2), fc_ui := Some \<lparr>ui_x = Some (Fin 1180), ui_y = Some (Fin 484)\<rparr>\<rparr>))\<rparr>)\<rparr>]\<rparr>"

lemma retry_block_not_scaled:
  "map (\<lambda>n. (vn_id n, vn_x n, vn_y n)) (fst (convertBehaviorTreeToGraph plain_props (Some stored_retry))) =
     [(''__behavior_tree_start__'', - 90, 100), (''a'', 100, 100), (''a__retry_view'', 1180, 484)]"
  by code_simp

text \<open>An entry point that is no step of the task is still drawn as the target of the start edge.\<close>

lemma view_entry_dangling:
  "map ve_target (snd (convertBehaviorTreeToGraph plain_props (Some (far_apart\<lparr>bt_entry_point := Some ''gone''\<rparr>)))) = [''gone'']"
  by code_simp

end
