(* ===== verification/Tool_Frames.thy ===== *)
theory Tool_Frames
  imports Fleet_Types
begin

text \<open>
  The tool frames offered by the parameter editors of an action node
  (\<^verbatim>\<open>parameter-editors/ParameterEditorFactory.tsx\<close>): from the transforms of the robot's telemetry the
  editor builds the frame graph, looks for the \<open>tool0\<close> frames below \<open>base_link\<close> and collects their
  descendants. Both searches are \<open>while\<close> loops over a queue on a graph that is whatever the robot sends,
  cycles included; they are \<open>partial_function\<close>s, and that they return is proved.
\<close>

section \<open>Transforms and frame names\<close>

text \<open>The coordinates of a transform are exact reals.\<close>

record vector3 =
  v3_x :: real
  v3_y :: real
  v3_z :: real

record quaternion =
  qt_x :: real
  qt_y :: real
  qt_z :: real
  qt_w :: real

record transform_data =
  tf_frame_id :: string
  tf_child_frame_id :: string
  tf_translation :: vector3
  tf_rotation :: quaternion
  tf_timestamp_ns :: "real option"

definition normalizeFrameName :: "string \<Rightarrow> string" where
  "normalizeFrameName frame =
     rev (dropWhile (\<lambda>c. c = CHR ''/'') (rev (dropWhile (\<lambda>c. c = CHR ''/'') (trim frame))))"

definition getFrameBaseName :: "string \<Rightarrow> string" where
  "getFrameBaseName frame =
     (let normalized = normalizeFrameName frame;
          parts = js_split ''/'' normalized
      in toLowerCase (parts ! (length parts - 1)))"

section \<open>The search for an ancestor\<close>

type_synonym frame_map = "(string \<times> string list) list"

text \<open>The inner \<open>for\<close> loop: None when it returns \<open>true\<close>, otherwise the queue it leaves.\<close>

fun scan_parents :: "string \<Rightarrow> string list \<Rightarrow> string list \<Rightarrow> string list \<Rightarrow> string list option" where
  "scan_parents target visited [] queue = Some queue"
| "scan_parents target visited (parent # parents) queue =
     (if parent = target then None
      else scan_parents target visited parents (if parent \<notin> set visited then queue @ [parent] else queue))"

text \<open>One turn of the \<open>while\<close> loop on \<open>(visited, queue)\<close>: the result, or the state of the next turn.\<close>

fun ancestor_step ::
  "frame_map \<Rightarrow> string \<Rightarrow> string list \<times> string list \<Rightarrow> bool + string list \<times> string list" where
  "ancestor_step childToParents target (visited, []) = Inl False"
| "ancestor_step childToParents target (visited, current # queue) =
     (if current \<in> set visited then Inr (visited, queue)
      else
        let visited' = set_add current visited
        in (case map_of childToParents current of
              None \<Rightarrow> Inr (visited', queue)
            | Some parents \<Rightarrow>
                (case scan_parents target visited' parents queue of
                   None \<Rightarrow> Inl True
                 | Some queue' \<Rightarrow> Inr (visited', queue'))))"

partial_function (option) ancestor_loop ::
  "frame_map \<Rightarrow> string \<Rightarrow> string list \<times> string list \<Rightarrow> bool option" where
  "ancestor_loop childToParents target st =
     (case ancestor_step childToParents target st of
        Inl found \<Rightarrow> Some found
      | Inr st' \<Rightarrow> ancestor_loop childToParents target st')"

declare ancestor_loop.simps [code]

definition hasAncestorFrame :: "string \<Rightarrow> string \<Rightarrow> frame_map \<Rightarrow> bool option" where
  "hasAncestorFrame startFrame targetAncestorFrame childToParents =
     (let normalizedStart = normalizeFrameName startFrame;
          normalizedTarget = normalizeFrameName targetAncestorFrame
      in if normalizedStart = [] \<or> normalizedTarget = [] then Some False
         else if normalizedStart = normalizedTarget then Some True
         else ancestor_loop childToParents normalizedTarget ([], [normalizedStart]))"

section \<open>Collecting the tool frames\<close>

record frame_graph =
  fg_parentToChildren :: frame_map
  fg_childToParents :: frame_map
  fg_originalFrameName :: "(string \<times> string) list"

text \<open>\<open>if (!m.has(k)) m.set(k, new Set()); m.get(k)!.add(v)\<close>.\<close>

definition add_edge :: "string \<Rightarrow> string \<Rightarrow> frame_map \<Rightarrow> frame_map" where
  "add_edge k v m =
     (let m1 = (if map_of m k = None then map_set k [] m else m)
      in map_set k (set_add v (the (map_of m1 k))) m1)"

definition add_name :: "string \<Rightarrow> string \<Rightarrow> (string \<times> string) list \<Rightarrow> (string \<times> string) list" where
  "add_name k v m = (if map_of m k = None then map_set k v m else m)"

definition add_transform :: "transform_data \<Rightarrow> frame_graph \<Rightarrow> frame_graph" where
  "add_transform transform g =
     (let parent = normalizeFrameName (tf_frame_id transform);
          child = normalizeFrameName (tf_child_frame_id transform)
      in if parent = [] \<or> child = [] then g
         else \<lparr>fg_parentToChildren = add_edge parent child (fg_parentToChildren g),
               fg_childToParents = add_edge child parent (fg_childToParents g),
               fg_originalFrameName =
                 add_name child (tf_child_frame_id transform)
                   (add_name parent (tf_frame_id transform) (fg_originalFrameName g))\<rparr>)"

definition frame_graph_of :: "transform_data list \<Rightarrow> frame_graph" where
  "frame_graph_of transforms =
     fold add_transform transforms
       \<lparr>fg_parentToChildren = [], fg_childToParents = [], fg_originalFrameName = []\<rparr>"

text \<open>\<open>originalFrameName.get(f) || f\<close>.\<close>

definition original_name :: "(string \<times> string) list \<Rightarrow> string \<Rightarrow> string" where
  "original_name names f = orS (map_of names f) f"

definition visit_children ::
  "(string \<times> string) list \<Rightarrow> string list \<Rightarrow> string list \<Rightarrow> string list \<times> string list \<Rightarrow> string list \<times> string list" where
  "visit_children names visited children =
     fold (\<lambda>child (queue, collected).
        (if child \<notin> set visited then queue @ [child] else queue, set_add (original_name names child) collected))
       children"

fun collect_step ::
  "frame_map \<Rightarrow> (string \<times> string) list \<Rightarrow> string list \<times> string list \<times> string list \<Rightarrow>
     string list + string list \<times> string list \<times> string list" where
  "collect_step parentToChildren names (visited, [], collected) = Inl collected"
| "collect_step parentToChildren names (visited, current # queue, collected) =
     (if current \<in> set visited then Inr (visited, queue, collected)
      else
        let visited' = set_add current visited
        in (case map_of parentToChildren current of
              None \<Rightarrow> Inr (visited', queue, collected)
            | Some children \<Rightarrow> Inr (visited', visit_children names visited' children (queue, collected))))"

partial_function (option) collect_loop ::
  "frame_map \<Rightarrow> (string \<times> string) list \<Rightarrow> string list \<times> string list \<times> string list \<Rightarrow> string list option" where
  "collect_loop parentToChildren names st =
     (case collect_step parentToChildren names st of
        Inl collected \<Rightarrow> Some collected
      | Inr st' \<Rightarrow> collect_loop parentToChildren names st')"

declare collect_loop.simps [code]

text \<open>\<open>xs.filter(p)\<close> where \<open>p\<close> may not return.\<close>

fun filter_opt :: "('a \<Rightarrow> bool option) \<Rightarrow> 'a list \<Rightarrow> 'a list option" where
  "filter_opt p [] = Some []"
| "filter_opt p (x # xs) =
     (case p x of None \<Rightarrow> None | Some b \<Rightarrow>
        map_option (\<lambda>ys. if b then x # ys else ys) (filter_opt p xs))"

definition collectToolFramesFromTransforms ::
  "(string \<Rightarrow> string \<Rightarrow> int) \<Rightarrow> transform_data list option \<Rightarrow> string list option" where
  "collectToolFramesFromTransforms localeCompare robotTransforms =
     (let transforms = coalesce robotTransforms []
      in if length transforms = 0 then Some []
         else
           let g = frame_graph_of transforms;
               names = fg_originalFrameName g;
               tool0Candidates = filter (\<lambda>frame. getFrameBaseName frame = ''tool0'') (map fst names)
           in if length tool0Candidates = 0 then
                Some (if list_ex (\<lambda>frame. let base = getFrameBaseName frame in base = ''base_link'' \<or> base = ''base'')
                           (map fst names)
                      then [''tool0''] else [])
              else
                (case filter_opt (\<lambda>candidate. hasAncestorFrame candidate ''base_link'' (fg_childToParents g)) tool0Candidates of
                   None \<Rightarrow> None
                 | Some roots \<Rightarrow>
                     let effectiveRoots = (if length roots > 0 then roots else tool0Candidates);
                         collected = fold (\<lambda>root. set_add (original_name names root)) effectiveRoots []
                     in map_option (js_sort localeCompare)
                          (collect_loop (fg_parentToChildren g) names ([], effectiveRoots, collected))))"

section \<open>The two loops return\<close>

definition edges :: "frame_map \<Rightarrow> (string \<times> string) set" where
  "edges m = {(a, b). \<exists>bs. map_of m a = Some bs \<and> b \<in> set bs}"

lemma edges_from: "edges m `` {a} = set (coalesce (map_of m a) [])"
  by (cases "map_of m a") (auto simp: edges_def)

text \<open>
  Induction along a queue loop that marks frames as visited: each turn drops a visited frame, or marks one
  without neighbours, or marks one of the map's keys, after which the queue is arbitrary.
\<close>

lemma worklist_induct [case_names empty seen leaf expand]:
  fixes m :: "('a \<times> 'b) list"
  assumes empty: "\<And>visited. P visited []"
    and seen: "\<And>visited c q. c \<in> set visited \<Longrightarrow> P visited q \<Longrightarrow> P visited (c # q)"
    and leaf: "\<And>visited c q. c \<notin> set visited \<Longrightarrow> map_of m c = None \<Longrightarrow> P (visited @ [c]) q \<Longrightarrow> P visited (c # q)"
    and expand: "\<And>visited c q ns. c \<notin> set visited \<Longrightarrow> map_of m c = Some ns \<Longrightarrow>
      (\<And>q'. P (visited @ [c]) q') \<Longrightarrow> P visited (c # q)"
  shows "P visited queue"
proof -
  define todo where "todo visited = card (fst ` set m - set visited)" for visited
  have fewer: "todo (visited @ [c]) < todo visited" if "c \<notin> set visited" "map_of m c = Some ns" for visited c ns
  proof -
    have "c \<in> fst ` set m" using map_of_SomeD[OF that(2)] by (rule rev_image_eqI) simp
    then show ?thesis unfolding todo_def using that(1) by (intro psubset_card_mono) auto
  qed
  have same: "todo (visited @ [c]) = todo visited" if "map_of m c = None" for visited c
    using that unfolding todo_def by (auto intro!: arg_cong[where f = card] simp: map_of_eq_None_iff)
  show ?thesis
  proof (induction "(todo visited, length queue)" arbitrary: visited queue
      rule: wf_induct_rule[OF wf_lex_prod[OF wf_less wf_less]])
    case less: (1 visited queue)
    show ?case
    proof (cases queue)
      case (Cons c q)
      consider "c \<in> set visited" | "c \<notin> set visited" "map_of m c = None"
        | ns where "c \<notin> set visited" "map_of m c = Some ns" by blast
      then show ?thesis
      proof cases
        case 1
        then show ?thesis using less Cons by (auto intro: seen)
      next
        case 2
        then show ?thesis using less Cons by (auto intro: leaf simp: same)
      next
        case 3
        then show ?thesis using less Cons fewer by (auto intro!: expand)
      qed
    qed (simp add: empty)
  qed
qed

text \<open>Whatever can be reached from the visited frames is a neighbour of one or is reached from the queue.\<close>

lemma reach_exit:
  assumes "E `` V \<subseteq> V \<union> Q"
  shows "E\<^sup>+ `` V \<subseteq> E `` V \<union> E\<^sup>+ `` Q"
proof
  fix t
  assume "t \<in> E\<^sup>+ `` V"
  then obtain v where "v \<in> V" "(v, t) \<in> E\<^sup>+" by blast
  from this(2, 1) show "t \<in> E `` V \<union> E\<^sup>+ `` Q"
  proof (induction rule: converse_trancl_induct)
    case (step v z)
    then show ?case using assms by blast
  qed blast
qed

lemma trancl_Image_insert: "E\<^sup>+ `` insert c Q = E `` {c} \<union> E\<^sup>+ `` (E `` {c}) \<union> E\<^sup>+ `` Q"
proof -
  have "(c, y) \<in> E\<^sup>+ \<longleftrightarrow> (\<exists>z. (c, z) \<in> E \<and> (z = y \<or> (z, y) \<in> E\<^sup>+))" for y
    by (meson rtranclD tranclD trancl_into_trancl2 r_into_trancl')
  then show ?thesis by blast
qed

lemma scan_parents_eq:
  "scan_parents t visited ps q = (if t \<in> set ps then None else Some (q @ filter (\<lambda>p. p \<notin> set visited) ps))"
  by (induction ps arbitrary: q) auto

lemma edges_Image_insert:
  "edges m `` insert c V = edges m `` V \<union> set (coalesce (map_of m c) [])"
  using edges_from[of m c] by auto

lemma ancestor_loop_correct:
  assumes "edges m `` set visited \<subseteq> set visited \<union> set queue" "t \<notin> edges m `` set visited"
  shows "ancestor_loop m t (visited, queue) = Some (t \<in> (edges m)\<^sup>+ `` set queue)"
  using assms
proof (induction visited queue rule: worklist_induct[where m = m])
  case (empty visited)
  then show ?case by (subst ancestor_loop.simps) simp
next
  case (seen visited c q)
  then have "edges m `` set visited \<subseteq> set visited \<union> set q" by auto
  then have "(t \<in> (edges m)\<^sup>+ `` set (c # q)) = (t \<in> (edges m)\<^sup>+ `` set q)"
    using reach_exit[of "edges m" "set visited" "set q"] seen by auto
  with seen show ?case by (subst ancestor_loop.simps) auto
next
  case (leaf visited c q)
  then have "edges m `` {c} = {}" by (simp add: edges_from)
  then have "(edges m)\<^sup>+ `` set (c # q) = (edges m)\<^sup>+ `` set q" by (simp add: trancl_Image_insert)
  moreover have "ancestor_loop m t (visited @ [c], q) = Some (t \<in> (edges m)\<^sup>+ `` set q)"
    using leaf by (auto simp: edges_Image_insert)
  ultimately show ?case using leaf by (subst ancestor_loop.simps) (simp add: set_add_def)
next
  case (expand visited c q ns)
  let ?V = "visited @ [c]"
  define q' where "q' = q @ filter (\<lambda>p. p \<notin> set ?V) ns"
  have c: "edges m `` {c} = set ns" using expand by (simp add: edges_from)
  have closed: "edges m `` set ?V \<subseteq> set ?V \<union> set q'"
    using expand by (auto simp: edges_Image_insert q'_def)
  show ?case
  proof (cases "t \<in> set ns")
    case True
    then have "t \<in> (edges m)\<^sup>+ `` set (c # q)" using c by auto
    with True expand show ?thesis by (subst ancestor_loop.simps) (simp add: set_add_def scan_parents_eq)
  next
    case False
    then have out: "t \<notin> edges m `` set ?V" using expand by (simp add: edges_Image_insert)
    have "(t \<in> (edges m)\<^sup>+ `` set (c # q)) = (t \<in> (edges m)\<^sup>+ `` set q')"
    proof
      assume "t \<in> (edges m)\<^sup>+ `` set (c # q)"
      then have "t \<in> (edges m)\<^sup>+ `` set ?V \<union> (edges m)\<^sup>+ `` set q'" by (auto simp: q'_def)
      then show "t \<in> (edges m)\<^sup>+ `` set q'" using reach_exit[OF closed] out by auto
    next
      assume "t \<in> (edges m)\<^sup>+ `` set q'"
      then show "t \<in> (edges m)\<^sup>+ `` set (c # q)" using c by (auto simp: q'_def trancl_Image_insert)
    qed
    moreover have "ancestor_loop m t (?V, q') = Some (t \<in> (edges m)\<^sup>+ `` set q')"
      using expand.IH[OF closed out] .
    ultimately show ?thesis using expand False
      by (subst ancestor_loop.simps) (simp add: set_add_def scan_parents_eq q'_def)
  qed
qed

lemma set_fold_set_add [simp]: "set (fold (\<lambda>x. set_add (f x)) xs acc) = set acc \<union> f ` set xs"
  by (induction xs arbitrary: acc) auto

lemma distinct_fold_set_add [simp]: "distinct acc \<Longrightarrow> distinct (fold (\<lambda>x. set_add (f x)) xs acc)"
  by (induction xs arbitrary: acc) auto

lemma visit_children_eq:
  "visit_children names visited children (queue, collected) =
     (queue @ filter (\<lambda>c. c \<notin> set visited) children,
      fold (\<lambda>c. set_add (original_name names c)) children collected)"
  unfolding visit_children_def by (induction children arbitrary: queue collected) auto

lemma image_split: "R \<subseteq> V \<union> Q \<Longrightarrow> N \<union> Q \<subseteq> R \<Longrightarrow> f ` V \<subseteq> C \<union> f ` N \<Longrightarrow> C \<union> f ` R = C \<union> f ` N \<union> f ` Q"
  by blast

definition collected_spec :: "frame_map \<Rightarrow> (string \<times> string) list \<Rightarrow> string list \<Rightarrow> string list \<Rightarrow> string list \<Rightarrow> bool" where
  "collected_spec m names queue collected fs =
     (set fs = set collected \<union> original_name names ` ((edges m)\<^sup>+ `` set queue) \<and> distinct fs)"

lemma collect_loop_correct:
  assumes "edges m `` set visited \<subseteq> set visited \<union> set queue"
    "original_name names ` (edges m `` set visited) \<subseteq> set collected" "distinct collected"
  shows "\<exists>fs. collect_loop m names (visited, queue, collected) = Some fs \<and> collected_spec m names queue collected fs"
  using assms
proof (induction visited queue arbitrary: collected rule: worklist_induct[where m = m])
  case (empty visited)
  then show ?case by (subst collect_loop.simps) (simp add: collected_spec_def)
next
  case (seen visited c q)
  then have closed: "edges m `` set visited \<subseteq> set visited \<union> set q" by auto
  have "(edges m)\<^sup>+ `` set (c # q) \<subseteq> edges m `` set visited \<union> (edges m)\<^sup>+ `` set q"
    using reach_exit[OF closed] seen(1) by auto
  moreover have "{} \<union> (edges m)\<^sup>+ `` set q \<subseteq> (edges m)\<^sup>+ `` set (c # q)" by auto
  moreover have "original_name names ` edges m `` set visited \<subseteq> set collected \<union> original_name names ` {}"
    using seen.prems(2) by simp
  ultimately have "collected_spec m names q collected fs \<Longrightarrow> collected_spec m names (c # q) collected fs" for fs
    unfolding collected_spec_def by (simp only: image_split) simp
  with seen.IH[OF closed seen.prems(2,3)] seen(1) show ?case by (subst collect_loop.simps) auto
next
  case (leaf visited c q)
  then have "edges m `` {c} = {}" by (simp add: edges_from)
  then have "(edges m)\<^sup>+ `` set (c # q) = (edges m)\<^sup>+ `` set q" by (simp add: trancl_Image_insert)
  moreover have "\<exists>fs. collect_loop m names (visited @ [c], q, collected) = Some fs \<and> collected_spec m names q collected fs"
    using leaf by (intro leaf.IH) (auto simp: edges_Image_insert)
  ultimately show ?case using leaf by (subst collect_loop.simps) (simp add: set_add_def collected_spec_def)
next
  case (expand visited c q ns)
  let ?V = "visited @ [c]" and ?col = "fold (\<lambda>x. set_add (original_name names x)) ns collected"
  define q' where "q' = q @ filter (\<lambda>p. p \<notin> set ?V) ns"
  have c: "edges m `` {c} = set ns" using expand by (simp add: edges_from)
  have closed: "edges m `` set ?V \<subseteq> set ?V \<union> set q'"
    using expand by (auto simp: edges_Image_insert q'_def)
  have named: "original_name names ` (edges m `` set ?V) \<subseteq> set ?col"
    using expand(2) expand.prems(2) by (simp add: edges_Image_insert image_Un) blast
  have "(edges m)\<^sup>+ `` set (c # q) \<subseteq> edges m `` set ?V \<union> (edges m)\<^sup>+ `` set q'"
    using reach_exit[OF closed] by (auto simp: q'_def)
  moreover have "set ns \<union> (edges m)\<^sup>+ `` set q' \<subseteq> (edges m)\<^sup>+ `` set (c # q)"
    using c by (auto simp: q'_def trancl_Image_insert)
  ultimately have "collected_spec m names q' ?col fs \<Longrightarrow> collected_spec m names (c # q) collected fs" for fs
    using named unfolding collected_spec_def set_fold_set_add by (simp only: image_split)
  moreover have "\<exists>fs. collect_loop m names (?V, q', ?col) = Some fs \<and> collected_spec m names q' ?col fs"
    using expand.prems(3) by (intro expand.IH closed named) simp
  ultimately show ?case using expand(1,2)
    by (subst collect_loop.simps) (auto simp: set_add_def visit_children_eq q'_def)
qed

section \<open>The frames collected\<close>

text \<open>
  What the editor is meant to offer, as a property of the transforms alone: the frame graph is the relation
  of normalized names, every frame is shown under the name it was first sent with.
\<close>

definition tf_valid :: "transform_data \<Rightarrow> bool" where
  "tf_valid t = (normalizeFrameName (tf_frame_id t) \<noteq> [] \<and> normalizeFrameName (tf_child_frame_id t) \<noteq> [])"

definition tf_edges :: "transform_data list \<Rightarrow> (string \<times> string) set" where
  "tf_edges ts =
     (\<lambda>t. (normalizeFrameName (tf_frame_id t), normalizeFrameName (tf_child_frame_id t))) ` {t \<in> set ts. tf_valid t}"

definition mentions :: "transform_data list \<Rightarrow> string list" where
  "mentions ts = concat (map (\<lambda>t. if tf_valid t then [tf_frame_id t, tf_child_frame_id t] else []) ts)"

definition display_name :: "transform_data list \<Rightarrow> string \<Rightarrow> string" where
  "display_name ts f = orS (find (\<lambda>x. normalizeFrameName x = f) (mentions ts)) f"

definition tool0_frames :: "transform_data list \<Rightarrow> string set" where
  "tool0_frames ts = {f \<in> Field (tf_edges ts). getFrameBaseName f = ''tool0''}"

definition tool_roots :: "transform_data list \<Rightarrow> string set" where
  "tool_roots ts =
     (let below = {f \<in> tool0_frames ts. (''base_link'', normalizeFrameName f) \<in> (tf_edges ts)\<^sup>*}
      in if below = {} then tool0_frames ts else below)"

definition selectable_frames :: "transform_data list \<Rightarrow> string set" where
  "selectable_frames ts =
     (if tool0_frames ts = {} then
        (if \<exists>f \<in> Field (tf_edges ts). getFrameBaseName f \<in> {''base_link'', ''base''} then {''tool0''} else {})
      else display_name ts ` ((tf_edges ts)\<^sup>* `` tool_roots ts))"

lemma edges_Nil [simp]: "edges [] = {}"
  by (simp add: edges_def)

lemma edges_map_set: "edges (map_set k vs m) = {k} \<times> set vs \<union> (edges m - {k} \<times> UNIV)"
  by (auto simp: edges_def update_conv split: if_splits)

lemma edges_add_edge: "edges (add_edge k v m) = insert (k, v) (edges m)"
proof -
  have "edges m \<inter> {k} \<times> UNIV = {k} \<times> set (coalesce (map_of m k) [])"
    using edges_from[of m k] by auto
  then show ?thesis
    by (cases "map_of m k") (auto simp: add_edge_def edges_map_set update_conv)
qed

lemma map_of_add_name:
  "map_of (add_name k v m) x = (case map_of m x of None \<Rightarrow> if x = k then Some v else None | Some y \<Rightarrow> Some y)"
  by (auto simp: add_name_def update_conv split: option.splits)

lemma tf_edges_snoc:
  "tf_edges (ts @ [t]) =
     tf_edges ts \<union> (if tf_valid t then {(normalizeFrameName (tf_frame_id t), normalizeFrameName (tf_child_frame_id t))} else {})"
  by (auto simp: tf_edges_def)

lemma mentions_snoc:
  "mentions (ts @ [t]) = mentions ts @ (if tf_valid t then [tf_frame_id t, tf_child_frame_id t] else [])"
  by (simp add: mentions_def)

lemma frame_graph_of_snoc: "frame_graph_of (ts @ [t]) = add_transform t (frame_graph_of ts)"
  by (simp add: frame_graph_of_def)

lemma add_transform_invalid: "\<not> tf_valid t \<Longrightarrow> add_transform t g = g"
  by (auto simp: add_transform_def tf_valid_def)

lemma add_transform_valid:
  "tf_valid t \<Longrightarrow> add_transform t g =
     (let parent = normalizeFrameName (tf_frame_id t); child = normalizeFrameName (tf_child_frame_id t)
      in \<lparr>fg_parentToChildren = add_edge parent child (fg_parentToChildren g),
          fg_childToParents = add_edge child parent (fg_childToParents g),
          fg_originalFrameName =
            add_name child (tf_child_frame_id t) (add_name parent (tf_frame_id t) (fg_originalFrameName g))\<rparr>)"
  by (simp add: add_transform_def tf_valid_def Let_def)

lemma frame_graph_edges:
  "edges (fg_parentToChildren (frame_graph_of ts)) = tf_edges ts"
  "edges (fg_childToParents (frame_graph_of ts)) = (tf_edges ts)\<inverse>"
proof (induction ts rule: rev_induct)
  case Nil
  { case 1 show ?case by (simp add: frame_graph_of_def tf_edges_def)
  next case 2 show ?case by (simp add: frame_graph_of_def tf_edges_def) }
next
  case (snoc t ts)
  { case 1 show ?case using snoc
      by (cases "tf_valid t")
        (simp_all add: frame_graph_of_snoc add_transform_invalid add_transform_valid Let_def edges_add_edge tf_edges_snoc)
  next case 2 show ?case using snoc
      by (cases "tf_valid t")
        (auto simp: frame_graph_of_snoc add_transform_invalid add_transform_valid Let_def edges_add_edge tf_edges_snoc) }
qed

lemma frame_graph_names:
  "map_of (fg_originalFrameName (frame_graph_of ts)) f = find (\<lambda>x. normalizeFrameName x = f) (mentions ts)"
proof (induction ts rule: rev_induct)
  case (snoc t ts)
  then show ?case
    by (cases "tf_valid t")
      (auto simp: frame_graph_of_snoc add_transform_invalid add_transform_valid Let_def map_of_add_name mentions_snoc
        find_append split: option.splits)
qed (simp add: frame_graph_of_def mentions_def)

lemma Field_tf_edges: "Field (tf_edges ts) = normalizeFrameName ` set (mentions ts)"
  by (auto simp: Field_def tf_edges_def mentions_def split: if_splits)

lemma frame_graph_frames: "fst ` set (fg_originalFrameName (frame_graph_of ts)) = Field (tf_edges ts)"
proof -
  have "f \<in> fst ` set (fg_originalFrameName (frame_graph_of ts)) \<longleftrightarrow> f \<in> Field (tf_edges ts)" for f
    using map_of_eq_None_iff[of "fg_originalFrameName (frame_graph_of ts)" f]
    by (auto simp: frame_graph_names find_None_iff Field_tf_edges)
  then show ?thesis by blast
qed

lemma filter_opt_total: "(\<And>x. p x = Some (q x)) \<Longrightarrow> filter_opt p xs = Some (filter q xs)"
  by (induction xs) auto

lemma hasAncestorFrame_correct:
  "hasAncestorFrame f t m =
     Some (normalizeFrameName f \<noteq> [] \<and> normalizeFrameName t \<noteq> [] \<and>
       (normalizeFrameName f, normalizeFrameName t) \<in> (edges m)\<^sup>*)"
  using ancestor_loop_correct[of m "[]" "[normalizeFrameName f]" "normalizeFrameName t"]
  by (auto simp: hasAncestorFrame_def Let_def rtrancl_eq_or_trancl)

lemma normalize_base_link: "normalizeFrameName ''base_link'' = ''base_link''"
  by code_simp

lemma tool0_normalized_nonempty: "getFrameBaseName f = ''tool0'' \<Longrightarrow> normalizeFrameName f \<noteq> []"
proof
  have "js_split ''/'' [] = [[]]" by code_simp
  then show "getFrameBaseName f = ''tool0'' \<Longrightarrow> normalizeFrameName f = [] \<Longrightarrow> False"
    by (simp add: getFrameBaseName_def Let_def toLowerCase_def)
qed

lemma ancestor_check:
  "hasAncestorFrame f ''base_link'' (fg_childToParents (frame_graph_of ts)) =
     Some (normalizeFrameName f \<noteq> [] \<and> (''base_link'', normalizeFrameName f) \<in> (tf_edges ts)\<^sup>*)"
  by (simp add: hasAncestorFrame_correct normalize_base_link frame_graph_edges rtrancl_converse)

lemma original_name_display: "original_name (fg_originalFrameName (frame_graph_of ts)) = display_name ts"
  by (simp add: fun_eq_iff original_name_def display_name_def frame_graph_names)

lemma collect_from_roots:
  "\<exists>fs. collect_loop (fg_parentToChildren (frame_graph_of ts)) (fg_originalFrameName (frame_graph_of ts))
          ([], roots, fold (\<lambda>root. set_add (display_name ts root)) roots []) = Some fs \<and>
        set fs = display_name ts ` ((tf_edges ts)\<^sup>* `` set roots) \<and> distinct fs"
proof -
  have "(tf_edges ts)\<^sup>* `` set roots = set roots \<union> (tf_edges ts)\<^sup>+ `` set roots"
    by (auto simp: rtrancl_eq_or_trancl)
  then show ?thesis
    using collect_loop_correct[of "fg_parentToChildren (frame_graph_of ts)" "[]" roots
        "fg_originalFrameName (frame_graph_of ts)" "fold (\<lambda>root. set_add (display_name ts root)) roots []"]
    by (auto simp: collected_spec_def frame_graph_edges original_name_display image_Un)
qed

text \<open>C19. 
  C0. The list of tool frames is computed for any telemetry, whatever the frame graph the robot sends,
  cycles included: both queue loops return. The list holds, without duplicates and in the order of
  \<open>localeCompare\<close>, the frames reachable from the \<open>tool0\<close> frames below \<open>base_link\<close> (from all \<open>tool0\<close>
  frames when none is below it), each under the name it was first sent with, and the plain \<open>tool0\<close> when
  the robot has a base frame but no \<open>tool0\<close>.
\<close>

theorem tool_frames_collected:
  "\<exists>fs. collectToolFramesFromTransforms lc ts = Some fs \<and>
     set fs = selectable_frames (coalesce ts []) \<and> distinct fs \<and>
     (sort_order lc \<longrightarrow> sorted_wrt (\<lambda>a b. lc a b \<le> 0) fs)"
proof -
  define tr where "tr = coalesce ts []"
  define names where "names = fg_originalFrameName (frame_graph_of tr)"
  define cands where "cands = filter (\<lambda>frame. getFrameBaseName frame = ''tool0'') (map fst names)"
  define below where
    "below = filter (\<lambda>f. normalizeFrameName f \<noteq> [] \<and> (''base_link'', normalizeFrameName f) \<in> (tf_edges tr)\<^sup>*) cands"
  define roots where "roots = (if length below > 0 then below else cands)"
  have frames: "set (map fst names) = Field (tf_edges tr)"
    by (simp add: names_def frame_graph_frames)
  have cands: "set cands = tool0_frames tr"
    using frames by (auto simp: cands_def tool0_frames_def)
  then have "set below = {f \<in> tool0_frames tr. (''base_link'', normalizeFrameName f) \<in> (tf_edges tr)\<^sup>*}"
    using tool0_normalized_nonempty by (auto simp: below_def tool0_frames_def)
  then have roots: "set roots = tool_roots tr"
    using cands by (auto simp: roots_def tool_roots_def Let_def simp flip: set_empty)
  have sorted: "sort_order lc \<longrightarrow> sorted_wrt (\<lambda>a b. lc a b \<le> 0) (js_sort lc xs)" for xs
    using sort_order.sorted_js_sort by blast
  show ?thesis
  proof (cases "cands = []")
    case True
    have "tr = [] \<Longrightarrow> Field (tf_edges tr) = {}" by (simp add: tf_edges_def)
    then have "collectToolFramesFromTransforms lc ts =
        Some (if \<exists>f \<in> Field (tf_edges tr). getFrameBaseName f \<in> {''base_link'', ''base''} then [''tool0''] else [])"
      using True unfolding collectToolFramesFromTransforms_def frames[symmetric]
      by (auto simp: tr_def[symmetric] names_def[symmetric] cands_def[symmetric] list_ex_iff Let_def)
    then show ?thesis using True cands by (auto simp: selectable_frames_def tr_def)
  next
    case False
    then have "tr \<noteq> []" by (auto simp: cands_def names_def frame_graph_of_def)
    obtain fs where fs: "collect_loop (fg_parentToChildren (frame_graph_of tr)) names
          ([], roots, fold (\<lambda>root. set_add (display_name tr root)) roots []) = Some fs"
        "set fs = display_name tr ` ((tf_edges tr)\<^sup>* `` tool_roots tr)" "distinct fs"
      using collect_from_roots[of tr roots] unfolding roots names_def by blast
    have "collectToolFramesFromTransforms lc ts = Some (js_sort lc fs)"
      using False \<open>tr \<noteq> []\<close> fs(1) unfolding collectToolFramesFromTransforms_def
      by (simp add: tr_def[symmetric] names_def[symmetric] cands_def[symmetric] Let_def
          filter_opt_total[OF ancestor_check] below_def[symmetric] roots_def
          original_name_display[of tr, folded names_def] split: if_splits)
    moreover have "distinct (js_sort lc fs)"
      using fs(3) by (metis mset_eq_imp_distinct_iff mset_js_sort)
    ultimately show ?thesis
      using False cands fs(2) sorted by (auto simp: selectable_frames_def tr_def)
  qed
qed

definition cyclic_transforms :: "transform_data list" where
  "cyclic_transforms =
     map (\<lambda>(p, c). \<lparr>tf_frame_id = p, tf_child_frame_id = c,
            tf_translation = \<lparr>v3_x = 0, v3_y = 0, v3_z = 0\<rparr>,
            tf_rotation = \<lparr>qt_x = 0, qt_y = 0, qt_z = 0, qt_w = 1\<rparr>, tf_timestamp_ns = None\<rparr>)
       [(''base_link'', ''/arm''), (''arm'', ''Tool0''), (''Tool0'', ''/gripper''), (''gripper'', ''Tool0''),
        (''other'', ''x/tool0'')]"

theorem tool_frames_collected_witness:
  "\<exists>fs. collectToolFramesFromTransforms code_unit_cmp (Some cyclic_transforms) = Some fs \<and>
     fs = [''/gripper'', ''Tool0''] \<and> sorted_wrt (\<lambda>a b. code_unit_cmp a b \<le> 0) fs"
proof -
  have "collectToolFramesFromTransforms code_unit_cmp (Some cyclic_transforms) = Some [''/gripper'', ''Tool0'']"
    by code_simp
  then show ?thesis
    using tool_frames_collected[of code_unit_cmp "Some cyclic_transforms"] code_units.sort_order_axioms by simp
qed

end
