(* ===== verification/Pose_Math.thy ===== *)
theory Pose_Math
  imports Tool_Frames
begin

text \<open>
  The rigid-body arithmetic of the pose editor (\<^verbatim>\<open>parameter-editors/PoseEditor.tsx\<close>,
  \<^verbatim>\<open>parameter-editors/types.ts\<close>): Euler angles and quaternions, composition and inversion of transforms, and
  the breadth-first search that chains the transforms of the telemetry from one frame to another. Numbers
  are exact reals (the code computes in double precision), \<open>Math.atan2(y, x)\<close> is the argument of the
  complex number \<open>x + iy\<close>.
\<close>

section \<open>Euler angles\<close>

record euler =
  eu_roll :: real
  eu_pitch :: real
  eu_yaw :: real

definition atan2 :: "real \<Rightarrow> real \<Rightarrow> real" where
  "atan2 y x = Arg (Complex x y)"

definition quaternionToEuler :: "quaternion \<Rightarrow> euler" where
  "quaternionToEuler q =
     (let sinr_cosp = 2 * (qt_w q * qt_x q + qt_y q * qt_z q);
          cosr_cosp = 1 - 2 * (qt_x q * qt_x q + qt_y q * qt_y q);
          roll = atan2 sinr_cosp cosr_cosp;
          sinp = 2 * (qt_w q * qt_y q - qt_z q * qt_x q);
          pitch = (if \<bar>sinp\<bar> \<ge> 1 then sgn sinp * pi / 2 else arcsin sinp);
          siny_cosp = 2 * (qt_w q * qt_z q + qt_x q * qt_y q);
          cosy_cosp = 1 - 2 * (qt_y q * qt_y q + qt_z q * qt_z q);
          yaw = atan2 siny_cosp cosy_cosp
      in \<lparr>eu_roll = roll * 180 / pi, eu_pitch = pitch * 180 / pi, eu_yaw = yaw * 180 / pi\<rparr>)"

definition eulerToQuaternion :: "euler \<Rightarrow> quaternion" where
  "eulerToQuaternion e =
     (let rollRad = eu_roll e * pi / 180;
          pitchRad = eu_pitch e * pi / 180;
          yawRad = eu_yaw e * pi / 180;
          cy = cos (yawRad * (1/2)); sy = sin (yawRad * (1/2));
          cp = cos (pitchRad * (1/2)); sp = sin (pitchRad * (1/2));
          cr = cos (rollRad * (1/2)); sr = sin (rollRad * (1/2))
      in \<lparr>qt_x = sr * cp * cy - cr * sp * sy,
          qt_y = cr * sp * cy + sr * cp * sy,
          qt_z = cr * cp * sy - sr * sp * cy,
          qt_w = cr * cp * cy + sr * sp * sy\<rparr>)"

definition qnorm2 :: "quaternion \<Rightarrow> real" where
  "qnorm2 q = qt_x q * qt_x q + qt_y q * qt_y q + qt_z q * qt_z q + qt_w q * qt_w q"

lemma atan2_polar: "0 < k \<Longrightarrow> - pi < a \<Longrightarrow> a \<le> pi \<Longrightarrow> atan2 (k * sin a) (k * cos a) = a"
proof -
  assume k: "0 < k" and a: "- pi < a" "a \<le> pi"
  have z: "Complex (k * cos a) (k * sin a) = complex_of_real k * cis a"
    by (simp add: complex_eq_iff)
  have "sgn (Complex (k * cos a) (k * sin a)) = cis a"
    unfolding z using k by (simp add: sgn_mult sgn_of_real sgn_cis)
  then show ?thesis unfolding atan2_def by (rule cis_Arg_unique) (use a in simp_all)
qed

lemma atan2_bounded: "- pi < atan2 y x" "atan2 y x \<le> pi"
  using Arg_bounded by (simp_all add: atan2_def)

lemma half_angle: "sin (a :: real) = 2 * sin (a * (1/2)) * cos (a * (1/2))"
    "cos (a :: real) = cos (a * (1/2)) * cos (a * (1/2)) - sin (a * (1/2)) * sin (a * (1/2))"
  using sin_double[of "a * (1/2)"] cos_double[of "a * (1/2)"] by (simp_all add: power2_eq_square)

text \<open>The terms \<open>quaternionToEuler\<close> reads off a quaternion built from angles.\<close>

lemma euler_terms:
  fixes r p y :: real
  defines "q \<equiv> eulerToQuaternion \<lparr>eu_roll = r * 180 / pi, eu_pitch = p * 180 / pi, eu_yaw = y * 180 / pi\<rparr>"
  shows "2 * (qt_w q * qt_x q + qt_y q * qt_z q) = cos p * sin r"
    "1 - 2 * (qt_x q * qt_x q + qt_y q * qt_y q) = cos p * cos r"
    "2 * (qt_w q * qt_y q - qt_z q * qt_x q) = sin p"
    "2 * (qt_w q * qt_z q + qt_x q * qt_y q) = cos p * sin y"
    "1 - 2 * (qt_y q * qt_y q + qt_z q * qt_z q) = cos p * cos y"
    "qnorm2 q = 1"
proof -
  define cr sr cp sp cy sy where
    d: "cr = cos (r * (1/2))" "sr = sin (r * (1/2))" "cp = cos (p * (1/2))" "sp = sin (p * (1/2))"
      "cy = cos (y * (1/2))" "sy = sin (y * (1/2))"
  have one: "sr * sr = 1 - cr * cr" "sp * sp = 1 - cp * cp" "sy * sy = 1 - cy * cy"
    using sin_cos_squared_add[of "r * (1/2)"] sin_cos_squared_add[of "p * (1/2)"] sin_cos_squared_add[of "y * (1/2)"]
    by (simp_all add: d power2_eq_square)
  have q: "qt_x q = sr * cp * cy - cr * sp * sy" "qt_y q = cr * sp * cy + sr * cp * sy"
    "qt_z q = cr * cp * sy - sr * sp * cy" "qt_w q = cr * cp * cy + sr * sp * sy"
    by (simp_all add: q_def eulerToQuaternion_def Let_def d)
  have a: "sin r = 2 * sr * cr" "cos r = cr * cr - sr * sr" "sin p = 2 * sp * cp" "cos p = cp * cp - sp * sp"
    "sin y = 2 * sy * cy" "cos y = cy * cy - sy * sy"
    using half_angle[of r] half_angle[of p] half_angle[of y] by (simp_all add: d)
  show "2 * (qt_w q * qt_x q + qt_y q * qt_z q) = cos p * sin r"
    "1 - 2 * (qt_x q * qt_x q + qt_y q * qt_y q) = cos p * cos r"
    "2 * (qt_w q * qt_y q - qt_z q * qt_x q) = sin p"
    "2 * (qt_w q * qt_z q + qt_x q * qt_y q) = cos p * sin y"
    "1 - 2 * (qt_y q * qt_y q + qt_z q * qt_z q) = cos p * cos y"
    "qnorm2 q = 1"
    unfolding q a qnorm2_def using one by algebra+
qed

lemma degrees_mono: "a < b \<Longrightarrow> a * pi / 180 < b * pi / 180" "a \<le> b \<Longrightarrow> a * pi / 180 \<le> b * pi / 180"
  by (simp_all add: divide_right_mono mult_right_mono)

lemma arcsin_pitch: "\<bar>p\<bar> < pi / 2 \<Longrightarrow> \<bar>sin p\<bar> < 1 \<and> arcsin (sin p) = p"
proof -
  assume p: "\<bar>p\<bar> < pi / 2"
  then have "0 < cos p" by (intro cos_gt_zero_pi) auto
  then have "0 < (cos p)\<^sup>2" by simp
  then have "(sin p)\<^sup>2 < 1" using sin_squared_eq[of p] by linarith
  then have "\<bar>sin p\<bar> < 1" by (simp add: abs_square_less_1)
  with p show ?thesis by (auto intro: arcsin_sin)
qed

text \<open>
  Angles survive the conversion to a quaternion and back: the quaternion has unit norm, and reading it
  returns the same roll, pitch and yaw whenever the pitch is strictly between -90 and 90 degrees and roll
  and yaw lie in (-180, 180].
\<close>

lemma euler_roundtrip:
  assumes "\<bar>eu_pitch e\<bar> < 90" "- 180 < eu_roll e" "eu_roll e \<le> 180" "- 180 < eu_yaw e" "eu_yaw e \<le> 180"
  shows "quaternionToEuler (eulerToQuaternion e) = e \<and> qnorm2 (eulerToQuaternion e) = 1"
proof -
  define r p y where "r = eu_roll e * pi / 180" and "p = eu_pitch e * pi / 180" and "y = eu_yaw e * pi / 180"
  have e: "\<lparr>eu_roll = r * 180 / pi, eu_pitch = p * 180 / pi, eu_yaw = y * 180 / pi\<rparr> = e"
    by (simp add: r_def p_def y_def)
  have "\<bar>p\<bar> < pi / 2" using assms(1) pi_gt_zero by (simp add: p_def abs_mult field_simps)
  then have "0 < cos p" by (intro cos_gt_zero_pi) auto
  have "- pi < r" "r \<le> pi" "- pi < y" "y \<le> pi"
    using degrees_mono[of "- 180" "eu_roll e"] degrees_mono[of "eu_roll e" 180]
      degrees_mono[of "- 180" "eu_yaw e"] degrees_mono[of "eu_yaw e" 180] assms(2-5) by (simp_all add: r_def y_def)
  note polar = atan2_polar[OF \<open>0 < cos p\<close> this(1,2)] atan2_polar[OF \<open>0 < cos p\<close> this(3,4)]
  note terms = euler_terms[of r p y, unfolded e]
  have "quaternionToEuler (eulerToQuaternion e) =
      \<lparr>eu_roll = r * 180 / pi, eu_pitch = p * 180 / pi, eu_yaw = y * 180 / pi\<rparr>"
    unfolding quaternionToEuler_def Let_def terms polar using arcsin_pitch[OF \<open>\<bar>p\<bar> < pi / 2\<close>] by simp
  then show ?thesis using e terms(6) by simp
qed

text \<open>Whatever the four numbers are, the angles shown stay in their ranges.\<close>

lemma euler_ranges:
  "- 180 < eu_roll (quaternionToEuler q)" "eu_roll (quaternionToEuler q) \<le> 180"
  "\<bar>eu_pitch (quaternionToEuler q)\<bar> \<le> 90"
  "- 180 < eu_yaw (quaternionToEuler q)" "eu_yaw (quaternionToEuler q) \<le> 180"
proof -
  define s where "s = 2 * (qt_w q * qt_y q - qt_z q * qt_x q)"
  define P where "P = (if \<bar>s\<bar> \<ge> 1 then sgn s * pi / 2 else arcsin s)"
  have "\<bar>P\<bar> \<le> pi / 2" using arcsin_bounded[of s] by (auto simp: P_def abs_mult sgn_if)
  moreover have "eu_pitch (quaternionToEuler q) = P * 180 / pi"
    by (simp add: quaternionToEuler_def Let_def s_def P_def)
  ultimately show "\<bar>eu_pitch (quaternionToEuler q)\<bar> \<le> 90"
    by (simp add: abs_mult pos_divide_le_eq)
  show "- 180 < eu_roll (quaternionToEuler q)" "eu_roll (quaternionToEuler q) \<le> 180"
    "- 180 < eu_yaw (quaternionToEuler q)" "eu_yaw (quaternionToEuler q) \<le> 180"
    using atan2_bounded pi_gt_zero by (simp_all add: quaternionToEuler_def Let_def field_simps)
qed

text \<open>
  With the pitch at 90 degrees the conversion forgets the other two angles: the next edit of any angle
  starts from roll 0 and yaw 0.
\<close>

lemma gimbal_lock_forgets:
  "quaternionToEuler (eulerToQuaternion \<lparr>eu_roll = r, eu_pitch = 90, eu_yaw = y\<rparr>) =
     \<lparr>eu_roll = 0, eu_pitch = 90, eu_yaw = 0\<rparr>"
proof -
  note terms = euler_terms[of "r * pi / 180" "pi / 2" "y * pi / 180"]
  have e: "\<lparr>eu_roll = r * pi / 180 * 180 / pi, eu_pitch = pi / 2 * 180 / pi, eu_yaw = y * pi / 180 * 180 / pi\<rparr> =
      \<lparr>eu_roll = r, eu_pitch = 90, eu_yaw = y\<rparr>" by simp
  show ?thesis
    unfolding quaternionToEuler_def Let_def terms[unfolded e] by (simp add: atan2_def Arg_zero flip: zero_complex.code)
qed

end
