(* ===== verification/Frame_Chain.thy ===== *)
theory Frame_Chain
  imports Pose_Math
begin

text \<open>
  Rigid transforms in the pose editor (\<^verbatim>\<open>parameter-editors/PoseEditor.tsx\<close>): their composition and inversion
  with quaternions, the selection of the newest transform of every pair of frames, and the breadth-first
  search that chains them from one frame to another. The search loop is a \<open>partial_function\<close>; that it
  returns is part of its correctness theorem.
\<close>

section \<open>Quaternions and transforms\<close>

definition IDENTITY_TRANSLATION :: vector3 where
  "IDENTITY_TRANSLATION = \<lparr>v3_x = 0, v3_y = 0, v3_z = 0\<rparr>"

definition IDENTITY_ROTATION :: quaternion where
  "IDENTITY_ROTATION = \<lparr>qt_x = 0, qt_y = 0, qt_z = 0, qt_w = 1\<rparr>"

definition normalizeQuaternion :: "quaternion \<Rightarrow> quaternion" where
  "normalizeQuaternion q =
     (let norm = sqrt (qt_x q * qt_x q + qt_y q * qt_y q + qt_z q * qt_z q + qt_w q * qt_w q)
      in if norm < 1 / 10 ^ 8 then IDENTITY_ROTATION
         else \<lparr>qt_x = qt_x q / norm, qt_y = qt_y q / norm, qt_z = qt_z q / norm, qt_w = qt_w q / norm\<rparr>)"

definition multiplyQuaternionRaw :: "quaternion \<Rightarrow> quaternion \<Rightarrow> quaternion" where
  "multiplyQuaternionRaw a b =
     \<lparr>qt_x = qt_w a * qt_x b + qt_x a * qt_w b + qt_y a * qt_z b - qt_z a * qt_y b,
      qt_y = qt_w a * qt_y b - qt_x a * qt_z b + qt_y a * qt_w b + qt_z a * qt_x b,
      qt_z = qt_w a * qt_z b + qt_x a * qt_y b - qt_y a * qt_x b + qt_z a * qt_w b,
      qt_w = qt_w a * qt_w b - qt_x a * qt_x b - qt_y a * qt_y b - qt_z a * qt_z b\<rparr>"

definition multiplyQuaternion :: "quaternion \<Rightarrow> quaternion \<Rightarrow> quaternion" where
  "multiplyQuaternion a b = normalizeQuaternion (multiplyQuaternionRaw a b)"

definition invertQuaternion :: "quaternion \<Rightarrow> quaternion" where
  "invertQuaternion q =
     (let normalized = normalizeQuaternion q
      in \<lparr>qt_x = - qt_x normalized, qt_y = - qt_y normalized, qt_z = - qt_z normalized, qt_w = qt_w normalized\<rparr>)"

definition rotateVector :: "vector3 \<Rightarrow> quaternion \<Rightarrow> vector3" where
  "rotateVector v q =
     (let p = \<lparr>qt_x = v3_x v, qt_y = v3_y v, qt_z = v3_z v, qt_w = 0\<rparr>;
          qNorm = normalizeQuaternion q;
          rotated = multiplyQuaternionRaw (multiplyQuaternionRaw qNorm p) (invertQuaternion qNorm)
      in \<lparr>v3_x = qt_x rotated, v3_y = qt_y rotated, v3_z = qt_z rotated\<rparr>)"

record rigid =
  rg_translation :: vector3
  rg_rotation :: quaternion

definition composeTransform :: "rigid \<Rightarrow> rigid \<Rightarrow> rigid" where
  "composeTransform a b =
     (let rotated = rotateVector (rg_translation b) (rg_rotation a)
      in \<lparr>rg_translation =
            \<lparr>v3_x = v3_x (rg_translation a) + v3_x rotated,
             v3_y = v3_y (rg_translation a) + v3_y rotated,
             v3_z = v3_z (rg_translation a) + v3_z rotated\<rparr>,
          rg_rotation = multiplyQuaternion (rg_rotation a) (rg_rotation b)\<rparr>)"

definition invertTransform :: "rigid \<Rightarrow> rigid" where
  "invertTransform t =
     (let invRotation = invertQuaternion (rg_rotation t);
          invTranslation = rotateVector
            \<lparr>v3_x = - v3_x (rg_translation t), v3_y = - v3_y (rg_translation t), v3_z = - v3_z (rg_translation t)\<rparr>
            invRotation
      in \<lparr>rg_translation = invTranslation, rg_rotation = invRotation\<rparr>)"

section \<open>The newest transforms\<close>

definition tf_parent :: "transform_data \<Rightarrow> string" where
  "tf_parent t = normalizeFrameName (tf_frame_id t)"

definition tf_child :: "transform_data \<Rightarrow> string" where
  "tf_child t = normalizeFrameName (tf_child_frame_id t)"

definition tf_usable :: "transform_data \<Rightarrow> bool" where
  "tf_usable t = (tf_parent t \<noteq> [] \<and> tf_child t \<noteq> [] \<and> tf_parent t \<noteq> tf_child t)"

definition edge_key :: "transform_data \<Rightarrow> string" where
  "edge_key t = tf_parent t @ ''->'' @ tf_child t"

definition tf_stamp :: "transform_data \<Rightarrow> real" where
  "tf_stamp t = coalesce (tf_timestamp_ns t) (- 1)"

definition select_step ::
  "transform_data \<Rightarrow> (string \<times> transform_data) list \<Rightarrow> (string \<times> transform_data) list" where
  "select_step transform byEdge =
     (if \<not> tf_usable transform then byEdge
      else case map_of byEdge (edge_key transform) of
             None \<Rightarrow> map_set (edge_key transform) transform byEdge
           | Some prev \<Rightarrow>
               if tf_stamp transform \<ge> tf_stamp prev then map_set (edge_key transform) transform byEdge else byEdge)"

definition selectLatestTransforms :: "transform_data list \<Rightarrow> transform_data list" where
  "selectLatestTransforms transforms = map snd (fold select_step transforms [])"

section \<open>The chain between two frames\<close>

type_synonym adjacency = "(string \<times> (string \<times> rigid) list) list"

definition addEdge :: "string \<Rightarrow> string \<Rightarrow> rigid \<Rightarrow> adjacency \<Rightarrow> adjacency" where
  "addEdge src tgt transform adj =
     (let edges = coalesce (map_of adj src) [] in map_set src (edges @ [(tgt, transform)]) adj)"

definition forward_edge :: "transform_data \<Rightarrow> rigid" where
  "forward_edge transform =
     \<lparr>rg_translation = tf_translation transform, rg_rotation = normalizeQuaternion (tf_rotation transform)\<rparr>"

definition add_transform_edges :: "transform_data \<Rightarrow> adjacency \<Rightarrow> adjacency" where
  "add_transform_edges transform adj =
     (if \<not> tf_usable transform then adj
      else
        let forward = forward_edge transform
        in addEdge (tf_child transform) (tf_parent transform) (invertTransform forward)
             (addEdge (tf_parent transform) (tf_child transform) forward adj))"

definition adjacency_of :: "transform_data list \<Rightarrow> adjacency" where
  "adjacency_of latestTransforms = fold add_transform_edges latestTransforms []"

type_synonym search_state = "string list \<times> string list \<times> (string \<times> rigid) list"

text \<open>The inner \<open>for\<close> loop: \<open>Inl\<close> when it returns, otherwise the state it leaves.\<close>

fun scan_neighbors ::
  "string \<Rightarrow> rigid \<Rightarrow> (string \<times> rigid) list \<Rightarrow> search_state \<Rightarrow> rigid + search_state" where
  "scan_neighbors target currentTf [] st = Inr st"
| "scan_neighbors target currentTf ((frame, transform) # neighbors) (visited, queue, tfFromSource) =
     (if frame \<in> set visited then scan_neighbors target currentTf neighbors (visited, queue, tfFromSource)
      else
        let composed = composeTransform currentTf transform
        in if frame = target then Inl composed
           else scan_neighbors target currentTf neighbors
                  (set_add frame visited, queue @ [frame], map_set frame composed tfFromSource))"

fun resolve_step :: "adjacency \<Rightarrow> string \<Rightarrow> search_state \<Rightarrow> rigid option + search_state" where
  "resolve_step adj target (visited, [], tfFromSource) = Inl None"
| "resolve_step adj target (visited, current # queue, tfFromSource) =
     (if current = [] then Inr (visited, queue, tfFromSource)
      else case map_of tfFromSource current of
             None \<Rightarrow> Inr (visited, queue, tfFromSource)
           | Some currentTf \<Rightarrow>
               (case scan_neighbors target currentTf (coalesce (map_of adj current) []) (visited, queue, tfFromSource) of
                  Inl composed \<Rightarrow> Inl (Some composed)
                | Inr st \<Rightarrow> Inr st))"

partial_function (option) resolve_loop :: "adjacency \<Rightarrow> string \<Rightarrow> search_state \<Rightarrow> rigid option option" where
  "resolve_loop adj target st =
     (case resolve_step adj target st of
        Inl result \<Rightarrow> Some result
      | Inr st' \<Rightarrow> resolve_loop adj target st')"

declare resolve_loop.simps [code]

definition IDENTITY :: rigid where
  "IDENTITY = \<lparr>rg_translation = IDENTITY_TRANSLATION, rg_rotation = IDENTITY_ROTATION\<rparr>"

text \<open>None when the search does not return, \<open>Some None\<close> for \<open>null\<close>.\<close>

definition resolveTransformBetweenFrames :: "transform_data list \<Rightarrow> string \<Rightarrow> string \<Rightarrow> rigid option option" where
  "resolveTransformBetweenFrames transforms fromFrame toFrame =
     (let source = normalizeFrameName fromFrame;
          target = normalizeFrameName toFrame
      in if source = [] \<or> target = [] then Some None
         else if source = target then Some (Some IDENTITY)
         else resolve_loop (adjacency_of (selectLatestTransforms transforms)) target
                ([source], [source], [(source, IDENTITY)]))"

section \<open>Quaternion algebra\<close>

definition qconj :: "quaternion \<Rightarrow> quaternion" where
  "qconj q = \<lparr>qt_x = - qt_x q, qt_y = - qt_y q, qt_z = - qt_z q, qt_w = qt_w q\<rparr>"

definition pure_q :: "vector3 \<Rightarrow> quaternion" where
  "pure_q v = \<lparr>qt_x = v3_x v, qt_y = v3_y v, qt_z = v3_z v, qt_w = 0\<rparr>"

definition vec_q :: "quaternion \<Rightarrow> vector3" where
  "vec_q q = \<lparr>v3_x = qt_x q, v3_y = qt_y q, v3_z = qt_z q\<rparr>"

abbreviation unit_q :: "quaternion \<Rightarrow> bool" where
  "unit_q q \<equiv> qnorm2 q = 1"

lemma quaternion_eqI: "qt_x a = qt_x b \<Longrightarrow> qt_y a = qt_y b \<Longrightarrow> qt_z a = qt_z b \<Longrightarrow> qt_w a = qt_w b \<Longrightarrow> a = (b :: quaternion)"
  by (cases a; cases b) simp

lemma normalize_unit: "unit_q q \<Longrightarrow> normalizeQuaternion q = q"
  by (rule quaternion_eqI) (simp_all add: normalizeQuaternion_def qnorm2_def)

lemma unit_normalize [simp]: "unit_q (normalizeQuaternion q)"
proof -
  define n where "n = sqrt (qt_x q * qt_x q + qt_y q * qt_y q + qt_z q * qt_z q + qt_w q * qt_w q)"
  show ?thesis
  proof (cases "n < 1 / 10 ^ 8")
    case True
    then show ?thesis by (simp add: normalizeQuaternion_def n_def[symmetric] IDENTITY_ROTATION_def qnorm2_def)
  next
    case False
    then have "0 < n" by (smt (verit) divide_pos_pos zero_less_power)
    moreover have "n * n = qt_x q * qt_x q + qt_y q * qt_y q + qt_z q * qt_z q + qt_w q * qt_w q"
      unfolding n_def by (rule real_sqrt_mult_self[THEN trans]) (simp add: abs_of_nonneg)
    ultimately have "(qt_x q * qt_x q + qt_y q * qt_y q + qt_z q * qt_z q + qt_w q * qt_w q) / (n * n) = 1"
      by (metis divide_self less_irrefl mult_eq_0_iff)
    then show ?thesis
      using False by (simp add: normalizeQuaternion_def n_def[symmetric] qnorm2_def Let_def add_divide_distrib)
  qed
qed

lemma qmul_assoc:
  "multiplyQuaternionRaw (multiplyQuaternionRaw a b) c = multiplyQuaternionRaw a (multiplyQuaternionRaw b c)"
  by (simp add: multiplyQuaternionRaw_def algebra_simps)

lemma qconj_mul: "qconj (multiplyQuaternionRaw a b) = multiplyQuaternionRaw (qconj b) (qconj a)"
  by (simp add: multiplyQuaternionRaw_def qconj_def)

lemma qnorm2_mul: "qnorm2 (multiplyQuaternionRaw a b) = qnorm2 a * qnorm2 b"
  unfolding qnorm2_def multiplyQuaternionRaw_def by (simp, algebra)

lemma qconj_unit [simp]: "qnorm2 (qconj q) = qnorm2 q" "qconj (qconj q) = q"
  by (simp_all add: qconj_def qnorm2_def)

lemma qmul_conj: "unit_q q \<Longrightarrow> multiplyQuaternionRaw q (qconj q) = IDENTITY_ROTATION"
    "unit_q q \<Longrightarrow> multiplyQuaternionRaw (qconj q) q = IDENTITY_ROTATION"
  by (simp_all add: multiplyQuaternionRaw_def qconj_def qnorm2_def IDENTITY_ROTATION_def algebra_simps)

lemma qmul_identity [simp]: "multiplyQuaternionRaw IDENTITY_ROTATION q = q" "multiplyQuaternionRaw q IDENTITY_ROTATION = q"
  by (simp_all add: multiplyQuaternionRaw_def IDENTITY_ROTATION_def)

lemma multiply_unit: "unit_q a \<Longrightarrow> unit_q b \<Longrightarrow> multiplyQuaternion a b = multiplyQuaternionRaw a b"
  by (simp add: multiplyQuaternion_def normalize_unit qnorm2_mul)

lemma invert_unit: "unit_q q \<Longrightarrow> invertQuaternion q = qconj q"
  by (simp add: invertQuaternion_def normalize_unit qconj_def)

lemma rotate_unit:
  "unit_q q \<Longrightarrow> rotateVector v q = vec_q (multiplyQuaternionRaw (multiplyQuaternionRaw q (pure_q v)) (qconj q))"
  by (simp add: rotateVector_def normalize_unit invert_unit pure_q_def vec_q_def Let_def)

lemma pure_rotated:
  "pure_q (vec_q (multiplyQuaternionRaw (multiplyQuaternionRaw q (pure_q v)) (qconj q))) =
     multiplyQuaternionRaw (multiplyQuaternionRaw q (pure_q v)) (qconj q)"
  by (simp add: pure_q_def vec_q_def multiplyQuaternionRaw_def qconj_def algebra_simps)

lemma vec_pure [simp]: "vec_q (pure_q v) = v"
  by (simp add: vec_q_def pure_q_def)

lemma rotate_compose:
  assumes "unit_q a" "unit_q b"
  shows "rotateVector (rotateVector v b) a = rotateVector v (multiplyQuaternionRaw a b)"
  by (simp add: rotate_unit assms qnorm2_mul pure_rotated) (simp add: qconj_mul qmul_assoc)

lemma rotate_identity [simp]: "rotateVector v IDENTITY_ROTATION = v"
proof -
  have "qconj IDENTITY_ROTATION = IDENTITY_ROTATION" "unit_q IDENTITY_ROTATION"
    by (simp_all add: qconj_def IDENTITY_ROTATION_def qnorm2_def)
  then show ?thesis by (simp add: rotate_unit)
qed

definition vadd :: "vector3 \<Rightarrow> vector3 \<Rightarrow> vector3" where
  "vadd v w = \<lparr>v3_x = v3_x v + v3_x w, v3_y = v3_y v + v3_y w, v3_z = v3_z v + v3_z w\<rparr>"

lemma rotate_vadd: "unit_q q \<Longrightarrow> rotateVector (vadd v w) q = vadd (rotateVector v q) (rotateVector w q)"
  by (simp add: rotate_unit vadd_def vec_q_def pure_q_def multiplyQuaternionRaw_def qconj_def algebra_simps)

text \<open>What a transform does to a point: coordinates in the child frame to coordinates in the parent frame.\<close>

definition tf_apply :: "rigid \<Rightarrow> vector3 \<Rightarrow> vector3" where
  "tf_apply t v = vadd (rg_translation t) (rotateVector v (rg_rotation t))"

abbreviation unit_tf :: "rigid \<Rightarrow> bool" where
  "unit_tf t \<equiv> unit_q (rg_rotation t)"

lemma vadd_assoc: "vadd (vadd u v) w = vadd u (vadd v w)"
  by (simp add: vadd_def)

lemma compose_apply:
  assumes "unit_tf a" "unit_tf b"
  shows "tf_apply (composeTransform a b) v = tf_apply a (tf_apply b v)" "unit_tf (composeTransform a b)"
proof -
  have c: "composeTransform a b = \<lparr>rg_translation = vadd (rg_translation a) (rotateVector (rg_translation b) (rg_rotation a)),
      rg_rotation = multiplyQuaternionRaw (rg_rotation a) (rg_rotation b)\<rparr>"
    by (simp add: composeTransform_def vadd_def multiply_unit assms Let_def)
  show "tf_apply (composeTransform a b) v = tf_apply a (tf_apply b v)"
    by (simp add: c tf_apply_def rotate_vadd rotate_compose vadd_assoc assms)
  show "unit_tf (composeTransform a b)" by (simp add: c qnorm2_mul assms)
qed

definition vneg :: "vector3 \<Rightarrow> vector3" where
  "vneg v = \<lparr>v3_x = - v3_x v, v3_y = - v3_y v, v3_z = - v3_z v\<rparr>"

lemma vneg_vadd: "vadd v (vadd (vneg v) w) = w" "vadd (vneg v) (vadd v w) = w"
  by (simp_all add: vadd_def vneg_def)

lemma rotate_vneg: "unit_q q \<Longrightarrow> rotateVector (vneg v) q = vneg (rotateVector v q)"
  by (simp add: rotate_unit vneg_def vec_q_def pure_q_def multiplyQuaternionRaw_def qconj_def algebra_simps)

lemma invert_apply:
  assumes "unit_tf t"
  shows "tf_apply t (tf_apply (invertTransform t) v) = v" "tf_apply (invertTransform t) (tf_apply t v) = v"
    "unit_tf (invertTransform t)"
proof -
  have i: "invertTransform t = \<lparr>rg_translation = rotateVector (vneg (rg_translation t)) (qconj (rg_rotation t)),
      rg_rotation = qconj (rg_rotation t)\<rparr>"
    by (simp add: invertTransform_def invert_unit assms vneg_def Let_def)
  have undo: "rotateVector (rotateVector w (qconj (rg_rotation t))) (rg_rotation t) = w"
    "rotateVector (rotateVector w (rg_rotation t)) (qconj (rg_rotation t)) = w" for w
    by (simp_all add: rotate_compose assms qmul_conj)
  show "tf_apply t (tf_apply (invertTransform t) v) = v"
    by (simp add: i tf_apply_def rotate_vadd assms undo vneg_vadd)
  show "tf_apply (invertTransform t) (tf_apply t v) = v"
    by (simp add: i tf_apply_def rotate_vadd rotate_vneg assms undo vneg_vadd)
  show "unit_tf (invertTransform t)" by (simp add: i assms)
qed

lemma identity_apply [simp]: "tf_apply IDENTITY v = v" "unit_tf IDENTITY"
proof -
  show "tf_apply IDENTITY v = v" by (simp add: IDENTITY_def IDENTITY_TRANSLATION_def tf_apply_def vadd_def)
  show "unit_tf IDENTITY" by (simp add: IDENTITY_def IDENTITY_ROTATION_def qnorm2_def)
qed

lemma unit_forward [simp]: "unit_tf (forward_edge t)"
  by (simp add: forward_edge_def)

section \<open>The search\<close>

definition adj_edges :: "adjacency \<Rightarrow> (string \<times> string \<times> rigid) set" where
  "adj_edges adj = {(a, b, t). \<exists>ns. map_of adj a = Some ns \<and> (b, t) \<in> set ns}"

text \<open>
  The invariant of the search for any property \<open>good\<close> of a frame and its transform that holds of the source
  and is kept along the edges: every visited frame has a good transform, and the neighbours of a frame that
  has left the queue are visited.
\<close>

definition scan_ok :: "string \<Rightarrow> (string \<Rightarrow> rigid \<Rightarrow> bool) \<Rightarrow> search_state \<Rightarrow> bool" where
  "scan_ok target good st =
     (case st of (visited, queue, tfs) \<Rightarrow>
        target \<notin> set visited \<and> set queue \<subseteq> set visited \<and> [] \<notin> set visited \<and>
        (\<forall>f \<in> set visited. map_of tfs f \<noteq> None) \<and> (\<forall>f T. map_of tfs f = Some T \<longrightarrow> good f T))"

definition search_inv :: "adjacency \<Rightarrow> string \<Rightarrow> string \<Rightarrow> (string \<Rightarrow> rigid \<Rightarrow> bool) \<Rightarrow> search_state \<Rightarrow> bool" where
  "search_inv adj source target good st =
     (scan_ok target good st \<and>
      (case st of (visited, queue, tfs) \<Rightarrow>
        source \<in> set visited \<and>
        (\<forall>(a, b, t) \<in> adj_edges adj. a \<in> set visited \<longrightarrow> a \<notin> set queue \<longrightarrow> b \<in> set visited)))"

definition scanned :: "string set \<Rightarrow> (string \<times> rigid) list \<Rightarrow> search_state \<Rightarrow> search_state \<Rightarrow> bool" where
  "scanned F ns st st' =
     (case st of (visited, queue, tfs) \<Rightarrow> case st' of (visited', queue', tfs') \<Rightarrow>
        set visited \<union> fst ` set ns \<subseteq> set visited' \<and> set visited' - set queue' \<subseteq> set visited - set queue \<and>
        card (F - set visited') + length queue' = card (F - set visited) + length queue)"

lemma scan_neighbors_Inl:
  "scan_neighbors target tf ns st = Inl T \<Longrightarrow> \<exists>t. (target, t) \<in> set ns \<and> T = composeTransform tf t"
  by (induction target tf ns st rule: scan_neighbors.induct) (auto simp: Let_def split: if_splits)

lemma scan_neighbors_Inr:
  assumes "scan_neighbors target tf ns st = Inr st'" "scan_ok target good st" "finite F"
    and "\<forall>(f, t) \<in> set ns. f \<in> F \<and> f \<noteq> [] \<and> good f (composeTransform tf t)"
  shows "scan_ok target good st' \<and> scanned F ns st st'"
  using assms
proof (induction target tf ns st rule: scan_neighbors.induct)
  case (2 target tf f t ns visited queue tfs)
  show ?case
  proof (cases "f \<in> set visited")
    case True
    with 2 show ?thesis by (auto simp: scanned_def)
  next
    case False
    let ?st = "(visited @ [f], queue @ [f], map_set f (composeTransform tf t) tfs)"
    have ft: "f \<noteq> target" and run: "scan_neighbors target tf ns ?st = Inr st'"
      using 2(3) False by (auto simp: Let_def set_add_def split: if_splits)
    have ok: "scan_ok target good ?st"
      using 2(4,6) ft False by (auto simp: scan_ok_def update_conv)
    have "F - set visited = insert f (F - set (visited @ [f]))" using 2(6) False by auto
    then have "card (F - set visited) = card (insert f (F - set (visited @ [f])))" by (rule arg_cong)
    also have "\<dots> = Suc (card (F - set (visited @ [f])))" using 2(5) by simp
    finally have less: "card (F - set visited) = Suc (card (F - set (visited @ [f])))" .
    have "set_add f visited = visited @ [f]" using False by (simp add: set_add_def)
    then have "scan_ok target good st' \<and> scanned F ns ?st st'"
      using 2(2)[OF False refl ft] run ok 2(5,6) by simp
    moreover obtain visited' queue' tfs' where "st' = (visited', queue', tfs')" by (cases st')
    ultimately show ?thesis using less False by (auto simp: scanned_def)
  qed
qed (auto simp: scanned_def split: prod.splits)

lemma resolve_loop_correct:
  assumes "search_inv adj source target good st" "finite F"
    and keep: "\<And>a T b t. good a T \<Longrightarrow> (a, b, t) \<in> adj_edges adj \<Longrightarrow> good b (composeTransform T t)"
    and frames: "\<And>a b t. (a, b, t) \<in> adj_edges adj \<Longrightarrow> b \<in> F \<and> b \<noteq> []"
  shows "\<exists>r. resolve_loop adj target st = Some r \<and>
    (case r of Some T \<Rightarrow> good target T
     | None \<Rightarrow> \<exists>V. source \<in> V \<and> target \<notin> V \<and> (\<forall>(a, b, t) \<in> adj_edges adj. a \<in> V \<longrightarrow> b \<in> V))"
  using assms(1)
proof (induction "case st of (visited, queue, tfs) \<Rightarrow> card (F - set visited) + length queue" arbitrary: st
    rule: less_induct)
  case less
  obtain visited queue tfs where st: "st = (visited, queue, tfs)" by (cases st)
  note inv = less.prems[unfolded st search_inv_def scan_ok_def, simplified]
  show ?case
  proof (cases queue)
    case Nil
    then show ?thesis using inv by (subst resolve_loop.simps) (auto simp: st intro!: exI[of _ "set visited"])
  next
    case (Cons c rest)
    then have c: "c \<in> set visited" "c \<noteq> []" using inv by auto
    then obtain T where T: "map_of tfs c = Some T" "good c T" using inv by auto
    let ?ns = "coalesce (map_of adj c) []"
    have edge: "(c, b, t) \<in> adj_edges adj" if "(b, t) \<in> set ?ns" for b t
      using that by (cases "map_of adj c") (auto simp: adj_edges_def)
    have edge': "b \<in> fst ` set ?ns" if "(c, b, t) \<in> adj_edges adj" for b t
      using that by (force simp: adj_edges_def)
    show ?thesis
    proof (cases "scan_neighbors target T ?ns (visited, rest, tfs)")
      case (Inl R)
      then show ?thesis
        using scan_neighbors_Inl[OF Inl] keep[OF T(2) edge] c T Cons
        by (subst resolve_loop.simps) (auto simp: st)
    next
      case (Inr st')
      have "scan_ok target good (visited, rest, tfs)" using inv Cons by (auto simp: scan_ok_def)
      moreover have "\<forall>(f, t) \<in> set ?ns. f \<in> F \<and> f \<noteq> [] \<and> good f (composeTransform T t)"
        using frames[OF edge] keep[OF T(2) edge] by blast
      ultimately have sc: "scan_ok target good st'" "scanned F ?ns (visited, rest, tfs) st'"
        using scan_neighbors_Inr[OF Inr _ assms(2)] by blast+
      obtain visited' queue' tfs' where st': "st' = (visited', queue', tfs')" by (cases st')
      have "search_inv adj source target good st'"
        using sc inv edge' Cons unfolding search_inv_def scanned_def st' by fastforce
      moreover have "card (F - set visited') + length queue' < card (F - set visited) + length queue"
        using sc(2) Cons by (simp add: scanned_def st')
      ultimately have "\<exists>r. resolve_loop adj target st' = Some r \<and>
          (case r of Some T \<Rightarrow> good target T
           | None \<Rightarrow> \<exists>V. source \<in> V \<and> target \<notin> V \<and> (\<forall>(a, b, t) \<in> adj_edges adj. a \<in> V \<longrightarrow> b \<in> V))"
        using less.hyps[of st'] by (simp add: st st')
      moreover have "resolve_loop adj target st = resolve_loop adj target st'"
        using Inr c T Cons by (subst resolve_loop.simps) (simp add: st)
      ultimately show ?thesis by simp
    qed
  qed
qed

section \<open>The chain is right\<close>

definition latest_step_edges :: "transform_data list \<Rightarrow> (string \<times> string \<times> rigid) set" where
  "latest_step_edges ts =
     (\<Union>t \<in> {t \<in> set ts. tf_usable t}.
        {(tf_parent t, tf_child t, forward_edge t), (tf_child t, tf_parent t, invertTransform (forward_edge t))})"

lemma adj_edges_addEdge: "adj_edges (addEdge a b t adj) = insert (a, b, t) (adj_edges adj)"
  by (cases "map_of adj a") (auto simp: adj_edges_def addEdge_def update_conv split: if_splits)

lemma adjacency_edges: "adj_edges (adjacency_of ts) = latest_step_edges ts"
proof (induction ts rule: rev_induct)
  case (snoc t ts)
  have "adjacency_of (ts @ [t]) = add_transform_edges t (adjacency_of ts)" by (simp add: adjacency_of_def)
  moreover have "adj_edges (add_transform_edges t adj) = adj_edges adj \<union> latest_step_edges [t]" for adj
    by (auto simp: add_transform_edges_def latest_step_edges_def adj_edges_addEdge Let_def)
  ultimately show ?case using snoc by (auto simp: latest_step_edges_def)
qed (simp add: adjacency_of_def latest_step_edges_def adj_edges_def)

text \<open>
  Frames placed in a world: \<open>place f v\<close> is the point with coordinates \<open>v\<close> in frame \<open>f\<close>. The transforms describe
  it when each of the newest maps child coordinates to parent coordinates.
\<close>

definition describes :: "transform_data list \<Rightarrow> (string \<Rightarrow> vector3 \<Rightarrow> 'w) \<Rightarrow> bool" where
  "describes ts place =
     (\<forall>t \<in> set (selectLatestTransforms ts). \<forall>v.
        place (tf_child t) v = place (tf_parent t) (tf_apply (forward_edge t) v))"

definition connected_frames :: "transform_data list \<Rightarrow> (string \<times> string) set" where
  "connected_frames ts =
     (let E = (\<lambda>t. (tf_parent t, tf_child t)) ` {t \<in> set (selectLatestTransforms ts). tf_usable t}
      in (E \<union> E\<inverse>)\<^sup>*)"

lemma latest_edges_connected:
  "(a, b) \<in> (\<lambda>t. (tf_parent t, tf_child t)) ` {t \<in> set ts. tf_usable t} \<union>
     ((\<lambda>t. (tf_parent t, tf_child t)) ` {t \<in> set ts. tf_usable t})\<inverse> \<longleftrightarrow> (\<exists>t. (a, b, t) \<in> latest_step_edges ts)"
  by (auto simp: latest_step_edges_def)

lemma describes_edge:
  assumes "describes ts place" "(a, b, t) \<in> latest_step_edges (selectLatestTransforms ts)"
  shows "place b v = place a (tf_apply t v)" "unit_tf t"
proof -
  from assms(2) obtain d where d: "d \<in> set (selectLatestTransforms ts)"
    "(a, b, t) = (tf_parent d, tf_child d, forward_edge d) \<or>
     (a, b, t) = (tf_child d, tf_parent d, invertTransform (forward_edge d))"
    by (auto simp: latest_step_edges_def)
  have "place (tf_child d) u = place (tf_parent d) (tf_apply (forward_edge d) u)" for u
    using assms(1) d(1) by (simp add: describes_def)
  then show "place b v = place a (tf_apply t v)" using d(2) by (auto simp: invert_apply)
  show "unit_tf t" using d(2) by (auto simp: invert_apply)
qed

lemma resolve_loop_chain:
  assumes "describes ts place" "source \<noteq> []" "target \<noteq> []" "source \<noteq> target"
  defines "adj \<equiv> adjacency_of (selectLatestTransforms ts)"
  shows "\<exists>r. resolve_loop adj target ([source], [source], [(source, IDENTITY)]) = Some r \<and>
    (r = None \<longleftrightarrow> (source, target) \<notin> connected_frames ts) \<and>
    (\<forall>T. r = Some T \<longrightarrow> (\<forall>v. place source (tf_apply T v) = place target v))"
proof -
  define E where "E = (\<lambda>t. (tf_parent t, tf_child t)) ` {t \<in> set (selectLatestTransforms ts). tf_usable t}"
  define good where "good f T \<longleftrightarrow> unit_tf T \<and> (\<forall>v. place source (tf_apply T v) = place f v) \<and> (source, f) \<in> (E \<union> E\<inverse>)\<^sup>*" for f T
  have edge: "(a, b) \<in> E \<union> E\<inverse> \<longleftrightarrow> (\<exists>t. (a, b, t) \<in> adj_edges adj)" for a b
    unfolding E_def adj_def adjacency_edges by (rule latest_edges_connected)
  have keep: "good b (composeTransform T t)" if "good a T" "(a, b, t) \<in> adj_edges adj" for a T b t
    using that describes_edge[OF assms(1), of a b t] edge[of a b] rtrancl_into_rtrancl[of source a "E \<union> E\<inverse>" b]
    by (auto simp: good_def adj_def adjacency_edges compose_apply)
  have frames: "b \<in> fst ` E \<union> snd ` E \<and> b \<noteq> []" if "(a, b, t) \<in> adj_edges adj" for a b t
    using that by (force simp: adj_def adjacency_edges latest_step_edges_def E_def tf_usable_def)
  have "good source IDENTITY"
    by (simp add: good_def)
  then have inv: "search_inv adj source target good ([source], [source], [(source, IDENTITY)])"
    using assms(2-4) by (auto simp: search_inv_def scan_ok_def)
  have "\<exists>r. resolve_loop adj target ([source], [source], [(source, IDENTITY)]) = Some r \<and>
      (case r of Some T \<Rightarrow> good target T
       | None \<Rightarrow> \<exists>V. source \<in> V \<and> target \<notin> V \<and> (\<forall>(a, b, t) \<in> adj_edges adj. a \<in> V \<longrightarrow> b \<in> V))"
    by (rule resolve_loop_correct[OF inv, where F = "fst ` E \<union> snd ` E"]) (simp add: E_def, fact keep, fact frames)
  then obtain r where r: "resolve_loop adj target ([source], [source], [(source, IDENTITY)]) = Some r"
    "case r of Some T \<Rightarrow> good target T
     | None \<Rightarrow> \<exists>V. source \<in> V \<and> target \<notin> V \<and> (\<forall>(a, b, t) \<in> adj_edges adj. a \<in> V \<longrightarrow> b \<in> V)"
    by blast
  have "(source, target) \<notin> (E \<union> E\<inverse>)\<^sup>*" if "source \<in> V" "target \<notin> V" "\<forall>(a, b, t) \<in> adj_edges adj. a \<in> V \<longrightarrow> b \<in> V" for V
  proof
    assume "(source, target) \<in> (E \<union> E\<inverse>)\<^sup>*"
    then have "target \<in> V"
    proof (induction rule: rtrancl_induct)
      case (step y z)
      then show ?case using edge[of y z] that(3) by blast
    qed (rule that(1))
    with that(2) show False ..
  qed
  then show ?thesis
    using r by (cases r) (auto simp: good_def connected_frames_def E_def[symmetric])
qed

lemma resolve_chain:
  assumes "describes ts place" "normalizeFrameName fromFrame \<noteq> []" "normalizeFrameName toFrame \<noteq> []"
  shows "\<exists>r. resolveTransformBetweenFrames ts fromFrame toFrame = Some r \<and>
    (r = None \<longleftrightarrow> (normalizeFrameName fromFrame, normalizeFrameName toFrame) \<notin> connected_frames ts) \<and>
    (\<forall>T v. r = Some T \<longrightarrow> place (normalizeFrameName fromFrame) (tf_apply T v) = place (normalizeFrameName toFrame) v)"
proof (cases "normalizeFrameName fromFrame = normalizeFrameName toFrame")
  case True
  then show ?thesis
    using assms by (auto simp: resolveTransformBetweenFrames_def connected_frames_def Let_def)
next
  case False
  then show ?thesis
    using resolve_loop_chain[OF assms False] assms(2,3) by (auto simp: resolveTransformBetweenFrames_def Let_def)
qed

text \<open>C10. 
  C0. The pose of one frame in another is computed for any telemetry, cycles and duplicates included, and is
  right: when the newest transforms describe frames placed in a world, the result (if the two frames are
  connected, and only then is there one) maps every point of the target frame to the same point in
  coordinates of the source frame, whichever path the search found.
\<close>

theorem resolved_transform_correct:
  assumes "describes ts place" "normalizeFrameName fromFrame \<noteq> []" "normalizeFrameName toFrame \<noteq> []"
  shows "\<exists>r. resolveTransformBetweenFrames ts fromFrame toFrame = Some r \<and>
    (r = None \<longleftrightarrow> (normalizeFrameName fromFrame, normalizeFrameName toFrame) \<notin> connected_frames ts) \<and>
    (\<forall>T v. r = Some T \<longrightarrow> place (normalizeFrameName fromFrame) (tf_apply T v) = place (normalizeFrameName toFrame) v)"
  using assms by (rule resolve_chain)

definition shift_tf :: "string \<Rightarrow> string \<Rightarrow> real \<Rightarrow> transform_data" where
  "shift_tf p c d = \<lparr>tf_frame_id = p, tf_child_frame_id = c, tf_translation = \<lparr>v3_x = d, v3_y = 0, v3_z = 0\<rparr>,
     tf_rotation = IDENTITY_ROTATION, tf_timestamp_ns = None\<rparr>"

definition shift_place :: "string \<Rightarrow> vector3 \<Rightarrow> vector3" where
  "shift_place f v = vadd \<lparr>v3_x = (if f = ''base'' then 0 else if f = ''arm'' then 1 else 3), v3_y = 0, v3_z = 0\<rparr> v"

lemma latest_shift:
  "selectLatestTransforms [shift_tf ''base'' ''arm'' 1, shift_tf ''/arm'' ''tool'' 2] =
     [shift_tf ''base'' ''arm'' 1, shift_tf ''/arm'' ''tool'' 2]"
proof -
  have "normalizeFrameName ''base'' = ''base''" "normalizeFrameName ''arm'' = ''arm''"
    "normalizeFrameName ''/arm'' = ''arm''" "normalizeFrameName ''tool'' = ''tool''" by code_simp+
  then show ?thesis
    by (simp add: selectLatestTransforms_def select_step_def tf_usable_def edge_key_def tf_parent_def tf_child_def shift_tf_def)
qed

theorem resolved_transform_correct_witness:
  "\<exists>T. resolveTransformBetweenFrames [shift_tf ''base'' ''arm'' 1, shift_tf ''/arm'' ''tool'' 2] ''base'' ''tool'' = Some (Some T) \<and>
     (\<forall>v. tf_apply T v = vadd \<lparr>v3_x = 3, v3_y = 0, v3_z = 0\<rparr> v)"
proof -
  let ?ts = "[shift_tf ''base'' ''arm'' 1, shift_tf ''/arm'' ''tool'' 2]"
  have n: "normalizeFrameName ''base'' = ''base''" "normalizeFrameName ''arm'' = ''arm''"
    "normalizeFrameName ''/arm'' = ''arm''" "normalizeFrameName ''tool'' = ''tool''" by code_simp+
  have "unit_q IDENTITY_ROTATION" by (simp add: IDENTITY_ROTATION_def qnorm2_def)
  then have "describes ?ts shift_place"
    unfolding describes_def latest_shift
    by (simp add: tf_child_def tf_parent_def n shift_tf_def shift_place_def forward_edge_def
        tf_apply_def normalize_unit vadd_def)
  moreover have "(''base'', ''tool'') \<in> connected_frames ?ts"
  proof -
    let ?E = "(\<lambda>t. (tf_parent t, tf_child t)) ` {t \<in> set (selectLatestTransforms ?ts). tf_usable t}"
    have names: "tf_parent (shift_tf p c d) = normalizeFrameName p" "tf_child (shift_tf p c d) = normalizeFrameName c" for p c d
      by (simp_all add: tf_parent_def tf_child_def shift_tf_def)
    have u: "tf_usable (shift_tf ''base'' ''arm'' 1)" "tf_usable (shift_tf ''/arm'' ''tool'' 2)"
      by (simp_all add: tf_usable_def names n)
    have e1: "(''base'', ''arm'') \<in> ?E" unfolding latest_shift
      by (rule image_eqI[where x = "shift_tf ''base'' ''arm'' 1"]) (simp_all add: names n u)
    have e2: "(''arm'', ''tool'') \<in> ?E" unfolding latest_shift
      by (rule image_eqI[where x = "shift_tf ''/arm'' ''tool'' 2"]) (simp_all add: names n u)
    show ?thesis unfolding connected_frames_def Let_def
      by (rule rtrancl_into_rtrancl[OF r_into_rtrancl[OF UnI1[OF e1]] UnI1[OF e2]])
  qed
  moreover have "shift_place ''base'' v = v" "shift_place ''tool'' v = vadd \<lparr>v3_x = 3, v3_y = 0, v3_z = 0\<rparr> v" for v
    by (simp_all add: shift_place_def vadd_def)
  ultimately show ?thesis
    using resolved_transform_correct[of ?ts shift_place "''base''" "''tool''"] by (auto simp: n)
qed

text \<open>Of the transforms between the same two frames the newest is used, and the last one received among equals.\<close>

lemma select_newest:
  assumes "t \<in> set (selectLatestTransforms ts)" "t' \<in> set ts" "tf_usable t'" "edge_key t' = edge_key t"
  shows "tf_stamp t' \<le> tf_stamp t"
proof -
  define inv where "inv ts m \<longleftrightarrow> distinct (map fst m) \<and> (\<forall>(k, t) \<in> set m. k = edge_key t) \<and>
      (\<forall>t' \<in> set ts. tf_usable t' \<longrightarrow> (\<exists>t. map_of m (edge_key t') = Some t \<and> tf_stamp t' \<le> tf_stamp t))" for ts m
  have set_inv: "inv (xs @ [x]) (map_set (edge_key x) x m)"
    if m: "inv xs m" and older: "\<And>p. map_of m (edge_key x) = Some p \<Longrightarrow> tf_stamp p \<le> tf_stamp x" for xs x m
  proof -
    have "distinct (map fst (map_set (edge_key x) x m))" using m by (simp add: inv_def distinct_update)
    moreover have "\<forall>(k, t) \<in> set (map_set (edge_key x) x m). k = edge_key t"
      using m set_map_set_subset[of "edge_key x" x m] by (fastforce simp: inv_def)
    moreover have "\<exists>t. map_of (map_set (edge_key x) x m) (edge_key t') = Some t \<and> tf_stamp t' \<le> tf_stamp t"
      if t': "t' \<in> set (xs @ [x])" "tf_usable t'" for t'
    proof (cases "edge_key t' = edge_key x \<and> t' \<in> set xs")
      case True
      then obtain p where "map_of m (edge_key x) = Some p" "tf_stamp t' \<le> tf_stamp p"
        using m t'(2) by (fastforce simp: inv_def)
      then show ?thesis using True older[of p] by (auto simp: update_conv)
    next
      case False
      then show ?thesis using m t' by (auto simp: update_conv inv_def)
    qed
    ultimately show ?thesis unfolding inv_def by blast
  qed
  have "inv (xs @ [x]) (select_step x m)" if m: "inv xs m" for xs x m
  proof (cases "tf_usable x \<and> (\<forall>p. map_of m (edge_key x) = Some p \<longrightarrow> tf_stamp p \<le> tf_stamp x)")
    case True
    then have "select_step x m = map_set (edge_key x) x m" by (auto simp: select_step_def split: option.splits)
    with True set_inv[OF m, of x] show ?thesis by simp
  next
    case False
    then have "select_step x m = m" by (auto simp: select_step_def)
    moreover have "\<exists>t. map_of m (edge_key x) = Some t \<and> tf_stamp x \<le> tf_stamp t" if "tf_usable x"
      using False that by fastforce
    ultimately show ?thesis using m by (auto simp: inv_def)
  qed
  note step = this
  have inv: "inv ts (fold select_step ts [])"
  proof (induction ts rule: rev_induct)
    case (snoc x xs)
    from step[OF this, of x] show ?case by simp
  qed (simp add: inv_def)
  let ?m = "fold select_step ts []"
  from assms(1) obtain k where "(k, t) \<in> set ?m" by (auto simp: selectLatestTransforms_def)
  then have "map_of ?m (edge_key t) = Some t"
    using inv map_of_is_SomeI[of ?m k t] unfolding inv_def by auto
  moreover obtain u where "map_of ?m (edge_key t') = Some u" "tf_stamp t' \<le> tf_stamp u"
    using inv assms(2,3) unfolding inv_def by blast
  ultimately show ?thesis using assms(4) by simp
qed

end
