(* ===== verification/Pose_Editor.thy ===== *)
theory Pose_Editor
  imports Frame_Chain
begin

text \<open>
  The pose editor (\<^verbatim>\<open>parameter-editors/PoseEditor.tsx\<close>): which live pose it offers (the chain of transforms to
  the selected or to a tool-like frame, or the odometry), capturing it, and the edits of position,
  orientation and frame, and the angles as the editor shows them. A value of the editor is a pose or a stamped pose, as its field type says; the
  type casts of the code are taken at their word.
\<close>

section \<open>Values\<close>

record pose_value =
  pv_position :: vector3
  pv_orientation :: quaternion

record pose_header =
  ph_stamp :: "(int \<times> int) option"
  ph_frame_id :: "string option"

record pose_stamped =
  ps_header :: "pose_header option"
  ps_pose :: "pose_value option"

datatype editor_value = Plain "pose_value option" | Stamped "pose_stamped option"

record odometry =
  od_frame_id :: "string option"
  od_child_frame_id :: "string option"
  od_pose :: pose_value

record robot_telemetry =
  rt_odometry :: "odometry option"
  rt_transforms :: "transform_data list option"

definition DEFAULT_POSE_FRAME_ID :: string where
  "DEFAULT_POSE_FRAME_ID = ''base_link''"

definition origin_pose :: pose_value where
  "origin_pose = \<lparr>pv_position = \<lparr>v3_x = 0, v3_y = 0, v3_z = 0\<rparr>, pv_orientation = \<lparr>qt_x = 0, qt_y = 0, qt_z = 0, qt_w = 1\<rparr>\<rparr>"

definition poseValue :: "editor_value \<Rightarrow> pose_value option" where
  "poseValue value =
     (case value of Plain p \<Rightarrow> p | Stamped s \<Rightarrow> Option.bind s ps_pose)"

definition frameId :: "editor_value \<Rightarrow> string option" where
  "frameId value =
     (case value of
        Plain _ \<Rightarrow> None
      | Stamped s \<Rightarrow>
          Some (orS (map_option trim (Option.bind (Option.bind s ps_header) ph_frame_id)) DEFAULT_POSE_FRAME_ID))"

definition normalizedTargetFrame :: "editor_value \<Rightarrow> string" where
  "normalizedTargetFrame value = normalizeFrameName (orS (frameId value) DEFAULT_POSE_FRAME_ID)"

section \<open>The live pose\<close>

definition frameBaseName :: "string \<Rightarrow> string" where
  "frameBaseName frame =
     (let normalized = normalizeFrameName frame;
          parts = js_split ''/'' normalized
      in parts ! (length parts - 1))"

definition isToolLikeFrame :: "string \<Rightarrow> bool" where
  "isToolLikeFrame frame =
     (let base = toLowerCase (frameBaseName frame)
      in if str_includes base ''controller'' then False
         else base = ''tool0'' \<or> str_includes base ''tool'' \<or> str_includes base ''tcp'' \<or> str_includes base ''eef''
              \<or> str_includes base ''end_effector'' \<or> str_includes base ''gripper'' \<or> str_includes base ''flange'')"

text \<open>\<open>matches.find(t => normalize(t.frame_id) === target) || matches[0]\<close>, for matches that are not empty.\<close>

definition prefer_frame :: "string \<Rightarrow> transform_data list \<Rightarrow> transform_data" where
  "prefer_frame target matches = coalesce (find (\<lambda>t. normalizeFrameName (tf_frame_id t) = target) matches) (hd matches)"

definition selectedToolTransform ::
  "string \<Rightarrow> string option \<Rightarrow> robot_telemetry option \<Rightarrow> transform_data option" where
  "selectedToolTransform target preferredFrameId robotTelemetry =
     (let requested = (if truthy preferredFrameId then normalizeFrameName (the preferredFrameId) else []);
          transforms = coalesce (Option.bind robotTelemetry rt_transforms) []
      in if requested = [] \<or> length transforms = 0 then None
         else
           let exactMatches = filter (\<lambda>t. normalizeFrameName (tf_child_frame_id t) = requested) transforms
           in if length exactMatches > 0 then Some (prefer_frame target exactMatches)
              else
                let requestedBase = toLowerCase (frameBaseName requested);
                    baseMatches = filter (\<lambda>t. toLowerCase (frameBaseName (tf_child_frame_id t)) = requestedBase) transforms
                in if requestedBase = [] \<or> length baseMatches = 0 then None
                   else Some (prefer_frame target baseMatches))"

definition longer_child :: "transform_data \<Rightarrow> transform_data \<Rightarrow> int" where
  "longer_child a b = int (length (tf_child_frame_id b)) - int (length (tf_child_frame_id a))"

definition autoToolTransform ::
  "string \<Rightarrow> string option \<Rightarrow> robot_telemetry option \<Rightarrow> transform_data option" where
  "autoToolTransform target preferredFrameId robotTelemetry =
     (case selectedToolTransform target preferredFrameId robotTelemetry of
        Some t \<Rightarrow> Some t
      | None \<Rightarrow>
          let toolLike = filter (\<lambda>t. isToolLikeFrame (tf_child_frame_id t)) (coalesce (Option.bind robotTelemetry rt_transforms) []);
              matching = filter (\<lambda>t. normalizeFrameName (tf_frame_id t) = target) toolLike
          in if length toolLike = 0 then None
             else if length matching > 0 then Some (hd (js_sort longer_child matching))
             else Some (hd (js_sort longer_child toolLike)))"

datatype pose_source = FromTf | FromOdometry

record live_pose =
  lp_pose :: pose_value
  lp_source :: pose_source
  lp_sourceFrameId :: string
  lp_sourceChildFrameId :: string

definition resolveTfPose :: "editor_value \<Rightarrow> transform_data list \<Rightarrow> string \<Rightarrow> live_pose option option" where
  "resolveTfPose value transforms targetFrame =
     (let normalizedSource = normalizeFrameName (orS (frameId value) DEFAULT_POSE_FRAME_ID);
          normalizedChild = normalizeFrameName targetFrame
      in if normalizedChild = [] then Some None
         else map_option (map_option (\<lambda>chained.
            \<lparr>lp_pose = \<lparr>pv_position = rg_translation chained, pv_orientation = rg_rotation chained\<rparr>,
             lp_source = FromTf, lp_sourceFrameId = normalizedSource, lp_sourceChildFrameId = normalizedChild\<rparr>))
           (resolveTransformBetweenFrames transforms normalizedSource normalizedChild))"

definition odometry_pose :: "editor_value \<Rightarrow> robot_telemetry option \<Rightarrow> live_pose option" where
  "odometry_pose value robotTelemetry =
     (case Option.bind robotTelemetry rt_odometry of
        None \<Rightarrow> None
      | Some od \<Rightarrow>
          let odometryFrame = normalizeFrameName (orS (od_frame_id od) [])
          in if (case value of Stamped _ \<Rightarrow> True | Plain _ \<Rightarrow> False) \<and> odometryFrame \<noteq> [] \<and>
                odometryFrame \<noteq> normalizedTargetFrame value then None
             else Some
               \<lparr>lp_pose = od_pose od, lp_source = FromOdometry,
                lp_sourceFrameId = orS (od_frame_id od) DEFAULT_POSE_FRAME_ID,
                lp_sourceChildFrameId = orS (od_child_frame_id od) []\<rparr>)"

text \<open>The outer option is None only if the search for the chain would not return.\<close>

definition livePoseContext ::
  "editor_value \<Rightarrow> string option \<Rightarrow> robot_telemetry option \<Rightarrow> live_pose option option" where
  "livePoseContext value preferredFrameId robotTelemetry =
     (let transforms = coalesce (Option.bind robotTelemetry rt_transforms) [];
          target = normalizedTargetFrame value
      in case selectedToolTransform target preferredFrameId robotTelemetry of
           Some t \<Rightarrow> resolveTfPose value transforms (tf_child_frame_id t)
         | None \<Rightarrow>
             (case autoToolTransform target preferredFrameId robotTelemetry of
                Some t \<Rightarrow>
                  (case resolveTfPose value transforms (tf_child_frame_id t) of
                     None \<Rightarrow> None
                   | Some (Some p) \<Rightarrow> Some (Some p)
                   | Some None \<Rightarrow> Some (odometry_pose value robotTelemetry))
              | None \<Rightarrow> Some (odometry_pose value robotTelemetry)))"

definition tfChainMissing :: "editor_value \<Rightarrow> string option \<Rightarrow> robot_telemetry option \<Rightarrow> bool" where
  "tfChainMissing value preferredFrameId robotTelemetry =
     (truthy preferredFrameId \<and> length (coalesce (Option.bind robotTelemetry rt_transforms) []) > 0 \<and>
      livePoseContext value preferredFrameId robotTelemetry = Some None)"

section \<open>Edits\<close>

text \<open>Each handler returns the value it passes to \<open>onChange\<close>, None when it does not call it.\<close>

definition handleCapture :: "bool \<Rightarrow> editor_value \<Rightarrow> live_pose option \<Rightarrow> editor_value option" where
  "handleCapture isPoint value livePoseCtx =
     (case livePoseCtx of
        None \<Rightarrow> None
      | Some c \<Rightarrow>
          let pose = (if isPoint then \<lparr>pv_position = pv_position (lp_pose c), pv_orientation = pv_orientation origin_pose\<rparr>
                      else lp_pose c)
          in Some (case value of
               Stamped _ \<Rightarrow>
                 Stamped (Some \<lparr>ps_header = Some \<lparr>ph_stamp = Some (0, 0),
                   ph_frame_id = Some (orS (frameId value) DEFAULT_POSE_FRAME_ID)\<rparr>, ps_pose = Some pose\<rparr>)
             | Plain _ \<Rightarrow> Plain (Some pose)))"

datatype axis = AxisX | AxisY | AxisZ

fun set_axis :: "axis \<Rightarrow> real \<Rightarrow> vector3 \<Rightarrow> vector3" where
  "set_axis AxisX val v = v\<lparr>v3_x := val\<rparr>"
| "set_axis AxisY val v = v\<lparr>v3_y := val\<rparr>"
| "set_axis AxisZ val v = v\<lparr>v3_z := val\<rparr>"

text \<open>\<open>stamped?.header || { frame_id }\<close> with the new pose, or the new pose alone.\<close>

definition with_pose :: "editor_value \<Rightarrow> pose_value \<Rightarrow> editor_value" where
  "with_pose value newPose =
     (case value of
        Stamped s \<Rightarrow>
          Stamped (Some \<lparr>ps_header = Some (coalesce (Option.bind s ps_header)
              \<lparr>ph_stamp = None, ph_frame_id = Some (orS (frameId value) DEFAULT_POSE_FRAME_ID)\<rparr>),
            ps_pose = Some newPose\<rparr>)
      | Plain _ \<Rightarrow> Plain (Some newPose))"

definition updatePosition :: "editor_value \<Rightarrow> axis \<Rightarrow> real \<Rightarrow> editor_value" where
  "updatePosition value ax val =
     (let currentPose = coalesce (poseValue value) origin_pose
      in with_pose value (currentPose\<lparr>pv_position := set_axis ax val (pv_position currentPose)\<rparr>))"

datatype euler_axis = Roll | Pitch | Yaw

fun set_euler :: "euler_axis \<Rightarrow> real \<Rightarrow> euler \<Rightarrow> euler" where
  "set_euler Roll d e = e\<lparr>eu_roll := d\<rparr>"
| "set_euler Pitch d e = e\<lparr>eu_pitch := d\<rparr>"
| "set_euler Yaw d e = e\<lparr>eu_yaw := d\<rparr>"

definition updateOrientation :: "editor_value \<Rightarrow> euler_axis \<Rightarrow> real \<Rightarrow> editor_value" where
  "updateOrientation value ax degrees =
     (let currentPose = coalesce (poseValue value) origin_pose;
          currentEuler = quaternionToEuler (pv_orientation currentPose);
          newQuaternion = eulerToQuaternion (set_euler ax degrees currentEuler)
      in with_pose value (currentPose\<lparr>pv_orientation := newQuaternion\<rparr>))"

text \<open>
  \<open>formatNumber\<close>, i.e. \<open>toFixed\<close> below \<open>10^21\<close>: the number of units of the last digit nearest to the absolute value, the larger one of two,
  written with a decimal point. The editor shows an angle with one digit after the point.
\<close>

definition fixed_units :: "nat \<Rightarrow> real \<Rightarrow> nat" where
  "fixed_units precision v = nat \<lfloor>10 ^ precision * \<bar>v\<bar> + 1 / 2\<rfloor>"

definition formatNumber :: "real \<Rightarrow> nat \<Rightarrow> string" where
  "formatNumber v precision =
     (let m = show_nat (fixed_units precision v);
          m' = replicate (Suc precision - length m) (CHR ''0'') @ m;
          whole = take (length m' - precision) m'
      in (if v < 0 then ''-'' else []) @ (if precision = 0 then m else whole @ ''.'' @ drop (length m' - precision) m'))"

fun get_euler :: "euler_axis \<Rightarrow> euler \<Rightarrow> real" where
  "get_euler Roll e = eu_roll e"
| "get_euler Pitch e = eu_pitch e"
| "get_euler Yaw e = eu_yaw e"

definition currentEuler :: "editor_value \<Rightarrow> euler" where
  "currentEuler value =
     (case poseValue value of
        Some p \<Rightarrow> quaternionToEuler (pv_orientation p)
      | None \<Rightarrow> \<lparr>eu_roll = 0, eu_pitch = 0, eu_yaw = 0\<rparr>)"

definition shownAngle :: "editor_value \<Rightarrow> euler_axis \<Rightarrow> string" where
  "shownAngle value ax = formatNumber (get_euler ax (currentEuler value)) 1"

definition updateFrameId :: "editor_value \<Rightarrow> string \<Rightarrow> editor_value option" where
  "updateFrameId value newFrameId =
     (case value of
        Plain _ \<Rightarrow> None
      | Stamped s \<Rightarrow>
          Some (Stamped (Some
            \<lparr>ps_header = Some \<lparr>ph_stamp = Option.bind (Option.bind s ps_header) ph_stamp, ph_frame_id = Some newFrameId\<rparr>,
             ps_pose = Some (coalesce (Option.bind s ps_pose) origin_pose)\<rparr>)))"

section \<open>Editing\<close>

lemma poseValue_with_pose [simp]: "poseValue (with_pose u p) = Some p"
  by (cases u) (simp_all add: with_pose_def poseValue_def)

lemma orS_trim_default: "orS (map_option trim v) DEFAULT_POSE_FRAME_ID \<noteq> []"
  by (cases v) (auto simp: orS_def truthy_def DEFAULT_POSE_FRAME_ID_def)

lemma frameId_nonempty: "frameId u = Some f \<Longrightarrow> f \<noteq> []"
  by (cases u) (auto simp: frameId_def orS_trim_default)

lemma currentEuler_origin: "currentEuler u = quaternionToEuler (pv_orientation (coalesce (poseValue u) origin_pose))"
proof -
  have "atan2 0 1 = 0" using atan2_polar[of 1 0] by simp
  then show ?thesis by (simp add: currentEuler_def coalesce_def origin_pose_def quaternionToEuler_def split: option.split)
qed

lemma get_set_euler: "get_euler ax' (set_euler ax d e) = (if ax' = ax then d else get_euler ax' e)"
  by (cases ax; cases ax') simp_all

text \<open>Rounding is off by at most half a unit, and not at all for a number with that many digits.\<close>

lemma fixed_units_near: "\<bar>real (fixed_units k v) - 10 ^ k * \<bar>v\<bar>\<bar> \<le> 1 / 2"
proof -
  have "0 \<le> \<lfloor>10 ^ k * \<bar>v\<bar> + 1 / 2\<rfloor>" by simp
  then show ?thesis unfolding fixed_units_def using of_int_floor_le[of "10 ^ k * \<bar>v\<bar> + 1 / 2"] real_of_int_floor_add_one_gt[of "10 ^ k * \<bar>v\<bar> + 1 / 2"]
    by linarith
qed

lemma fixed_units_exact: "10 ^ k * \<bar>v\<bar> = real m \<Longrightarrow> fixed_units k v = m"
proof -
  assume "10 ^ k * \<bar>v\<bar> = real m"
  moreover have "\<lfloor>real m + 1 / 2\<rfloor> = int m" by linarith
  ultimately show ?thesis by (simp add: fixed_units_def)
qed

text \<open>C28. Editing one angle of a pose changes that angle and nothing else. Let the pitch that results be strictly between -90 and 90
  degrees, and let a roll or yaw that is typed be in (-180, 180]. Then the angles computed back from the stored quaternion, which has unit
  norm, are the typed one and the other two as before; the position and the frame stay. The editor shows the typed angle rounded to one digit
  after the point, which is the angle itself if it has no more digits, and the other two as before.
\<close>

theorem orientation_edit_exact:
  assumes "\<bar>eu_pitch (set_euler ax d (currentEuler u))\<bar> < 90"
    and "ax \<noteq> Pitch \<Longrightarrow> - 180 < d \<and> d \<le> 180"
  shows "\<exists>p. poseValue (updateOrientation u ax d) = Some p \<and>
    quaternionToEuler (pv_orientation p) = set_euler ax d (currentEuler u) \<and>
    qnorm2 (pv_orientation p) = 1 \<and>
    pv_position p = pv_position (coalesce (poseValue u) origin_pose) \<and>
    frameId (updateOrientation u ax d) = frameId u \<and>
    shownAngle (updateOrientation u ax d) ax = formatNumber d 1 \<and>
    (\<forall>ax'. ax' \<noteq> ax \<longrightarrow> shownAngle (updateOrientation u ax d) ax' = shownAngle u ax') \<and>
    \<bar>real (fixed_units 1 d) / 10 - \<bar>d\<bar>\<bar> \<le> 1 / 20 \<and> (\<forall>m. \<bar>d\<bar> = real m / 10 \<longrightarrow> fixed_units 1 d = m)"
proof -
  define e where "e = set_euler ax d (currentEuler u)"
  have "- 180 < eu_roll e" "eu_roll e \<le> 180" "- 180 < eu_yaw e" "eu_yaw e \<le> 180"
    using euler_ranges[of "pv_orientation (coalesce (poseValue u) origin_pose)"] assms(2)
    by (cases ax; simp add: e_def currentEuler_origin)+
  note rt = euler_roundtrip[OF assms(1)[folded e_def] this]
  have frame: "frameId (with_pose u p) = frameId u" for p
  proof (cases u)
    case (Stamped s)
    have "trim DEFAULT_POSE_FRAME_ID = DEFAULT_POSE_FRAME_ID" by code_simp
    then show ?thesis
      by (cases "Option.bind s ps_header") (auto simp: Stamped with_pose_def frameId_def DEFAULT_POSE_FRAME_ID_def)
  qed (simp add: with_pose_def frameId_def)
  obtain p where p: "poseValue (updateOrientation u ax d) = Some p" "quaternionToEuler (pv_orientation p) = e" "qnorm2 (pv_orientation p) = 1"
      "pv_position p = pv_position (coalesce (poseValue u) origin_pose)" "frameId (updateOrientation u ax d) = frameId u"
    using rt frame by (simp add: updateOrientation_def Let_def e_def currentEuler_origin)
  then have "currentEuler (updateOrientation u ax d) = e" by (simp add: currentEuler_def)
  then have shown: "shownAngle (updateOrientation u ax d) ax' = formatNumber (if ax' = ax then d else get_euler ax' (currentEuler u)) 1" for ax'
    by (simp add: shownAngle_def e_def get_set_euler)
  have "\<bar>real (fixed_units 1 d) / 10 - \<bar>d\<bar>\<bar> \<le> 1 / 20" using fixed_units_near[of 1 d] by (simp only: power_one_right)
  moreover have "\<bar>d\<bar> = real m / 10 \<Longrightarrow> fixed_units 1 d = m" for m by (rule fixed_units_exact) simp
  ultimately show ?thesis using p shown by (auto simp: e_def shownAngle_def)
qed

theorem orientation_edit_exact_witness:
  "\<exists>p. poseValue (updateOrientation (Stamped None) Yaw 30) = Some p \<and>
     quaternionToEuler (pv_orientation p) = \<lparr>eu_roll = 0, eu_pitch = 0, eu_yaw = 30\<rparr> \<and> qnorm2 (pv_orientation p) = 1 \<and>
     shownAngle (updateOrientation (Stamped None) Yaw 30) Yaw = ''30.0''"
proof -
  have e: "currentEuler (Stamped None) = \<lparr>eu_roll = 0, eu_pitch = 0, eu_yaw = 0\<rparr>" by (simp add: currentEuler_def poseValue_def)
  have "fixed_units 1 30 = 300" by (rule fixed_units_exact) simp
  moreover have "show_nat 300 = ''300''" by code_simp
  ultimately have "formatNumber 30 1 = ''30.0''" by (simp add: formatNumber_def Let_def)
  then show ?thesis using orientation_edit_exact[of Yaw 30 "Stamped None"] unfolding e by auto
qed

section \<open>Capturing\<close>

definition pose_rigid :: "pose_value \<Rightarrow> rigid" where
  "pose_rigid p = \<lparr>rg_translation = pv_position p, rg_rotation = pv_orientation p\<rparr>"

lemma target_frame_nonempty: "frameId u = Some f \<Longrightarrow> orS (frameId u) DEFAULT_POSE_FRAME_ID = f"
  using frameId_nonempty[of u f] by (simp add: orS_def truthy_def)

text \<open>
  Frame names that normalize to the same name twice. Only names such as \<open>/ arm\<close>, with white space after a
  leading slash, are not stable.
\<close>

definition stable_frame :: "string \<Rightarrow> bool" where
  "stable_frame f = (normalizeFrameName (normalizeFrameName f) = normalizeFrameName f)"

lemma rigid_eta: "\<lparr>rg_translation = rg_translation z, rg_rotation = rg_rotation z\<rparr> = (z :: rigid)"
  by simp

lemma resolveTfPose_correct:
  assumes "describes ts place" "stable_frame (orS (frameId u) DEFAULT_POSE_FRAME_ID)" "normalizedTargetFrame u \<noteq> []"
    "stable_frame child"
  shows "\<exists>r. resolveTfPose u ts child = Some r \<and>
    (\<forall>c. r = Some c \<longrightarrow> lp_sourceChildFrameId c = normalizeFrameName child \<and>
       (\<forall>v. place (normalizedTargetFrame u) (tf_apply (pose_rigid (lp_pose c)) v) = place (normalizeFrameName child) v))"
proof (cases "normalizeFrameName child = []")
  case False
  from resolve_chain[OF assms(1), of "normalizedTargetFrame u" "normalizeFrameName child"] assms(2-4) False
  obtain r where r: "resolveTransformBetweenFrames ts (normalizedTargetFrame u) (normalizeFrameName child) = Some r"
    "\<forall>T v. r = Some T \<longrightarrow> place (normalizedTargetFrame u) (tf_apply T v) = place (normalizeFrameName child) v"
    by (auto simp: stable_frame_def normalizedTargetFrame_def)
  then show ?thesis
    using False by (auto simp: resolveTfPose_def Let_def normalizedTargetFrame_def[symmetric] pose_rigid_def rigid_eta)
qed (simp add: resolveTfPose_def)

lemma prefer_frame_in: "matches \<noteq> [] \<Longrightarrow> prefer_frame target matches \<in> set matches"
  by (cases "find (\<lambda>t. normalizeFrameName (tf_frame_id t) = target) matches") (auto simp: prefer_frame_def dest: find_SomeD)

lemma hd_sorted_in: "xs \<noteq> [] \<Longrightarrow> hd (js_sort cmp xs) \<in> set xs"
  by (metis hd_in_set set_js_sort set_empty)

lemma tool_transform_in:
  assumes "Option.bind tel rt_transforms = Some ts"
  shows "selectedToolTransform target pref tel = Some t \<Longrightarrow> t \<in> set ts"
    "autoToolTransform target pref tel = Some t \<Longrightarrow> t \<in> set ts"
proof -
  show sel: "selectedToolTransform target pref tel = Some t \<Longrightarrow> t \<in> set ts" for t
    using prefer_frame_in by (fastforce simp: selectedToolTransform_def assms Let_def split: if_splits)
  show "autoToolTransform target pref tel = Some t \<Longrightarrow> t \<in> set ts"
    using sel hd_sorted_in[of "filter _ ts" longer_child] hd_sorted_in[of "filter _ (filter _ ts)" longer_child]
    by (fastforce simp: autoToolTransform_def assms Let_def split: option.splits if_splits)
qed

lemma rotate_origin: "rotateVector \<lparr>v3_x = 0, v3_y = 0, v3_z = 0\<rparr> q = \<lparr>v3_x = 0, v3_y = 0, v3_z = 0\<rparr>"
  by (simp add: rotateVector_def multiplyQuaternionRaw_def invertQuaternion_def Let_def algebra_simps)

lemma apply_origin: "tf_apply (pose_rigid p) \<lparr>v3_x = 0, v3_y = 0, v3_z = 0\<rparr> = pv_position p"
  by (simp add: tf_apply_def pose_rigid_def rotate_origin vadd_def)

text \<open>A live pose that comes from the transforms is the pose of a frame of the telemetry in the target frame; one that comes
  from the odometry is its pose.\<close>

definition from_telemetry :: "(string \<Rightarrow> vector3 \<Rightarrow> 'w) \<Rightarrow> transform_data list \<Rightarrow> robot_telemetry option \<Rightarrow> editor_value \<Rightarrow> live_pose \<Rightarrow> bool" where
  "from_telemetry place ts tel u c =
     (case lp_source c of
        FromTf \<Rightarrow> \<exists>t \<in> set ts. \<forall>v. place (normalizedTargetFrame u) (tf_apply (pose_rigid (lp_pose c)) v) = place (tf_child t) v
      | FromOdometry \<Rightarrow> \<exists>od. Option.bind tel rt_odometry = Some od \<and> lp_pose c = od_pose od
          \<and> ((\<exists>s. u = Stamped s) \<longrightarrow> normalizeFrameName (orS (od_frame_id od) []) \<in> {[], normalizedTargetFrame u}))"

lemma live_pose_correct:
  assumes ts: "ts = coalesce (Option.bind tel rt_transforms) []" and d: "describes ts place"
    and st: "stable_frame (orS (frameId u) DEFAULT_POSE_FRAME_ID)" "normalizedTargetFrame u \<noteq> []"
      "\<forall>t \<in> set ts. stable_frame (tf_child_frame_id t)"
  shows "\<exists>r. livePoseContext u pref tel = Some r \<and> (\<forall>c. r = Some c \<longrightarrow> from_telemetry place ts tel u c)"
proof -
  have tf: "\<exists>r. resolveTfPose u ts (tf_child_frame_id t) = Some r \<and> (\<forall>c. r = Some c \<longrightarrow> from_telemetry place ts tel u c)" if "t \<in> set ts" for t
  proof -
    from resolveTfPose_correct[OF d st(1,2), of "tf_child_frame_id t"] st(3) that obtain r where
      r: "resolveTfPose u ts (tf_child_frame_id t) = Some r"
        "\<forall>c. r = Some c \<longrightarrow> (\<forall>v. place (normalizedTargetFrame u) (tf_apply (pose_rigid (lp_pose c)) v) = place (tf_child t) v)"
      by (auto simp: tf_child_def)
    moreover from r(1) have "lp_source c = FromTf" if "r = Some c" for c
      using that by (auto simp: resolveTfPose_def Let_def split: if_splits)
    ultimately show ?thesis using that by (auto simp: from_telemetry_def)
  qed
  have od: "from_telemetry place ts tel u c" if "odometry_pose u tel = Some c" for c
    using that by (auto simp: odometry_pose_def from_telemetry_def Let_def split: option.splits if_splits editor_value.splits)
  have in_ts: "t \<in> set ts" if "selectedToolTransform target pref tel = Some t \<or> autoToolTransform target pref tel = Some t" for t target
  proof (cases "Option.bind tel rt_transforms")
    case None
    with that show ?thesis by (auto simp: selectedToolTransform_def autoToolTransform_def Let_def split: option.splits if_splits)
  next
    case (Some ts')
    with that tool_transform_in[OF Some] ts show ?thesis by auto
  qed
  show ?thesis
  proof (cases "selectedToolTransform (normalizedTargetFrame u) pref tel")
    case (Some t)
    with tf[of t] in_ts[of "normalizedTargetFrame u" t] show ?thesis by (auto simp: livePoseContext_def Let_def ts[symmetric])
  next
    case None
    show ?thesis
    proof (cases "autoToolTransform (normalizedTargetFrame u) pref tel")
      case (Some t)
        with None tf[of t] in_ts[of "normalizedTargetFrame u" t] od show ?thesis by (auto simp: livePoseContext_def Let_def ts[symmetric] split: option.splits)
    qed (use None od in \<open>auto simp: livePoseContext_def Let_def\<close>)
  qed
qed

text \<open>C11. Capturing stores what the robot reports. Suppose the transforms of the telemetry describe the places of the robot's frames, the
  target frame (the one the header names, \<^verbatim>\<open>base_link\<close> if it names none or the value has no header) is not empty once its slashes are
  stripped, and no frame name has white space right after a leading slash. Then the live pose is computed; without one the capture does
  nothing; and the capture of one stores its position, and for a pose also its orientation (a point gets the identity), in a stamped value
  under the frame the header names. The live pose comes from the transforms, and then it is the pose of one of the frames of the telemetry
  in the target frame and its position the place of that frame's origin; or it is the pose of the odometry, which in a stamped value is taken only if the odometry names
  the target frame or, unchecked, no frame at all.
\<close>

theorem captured_pose_correct:
  assumes "ts = coalesce (Option.bind tel rt_transforms) []" "describes ts place"
    and "stable_frame (orS (frameId u) DEFAULT_POSE_FRAME_ID)" "normalizedTargetFrame u \<noteq> []"
    and "\<forall>t \<in> set ts. stable_frame (tf_child_frame_id t)"
  shows "\<exists>r. livePoseContext u pref tel = Some r \<and>
    (case r of
       None \<Rightarrow> handleCapture isPoint u r = None
     | Some c \<Rightarrow>
         from_telemetry place ts tel u c \<and>
         (\<exists>p. handleCapture isPoint u r =
             Some (case u of
               Plain _ \<Rightarrow> Plain (Some p)
             | Stamped _ \<Rightarrow> Stamped (Some \<lparr>ps_header = Some \<lparr>ph_stamp = Some (0, 0), ph_frame_id = frameId u\<rparr>, ps_pose = Some p\<rparr>)) \<and>
           pv_orientation p = (if isPoint then IDENTITY_ROTATION else pv_orientation (lp_pose c)) \<and>
           pv_position p = pv_position (lp_pose c) \<and>
           (lp_source c = FromTf \<longrightarrow>
             (\<exists>t \<in> set ts. place (normalizedTargetFrame u) (pv_position p) = place (tf_child t) \<lparr>v3_x = 0, v3_y = 0, v3_z = 0\<rparr>))))"
proof -
  obtain r where r: "livePoseContext u pref tel = Some r" "\<forall>c. r = Some c \<longrightarrow> from_telemetry place ts tel u c"
    using live_pose_correct[OF assms] by blast
  have frame: "\<exists>f. frameId (Stamped s) = Some f \<and> orS (Some f) DEFAULT_POSE_FRAME_ID = f" for s
    using target_frame_nonempty[of "Stamped s"] by (auto simp: frameId_def)
  show ?thesis
  proof (cases r)
    case (Some c)
    have tf: "lp_source c = FromTf \<longrightarrow>
        (\<exists>t \<in> set ts. place (normalizedTargetFrame u) (pv_position (lp_pose c)) = place (tf_child t) \<lparr>v3_x = 0, v3_y = 0, v3_z = 0\<rparr>)"
      using r(2) Some apply_origin[of "lp_pose c"] by (auto simp: from_telemetry_def) metis
    define p where "p = (if isPoint then \<lparr>pv_position = pv_position (lp_pose c), pv_orientation = pv_orientation origin_pose\<rparr> else lp_pose c)"
    have cap: "handleCapture isPoint u r = Some (case u of
          Plain _ \<Rightarrow> Plain (Some p)
        | Stamped _ \<Rightarrow> Stamped (Some \<lparr>ps_header = Some \<lparr>ph_stamp = Some (0, 0), ph_frame_id = frameId u\<rparr>, ps_pose = Some p\<rparr>))"
    proof (cases u)
      case (Stamped s)
      from frame[of s] obtain f where "frameId u = Some f" "orS (Some f) DEFAULT_POSE_FRAME_ID = f" by (auto simp: Stamped)
      then show ?thesis by (simp add: handleCapture_def Some Stamped Let_def p_def)
    qed (simp add: handleCapture_def Some Let_def p_def)
    have p: "pv_orientation p = (if isPoint then IDENTITY_ROTATION else pv_orientation (lp_pose c))" "pv_position p = pv_position (lp_pose c)"
      by (simp_all add: p_def origin_pose_def IDENTITY_ROTATION_def)
    have "from_telemetry place ts tel u c" using r(2) Some by blast
    with cap p tf show ?thesis
      by (intro exI[of _ r] conjI r(1)) (simp only: Some option.case, intro conjI exI[of _ p], simp_all)
  qed (use r in \<open>simp add: handleCapture_def\<close>)
qed

definition tool_telemetry :: robot_telemetry where
  "tool_telemetry = \<lparr>rt_odometry = None, rt_transforms = Some [shift_tf ''/base_link'' ''tool0'' 3]\<rparr>"

definition tool_place :: "string \<Rightarrow> vector3 \<Rightarrow> vector3" where
  "tool_place f v = vadd \<lparr>v3_x = (if f = ''base_link'' then 0 else 3), v3_y = 0, v3_z = 0\<rparr> v"

lemma tool_names:
  "normalizeFrameName ''base_link'' = ''base_link''" "normalizeFrameName ''/base_link'' = ''base_link''"
  "normalizeFrameName ''tool0'' = ''tool0''"
  by code_simp+

lemma tool_latest: "selectLatestTransforms [shift_tf ''/base_link'' ''tool0'' 3] = [shift_tf ''/base_link'' ''tool0'' 3]"
  by (simp add: selectLatestTransforms_def select_step_def tf_usable_def tf_parent_def tf_child_def shift_tf_def tool_names)

lemma tool_resolved:
  "\<exists>T. resolveTransformBetweenFrames [shift_tf ''/base_link'' ''tool0'' 3] ''base_link'' ''tool0'' = Some (Some T)"
proof -
  have "adjacency_of [shift_tf ''/base_link'' ''tool0'' 3] =
      [(''base_link'', [(''tool0'', forward_edge (shift_tf ''/base_link'' ''tool0'' 3))]),
       (''tool0'', [(''base_link'', invertTransform (forward_edge (shift_tf ''/base_link'' ''tool0'' 3)))])]"
    by (simp add: adjacency_of_def add_transform_edges_def addEdge_def tf_usable_def tf_parent_def tf_child_def
        shift_tf_def tool_names Let_def)
  then show ?thesis
    by (simp add: resolveTransformBetweenFrames_def tool_latest tool_names Let_def) (subst resolve_loop.simps, simp)
qed

theorem captured_pose_correct_witness:
  "\<exists>c p. livePoseContext (Stamped None) (Some ''tool0'') (Some tool_telemetry) = Some (Some c) \<and>
     handleCapture False (Stamped None) (Some c) =
       Some (Stamped (Some \<lparr>ps_header = Some \<lparr>ph_stamp = Some (0, 0), ph_frame_id = Some ''base_link''\<rparr>, ps_pose = Some p\<rparr>)) \<and>
     pv_position p = \<lparr>v3_x = 3, v3_y = 0, v3_z = 0\<rparr>"
proof -
  let ?ts = "[shift_tf ''/base_link'' ''tool0'' 3]"
  have ts: "?ts = coalesce (Option.bind (Some tool_telemetry) rt_transforms) []" by (simp add: tool_telemetry_def coalesce_def)
  have "unit_q IDENTITY_ROTATION" by (simp add: IDENTITY_ROTATION_def qnorm2_def)
  then have d: "describes ?ts tool_place"
    unfolding describes_def tool_latest
    by (simp add: tf_child_def tf_parent_def tool_names shift_tf_def tool_place_def forward_edge_def tf_apply_def normalize_unit vadd_def)
  have fr: "frameId (Stamped None) = Some ''base_link''" "normalizedTargetFrame (Stamped None) = ''base_link''"
    by (simp_all add: normalizedTargetFrame_def frameId_def DEFAULT_POSE_FRAME_ID_def tool_names)
  have st: "stable_frame (orS (frameId (Stamped None)) DEFAULT_POSE_FRAME_ID)" "\<forall>t \<in> set ?ts. stable_frame (tf_child_frame_id t)"
    by (simp_all add: stable_frame_def fr tool_names shift_tf_def)
  have "selectedToolTransform ''base_link'' (Some ''tool0'') (Some tool_telemetry) = Some (shift_tf ''/base_link'' ''tool0'' 3)"
    by (simp add: selectedToolTransform_def tool_telemetry_def tool_names shift_tf_def prefer_frame_def)
  then obtain c where c: "livePoseContext (Stamped None) (Some ''tool0'') (Some tool_telemetry) = Some (Some c)" "lp_source c = FromTf"
    using tool_resolved
    by (auto simp: livePoseContext_def fr ts[symmetric] Let_def resolveTfPose_def tool_names shift_tf_def tool_telemetry_def)
  have t: "tf_child (shift_tf ''/base_link'' ''tool0'' 3) = ''tool0''" by (simp add: tf_child_def shift_tf_def tool_names)
  have place: "tool_place ''base_link'' v = v" "tool_place ''tool0'' v = vadd \<lparr>v3_x = 3, v3_y = 0, v3_z = 0\<rparr> v" for v
    by (simp_all add: tool_place_def vadd_def)
  show ?thesis
    using captured_pose_correct[OF ts d st(1) _ st(2), of "Some ''tool0''" False] c fr
    by (auto simp: t place vadd_def)
qed

text \<open>The frame of the odometry is checked only if it has a name: without one, the pose is captured under whatever frame the header names.\<close>

theorem unnamed_odometry_captured:
  assumes "u = Stamped (Some \<lparr>ps_header = Some \<lparr>ph_stamp = None, ph_frame_id = Some ''map''\<rparr>, ps_pose = None\<rparr>)"
    and "od_frame_id od = None"
  shows "\<exists>r. livePoseContext u None (Some \<lparr>rt_odometry = Some od, rt_transforms = None\<rparr>) = Some r
    \<and> handleCapture False u r =
        Some (Stamped (Some \<lparr>ps_header = Some \<lparr>ph_stamp = Some (0, 0), ph_frame_id = Some ''map''\<rparr>, ps_pose = Some (od_pose od)\<rparr>))"
proof -
  have "trim ''map'' = ''map''" "normalizeFrameName [] = []" by code_simp+
  then show ?thesis
    by (simp add: assms livePoseContext_def selectedToolTransform_def autoToolTransform_def odometry_pose_def handleCapture_def
        frameId_def coalesce_def orS_def Let_def)
qed

end
