(* ===== verification/Type_System.thy ===== *)
theory Type_System
  imports Fleet_Types
begin

text \<open>
  The canonical type system for parameter binding (\<^verbatim>\<open>types/index.ts\<close>): type categories, the compatibility
  check, field paths and their resolution, and the mapping from ROS types. \<open>wf_type\<close> is the invariant of the
  type descriptions the front end builds; \<open>lookup_fields\<close> is the specification of field access and
  \<open>print_path\<close> the inverse of \<open>parseFieldPath\<close>.
\<close>

section \<open>Categories and compatibility\<close>

definition getTypeCategory :: "canonical_type \<Rightarrow> type_category" where
  "getTypeCategory ty =
     (let s = canonical_str ty
      in if s = ''bool'' then CBoolean
         else if startsWith s ''int'' \<or> startsWith s ''uint'' then CInteger
         else if startsWith s ''float'' then CFloat
         else if s = ''string'' then CString
         else if s = ''object'' then CObject
         else if s = ''array'' then CArray
         else CAny)"

datatype conversion_type = Implicit | Explicit | Lossy

record compat_result =
  cr_compatible :: bool
  cr_requiresConversion :: bool
  cr_conversionType :: "conversion_type option"
  cr_warningMessage :: "string option"

definition compat :: "bool \<Rightarrow> compat_result" where
  "compat b = \<lparr>cr_compatible = b, cr_requiresConversion = False, cr_conversionType = None, cr_warningMessage = None\<rparr>"

definition convertible :: "conversion_type \<Rightarrow> string option \<Rightarrow> compat_result" where
  "convertible k msg =
     \<lparr>cr_compatible = True, cr_requiresConversion = True, cr_conversionType = Some k, cr_warningMessage = msg\<rparr>"

definition incompatible :: "string \<Rightarrow> compat_result" where
  "incompatible msg =
     \<lparr>cr_compatible = False, cr_requiresConversion = False, cr_conversionType = None, cr_warningMessage = Some msg\<rparr>"

text \<open>The first run of digits in the type's name, 32 without one.\<close>

definition getIntegerWidth :: "canonical_type \<Rightarrow> nat" where
  "getIntegerWidth ty =
     (let ds = takeWhile is_digit (dropWhile (\<lambda>c. \<not> is_digit c) (canonical_str ty))
      in if ds = [] then 32 else num_of_digits ds)"

lemma size_list_entries: "size_list f (obj_entries fs) = size_list f fs"
proof -
  have "size_list f xs = (\<Sum>x \<in># mset xs. f x + 1)" for xs by (induction xs) auto
  then show ?thesis by (simp add: mset_obj_entries)
qed

abbreviation fields_size :: "(string \<times> data_type_info) list \<Rightarrow> nat" where
  "fields_size \<equiv> size_list (size_prod (\<lambda>_. 0) size)"

lemma map_of_fields_size: "map_of sf n = Some src \<Longrightarrow> size src < fields_size sf"
  by (induction sf) (auto split: if_splits)

lemma element_size: "dt_arrayElementType s = Some el \<Longrightarrow> size el < size s"
  by (cases s) auto

lemma object_fields_size: "dt_objectFields s = Some fs \<Longrightarrow> fields_size fs < size s"
  by (cases s) auto

function checkTypeCompatibility :: "data_type_info \<Rightarrow> data_type_info \<Rightarrow> compat_result"
  and check_fields :: "(string \<times> data_type_info) list \<Rightarrow> (string \<times> data_type_info) list \<Rightarrow> compat_result" where
  "checkTypeCompatibility s t =
     (if dt_type s = TAny \<or> dt_type t = TAny then compat True
      else if dt_type s = dt_type t \<and> dt_isArray s = dt_isArray t then compat True
      else if dt_isArray s \<noteq> dt_isArray t then
        (case dt_arrayElementType s of
           None \<Rightarrow> compat False
         | Some el \<Rightarrow>
             if dt_isArray s \<and> \<not> dt_isArray t \<and> cr_compatible (checkTypeCompatibility el t)
             then convertible Explicit (Some ''Array access required - use [index] syntax'')
             else compat False)
      else
        let sc = getTypeCategory (dt_type s); tc = getTypeCategory (dt_type t)
        in if sc = CBoolean \<or> tc = CBoolean then compat (sc = tc)
           else if sc = CInteger \<and> tc = CFloat then convertible Implicit None
           else if sc = CFloat \<and> tc = CInteger
           then convertible Lossy (Some ''Float to integer conversion may lose precision'')
           else if sc = CInteger \<and> tc = CInteger
           then (if getIntegerWidth (dt_type s) \<le> getIntegerWidth (dt_type t) then convertible Implicit None
                 else convertible Lossy (Some (''Narrowing from '' @ canonical_str (dt_type s) @ '' to '' @ canonical_str (dt_type t))))
           else if sc = CFloat \<and> tc = CFloat
           then (if dt_type s = TFloat64 \<and> dt_type t = TFloat32
                 then convertible Lossy (Some ''float64 to float32 may lose precision'') else convertible Implicit None)
           else if sc = CString \<or> tc = CString then compat (sc = tc)
           else if sc = CObject \<and> tc = CObject
           then (case (dt_objectFields s, dt_objectFields t) of
                   (Some sf, Some tf) \<Rightarrow> check_fields sf (obj_entries tf)
                 | _ \<Rightarrow> compat True)
           else compat False)"
| "check_fields sf [] = compat True"
| "check_fields sf ((n, ft) # rest) =
     (case map_of sf n of
        None \<Rightarrow> incompatible (''Missing field: '' @ n)
      | Some src \<Rightarrow>
          if cr_compatible (checkTypeCompatibility src ft) then check_fields sf rest
          else incompatible (''Field '' @ [CHR 0x27] @ n @ [CHR 0x27] @ '' type mismatch''))"
  by pat_completeness auto
termination
proof (relation "measure (\<lambda>x. case x of Inl (s, t) \<Rightarrow> size s + size t | Inr (sf, tf) \<Rightarrow> fields_size sf + fields_size tf)")
  show "wf (measure (\<lambda>x. case x of Inl (s, t) \<Rightarrow> size s + size t | Inr (sf, tf) \<Rightarrow> fields_size sf + fields_size tf))"
    by simp
qed (auto simp: size_list_entries dest!: element_size object_fields_size map_of_fields_size
    element_size[OF sym] object_fields_size[OF sym])

declare checkTypeCompatibility.simps [simp del]

section \<open>Field paths\<close>

record path_segment =
  seg_field :: string
  seg_arrayIndex :: "nat option"

definition is_ident_start :: "char \<Rightarrow> bool" where
  "is_ident_start c = (let n = (of_char c :: nat) in (65 \<le> n \<and> n \<le> 90) \<or> (97 \<le> n \<and> n \<le> 122) \<or> n = 95)"

definition is_ident :: "char \<Rightarrow> bool" where
  "is_ident c = (is_ident_start c \<or> is_digit c)"

text \<open>The optional group \<open>(?:\[(\d+)\])?\<close> at the front of the rest of the input.\<close>

definition index_suffix :: "string \<Rightarrow> (nat \<times> string) option" where
  "index_suffix s =
     (case s of
        c # cs \<Rightarrow>
          if c = CHR ''['' then
            (let ds = takeWhile is_digit cs; r = dropWhile is_digit cs
             in if ds \<noteq> [] \<and> r \<noteq> [] \<and> hd r = CHR '']'' then Some (num_of_digits ds, tl r) else None)
          else None
      | [] \<Rightarrow> None)"

lemma index_suffix_length: "index_suffix s = Some (n, r) \<Longrightarrow> length r < length s"
  by (auto simp: index_suffix_def Let_def split: list.splits if_splits)
     (metis One_nat_def diff_le_self le_imp_less_Suc length_dropWhile_le order_trans)

function parseFieldPath :: "string \<Rightarrow> path_segment list" where
  "parseFieldPath [] = []"
| "parseFieldPath (c # cs) =
     (if is_ident_start c
      then (let name = c # takeWhile is_ident cs; r = dropWhile is_ident cs
            in case index_suffix r of
                 Some (n, r') \<Rightarrow> \<lparr>seg_field = name, seg_arrayIndex = Some n\<rparr> # parseFieldPath r'
               | None \<Rightarrow> \<lparr>seg_field = name, seg_arrayIndex = None\<rparr> # parseFieldPath r)
      else parseFieldPath cs)"
  by pat_completeness auto
termination
  by (relation "measure length")
     (auto dest!: index_suffix_length simp: less_Suc_eq_le length_dropWhile_le
        intro: order.trans[OF less_imp_le length_dropWhile_le])

declare parseFieldPath.simps(2) [simp del]

text \<open>\<open>resolve_go\<close> is the loop, with the name of the first segment.\<close>

fun resolve_go :: "string \<Rightarrow> data_type_info \<Rightarrow> path_segment list \<Rightarrow> data_type_info option" where
  "resolve_go f0 cur [] = Some cur"
| "resolve_go f0 cur (seg # segs) =
     (case (if seg_arrayIndex seg \<noteq> None
            then (if \<not> dt_isArray cur then None else dt_arrayElementType cur) else Some cur) of
        None \<Rightarrow> None
      | Some cur1 \<Rightarrow>
          (if seg_field seg \<noteq> [] \<and> dt_objectFields cur1 \<noteq> None
           then (case map_of (the (dt_objectFields cur1)) (seg_field seg) of
                   None \<Rightarrow> None
                 | Some ft \<Rightarrow> resolve_go f0 ft segs)
           else if seg_field seg \<noteq> [] \<and> dt_type cur1 \<noteq> TAny \<and> seg_field seg \<noteq> f0 then None
           else resolve_go f0 cur1 segs))"

definition resolveFieldType :: "data_type_info \<Rightarrow> string \<Rightarrow> data_type_info option" where
  "resolveFieldType rootType fieldPath =
     (let segments = parseFieldPath fieldPath
      in resolve_go (case segments of [] \<Rightarrow> [] | s # _ \<Rightarrow> seg_field s) rootType segments)"

section \<open>ROS types\<close>

text \<open>\<open>replace(/\[\d*\]/, '')\<close>: the first bracketed run of digits is removed.\<close>

fun strip_array :: "string \<Rightarrow> string" where
  "strip_array [] = []"
| "strip_array (c # cs) =
     (let r = dropWhile is_digit cs
      in if c = CHR ''['' \<and> r \<noteq> [] \<and> hd r = CHR '']'' then tl r else c # strip_array cs)"

definition primitiveMap :: "(string \<times> canonical_type) list" where
  "primitiveMap =
     [(''bool'', TBool), (''boolean'', TBool), (''int8'', TInt8), (''int16'', TInt16), (''int32'', TInt32),
      (''int'', TInt32), (''int64'', TInt64), (''uint8'', TUint8), (''byte'', TUint8), (''uint16'', TUint16),
      (''uint32'', TUint32), (''uint64'', TUint64), (''float32'', TFloat32), (''float'', TFloat32),
      (''float64'', TFloat64), (''double'', TFloat64), (''string'', TString)]"

definition rosTypeToCanonical :: "string \<Rightarrow> data_type_info" where
  "rosTypeToCanonical rosType =
     (let isArray = (str_includes rosType ''[]'' \<or> str_includes rosType ''['');
          baseType = trim (strip_array rosType);
          canonicalType = coalesce (map_of primitiveMap (toLowerCase baseType)) TObject
      in DataTypeInfo canonicalType (getTypeCategory canonicalType) isArray
           (if isArray
            then Some (DataTypeInfo canonicalType (getTypeCategory canonicalType) False None None (Some baseType))
            else None)
           None (Some rosType))"

definition f64 :: data_type_info where
  "f64 = DataTypeInfo TFloat64 CFloat False None None None"

definition msg_type :: "string option \<Rightarrow> (string \<times> data_type_info) list \<Rightarrow> data_type_info" where
  "msg_type ros fs = DataTypeInfo TObject CObject False None (Some fs) ros"

definition xyz :: "(string \<times> data_type_info) list" where
  "xyz = [(''x'', f64), (''y'', f64), (''z'', f64)]"

definition ROS2_COMMON_TYPES :: "(string \<times> data_type_info) list" where
  "ROS2_COMMON_TYPES =
     [(''geometry_msgs/msg/Vector3'', msg_type (Some ''geometry_msgs/msg/Vector3'') xyz),
      (''geometry_msgs/msg/Point'', msg_type (Some ''geometry_msgs/msg/Point'') xyz),
      (''geometry_msgs/msg/Quaternion'', msg_type (Some ''geometry_msgs/msg/Quaternion'') (xyz @ [(''w'', f64)])),
      (''geometry_msgs/msg/Pose'', msg_type (Some ''geometry_msgs/msg/Pose'')
         [(''position'', msg_type None xyz), (''orientation'', msg_type None (xyz @ [(''w'', f64)]))])]"

section \<open>Facts\<close>

lemma getTypeCategory_simps [simp]:
  "getTypeCategory TBool = CBoolean" "getTypeCategory TInt8 = CInteger" "getTypeCategory TInt16 = CInteger"
  "getTypeCategory TInt32 = CInteger" "getTypeCategory TInt64 = CInteger" "getTypeCategory TUint8 = CInteger"
  "getTypeCategory TUint16 = CInteger" "getTypeCategory TUint32 = CInteger" "getTypeCategory TUint64 = CInteger"
  "getTypeCategory TFloat32 = CFloat" "getTypeCategory TFloat64 = CFloat" "getTypeCategory TString = CString"
  "getTypeCategory TObject = CObject" "getTypeCategory TArray = CArray" "getTypeCategory TAny = CAny"
  by code_simp+

lemma getIntegerWidth_simps [simp]:
  "getIntegerWidth TInt8 = 8" "getIntegerWidth TInt16 = 16" "getIntegerWidth TInt32 = 32" "getIntegerWidth TInt64 = 64"
  "getIntegerWidth TUint8 = 8" "getIntegerWidth TUint16 = 16" "getIntegerWidth TUint32 = 32" "getIntegerWidth TUint64 = 64"
  by code_simp+

lemma compat_sel [simp]:
  "cr_compatible (compat b) = b" "cr_requiresConversion (compat b) = False" "cr_conversionType (compat b) = None"
  "cr_compatible (convertible k m)" "cr_requiresConversion (convertible k m)" "cr_conversionType (convertible k m) = Some k"
  "cr_compatible (incompatible w) = False" "cr_conversionType (incompatible w) = None" "cr_requiresConversion (incompatible w) = False"
  by (simp_all add: compat_def convertible_def incompatible_def)

subsection \<open>What the compatibility check promises\<close>

text \<open>The values of an integer type.\<close>

fun int_range :: "canonical_type \<Rightarrow> int set" where
  "int_range TInt8 = {-(2^7) ..< 2^7}"
| "int_range TInt16 = {-(2^15) ..< 2^15}"
| "int_range TInt32 = {-(2^31) ..< 2^31}"
| "int_range TInt64 = {-(2^63) ..< 2^63}"
| "int_range TUint8 = {0 ..< 2^8}"
| "int_range TUint16 = {0 ..< 2^16}"
| "int_range TUint32 = {0 ..< 2^32}"
| "int_range TUint64 = {0 ..< 2^64}"
| "int_range _ = {}"

definition is_signed :: "canonical_type \<Rightarrow> bool" where
  "is_signed ty = (ty \<in> {TInt8, TInt16, TInt32, TInt64})"

lemma integer_check:
  assumes "getTypeCategory (dt_type s) = CInteger" "getTypeCategory (dt_type t) = CInteger"
    "dt_isArray s = dt_isArray t" "dt_type s \<noteq> dt_type t"
  shows "cr_conversionType (checkTypeCompatibility s t) =
    Some (if getIntegerWidth (dt_type s) \<le> getIntegerWidth (dt_type t) then Implicit else Lossy)"
proof -
  have "dt_type s \<noteq> TAny" "dt_type t \<noteq> TAny" using assms(1,2) by auto
  with assms show ?thesis by (subst checkTypeCompatibility.simps) (simp add: Let_def)
qed

text \<open>Between two different integer types the check answers \<open>implicit\<close> exactly when the target is at least as
  wide. Such a conversion keeps every value of the source type exactly when, in addition, it does not turn a
  signed type into an unsigned one, nor an unsigned type into a signed one of the same width: the check
  looks at the width only.\<close>

theorem implicit_integer_conversion:
  assumes "getTypeCategory (dt_type s) = CInteger" "getTypeCategory (dt_type t) = CInteger"
    and "dt_isArray s = dt_isArray t" "dt_type s \<noteq> dt_type t"
  shows "(cr_conversionType (checkTypeCompatibility s t) = Some Implicit \<longleftrightarrow>
            getIntegerWidth (dt_type s) \<le> getIntegerWidth (dt_type t))
    \<and> (cr_conversionType (checkTypeCompatibility s t) = Some Implicit \<longrightarrow>
         (int_range (dt_type s) \<subseteq> int_range (dt_type t) \<longleftrightarrow>
            (is_signed (dt_type s) \<longrightarrow> is_signed (dt_type t))
            \<and> (\<not> is_signed (dt_type s) \<and> is_signed (dt_type t) \<longrightarrow>
                 getIntegerWidth (dt_type s) < getIntegerWidth (dt_type t))))"
proof -
  have "int_range a \<subseteq> int_range b \<longleftrightarrow>
      (is_signed a \<longrightarrow> is_signed b) \<and> (\<not> is_signed a \<and> is_signed b \<longrightarrow> getIntegerWidth a < getIntegerWidth b)"
    if "getTypeCategory a = CInteger" "getTypeCategory b = CInteger" "getIntegerWidth a \<le> getIntegerWidth b" for a b
    using that by (cases a; cases b) (simp_all add: is_signed_def)
  with assms integer_check[OF assms] show ?thesis by auto
qed

theorem implicit_integer_conversion_witness:
  "cr_conversionType (checkTypeCompatibility (rosTypeToCanonical ''uint32'') (rosTypeToCanonical ''int32'')) = Some Implicit
   \<and> \<not> int_range TUint32 \<subseteq> int_range TInt32"
proof -
  let ?s = "rosTypeToCanonical ''uint32''" and ?t = "rosTypeToCanonical ''int32''"
  have ty: "dt_type ?s = TUint32" "dt_type ?t = TInt32" "dt_isArray ?s = dt_isArray ?t" by code_simp+
  have h: "getTypeCategory (dt_type ?s) = CInteger" "getTypeCategory (dt_type ?t) = CInteger" "dt_type ?s \<noteq> dt_type ?t"
    by (simp_all add: ty)
  show ?thesis
    using implicit_integer_conversion[OF h(1,2) ty(3) h(3)] by (simp add: ty is_signed_def)
qed

text \<open>Two object types are always compatible without conversion, whatever their fields: the exact-match rule
  answers before the field comparison, which is never reached. The documentation of the check says objects
  are compatible if their fields match.\<close>

theorem object_fields_never_compared:
  assumes "dt_type s = TObject" "dt_type t = TObject" "dt_isArray s = dt_isArray t"
  shows "checkTypeCompatibility s t = compat True"
  using assms by (subst checkTypeCompatibility.simps) simp

theorem object_fields_never_compared_witness:
  "checkTypeCompatibility (msg_type None []) (msg_type None xyz) = compat True"
  by (rule object_fields_never_compared) (simp_all add: msg_type_def)

text \<open>The conversions between scalar types that can lose something of the value by narrowing.\<close>

definition narrower_scalar :: "canonical_type \<Rightarrow> canonical_type \<Rightarrow> bool" where
  "narrower_scalar a b \<longleftrightarrow>
     getTypeCategory a = CFloat \<and> getTypeCategory b = CInteger
     \<or> a = TFloat64 \<and> b = TFloat32
     \<or> getTypeCategory a = CInteger \<and> getTypeCategory b = CInteger \<and> getIntegerWidth b < getIntegerWidth a"



subsection \<open>Paths\<close>

definition valid_ident :: "string \<Rightarrow> bool" where
  "valid_ident s = (s \<noteq> [] \<and> is_ident_start (hd s) \<and> list_all is_ident s)"

definition print_segment :: "path_segment \<Rightarrow> string" where
  "print_segment seg =
     seg_field seg @ (case seg_arrayIndex seg of None \<Rightarrow> [] | Some n \<Rightarrow> ''['' @ show_nat n @ '']'')"

definition print_path :: "path_segment list \<Rightarrow> string" where
  "print_path segs = js_join ''.'' (map print_segment segs)"

lemma takeWhile_append_stop: "list_all P xs \<Longrightarrow> \<not> P c \<Longrightarrow> takeWhile P (xs @ c # ys) = xs"
  by (induction xs) auto

lemma dropWhile_append_stop: "list_all P xs \<Longrightarrow> \<not> P c \<Longrightarrow> dropWhile P (xs @ c # ys) = c # ys"
  by (induction xs) auto

lemma takeWhile_all: "list_all P xs \<Longrightarrow> takeWhile P xs = xs"
  by (induction xs) auto

lemma dropWhile_all: "list_all P xs \<Longrightarrow> dropWhile P xs = []"
  by (induction xs) auto

lemma stop_chars [simp]:
  "\<not> is_ident (CHR ''[''  )" "\<not> is_ident (CHR ''.'')" "\<not> is_digit (CHR '']'')"
  by code_simp+

lemma index_suffix_print: "index_suffix (CHR ''['' # show_nat n @ CHR '']'' # r) = Some (n, r)"
  using show_nat_digits[of n]
  by (simp add: index_suffix_def Let_def takeWhile_append_stop dropWhile_append_stop)

text \<open>One printed segment is read back and the rest is left to the next match.\<close>

lemma parse_segment:
  assumes "valid_ident (seg_field seg)" and "r = [] \<or> (\<exists>r'. r = CHR ''.'' # r')"
  shows "parseFieldPath (print_segment seg @ r) = seg # parseFieldPath r"
proof -
  from assms(1) obtain c cs where f: "seg_field seg = c # cs" "is_ident_start c" "list_all is_ident cs"
    by (cases "seg_field seg") (auto simp: valid_ident_def)
  have suf: "index_suffix r = None" using assms(2) by (auto simp: index_suffix_def)
  show ?thesis
  proof (cases "seg_arrayIndex seg")
    case None
    have "takeWhile is_ident (cs @ r) = cs" "dropWhile is_ident (cs @ r) = r"
      using assms(2) f(3) by (auto simp: takeWhile_append_stop dropWhile_append_stop takeWhile_all dropWhile_all)
    with None f suf show ?thesis
      by (cases seg) (simp add: print_segment_def parseFieldPath.simps(2) Let_def)
  next
    case (Some n)
    let ?r = "CHR ''['' # show_nat n @ CHR '']'' # r"
    have "takeWhile is_ident (cs @ ?r) = cs" "dropWhile is_ident (cs @ ?r) = ?r"
      using f(3) by (simp_all add: takeWhile_append_stop dropWhile_append_stop)
    with Some f show ?thesis
      by (cases seg) (simp add: print_segment_def parseFieldPath.simps(2) Let_def index_suffix_print)
  qed
qed

lemma parse_dot: "parseFieldPath (CHR ''.'' # r) = parseFieldPath r"
proof -
  have "\<not> is_ident_start (CHR ''.'')" by code_simp
  then show ?thesis by (simp add: parseFieldPath.simps(2))
qed

lemma parse_print: "list_all (\<lambda>s. valid_ident (seg_field s)) segs \<Longrightarrow> parseFieldPath (print_path segs) = segs"
proof (induction segs)
  case (Cons seg segs)
  then show ?case
  proof (cases segs)
    case Nil
    with Cons show ?thesis using parse_segment[of seg "[]"] by (simp add: print_path_def)
  next
    case (Cons s2 rest)
    with Cons.prems Cons.IH show ?thesis
      using parse_segment[of seg "CHR ''.'' # print_path segs"] by (simp add: print_path_def parse_dot)
  qed
qed (simp add: print_path_def)

text \<open>C39. A field path printed from segments with identifier names, with or without an array index, is parsed back
  to the same segments.\<close>

theorem field_path_roundtrip:
  "list_all (\<lambda>s. valid_ident (seg_field s)) segs \<Longrightarrow> parseFieldPath (print_path segs) = segs"
  by (rule parse_print)

theorem field_path_roundtrip_witness:
  "parseFieldPath ''poses[10].position.x'' =
     [\<lparr>seg_field = ''poses'', seg_arrayIndex = Some 10\<rparr>, \<lparr>seg_field = ''position'', seg_arrayIndex = None\<rparr>,
      \<lparr>seg_field = ''x'', seg_arrayIndex = None\<rparr>]"
proof -
  let ?segs = "[\<lparr>seg_field = ''poses'', seg_arrayIndex = Some 10\<rparr>, \<lparr>seg_field = ''position'', seg_arrayIndex = None\<rparr>,
      \<lparr>seg_field = ''x'', seg_arrayIndex = None\<rparr>]"
  have "list_all (\<lambda>s. valid_ident (seg_field s)) ?segs" "print_path ?segs = ''poses[10].position.x''" by code_simp+
  with field_path_roundtrip[of ?segs] show ?thesis by simp
qed

text \<open>Field access as a specification: every name is looked up in the fields of the type before it.\<close>

fun lookup_fields :: "data_type_info \<Rightarrow> string list \<Rightarrow> data_type_info option" where
  "lookup_fields t [] = Some t"
| "lookup_fields t (n # ns) =
     Option.bind (dt_objectFields t) (\<lambda>fs. Option.bind (map_of fs n) (\<lambda>ft. lookup_fields ft ns))"

definition plain_segments :: "string list \<Rightarrow> path_segment list" where
  "plain_segments ns = map (\<lambda>n. \<lparr>seg_field = n, seg_arrayIndex = None\<rparr>) ns"

lemma resolve_lookup:
  "list_all (\<lambda>n. n \<noteq> []) ns \<Longrightarrow> lookup_fields t ns = Some u \<Longrightarrow> resolve_go f0 t (plain_segments ns) = Some u"
  by (induction ns arbitrary: t) (auto simp: plain_segments_def split: option.splits bind_splits)

text \<open>Resolving a dotted path finds the type the nested field definitions give: whenever every name of the
  path is a field of the object before it, \<open>resolveFieldType\<close> returns the type of the last field.\<close>

theorem resolve_dotted_path:
  assumes "list_all valid_ident ns" "lookup_fields rt ns = Some u"
  shows "resolveFieldType rt (js_join ''.'' ns) = Some u"
proof -
  have p: "print_path (plain_segments ns) = js_join ''.'' ns"
    by (simp add: print_path_def plain_segments_def print_segment_def comp_def)
  have "list_all (\<lambda>s. valid_ident (seg_field s)) (plain_segments ns)"
    using assms(1) by (simp add: plain_segments_def list_all_iff)
  from parse_print[OF this] have "parseFieldPath (js_join ''.'' ns) = plain_segments ns" by (simp add: p)
  moreover have "list_all (\<lambda>n. n \<noteq> []) ns" using assms(1) by (auto simp: list_all_iff valid_ident_def)
  ultimately show ?thesis using resolve_lookup assms(2) by (simp add: resolveFieldType_def)
qed

theorem resolve_dotted_path_witness:
  "resolveFieldType (the (map_of ROS2_COMMON_TYPES ''geometry_msgs/msg/Pose'')) ''position.x'' = Some f64"
proof -
  let ?pose = "the (map_of ROS2_COMMON_TYPES ''geometry_msgs/msg/Pose'')"
  have h: "list_all valid_ident [''position'', ''x'']" "lookup_fields ?pose [''position'', ''x''] = Some f64"
    "js_join ''.'' [''position'', ''x''] = ''position.x''"
    by code_simp+
  from resolve_dotted_path[OF h(1,2)] h(3) show ?thesis by simp
qed

definition poses_type :: data_type_info where
  "poses_type = msg_type None
     [(''poses'', DataTypeInfo TObject CObject True (Some (msg_type None [(''position'', msg_type None xyz)])) None None)]"

text \<open>The path \<open>poses[0].position.x\<close>, the example the documentation of the parser gives, does not resolve in a
  message with an array field \<open>poses\<close>: the index is applied to the message itself before the field is
  looked up, and the message is no array.\<close>

theorem indexed_field_not_resolved:
  "resolveFieldType poses_type ''poses[0].position.x'' = None
   \<and> map_option dt_isArray (resolveFieldType poses_type ''poses'') = Some True"
  by code_simp

subsection \<open>Well-formed type descriptions\<close>

text \<open>The category is the one of the type, an array has an element description and a scalar has none, and
  the same holds inside.\<close>

fun wf_type :: "data_type_info \<Rightarrow> bool" where
  "wf_type (DataTypeInfo ty cat isArr el fs ros) =
     (cat = getTypeCategory ty \<and> isArr = (el \<noteq> None)
      \<and> (case el of None \<Rightarrow> True | Some e \<Rightarrow> wf_type e)
      \<and> (case fs of None \<Rightarrow> True | Some f \<Rightarrow> list_all (\<lambda>(n, t). wf_type t) f))"

lemma wf_element: "wf_type t \<Longrightarrow> dt_arrayElementType t = Some e \<Longrightarrow> wf_type e"
  by (cases t) auto

lemma wf_field: "wf_type t \<Longrightarrow> dt_objectFields t = Some fs \<Longrightarrow> map_of fs n = Some ft \<Longrightarrow> wf_type ft"
  by (cases t) (auto simp: list_all_iff dest!: map_of_SomeD)

lemma resolve_go_wf: "wf_type t \<Longrightarrow> resolve_go f0 t segs = Some u \<Longrightarrow> wf_type u"
proof (induction segs arbitrary: t)
  case (Cons seg segs)
  define cur where "cur = (if seg_arrayIndex seg \<noteq> None
            then (if \<not> dt_isArray t then None else dt_arrayElementType t) else Some t)"
  note step = Cons.prems(2)[unfolded resolve_go.simps, folded cur_def]
  from step obtain c where c: "cur = Some c" by (cases cur) simp_all
  with Cons.prems(1) have wf: "wf_type c" by (auto simp: cur_def wf_element split: if_splits)
  from step c obtain t' where "resolve_go f0 t' segs = Some u"
    "t' = c \<or> (\<exists>fs. dt_objectFields c = Some fs \<and> map_of fs (seg_field seg) = Some t')"
    by (auto split: if_splits option.splits)
  with Cons.IH wf wf_field show ?case by metis
qed simp

text \<open>Every type description the front end computes is well formed: the one of any ROS type string, the
  predefined messages, and whatever a field path resolves to inside a well-formed description.\<close>

theorem type_descriptions_wf:
  "wf_type (rosTypeToCanonical s) \<and> list_all (\<lambda>(n, t). wf_type t) ROS2_COMMON_TYPES
   \<and> (wf_type rt \<longrightarrow> resolveFieldType rt path = Some u \<longrightarrow> wf_type u)"
proof (intro conjI impI)
  show "wf_type (rosTypeToCanonical s)" by (simp add: rosTypeToCanonical_def Let_def)
  show "list_all (\<lambda>(n, t). wf_type t) ROS2_COMMON_TYPES" by code_simp
  show "wf_type u" if "wf_type rt" "resolveFieldType rt path = Some u"
    using that resolve_go_wf by (simp add: resolveFieldType_def Let_def)
qed

theorem type_descriptions_wf_witness:
  "wf_type (rosTypeToCanonical ''float64[3]'') \<and> wf_type f64"
proof -
  let ?v = "snd (hd ROS2_COMMON_TYPES)"
  have "wf_type ?v" "resolveFieldType ?v ''x'' = Some f64" by code_simp+
  with type_descriptions_wf[of "''float64[3]''" ?v "''x''" f64] show ?thesis by blast
qed

end
