(* ===== verification/Param_Editors.thy ===== *)
theory Param_Editors
  imports Tool_Frames Type_System
begin

text \<open>
  The editors of the goal parameters of an action node: which editor a field gets
  (\<^verbatim>\<open>parameter-editors/types.ts\<close>, \<^verbatim>\<open>ParameterEditorFactory.tsx\<close>), the source of a parameter
  (\<^verbatim>\<open>components/ParameterSourceSelector.tsx\<close>), and the edits of primitive values, std_msgs wrappers, arrays and
  joint states. Values of type \<open>unknown\<close> are \<open>json\<close>; a handler returns the value it passes to \<open>onChange\<close>.
\<close>

section \<open>Numbers and strings\<close>

text \<open>\<open>parseFloat\<close>: the longest decimal prefix after white space, NaN if there is none.\<close>

definition take_sign :: "string \<Rightarrow> bool \<times> string" where
  "take_sign s = (case s of c # r \<Rightarrow> if c = CHR ''-'' then (True, r) else if c = CHR ''+'' then (False, r) else (False, s) | [] \<Rightarrow> (False, []))"

definition parse_exponent :: "string \<Rightarrow> int" where
  "parse_exponent s =
     (case s of
        c # r \<Rightarrow>
          (if c = CHR ''e'' \<or> c = CHR ''E'' then
             let (neg, u) = take_sign r; ds = takeWhile is_digit u
             in if ds = [] then 0 else (if neg then - int (num_of_digits ds) else int (num_of_digits ds))
           else 0)
      | [] \<Rightarrow> 0)"

definition pow10 :: "int \<Rightarrow> rat" where
  "pow10 e = (if 0 \<le> e then 10 ^ nat e else 1 / 10 ^ nat (- e))"

definition parseFloat :: "string \<Rightarrow> jsnum" where
  "parseFloat s =
     (let (neg, u) = take_sign (dropWhile is_space s)
      in if prefix ''Infinity'' u then (if neg then NegInf else PosInf)
         else
           let ds = takeWhile is_digit u;
               rest = dropWhile is_digit u;
               hasDot = (case rest of c # _ \<Rightarrow> c = CHR ''.'' | [] \<Rightarrow> False);
               fs = (if hasDot then takeWhile is_digit (tl rest) else []);
               rest' = (if hasDot then dropWhile is_digit (tl rest) else rest);
               mantissa = of_nat (num_of_digits (ds @ fs)) / 10 ^ length fs
           in if ds = [] \<and> fs = [] then NaN
              else Fin ((if neg then - mantissa else mantissa) * pow10 (parse_exponent rest')))"

text \<open>\<open>String(x)\<close>; the decimal representation of a number is an argument.\<close>

fun js_String :: "(jsnum \<Rightarrow> string) \<Rightarrow> json \<Rightarrow> string" where
  "js_String num_str JUndef = ''undefined''"
| "js_String num_str JNull = ''null''"
| "js_String num_str (JBool b) = (if b then ''true'' else ''false'')"
| "js_String num_str (JNum n) = num_str n"
| "js_String num_str (JStr s) = s"
| "js_String num_str (JArr xs) =
     js_join '','' (map (\<lambda>x. if x = JUndef \<or> x = JNull then [] else js_String num_str x) xs)"
| "js_String num_str (JObj _) = ''[object Object]''"

definition js_truthy :: "json \<Rightarrow> bool" where
  "js_truthy v =
     (case v of JUndef \<Rightarrow> False | JNull \<Rightarrow> False | JBool b \<Rightarrow> b | JStr s \<Rightarrow> s \<noteq> []
      | JNum n \<Rightarrow> n \<noteq> NaN \<and> n \<noteq> Fin 0 | JArr _ \<Rightarrow> True | JObj _ \<Rightarrow> True)"

definition to_number :: "(jsnum \<Rightarrow> string) \<Rightarrow> json \<Rightarrow> jsnum" where
  "to_number num_str v = (case v of JNum n \<Rightarrow> n | _ \<Rightarrow> parseFloat (js_String num_str v))"

section \<open>The editor of a field\<close>

datatype editor_type =
    EdPose | EdPoint | EdTwist | EdQuaternion | EdJointArray | EdNumericArray | EdStringArray | EdJointState
  | EdStdPrimitive | EdHeader | EdPrimitive | EdJson

datatype wrapper_type = WString | WBoolean | WNumber

definition numericNames :: "string list" where
  "numericNames =
     [''int8'', ''int16'', ''int32'', ''int64'', ''uint8'', ''uint16'', ''uint32'', ''uint64'',
      ''float32'', ''float64'', ''float'', ''double'']"

text \<open>\<open>s.replace(/\/+/g, '/')\<close>.\<close>

fun collapse_slashes :: "string \<Rightarrow> string" where
  "collapse_slashes (c # d # s) =
     (if c = CHR ''/'' \<and> d = CHR ''/'' then collapse_slashes (d # s) else c # collapse_slashes (d # s))"
| "collapse_slashes s = s"

definition std_normalized :: "string \<Rightarrow> string" where
  "std_normalized rosType =
     (let lower = trim (toLowerCase rosType);
          s1 = substitute ''::'' ''/'' lower;
          s2 = substitute ''__'' ''/'' s1;
          s3 = (if prefix ''std_msgs/'' s2 then ''std_msgs/msg/'' @ drop 9 s2 else s2)
      in collapse_slashes s3)"

definition getStdPrimitiveWrapperType :: "string \<Rightarrow> wrapper_type option" where
  "getStdPrimitiveWrapperType rosType =
     (let normalized = std_normalized rosType
      in if normalized = ''std_msgs/msg/string'' then Some WString
         else if normalized = ''std_msgs/msg/bool'' then Some WBoolean
         else if list_ex (\<lambda>name. normalized = ''std_msgs/msg/'' @ name) numericNames then Some WNumber
         else None)"

text \<open>\<open>s.replace('[]', '')\<close>: the first occurrence only.\<close>

fun remove_brackets :: "string \<Rightarrow> string" where
  "remove_brackets (c # d # s) = (if c = CHR ''['' \<and> d = CHR '']'' then s else c # remove_brackets (d # s))"
| "remove_brackets s = s"

text \<open>\<open>s.replace(/sequence<(.+)>/, '$1')\<close>, the greedy match of the first occurrence that can be closed.\<close>

fun strip_sequence :: "string \<Rightarrow> string" where
  "strip_sequence [] = []"
| "strip_sequence (c # s) =
     (let r = drop 9 (c # s);
          inner = rev (tl (dropWhile (\<lambda>x. x \<noteq> CHR ''>'') (rev r)));
          after = rev (takeWhile (\<lambda>x. x \<noteq> CHR ''>'') (rev r))
      in if prefix ''sequence<'' (c # s) \<and> CHR ''>'' \<in> set (tl r) then inner @ after
         else c # strip_sequence s)"

definition getEditorType :: "string \<Rightarrow> bool \<Rightarrow> editor_type" where
  "getEditorType rosType isArray =
     (let lower = toLowerCase rosType; has = str_includes lower
      in if isArray \<or> has ''[]'' \<or> has ''sequence<'' then
           let baseType = trim (strip_sequence (remove_brackets lower))
           in if str_includes baseType ''float'' \<or> str_includes baseType ''double'' \<or> baseType = ''number'' then EdJointArray
              else if str_includes baseType ''string'' then EdStringArray
              else EdNumericArray
         else if has ''/'' then
           if getStdPrimitiveWrapperType rosType \<noteq> None then EdStdPrimitive
           else if has ''posestamped'' \<or> has ''posewithcovariance'' then EdPose
           else if has ''pose'' \<and> \<not> has ''array'' then EdPose
           else if has ''point'' \<or> has ''vector3'' then EdPoint
           else if has ''twist'' then EdTwist
           else if has ''quaternion'' then EdQuaternion
           else if has ''jointstate'' then EdJointState
           else if has ''header'' then EdHeader
           else EdJson
         else EdPrimitive)"

definition isToolFrameField :: "string \<Rightarrow> bool" where
  "isToolFrameField fieldName =
     (let normalized = toLowerCase fieldName
      in normalized = ''tool'' \<or> normalized = ''toolframe'' \<or> normalized = ''tool_frame''
         \<or> str_includes normalized ''toolframe'' \<or> str_includes normalized ''tool_frame''
         \<or> endsWith normalized ''_tool'' \<or> str_includes normalized ''end_effector'' \<or> str_includes normalized ''eef'')"

datatype param_editor =
    ToolFrameFieldEditor | SourceSelector
  | PoseEditorBinding bool bool  \<comment> \<open>isStamped, isPoint\<close>
  | JointArrayEditorBinding | NumericArrayBinding | StringArrayBinding | PrimitiveEditor
  | StdPrimitiveMessageEditor | TwistEditor | JointStateEditor | JsonEditor

abbreviation is_bound :: "parameter_field_source option \<Rightarrow> bool" where
  "is_bound src \<equiv> (case src of Some s \<Rightarrow> pfs_source s = ''step_result'' \<or> pfs_source s = ''expression'' | None \<Rightarrow> False)"

definition ParameterEditorFactory ::
  "string \<Rightarrow> string \<Rightarrow> bool \<Rightarrow> parameter_field_source option \<Rightarrow> bool \<Rightarrow> param_editor" where
  "ParameterEditorFactory fieldName fieldType isArray fieldSource hasSourceHandler =
     (let editorType = getEditorType fieldType isArray;
          lower = toLowerCase fieldType
      in if \<not> isArray \<and> isToolFrameField fieldName then ToolFrameFieldEditor
         else if is_bound fieldSource \<and> hasSourceHandler then SourceSelector
         else case editorType of
                EdPose \<Rightarrow> PoseEditorBinding (str_includes lower ''stamped'' \<or> str_includes lower ''covariance'') False
              | EdPoint \<Rightarrow> PoseEditorBinding (str_includes lower ''stamped'') True
              | EdJointArray \<Rightarrow> JointArrayEditorBinding
              | EdNumericArray \<Rightarrow> NumericArrayBinding
              | EdStringArray \<Rightarrow> StringArrayBinding
              | EdPrimitive \<Rightarrow> PrimitiveEditor
              | EdStdPrimitive \<Rightarrow> StdPrimitiveMessageEditor
              | EdTwist \<Rightarrow> TwistEditor
              | EdJointState \<Rightarrow> JointStateEditor
              | _ \<Rightarrow> JsonEditor)"

section \<open>Tool frame fields\<close>

definition obj_data :: "json \<Rightarrow> json option" where
  "obj_data v = (case v of JObj kvs \<Rightarrow> map_of kvs ''data'' | _ \<Rightarrow> None)"

definition extractWrappedString :: "json \<Rightarrow> string" where
  "extractWrappedString v =
     (case v of JStr s \<Rightarrow> s | _ \<Rightarrow> (case obj_data v of Some (JStr s) \<Rightarrow> s | _ \<Rightarrow> []))"

definition toolFrameOptions :: "string \<Rightarrow> string list \<Rightarrow> string list" where
  "toolFrameOptions currentToolFrame discovered =
     (if currentToolFrame \<noteq> [] \<and> currentToolFrame \<notin> set discovered then discovered @ [currentToolFrame] else discovered)"

definition isStdStringWrapper :: "string \<Rightarrow> bool" where
  "isStdStringWrapper fieldType =
     (let normalizedType = toLowerCase fieldType
      in getStdPrimitiveWrapperType fieldType = Some WString \<or> str_includes normalizedType ''std_msgs/msg/string''
         \<or> str_includes normalizedType ''std_msgs::msg/string'')"

definition handleToolFrameChange :: "string \<Rightarrow> json \<Rightarrow> string \<Rightarrow> json" where
  "handleToolFrameChange fieldType v nextValue =
     (if isStdStringWrapper fieldType \<or> obj_data v \<noteq> None then JObj [(''data'', JStr nextValue)] else JStr nextValue)"

text \<open>
  The tool frame a node's parameters select (\<^verbatim>\<open>GoalParametersSection.tsx\<close>): the first parameter, in the order
  of \<open>Object.entries\<close>, with a matching name and a string, plain or wrapped.
\<close>

definition extractStringValue :: "json \<Rightarrow> string option" where
  "extractStringValue v =
     (case v of
        JStr s \<Rightarrow> if trim s \<noteq> [] then Some (trim s) else None
      | _ \<Rightarrow> (case obj_data v of Some (JStr s) \<Rightarrow> if trim s \<noteq> [] then Some (trim s) else None | _ \<Rightarrow> None))"

definition tool_frame_key :: "string \<Rightarrow> bool" where
  "tool_frame_key key =
     (let k = toLowerCase key
      in k = ''tool'' \<or> k = ''tool_frame'' \<or> str_includes k ''tool_frame'' \<or> endsWith k ''tool''
         \<or> str_includes k ''eef'' \<or> str_includes k ''end_effector'' \<or> str_includes k ''tcp_frame'')"

fun first_tool_frame :: "(string \<times> json) list \<Rightarrow> string option" where
  "first_tool_frame [] = None"
| "first_tool_frame ((key, v) # params) =
     (if \<not> tool_frame_key key then first_tool_frame params
      else case extractStringValue v of Some s \<Rightarrow> Some s | None \<Rightarrow> first_tool_frame params)"

definition extractToolFrameFromParams :: "(string \<times> json) list \<Rightarrow> string option" where
  "extractToolFrameFromParams params = first_tool_frame (obj_entries params)"

section \<open>Primitive values and wrappers\<close>

definition isManipulatorActionType :: "string option \<Rightarrow> bool" where
  "isManipulatorActionType actionType =
     (let normalized = toLowerCase (orS actionType []);
          compacted = filter (\<lambda>c. CHR ''a'' \<le> c \<and> c \<le> CHR ''z'' \<or> is_digit c) normalized
      in str_includes normalized ''joint_manipulation'' \<or> str_includes normalized ''cartesian_manipulation''
         \<or> str_includes compacted ''jointmanipulation'' \<or> str_includes compacted ''cartesianmanipulation'')"

definition isSpeedFactorField :: "string \<Rightarrow> bool" where
  "isSpeedFactorField fieldName =
     (let normalized = toLowerCase fieldName
      in normalized = ''speed_factor'' \<or> endsWith normalized ''/speed_factor'' \<or> str_includes normalized ''speed_factor'')"

definition shouldUseSpeedSlider :: "string \<Rightarrow> string option \<Rightarrow> string \<Rightarrow> bool" where
  "shouldUseSpeedSlider fieldType actionType fieldName =
     (list_ex (\<lambda>t. str_includes (toLowerCase fieldType) t) numericNames \<and> isManipulatorActionType actionType
      \<and> isSpeedFactorField fieldName)"

definition clampSpeedFactor :: "(jsnum \<Rightarrow> string) \<Rightarrow> json \<Rightarrow> rat" where
  "clampSpeedFactor num_str raw =
     (case to_number num_str raw of Fin r \<Rightarrow> min 1 (max (1/10) r) | _ \<Rightarrow> 1)"

definition normalizedSpeedFactorValue :: "(jsnum \<Rightarrow> string) \<Rightarrow> bool \<Rightarrow> json \<Rightarrow> json" where
  "normalizedSpeedFactorValue num_str slider v =
     (if \<not> slider then v
      else JNum (Fin (case to_number num_str v of Fin r \<Rightarrow> min 1 (max (1/10) r) | _ \<Rightarrow> 1)))"

text \<open>The effect that writes a value outside the range back: None when it leaves the value alone.\<close>

definition speedEffect :: "(jsnum \<Rightarrow> string) \<Rightarrow> bool \<Rightarrow> json \<Rightarrow> json option" where
  "speedEffect num_str slider v =
     (let normalized = normalizedSpeedFactorValue num_str slider v
      in if \<not> slider then None
         else case normalized of
                JNum _ \<Rightarrow> if v = normalized then None else Some normalized
              | _ \<Rightarrow> None)"

definition normalizeWrappedValue :: "json \<Rightarrow> json" where
  "normalizeWrappedValue nextValue =
     (case obj_data nextValue of Some d \<Rightarrow> JObj [(''data'', d)] | None \<Rightarrow> JObj [(''data'', nextValue)])"

definition wrapper_default :: "wrapper_type option \<Rightarrow> json" where
  "wrapper_default wt = (if wt = Some WBoolean then JBool False else if wt = Some WNumber then JNum (Fin 0) else JStr [])"

definition constantValue :: "wrapper_type option \<Rightarrow> json \<Rightarrow> json" where
  "constantValue wt v =
     (let d = the (obj_data (normalizeWrappedValue v)) in if d = JUndef \<or> d = JNull then wrapper_default wt else d)"

definition handleConstantChange :: "(jsnum \<Rightarrow> string) \<Rightarrow> wrapper_type option \<Rightarrow> json \<Rightarrow> json" where
  "handleConstantChange num_str wt nextValue =
     (if wt = Some WBoolean then JObj [(''data'', JBool (js_truthy nextValue))]
      else if wt = Some WNumber then
        let n = to_number num_str nextValue in JObj [(''data'', JNum (if isFinite n then n else Fin 0))]
      else JObj [(''data'', JStr (if nextValue = JUndef \<or> nextValue = JNull then [] else js_String num_str nextValue))])"

section \<open>Arrays\<close>

definition array_value :: "json \<Rightarrow> json list" where
  "array_value v = (case v of JArr xs \<Rightarrow> xs | _ \<Rightarrow> [])"

definition addElement :: "json \<Rightarrow> json \<Rightarrow> json" where
  "addElement empty_value v = JArr (array_value v @ [empty_value])"

definition removeElement :: "nat \<Rightarrow> json \<Rightarrow> json" where
  "removeElement index v = JArr (map snd (filter (\<lambda>(i, _). i \<noteq> index) (enumerate 0 (array_value v))))"

definition updateElement :: "nat \<Rightarrow> json \<Rightarrow> json \<Rightarrow> json" where
  "updateElement index newValue v =
     (let xs = array_value v
      in JArr (if index < length xs then xs[index := newValue]
               else xs @ replicate (index - length xs) JUndef @ [newValue]))"

section \<open>The source of a parameter\<close>

record step_info =
  si_id :: string
  si_name :: string
  si_resultFields :: "(string \<times> string) list option"  \<comment> \<open>name and type\<close>

record runtime_binding =
  rb_key :: string
  rb_expression :: string
  rb_label :: string
  rb_description :: "string option"

definition source_of :: "string \<Rightarrow> parameter_field_source" where
  "source_of s =
     \<lparr>pfs_source = s, pfs_value = None, pfs_step_id = None, pfs_result_field = None, pfs_expression = None,
      pfs_source_type = None, pfs_target_type = None, pfs_conversion = None\<rparr>"

abbreviation bindable :: "step_info \<Rightarrow> bool" where
  "bindable s \<equiv> length (coalesce (si_resultFields s) []) > 0"

definition first_field :: "step_info \<Rightarrow> string" where
  "first_field s = (case coalesce (si_resultFields s) [] of (n, _) # _ \<Rightarrow> orS (Some n) [] | [] \<Rightarrow> [])"

definition step_binding :: "string \<Rightarrow> string \<Rightarrow> parameter_field_source" where
  "step_binding stepId fieldName =
     (source_of ''step_result'')\<lparr>pfs_step_id := Some stepId, pfs_result_field := Some fieldName\<rparr>"

text \<open>The button \<open>use the result of a previous step\<close> of the array, pose and joint editors.\<close>

definition bindFirstStep :: "step_info list option \<Rightarrow> parameter_field_source option" where
  "bindFirstStep availableSteps =
     map_option (\<lambda>s. step_binding (si_id s) (first_field s)) (find bindable (coalesce availableSteps []))"

text \<open>The handlers of the selector; the outer option is None when \<open>onChange\<close> is not called.\<close>

definition switchToConstant :: "parameter_field_source option option" where
  "switchToConstant = Some None"

definition switchToBinding :: "step_info list \<Rightarrow> parameter_field_source option option" where
  "switchToBinding availableSteps =
     (case availableSteps of [] \<Rightarrow> None | s # _ \<Rightarrow> Some (Some (step_binding (si_id s) (first_field s))))"

definition onBindingClick :: "step_info list \<Rightarrow> parameter_field_source option \<Rightarrow> parameter_field_source option option" where
  "onBindingClick availableSteps fieldSource =
     (if list_ex bindable availableSteps \<and> map_option pfs_source fieldSource \<noteq> Some ''step_result''
      then switchToBinding availableSteps else None)"

definition switchToRuntimeBinding :: "runtime_binding list \<Rightarrow> parameter_field_source option option" where
  "switchToRuntimeBinding runtimeBindings =
     (case runtimeBindings of
        [] \<Rightarrow> None
      | b # _ \<Rightarrow> Some (Some ((source_of ''expression'')\<lparr>pfs_expression := Some (rb_expression b)\<rparr>)))"

definition getFieldCompatibility :: "string option \<Rightarrow> string \<Rightarrow> compat_result option" where
  "getFieldCompatibility targetFieldType fieldType =
     (if truthy targetFieldType
      then Some (checkTypeCompatibility (rosTypeToCanonical fieldType) (rosTypeToCanonical (the targetFieldType)))
      else None)"

datatype compat_tooltip = TipCompatible | TipIncompatible | TipLossy | TipMessage string

definition getCompatibilityIndicator :: "compat_result option \<Rightarrow> string \<times> compat_tooltip" where
  "getCompatibilityIndicator result =
     (case result of
        None \<Rightarrow> (''#22c55e'', TipCompatible)
      | Some r \<Rightarrow>
          let message = \<lambda>d. if truthy (cr_warningMessage r) then TipMessage (the (cr_warningMessage r)) else d
          in if \<not> cr_compatible r then (''#ef4444'', message TipIncompatible)
             else if cr_conversionType r = Some Lossy then (''#f59e0b'', message TipLossy)
             else (''#22c55e'', TipCompatible))"

text \<open>A field's button is disabled when its type is known not to fit.\<close>

definition selectField :: "string option \<Rightarrow> string \<Rightarrow> string \<times> string \<Rightarrow> parameter_field_source option option" where
  "selectField targetFieldType stepId field =
     (case getFieldCompatibility targetFieldType (snd field) of
        Some r \<Rightarrow> if cr_compatible r then Some (Some (step_binding stepId (fst field))) else None
      | None \<Rightarrow> Some (Some (step_binding stepId (fst field))))"

section \<open>Joint states\<close>

definition FIXED_JOINT_ORDER :: "string list" where
  "FIXED_JOINT_ORDER =
     [''shoulder_pan_joint'', ''shoulder_lift_joint'', ''elbow_joint'', ''wrist_1_joint'', ''wrist_2_joint'', ''wrist_3_joint'']"

record joint_state =
  js_name :: "string list option"
  js_position :: "real list option"

datatype angle_unit = Rad | Deg

definition joint_map :: "joint_state option \<Rightarrow> (string \<times> real) list" where
  "joint_map st =
     (let names = coalesce (Option.bind st js_name) []; positions = coalesce (Option.bind st js_position) []
      in fold (\<lambda>(i, n) m. if i < length positions then map_set n (positions ! i) m else m) (enumerate 0 names) [])"

definition orderedLiveJoints :: "joint_state option \<Rightarrow> (string \<times> real option) list" where
  "orderedLiveJoints live = map (\<lambda>n. (n, map_of (joint_map live) n)) FIXED_JOINT_ORDER"

definition hasLiveTelemetry :: "joint_state option \<Rightarrow> bool" where
  "hasLiveTelemetry live = list_ex (\<lambda>(_, p). p \<noteq> None) (orderedLiveJoints live)"

definition jointPositions :: "joint_state option \<Rightarrow> real list" where
  "jointPositions v = map (\<lambda>n. coalesce (map_of (joint_map v) n) 0) FIXED_JOINT_ORDER"

definition joint_hasValue :: "joint_state option \<Rightarrow> bool" where
  "joint_hasValue v =
     (length (coalesce (Option.bind v js_name) []) > 0 \<or> length (coalesce (Option.bind v js_position) []) > 0)"

definition joint_value :: "real list \<Rightarrow> joint_state" where
  "joint_value ps = \<lparr>js_name = Some FIXED_JOINT_ORDER, js_position = Some ps\<rparr>"

definition joint_handleCapture :: "joint_state option \<Rightarrow> joint_state option" where
  "joint_handleCapture live = (if \<not> hasLiveTelemetry live then None else Some (joint_value (jointPositions live)))"

definition startManualInput :: "joint_state option \<Rightarrow> joint_state option" where
  "startManualInput v = (if joint_hasValue v then None else Some (joint_value (map (\<lambda>_. 0) FIXED_JOINT_ORDER)))"

definition updateManualJointPosition :: "angle_unit \<Rightarrow> nat \<Rightarrow> real \<Rightarrow> joint_state option \<Rightarrow> joint_state" where
  "updateManualJointPosition unit index nextDisplayPosition v =
     joint_value ((jointPositions v)[index := (if unit = Deg then nextDisplayPosition * (pi / 180) else nextDisplayPosition)])"

definition displayJointPositions :: "angle_unit \<Rightarrow> joint_state option \<Rightarrow> real list" where
  "displayJointPositions unit v = map (\<lambda>p. if unit = Deg then p * (180 / pi) else p) (jointPositions v)"

definition calcDiff :: "real \<Rightarrow> real \<Rightarrow> real \<times> string" where
  "calcDiff current saved =
     (let diff = current - saved
      in if \<bar>diff\<bar> < 1 / 1000 then (0, ''same'') else (diff, if diff > 0 then ''up'' else ''down''))"

section \<open>Properties\<close>

text \<open>
  C0. The speed factor of a manipulator action stays between 0.1 and 1, whatever is stored or typed (a
  missing or unreadable value becomes 1), the slider and the effect that repairs a stored value agree, and
  the repair is done once: after it the effect has nothing left to write.
\<close>

theorem speed_factor_bounds:
  "1/10 \<le> clampSpeedFactor num_str v \<and> clampSpeedFactor num_str v \<le> 1 \<and>
   normalizedSpeedFactorValue num_str True v = JNum (Fin (clampSpeedFactor num_str v)) \<and>
   (case speedEffect num_str True v of
      None \<Rightarrow> v = JNum (Fin (clampSpeedFactor num_str v))
    | Some w \<Rightarrow> w = JNum (Fin (clampSpeedFactor num_str v)) \<and> speedEffect num_str True w = None)"
proof -
  have n: "normalizedSpeedFactorValue num_str True u = JNum (Fin (clampSpeedFactor num_str u))" for u
    by (simp add: normalizedSpeedFactorValue_def clampSpeedFactor_def)
  have b: "1/10 \<le> clampSpeedFactor num_str v" "clampSpeedFactor num_str v \<le> 1"
    by (auto simp: clampSpeedFactor_def max_def min_def split: jsnum.splits)
  then have "clampSpeedFactor num_str (JNum (Fin (clampSpeedFactor num_str v))) = clampSpeedFactor num_str v"
    by (subst clampSpeedFactor_def) (simp add: to_number_def max_def min_def)
  with b n show ?thesis by (simp add: speedEffect_def Let_def)
qed

lemma join_split_acc:
  assumes "pat \<noteq> []"
  shows "js_join v (split_go pat acc s) = rev acc @ js_join v (split_go pat [] s)"
proof (induction "length s" arbitrary: acc s rule: less_induct)
  case less
  show ?case
  proof (cases "prefix pat s \<or> s = []")
    case True
    then show ?thesis
      using assms by (auto simp: split_go.simps[of pat acc s] split_go.simps[of pat "[]" s] js_join_Cons split_go_nonempty)
  next
    case False
    then obtain c cs where s: "s = c # cs" by (cases s) auto
    have "split_go pat a s = split_go pat (c # a) cs" for a
      using False by (subst split_go.simps) (simp add: s)
    then show ?thesis using less[of cs "c # acc"] less[of cs "[c]"] by (simp add: s)
  qed
qed

lemma substitute_Cons:
  assumes "pat \<noteq> []" "\<not> prefix pat (c # s)"
  shows "substitute pat v (c # s) = c # substitute pat v s"
proof -
  have "split_go pat [] (c # s) = split_go pat [c] s" using assms(2) by (subst split_go.simps) simp
  then show ?thesis using assms(1) join_split_acc[OF assms(1), of v "[c]" s] by (simp add: substitute_def js_split_def)
qed

lemma trim_prefix:
  assumes "p \<noteq> []" "\<not> is_space (hd p)" "\<not> is_space (last p)"
  shows "\<exists>m'. trim (p @ m) = p @ m'"
proof -
  have "dropWhile is_space (p @ m) = p @ m" using assms by (cases p) auto
  moreover have "\<exists>r. dropWhile is_space (rev m @ rev p) = r @ rev p"
  proof (cases "\<forall>x \<in> set m. is_space x")
    case True
    have "dropWhile is_space (rev p) = rev p" using assms by (cases p rule: rev_cases) auto
    then show ?thesis using True dropWhile_append2[of "rev m" is_space "rev p"] by (intro exI[of _ "[]"]) simp
  next
    case False
    then show ?thesis by (auto simp: dropWhile_append1)
  qed
  ultimately show ?thesis by (auto simp: trim_def)
qed

lemma std_prefix_doubled: "\<exists>m. std_normalized (''std_msgs/msg/'' @ n) = ''std_msgs/msg/msg'' @ m"
proof -
  have low: "toLowerCase ''std_msgs/msg/'' = ''std_msgs/msg/''" by code_simp
  have sp: "\<not> is_space (hd ''std_msgs/msg/'')" "\<not> is_space (last ''std_msgs/msg/'')" by code_simp+
  obtain m where m: "trim (toLowerCase (''std_msgs/msg/'' @ n)) = ''std_msgs/msg/'' @ m"
    using trim_prefix[of "''std_msgs/msg/''" "toLowerCase n", OF _ sp] unfolding toLowerCase_append low by auto
  have subst: "substitute ''::'' ''/'' (''std_msgs/msg/'' @ u) = ''std_msgs/msg/'' @ substitute ''::'' ''/'' u"
    "substitute ''__'' ''/'' (''std_msgs/msg/'' @ u) = ''std_msgs/msg/'' @ substitute ''__'' ''/'' u" for u
    by (simp_all add: substitute_Cons)
  have "std_normalized (''std_msgs/msg/'' @ n) =
      collapse_slashes (''std_msgs/msg/msg/'' @ substitute ''__'' ''/'' (substitute ''::'' ''/'' m))"
    unfolding std_normalized_def Let_def m subst by simp
  then show ?thesis by simp
qed

text \<open>
  C0. The full ROS 2 names of the std_msgs wrappers, such as \<open>std_msgs/msg/String\<close>, are not recognised: the
  package prefix is expanded although \<open>msg\<close> is already there. Such a field gets the JSON editor; only the
  short form without \<open>msg\<close> gets the wrapper editor.
\<close>

theorem std_wrappers_missed:
  "getStdPrimitiveWrapperType (''std_msgs/msg/'' @ name) = None \<and>
   getStdPrimitiveWrapperType ''std_msgs/String'' = Some WString \<and>
   getEditorType ''std_msgs/msg/String'' False = EdJson \<and> getEditorType ''std_msgs/String'' False = EdStdPrimitive"
proof -
  have "getStdPrimitiveWrapperType (''std_msgs/msg/'' @ name) = None"
    using std_prefix_doubled[of name] by (auto simp: getStdPrimitiveWrapperType_def Let_def numericNames_def)
  moreover have "getStdPrimitiveWrapperType ''std_msgs/String'' = Some WString" by code_simp
  moreover have "getEditorType ''std_msgs/msg/String'' False = EdJson" by code_simp
  moreover have "getEditorType ''std_msgs/String'' False = EdStdPrimitive" by code_simp
  ultimately show ?thesis by simp
qed

text \<open>What a wrapper editor writes is a wrapper of its type, and is read back as the value written.\<close>

lemma wrapper_change_typed:
  "\<exists>d. handleConstantChange num_str wt v = JObj [(''data'', d)] \<and> constantValue wt (JObj [(''data'', d)]) = d \<and>
     (case wt of Some WBoolean \<Rightarrow> \<exists>b. d = JBool b | Some WNumber \<Rightarrow> \<exists>r. d = JNum (Fin r) | _ \<Rightarrow> \<exists>s. d = JStr s)"
proof -
  have "\<exists>r. (if isFinite n then n else Fin 0) = Fin r" for n by (cases n) auto
  then show ?thesis
    by (auto simp: handleConstantChange_def constantValue_def normalizeWrappedValue_def obj_data_def Let_def
        split: option.splits wrapper_type.splits)
qed

lemma tool_frame_change_read:
  "extractWrappedString (handleToolFrameChange fieldType v frame) = frame"
  by (simp add: handleToolFrameChange_def extractWrappedString_def obj_data_def)

text \<open>The frame written by the tool frame editor is the one the pose editor of the node then uses.\<close>

lemma chosen_frame_used:
  assumes "trimmed frame" "frame \<noteq> []" "tool_frame_key key"
  shows "extractToolFrameFromParams [(key, handleToolFrameChange fieldType v frame)] = Some frame"
proof -
  have "obj_entries [(key, w)] = [(key, w)]" for w :: json
    using mset_obj_entries[of "[(key, w)]"] by simp
  with assms show ?thesis
    by (simp add: extractToolFrameFromParams_def handleToolFrameChange_def extractStringValue_def obj_data_def trimmed_def)
qed

lemma tool_options_complete:
  "set (toolFrameOptions cur discovered) = set discovered \<union> (if cur = [] then {} else {cur})"
  "distinct discovered \<Longrightarrow> distinct (toolFrameOptions cur discovered)"
  by (auto simp: toolFrameOptions_def)

text \<open>The array editors.\<close>

lemma removeElement_array: "removeElement i (JArr xs) = JArr (take i xs @ drop (Suc i) xs)"
proof -
  have "map snd (filter (\<lambda>(j, _). j \<noteq> i + k) (enumerate k xs)) = take i xs @ drop (Suc i) xs" for k
  proof (induction xs arbitrary: i k)
    case (Cons x xs)
    show ?case
    proof (cases i)
      case 0
      have "filter (\<lambda>(j, _). j \<noteq> k) (enumerate (Suc k) xs) = enumerate (Suc k) xs"
        by (auto simp: filter_id_conv in_set_enumerate_eq)
      then show ?thesis by (simp add: 0 case_prod_unfold)
    next
      case (Suc m)
      then show ?thesis using Cons.IH[of m "Suc k"] by simp
    qed
  qed simp
  from this[of 0] show ?thesis by (simp add: removeElement_def array_value_def)
qed

lemma updateElement_array:
  "i < length xs \<Longrightarrow> updateElement i y (JArr xs) = JArr (xs[i := y])"
  by (simp add: updateElement_def array_value_def)

section \<open>Bindings\<close>

text \<open>
  The array and pose editors bind to the first step that has result fields, so their binding names a field;
  the selector takes the first step whether or not it has any, and can bind to the empty field.
\<close>

definition real_field :: "step_info list \<Rightarrow> parameter_field_source \<Rightarrow> bool" where
  "real_field steps src =
     (\<exists>s \<in> set steps. pfs_step_id src = Some (si_id s) \<and>
        (\<exists>f \<in> set (coalesce (si_resultFields s) []). pfs_result_field src = Some (fst f)))"

lemma bindFirstStep_real: "bindFirstStep (Some steps) = Some src \<Longrightarrow> real_field steps src"
proof -
  assume "bindFirstStep (Some steps) = Some src"
  then obtain s where s: "find bindable steps = Some s" "src = step_binding (si_id s) (first_field s)"
    by (auto simp: bindFirstStep_def)
  then have "s \<in> set steps" "coalesce (si_resultFields s) [] \<noteq> []" by (auto dest: find_SomeD)
  then show ?thesis
    by (cases "coalesce (si_resultFields s) []")
      (auto simp: real_field_def s step_binding_def first_field_def source_of_def orS_def truthy_def intro!: bexI[of _ s])
qed

lemma switch_binding_empty_field:
  "onBindingClick
     [\<lparr>si_id = ''wait'', si_name = ''wait'', si_resultFields = None\<rparr>,
      \<lparr>si_id = ''move'', si_name = ''move'', si_resultFields = Some [(''pose'', ''geometry_msgs/Pose'')]\<rparr>] None =
     Some (Some (step_binding ''wait'' []))"
  by code_simp

section \<open>Joint states\<close>

lemma joint_map_ordered:
  assumes "length ps = length FIXED_JOINT_ORDER"
  shows "jointPositions (Some (joint_value ps)) = ps"
proof -
  from assms obtain a b c d e f where ps: "ps = [a, b, c, d, e, f]"
    by (auto simp: FIXED_JOINT_ORDER_def length_Suc_conv)
  show ?thesis
    by (simp add: ps jointPositions_def joint_map_def joint_value_def FIXED_JOINT_ORDER_def)
qed

lemma length_jointPositions [simp]: "length (jointPositions v) = length FIXED_JOINT_ORDER"
  by (simp add: jointPositions_def)

text \<open>
  C0. Typing a joint angle is exact in both units: the joint then shows the number typed, the other joints
  show what they showed before, and all six joints are named in the fixed order.
\<close>

theorem joint_edit_exact:
  assumes "index < 6"
  shows "displayJointPositions unit (Some (updateManualJointPosition unit index d v)) =
    (displayJointPositions unit v)[index := d] \<and>
    js_name (updateManualJointPosition unit index d v) = Some FIXED_JOINT_ORDER"
proof -
  let ?new = "(if unit = Deg then d * (pi / 180) else d)"
  have "jointPositions (Some (updateManualJointPosition unit index d v)) = (jointPositions v)[index := ?new]"
    by (simp add: updateManualJointPosition_def joint_map_ordered)
  then show ?thesis
    by (simp add: displayJointPositions_def map_update updateManualJointPosition_def joint_value_def)
qed

theorem joint_edit_exact_witness:
  "displayJointPositions Deg (Some (updateManualJointPosition Deg 2 90 None)) = [0, 0, 90, 0, 0, 0]"
proof -
  have "displayJointPositions Deg None = [0, 0, 0, 0, 0, 0]"
    by (simp add: displayJointPositions_def jointPositions_def joint_map_def FIXED_JOINT_ORDER_def)
  then show ?thesis using joint_edit_exact[of 2 Deg 90 None] by simp
qed

text \<open>
  Capturing needs only one of the six joints in the telemetry; the others are captured as 0. And editing a
  value whose joints have other names drops them.
\<close>

lemma capture_invents_zeros:
  "joint_handleCapture (Some \<lparr>js_name = Some [''elbow_joint''], js_position = Some [1]\<rparr>) = Some (joint_value [0, 0, 1, 0, 0, 0])"
  by (simp add: joint_handleCapture_def hasLiveTelemetry_def orderedLiveJoints_def jointPositions_def joint_map_def
      FIXED_JOINT_ORDER_def)

lemma edit_drops_other_joints:
  "updateManualJointPosition Rad 0 1 (Some \<lparr>js_name = Some [''joint_1'', ''joint_2''], js_position = Some [5, 6]\<rparr>) =
     joint_value [1, 0, 0, 0, 0, 0]"
  by (simp add: updateManualJointPosition_def jointPositions_def joint_map_def FIXED_JOINT_ORDER_def)

end
