(* ===== verification/Pddl_Realtime.thy ===== *)
theory Pddl_Realtime
  imports Fleet_Types
begin

text \<open>
  Planning requests and realtime sessions (\<^verbatim>\<open>pages/PDDL/index.tsx\<close>): when a plan can be asked for, executed or run
  in real time and what the page says when it cannot, the requests the handlers send and what they do with
  the answers, and the session they start, poll and stop. Answers are arguments: a value or an error. A handler that
  sets a flag while it waits is cut at its request: \<open>handleX\<close> goes up to the request, \<open>handleX_answered\<close> takes the state at the time of the
  answer. The notices shown to the user are not part of the state.
\<close>

section \<open>Errors\<close>

record api_error =
  er_status :: "nat option"
  er_data_error :: "string option"
  er_data_message :: "string option"
  er_message :: "string option"
  er_text :: string  \<comment> \<open>\<open>String(error)\<close>\<close>

definition getApiErrorMessage :: "api_error \<Rightarrow> string" where
  "getApiErrorMessage err = orS (er_data_error err) (orS (er_data_message err) (orS (er_message err) (er_text err)))"

definition isMissingRealtimeSessionError :: "api_error \<Rightarrow> bool" where
  "isMissingRealtimeSessionError err =
     (let detail = toLowerCase (orS (er_data_error err) (orS (er_data_message err) (orS (er_message err) [])))
      in er_status err = Some 404
         \<or> er_status err = Some 400 \<and> str_includes detail ''not found''
         \<or> str_includes detail ''realtime session'' \<and> str_includes detail ''not found'')"

section \<open>The form\<close>

record plan_form =
  fm_distributor :: "string option"            \<comment> \<open>id of \<open>selectedDistributor\<close>\<close>
  fm_behaviorTreeIds :: "string list"          \<comment> \<open>\<open>selectedBehaviorTreeIds\<close>\<close>
  fm_agentIds :: "string list"                 \<comment> \<open>\<open>resolvedSelectedAgentIds\<close>\<close>
  fm_goalState :: "(string \<times> string) list"
  fm_initialState :: "(string \<times> string) list"
  fm_plan :: "plan_result option"
  fm_executionId :: "string option"
  fm_execution :: "plan_execution option"
  fm_realtimeGoals :: "realtime_goal_rule list"
  fm_tickIntervalSec :: jsnum
  fm_realtimeSessionId :: "string option"
  fm_realtimeSession :: "realtime_session option"
  fm_realtimeExecutionMap :: "(string \<times> plan_execution) list"
  fm_resourceAllocations :: "resource_allocation list"
  fm_isSolving :: bool
  fm_isStartingRealtime :: bool
  fm_isStoppingRealtime :: bool

definition selectedBehaviorTreeIds :: "behavior_tree list \<Rightarrow> string list \<Rightarrow> string list \<Rightarrow> string list" where
  "selectedBehaviorTreeIds selectedBTs selectedBTIds taskIds =
     (let fromLoaded = map bt_id selectedBTs
      in if length fromLoaded > 0 then fromLoaded else filter (\<lambda>i. i \<in> set taskIds) selectedBTIds)"

definition isExecuting :: "plan_form \<Rightarrow> bool" where
  "isExecuting f = (map_option px_status (fm_execution f) \<in> {Some ''running'', Some ''pending''})"

definition plan_valid :: "plan_form \<Rightarrow> bool" where
  "plan_valid f = (case fm_plan f of None \<Rightarrow> False | Some p \<Rightarrow> pl_is_valid p)"

datatype need =
    NeedDistributor | NeedBT | NeedAgents | NeedGoal | AlreadyExecuting | NeedValidPlan
  | NeedRealtimeGoal | SessionStarting | SessionStopping | SessionActive | CheckConditions

definition pendingRequirements :: "plan_form \<Rightarrow> need list" where
  "pendingRequirements f =
     (if fm_distributor f = None then [NeedDistributor] else [])
     @ (if length (fm_behaviorTreeIds f) = 0 then [NeedBT] else [])
     @ (if length (fm_agentIds f) = 0 then [NeedAgents] else [])
     @ (if length (fm_goalState f) = 0 then [NeedGoal] else [])"

definition solveTooltip :: "plan_form \<Rightarrow> need option" where
  "solveTooltip f =
     (if fm_distributor f = None then Some NeedDistributor
      else if length (fm_behaviorTreeIds f) = 0 then Some NeedBT
      else if length (fm_agentIds f) = 0 then Some NeedAgents
      else if length (fm_goalState f) = 0 then Some NeedGoal else None)"

definition executeTooltip :: "plan_form \<Rightarrow> need option" where
  "executeTooltip f =
     (if fm_distributor f = None then Some NeedDistributor
      else if length (fm_behaviorTreeIds f) = 0 then Some NeedBT
      else if isExecuting f then Some AlreadyExecuting
      else if \<not> plan_valid f then Some NeedValidPlan else None)"

definition canSolve :: "plan_form \<Rightarrow> bool" where
  "canSolve f = (fm_distributor f \<noteq> None \<and> length (fm_behaviorTreeIds f) > 0 \<and> length (fm_agentIds f) > 0 \<and> length (fm_goalState f) > 0)"

text \<open>The \<open>disabled\<close> of the buttons that preview and that solve.\<close>

definition solveDisabled :: "plan_form \<Rightarrow> bool" where
  "solveDisabled f = (\<not> canSolve f \<or> fm_isSolving f)"

definition canExecute :: "plan_form \<Rightarrow> bool" where
  "canExecute f = (fm_distributor f \<noteq> None \<and> length (fm_behaviorTreeIds f) > 0 \<and> plan_valid f \<and> \<not> isExecuting f)"

definition validRealtimeGoals :: "plan_form \<Rightarrow> realtime_goal_rule list" where
  "validRealtimeGoals f = filter (\<lambda>g. rg_enabled g \<and> length (rg_goal_state g) > 0) (fm_realtimeGoals f)"

definition isRealtimeActive :: "plan_form \<Rightarrow> bool" where
  "isRealtimeActive f =
     (truthy (fm_realtimeSessionId f) \<and> (case fm_realtimeSession f of None \<Rightarrow> False | Some s \<Rightarrow> rs_status s \<noteq> ''stopped''))"

definition canStartRealtime :: "plan_form \<Rightarrow> bool" where
  "canStartRealtime f =
     (fm_distributor f \<noteq> None \<and> length (fm_behaviorTreeIds f) > 0 \<and> length (fm_agentIds f) > 0
      \<and> length (validRealtimeGoals f) > 0 \<and> \<not> fm_isStartingRealtime f \<and> \<not> fm_isStoppingRealtime f
      \<and> \<not> isRealtimeActive f \<and> \<not> isExecuting f)"

definition realtimeStartDisabledReason :: "plan_form \<Rightarrow> need option" where
  "realtimeStartDisabledReason f =
     (if canStartRealtime f then None
      else if fm_distributor f = None then Some NeedDistributor
      else if length (fm_behaviorTreeIds f) = 0 then Some NeedBT
      else if length (fm_agentIds f) = 0 then Some NeedAgents
      else if length (validRealtimeGoals f) = 0 then Some NeedRealtimeGoal
      else if isExecuting f then Some AlreadyExecuting
      else if fm_isStartingRealtime f then Some SessionStarting
      else if fm_isStoppingRealtime f then Some SessionStopping
      else if isRealtimeActive f then Some SessionActive
      else Some CheckConditions)"

section \<open>Requests\<close>

record plan_request =
  rq_behavior_tree_id :: string
  rq_behavior_tree_ids :: "string list"
  rq_task_distributor_id :: string
  rq_initial_state :: "(string \<times> string) list option"
  rq_goal_state :: "(string \<times> string) list"
  rq_agent_ids :: "string list"

definition plan_request_of :: "plan_form \<Rightarrow> plan_request" where
  "plan_request_of f =
     \<lparr>rq_behavior_tree_id = hd (fm_behaviorTreeIds f), rq_behavior_tree_ids = fm_behaviorTreeIds f,
      rq_task_distributor_id = the (fm_distributor f),
      rq_initial_state = (if length (fm_initialState f) > 0 then Some (fm_initialState f) else None),
      rq_goal_state = fm_goalState f, rq_agent_ids = fm_agentIds f\<rparr>"

definition failed_plan :: "api_error \<Rightarrow> plan_result" where
  "failed_plan err = \<lparr>pl_assignments = [], pl_is_valid = False, pl_error_message = Some (getApiErrorMessage err),
     pl_total_tasks = None, pl_total_steps = 0, pl_parallel_groups = 0\<rparr>"

definition clear_results :: "plan_form \<Rightarrow> plan_form" where
  "clear_results f =
     f\<lparr>fm_plan := None, fm_executionId := None, fm_execution := None, fm_realtimeExecutionMap := [], fm_resourceAllocations := []\<rparr>"

definition handlePreview :: "plan_form \<Rightarrow> plan_request option \<times> plan_form" where
  "handlePreview f =
     (if length (fm_behaviorTreeIds f) = 0 \<or> fm_distributor f = None \<or> length (fm_agentIds f) = 0 \<or> length (fm_goalState f) = 0
      then (None, f)
      else (Some (plan_request_of f), (clear_results f)\<lparr>fm_isSolving := True\<rparr>))"

definition handlePreview_answered :: "api_error + plan_result \<Rightarrow> plan_form \<Rightarrow> plan_form" where
  "handlePreview_answered reply f =
     f\<lparr>fm_plan := Some (case reply of Inl err \<Rightarrow> failed_plan err | Inr p \<Rightarrow> p), fm_isSolving := False\<rparr>"

text \<open>The answers of creating and of solving the problem; a solved problem may carry no plan.\<close>

definition handleSaveAndSolve :: "plan_form \<Rightarrow> plan_request option \<times> plan_form" where
  "handleSaveAndSolve f =
     (if length (fm_behaviorTreeIds f) = 0 \<or> fm_distributor f = None \<or> length (fm_agentIds f) = 0 \<or> length (fm_goalState f) = 0
      then (None, f)
      else (Some (plan_request_of f), (clear_results f)\<lparr>fm_isSolving := True\<rparr>))"

definition handleSaveAndSolve_answered :: "api_error + plan_result option \<Rightarrow> plan_form \<Rightarrow> plan_form" where
  "handleSaveAndSolve_answered reply f =
     (case reply of
        Inl err \<Rightarrow> f\<lparr>fm_plan := Some (failed_plan err), fm_isSolving := False\<rparr>
      | Inr None \<Rightarrow> f\<lparr>fm_isSolving := False\<rparr>
      | Inr (Some p) \<Rightarrow> f\<lparr>fm_plan := Some p, fm_isSolving := False\<rparr>)"

text \<open>The plan is solved again before it is executed: \<open>solved\<close> is the answer, \<open>executed\<close> the id of the execution.\<close>

definition handleExecute ::
  "api_error + plan_result option \<Rightarrow> api_error + string \<Rightarrow> plan_form \<Rightarrow> plan_request option \<times> bool \<times> plan_form" where
  "handleExecute solved executed f =
     (if \<not> plan_valid f \<or> length (fm_behaviorTreeIds f) = 0 \<or> fm_distributor f = None then (None, False, f)
      else case solved of
             Inr (Some p) \<Rightarrow>
               if pl_is_valid p
               then (Some (plan_request_of f), True, case executed of Inl _ \<Rightarrow> f | Inr i \<Rightarrow> f\<lparr>fm_executionId := Some i\<rparr>)
               else (Some (plan_request_of f), False, f)
           | _ \<Rightarrow> (Some (plan_request_of f), False, f))"

definition createRealtimeGoalTemplate :: "nat \<Rightarrow> realtime_goal_rule" where
  "createRealtimeGoalTemplate index =
     \<lparr>rg_id = ''realtime_goal_'' @ show_nat (index + 1), rg_name = ''Realtime goal '' @ show_nat (index + 1), rg_priority = int index + 1,
      rg_enabled = True, rg_resource_type_id = None, rg_resource_type_ids = None, rg_activation_conditions = Some [], rg_goal_state = []\<rparr>"

definition handleImportCurrentGoalToRealtime :: "plan_form \<Rightarrow> plan_form" where
  "handleImportCurrentGoalToRealtime f =
     f\<lparr>fm_realtimeGoals := fm_realtimeGoals f
         @ [(createRealtimeGoalTemplate (length (fm_realtimeGoals f)))\<lparr>rg_goal_state := fm_goalState f\<rparr>]\<rparr>"

section \<open>Realtime sessions\<close>

text \<open>The goals sent: a priority of zero is replaced by the position.\<close>

definition realtime_goals_sent :: "plan_form \<Rightarrow> realtime_goal_rule list" where
  "realtime_goals_sent f =
     map (\<lambda>(index, g). g\<lparr>rg_priority := (if rg_priority g = 0 then int index + 1 else rg_priority g)\<rparr>)
       (enumerate 0 (validRealtimeGoals f))"

definition handleStartRealtime :: "plan_form \<Rightarrow> (plan_request \<times> realtime_goal_rule list) option \<times> plan_form" where
  "handleStartRealtime f =
     (if length (fm_behaviorTreeIds f) = 0 \<or> fm_distributor f = None \<or> length (fm_agentIds f) = 0 then (None, f)
      else if length (realtime_goals_sent f) = 0 then (None, f)
      else (Some (plan_request_of f, realtime_goals_sent f), f\<lparr>fm_isStartingRealtime := True, fm_realtimeExecutionMap := []\<rparr>))"

definition handleStartRealtime_answered :: "api_error + realtime_session \<Rightarrow> plan_form \<Rightarrow> plan_form" where
  "handleStartRealtime_answered reply f =
     (case reply of
        Inl _ \<Rightarrow> f\<lparr>fm_isStartingRealtime := False\<rparr>
      | Inr s \<Rightarrow> f\<lparr>fm_realtimeSessionId := Some (rs_id s), fm_realtimeSession := Some s, fm_isStartingRealtime := False\<rparr>)"

definition clear_session :: "plan_form \<Rightarrow> plan_form" where
  "clear_session f = f\<lparr>fm_realtimeSession := None, fm_realtimeSessionId := None, fm_realtimeExecutionMap := []\<rparr>"

text \<open>The first component is the session to stop; \<open>Inr None\<close> is an answer without a status.\<close>

definition handleStopRealtime :: "plan_form \<Rightarrow> string option \<times> plan_form" where
  "handleStopRealtime f =
     (if \<not> truthy (fm_realtimeSessionId f) then (None, f) else (fm_realtimeSessionId f, f\<lparr>fm_isStoppingRealtime := True\<rparr>))"

definition handleStopRealtime_answered :: "api_error + realtime_session option \<Rightarrow> plan_form \<Rightarrow> plan_form" where
  "handleStopRealtime_answered reply f =
     (case reply of
        Inr (Some s) \<Rightarrow>
          if rs_status s = ''stopped''
          then f\<lparr>fm_realtimeSession := Some s, fm_realtimeSessionId := None, fm_realtimeExecutionMap := []\<rparr>
          else f\<lparr>fm_realtimeSession := Some s\<rparr>
      | Inr None \<Rightarrow> clear_session f
      | Inl err \<Rightarrow> if isMissingRealtimeSessionError err then clear_session f else f)\<lparr>fm_isStoppingRealtime := False\<rparr>"

definition pollRealtime :: "api_error + realtime_session \<Rightarrow> plan_form \<Rightarrow> plan_form" where
  "pollRealtime reply f =
     (if \<not> truthy (fm_realtimeSessionId f) then f\<lparr>fm_realtimeSession := None, fm_realtimeExecutionMap := []\<rparr>
      else case reply of
             Inr s \<Rightarrow> f\<lparr>fm_realtimeSession := Some s\<rparr>
           | Inl err \<Rightarrow> if isMissingRealtimeSessionError err then clear_session f else f)"

section \<open>Readiness\<close>

text \<open>C33. The buttons of the page and what it says about them agree. The list of open requirements and the reason against solving are
  empty exactly when a plan can be asked for; the buttons that preview and solve are disabled without a reason exactly when it can be but one is
  being computed, which is so from the request to the answer, whatever it is. Executing and starting a realtime session are enabled exactly
  when no reason against them is given, and every disabled start has a specific reason. A click on an enabled button sends a request.\<close>

theorem readiness_consistent:
  "(canSolve f \<longleftrightarrow> solveTooltip f = None) \<and> (canSolve f \<longleftrightarrow> pendingRequirements f = [])
   \<and> (solveDisabled f \<and> solveTooltip f = None \<longleftrightarrow> canSolve f \<and> fm_isSolving f)
   \<and> (\<not> solveDisabled f \<longrightarrow> solveTooltip f = None \<and> fst (handlePreview f) \<noteq> None \<and> fst (handleSaveAndSolve f) \<noteq> None
        \<and> solveDisabled (snd (handlePreview f)) \<and> solveDisabled (snd (handleSaveAndSolve f)))
   \<and> (solveDisabled (handlePreview_answered r1 f) \<longleftrightarrow> \<not> canSolve f) \<and> (solveDisabled (handleSaveAndSolve_answered r2 f) \<longleftrightarrow> \<not> canSolve f)
   \<and> (canExecute f \<longleftrightarrow> executeTooltip f = None)
   \<and> (canStartRealtime f \<longleftrightarrow> realtimeStartDisabledReason f = None)
   \<and> realtimeStartDisabledReason f \<noteq> Some CheckConditions
   \<and> (canExecute f \<longrightarrow> fst (handleExecute r3 r4 f) \<noteq> None)
   \<and> (canStartRealtime f \<longrightarrow> fst (handleStartRealtime f) \<noteq> None \<and> \<not> canStartRealtime (snd (handleStartRealtime f)))"
proof -
  have "length (realtime_goals_sent f) = length (validRealtimeGoals f)" by (simp add: realtime_goals_sent_def)
  then have start: "canStartRealtime f \<longrightarrow> fst (handleStartRealtime f) \<noteq> None \<and> \<not> canStartRealtime (snd (handleStartRealtime f))"
    by (auto simp: canStartRealtime_def handleStartRealtime_def)
  have solve: "canSolve (handlePreview_answered r1 f) = canSolve f" "canSolve (handleSaveAndSolve_answered r2 f) = canSolve f"
      "\<not> fm_isSolving (handlePreview_answered r1 f)" "\<not> fm_isSolving (handleSaveAndSolve_answered r2 f)"
    by (simp_all add: canSolve_def handlePreview_answered_def handleSaveAndSolve_answered_def split: sum.split option.split)
  have none: "canSolve f \<longleftrightarrow> solveTooltip f = None" "canSolve f \<longleftrightarrow> pendingRequirements f = []" "canExecute f \<longleftrightarrow> executeTooltip f = None"
    by (simp_all add: canSolve_def solveTooltip_def pendingRequirements_def canExecute_def executeTooltip_def)
  have reason: "canStartRealtime f \<longleftrightarrow> realtimeStartDisabledReason f = None" "realtimeStartDisabledReason f \<noteq> Some CheckConditions"
    by (simp_all add: realtimeStartDisabledReason_def) (simp add: canStartRealtime_def)
  have sends: "canSolve f \<longrightarrow> fst (handlePreview f) \<noteq> None \<and> fst (handleSaveAndSolve f) \<noteq> None
      \<and> fm_isSolving (snd (handlePreview f)) \<and> fm_isSolving (snd (handleSaveAndSolve f))"
    by (simp add: canSolve_def handlePreview_def handleSaveAndSolve_def)
  have "canExecute f \<longrightarrow> fst (handleExecute r3 r4 f) \<noteq> None"
    by (simp add: canExecute_def handleExecute_def split: sum.split option.split)
  with start reason none show ?thesis using sends by (simp only: solveDisabled_def solve simp_thms) blast
qed

definition sample_form :: plan_form where
  "sample_form = \<lparr>fm_distributor = Some ''d'', fm_behaviorTreeIds = [''t''], fm_agentIds = [''a''], fm_goalState = [(''x'', ''1'')],
     fm_initialState = [], fm_plan = None, fm_executionId = None, fm_execution = None, fm_realtimeGoals = [], fm_tickIntervalSec = Fin 2,
     fm_realtimeSessionId = Some ''s1'', fm_realtimeSession = None, fm_realtimeExecutionMap = [], fm_resourceAllocations = [],
     fm_isSolving = False, fm_isStartingRealtime = False, fm_isStoppingRealtime = False\<rparr>"

theorem readiness_consistent_witness:
  "canSolve sample_form \<and> solveTooltip sample_form = None \<and> executeTooltip sample_form \<noteq> None \<and> fst (handlePreview sample_form) \<noteq> None"
proof -
  have "canSolve sample_form" "\<not> canExecute sample_form" "\<not> solveDisabled sample_form"
    by (simp_all add: sample_form_def solveDisabled_def canSolve_def canExecute_def plan_valid_def)
  with readiness_consistent[of sample_form] show ?thesis by blast
qed

section \<open>The end of a session\<close>

text \<open>What else a start takes: everything but the sessions there are.\<close>

definition start_conditions :: "plan_form \<Rightarrow> bool" where
  "start_conditions f =
     (fm_distributor f \<noteq> None \<and> length (fm_behaviorTreeIds f) > 0 \<and> length (fm_agentIds f) > 0 \<and> length (validRealtimeGoals f) > 0
      \<and> \<not> fm_isStartingRealtime f \<and> \<not> isExecuting f)"

text \<open>The answers that say that a session has ended.\<close>

definition stop_ended :: "api_error + realtime_session option \<Rightarrow> bool" where
  "stop_ended reply =
     (case reply of Inr (Some s) \<Rightarrow> rs_status s = ''stopped'' | Inr None \<Rightarrow> True | Inl err \<Rightarrow> isMissingRealtimeSessionError err)"

definition forgotten :: "plan_form \<Rightarrow> bool" where
  "forgotten f = (fm_realtimeSessionId f = None \<and> fm_realtimeExecutionMap f = [] \<and> \<not> isRealtimeActive f)"

text \<open>C34. A realtime session that has ended does not block the page. From the request to stop a session to the answer no new one can be
  started; the answer, whatever it is, lifts this. After an answer that says that the session is stopped or unknown, and after a poll that says that it is
  unknown, the page has forgotten it, and a new session can be started exactly if the other conditions hold (and, after the poll, no stop is under
  way). Any other error leaves everything else as it was. A poll that returns a session that was stopped elsewhere keeps its id, but
  that session does not stand in the way of a start either.\<close>

theorem ended_session_released:
  assumes "truthy (fm_realtimeSessionId f)"
  shows "fst (handleStopRealtime f) = fm_realtimeSessionId f \<and> \<not> canStartRealtime (snd (handleStopRealtime f))
    \<and> \<not> fm_isStoppingRealtime (handleStopRealtime_answered reply g)
    \<and> (stop_ended reply \<longrightarrow> forgotten (handleStopRealtime_answered reply g)
         \<and> (canStartRealtime (handleStopRealtime_answered reply g) \<longleftrightarrow> start_conditions g))
    \<and> (isMissingRealtimeSessionError err \<longrightarrow> forgotten (pollRealtime (Inl err) f)
         \<and> (canStartRealtime (pollRealtime (Inl err) f) \<longleftrightarrow> start_conditions f \<and> \<not> fm_isStoppingRealtime f))
    \<and> (\<not> isMissingRealtimeSessionError err \<longrightarrow>
         handleStopRealtime_answered (Inl err) g = g\<lparr>fm_isStoppingRealtime := False\<rparr> \<and> pollRealtime (Inl err) f = f)
    \<and> (rs_status s = ''stopped'' \<longrightarrow> fm_realtimeSessionId (pollRealtime (Inr s) f) = fm_realtimeSessionId f
         \<and> (canStartRealtime (pollRealtime (Inr s) f) \<longleftrightarrow> start_conditions f \<and> \<not> fm_isStoppingRealtime f))"
proof -
  note defs = canStartRealtime_def start_conditions_def validRealtimeGoals_def isRealtimeActive_def isExecuting_def forgotten_def clear_session_def
  have "stop_ended reply \<Longrightarrow> \<exists>s. handleStopRealtime_answered reply g =
      g\<lparr>fm_realtimeSession := s, fm_realtimeSessionId := None, fm_realtimeExecutionMap := [], fm_isStoppingRealtime := False\<rparr>"
  proof (cases reply)
    case (Inr a)
    then show "stop_ended reply \<Longrightarrow> ?thesis"
      by (cases a) (auto simp: handleStopRealtime_answered_def stop_ended_def clear_session_def intro: exI[of _ None] exI[of _ a])
  qed (auto simp: handleStopRealtime_answered_def stop_ended_def clear_session_def intro: exI[of _ None])
  then have "stop_ended reply \<longrightarrow> forgotten (handleStopRealtime_answered reply g)
         \<and> (canStartRealtime (handleStopRealtime_answered reply g) \<longleftrightarrow> start_conditions g)"
    by (auto simp: defs)
  moreover have "\<not> fm_isStoppingRealtime (handleStopRealtime_answered reply g)" by (simp add: handleStopRealtime_answered_def)
  moreover have "fst (handleStopRealtime f) = fm_realtimeSessionId f \<and> \<not> canStartRealtime (snd (handleStopRealtime f))"
    using assms by (simp add: handleStopRealtime_def canStartRealtime_def)
  moreover have "isMissingRealtimeSessionError err \<longrightarrow> forgotten (pollRealtime (Inl err) f)
         \<and> (canStartRealtime (pollRealtime (Inl err) f) \<longleftrightarrow> start_conditions f \<and> \<not> fm_isStoppingRealtime f)"
    using assms by (simp add: pollRealtime_def defs) blast
  moreover have "\<not> isMissingRealtimeSessionError err \<longrightarrow>
      handleStopRealtime_answered (Inl err) g = g\<lparr>fm_isStoppingRealtime := False\<rparr> \<and> pollRealtime (Inl err) f = f"
    using assms by (simp add: pollRealtime_def handleStopRealtime_answered_def)
  moreover have "rs_status s = ''stopped'' \<longrightarrow> fm_realtimeSessionId (pollRealtime (Inr s) f) = fm_realtimeSessionId f
         \<and> (canStartRealtime (pollRealtime (Inr s) f) \<longleftrightarrow> start_conditions f \<and> \<not> fm_isStoppingRealtime f)"
    using assms by (simp add: pollRealtime_def defs) blast
  ultimately show ?thesis by (intro conjI) (assumption | elim conjE)+
qed

definition lost_session :: api_error where
  "lost_session = \<lparr>er_status = Some 404, er_data_error = None, er_data_message = None, er_message = None, er_text = []\<rparr>"

theorem ended_session_released_witness:
  "fm_realtimeSessionId (pollRealtime (Inl lost_session) sample_form) = None \<and> \<not> canStartRealtime (snd (handleStopRealtime sample_form))"
proof -
  have "truthy (fm_realtimeSessionId sample_form)" by (simp add: sample_form_def)
  moreover have "isMissingRealtimeSessionError lost_session" by (simp add: lost_session_def isMissingRealtimeSessionError_def)
  ultimately show ?thesis
    using ended_session_released[of sample_form "Inr None" sample_form lost_session] unfolding forgotten_def by blast
qed

end
