(* ===== verification/Agent_Dashboard.thy ===== *)
theory Agent_Dashboard
  imports Pddl_Realtime
begin

text \<open>
  The agent dashboard (\<^verbatim>\<open>pages/AgentDashboard/index.tsx\<close>): which agents are alive and listed, the selection of agent,
  robot and task with the effects that repair it, the step shown as active, the deployment of assigned
  tasks, the start of an execution with its automatic deployment, the state of the buttons, and renaming. The
  answers of the server are arguments of the handlers; handlers return the requests they send.
\<close>

section \<open>Data\<close>

record agent_bt_info =
  ai_id :: string
  ai_agent_id :: string
  ai_behavior_tree_id :: string
  ai_behavior_tree_name :: "string option"
  ai_server_version :: nat
  ai_deployed_version :: nat
  ai_deployment_status :: string
  ai_deployment_error :: "string option"
  ai_deployed_at :: "string option"
  ai_enabled :: bool
  ai_priority :: int
  ai_created_at :: string
  ai_updated_at :: string

record connection_status =
  cs_id :: string
  cs_name :: string
  cs_ip_address :: "string option"
  cs_status :: string
  cs_is_online :: bool
  cs_connected_at :: "string option"
  cs_last_heartbeat :: "string option"
  cs_heartbeat_age_ms :: nat
  cs_heartbeat_health :: string
  cs_last_ping :: "string option"
  cs_ping_latency_ms :: "jsnum option"
  cs_ping_latency_us :: "jsnum option"

record capability_info =
  ci_capability_kind :: "string option"
  ci_action_type :: string
  ci_action_server :: string
  ci_node_name :: "string option"
  ci_is_lifecycle_node :: "bool option"
  ci_goal_schema :: "json option"
  ci_result_schema :: "json option"
  ci_feedback_schema :: "json option"
  ci_success_criteria :: "json option"
  ci_status :: string
  ci_is_available :: bool
  ci_lifecycle_state :: "lifecycle_state option"
  ci_discovered_at :: string

text \<open>A snapshot of a robot may carry its graph under an older key as well.\<close>

record dash_robot = robot_snapshot +
  rb_currentGraphId :: "string option"

record graph_entry =
  ge_id :: string
  ge_name :: string
  ge_version :: nat
  ge_server_version :: nat
  ge_deployment_status :: string
  ge_deployment_error :: "string option"
  ge_updated_at :: string
  ge_created_at :: string

record executability =
  ex_can_execute :: bool
  ex_missing_capabilities :: "string list option"
  ex_unavailable_servers :: "string list option"
  ex_message :: string

record deploy_reply =
  dr_success :: bool
  dr_error :: string
  dr_deployment_status :: string

datatype status_filter = FOnline | FOffline | FSaved

datatype detail_tab = TabActions | TabServices | TabBehaviorTree

datatype deploy_notice = NoTargets | DeployDone nat nat nat

record dashboard =
  ds_selectedAgentId :: "string option"
  ds_expandedCapabilities :: "string list"
  ds_selectedRobotId :: "string option"
  ds_selectedGraphId :: "string option"
  ds_detailViewTab :: detail_tab
  ds_isEditingName :: bool
  ds_editedName :: string
  ds_editingAgentInList :: "string option"
  ds_listEditedName :: string
  ds_statusFilter :: status_filter
  ds_isDeployingAll :: bool
  ds_deployAllNotice :: "deploy_notice option"
  ds_isAssignedGraphMenuOpen :: bool

text \<open>The requests that change something on the server, or that a handler sends itself, and the caches it marks as stale.\<close>

datatype dash_request =
    GetGraph string
  | GetAssigned string string
  | DeployGraph string string
  | ExecuteGraph string string
  | RemoveAssigned string string
  | PauseTask string
  | ResumeTask string
  | CancelTask string "string option"
  | ResetState string
  | RenameAgent string string
  | DeleteAgent string
  | SaveTemplate string

datatype query_key =
    QAgents
  | QAssigned "string option"
  | QActionGraph
  | QAgentState
  | QTasks
  | QExecutability
  | QCapabilities "string option"

section \<open>Agents\<close>

definition capabilityKindOf :: "capability_info \<Rightarrow> string" where
  "capabilityKindOf c =
     (if ci_capability_kind c = Some ''service'' then ''service''
      else if ci_capability_kind c = Some ''action'' then ''action''
      else if str_includes (toLowerCase (ci_action_type c)) ''/srv/'' then ''service'' else ''action'')"

definition connectionStatusMap :: "connection_status list \<Rightarrow> (string \<times> connection_status) list" where
  "connectionStatusMap cs = foldl (\<lambda>acc s. map_set (cs_id s) s acc) [] cs"

definition isAgentAlive :: "connection_status list \<Rightarrow> agent \<Rightarrow> bool" where
  "isAgentAlive cs a =
     (case map_of (connectionStatusMap cs) (ag_id a) of
        Some live \<Rightarrow> cs_is_online live
      | None \<Rightarrow> ag_status a = ''online'')"

definition has_template :: "agent \<Rightarrow> bool" where
  "has_template a = (ag_has_capability_template a = Some True)"

definition filteredAgents :: "connection_status list \<Rightarrow> agent list \<Rightarrow> status_filter \<Rightarrow> agent list" where
  "filteredAgents cs agents statusFilter =
     (case statusFilter of
        FOnline \<Rightarrow> filter (isAgentAlive cs) agents
      | FOffline \<Rightarrow> filter (\<lambda>a. \<not> isAgentAlive cs a) agents
      | FSaved \<Rightarrow> filter has_template agents)"

definition onlineCount :: "connection_status list \<Rightarrow> agent list \<Rightarrow> nat" where
  "onlineCount cs agents = length (filter (isAgentAlive cs) agents)"

definition offlineCount :: "connection_status list \<Rightarrow> agent list \<Rightarrow> nat" where
  "offlineCount cs agents = length (filter (\<lambda>a. \<not> isAgentAlive cs a) agents)"

definition savedCount :: "agent list \<Rightarrow> nat" where
  "savedCount agents = length (filter has_template agents)"

definition actionCapabilities :: "capability_info list \<Rightarrow> capability_info list" where
  "actionCapabilities cs = filter (\<lambda>c. capabilityKindOf c = ''action'') cs"

definition serviceCapabilities :: "capability_info list \<Rightarrow> capability_info list" where
  "serviceCapabilities cs = filter (\<lambda>c. capabilityKindOf c = ''service'') cs"

definition toggleCapability :: "string \<Rightarrow> dashboard \<Rightarrow> dashboard" where
  "toggleCapability actionServer s =
     s\<lparr>ds_expandedCapabilities :=
         (if actionServer \<in> set (ds_expandedCapabilities s)
          then filter (\<lambda>c. c \<noteq> actionServer) (ds_expandedCapabilities s)
          else ds_expandedCapabilities s @ [actionServer])\<rparr>"

text \<open>The effect that drops the selection of an agent which is gone or no longer listed.\<close>

definition agentSelectionEffect :: "connection_status list \<Rightarrow> agent list \<Rightarrow> dashboard \<Rightarrow> dashboard" where
  "agentSelectionEffect cs agents s =
     (if \<not> truthy (ds_selectedAgentId s) then s
      else case List.find (\<lambda>a. Some (ag_id a) = ds_selectedAgentId s) agents of
        None \<Rightarrow> s\<lparr>ds_selectedAgentId := None\<rparr>
      | Some selected \<Rightarrow>
          if ds_statusFilter s = FOnline \<and> \<not> isAgentAlive cs selected then s\<lparr>ds_selectedAgentId := None\<rparr>
          else if ds_statusFilter s = FOffline \<and> isAgentAlive cs selected then s\<lparr>ds_selectedAgentId := None\<rparr>
          else if ds_statusFilter s = FSaved \<and> \<not> has_template selected then s\<lparr>ds_selectedAgentId := None\<rparr>
          else s)"

text \<open>The three effects that run when another agent is selected.\<close>

definition agentChangedEffects :: "dashboard \<Rightarrow> dashboard" where
  "agentChangedEffects s =
     s\<lparr>ds_isAssignedGraphMenuOpen := False, ds_detailViewTab := TabActions, ds_deployAllNotice := None\<rparr>"

definition selectAgent :: "string \<Rightarrow> dashboard \<Rightarrow> dashboard" where
  "selectAgent i s =
     (let s1 = s\<lparr>ds_selectedAgentId := Some i\<rparr>
      in if ds_selectedAgentId s = Some i then s1 else agentChangedEffects s1)"

section \<open>Robots and the active step\<close>

definition resolveAgentId :: "'a robot_snapshot_scheme \<Rightarrow> string" where
  "resolveAgentId robot = orS (rb_id robot) ''''"

definition resolveAgentName :: "'a robot_snapshot_scheme \<Rightarrow> string" where
  "resolveAgentName robot = orS (rb_name robot) (resolveAgentId robot)"

definition resolveRobotState :: "'a robot_snapshot_scheme \<Rightarrow> string" where
  "resolveRobotState robot = orS (rb_current_state robot) (orS (rb_state robot) '''')"

definition resolveRobotExecuting :: "'a robot_snapshot_scheme \<Rightarrow> bool" where
  "resolveRobotExecuting robot = coalesce (rb_is_executing robot) False"

definition current_graph_of :: "dash_robot \<Rightarrow> string option" where
  "current_graph_of robot = orO (rb_current_graph_id robot) (rb_currentGraphId robot)"

text \<open>A target as the loop reads it, under either spelling of its keys; the data model only has the first one.\<close>

record raw_target =
  rt_state :: "string option"
  rt_target_type :: "string option"
  rt_agent_id :: "string option"
  rt_targetType :: "string option"
  rt_agentId :: "string option"

definition raw_target_of :: "during_state_target \<Rightarrow> raw_target" where
  "raw_target_of t =
     \<lparr>rt_state = Some (dst_state t), rt_target_type = dst_target_type t, rt_agent_id = dst_agent_id t,
      rt_targetType = None, rt_agentId = None\<rparr>"

definition rawTargets :: "graph_step \<Rightarrow> raw_target list" where
  "rawTargets step =
     map raw_target_of (case gs_during_state_targets step of Some ts \<Rightarrow> ts | None \<Rightarrow> arr (gs_duringStateTargets step))"

definition target_hit :: "string \<Rightarrow> string option \<Rightarrow> raw_target \<Rightarrow> bool" where
  "target_hit currentState agentId t =
     (let targetType = toLowerCase (orS (rt_target_type t) (orS (rt_targetType t) ''''))
      in if \<not> truthy (rt_state t) \<or> rt_state t \<noteq> Some currentState then False
         else if targetType = '''' \<or> targetType = ''self'' \<or> targetType = ''all'' then True
         else if targetType = ''agent''
         then (let targetAgent = orS (rt_agent_id t) (orS (rt_agentId t) '''')
               in targetAgent = '''' \<or> (truthy agentId \<and> agentId = Some targetAgent))
         else False)"

definition step_hit :: "string \<Rightarrow> string option \<Rightarrow> graph_step \<Rightarrow> bool" where
  "step_hit currentState agentId step \<longleftrightarrow>
     list_ex (target_hit currentState agentId) (rawTargets step)
     \<or> currentState \<in> set (case gs_during_states step of Some ss \<Rightarrow> ss | None \<Rightarrow> arr (gs_duringStates step))"

definition resolveActiveStepId :: "behavior_tree option \<Rightarrow> dash_robot option \<Rightarrow> string option" where
  "resolveActiveStepId graph robot =
     (case (graph, robot) of
        (Some g, Some r) \<Rightarrow>
          if truthy (rb_current_step_id r)
          then (if truthy (current_graph_of r) \<and> current_graph_of r = Some (bt_id g) then rb_current_step_id r else None)
          else if \<not> resolveRobotExecuting r then None
          else if resolveRobotState r = '''' then None
          else map_option gs_id
                 (List.find (step_hit (resolveRobotState r)
                    (if truthy (rb_agent_id r) then rb_agent_id r else None)) (arr (bt_steps g)))
      | _ \<Rightarrow> None)"

text \<open>The server always sends the list of steps of a task; a missing one is read as empty.\<close>

text \<open>The effect that keeps a robot of the agent selected.\<close>

definition robotSelectionEffect :: "dash_robot list \<Rightarrow> dashboard \<Rightarrow> dashboard" where
  "robotSelectionEffect agentRobots s =
     (case agentRobots of
        [] \<Rightarrow> s\<lparr>ds_selectedRobotId := None\<rparr>
      | first # _ \<Rightarrow>
          if truthy (ds_selectedRobotId s)
             \<and> list_ex (\<lambda>r. Some (resolveAgentId r) = ds_selectedRobotId s) agentRobots
          then s
          else s\<lparr>ds_selectedRobotId :=
                   Some (resolveAgentId (case List.find resolveRobotExecuting agentRobots of
                                           Some r \<Rightarrow> r | None \<Rightarrow> first))\<rparr>)"

definition selectedRobotState :: "dash_robot list \<Rightarrow> dashboard \<Rightarrow> dash_robot option" where
  "selectedRobotState agentRobots s =
     (if \<not> truthy (ds_selectedRobotId s) then None
      else List.find (\<lambda>r. Some (resolveAgentId r) = ds_selectedRobotId s) agentRobots)"

definition selectedRobotExecuting :: "dash_robot list \<Rightarrow> dashboard \<Rightarrow> bool" where
  "selectedRobotExecuting agentRobots s =
     (case selectedRobotState agentRobots s of Some r \<Rightarrow> resolveRobotExecuting r | None \<Rightarrow> False)"

definition isExecutingCurrentGraph :: "dash_robot list \<Rightarrow> dashboard \<Rightarrow> bool" where
  "isExecutingCurrentGraph agentRobots s =
     (case selectedRobotState agentRobots s of
        None \<Rightarrow> False
      | Some r \<Rightarrow>
          if \<not> resolveRobotExecuting r \<or> \<not> truthy (ds_selectedGraphId s) then False
          else current_graph_of r = ds_selectedGraphId s)"

text \<open>The step that uses a server now, named after its job, its name or its id.\<close>

definition inUseByStep :: "bool \<Rightarrow> string option \<Rightarrow> behavior_tree option \<Rightarrow> capability_info \<Rightarrow> (string \<times> string) option" where
  "inUseByStep executing currentStepId fleetGraph c =
     (case fleetGraph of
        None \<Rightarrow> None
      | Some g \<Rightarrow>
          if executing \<and> truthy currentStepId
          then (case List.find (\<lambda>st. Some (gs_id st) = currentStepId) (arr (bt_steps g)) of
                  None \<Rightarrow> None
                | Some st \<Rightarrow>
                    if Option.bind (gs_action st) sa_server = Some (ci_action_server c)
                    then Some (gs_id st, orS (gs_job_name st) (orS (gs_name st) (gs_id st))) else None)
          else None)"

section \<open>Assigned tasks\<close>

definition statusOrder :: "string \<Rightarrow> int" where
  "statusOrder st =
     (if st = ''deployed'' then 0 else if st = ''deploying'' then 1 else if st = ''pending'' then 2
      else if st = ''failed'' then 3 else if st = ''outdated'' then 4 else 5)"

text \<open>\<open>getTime\<close> stands for \<open>new Date(s).getTime()\<close>; a date that does not parse has no time and compares as equal.\<close>

definition graph_time :: "(string \<Rightarrow> int option) \<Rightarrow> agent_bt_info \<Rightarrow> int option" where
  "graph_time getTime a = getTime (orS (Some (ai_updated_at a)) (ai_created_at a))"

definition graph_cmp :: "(string \<Rightarrow> int option) \<Rightarrow> agent_bt_info \<Rightarrow> agent_bt_info \<Rightarrow> int" where
  "graph_cmp getTime a b =
     (let statusA = statusOrder (ai_deployment_status a); statusB = statusOrder (ai_deployment_status b)
      in if statusA \<noteq> statusB then statusA - statusB
         else case (graph_time getTime a, graph_time getTime b) of
                (Some aTime, Some bTime) \<Rightarrow> bTime - aTime
              | _ \<Rightarrow> 0)"

definition graph_entry_of :: "agent_bt_info \<Rightarrow> graph_entry" where
  "graph_entry_of g =
     \<lparr>ge_id = ai_behavior_tree_id g,
      ge_name = orS (ai_behavior_tree_name g) (ai_behavior_tree_id g),
      ge_version = ai_deployed_version g, ge_server_version = ai_server_version g,
      ge_deployment_status = ai_deployment_status g, ge_deployment_error = ai_deployment_error g,
      ge_updated_at = ai_updated_at g, ge_created_at = ai_created_at g\<rparr>"

definition sortedActionGraphs :: "(string \<Rightarrow> int option) \<Rightarrow> agent_bt_info list \<Rightarrow> graph_entry list" where
  "sortedActionGraphs getTime assignedGraphs = map graph_entry_of (js_sort (graph_cmp getTime) assignedGraphs)"

definition needs_deploy :: "string \<Rightarrow> bool" where
  "needs_deploy st \<longleftrightarrow> st = ''pending'' \<or> st = ''failed'' \<or> st = ''outdated''"

definition deployableGraphTargets :: "graph_entry list \<Rightarrow> graph_entry list" where
  "deployableGraphTargets graphs = filter (\<lambda>g. ge_id g \<noteq> '''' \<and> needs_deploy (ge_deployment_status g)) graphs"

text \<open>The effect that keeps a task selected, and the one that leaves a task which cannot be loaded.\<close>

definition graphSelectionEffect :: "graph_entry list \<Rightarrow> string option \<Rightarrow> string option" where
  "graphSelectionEffect graphs selectedGraphId =
     (case graphs of
        [] \<Rightarrow> None
      | g # _ \<Rightarrow>
          if \<not> truthy selectedGraphId \<or> \<not> list_ex (\<lambda>g. Some (ge_id g) = selectedGraphId) graphs
          then Some (ge_id g) else selectedGraphId)"

definition fleetGraphMeta :: "graph_entry list \<Rightarrow> string option \<Rightarrow> graph_entry option" where
  "fleetGraphMeta graphs selectedGraphId =
     (if \<not> truthy selectedGraphId then None else List.find (\<lambda>g. Some (ge_id g) = selectedGraphId) graphs)"

definition graphFallbackEffect :: "graph_entry list \<Rightarrow> bool \<Rightarrow> string option \<Rightarrow> string option" where
  "graphFallbackEffect graphs fleetGraphError selectedGraphId =
     (case fleetGraphMeta graphs selectedGraphId of
        None \<Rightarrow> selectedGraphId
      | Some meta \<Rightarrow>
          if \<not> fleetGraphError then selectedGraphId
          else map_option ge_id (List.find (\<lambda>g. ge_id g \<noteq> ge_id meta) graphs))"

text \<open>
  One round of the page: it is rendered with a selection, the selected task has been asked for (\<open>loads\<close> says for which
  tasks that succeeds), and the two effects run. Only one of them changes the selection: the first when no listed
  task is selected, the second when one is.
\<close>

definition select_round :: "(string \<Rightarrow> bool) \<Rightarrow> graph_entry list \<Rightarrow> string option \<Rightarrow> string option" where
  "select_round loads graphs sel =
     (if fleetGraphMeta graphs sel = None then graphSelectionEffect graphs sel
      else graphFallbackEffect graphs (\<not> loads (the sel)) sel)"

definition handleRemoveAssignedGraph :: "bool \<Rightarrow> string \<Rightarrow> dashboard \<Rightarrow> dash_request list" where
  "handleRemoveAssignedGraph confirmed graphId s =
     (if \<not> truthy (ds_selectedAgentId s) \<or> graphId = '''' then []
      else if \<not> confirmed then []
      else [RemoveAssigned (the (ds_selectedAgentId s)) graphId])"

section \<open>Deployment\<close>

record deploy_run =
  dn_successCount :: nat
  dn_skippedCount :: nat
  dn_failedCount :: nat
  dn_requests :: "dash_request list"

definition no_run :: deploy_run where
  "no_run = \<lparr>dn_successCount = 0, dn_skippedCount = 0, dn_failedCount = 0, dn_requests = []\<rparr>"

definition deploy_target ::
  "(string \<Rightarrow> api_error + behavior_tree) \<Rightarrow> (string \<Rightarrow> string \<Rightarrow> api_error + deploy_reply) \<Rightarrow> string \<Rightarrow>
   graph_entry \<Rightarrow> deploy_run \<Rightarrow> deploy_run" where
  "deploy_target getGraph deploy agentId graph r =
     (let graphId = trim (ge_id graph)
      in if graphId = '''' then r\<lparr>dn_skippedCount := dn_skippedCount r + 1\<rparr>
         else let r1 = r\<lparr>dn_requests := dn_requests r @ [GetGraph graphId]\<rparr>
         in case getGraph graphId of
              Inl _ \<Rightarrow> r1\<lparr>dn_skippedCount := dn_skippedCount r + 1\<rparr>
            | Inr _ \<Rightarrow>
                let r2 = r1\<lparr>dn_requests := dn_requests r1 @ [DeployGraph graphId agentId]\<rparr>
                in case deploy graphId agentId of
                     Inr result \<Rightarrow>
                       if dr_success result then r2\<lparr>dn_successCount := dn_successCount r + 1\<rparr>
                       else r2\<lparr>dn_failedCount := dn_failedCount r + 1\<rparr>
                   | Inl _ \<Rightarrow> r2\<lparr>dn_failedCount := dn_failedCount r + 1\<rparr>)"

definition deploy_loop ::
  "(string \<Rightarrow> api_error + behavior_tree) \<Rightarrow> (string \<Rightarrow> string \<Rightarrow> api_error + deploy_reply) \<Rightarrow> string \<Rightarrow>
   graph_entry list \<Rightarrow> deploy_run" where
  "deploy_loop getGraph deploy agentId targets = fold (deploy_target getGraph deploy agentId) targets no_run"

text \<open>What the handler does before it first waits, and what it does with the state it finds when it is done.\<close>

definition deployAllStart :: "graph_entry list \<Rightarrow> dashboard \<Rightarrow> dashboard" where
  "deployAllStart targets s =
     (if \<not> truthy (ds_selectedAgentId s) then s
      else if targets = [] then s\<lparr>ds_deployAllNotice := Some NoTargets\<rparr>
      else s\<lparr>ds_isDeployingAll := True, ds_deployAllNotice := None\<rparr>)"

definition deployAllFinish :: "deploy_run \<Rightarrow> dashboard \<Rightarrow> dashboard" where
  "deployAllFinish r s =
     s\<lparr>ds_deployAllNotice := Some (DeployDone (dn_successCount r) (dn_skippedCount r) (dn_failedCount r)),
       ds_isDeployingAll := False\<rparr>"

definition handleDeployUpdateAll ::
  "(string \<Rightarrow> api_error + behavior_tree) \<Rightarrow> (string \<Rightarrow> string \<Rightarrow> api_error + deploy_reply) \<Rightarrow>
   graph_entry list \<Rightarrow> dashboard \<Rightarrow> dash_request list \<times> query_key list \<times> dashboard" where
  "handleDeployUpdateAll getGraph deploy targets s =
     (let s1 = deployAllStart targets s
      in if \<not> truthy (ds_selectedAgentId s) \<or> targets = [] then ([], [], s1)
         else let r = deploy_loop getGraph deploy (the (ds_selectedAgentId s)) targets
         in (dn_requests r, [QAssigned (ds_selectedAgentId s), QActionGraph], deployAllFinish r s1))"

definition new_error :: "string \<Rightarrow> api_error" where
  "new_error m =
     \<lparr>er_status = None, er_data_error = None, er_data_message = None, er_message = Some m, er_text = ''Error: '' @ m\<rparr>"

text \<open>The single deployment: an answer without success is turned into an error.\<close>

definition deployGraphMutation ::
  "api_error + deploy_reply \<Rightarrow> string \<Rightarrow> string \<Rightarrow> dash_request list \<times> (api_error + deploy_reply)" where
  "deployGraphMutation reply graphId agentId =
     ([DeployGraph graphId agentId],
      case reply of
        Inl e \<Rightarrow> Inl e
      | Inr result \<Rightarrow>
          if dr_success result then Inr result
          else Inl (new_error (orS (Some (dr_error result)) ''Deployment failed'')))"

section \<open>Execution\<close>

definition status_of :: "agent_bt_info option \<Rightarrow> string option" where
  "status_of latest = map_option ai_deployment_status latest"

definition refreshed_status :: "api_error + agent_bt_info option \<Rightarrow> string option \<Rightarrow> string option" where
  "refreshed_status refresh deploymentStatus =
     (case refresh of Inr latest \<Rightarrow> orO (status_of latest) deploymentStatus | Inl _ \<Rightarrow> deploymentStatus)"

definition auto_deploy_error :: "deploy_reply \<Rightarrow> api_error" where
  "auto_deploy_error d =
     new_error (orS (Some (dr_error d))
                 (''Auto deploy failed (status='' @ orS (Some (dr_deployment_status d)) ''unknown'' @ '')''))"

text \<open>
  Starting a task: its status is read anew, a task that needs it is deployed once, after a failure the status is read again,
  and the execution is asked for. The answers to the four kinds of request are arguments, in this order.
\<close>

definition executeGraphMutation ::
  "api_error + agent_bt_info option \<Rightarrow> api_error + deploy_reply \<Rightarrow> api_error + agent_bt_info option \<Rightarrow> api_error + 'r \<Rightarrow>
   string \<Rightarrow> string \<Rightarrow> string option \<Rightarrow> dash_request list \<times> (api_error + 'r)" where
  "executeGraphMutation refresh deploy recheck execute graphId agentId deploymentStatus =
     (let effectiveStatus = refreshed_status refresh deploymentStatus;
          look = GetAssigned agentId graphId;
          run = ExecuteGraph graphId agentId
      in if truthy effectiveStatus \<and> effectiveStatus \<noteq> Some ''deployed'' \<and> effectiveStatus \<noteq> Some ''deploying''
         then (case (case deploy of Inl e \<Rightarrow> Some e
                                  | Inr d \<Rightarrow> if dr_success d then None else Some (auto_deploy_error d)) of
                 None \<Rightarrow> ([look, DeployGraph graphId agentId, run], execute)
               | Some deployError \<Rightarrow>
                   (case recheck of
                      Inl _ \<Rightarrow> ([look, DeployGraph graphId agentId, look], Inl deployError)
                    | Inr latest \<Rightarrow>
                        if status_of latest = Some ''deployed'' \<or> status_of latest = Some ''deploying''
                        then ([look, DeployGraph graphId agentId, look, run], execute)
                        else ([look, DeployGraph graphId agentId, look], Inl deployError)))
         else ([look, run], execute))"

definition execute_settled :: "dashboard \<Rightarrow> api_error + 'r \<Rightarrow> query_key list \<times> string option" where
  "execute_settled s result =
     (case result of
        Inr _ \<Rightarrow> ([QAgentState, QTasks, QAssigned (ds_selectedAgentId s)], None)
      | Inl e \<Rightarrow> ([QAssigned (ds_selectedAgentId s), QAgentState],
                 Some (''Failed to start execution: '' @ getApiErrorMessage e)))"

definition dash_canExecute :: "executability option \<Rightarrow> bool" where
  "dash_canExecute check = (case check of Some c \<Rightarrow> ex_can_execute c | None \<Rightarrow> False)"

definition startDisabled :: "behavior_tree option \<Rightarrow> bool \<Rightarrow> dash_robot \<Rightarrow> executability option \<Rightarrow> bool" where
  "startDisabled fleetGraph isExecutionLoading robot check \<longleftrightarrow>
     fleetGraph = None \<or> isExecutionLoading \<or> rb_is_online robot \<noteq> Some True \<or> \<not> dash_canExecute check"

definition startTitle :: "behavior_tree option \<Rightarrow> dash_robot \<Rightarrow> executability option \<Rightarrow> string" where
  "startTitle fleetGraph robot check =
     (if rb_is_online robot \<noteq> Some True then ''RTM is offline''
      else if fleetGraph = None then ''No graph available''
      else if \<not> dash_canExecute check
      then (let unavailable = (case check of Some c \<Rightarrow> arr (ex_unavailable_servers c) | None \<Rightarrow> [])
            in ''Cannot execute: '' @ (case check of Some c \<Rightarrow> ex_message c | None \<Rightarrow> '''')
               @ (if unavailable \<noteq> [] then '' (Unavailable: '' @ js_join '', '' unavailable @ '')'' else ''''))
      else ''Start execution'')"

text \<open>What a click on the start button asks for: the task, the robot and the status shown for the task.\<close>

definition onStart ::
  "behavior_tree option \<Rightarrow> graph_entry option \<Rightarrow> executability option \<Rightarrow> dashboard \<Rightarrow> (string \<times> string \<times> string option) option" where
  "onStart fleetGraph meta check s =
     (case fleetGraph of
        Some g \<Rightarrow>
          if truthy (ds_selectedRobotId s) \<and> dash_canExecute check
          then Some (bt_id g, the (ds_selectedRobotId s), map_option ge_deployment_status meta) else None
      | None \<Rightarrow> None)"

definition capabilityWarning :: "executability option \<Rightarrow> string" where
  "capabilityWarning check =
     (let unavailable = (case check of Some c \<Rightarrow> arr (ex_unavailable_servers c) | None \<Rightarrow> []);
          missing = (case check of Some c \<Rightarrow> arr (ex_missing_capabilities c) | None \<Rightarrow> [])
      in if length unavailable > 0
         then show_nat (length unavailable) @ '' action server'' @ (if length unavailable > 1 then ''s'' else '''') @ '' offline''
         else if length missing > 0
         then ''Missing '' @ show_nat (length missing) @ '' capability'' @ (if length missing > 1 then ''ies'' else '''')
         else ''Capability check failed'')"

definition onPause :: "dash_robot option \<Rightarrow> dash_request list" where
  "onPause robot = (case Option.bind robot rb_current_task_id of
     Some t \<Rightarrow> if t \<noteq> '''' then [PauseTask t] else [] | None \<Rightarrow> [])"

definition onStop :: "dash_robot option \<Rightarrow> dash_request list" where
  "onStop robot = (case Option.bind robot rb_current_task_id of
     Some t \<Rightarrow> if t \<noteq> '''' then [CancelTask t (Some ''User cancelled from RTM Dashboard'')] else [] | None \<Rightarrow> [])"

definition onReset :: "bool \<Rightarrow> dashboard \<Rightarrow> dash_request list" where
  "onReset confirmed s =
     (if truthy (ds_selectedAgentId s) \<and> confirmed then [ResetState (the (ds_selectedAgentId s))] else [])"

definition resetDisabled :: "bool \<Rightarrow> bool \<Rightarrow> bool" where
  "resetDisabled isExecutionLoading executing \<longleftrightarrow> isExecutionLoading \<or> executing"

section \<open>Names\<close>

definition startEditingName :: "agent \<Rightarrow> dashboard \<Rightarrow> dashboard" where
  "startEditingName a s = s\<lparr>ds_editedName := ag_name a, ds_isEditingName := True\<rparr>"

definition cancelEditingName :: "agent \<Rightarrow> dashboard \<Rightarrow> dashboard" where
  "cancelEditingName a s = s\<lparr>ds_isEditingName := False, ds_editedName := ag_name a\<rparr>"

definition submitName :: "agent \<Rightarrow> dashboard \<Rightarrow> dash_request list" where
  "submitName a s = (if trim (ds_editedName s) \<noteq> '''' then [RenameAgent (ag_id a) (trim (ds_editedName s))] else [])"

definition renamed :: "dashboard \<Rightarrow> dashboard" where
  "renamed s = s\<lparr>ds_isEditingName := False\<rparr>"

definition startEditingInList :: "agent \<Rightarrow> dashboard \<Rightarrow> dashboard" where
  "startEditingInList a s = s\<lparr>ds_listEditedName := ag_name a, ds_editingAgentInList := Some (ag_id a)\<rparr>"

definition listEnter :: "agent \<Rightarrow> dashboard \<Rightarrow> dash_request list \<times> dashboard" where
  "listEnter a s =
     (if trim (ds_listEditedName s) \<noteq> ''''
      then ([RenameAgent (ag_id a) (trim (ds_listEditedName s))], s\<lparr>ds_editingAgentInList := None\<rparr>)
      else ([], s))"

definition listBlur :: "agent \<Rightarrow> dashboard \<Rightarrow> dash_request list \<times> dashboard" where
  "listBlur a s =
     (if trim (ds_listEditedName s) \<noteq> '''' \<and> ds_listEditedName s \<noteq> ag_name a
      then [RenameAgent (ag_id a) (trim (ds_listEditedName s))] else [],
      s\<lparr>ds_editingAgentInList := None\<rparr>)"

definition deleteAgentClick :: "bool \<Rightarrow> agent \<Rightarrow> dash_request list" where
  "deleteAgentClick confirmed a = (if confirmed then [DeleteAgent (ag_id a)] else [])"

definition agentDeleted :: "string \<Rightarrow> dashboard \<Rightarrow> dashboard" where
  "agentDeleted deletedAgentId s =
     (if ds_selectedAgentId s = Some deletedAgentId then s\<lparr>ds_selectedAgentId := None\<rparr> else s)"

definition saveTemplateClick :: "dashboard \<Rightarrow> dash_request list" where
  "saveTemplateClick s =
     (if truthy (ds_selectedAgentId s) then [SaveTemplate (the (ds_selectedAgentId s))] else [])"

text \<open>The caches a request marks as stale when it has succeeded.\<close>

fun mutation_stale :: "dashboard \<Rightarrow> dash_request \<Rightarrow> query_key list" where
  "mutation_stale s (PauseTask t) = [QAgentState, QTasks]"
| "mutation_stale s (ResumeTask t) = [QAgentState, QTasks]"
| "mutation_stale s (CancelTask t reason) = [QAgentState, QTasks, QExecutability]"
| "mutation_stale s (ResetState a) = [QAgentState, QTasks, QAgents, QExecutability]"
| "mutation_stale s (RenameAgent a n) = [QAgents]"
| "mutation_stale s (DeleteAgent a) = [QAgents]"
| "mutation_stale s (SaveTemplate a) = [QAgents, QCapabilities (ds_selectedAgentId s)]"
| "mutation_stale s (RemoveAssigned a g) = [QAssigned (ds_selectedAgentId s), QActionGraph]"
| "mutation_stale s (DeployGraph g a) = [QAssigned (ds_selectedAgentId s)]"
| "mutation_stale s r = []"

section \<open>What is listed and selected\<close>

lemma capability_kinds: "capabilityKindOf c = ''service'' \<or> capabilityKindOf c = ''action''"
  by (simp add: capabilityKindOf_def)

lemma capabilities_split: "length (actionCapabilities cs) + length (serviceCapabilities cs) = length cs"
proof -
  have "serviceCapabilities cs = filter (\<lambda>c. \<not> capabilityKindOf c = ''action'') cs"
    unfolding serviceCapabilities_def using capability_kinds by (intro filter_cong) auto
  then show ?thesis by (simp add: actionCapabilities_def sum_length_filter_compl)
qed

lemma agents_split: "onlineCount cs agents + offlineCount cs agents = length agents"
  by (simp add: onlineCount_def offlineCount_def sum_length_filter_compl)

lemma find_Some_set: "List.find P xs = Some x \<Longrightarrow> x \<in> set xs \<and> P x"
  by (auto simp: find_Some_iff)

lemma agent_effect_visible:
  assumes "truthy (ds_selectedAgentId (agentSelectionEffect cs agents s))"
  shows "\<exists>a \<in> set (filteredAgents cs agents (ds_statusFilter s)).
           ds_selectedAgentId (agentSelectionEffect cs agents s) = Some (ag_id a)"
proof -
  have t: "truthy (ds_selectedAgentId s)"
    using assms by (auto simp: agentSelectionEffect_def split: if_splits)
  obtain a where f: "List.find (\<lambda>a. Some (ag_id a) = ds_selectedAgentId s) agents = Some a"
    using assms t by (cases "List.find (\<lambda>a. Some (ag_id a) = ds_selectedAgentId s) agents")
      (auto simp: agentSelectionEffect_def)
  then have "a \<in> set agents" "ds_selectedAgentId s = Some (ag_id a)"
    by (auto dest: find_Some_set)
  then show ?thesis
    using assms t f by (cases "ds_statusFilter s")
      (auto simp: agentSelectionEffect_def filteredAgents_def split: if_splits)
qed

lemma agent_effect_idem:
  "agentSelectionEffect cs agents (agentSelectionEffect cs agents s) = agentSelectionEffect cs agents s"
  by (auto simp: agentSelectionEffect_def split: option.splits)

lemma robot_effect_selects:
  assumes "agentRobots \<noteq> []" and "\<forall>r \<in> set agentRobots. resolveAgentId r \<noteq> ''''"
  shows "\<exists>r \<in> set agentRobots. selectedRobotState agentRobots (robotSelectionEffect agentRobots s) = Some r"
proof -
  have *: "\<exists>r \<in> set agentRobots. ds_selectedRobotId (robotSelectionEffect agentRobots s) = Some (resolveAgentId r)"
  proof (cases "truthy (ds_selectedRobotId s) \<and> list_ex (\<lambda>r. Some (resolveAgentId r) = ds_selectedRobotId s) agentRobots")
    case True
    then have "robotSelectionEffect agentRobots s = s"
      using assms(1) by (cases agentRobots) (auto simp: robotSelectionEffect_def)
    then show ?thesis using True by (auto simp: list_ex_iff intro: sym)
  next
    case False
    then show ?thesis
      using assms(1) by (auto simp: robotSelectionEffect_def split: list.splits option.splits dest: find_Some_set)
  qed
  then obtain r where r: "r \<in> set agentRobots"
      "ds_selectedRobotId (robotSelectionEffect agentRobots s) = Some (resolveAgentId r)" by blast
  then obtain r' where "List.find (\<lambda>x. resolveAgentId x = resolveAgentId r) agentRobots = Some r'"
    by (cases "List.find (\<lambda>x. resolveAgentId x = resolveAgentId r) agentRobots") (auto simp: find_None_iff)
  moreover from this have "r' \<in> set agentRobots" by (auto dest: find_Some_set)
  ultimately show ?thesis
    using r assms(2) by (auto simp: selectedRobotState_def truthy_def)
qed

section \<open>The active step\<close>

lemma active_step_first_hit:
  assumes "resolveActiveStepId (Some g) (Some r) = Some i" and "\<not> truthy (rb_current_step_id r)"
  shows "\<exists>k < length (arr (bt_steps g)). gs_id (arr (bt_steps g) ! k) = i
           \<and> step_hit (resolveRobotState r) (if truthy (rb_agent_id r) then rb_agent_id r else None) (arr (bt_steps g) ! k)
           \<and> (\<forall>j < k. \<not> step_hit (resolveRobotState r) (if truthy (rb_agent_id r) then rb_agent_id r else None)
                           (arr (bt_steps g) ! j))"
  using assms by (auto simp: resolveActiveStepId_def find_Some_iff split: if_splits)

lemma active_step_of_graph:
  "resolveActiveStepId (Some g) (Some r) = Some i \<Longrightarrow> truthy (rb_current_step_id r) \<Longrightarrow>
   i = the (rb_current_step_id r) \<and> current_graph_of r = Some (bt_id g)"
  by (auto simp: resolveActiveStepId_def split: if_splits)

section \<open>The list of assigned tasks\<close>

lemma graph_cmp_order:
  assumes "\<And>t. getTime t \<noteq> None"
  shows "sort_order (graph_cmp getTime)"
proof -
  have t: "\<exists>n. graph_time getTime a = Some n" for a
    using assms by (auto simp: graph_time_def)
  have e: "graph_cmp getTime a b =
      (if statusOrder (ai_deployment_status a) \<noteq> statusOrder (ai_deployment_status b)
       then statusOrder (ai_deployment_status a) - statusOrder (ai_deployment_status b)
       else the (graph_time getTime b) - the (graph_time getTime a))" for a b
    using t[of a] t[of b] by (auto simp: graph_cmp_def Let_def)
  show ?thesis by unfold_locales (auto simp: e split: if_splits)
qed

lemma graph_cmp_status: "graph_cmp getTime a b \<le> 0 \<Longrightarrow>
  statusOrder (ai_deployment_status a) \<le> statusOrder (ai_deployment_status b)"
  by (auto simp: graph_cmp_def Let_def split: if_splits)

text \<open>The tasks are listed by status, deployed ones first, when all dates parse; none is lost or listed twice.\<close>

lemma tasks_by_status:
  assumes "\<And>t. getTime t \<noteq> None"
  shows "sorted_wrt (\<lambda>a b. statusOrder (ge_deployment_status a) \<le> statusOrder (ge_deployment_status b))
           (sortedActionGraphs getTime assigned)"
    and "mset (sortedActionGraphs getTime assigned) = mset (map graph_entry_of assigned)"
proof -
  have "sorted_wrt (\<lambda>a b. graph_cmp getTime a b \<le> 0) (js_sort (graph_cmp getTime) assigned)"
    using sort_order.sorted_js_sort[OF graph_cmp_order[OF assms]] .
  then have "sorted_wrt (\<lambda>a b. statusOrder (ai_deployment_status a) \<le> statusOrder (ai_deployment_status b))
      (js_sort (graph_cmp getTime) assigned)"
    by (rule sorted_wrt_mono_rel[rotated]) (rule graph_cmp_status)
  then show "sorted_wrt (\<lambda>a b. statusOrder (ge_deployment_status a) \<le> statusOrder (ge_deployment_status b))
           (sortedActionGraphs getTime assigned)"
    by (simp add: sortedActionGraphs_def sorted_wrt_map graph_entry_of_def)
qed (simp add: sortedActionGraphs_def)

section \<open>Selecting a task that loads\<close>

definition settled :: "(string \<Rightarrow> bool) \<Rightarrow> graph_entry list \<Rightarrow> string option \<Rightarrow> bool" where
  "settled loads graphs sel \<longleftrightarrow> fleetGraphMeta graphs sel \<noteq> None \<and> loads (the sel)"

lemma meta_iff:
  "fleetGraphMeta graphs sel = None \<longleftrightarrow> \<not> truthy sel \<or> the sel \<notin> ge_id ` set graphs"
  by (cases sel) (auto simp: fleetGraphMeta_def find_None_iff)

lemma meta_id: "fleetGraphMeta graphs (Some i) = Some m \<Longrightarrow> ge_id m = i"
  by (auto simp: fleetGraphMeta_def split: if_splits dest: find_Some_set)

lemma settled_stays: "settled loads graphs sel \<Longrightarrow> select_round loads graphs sel = sel"
  by (auto simp: settled_def select_round_def graphFallbackEffect_def)

lemma round_unlisted:
  "fleetGraphMeta (g # gs) sel = None \<Longrightarrow> select_round loads (g # gs) sel = Some (ge_id g)"
  by (cases sel) (auto simp: select_round_def graphSelectionEffect_def meta_iff list_ex_iff)

lemma round_broken:
  "fleetGraphMeta graphs (Some i) = Some m \<Longrightarrow> \<not> loads i \<Longrightarrow>
   select_round loads graphs (Some i) = map_option ge_id (List.find (\<lambda>g. ge_id g \<noteq> i) graphs)"
  using meta_id by (auto simp: select_round_def graphFallbackEffect_def)


text \<open>When none of the first two tasks loads, the selection moves between them.\<close>

lemma round_stuck:
  assumes d: "distinct (map ge_id graphs)" "'''' \<notin> ge_id ` set graphs"
    and bad: "\<forall>g \<in> set (take 2 graphs). \<not> loads (ge_id g)"
    and sel: "sel \<in> insert None (Some ` ge_id ` set (take 2 graphs))"
  shows "select_round loads graphs sel \<in> insert None (Some ` ge_id ` set (take 2 graphs))"
proof (cases graphs)
  case Nil
  then show ?thesis by (cases sel) (simp_all add: select_round_def graphSelectionEffect_def fleetGraphMeta_def)
next
  case (Cons g gs)
  show ?thesis
  proof (cases "fleetGraphMeta graphs sel")
    case None
    then show ?thesis using Cons by (simp add: round_unlisted)
  next
    case (Some m)
    then obtain i where i: "sel = Some i" by (cases sel) (simp_all add: fleetGraphMeta_def)
    then have "\<not> loads i" using sel bad by auto
    then have "select_round loads graphs sel = map_option ge_id (List.find (\<lambda>g. ge_id g \<noteq> i) graphs)"
      using Some i by (simp add: round_broken)
    then show ?thesis using Cons d(1) i sel by (cases gs) (auto split: if_splits)
  qed
qed

lemma rounds_stuck:
  assumes "distinct (map ge_id graphs)" "'''' \<notin> ge_id ` set graphs"
    and "\<forall>g \<in> set (take 2 graphs). \<not> loads (ge_id g)"
  shows "(select_round loads graphs ^^ n) None \<in> insert None (Some ` ge_id ` set (take 2 graphs))"
proof (induction n)
  case (Suc n)
  show ?case unfolding funpow.simps o_apply by (rule round_stuck[OF assms Suc.IH])
qed simp

lemma rounds_settle:
  assumes d: "distinct (map ge_id graphs)" "'''' \<notin> ge_id ` set graphs"
    and good: "\<exists>g \<in> set (take 2 graphs). loads (ge_id g)"
  shows "settled loads graphs ((select_round loads graphs ^^ 2) None)"
proof -
  obtain g gs where c: "graphs = g # gs" using good by (cases graphs) auto
  have first: "select_round loads graphs None = Some (ge_id g)"
    unfolding c by (rule round_unlisted) (simp add: fleetGraphMeta_def)
  have listed: "fleetGraphMeta graphs (Some (ge_id x)) \<noteq> None" if "x \<in> set graphs" for x
  proof -
    have "ge_id x \<noteq> ''''" using d(2) imageI[OF that, of ge_id] by metis
    then show ?thesis using that by (auto simp: meta_iff truthy_def)
  qed
  show ?thesis
  proof (cases "loads (ge_id g)")
    case True
    then have "settled loads graphs (Some (ge_id g))" using listed[of g] c by (simp add: settled_def)
    then show ?thesis by (simp add: numeral_2_eq_2 first settled_stays)
  next
    case False
    then obtain h hs where h: "gs = h # hs" "loads (ge_id h)" using good c by (cases gs) auto
    have in_graphs: "h \<in> set graphs" using c h(1) by simp
    have "select_round loads graphs (Some (ge_id g)) = Some (ge_id h)"
      using False listed[of g] c h(1) d(1) by (cases "fleetGraphMeta graphs (Some (ge_id g))") (auto simp: round_broken)
    then show ?thesis using listed[OF in_graphs] h(2) by (simp add: numeral_2_eq_2 first settled_def)
  qed
qed

text \<open>C13. Selecting a task: the page, opened with no task selected, comes to show an assigned task that can be loaded, and then
  stays with it, exactly when one of the first two tasks of the list can be loaded. The effect that leaves a broken
  task always goes back to the first other one, so two broken tasks at the head of the list are selected in turn for ever,
  whatever comes after them.
\<close>

theorem graph_selection_settles:
  assumes "distinct (map ge_id graphs)" "'''' \<notin> ge_id ` set graphs"
  shows "(\<exists>n. \<forall>m \<ge> n. settled loads graphs ((select_round loads graphs ^^ m) None)
             \<and> (select_round loads graphs ^^ m) None = (select_round loads graphs ^^ n) None)
         \<longleftrightarrow> (\<exists>g \<in> set (take 2 graphs). loads (ge_id g))"
    (is "?settles \<longleftrightarrow> ?good")
proof
  assume ?good
  let ?sel = "(select_round loads graphs ^^ 2) None"
  have s: "settled loads graphs ?sel" by (rule rounds_settle[OF assms \<open>?good\<close>])
  have later: "(select_round loads graphs ^^ (k + 2)) None = ?sel" for k
  proof (induction k)
    case (Suc k)
    then show ?case using settled_stays[OF s] by (simp only: add_Suc funpow.simps o_apply)
  qed (simp add: numeral_2_eq_2)
  have rest: "(select_round loads graphs ^^ m) None = ?sel" if "2 \<le> m" for m
    using later[of "m - 2"] that by (simp only: le_add_diff_inverse2)
  show ?settles
  proof (intro exI allI impI)
    fix m :: nat assume "2 \<le> m"
    then have e: "(select_round loads graphs ^^ m) None = ?sel" by (rule rest)
    show "settled loads graphs ((select_round loads graphs ^^ m) None) \<and> (select_round loads graphs ^^ m) None = ?sel"
      unfolding e using s by (rule conjI) (rule refl)
  qed
next
  assume ?settles
  then obtain n where n: "settled loads graphs ((select_round loads graphs ^^ n) None)" by blast
  show ?good
  proof (rule ccontr)
    assume "\<not> ?good"
    then have "(select_round loads graphs ^^ n) None \<in> insert None (Some ` ge_id ` set (take 2 graphs))"
      using rounds_stuck[OF assms] by blast
    then show False using n \<open>\<not> ?good\<close> by (auto simp: settled_def meta_iff)
  qed
qed

definition sample_entry :: "string \<Rightarrow> string \<Rightarrow> graph_entry" where
  "sample_entry i st =
     \<lparr>ge_id = i, ge_name = i, ge_version = 1, ge_server_version = 2, ge_deployment_status = st,
      ge_deployment_error = None, ge_updated_at = '''', ge_created_at = ''''\<rparr>"

theorem graph_selection_settles_witness:
  "\<not> (\<exists>n. \<forall>m \<ge> n.
        settled (\<lambda>i. i = ''c'') [sample_entry ''a'' ''pending'', sample_entry ''b'' ''pending'', sample_entry ''c'' ''pending'']
          ((select_round (\<lambda>i. i = ''c'') [sample_entry ''a'' ''pending'', sample_entry ''b'' ''pending'', sample_entry ''c'' ''pending'']
             ^^ m) None)
        \<and> (select_round (\<lambda>i. i = ''c'') [sample_entry ''a'' ''pending'', sample_entry ''b'' ''pending'', sample_entry ''c'' ''pending'']
             ^^ m) None =
          (select_round (\<lambda>i. i = ''c'') [sample_entry ''a'' ''pending'', sample_entry ''b'' ''pending'', sample_entry ''c'' ''pending'']
             ^^ n) None)"
  by (subst graph_selection_settles) (simp_all add: sample_entry_def)

section \<open>Deploying all tasks\<close>

definition target_loads :: "(string \<Rightarrow> api_error + behavior_tree) \<Rightarrow> graph_entry \<Rightarrow> bool" where
  "target_loads getGraph g \<longleftrightarrow> trim (ge_id g) \<noteq> '''' \<and> \<not> isl (getGraph (trim (ge_id g)))"

definition deploy_ok :: "api_error + deploy_reply \<Rightarrow> bool" where
  "deploy_ok reply = (case reply of Inr d \<Rightarrow> dr_success d | Inl _ \<Rightarrow> False)"

definition target_requests :: "(string \<Rightarrow> api_error + behavior_tree) \<Rightarrow> string \<Rightarrow> graph_entry \<Rightarrow> dash_request list" where
  "target_requests getGraph agentId g =
     (if trim (ge_id g) = '''' then []
      else GetGraph (trim (ge_id g)) # (if target_loads getGraph g then [DeployGraph (trim (ge_id g)) agentId] else []))"

lemma deploy_fold:
  "fold (deploy_target getGraph deploy agentId) targets r =
     \<lparr>dn_successCount = dn_successCount r
        + length (filter (\<lambda>g. target_loads getGraph g \<and> deploy_ok (deploy (trim (ge_id g)) agentId)) targets),
      dn_skippedCount = dn_skippedCount r + length (filter (\<lambda>g. \<not> target_loads getGraph g) targets),
      dn_failedCount = dn_failedCount r
        + length (filter (\<lambda>g. target_loads getGraph g \<and> \<not> deploy_ok (deploy (trim (ge_id g)) agentId)) targets),
      dn_requests = dn_requests r @ concat (map (target_requests getGraph agentId) targets)\<rparr>"
proof (induction targets arbitrary: r)
  case (Cons g gs)
  have "deploy_target getGraph deploy agentId g r =
     \<lparr>dn_successCount = dn_successCount r
        + (if target_loads getGraph g \<and> deploy_ok (deploy (trim (ge_id g)) agentId) then 1 else 0),
      dn_skippedCount = dn_skippedCount r + (if target_loads getGraph g then 0 else 1),
      dn_failedCount = dn_failedCount r
        + (if target_loads getGraph g \<and> \<not> deploy_ok (deploy (trim (ge_id g)) agentId) then 1 else 0),
      dn_requests = dn_requests r @ target_requests getGraph agentId g\<rparr>"
    by (auto simp: deploy_target_def target_loads_def deploy_ok_def target_requests_def Let_def split: sum.splits)
  then show ?case using Cons.IH by simp
qed simp

lemma deploy_loop_counts:
  "deploy_loop getGraph deploy agentId targets =
     \<lparr>dn_successCount = length (filter (\<lambda>g. target_loads getGraph g \<and> deploy_ok (deploy (trim (ge_id g)) agentId)) targets),
      dn_skippedCount = length (filter (\<lambda>g. \<not> target_loads getGraph g) targets),
      dn_failedCount = length (filter (\<lambda>g. target_loads getGraph g \<and> \<not> deploy_ok (deploy (trim (ge_id g)) agentId)) targets),
      dn_requests = concat (map (target_requests getGraph agentId) targets)\<rparr>"
  by (simp add: deploy_loop_def deploy_fold no_run_def)

lemma split_counts:
  "length (filter (\<lambda>x. P x \<and> Q x) xs) + length (filter (\<lambda>x. \<not> P x) xs) + length (filter (\<lambda>x. P x \<and> \<not> Q x) xs) = length xs"
  by (induction xs) auto

lemma deploy_requests_of:
  "filter (\<lambda>r. \<exists>i a. r = DeployGraph i a) (concat (map (target_requests getGraph agentId) targets)) =
     map (\<lambda>g. DeployGraph (trim (ge_id g)) agentId) (filter (target_loads getGraph) targets)"
  by (induction targets) (auto simp: target_requests_def target_loads_def)

text \<open>C17. Deploying all tasks of an agent: each target is handled on its own whatever happened to the others. Every target that can
  be loaded is deployed to the selected agent with one request, in the order of the list, and nothing else is deployed;
  the notice counts the successes, the targets that could not be loaded and the failures, which together are all targets;
  and the page is not left in its deploying state.
\<close>

theorem deploy_all_local:
  assumes agent: "ds_selectedAgentId s = Some agentId" "agentId \<noteq> ''''" and some: "targets \<noteq> []"
    and run: "handleDeployUpdateAll getGraph deploy targets s = (requests, stale, s')"
  shows "filter (\<lambda>r. \<exists>i a. r = DeployGraph i a) requests =
           map (\<lambda>g. DeployGraph (trim (ge_id g)) agentId) (filter (target_loads getGraph) targets)
         \<and> (\<exists>ok skipped failed. ds_deployAllNotice s' = Some (DeployDone ok skipped failed)
           \<and> ok = length (filter (\<lambda>g. target_loads getGraph g \<and> deploy_ok (deploy (trim (ge_id g)) agentId)) targets)
           \<and> skipped = length (filter (\<lambda>g. \<not> target_loads getGraph g) targets)
           \<and> ok + skipped + failed = length targets)
         \<and> \<not> ds_isDeployingAll s'
         \<and> stale = [QAssigned (Some agentId), QActionGraph]"
proof -
  have "truthy (ds_selectedAgentId s)" using agent by (simp add: truthy_def)
  then have "requests = concat (map (target_requests getGraph agentId) targets)"
      "stale = [QAssigned (Some agentId), QActionGraph]"
      "s' = deployAllFinish (deploy_loop getGraph deploy agentId targets) (deployAllStart targets s)"
    using run agent(1) some by (auto simp: handleDeployUpdateAll_def Let_def deploy_loop_counts)
  then show ?thesis
    by (simp add: deploy_requests_of deployAllFinish_def deploy_loop_counts split_counts)
qed

definition sample_dashboard :: dashboard where
  "sample_dashboard =
     \<lparr>ds_selectedAgentId = Some ''rtm1'', ds_expandedCapabilities = [], ds_selectedRobotId = Some ''rtm1'',
      ds_selectedGraphId = None, ds_detailViewTab = TabActions, ds_isEditingName = False, ds_editedName = '''',
      ds_editingAgentInList = None, ds_listEditedName = '''', ds_statusFilter = FOnline, ds_isDeployingAll = False,
      ds_deployAllNotice = None, ds_isAssignedGraphMenuOpen = False\<rparr>"

definition sample_get :: "string \<Rightarrow> api_error + behavior_tree" where
  "sample_get i = Inl (new_error ''not found'')"

theorem deploy_all_local_witness:
  "\<exists>requests stale s'.
     handleDeployUpdateAll sample_get (\<lambda>i a. Inl (new_error ''down'')) [sample_entry ''a'' ''pending''] sample_dashboard
       = (requests, stale, s')
     \<and> ds_deployAllNotice s' = Some (DeployDone 0 1 0)"
proof -
  have h: "ds_selectedAgentId sample_dashboard = Some ''rtm1''" "''rtm1'' \<noteq> ''''" "[sample_entry ''a'' ''pending''] \<noteq> []"
    by (simp_all add: sample_dashboard_def)
  have l: "\<not> target_loads sample_get (sample_entry ''a'' ''pending'')" by (simp add: target_loads_def sample_get_def)
  obtain requests stale s' where run:
    "handleDeployUpdateAll sample_get (\<lambda>i a. Inl (new_error ''down'')) [sample_entry ''a'' ''pending''] sample_dashboard
       = (requests, stale, s')" by (metis prod.exhaust)
  from deploy_all_local[OF h run] show ?thesis using l run by auto
qed

section \<open>Starting a task\<close>

definition is_ready :: "string option \<Rightarrow> bool" where
  "is_ready st \<longleftrightarrow> st = Some ''deployed'' \<or> st = Some ''deploying''"

text \<open>C12. Starting a task: the status of the task on the agent is the one the server tells, or the one shown if it does not. The execution
  is asked for, once and as the last request, exactly when that status is unknown (empty or missing), deployed or deploying, or the
  deployment asked for instead succeeded, or the status read after it failed is deployed or deploying. A deployment is asked for exactly when
  the status is known and neither deployed nor deploying, and then once, before any execution. When the execution is not
  asked for, the error of the deployment is reported; otherwise the result is the one of the execution.
\<close>

theorem execution_after_deployment:
  assumes run: "executeGraphMutation refresh deploy recheck execute graphId agentId st = (requests, result)"
  shows "(ExecuteGraph graphId agentId \<in> set requests \<longleftrightarrow>
            \<not> truthy (refreshed_status refresh st) \<or> is_ready (refreshed_status refresh st) \<or> deploy_ok deploy
            \<or> (\<exists>latest. recheck = Inr latest \<and> is_ready (status_of latest)))
       \<and> (ExecuteGraph graphId agentId \<in> set requests \<longrightarrow>
            last requests = ExecuteGraph graphId agentId \<and> distinct (filter (\<lambda>r. r \<noteq> GetAssigned agentId graphId) requests)
            \<and> result = execute)
       \<and> (DeployGraph graphId agentId \<in> set requests \<longleftrightarrow>
            truthy (refreshed_status refresh st) \<and> \<not> is_ready (refreshed_status refresh st))
       \<and> length (filter (\<lambda>r. r = DeployGraph graphId agentId) requests) \<le> 1
       \<and> length (filter (\<lambda>r. r = ExecuteGraph graphId agentId) requests) \<le> 1
       \<and> set requests \<subseteq> {GetAssigned agentId graphId, DeployGraph graphId agentId, ExecuteGraph graphId agentId}
       \<and> (ExecuteGraph graphId agentId \<notin> set requests \<longrightarrow>
            (\<exists>e. result = Inl e \<and> (deploy = Inl e \<or> (\<exists>d. deploy = Inr d \<and> e = auto_deploy_error d))))"
  using run
  by (cases deploy; cases recheck)
    (auto simp: executeGraphMutation_def Let_def is_ready_def deploy_ok_def split: if_splits)

theorem execution_after_deployment_witness:
  "\<exists>requests result.
     executeGraphMutation (Inr None) (Inl (new_error ''timeout'')) (Inl (new_error ''timeout'')) (Inr ()) ''t'' ''rtm1''
       (Some ''pending'') = (requests, result)
     \<and> result = Inl (new_error ''timeout'') \<and> ExecuteGraph ''t'' ''rtm1'' \<notin> set requests"
proof -
  obtain requests and result :: "api_error + unit" where run:
    "executeGraphMutation (Inr None) (Inl (new_error ''timeout'')) (Inl (new_error ''timeout'')) (Inr ()) ''t'' ''rtm1''
       (Some ''pending'') = (requests, result)" by (metis prod.exhaust)
  from execution_after_deployment[OF run] show ?thesis
    using run by (auto simp: refreshed_status_def status_of_def is_ready_def deploy_ok_def)
qed

section \<open>Buttons\<close>

lemma start_sends:
  assumes "\<not> startDisabled fleetGraph loading robot check"
    and "selectedRobotState agentRobots s = Some robot"
  shows "\<exists>g. fleetGraph = Some g \<and>
           onStart fleetGraph meta check s = Some (bt_id g, the (ds_selectedRobotId s), map_option ge_deployment_status meta)"
    and "startTitle fleetGraph robot check = ''Start execution''"
  using assms by (auto simp: startDisabled_def onStart_def startTitle_def selectedRobotState_def split: if_splits)

lemma start_reason:
  "startTitle fleetGraph robot check \<noteq> ''Start execution'' \<Longrightarrow> startDisabled fleetGraph loading robot check"
  by (auto simp: startDisabled_def startTitle_def split: if_splits)

section \<open>Findings\<close>

text \<open>The warning for several missing capabilities is misspelt.\<close>

lemma capability_warning_plural:
  "capabilityWarning (Some \<lparr>ex_can_execute = False, ex_missing_capabilities = Some [''a'', ''b''],
     ex_unavailable_servers = None, ex_message = ''''\<rparr>) = ''Missing 2 capabilityies''"
  by code_simp

text \<open>
  The name editor of the header stays open when another agent is selected, with the text typed for the first one: saving
  it renames the second agent.
\<close>

lemma rename_hits_other_agent:
  assumes "ag_id a \<noteq> ag_id b" "trim n \<noteq> ''''" "ds_selectedAgentId s = Some (ag_id a)"
  shows "ds_isEditingName (selectAgent (ag_id b) ((startEditingName a s)\<lparr>ds_editedName := n\<rparr>))
     \<and> submitName b (selectAgent (ag_id b) ((startEditingName a s)\<lparr>ds_editedName := n\<rparr>)) = [RenameAgent (ag_id b) (trim n)]"
  using assms by (simp add: selectAgent_def agentChangedEffects_def startEditingName_def submitName_def Let_def)

text \<open>A deployment that ends after another agent was selected shows its summary for that agent.\<close>

lemma stale_deploy_notice:
  "ds_selectedAgentId s = Some a \<Longrightarrow> a \<noteq> b \<Longrightarrow>
   ds_deployAllNotice (selectAgent b (deployAllStart targets s)) = None
   \<and> ds_selectedAgentId (deployAllFinish r (selectAgent b (deployAllStart targets s))) = Some b
   \<and> ds_deployAllNotice (deployAllFinish r (selectAgent b (deployAllStart targets s)))
       = Some (DeployDone (dn_successCount r) (dn_skippedCount r) (dn_failedCount r))"
  by (auto simp: selectAgent_def agentChangedEffects_def deployAllStart_def deployAllFinish_def Let_def)

text \<open>
  A robot that executes another task but reports no step is matched by its state alone: a step of the displayed task
  is shown as active if it has the same state during its execution.
\<close>

lemma active_step_ignores_graph:
  assumes "rb_current_step_id r = None" "rb_is_executing r = Some True" "rb_current_state r = Some st" "st \<noteq> ''''"
    and "arr (bt_steps g) = step # steps" "gs_during_states step = Some [st]"
  shows "resolveActiveStepId (Some g) (Some (r\<lparr>rb_current_graph_id := Some other\<rparr>)) = Some (gs_id step)"
  using assms
  by (simp add: resolveActiveStepId_def resolveRobotExecuting_def resolveRobotState_def step_hit_def truthy_def orS_def)

end
