(* ===== verification/Planning_Modal.thy ===== *)
theory Planning_Modal
  imports Planning_Task
begin

text \<open>
  The dialog that edits the planning annotation of a task (\<open>TaskPddlConfigModal\<close> and \<open>PlanningVariableInput\<close> in
  \<^verbatim>\<open>pages/ActionGraph/index.tsx\<close>): its state, the effect of choosing a task distributor, the handlers that add and
  delete conditions, effects and resources, and saving with its optimistic update of the cached task. What is known of
  the selected distributor is an argument: nothing while it is loading, its states and resources afterwards.
\<close>

section \<open>State\<close>

record pddl_modal =
  pm_selectedDistributorId :: string
  pm_localPlanningTask :: planning_task_spec
  pm_pendingPreconditionVariable :: string
  pm_pendingPreconditionOperator :: string
  pm_pendingPreconditionValue :: string
  pm_pendingResultVariable :: string
  pm_pendingResultValue :: string
  pm_pendingWarningResultVariable :: string
  pm_pendingWarningResultValue :: string
  pm_pendingErrorResultVariable :: string
  pm_pendingErrorResultValue :: string
  pm_pendingResourceToken :: string
  pm_isSaving :: bool

record distributor_full =
  df_states :: "td_state list"
  df_resources :: "td_resource list"

text \<open>\<open>selectedDistributorFull?.states || []\<close> and the same for the resources.\<close>

definition distributorStates :: "distributor_full option \<Rightarrow> td_state list" where
  "distributorStates full = (case full of Some f \<Rightarrow> df_states f | None \<Rightarrow> [])"

definition distributorResources :: "distributor_full option \<Rightarrow> td_resource list" where
  "distributorResources full = (case full of Some f \<Rightarrow> df_resources f | None \<Rightarrow> [])"

definition planningAgents :: "agent list \<Rightarrow> planning_agent_option list" where
  "planningAgents raw =
     map (\<lambda>a. \<lparr>pa_id = ag_id a, pa_name = orS (Some (trim (ag_name a))) (ag_id a)\<rparr>) raw"

definition filteredSuggestions :: "string list \<Rightarrow> string \<Rightarrow> string list" where
  "filteredSuggestions suggestions v =
     (let keyword = toLowerCase (trim v)
      in if keyword = '''' then suggestions else filter (\<lambda>option. str_includes (toLowerCase option) keyword) suggestions)"

text \<open>\<open>{...emptyPlanningTask(), ...(template.planning_task || {})}\<close>\<close>

definition over_empty :: "planning_task_spec option \<Rightarrow> planning_task_spec" where
  "over_empty spec =
     (case spec of
        None \<Rightarrow> emptyPlanningTask
      | Some p \<Rightarrow>
          \<lparr>pt_preconditions = Some (arr (pt_preconditions p)), pt_required_resources = Some (arr (pt_required_resources p)),
           pt_during_state = Some (arr (pt_during_state p)), pt_result_states = Some (arr (pt_result_states p)),
           pt_warning_result_states = Some (arr (pt_warning_result_states p)),
           pt_error_result_states = Some (arr (pt_error_result_states p)),
           pt_warning_message_variable = Some (coalesce (pt_warning_message_variable p) ''''),
           pt_error_message_variable = Some (coalesce (pt_error_message_variable p) '''')\<rparr>)"

definition open_modal :: "behavior_tree \<Rightarrow> pddl_modal" where
  "open_modal template =
     \<lparr>pm_selectedDistributorId = orS (bt_task_distributor_id template) '''',
      pm_localPlanningTask = over_empty (bt_planning_task template),
      pm_pendingPreconditionVariable = '''', pm_pendingPreconditionOperator = ''=='', pm_pendingPreconditionValue = '''',
      pm_pendingResultVariable = '''', pm_pendingResultValue = '''',
      pm_pendingWarningResultVariable = '''', pm_pendingWarningResultValue = '''',
      pm_pendingErrorResultVariable = '''', pm_pendingErrorResultValue = '''',
      pm_pendingResourceToken = '''', pm_isSaving = False\<rparr>"

section \<open>Choosing a distributor\<close>

definition setSelectedDistributorId :: "string \<Rightarrow> pddl_modal \<Rightarrow> pddl_modal" where
  "setSelectedDistributorId i s = s\<lparr>pm_selectedDistributorId := i\<rparr>"

definition distributorEffect :: "distributor_full option \<Rightarrow> pddl_modal \<Rightarrow> pddl_modal" where
  "distributorEffect full s =
     (if pm_selectedDistributorId s = ''''
      then s\<lparr>pm_localPlanningTask := emptyPlanningTask,
             pm_pendingPreconditionVariable := '''', pm_pendingPreconditionOperator := ''=='',
             pm_pendingPreconditionValue := '''',
             pm_pendingResultVariable := '''', pm_pendingResultValue := '''',
             pm_pendingWarningResultVariable := '''', pm_pendingWarningResultValue := '''',
             pm_pendingErrorResultVariable := '''', pm_pendingErrorResultValue := '''',
             pm_pendingResourceToken := ''''\<rparr>
      else case full of
        None \<Rightarrow> s
      | Some f \<Rightarrow>
          s\<lparr>pm_localPlanningTask :=
              filterPlanningTaskForDistributor (pm_localPlanningTask s) (df_states f) (df_resources f)\<rparr>)"

section \<open>Conditions, effects and resources\<close>

definition state_var_of :: "distributor_full option \<Rightarrow> planning_agent_option list \<Rightarrow> string \<Rightarrow> td_state option" where
  "state_var_of full agents variable =
     inferPlanningStateVar variable (distributorStates full) (distributorResources full) agents"

definition applyPendingPreconditionVariable ::
  "distributor_full option \<Rightarrow> planning_agent_option list \<Rightarrow> string \<Rightarrow> pddl_modal \<Rightarrow> pddl_modal" where
  "applyPendingPreconditionVariable full agents variable s =
     s\<lparr>pm_pendingPreconditionVariable := variable,
       pm_pendingPreconditionValue := getStateDefaultValue (state_var_of full agents variable)\<rparr>"

definition applyPendingResultVariable ::
  "distributor_full option \<Rightarrow> planning_agent_option list \<Rightarrow> string \<Rightarrow> pddl_modal \<Rightarrow> pddl_modal" where
  "applyPendingResultVariable full agents variable s =
     s\<lparr>pm_pendingResultVariable := variable,
       pm_pendingResultValue := getStateDefaultValue (state_var_of full agents variable)\<rparr>"

definition applyPendingWarningResultVariable ::
  "distributor_full option \<Rightarrow> planning_agent_option list \<Rightarrow> string \<Rightarrow> pddl_modal \<Rightarrow> pddl_modal" where
  "applyPendingWarningResultVariable full agents variable s =
     s\<lparr>pm_pendingWarningResultVariable := variable,
       pm_pendingWarningResultValue := getStateDefaultValue (state_var_of full agents variable)\<rparr>"

definition applyPendingErrorResultVariable ::
  "distributor_full option \<Rightarrow> planning_agent_option list \<Rightarrow> string \<Rightarrow> pddl_modal \<Rightarrow> pddl_modal" where
  "applyPendingErrorResultVariable full agents variable s =
     s\<lparr>pm_pendingErrorResultVariable := variable,
       pm_pendingErrorResultValue := getStateDefaultValue (state_var_of full agents variable)\<rparr>"

definition put_condition :: "planning_condition \<Rightarrow> planning_condition list \<Rightarrow> planning_condition list" where
  "put_condition c cs = filter (\<lambda>x. pc_variable x \<noteq> pc_variable c) cs @ [c]"

definition put_effect :: "planning_effect \<Rightarrow> planning_effect list \<Rightarrow> planning_effect list" where
  "put_effect e es = filter (\<lambda>x. pe_variable x \<noteq> pe_variable e) es @ [e]"

definition drop_effect :: "string \<Rightarrow> planning_effect list \<Rightarrow> planning_effect list" where
  "drop_effect variable es = filter (\<lambda>x. pe_variable x \<noteq> variable) es"

definition handleAddPrecondition ::
  "distributor_full option \<Rightarrow> planning_agent_option list \<Rightarrow> pddl_modal \<Rightarrow> pddl_modal" where
  "handleAddPrecondition full agents s =
     (if pm_pendingPreconditionVariable s = '''' then s
      else let stateVar = state_var_of full agents (pm_pendingPreconditionVariable s);
               nextCondition = \<lparr>pc_variable = pm_pendingPreconditionVariable s,
                                pc_operator = Some (pm_pendingPreconditionOperator s),
                                pc_value = orS (Some (pm_pendingPreconditionValue s)) (getStateDefaultValue stateVar)\<rparr>;
               t = pm_localPlanningTask s
           in s\<lparr>pm_localPlanningTask :=
                  t\<lparr>pt_preconditions := Some (put_condition nextCondition (arr (pt_preconditions t)))\<rparr>,
                pm_pendingPreconditionVariable := '''', pm_pendingPreconditionOperator := ''=='',
                pm_pendingPreconditionValue := ''''\<rparr>)"

definition handleDeletePrecondition :: "string \<Rightarrow> pddl_modal \<Rightarrow> pddl_modal" where
  "handleDeletePrecondition variable s =
     (let t = pm_localPlanningTask s
      in s\<lparr>pm_localPlanningTask :=
             t\<lparr>pt_preconditions := Some (filter (\<lambda>c. pc_variable c \<noteq> variable) (arr (pt_preconditions t)))\<rparr>\<rparr>)"

definition handleAddResultState ::
  "distributor_full option \<Rightarrow> planning_agent_option list \<Rightarrow> pddl_modal \<Rightarrow> pddl_modal" where
  "handleAddResultState full agents s =
     (if pm_pendingResultVariable s = '''' then s
      else let nextEffect = \<lparr>pe_variable = pm_pendingResultVariable s,
                             pe_value = orS (Some (pm_pendingResultValue s))
                                          (getStateDefaultValue (state_var_of full agents (pm_pendingResultVariable s)))\<rparr>;
               t = pm_localPlanningTask s
           in s\<lparr>pm_localPlanningTask :=
                  t\<lparr>pt_result_states := Some (put_effect nextEffect (arr (pt_result_states t)))\<rparr>,
                pm_pendingResultVariable := '''', pm_pendingResultValue := ''''\<rparr>)"

definition handleDeleteResultState :: "string \<Rightarrow> pddl_modal \<Rightarrow> pddl_modal" where
  "handleDeleteResultState variable s =
     (let t = pm_localPlanningTask s
      in s\<lparr>pm_localPlanningTask := t\<lparr>pt_result_states := Some (drop_effect variable (arr (pt_result_states t)))\<rparr>\<rparr>)"

definition handleAddWarningResultState ::
  "distributor_full option \<Rightarrow> planning_agent_option list \<Rightarrow> pddl_modal \<Rightarrow> pddl_modal" where
  "handleAddWarningResultState full agents s =
     (if pm_pendingWarningResultVariable s = '''' then s
      else let nextEffect = \<lparr>pe_variable = pm_pendingWarningResultVariable s,
                             pe_value = orS (Some (pm_pendingWarningResultValue s))
                                          (getStateDefaultValue (state_var_of full agents (pm_pendingWarningResultVariable s)))\<rparr>;
               t = pm_localPlanningTask s
           in s\<lparr>pm_localPlanningTask :=
                  t\<lparr>pt_warning_result_states := Some (put_effect nextEffect (arr (pt_warning_result_states t)))\<rparr>,
                pm_pendingWarningResultVariable := '''', pm_pendingWarningResultValue := ''''\<rparr>)"

definition handleDeleteWarningResultState :: "string \<Rightarrow> pddl_modal \<Rightarrow> pddl_modal" where
  "handleDeleteWarningResultState variable s =
     (let t = pm_localPlanningTask s
      in s\<lparr>pm_localPlanningTask :=
             t\<lparr>pt_warning_result_states := Some (drop_effect variable (arr (pt_warning_result_states t)))\<rparr>\<rparr>)"

definition handleAddErrorResultState ::
  "distributor_full option \<Rightarrow> planning_agent_option list \<Rightarrow> pddl_modal \<Rightarrow> pddl_modal" where
  "handleAddErrorResultState full agents s =
     (if pm_pendingErrorResultVariable s = '''' then s
      else let nextEffect = \<lparr>pe_variable = pm_pendingErrorResultVariable s,
                             pe_value = orS (Some (pm_pendingErrorResultValue s))
                                          (getStateDefaultValue (state_var_of full agents (pm_pendingErrorResultVariable s)))\<rparr>;
               t = pm_localPlanningTask s
           in s\<lparr>pm_localPlanningTask :=
                  t\<lparr>pt_error_result_states := Some (put_effect nextEffect (arr (pt_error_result_states t)))\<rparr>,
                pm_pendingErrorResultVariable := '''', pm_pendingErrorResultValue := ''''\<rparr>)"

definition handleDeleteErrorResultState :: "string \<Rightarrow> pddl_modal \<Rightarrow> pddl_modal" where
  "handleDeleteErrorResultState variable s =
     (let t = pm_localPlanningTask s
      in s\<lparr>pm_localPlanningTask :=
             t\<lparr>pt_error_result_states := Some (drop_effect variable (arr (pt_error_result_states t)))\<rparr>\<rparr>)"

definition handleAddRequiredResource :: "pddl_modal \<Rightarrow> pddl_modal" where
  "handleAddRequiredResource s =
     (if pm_pendingResourceToken s = '''' then s
      else let t = pm_localPlanningTask s
           in s\<lparr>pm_localPlanningTask :=
                  t\<lparr>pt_required_resources := Some (uniq (arr (pt_required_resources t) @ [pm_pendingResourceToken s]))\<rparr>,
                pm_pendingResourceToken := ''''\<rparr>)"

definition handleDeleteRequiredResource :: "string \<Rightarrow> pddl_modal \<Rightarrow> pddl_modal" where
  "handleDeleteRequiredResource token s =
     (let t = pm_localPlanningTask s
      in s\<lparr>pm_localPlanningTask :=
             t\<lparr>pt_required_resources := Some (filter (\<lambda>x. x \<noteq> token) (arr (pt_required_resources t)))\<rparr>\<rparr>)"

section \<open>Saving\<close>

record graph_snapshot =
  sn_steps :: "graph_step list option"
  sn_entryPoint :: "string option"

record pddl_payload =
  pp_steps :: "graph_step list"
  pp_entry_point :: "string option"
  pp_task_distributor_id :: "string option"
  pp_planning_task :: planning_task_spec

definition saveDisabled :: "distributor_full option \<Rightarrow> pddl_modal \<Rightarrow> bool" where
  "saveDisabled full s \<longleftrightarrow> pm_isSaving s \<or> (pm_selectedDistributorId s \<noteq> '''' \<and> full = None)"

definition pddl_payload_of :: "distributor_full option \<Rightarrow> graph_snapshot \<Rightarrow> pddl_modal \<Rightarrow> pddl_payload" where
  "pddl_payload_of full snapshot s =
     (let normalizedDistributorId = (if pm_selectedDistributorId s = '''' then None else Some (pm_selectedDistributorId s));
          nextPlanningTask = (if normalizedDistributorId \<noteq> None
             then filterPlanningTaskForDistributor (pm_localPlanningTask s) (distributorStates full) (distributorResources full)
             else emptyPlanningTask)
      in \<lparr>pp_steps = arr (sn_steps snapshot), pp_entry_point = sn_entryPoint snapshot,
          pp_task_distributor_id = normalizedDistributorId, pp_planning_task = nextPlanningTask\<rparr>)"

definition with_payload :: "pddl_payload \<Rightarrow> behavior_tree \<Rightarrow> behavior_tree" where
  "with_payload p t =
     t\<lparr>bt_steps := Some (pp_steps p), bt_entry_point := pp_entry_point p,
       bt_task_distributor_id := pp_task_distributor_id p, bt_planning_task := Some (pp_planning_task p)\<rparr>"

record pddl_saved =
  sv_request :: "string \<times> pddl_payload \<times> string option"
  sv_optimistic :: "behavior_tree option"  \<comment> \<open>the cached task while the request runs\<close>
  sv_cache :: "behavior_tree option"
  sv_closed :: bool
  sv_alert :: "string option"
  sv_modal :: pddl_modal

text \<open>The answer of the server is an error message or success; \<open>previousTemplate\<close> is the cached task.\<close>

definition handleSavePddl ::
  "string + unit \<Rightarrow> behavior_tree option \<Rightarrow> distributor_full option \<Rightarrow> graph_snapshot \<Rightarrow> string option \<Rightarrow> string \<Rightarrow> pddl_modal \<Rightarrow>
   pddl_saved" where
  "handleSavePddl reply previousTemplate full snapshot sessionId templateId s =
     (let payload = pddl_payload_of full snapshot s;
          optimistic = map_option (with_payload payload) previousTemplate
      in \<lparr>sv_request = (templateId, payload, sessionId),
          sv_optimistic = optimistic,
          sv_cache = (case reply of Inr _ \<Rightarrow> optimistic | Inl _ \<Rightarrow> previousTemplate),
          sv_closed = (case reply of Inr _ \<Rightarrow> True | Inl _ \<Rightarrow> False),
          sv_alert = (case reply of Inr _ \<Rightarrow> None | Inl e \<Rightarrow> Some e),
          sv_modal = s\<lparr>pm_isSaving := False\<rparr>\<rparr>)"

section \<open>The dialog as a transition system\<close>

inductive modal_step :: "pddl_modal \<Rightarrow> pddl_modal \<Rightarrow> bool" where
  choose: "modal_step s (setSelectedDistributorId i s)"
| loaded: "modal_step s (distributorEffect full s)"
| type_pre: "modal_step s (applyPendingPreconditionVariable full agents v s)"
| operator: "modal_step s (s\<lparr>pm_pendingPreconditionOperator := ''!=''\<rparr>)"
| equals: "modal_step s (s\<lparr>pm_pendingPreconditionOperator := ''==''\<rparr>)"
| value_pre: "modal_step s (s\<lparr>pm_pendingPreconditionValue := v\<rparr>)"
| add_pre: "modal_step s (handleAddPrecondition full agents s)"
| delete_pre: "modal_step s (handleDeletePrecondition v s)"
| type_result: "modal_step s (applyPendingResultVariable full agents v s)"
| value_result: "modal_step s (s\<lparr>pm_pendingResultValue := v\<rparr>)"
| add_result: "modal_step s (handleAddResultState full agents s)"
| delete_result: "modal_step s (handleDeleteResultState v s)"
| type_warning: "modal_step s (applyPendingWarningResultVariable full agents v s)"
| value_warning: "modal_step s (s\<lparr>pm_pendingWarningResultValue := v\<rparr>)"
| add_warning: "modal_step s (handleAddWarningResultState full agents s)"
| delete_warning: "modal_step s (handleDeleteWarningResultState v s)"
| type_error: "modal_step s (applyPendingErrorResultVariable full agents v s)"
| value_error: "modal_step s (s\<lparr>pm_pendingErrorResultValue := v\<rparr>)"
| add_error: "modal_step s (handleAddErrorResultState full agents s)"
| delete_error: "modal_step s (handleDeleteErrorResultState v s)"
| choose_resource: "modal_step s (s\<lparr>pm_pendingResourceToken := t\<rparr>)"
| add_resource: "modal_step s (handleAddRequiredResource s)"
| delete_resource: "modal_step s (handleDeleteRequiredResource t s)"

text \<open>An annotation says one thing about a variable at most, in each of its lists, and names a resource once.\<close>

definition one_value_each :: "planning_task_spec \<Rightarrow> bool" where
  "one_value_each t \<longleftrightarrow>
     distinct (map pc_variable (arr (pt_preconditions t)))
     \<and> distinct (map pe_variable (arr (pt_result_states t)))
     \<and> distinct (map pe_variable (arr (pt_warning_result_states t)))
     \<and> distinct (map pe_variable (arr (pt_error_result_states t)))
     \<and> distinct (arr (pt_required_resources t))"

lemma put_distinct:
  "distinct (map pc_variable cs) \<Longrightarrow> distinct (map pc_variable (put_condition c cs))"
  "distinct (map pe_variable es) \<Longrightarrow> distinct (map pe_variable (put_effect e es))"
  "distinct (map pe_variable es) \<Longrightarrow> distinct (map pe_variable (drop_effect v es))"
  by (auto simp: put_condition_def put_effect_def drop_effect_def distinct_map intro: inj_on_subset)

text \<open>What was added last is what the list says, and nothing else changes.\<close>

lemma put_lookup:
  "x \<in> set (put_effect e es) \<longleftrightarrow> x = e \<or> (x \<in> set es \<and> pe_variable x \<noteq> pe_variable e)"
  "c \<in> set (put_condition d cs) \<longleftrightarrow> c = d \<or> (c \<in> set cs \<and> pc_variable c \<noteq> pc_variable d)"
  by (auto simp: put_effect_def put_condition_def)

lemma filter_one_value_each:
  assumes "one_value_each t"
  shows "one_value_each (filterPlanningTaskForDistributor t states resources)"
  using assms
  by (simp add: one_value_each_def filterPlanningTaskForDistributor_def Let_def comp_def distinct_map_filter
      normalized_tokens(1))

lemma empty_one_value_each: "one_value_each emptyPlanningTask"
  by (simp add: one_value_each_def emptyPlanningTask_def)

lemmas modal_ops =
  setSelectedDistributorId_def distributorEffect_def applyPendingPreconditionVariable_def applyPendingResultVariable_def
  applyPendingWarningResultVariable_def applyPendingErrorResultVariable_def handleAddPrecondition_def
  handleDeletePrecondition_def handleAddResultState_def handleDeleteResultState_def handleAddWarningResultState_def
  handleDeleteWarningResultState_def handleAddErrorResultState_def handleDeleteErrorResultState_def
  handleAddRequiredResource_def handleDeleteRequiredResource_def

lemma modal_step_one_value_each:
  assumes "modal_step s s'" and "one_value_each (pm_localPlanningTask s)"
  shows "one_value_each (pm_localPlanningTask s')"
  using assms
proof (induction rule: modal_step.induct)
  case (loaded s full)
  then show ?case
    by (simp add: distributorEffect_def empty_one_value_each filter_one_value_each split: option.split)
qed (simp_all add: modal_ops Let_def one_value_each_def put_distinct distinct_map_filter)

lemma modal_run_one_value_each:
  "modal_step\<^sup>*\<^sup>* s s' \<Longrightarrow> one_value_each (pm_localPlanningTask s) \<Longrightarrow> one_value_each (pm_localPlanningTask s')"
  by (induction rule: rtranclp_induct) (auto intro: modal_step_one_value_each)

lemma open_one_value_each: "one_value_each (over_empty (bt_planning_task t)) \<Longrightarrow> one_value_each (pm_localPlanningTask (open_modal t))"
  by (simp add: open_modal_def)

section \<open>Properties\<close>

lemma payload_clean:
  assumes "pm_selectedDistributorId s \<noteq> ''''"
  shows "clean_spec (distributorStates full) (distributorResources full) (pp_planning_task (pddl_payload_of full snapshot s))"
  using assms by (simp add: pddl_payload_of_def Let_def filter_spec_clean)

lemma payload_one_value_each:
  "one_value_each (pm_localPlanningTask s) \<Longrightarrow> one_value_each (pp_planning_task (pddl_payload_of full snapshot s))"
  by (simp add: pddl_payload_of_def Let_def filter_one_value_each empty_one_value_each)


definition dialog_task :: behavior_tree where
  "dialog_task =
     \<lparr>bt_id = ''t'', bt_name = ''t'', bt_description = None, bt_agent_id = None, bt_agent_name = None, bt_entry_point = None,
      bt_preconditions = None, bt_steps = Some [], bt_states = None, bt_planning_states = None, bt_planning_task = None,
      bt_task_distributor_id = Some ''td'', bt_required_action_types = None, bt_auto_generate_states = None, bt_version = 1,
      bt_is_template = True, bt_deployment_status = None, bt_created_at = '''', bt_updated_at = None\<rparr>"

definition dialog_edited :: pddl_modal where
  "dialog_edited =
     handleAddResultState (Some \<lparr>df_states = [arm_status], df_resources = [arm_resource]\<rparr>) []
       (applyPendingResultVariable (Some \<lparr>df_states = [arm_status], df_resources = [arm_resource]\<rparr>) [] (ts_name arm_status)
         (open_modal dialog_task))"


section \<open>Finding\<close>

text \<open>
  The dialog says that only states and resources of the chosen distributor can be used. A distributor without
  resources leaves the tokens of the resources of another one in place.
\<close>

lemma foreign_resources_kept:
  assumes "pm_selectedDistributorId s \<noteq> ''''" and "distinct ts" "\<And>t. t \<in> set ts \<Longrightarrow> t \<noteq> '''' \<and> trimmed t"
    and "pt_required_resources (pm_localPlanningTask s) = Some ts"
  shows "pt_required_resources (pm_localPlanningTask (distributorEffect (Some \<lparr>df_states = states, df_resources = []\<rparr>) s)) = Some ts"
  using assms normalized_tokens_id[OF assms(2,3)]
  by (simp add: distributorEffect_def filterPlanningTaskForDistributor_def Let_def buildPlanningResourceTokenSet_def)

end
