(* ===== verification/Pddl_Resources.thy ===== *)
theory Pddl_Resources
  imports Fleet_Types
begin

text \<open>
  Resource types and instances of a task distributor (\<^verbatim>\<open>pages/PDDL/index.tsx\<close>): the names generated for the
  instances of a type, the type read off an instance name, the next free name, the grouping of the resources
  by type and the handlers that create them. Requests to the server are values; the id of a resource the
  server creates is an argument. Numerals are exact, as doubles are below \<open>2^53\<close>.
\<close>

section \<open>Instance names\<close>

text \<open>\<open>replace(/\s+/g, ' ')\<close>.\<close>

function collapse_spaces :: "string \<Rightarrow> string" where
  "collapse_spaces [] = []"
| "collapse_spaces (c # cs) =
     (if is_space c then CHR '' '' # collapse_spaces (dropWhile is_space cs) else c # collapse_spaces cs)"
  by pat_completeness auto
termination
  by (relation "measure length") (auto simp: less_Suc_eq_le length_dropWhile_le)

definition normalized_type :: "string \<Rightarrow> string" where
  "normalized_type typeName = collapse_spaces (trim typeName)"

definition instance_name :: "string \<Rightarrow> nat \<Rightarrow> string" where
  "instance_name normalized k =
     (if list_ex is_space normalized then normalized @ '' '' @ show_nat k else normalized @ show_nat k)"

definition buildInstanceNames :: "string \<Rightarrow> int \<Rightarrow> string list" where
  "buildInstanceNames typeName cnt =
     (let normalized = normalized_type typeName
      in if normalized = [] then [] else map (\<lambda>index. instance_name normalized (index + 1)) [0..<nat (max 1 cnt)])"

text \<open>
  \<open>/^(.*?)(?:\s?)(\d+)$/\<close>: the shortest first group whose rest is a numeral with at most one blank before it.
  A dot matches no line terminator.
\<close>

definition is_line_end :: "char \<Rightarrow> bool" where
  "is_line_end c = (c = CHR 0x0A \<or> c = CHR 0x0D)"

definition numeral_rest :: "string \<Rightarrow> bool" where
  "numeral_rest t =
     (t \<noteq> [] \<and> (list_all is_digit t \<or> is_space (hd t) \<and> tl t \<noteq> [] \<and> list_all is_digit (tl t)))"

definition inferResourceType :: "string \<Rightarrow> string" where
  "inferResourceType name =
     (case find (\<lambda>i. numeral_rest (drop i name) \<and> \<not> list_ex is_line_end (take i name)) [0..<Suc (length name)] of
        None \<Rightarrow> name
      | Some i \<Rightarrow> (let t = trim (take i name) in if t = [] then name else t))"

text \<open>The first group of \<open>^<escaped type>(?:\s?)(\d+)$\<close>; the escaped type matches itself.\<close>

definition instance_suffix :: "string \<Rightarrow> string \<Rightarrow> string option" where
  "instance_suffix normalized name =
     (if \<not> startsWith name normalized then None
      else let t = drop (length normalized) name
           in if t \<noteq> [] \<and> list_all is_digit t then Some t
              else if t \<noteq> [] \<and> is_space (hd t) \<and> tl t \<noteq> [] \<and> list_all is_digit (tl t) then Some (tl t) else None)"

definition max_suffix :: "string \<Rightarrow> td_resource list \<Rightarrow> nat" where
  "max_suffix normalized instances =
     fold (\<lambda>r m. case instance_suffix normalized (tr_name r) of None \<Rightarrow> m | Some ds \<Rightarrow> max m (num_of_digits ds)) instances 0"

definition buildNextInstanceName :: "string \<Rightarrow> td_resource list \<Rightarrow> string" where
  "buildNextInstanceName typeName instances =
     (let normalized = normalized_type typeName
      in if normalized = [] then [] else instance_name normalized (max_suffix normalized instances + 1))"

definition isResourceType :: "td_resource \<Rightarrow> bool" where
  "isResourceType r = (tr_kind r = Some ''type'')"

definition isResourceInstance :: "td_resource \<Rightarrow> bool" where
  "isResourceInstance r = (\<not> truthy (tr_kind r) \<or> tr_kind r = Some ''instance'')"

section \<open>Groups\<close>

record resource_group =
  rg_typeResource :: "td_resource option"
  rg_items :: "td_resource list"

definition group_of :: "string \<Rightarrow> (string \<times> resource_group) list \<Rightarrow> resource_group" where
  "group_of n groups = coalesce (map_of groups n) \<lparr>rg_typeResource = None, rg_items = []\<rparr>"

definition resource_by_id :: "td_resource list \<Rightarrow> string \<Rightarrow> td_resource option" where
  "resource_by_id resources i = map_of (fold (\<lambda>r. map_set (tr_id r) r) resources []) i"

definition type_name_of :: "td_resource list \<Rightarrow> td_resource \<Rightarrow> string" where
  "type_name_of resources r =
     orS (Option.bind (if truthy (tr_parent_resource_id r) then resource_by_id resources (the (tr_parent_resource_id r)) else None)
            (\<lambda>p. Some (tr_name p)))
         (inferResourceType (tr_name r))"

definition group_step ::
  "td_resource list \<Rightarrow> td_resource \<Rightarrow> (string \<times> resource_group) list \<Rightarrow> (string \<times> resource_group) list" where
  "group_step resources r groups =
     (if isResourceType r
      then map_set (tr_name r) ((group_of (tr_name r) groups)\<lparr>rg_typeResource := Some r\<rparr>) groups
      else let n = type_name_of resources r; g = group_of n groups
           in map_set n (g\<lparr>rg_items := rg_items g @ [r]\<rparr>) groups)"

definition resourceTypeGroups ::
  "(string \<Rightarrow> string \<Rightarrow> int) \<Rightarrow> td_resource list option \<Rightarrow> (string \<times> resource_group) list" where
  "resourceTypeGroups lc resources =
     (let rs = arr resources
      in js_sort (\<lambda>a b. lc (fst a) (fst b))
           (map (\<lambda>(n, g). (n, g\<lparr>rg_items := js_sort (\<lambda>a b. lc (tr_name a) (tr_name b)) (rg_items g)\<rparr>))
             (fold (group_step rs) rs [])))"

section \<open>Handlers\<close>

datatype resource_request = CreateResource string string "string option" "string option"
  \<comment> \<open>name, kind, parent resource, description\<close>

text \<open>\<open>newId\<close> is the id the server gives the type when it has to be created.\<close>

definition handleGenerateResourceType ::
  "td_resource list option \<Rightarrow> string \<Rightarrow> string \<Rightarrow> int \<Rightarrow> string \<Rightarrow> resource_request list" where
  "handleGenerateResourceType resources resourceTypeName description cnt newId =
     (let generated = buildInstanceNames resourceTypeName cnt;
          resourceList = arr resources;
          existingType = find (\<lambda>r. isResourceType r \<and> tr_name r = trim resourceTypeName) resourceList;
          existingNames = map tr_name (filter isResourceInstance resourceList);
          toCreate = filter (\<lambda>n. n \<notin> set existingNames) generated;
          desc = (if trim description = [] then None else Some (trim description))
      in if generated = [] then []
         else (case existingType of None \<Rightarrow> [CreateResource (trim resourceTypeName) ''type'' None desc] | Some _ \<Rightarrow> [])
              @ map (\<lambda>n. CreateResource n ''instance'' (Some (case existingType of None \<Rightarrow> newId | Some r \<Rightarrow> tr_id r)) desc) toCreate)"

datatype add_instance = NoName | DuplicateName string | AddInstance "resource_request list" string

definition handleAddInstanceToType ::
  "td_resource list option \<Rightarrow> string \<Rightarrow> td_resource option \<Rightarrow> td_resource list \<Rightarrow> string option \<Rightarrow> string \<Rightarrow> add_instance" where
  "handleAddInstanceToType resources typeName typeResource items draft newId =
     (let suggested = buildNextInstanceName typeName items;
          nextName = orS (Some (trim (orS draft []))) suggested
      in if nextName = [] then NoName
         else if list_ex (\<lambda>r. tr_name r = nextName) (arr resources) then DuplicateName nextName
         else AddInstance
           ((case typeResource of None \<Rightarrow> [CreateResource typeName ''type'' None None] | Some _ \<Rightarrow> [])
            @ [CreateResource nextName ''instance'' (Some (case typeResource of None \<Rightarrow> newId | Some r \<Rightarrow> tr_id r)) None]) nextName)"

definition handleAddResource :: "string \<Rightarrow> resource_request list" where
  "handleAddResource newResourceName =
     (if trim newResourceName = [] then [] else [CreateResource (trim newResourceName) ''instance'' None None])"

section \<open>Names and their type\<close>

lemma is_space_blank [simp]: "is_space (CHR '' '')"
  by code_simp

lemma collapse_chars: "c \<in> set (collapse_spaces s) \<Longrightarrow> c = CHR '' '' \<or> \<not> is_space c"
  by (induction s rule: collapse_spaces.induct) (auto split: if_splits)

lemma collapse_Nil_iff [simp]: "collapse_spaces s = [] \<longleftrightarrow> s = []"
  by (cases s) auto

lemma last_collapse: "s \<noteq> [] \<Longrightarrow> \<not> is_space (last s) \<Longrightarrow> last (collapse_spaces s) = last s"
proof (induction s rule: collapse_spaces.induct)
  case (2 c cs)
  show ?case
  proof (cases "is_space c")
    case True
    with 2(4) have "cs \<noteq> []" "\<not> is_space (last cs)" by (auto split: if_splits)
    then have "dropWhile is_space cs \<noteq> []" "last (dropWhile is_space cs) = last cs"
      by (auto simp: dropWhile_eq_Nil_conv) (metis \<open>\<not> is_space (last cs)\<close> dropWhile_eq_Nil_conv last_appendR last_in_set takeWhile_dropWhile_id)
    with 2 True \<open>cs \<noteq> []\<close> show ?thesis by auto
  next
    case False
    with 2 show ?thesis by (cases cs) auto
  qed
qed simp

lemma normalized_type_trimmed: "trimmed (normalized_type t)"
proof (cases "trim t = []")
  case False
  have "trimmed (trim t)" by simp
  with False have h: "\<not> is_space (hd (trim t))" "\<not> is_space (last (trim t))" by (simp_all add: trimmed_iff)
  with False have "hd (collapse_spaces (trim t)) = hd (trim t)" by (cases "trim t") auto
  moreover have "last (collapse_spaces (trim t)) = last (trim t)" using False h(2) by (rule last_collapse)
  ultimately show ?thesis using h unfolding trimmed_iff normalized_type_def by metis
qed (simp add: normalized_type_def trimmed_iff)

lemma normalized_type_no_line_end: "\<not> list_ex is_line_end (normalized_type t)"
proof -
  have "is_line_end c \<Longrightarrow> is_space c \<and> c \<noteq> CHR '' ''" for c by (auto simp: is_line_end_def is_space_def)
  then show ?thesis using collapse_chars unfolding normalized_type_def list_ex_iff by blast
qed

lemma digit_not_space: "is_digit c \<Longrightarrow> \<not> is_space c"
  by (auto simp: is_digit_def is_space_def Let_def)

lemma show_nat_hd: "\<not> is_space (hd (show_nat k))" "is_digit (hd (show_nat k))"
  using show_nat_digits[of k] show_nat_nonempty[of k] by (cases "show_nat k"; simp add: digit_not_space)+

lemma instance_suffix_name: "instance_suffix n (instance_name n k) = Some (show_nat k)"
  using show_nat_digits[of k] digit_not_space[of "CHR '' ''"]
  by (auto simp: instance_suffix_def instance_name_def Let_def)

lemma instance_name_inj: "instance_name n j = instance_name n k \<longleftrightarrow> j = k"
  by (metis instance_suffix_name option.inject show_nat_inj)

lemma max_suffix_ge:
  "r \<in> set rs \<Longrightarrow> instance_suffix n (tr_name r) = Some ds \<Longrightarrow> num_of_digits ds \<le> max_suffix n rs"
proof (induction rs rule: rev_induct)
  case (snoc x xs)
  then show ?case unfolding max_suffix_def by (auto split: option.splits)
qed simp

text \<open>The name proposed for the next instance of a type is not the name of any of its instances, whatever
  suffixes they carry.\<close>

theorem next_instance_fresh:
  assumes "normalized_type typeName \<noteq> []" "r \<in> set instances"
  shows "tr_name r \<noteq> buildNextInstanceName typeName instances"
proof
  let ?n = "normalized_type typeName"
  assume "tr_name r = buildNextInstanceName typeName instances"
  with assms(1) have "instance_suffix ?n (tr_name r) = Some (show_nat (max_suffix ?n instances + 1))"
    by (simp add: buildNextInstanceName_def Let_def instance_suffix_name)
  from max_suffix_ge[OF assms(2) this] show False by simp
qed

lemma infer_numeral:
  assumes "numeral_rest t" "\<And>i. i < length p \<Longrightarrow> \<not> numeral_rest (drop i p @ t)" "\<not> list_ex is_line_end p" "trim p \<noteq> []"
  shows "inferResourceType (p @ t) = trim p"
proof -
  let ?P = "\<lambda>i. numeral_rest (drop i (p @ t)) \<and> \<not> list_ex is_line_end (take i (p @ t))"
  have "[0..<Suc (length (p @ t))] = [0..<length p] @ length p # [Suc (length p)..<Suc (length (p @ t))]"
    using upt_conv_Cons[of "length p" "Suc (length (p @ t))"] upt_add_eq_append[of 0 "length p" "Suc (length t)"] by simp
  moreover have "find ?P [0..<length p] = None" using assms(2) by (auto intro: find_eq_NoneI)
  ultimately have "find ?P [0..<Suc (length (p @ t))] = Some (length p)" using assms(1,3) by (simp add: find_append)
  with assms(4) show ?thesis by (simp add: inferResourceType_def)
qed

text \<open>C30. For a type whose name, with its spaces collapsed, is not empty and either has a space or does not end in a digit: the names generated for
  it are as many as asked for, but at least one, all different, and the type read off each of them is the type they were
  generated for. (The instances of a type \<^verbatim>\<open>UR5\<close> are named \<^verbatim>\<open>UR51\<close> and so on, and read as instances of \<^verbatim>\<open>UR\<close>.)\<close>

theorem instance_names_roundtrip:
  assumes "normalized_type typeName \<noteq> []"
    and "list_ex is_space (normalized_type typeName) \<or> \<not> is_digit (last (normalized_type typeName))"
  shows "distinct (buildInstanceNames typeName cnt) \<and> length (buildInstanceNames typeName cnt) = nat (max 1 cnt)
    \<and> list_all (\<lambda>n. inferResourceType n = normalized_type typeName) (buildInstanceNames typeName cnt)"
proof -
  let ?n = "normalized_type typeName"
  have "inferResourceType (instance_name ?n k) = ?n" for k
  proof -
    have t: "trim ?n = ?n" using normalized_type_trimmed by (simp add: trimmed_def)
    have "\<exists>t. instance_name ?n k = ?n @ t \<and> numeral_rest t \<and> (\<forall>i < length ?n. \<not> numeral_rest (drop i ?n @ t))"
    proof (cases "list_ex is_space ?n")
      case True
      have "\<not> is_digit (CHR '' '')" using digit_not_space by fastforce
      moreover have "tl (drop i ?n @ '' '' @ show_nat k) = tl (drop i ?n) @ '' '' @ show_nat k" if "i < length ?n" for i
        using that by (cases "drop i ?n") auto
      ultimately show ?thesis
        using True show_nat_digits[of k] by (intro exI[of _ "'' '' @ show_nat k"]) (auto simp: instance_name_def numeral_rest_def)
    next
      case False
      have "last ?n \<in> set (drop i ?n)" if "i < length ?n" for i using that by (metis drop_eq_Nil last_drop last_in_set not_le)
      moreover have "\<not> is_space (hd (drop i ?n))" if "i < length ?n" for i
        using that False by (simp add: hd_drop_conv_nth list_ex_iff)
      ultimately show ?thesis
        using False assms(2) show_nat_digits[of k]
        by (intro exI[of _ "show_nat k"]) (auto simp: instance_name_def numeral_rest_def list_all_iff)
    qed
    then show ?thesis using infer_numeral[of _ ?n] normalized_type_no_line_end assms(1) t by metis
  qed
  moreover have "distinct (map (\<lambda>index. instance_name ?n (index + 1)) [0..<m])" for m
    by (simp add: distinct_map inj_on_def instance_name_inj)
  ultimately show ?thesis using assms(1) by (auto simp: buildInstanceNames_def Let_def list_all_iff)
qed

definition named_resource :: "string \<Rightarrow> string option \<Rightarrow> string option \<Rightarrow> td_resource" where
  "named_resource n k parent = \<lparr>tr_id = ''id-'' @ n, tr_task_distributor_id = ''d'', tr_name = n, tr_kind = k,
     tr_parent_resource_id = parent, tr_description = None\<rparr>"

theorem next_instance_fresh_witness:
  "tr_name (named_resource ''arm7'' None None) \<noteq> buildNextInstanceName ''arm'' [named_resource ''arm7'' None None, named_resource ''arm 2'' None None]"
  by (rule next_instance_fresh) (code_simp, simp)

theorem instance_names_roundtrip_witness:
  "list_all (\<lambda>n. inferResourceType n = ''robot arm'') (buildInstanceNames '' robot  arm'' 3)"
proof -
  have n: "normalized_type '' robot  arm'' = ''robot arm''" by code_simp
  have "normalized_type '' robot  arm'' \<noteq> []"
      "list_ex is_space (normalized_type '' robot  arm'') \<or> \<not> is_digit (last (normalized_type '' robot  arm''))"
    unfolding n by code_simp+
  from instance_names_roundtrip[OF this, of 3] show ?thesis unfolding n by blast
qed

lemma digit_type_lost: "buildInstanceNames ''UR5'' 1 = [''UR51'']" "inferResourceType ''UR51'' = ''UR''"
  by code_simp+

section \<open>The groups partition the instances\<close>

abbreviation all_items :: "(string \<times> resource_group) list \<Rightarrow> td_resource multiset" where
  "all_items groups \<equiv> mset (concat (map (\<lambda>g. rg_items (snd g)) groups))"

lemma all_items_alt: "all_items groups = sum_mset (image_mset (\<lambda>g. mset (rg_items (snd g))) (mset groups))"
  by (induction groups) simp_all

lemma items_map_set:
  "distinct (map fst groups) \<Longrightarrow>
   all_items (map_set n g groups) + mset (rg_items (group_of n groups)) = all_items groups + mset (rg_items g)"
proof (induction groups)
  case (Cons x groups)
  show ?case
  proof (cases "fst x = n")
    case True
    then show ?thesis by (cases x) (simp add: group_of_def ac_simps)
  next
    case False
    then have "group_of n (x # groups) = group_of n groups" by (cases x) (simp add: group_of_def)
    moreover have "all_items (map_set n g (x # groups)) = mset (rg_items (snd x)) + all_items (map_set n g groups)"
      using False by (cases x) simp
    ultimately show ?thesis using Cons by (simp add: add.assoc)
  qed
qed (simp add: group_of_def)

definition groups_ok :: "td_resource list \<Rightarrow> (string \<times> resource_group) list \<Rightarrow> bool" where
  "groups_ok rs groups =
     (distinct (map fst groups)
      \<and> (\<forall>(n, g) \<in> set groups. (\<forall>r \<in> set (rg_items g). type_name_of rs r = n \<and> \<not> isResourceType r)
            \<and> (\<forall>t. rg_typeResource g = Some t \<longrightarrow> tr_name t = n \<and> isResourceType t)))"

lemma groups_ok_js_sort: "groups_ok rs (js_sort c gs) = groups_ok rs gs"
proof -
  have "distinct (map fst (js_sort c gs)) = distinct (map fst gs)"
    by (metis mset_eq_imp_distinct_iff mset_js_sort mset_map)
  then show ?thesis by (simp add: groups_ok_def)
qed

lemma groups_ok_map_set:
  assumes "groups_ok rs groups" "\<forall>r \<in> set (rg_items g). type_name_of rs r = n \<and> \<not> isResourceType r"
    and "\<forall>t. rg_typeResource g = Some t \<longrightarrow> tr_name t = n \<and> isResourceType t"
  shows "groups_ok rs (map_set n g groups)"
  using assms set_map_set_subset[of n g groups] distinct_update[of groups n g] unfolding groups_ok_def by blast

lemma groups_ok_lookup:
  assumes "groups_ok rs groups"
  shows "\<forall>r \<in> set (rg_items (group_of n groups)). type_name_of rs r = n \<and> \<not> isResourceType r"
    and "\<forall>t. rg_typeResource (group_of n groups) = Some t \<longrightarrow> tr_name t = n \<and> isResourceType t"
  using assms unfolding groups_ok_def group_of_def
  by (cases "map_of groups n"; force dest: map_of_SomeD)+

lemma group_step_ok: "groups_ok rs groups \<Longrightarrow> groups_ok rs (group_step rs r groups)"
  unfolding group_step_def Let_def using groups_ok_lookup
  by (auto intro!: groups_ok_map_set)

lemma fold_group_step:
  "groups_ok rs (fold (group_step rs) xs []) \<and> all_items (fold (group_step rs) xs []) = mset (filter (\<lambda>r. \<not> isResourceType r) xs)"
proof (induction xs rule: rev_induct)
  case (snoc x xs)
  let ?m = "fold (group_step rs) xs []"
  have d: "distinct (map fst ?m)" using snoc by (simp add: groups_ok_def)
  have "all_items (group_step rs x ?m) = all_items ?m + (if isResourceType x then {#} else {#x#})"
  proof (cases "isResourceType x")
    case True
    then show ?thesis
      using items_map_set[OF d, of "tr_name x" "(group_of (tr_name x) ?m)\<lparr>rg_typeResource := Some x\<rparr>"]
      by (simp add: group_step_def)
  next
    case False
    let ?n = "type_name_of rs x"
    from False show ?thesis
      using items_map_set[OF d, of ?n "(group_of ?n ?m)\<lparr>rg_items := rg_items (group_of ?n ?m) @ [x]\<rparr>"]
      by (simp add: group_step_def Let_def)
  qed
  with snoc show ?case by (auto simp: group_step_ok)
qed (simp add: groups_ok_def)

text \<open>Grouping the resources by type loses none and shows none twice: the items of all groups together are the
  resources that are no types, each in the group of its parent type (or of the type its name suggests), a
  group has at most one type resource and it bears the name of the group, and groups and items are in the order
  of \<open>localeCompare\<close>.\<close>

theorem resource_groups_partition:
  assumes "sort_order lc"
  shows "all_items (resourceTypeGroups lc resources) = mset (filter (\<lambda>r. \<not> isResourceType r) (arr resources))
    \<and> groups_ok (arr resources) (resourceTypeGroups lc resources)
    \<and> sorted_wrt (\<lambda>a b. lc (fst a) (fst b) \<le> 0) (resourceTypeGroups lc resources)
    \<and> list_all (\<lambda>g. sorted_wrt (\<lambda>a b. lc (tr_name a) (tr_name b) \<le> 0) (rg_items (snd g))) (resourceTypeGroups lc resources)"
proof -
  let ?srt = "\<lambda>(n, g). (n :: string, g\<lparr>rg_items := js_sort (\<lambda>a b. lc (tr_name a) (tr_name b)) (rg_items g)\<rparr>)"
  let ?g0 = "fold (group_step (arr resources)) (arr resources) []"
  let ?gs = "map ?srt ?g0"
  have items: "all_items (resourceTypeGroups lc resources) = all_items ?g0"
    unfolding resourceTypeGroups_def Let_def all_items_alt mset_js_sort
    by (simp add: image_mset.compositionality comp_def case_prod_unfold)
  have "groups_ok (arr resources) ?gs"
    using fold_group_step[of "arr resources" "arr resources"] by (auto simp: groups_ok_def comp_def case_prod_unfold)
  then have "groups_ok (arr resources) (resourceTypeGroups lc resources)"
    unfolding resourceTypeGroups_def Let_def by (simp only: groups_ok_js_sort)
  moreover have "sorted_wrt (\<lambda>a b. lc (fst a) (fst b) \<le> 0) (resourceTypeGroups lc resources)"
    unfolding resourceTypeGroups_def Let_def by (rule sort_order.sorted_js_sort) (rule sort_order_key[OF assms])
  moreover have "list_all (\<lambda>g. sorted_wrt (\<lambda>a b. lc (tr_name a) (tr_name b) \<le> 0) (rg_items (snd g))) (resourceTypeGroups lc resources)"
    unfolding resourceTypeGroups_def Let_def
    by (auto simp: list_all_iff intro: sort_order.sorted_js_sort[OF sort_order_key[OF assms]])
  ultimately show ?thesis using items fold_group_step by simp
qed

theorem resource_groups_partition_witness:
  "all_items (resourceTypeGroups code_unit_cmp (Some [named_resource ''arm1'' None None, named_resource ''arm'' (Some ''type'') None]))
     = {#named_resource ''arm1'' None None#}"
  using resource_groups_partition[OF code_units.sort_order_axioms, of "Some [named_resource ''arm1'' None None, named_resource ''arm'' (Some ''type'') None]"]
  by (simp add: isResourceType_def named_resource_def)

section \<open>Creating resources\<close>

fun created_instances :: "resource_request list \<Rightarrow> string list" where
  "created_instances [] = []"
| "created_instances (CreateResource n k p d # rqs) = (if k = ''instance'' then n # created_instances rqs else created_instances rqs)"

lemma created_instances_append [simp]: "created_instances (xs @ ys) = created_instances xs @ created_instances ys"
  by (induction xs rule: created_instances.induct) auto

lemma created_instances_map [simp]: "created_instances (map (\<lambda>n. CreateResource n ''instance'' p d) ns) = ns"
  by (induction ns) auto

text \<open>Creating instances never makes a name ambiguous: generating a type creates exactly those of its names no
  instance has yet, each once, and adding an instance to a type is refused when any resource has the
  name and otherwise creates just that name.\<close>

theorem resource_creation_fresh:
  assumes "handleAddInstanceToType resources typeName typeResource items draft newId = AddInstance rqs name"
  shows "created_instances (handleGenerateResourceType resources typeName desc cnt newId) =
       filter (\<lambda>n. n \<notin> tr_name ` set (filter isResourceInstance (arr resources))) (buildInstanceNames typeName cnt)
    \<and> distinct (created_instances (handleGenerateResourceType resources typeName desc cnt newId))
    \<and> created_instances rqs = [name] \<and> name \<noteq> [] \<and> name \<notin> tr_name ` set (arr resources)"
proof -
  have d: "distinct (buildInstanceNames typeName cnt)"
    by (simp add: buildInstanceNames_def Let_def distinct_map inj_on_def instance_name_inj)
  have "created_instances (handleGenerateResourceType resources typeName desc cnt newId) =
      filter (\<lambda>n. n \<notin> tr_name ` set (filter isResourceInstance (arr resources))) (buildInstanceNames typeName cnt)"
    by (simp add: handleGenerateResourceType_def Let_def split: option.splits)
  moreover have "created_instances rqs = [name] \<and> name \<noteq> [] \<and> name \<notin> tr_name ` set (arr resources)"
    using assms by (auto simp: handleAddInstanceToType_def Let_def list_ex_iff split: if_splits option.splits)
  ultimately show ?thesis using d by simp
qed

theorem resource_creation_fresh_witness:
  "created_instances (handleGenerateResourceType (Some [named_resource ''arm1'' None None]) ''arm'' [] 2 ''x'') = [''arm2'']"
proof -
  let ?rs = "Some [named_resource ''arm1'' None None]"
  have "handleAddInstanceToType ?rs ''arm'' None [] (Some ''arm9'') ''x'' =
      AddInstance [CreateResource ''arm'' ''type'' None None, CreateResource ''arm9'' ''instance'' (Some ''x'') None] ''arm9''"
    by code_simp
  from resource_creation_fresh[OF this, of "[]" 2]
  have "created_instances (handleGenerateResourceType ?rs ''arm'' [] 2 ''x'') =
      filter (\<lambda>n. n \<notin> tr_name ` set (filter isResourceInstance (arr ?rs))) (buildInstanceNames ''arm'' 2)" by blast
  moreover have "buildInstanceNames ''arm'' 2 = [''arm1'', ''arm2'']" by code_simp
  ultimately show ?thesis by (simp add: isResourceInstance_def named_resource_def)
qed

end
