(* ===== verification/Task_Modals.thy ===== *)
theory Task_Modals
  imports Graph_Edit Task_Backup Pddl_Resources
begin

text \<open>
  The palette and the dialogs of the task editor (\<^verbatim>\<open>pages/ActionGraph/index.tsx\<close>): the palette built from the servers
  found in the fleet (\<open>nodePalette\<close>), creating and renaming a task, assigning it to agents, and editing the states of a
  state definition. \<open>lc\<close> stands for \<open>localeCompare\<close>.
\<close>

section \<open>The palette\<close>

record action_server_info =
  av_agent_id :: string
  av_agent_name :: "string option"
  av_action_type :: string
  av_action_server :: string
  av_is_available :: bool
  av_node_name :: "string option"
  av_is_lifecycle_node :: "bool option"
  av_lifecycle_state :: lifecycle_state
  av_status :: string

record service_server_info =
  ss_agent_id :: string
  ss_agent_name :: "string option"
  ss_service_type :: string
  ss_service_name :: string
  ss_is_available :: bool
  ss_node_name :: "string option"
  ss_is_lifecycle_node :: "bool option"
  ss_lifecycle_state :: lifecycle_state
  ss_status :: string

record palette_category =
  cat_category :: string
  cat_items :: "palette_item list"

definition no_item :: "string \<Rightarrow> string \<Rightarrow> palette_item" where
  "no_item ty sub =
     \<lparr>pi_type = ty, pi_subtype = Some sub, pi_label = None, pi_color = None, pi_actionType = None, pi_server = None,
      pi_duringState = None, pi_robotCount = None, pi_agentName = None, pi_isAvailable = None, pi_capabilityKind = None,
      pi_providerNode = None, pi_isLifecycleNode = None, pi_lifecycleState = None, pi_hideKey = None, pi_isHidden = None,
      pi_isDefaultHidden = None, pi_isDraggable = Some True, pi_maxRetries = None, pi_backoffMs = None\<rparr>"

text \<open>The loop over the servers: the first server of a key is kept unless a later one is available and it is not.\<close>

definition dedupe_step :: "('s \<Rightarrow> string) \<Rightarrow> ('s \<Rightarrow> bool) \<Rightarrow> 's \<Rightarrow> (string \<times> 's) list \<Rightarrow> (string \<times> 's) list" where
  "dedupe_step key available srv m =
     (case map_of m (key srv) of
        None \<Rightarrow> map_set (key srv) srv m
      | Some existing \<Rightarrow> if \<not> available existing \<and> available srv then map_set (key srv) srv m else m)"

definition dedupe :: "('s \<Rightarrow> string) \<Rightarrow> ('s \<Rightarrow> bool) \<Rightarrow> 's list \<Rightarrow> (string \<times> 's) list" where
  "dedupe key available srvs = fold (dedupe_step key available) srvs []"

definition action_key :: "action_server_info \<Rightarrow> string" where
  "action_key s = av_agent_id s @ ''|'' @ av_action_type s @ ''|'' @ av_action_server s"

definition service_key :: "service_server_info \<Rightarrow> string" where
  "service_key s = ss_agent_id s @ ''|'' @ ss_service_type s @ ''|'' @ ss_service_name s"

definition action_item :: "string list \<Rightarrow> action_server_info \<Rightarrow> palette_item" where
  "action_item hiddenKeys srv =
     (let hideKey = getDiscoveredActionHideKey (av_action_type srv) (av_action_server srv)
      in (no_item ''action'' (av_action_server srv))
           \<lparr>pi_label := Some (orS (Some (getServerLeafName (Some (av_action_server srv)))) (av_action_server srv)),
            pi_color := Some (getActionColor (av_action_type srv)), pi_actionType := Some (av_action_type srv),
            pi_server := Some (av_action_server srv), pi_agentName := av_agent_name srv,
            pi_isAvailable := Some (av_is_available srv), pi_capabilityKind := Some ''action'',
            pi_providerNode := av_node_name srv, pi_isLifecycleNode := av_is_lifecycle_node srv,
            pi_lifecycleState := Some (av_lifecycle_state srv), pi_hideKey := Some hideKey,
            pi_isHidden := Some (hideKey \<in> set hiddenKeys)\<rparr>)"

definition service_item :: "string list \<times> string list \<Rightarrow> service_server_info \<Rightarrow> palette_item" where
  "service_item hiddenShown srv =
     (let hideKey = getDiscoveredServiceHideKey (ss_service_type srv) (ss_service_name srv);
          isDefaultHidden = shouldDefaultHideDiscoveredService (ss_service_type srv) (ss_service_name srv)
      in (no_item ''service'' (ss_service_name srv))
           \<lparr>pi_label := Some (orS (Some (getServerLeafName (Some (ss_service_name srv)))) (ss_service_name srv)),
            pi_color := Some ''#0ea5e9'', pi_actionType := Some (ss_service_type srv),
            pi_server := Some (ss_service_name srv), pi_agentName := ss_agent_name srv,
            pi_isAvailable := Some (ss_is_available srv), pi_capabilityKind := Some ''service'',
            pi_providerNode := ss_node_name srv, pi_isLifecycleNode := ss_is_lifecycle_node srv,
            pi_lifecycleState := Some (ss_lifecycle_state srv), pi_hideKey := Some hideKey,
            pi_isHidden := Some (service_isHidden hideKey isDefaultHidden hiddenShown),
            pi_isDefaultHidden := Some isDefaultHidden\<rparr>)"

definition strip_slash :: "string \<Rightarrow> string" where
  "strip_slash s = (if startsWith s ''/'' then drop 1 s else s)"

definition configured_item :: "action_mapping \<Rightarrow> palette_item" where
  "configured_item mapping =
     (no_item ''action'' (am_server mapping))
       \<lparr>pi_label := Some (strip_slash (am_server mapping)), pi_color := Some (getActionColor (am_action_type mapping)),
        pi_actionType := Some (am_action_type mapping), pi_server := Some (am_server mapping),
        pi_duringState := orO (case arr (am_during_states mapping) of [] \<Rightarrow> None | d # _ \<Rightarrow> Some d) (am_during_state mapping),
        pi_capabilityKind := Some ''action''\<rparr>"

definition fixed_categories :: "palette_category list" where
  "fixed_categories =
     [\<lparr>cat_category = ''Start Nodes'',
       cat_items = [(no_item ''event'' ''Start'')\<lparr>pi_label := Some ''Start'', pi_color := Some START_NODE_COLOR\<rparr>]\<rparr>,
      \<lparr>cat_category = ''Control Nodes'',
       cat_items = [(no_item ''retry'' ''Retry'')\<lparr>pi_label := Some ''Retry Block'', pi_color := Some ''#f59e0b'',
                      pi_maxRetries := Some (Fin 3), pi_backoffMs := Some (Fin 0)\<rparr>]\<rparr>,
      \<lparr>cat_category = ''End Nodes'',
       cat_items = [(no_item ''event'' ''End'')\<lparr>pi_label := Some ''End (Success)'', pi_color := Some ''#22c55e''\<rparr>,
                    (no_item ''event'' ''Error'')\<lparr>pi_label := Some ''End (Error)'', pi_color := Some ''#ef4444''\<rparr>]\<rparr>]"

definition nodePalette ::
  "action_server_info list \<Rightarrow> service_server_info list \<Rightarrow> state_definition option \<Rightarrow> string list \<Rightarrow> string list \<times> string list \<Rightarrow>
   palette_category list" where
  "nodePalette actions services stateDef hiddenActions hiddenShown =
     (if actions \<noteq> []
      then [\<lparr>cat_category = ''Discovered Actions'',
             cat_items = map (action_item hiddenActions) (map snd (dedupe action_key av_is_available actions))\<rparr>] else [])
     @ (if services \<noteq> []
        then [\<lparr>cat_category = ''Discovered Services'',
               cat_items = map (service_item hiddenShown) (map snd (dedupe service_key ss_is_available services))\<rparr>] else [])
     @ (case stateDef of
          Some d \<Rightarrow> if sd_action_mappings d \<noteq> []
                   then [\<lparr>cat_category = ''Configured Actions'', cat_items = map configured_item (sd_action_mappings d)\<rparr>] else []
        | None \<Rightarrow> [])
     @ fixed_categories"

lemma dedupe_step_facts:
  assumes "distinct (map fst m)"
  shows "distinct (map fst (dedupe_step key available srv m))"
    and "map fst (dedupe_step key available srv m) = set_add (key srv) (map fst m)"
    and "map_of (dedupe_step key available srv m) k =
           (if k = key srv
            then (case map_of m k of Some e \<Rightarrow> if \<not> available e \<and> available srv then Some srv else Some e | None \<Rightarrow> Some srv)
            else map_of m k)"
  using assms
  by (auto simp: dedupe_step_def set_add_def map_set_keys update_conv' distinct_update split: option.splits
      simp flip: map_of_eq_None_iff)

lemma uniq_snoc: "uniq (xs @ [x]) = set_add x (uniq xs)"
  by (simp add: uniq_def set_add_def)

lemma dedupe_snoc: "dedupe key available (srvs @ [s]) = dedupe_step key available s (dedupe key available srvs)"
  by (simp add: dedupe_def)

lemma dedupe_keys:
  "map fst (dedupe key available srvs) = uniq (map key srvs)"
proof (induction srvs rule: rev_induct)
  case (snoc s srvs)
  have d: "distinct (map fst (dedupe key available srvs))" by (simp only: snoc.IH distinct_uniq)
  show ?case unfolding dedupe_snoc dedupe_step_facts(2)[OF d] snoc.IH by (simp add: uniq_snoc)
qed (simp add: dedupe_def)

lemma dedupe_lookup:
  "map_of (dedupe key available srvs) k =
     (case List.find (\<lambda>s. key s = k \<and> available s) srvs of
        Some a \<Rightarrow> Some a
      | None \<Rightarrow> List.find (\<lambda>s. key s = k) srvs)"
proof (induction srvs rule: rev_induct)
  case (snoc s srvs)
  have d: "distinct (map fst (dedupe key available srvs))" by (simp only: dedupe_keys distinct_uniq)
  let ?P = "List.find (\<lambda>s. key s = k \<and> available s) srvs" and ?Q = "List.find (\<lambda>s. key s = k) srvs"
  show ?case
  proof (cases ?P)
    case None
    show ?thesis
    proof (cases ?Q)
      case (Some e)
      then have "e \<in> set srvs" "key e = k" by (auto simp: find_Some_iff)
      then have "\<not> available e" using None by (auto simp: find_None_iff)
      then show ?thesis unfolding dedupe_snoc dedupe_step_facts(3)[OF d] snoc.IH using None Some
        by (cases "k = key s") (auto simp: find_append)
    next
      case none: None
      then show ?thesis unfolding dedupe_snoc dedupe_step_facts(3)[OF d] snoc.IH using None
        by (cases "k = key s") (auto simp: find_append)
    qed
  next
    case (Some a)
    then have "available a" by (auto simp: find_Some_iff)
    then show ?thesis unfolding dedupe_snoc dedupe_step_facts(3)[OF d] snoc.IH using Some
      by (cases "k = key s") (auto simp: find_append)
  qed
qed (simp add: dedupe_def)

lemma dedupe_entry:
  assumes "(k, s) \<in> set (dedupe key available srvs)"
  shows "s \<in> set srvs \<and> key s = k \<and> (available s \<longleftrightarrow> (\<exists>x \<in> set srvs. key x = k \<and> available x))"
proof -
  have "map_of (dedupe key available srvs) k = Some s"
    using assms by (simp add: map_of_eq_Some_iff dedupe_keys)
  then show ?thesis
    unfolding dedupe_lookup by (auto simp: find_None_iff find_Some_iff split: option.splits)
qed

text \<open>
  The palette lists each discovered action server once: one item for every agent, type and server that was reported,
  and the item is shown as available exactly when one of the reports for it says so.
\<close>

theorem palette_actions:
  assumes "actions \<noteq> []"
  shows "\<exists>items rest. nodePalette actions services stateDef hidden hiddenShown
             = \<lparr>cat_category = ''Discovered Actions'', cat_items = items\<rparr> # rest
           \<and> length items = card (action_key ` set actions)
           \<and> (\<forall>s \<in> set actions. \<exists>s' \<in> set actions. action_key s' = action_key s \<and> action_item hidden s' \<in> set items
                \<and> (av_is_available s' \<longleftrightarrow> (\<exists>x \<in> set actions. action_key x = action_key s \<and> av_is_available x)))
           \<and> set items \<subseteq> action_item hidden ` set actions"
proof -
  let ?m = "dedupe action_key av_is_available actions"
  let ?items = "map (action_item hidden) (map snd ?m)"
  have "length (map fst ?m) = card (set (map fst ?m))"
    by (rule distinct_card[symmetric]) (simp only: dedupe_keys distinct_uniq)
  also have "set (map fst ?m) = action_key ` set actions" by (simp only: dedupe_keys set_uniq set_map)
  finally have len: "length ?items = card (action_key ` set actions)" by simp
  have every: "\<exists>s' \<in> set actions. action_key s' = action_key s \<and> action_item hidden s' \<in> set ?items
      \<and> (av_is_available s' \<longleftrightarrow> (\<exists>x \<in> set actions. action_key x = action_key s \<and> av_is_available x))"
    if "s \<in> set actions" for s
  proof -
    have "action_key s \<in> set (map fst ?m)" using that by (simp only: dedupe_keys set_uniq set_map imageI)
    then obtain s' where "(action_key s, s') \<in> set ?m" by auto
    then have "s' \<in> set actions" "action_key s' = action_key s" "action_item hidden s' \<in> set ?items"
        "av_is_available s' \<longleftrightarrow> (\<exists>x \<in> set actions. action_key x = action_key s \<and> av_is_available x)"
      using dedupe_entry[of "action_key s" s' action_key av_is_available actions] by (force simp: image_iff)+
    then show ?thesis by blast
  qed
  have "set ?items \<subseteq> action_item hidden ` set actions"
    using dedupe_entry[of _ _ action_key av_is_available actions] by auto
  then show ?thesis using assms len every by (auto simp: nodePalette_def)
qed

definition sample_server :: "bool \<Rightarrow> action_server_info" where
  "sample_server available =
     \<lparr>av_agent_id = ''rtm1'', av_agent_name = Some ''RTM 1'', av_action_type = ''nav2_msgs/NavigateToPose'',
      av_action_server = ''/navigate'', av_is_available = available, av_node_name = None, av_is_lifecycle_node = None,
      av_lifecycle_state = LcUnknown, av_status = ''''\<rparr>"

theorem palette_actions_witness:
  "\<exists>items rest. nodePalette [sample_server False, sample_server True] [] None [] ([], [])
             = \<lparr>cat_category = ''Discovered Actions'', cat_items = items\<rparr> # rest \<and> length items = 1"
proof -
  have "[sample_server False, sample_server True] \<noteq> []" by simp
  from palette_actions[OF this, of "[]" None "[]" "([], [])"] show ?thesis
    by (auto simp: action_key_def sample_server_def)
qed

section \<open>Creating and renaming a task\<close>

record create_form =
  cf_id :: string
  cf_name :: string
  cf_description :: string

text \<open>The forms either show an error, close without a request, or send one.\<close>

datatype 'r submit = ShowError string | JustClose | Send 'r

definition createSubmit :: "create_form \<Rightarrow> (string \<times> string \<times> string option) submit" where
  "createSubmit form =
     (if cf_id form = '''' \<or> cf_name form = '''' then ShowError ''ID and Name are required''
      else Send (cf_id form, cf_name form, if cf_description form = '''' then None else Some (cf_description form)))"

text \<open>The message of \<open>renameSubmit\<close> is Korean in the code.\<close>

definition renameSubmit :: "behavior_tree \<Rightarrow> string \<Rightarrow> string \<Rightarrow> (string \<times> string \<times> string) submit" where
  "renameSubmit template formId formName =
     (let trimmedID = trim formId; trimmedName = trim formName
      in if trimmedID = '''' \<or> trimmedName = '''' then ShowError ''task ID and name are required''
         else if trimmedID = bt_id template \<and> trimmedName = bt_name template then JustClose
         else Send (bt_id template, trimmedID, trimmedName))"

lemma rename_sends_trimmed:
  "renameSubmit t i n = Send (old, new, nm) \<Longrightarrow>
     old = bt_id t \<and> new \<noteq> '''' \<and> nm \<noteq> '''' \<and> trimmed new \<and> trimmed nm \<and> (new \<noteq> bt_id t \<or> nm \<noteq> bt_name t)"
  by (auto simp: renameSubmit_def Let_def trimmed_def split: if_splits)

text \<open>A new task may be given an id of spaces only, which renaming refuses.\<close>

lemma create_blank_id:
  "createSubmit \<lparr>cf_id = '' '', cf_name = ''x'', cf_description = ''''\<rparr> = Send ('' '', ''x'', None)
   \<and> (\<exists>m. renameSubmit t '' '' ''x'' = ShowError m)"
  by (simp add: createSubmit_def renameSubmit_def Let_def trim_def is_space_def)

section \<open>Assigning a task\<close>

record compatible_agent =
  ca_agent_id :: string
  ca_agent_name :: string
  ca_status :: string
  ca_has_all_capabilities :: bool
  ca_missing_capabilities :: "string list option"

record modal_agent =
  mo_agent_id :: string
  mo_agent_name :: string
  mo_status :: string
  mo_has_all_capabilities :: bool
  mo_missing_capabilities :: "string list"

definition assignedAgentIdSet :: "assignment_info list \<Rightarrow> string list" where
  "assignedAgentIdSet currentAssignments = uniq (map ai_agent_id currentAssignments)"

definition compatibilityMap :: "compatible_agent list \<Rightarrow> (string \<times> compatible_agent) list" where
  "compatibilityMap cs = foldl (\<lambda>m c. map_set (ca_agent_id c) c m) [] cs"

definition known_agent :: "compatible_agent list \<Rightarrow> assignment_info list \<Rightarrow> agent \<Rightarrow> modal_agent" where
  "known_agent compatibles assigned a =
     (let c = map_of (compatibilityMap compatibles) (ag_id a)
      in \<lparr>mo_agent_id = ag_id a, mo_agent_name = orS (Some (ag_name a)) (ag_id a),
          mo_status = orS (map_option ca_status c) (orS (Some (ag_status a)) ''offline''),
          mo_has_all_capabilities = coalesce (map_option ca_has_all_capabilities c) (ag_id a \<in> set (assignedAgentIdSet assigned)),
          mo_missing_capabilities = arr (Option.bind c ca_missing_capabilities)\<rparr>)"

definition compatible_only :: "compatible_agent \<Rightarrow> modal_agent" where
  "compatible_only c =
     \<lparr>mo_agent_id = ca_agent_id c, mo_agent_name = orS (Some (ca_agent_name c)) (ca_agent_id c),
      mo_status = orS (Some (ca_status c)) ''offline'', mo_has_all_capabilities = ca_has_all_capabilities c,
      mo_missing_capabilities = arr (ca_missing_capabilities c)\<rparr>"

definition assigned_only :: "assignment_info \<Rightarrow> modal_agent" where
  "assigned_only a =
     \<lparr>mo_agent_id = ai_agent_id a, mo_agent_name = orS (Some (ai_agent_name a)) (ai_agent_id a), mo_status = ''offline'',
      mo_has_all_capabilities = True, mo_missing_capabilities = []\<rparr>"

text \<open>\<open>if (byAgent.has(...)) continue; byAgent.set(...)\<close>\<close>

definition add_missing :: "modal_agent \<Rightarrow> (string \<times> modal_agent) list \<Rightarrow> (string \<times> modal_agent) list" where
  "add_missing a m = (if mo_agent_id a \<in> set (map fst m) then m else map_set (mo_agent_id a) a m)"

definition mergedAgents :: "agent list \<Rightarrow> compatible_agent list \<Rightarrow> assignment_info list \<Rightarrow> modal_agent list" where
  "mergedAgents allAgents compatibles assigned =
     (let m1 = foldl (\<lambda>m a. map_set (ag_id a) (known_agent compatibles assigned a) m) [] allAgents;
          m2 = fold (\<lambda>c. add_missing (compatible_only c)) compatibles m1;
          m3 = fold (\<lambda>a. add_missing (assigned_only a)) assigned m2
      in map snd m3)"

definition modal_agent_cmp :: "(string \<Rightarrow> string \<Rightarrow> int) \<Rightarrow> string list \<Rightarrow> modal_agent \<Rightarrow> modal_agent \<Rightarrow> int" where
  "modal_agent_cmp lc assigned a b =
     (let aAssigned = mo_agent_id a \<in> set assigned; bAssigned = mo_agent_id b \<in> set assigned
      in if aAssigned \<noteq> bAssigned then (if aAssigned then - 1 else 1)
         else if mo_has_all_capabilities a \<noteq> mo_has_all_capabilities b then (if mo_has_all_capabilities a then - 1 else 1)
         else if mo_status a \<noteq> mo_status b then (if mo_status a = ''online'' then - 1 else 1)
         else lc (formatTaskManagerName (Some (mo_agent_name a))) (formatTaskManagerName (Some (mo_agent_name b))))"

definition assign_sortedAgents :: "(string \<Rightarrow> string \<Rightarrow> int) \<Rightarrow> assignment_info list \<Rightarrow> modal_agent list \<Rightarrow> modal_agent list" where
  "assign_sortedAgents lc assigned agents = js_sort (modal_agent_cmp lc (assignedAgentIdSet assigned)) agents"

definition assignDisabled :: "assignment_info list \<Rightarrow> modal_agent \<Rightarrow> bool" where
  "assignDisabled assigned a \<longleftrightarrow> \<not> mo_has_all_capabilities a \<and> mo_agent_id a \<notin> set (assignedAgentIdSet assigned)"

datatype assign_request = AssignTo string | UnassignFrom string

definition assignClick :: "assignment_info list \<Rightarrow> modal_agent \<Rightarrow> assign_request" where
  "assignClick assigned a =
     (if mo_agent_id a \<in> set (assignedAgentIdSet assigned) then UnassignFrom (mo_agent_id a) else AssignTo (mo_agent_id a))"

definition matchedCount :: "string list \<Rightarrow> modal_agent \<Rightarrow> int" where
  "matchedCount requiredActionTypes a = int (length requiredActionTypes) - int (length (mo_missing_capabilities a))"

text \<open>The keys of the three loops.\<close>

lemma foldl_map_set_keys: "map fst (foldl (\<lambda>m x. map_set (f x) (g x) m) m xs) = foldl (\<lambda>ks x. set_add (f x) ks) (map fst m) xs"
  by (induction xs arbitrary: m) (simp_all add: map_set_keys set_add_def)

lemma add_missing_keys: "map fst (add_missing a m) = set_add (mo_agent_id a) (map fst m)"
  by (simp add: add_missing_def map_set_keys set_add_def)

lemma fold_missing_keys:
  "map fst (fold (\<lambda>x. add_missing (f x)) xs m) = foldl (\<lambda>ks x. set_add (mo_agent_id (f x)) ks) (map fst m) xs"
  by (induction xs arbitrary: m) (simp_all add: add_missing_keys)

lemma foldl_set_add:
  "set (foldl (\<lambda>ks x. set_add (f x) ks) ks xs) = set ks \<union> f ` set xs"
  "distinct ks \<Longrightarrow> distinct (foldl (\<lambda>ks x. set_add (f x) ks) ks xs)"
  by (induction xs arbitrary: ks) auto

definition keyed :: "(string \<times> modal_agent) list \<Rightarrow> bool" where
  "keyed m \<longleftrightarrow> (\<forall>(k, a) \<in> set m. mo_agent_id a = k)"

lemma keyed_set: "keyed m \<Longrightarrow> mo_agent_id a = k \<Longrightarrow> keyed (map_set k a m)"
  using set_map_set_subset[of k a m] by (fastforce simp: keyed_def)

lemma keyed_missing: "keyed m \<Longrightarrow> keyed (add_missing a m)"
  by (simp add: add_missing_def keyed_set)

lemma keyed_loops:
  "keyed m \<Longrightarrow> keyed (fold (\<lambda>x. add_missing (f x)) xs m)"
  "keyed m \<Longrightarrow> keyed (foldl (\<lambda>m a. map_set (ag_id a) (known_agent compatibles assigned a) m) m as)"
  by (induction xs arbitrary: m, simp_all add: keyed_missing)
    (induction as arbitrary: m, simp_all add: keyed_set known_agent_def Let_def)

lemma keyed_ids: "keyed m \<Longrightarrow> map mo_agent_id (map snd m) = map fst m"
  by (induction m) (auto simp: keyed_def)

text \<open>
  The dialog that assigns a task lists every agent that is known, compatible or assigned exactly once, and the button of an
  assigned agent is never disabled, so that every assignment can be removed.
\<close>

theorem assign_dialog_complete:
  assumes "listed = assign_sortedAgents lc assigned (mergedAgents agents compatibles assigned)"
  shows "distinct (map mo_agent_id listed)
       \<and> set (map mo_agent_id listed) = ag_id ` set agents \<union> ca_agent_id ` set compatibles \<union> ai_agent_id ` set assigned
       \<and> (\<forall>a \<in> set listed. mo_agent_id a \<in> ai_agent_id ` set assigned \<longrightarrow>
            \<not> assignDisabled assigned a \<and> assignClick assigned a = UnassignFrom (mo_agent_id a))"
proof -
  define m where "m = fold (\<lambda>a. add_missing (assigned_only a)) assigned
      (fold (\<lambda>c. add_missing (compatible_only c)) compatibles
        (foldl (\<lambda>m a. map_set (ag_id a) (known_agent compatibles assigned a) m) [] agents))"
  have l: "mset listed = mset (map snd m)" by (simp add: assms assign_sortedAgents_def mergedAgents_def Let_def m_def)
  have ids: "map mo_agent_id (map snd m) = map fst m"
    unfolding m_def by (intro keyed_ids keyed_loops) (simp add: keyed_def)
  have keys: "distinct (map fst m)"
      "set (map fst m) = ag_id ` set agents \<union> ca_agent_id ` set compatibles \<union> ai_agent_id ` set assigned"
    unfolding m_def
    by (simp_all only: fold_missing_keys foldl_map_set_keys foldl_set_add)
      (auto simp: foldl_set_add compatible_only_def assigned_only_def)
  have "mset (map mo_agent_id listed) = mset (map fst m)" unfolding ids[symmetric] mset_map l ..
  then have "distinct (map mo_agent_id listed)" "set (map mo_agent_id listed) = set (map fst m)"
    using keys(1) by (metis mset_eq_imp_distinct_iff, metis mset_eq_setD)
  then show ?thesis using keys(2) by (auto simp: assignDisabled_def assignClick_def assignedAgentIdSet_def)
qed

definition sample_assignment :: assignment_info where
  "sample_assignment =
     \<lparr>ai_id = ''1'', ai_agent_id = ''gone'', ai_agent_name = '''', ai_behavior_tree_id = ''t'', ai_behavior_tree_name = ''t'',
      ai_robot_count = None, ai_server_version = Fin 1, ai_deployed_version = None, ai_deployment_status = ''pending'',
      ai_enabled = True, ai_deployed_at = None\<rparr>"

theorem assign_dialog_complete_witness:
  "set (map mo_agent_id (assign_sortedAgents code_unit_cmp [sample_assignment] (mergedAgents [] [] [sample_assignment]))) = {''gone''}"
  using assign_dialog_complete[OF refl, of code_unit_cmp "[sample_assignment]" "[]" "[]"]
  by (simp add: sample_assignment_def)

text \<open>
  Two agents that are alike but for two different statuses other than online are each sorted after the other, so their order is left
  to the sorting algorithm.
\<close>

lemma assign_order_inconsistent:
  assumes "mo_status a \<noteq> mo_status b" "mo_status a \<noteq> ''online''" "mo_status b \<noteq> ''online''"
    and "mo_has_all_capabilities a = mo_has_all_capabilities b" "mo_agent_id a \<notin> set ids" "mo_agent_id b \<notin> set ids"
  shows "modal_agent_cmp lc ids a b > 0 \<and> modal_agent_cmp lc ids b a > 0"
  using assms by (auto simp: modal_agent_cmp_def Let_def)

section \<open>The states of a state definition\<close>

record state_modal =
  sm_newState :: string
  sm_newStateColor :: state_color_type
  sm_error :: string
  sm_localStates :: "string list"
  sm_localColors :: "(string \<times> state_color_type) list"

text \<open>\<open>replace(/\s+/g, '_')\<close>\<close>

function underscore_spaces :: "string \<Rightarrow> string" where
  "underscore_spaces [] = []"
| "underscore_spaces (c # cs) =
     (if is_space c then CHR ''_'' # underscore_spaces (dropWhile is_space cs) else c # underscore_spaces cs)"
  by pat_completeness auto
termination
  by (relation "measure length") (auto simp: le_imp_less_Suc length_dropWhile_le)

definition state_code :: "string \<Rightarrow> string" where
  "state_code s = underscore_spaces (toLowerCase (trim s))"

definition open_states :: "(string \<times> state_color_type) list \<Rightarrow> state_definition \<Rightarrow> state_modal" where
  "open_states stateColorsMap d =
     \<lparr>sm_newState = '''', sm_newStateColor = ColNeutral, sm_error = '''', sm_localStates = sd_states d,
      sm_localColors = foldl (\<lambda>m s. map_set s (getStateColorType stateColorsMap s) m) [] (sd_states d)\<rparr>"

definition modal_handleAddState :: "state_modal \<Rightarrow> state_modal" where
  "modal_handleAddState m =
     (let trimmed = state_code (sm_newState m)
      in if trimmed = '''' then m\<lparr>sm_error := ''State name is required''\<rparr>
         else if trimmed \<in> set (sm_localStates m) then m\<lparr>sm_error := ''State already exists''\<rparr>
         else \<lparr>sm_newState = '''', sm_newStateColor = ColNeutral, sm_error = '''',
               sm_localStates = sm_localStates m @ [trimmed],
               sm_localColors = map_set trimmed (sm_newStateColor m) (sm_localColors m)\<rparr>)"

definition handleRemoveState :: "state_definition \<Rightarrow> string \<Rightarrow> state_modal \<Rightarrow> state_modal" where
  "handleRemoveState d stateToRemove m =
     (if stateToRemove = sd_default_state d
      then m\<lparr>sm_error := ''Cannot remove default state \"'' @ stateToRemove @ ''\"''\<rparr>
      else m\<lparr>sm_localStates := filter (\<lambda>s. s \<noteq> stateToRemove) (sm_localStates m),
             sm_localColors := AList.delete stateToRemove (sm_localColors m), sm_error := ''''\<rparr>)"

definition handleColorChange :: "string \<Rightarrow> state_color_type \<Rightarrow> state_modal \<Rightarrow> state_modal" where
  "handleColorChange s c m = m\<lparr>sm_localColors := map_set s c (sm_localColors m)\<rparr>"

definition hasChanges :: "state_definition \<Rightarrow> state_modal \<Rightarrow> bool" where
  "hasChanges d m \<longleftrightarrow> sm_localStates m \<noteq> sd_states d"

definition handleSaveStates :: "state_definition \<Rightarrow> state_modal \<Rightarrow> state_definition submit" where
  "handleSaveStates d m =
     (if sm_localStates m = [] then ShowError ''At least one state is required''
      else Send (d\<lparr>sd_states := sm_localStates m\<rparr>))"

text \<open>\<open>Object.assign(stateColorsMap, localColors)\<close> once the request has succeeded.\<close>

definition states_saved :: "state_modal \<Rightarrow> (string \<times> state_color_type) list \<Rightarrow> (string \<times> state_color_type) list" where
  "states_saved m stateColorsMap = foldl (\<lambda>acc (s, c). map_set s c acc) stateColorsMap (sm_localColors m)"

inductive state_step :: "state_definition \<Rightarrow> state_modal \<Rightarrow> state_modal \<Rightarrow> bool" for d where
  typed: "state_step d m (m\<lparr>sm_newState := s, sm_error := ''''\<rparr>)"
| colour: "state_step d m (m\<lparr>sm_newStateColor := c\<rparr>)"
| added: "state_step d m (modal_handleAddState m)"
| removed: "state_step d m (handleRemoveState d s m)"
| recoloured: "s \<in> set (sm_localStates m) \<Longrightarrow> state_step d m (handleColorChange s c m)"

definition states_inv :: "state_definition \<Rightarrow> state_modal \<Rightarrow> bool" where
  "states_inv d m \<longleftrightarrow>
     distinct (sm_localStates m) \<and> sd_default_state d \<in> set (sm_localStates m)
     \<and> fst ` set (sm_localColors m) = set (sm_localStates m) \<and> distinct (map fst (sm_localColors m))"

lemma open_states_inv:
  assumes "distinct (sd_states d)" "sd_default_state d \<in> set (sd_states d)"
  shows "states_inv d (open_states cm d)"
proof -
  have k: "map fst (sm_localColors (open_states cm d)) = foldl (\<lambda>ks s. set_add s ks) [] (sd_states d)"
    by (simp add: open_states_def foldl_map_set_keys)
  have "fst ` set (sm_localColors (open_states cm d)) = set (sd_states d)"
    unfolding set_map[symmetric] k by (simp only: foldl_set_add) auto
  moreover have "distinct (map fst (sm_localColors (open_states cm d)))"
    unfolding k by (rule foldl_set_add(2)) simp
  ultimately show ?thesis using assms by (simp add: states_inv_def open_states_def)
qed

lemma state_step_inv: "state_step d m m' \<Longrightarrow> states_inv d m \<Longrightarrow> states_inv d m'"
proof (induction rule: state_step.induct)
  case (removed m s)
  then show ?case
    by (auto simp: states_inv_def handleRemoveState_def distinct_delete delete_keys distinct_removeAll simp flip: set_map)
qed (auto simp: states_inv_def modal_handleAddState_def handleColorChange_def Let_def map_set_keys distinct_update
      simp flip: set_map)

lemma states_run_inv: "(state_step d)\<^sup>*\<^sup>* m m' \<Longrightarrow> states_inv d m \<Longrightarrow> states_inv d m'"
  by (induction rule: rtranclp_induct) (auto intro: state_step_inv)

text \<open>
  The dialog for the states of a state definition: whatever is added, removed and recoloured, saving is possible, and what is
  sent has no state twice, still contains the default state, and changes nothing else of the definition.
\<close>

theorem saved_states_valid:
  assumes "distinct (sd_states d)" "sd_default_state d \<in> set (sd_states d)"
    and "(state_step d)\<^sup>*\<^sup>* (open_states cm d) m"
  shows "\<exists>d'. handleSaveStates d m = Send d' \<and> distinct (sd_states d') \<and> sd_default_state d' \<in> set (sd_states d')
           \<and> d'\<lparr>sd_states := sd_states d\<rparr> = d"
  using states_run_inv[OF assms(3) open_states_inv[OF assms(1,2)]]
  by (auto simp: handleSaveStates_def states_inv_def)

definition sample_states :: state_definition where
  "sample_states =
     \<lparr>sd_id = ''d'', sd_name = ''d'', sd_description = None, sd_states = [''idle'', ''busy''], sd_default_state = ''idle'',
      sd_action_mappings = [], sd_teachable_waypoints = None, sd_version = 1, sd_created_at = '''', sd_updated_at = ''''\<rparr>"

theorem saved_states_valid_witness:
  "\<exists>d'. handleSaveStates sample_states (handleRemoveState sample_states ''busy'' (open_states [] sample_states)) = Send d'
     \<and> ''idle'' \<in> set (sd_states d')"
proof -
  have "(state_step sample_states)\<^sup>*\<^sup>* (open_states [] sample_states)
      (handleRemoveState sample_states ''busy'' (open_states [] sample_states))"
    by (rule r_into_rtranclp) (rule state_step.removed)
  from saved_states_valid[OF _ _ this] obtain d' where
    "handleSaveStates sample_states (handleRemoveState sample_states ''busy'' (open_states [] sample_states)) = Send d'"
    "sd_default_state d' \<in> set (sd_states d')" "d'\<lparr>sd_states := sd_states sample_states\<rparr> = sample_states"
    by (auto simp: sample_states_def)
  moreover from this(3) have "sd_default_state d' = ''idle''"
    by (cases d') (simp add: sample_states_def)
  ultimately show ?thesis by auto
qed

text \<open>The save button needs a changed list of states: new colours alone cannot be saved.\<close>

lemma colours_alone_unsavable:
  "\<not> hasChanges d (handleColorChange s c (open_states cm d))"
  by (simp add: hasChanges_def handleColorChange_def open_states_def)

end
