(* ===== verification/Web_Socket.thy ===== *)
theory Web_Socket
  imports Fleet_Types
begin

text \<open>
  The WebSocket provider (\<^verbatim>\<open>contexts/WebSocketContext.tsx\<close>): the subscription maps and the parsing and routing of
  frames to subscribers, whose callbacks may throw, and the connection with its reconnect timer. The subscription maps are
  \<open>Map\<close>s of \<open>Set\<close>s in insertion order; a callback is a value of an arbitrary type with equality. The
  connection is a step relation over the events of the browser (open, close, timer) and of React (mount,
  unmount).
\<close>

section \<open>Messages\<close>

datatype lock_action = WsAcquired | WsReleased | WsExpired

record lock_message =
  lm_behavior_tree_id :: string
  lm_action :: lock_action
  lm_locked_by :: "string option"
  lm_session_id :: "string option"
  lm_expires_at :: "jsnum option"

datatype sync_action = SyncUpdated | SyncDeployed | SyncUnassigned

record sync_message =
  sm_behavior_tree_id :: string
  sm_agent_id :: "string option"
  sm_action :: sync_action

datatype ws_message = LockMsg lock_message | SyncMsg sync_message | OtherMsg json

section \<open>Subscriptions\<close>

type_synonym 'cb subscribers = "(string \<times> 'cb list) list"

text \<open>\<open>if (!m.has(id)) m.set(id, new Set()); m.get(id)!.add(callback)\<close>.\<close>

definition subscribeEvents :: "string \<Rightarrow> 'cb \<Rightarrow> 'cb subscribers \<Rightarrow> 'cb subscribers" where
  "subscribeEvents graphId cb m =
     (let m1 = (if map_of m graphId = None then map_set graphId [] m else m)
      in map_set graphId (set_add cb (the (map_of m1 graphId))) m1)"

text \<open>The returned function: an emptied set is deleted from the map.\<close>

definition unsubscribeEvents :: "string \<Rightarrow> 'cb \<Rightarrow> 'cb subscribers \<Rightarrow> 'cb subscribers" where
  "unsubscribeEvents graphId cb m =
     (case map_of m graphId of
        None \<Rightarrow> m
      | Some xs \<Rightarrow>
          let xs' = filter (\<lambda>x. x \<noteq> cb) xs
          in if length xs' = 0 then AList.delete graphId m else map_set graphId xs' m)"

definition subscribers_of :: "'cb subscribers \<Rightarrow> string \<Rightarrow> 'cb list" where
  "subscribers_of m graphId = (case map_of m graphId of None \<Rightarrow> [] | Some xs \<Rightarrow> xs)"

text \<open>The callbacks a message is for, in order, with the message each of them is given.\<close>

definition route_message ::
  "'l subscribers \<Rightarrow> 's subscribers \<Rightarrow> ws_message \<Rightarrow> ('l \<times> lock_message) list \<times> ('s \<times> sync_message) list" where
  "route_message lockSubs syncSubs message =
     (case message of
        LockMsg msg \<Rightarrow> (map (\<lambda>cb. (cb, msg)) (subscribers_of lockSubs (lm_behavior_tree_id msg)), [])
      | SyncMsg msg \<Rightarrow> ([], map (\<lambda>cb. (cb, msg)) (subscribers_of syncSubs (sm_behavior_tree_id msg)))
      | OtherMsg _ \<Rightarrow> ([], []))"

text \<open>\<open>forEach\<close> over callbacks inside the \<open>try\<close>: the first callback that throws is the last one invoked.\<close>

fun invoked :: "('cb \<Rightarrow> 'm \<Rightarrow> bool) \<Rightarrow> ('cb \<times> 'm) list \<Rightarrow> ('cb \<times> 'm) list" where
  "invoked throws [] = []"
| "invoked throws ((cb, m) # xs) = (if throws cb m then [(cb, m)] else (cb, m) # invoked throws xs)"

text \<open>
  \<open>onmessage\<close>: the message stored as the last one and the callbacks invoked. \<open>parse\<close> is \<open>JSON.parse\<close> with the reading of the
  type; \<open>None\<close> is an exception, which is caught.
\<close>

definition onmessage ::
  "(string \<Rightarrow> ws_message option) \<Rightarrow> ('l \<Rightarrow> lock_message \<Rightarrow> bool) \<Rightarrow> ('s \<Rightarrow> sync_message \<Rightarrow> bool)
   \<Rightarrow> 'l subscribers \<Rightarrow> 's subscribers \<Rightarrow> string
   \<Rightarrow> ws_message option \<times> ('l \<times> lock_message) list \<times> ('s \<times> sync_message) list" where
  "onmessage parse lockThrows syncThrows lockSubs syncSubs data =
     (case parse data of
        None \<Rightarrow> (None, [], [])
      | Some message \<Rightarrow>
          let (locks, syncs) = route_message lockSubs syncSubs message
          in (Some message, invoked lockThrows locks, invoked syncThrows syncs))"

text \<open>What the server writes as one frame (\<^verbatim>\<open>websocket.go\<close>): the messages that are queued, each on a line of its own.\<close>

definition writePump :: "string list \<Rightarrow> string" where
  "writePump messages = js_join [CHR 0x0A] messages"

text \<open>
  The contract of a subscription registry, and the history of subscriptions as its clients see it: a
  callback is live for a task when its last operation on that task was a subscription.
\<close>

datatype 'cb sub_op = Subscribe string 'cb | Unsubscribe string 'cb

fun live :: "'cb sub_op list \<Rightarrow> string \<Rightarrow> 'cb set" where
  "live [] k = {}"
| "live (Subscribe g cb # ops) k = (if g = k then insert cb (live ops k) else live ops k)"
| "live (Unsubscribe g cb # ops) k = (if g = k then live ops k - {cb} else live ops k)"

fun run_ops :: "(string \<Rightarrow> 'cb \<Rightarrow> 'm \<Rightarrow> 'm) \<Rightarrow> (string \<Rightarrow> 'cb \<Rightarrow> 'm \<Rightarrow> 'm) \<Rightarrow> 'm \<Rightarrow> 'cb sub_op list \<Rightarrow> 'm" where
  "run_ops sub unsub m [] = m"
| "run_ops sub unsub m (Subscribe g cb # ops) = sub g cb (run_ops sub unsub m ops)"
| "run_ops sub unsub m (Unsubscribe g cb # ops) = unsub g cb (run_ops sub unsub m ops)"

locale registry =
  fixes empty_reg :: 'm
    and sub :: "string \<Rightarrow> 'cb \<Rightarrow> 'm \<Rightarrow> 'm"
    and unsub :: "string \<Rightarrow> 'cb \<Rightarrow> 'm \<Rightarrow> 'm"
    and subs_of :: "'m \<Rightarrow> string \<Rightarrow> 'cb list"
    and reg_ok :: "'m \<Rightarrow> bool"
  assumes ok_empty: "reg_ok empty_reg"
    and ok_sub: "reg_ok m \<Longrightarrow> reg_ok (sub g cb m)"
    and ok_unsub: "reg_ok m \<Longrightarrow> reg_ok (unsub g cb m)"
    and ok_distinct: "reg_ok m \<Longrightarrow> distinct (subs_of m k)"
    and subs_empty: "subs_of empty_reg k = []"
    and subs_sub: "set (subs_of (sub g cb m) k) = (if g = k then insert cb (set (subs_of m k)) else set (subs_of m k))"
    and subs_unsub: "reg_ok m \<Longrightarrow>
      set (subs_of (unsub g cb m) k) = (if g = k then set (subs_of m k) - {cb} else set (subs_of m k))"
begin

abbreviation run :: "'cb sub_op list \<Rightarrow> 'm" where
  "run \<equiv> run_ops sub unsub empty_reg"

lemma run_ok: "reg_ok (run ops)"
proof (induction ops)
  case (Cons a ops)
  then show ?case by (cases a) (simp_all add: ok_sub ok_unsub)
qed (simp add: ok_empty)

lemma run_live: "set (subs_of (run ops) k) = live ops k \<and> distinct (subs_of (run ops) k)"
proof -
  have "set (subs_of (run ops) k) = live ops k"
  proof (induction ops)
    case (Cons a ops)
    then show ?case by (cases a) (simp_all add: subs_sub subs_unsub run_ok)
  qed (simp add: subs_empty)
  then show ?thesis by (simp add: ok_distinct run_ok)
qed

end

text \<open>The registry never keeps an empty set: the map does not grow with the tasks that were once opened.\<close>

definition registry_ok :: "'cb subscribers \<Rightarrow> bool" where
  "registry_ok m = (distinct (map fst m) \<and> (\<forall>(g, xs) \<in> set m. xs \<noteq> [] \<and> distinct xs))"

lemma registry_ok_lookup: "registry_ok m \<Longrightarrow> map_of m g = Some xs \<Longrightarrow> xs \<noteq> [] \<and> distinct xs"
  by (auto simp: registry_ok_def dest: map_of_SomeD)

lemma registry_ok_map_set:
  "registry_ok m \<Longrightarrow> xs \<noteq> [] \<Longrightarrow> distinct xs \<Longrightarrow> registry_ok (map_set g xs m)"
  using set_map_set_subset[of g xs m] distinct_update[of m g xs] unfolding registry_ok_def by blast

lemma subscribeEvents_eq: "subscribeEvents g cb m = map_set g (set_add cb (subscribers_of m g)) m"
proof (cases "map_of m g")
  case None
  then have "map_set g v (map_set g [] m) = map_set g v m" for v by (induction m) (auto split: if_splits)
  with None show ?thesis by (simp add: subscribeEvents_def subscribers_of_def update_conv)
qed (simp add: subscribeEvents_def subscribers_of_def)

lemma subscribers_map_set [simp]: "subscribers_of (map_set g xs m) k = (if k = g then xs else subscribers_of m k)"
  by (simp add: subscribers_of_def update_conv)

lemma subscribers_delete [simp]: "subscribers_of (AList.delete g m) k = (if k = g then [] else subscribers_of m k)"
  by (simp add: subscribers_of_def delete_conv')

lemma subscribers_distinct: "registry_ok m \<Longrightarrow> distinct (subscribers_of m k)"
  by (auto simp: subscribers_of_def dest: registry_ok_lookup split: option.splits)

lemma unsubscribe_set:
  "set (subscribers_of (unsubscribeEvents g cb m) k) =
     (if g = k then set (subscribers_of m k) - {cb} else set (subscribers_of m k))"
  by (auto simp: unsubscribeEvents_def Let_def subscribers_of_def update_conv delete_conv' filter_empty_conv
      split: option.splits)

lemma unsubscribe_ok: "registry_ok m \<Longrightarrow> registry_ok (unsubscribeEvents g cb m)"
proof (cases "map_of m g")
  case (Some xs)
  assume m: "registry_ok m"
  have "registry_ok (AList.delete g m)"
    using m by (auto simp: registry_ok_def AList.delete_eq distinct_map_filter)
  moreover have "registry_ok (map_set g (filter (\<lambda>x. x \<noteq> cb) xs) m)" if "filter (\<lambda>x. x \<noteq> cb) xs \<noteq> []"
    using that registry_ok_map_set[OF m] registry_ok_lookup[OF m Some] by simp
  ultimately show ?thesis using Some by (simp add: unsubscribeEvents_def Let_def)
qed (simp add: unsubscribeEvents_def)

interpretation ws_reg: registry "[]" subscribeEvents unsubscribeEvents subscribers_of registry_ok
proof unfold_locales
  show "registry_ok (subscribeEvents g cb m)" if "registry_ok m" for g cb and m :: "'cb subscribers"
    using that by (simp add: subscribeEvents_eq registry_ok_map_set subscribers_distinct)
qed (simp_all add: registry_ok_def[of "[]"] subscribeEvents_eq unsubscribe_set unsubscribe_ok subscribers_distinct
       subscribers_of_def[of "[]"])

lemma invoked_all: "(\<forall>(cb, m) \<in> set xs. \<not> throws cb m) \<Longrightarrow> invoked throws xs = xs"
  by (induction throws xs rule: invoked.induct) auto

lemma invoked_prefix: "\<exists>ys. xs = invoked throws xs @ ys"
  by (induction throws xs rule: invoked.induct) auto

lemma invoked_stops:
  "(\<exists>(cb, m) \<in> set xs. throws cb m) \<Longrightarrow>
   \<exists>ys cb m. invoked throws xs = ys @ [(cb, m)] \<and> throws cb m \<and> (\<forall>(cb', m') \<in> set ys. \<not> throws cb' m')"
proof (induction throws xs rule: invoked.induct)
  case (2 throws cb m xs)
  show ?case
  proof (cases "throws cb m")
    case False
    with 2 obtain ys cb' m' where "invoked throws xs = ys @ [(cb', m')]" "throws cb' m'" "\<forall>(c, n) \<in> set ys. \<not> throws c n" by auto
    with False show ?thesis by (intro exI[of _ "(cb, m) # ys"] exI[of _ cb'] exI[of _ m']) simp
  qed (intro exI[of _ "[]"], auto)
qed simp

text \<open>C18. After any history of subscriptions and unsubscriptions, a frame that parses as a lock message of a task is delivered, at
  most once each, only to callbacks whose last operation for that task was a subscription; to all of them when none of
  them throws, and up to and including the first one that throws otherwise. Sync subscribers do not see it, and a
  frame that does not parse reaches nobody.\<close>

theorem lock_message_delivery:
  "case onmessage parse lockThrows syncThrows (run_ops subscribeEvents unsubscribeEvents [] ops) syncSubs data of
     (seen, locks, syncs) \<Rightarrow>
       (parse data = None \<longrightarrow> seen = None \<and> locks = [] \<and> syncs = [])
       \<and> (\<forall>msg. parse data = Some (LockMsg msg) \<longrightarrow>
            (let cbs = live ops (lm_behavior_tree_id msg)
             in seen = Some (LockMsg msg) \<and> syncs = [] \<and> distinct locks \<and> set locks \<subseteq> cbs \<times> {msg}
                \<and> ((\<forall>cb \<in> cbs. \<not> lockThrows cb msg) \<longrightarrow> set locks = cbs \<times> {msg})
                \<and> ((\<exists>cb \<in> cbs. lockThrows cb msg) \<longrightarrow>
                     (\<exists>before cb. locks = before @ [(cb, msg)] \<and> lockThrows cb msg \<and> (\<forall>(c, m) \<in> set before. \<not> lockThrows c m)))))"
proof (cases "parse data")
  case None
  then show ?thesis by (simp add: onmessage_def)
next
  case (Some message)
  show ?thesis
  proof (cases message)
    case (LockMsg msg)
    let ?to = "map (\<lambda>cb. (cb, msg)) (subscribers_of (run_ops subscribeEvents unsubscribeEvents [] ops) (lm_behavior_tree_id msg))"
    from ws_reg.run_live[of ops "lm_behavior_tree_id msg"]
    have to: "set ?to = live ops (lm_behavior_tree_id msg) \<times> {msg}" "distinct ?to" by (auto simp: distinct_map inj_on_def)
    obtain ys where p: "?to = invoked lockThrows ?to @ ys" using invoked_prefix by blast
    then have "distinct (invoked lockThrows ?to)" "set (invoked lockThrows ?to) \<subseteq> set ?to"
      using to(2) by (metis distinct_append, metis set_append Un_upper1)
    moreover have "set (invoked lockThrows ?to) = set ?to" if "\<forall>cb \<in> live ops (lm_behavior_tree_id msg). \<not> lockThrows cb msg"
    proof -
      have "\<forall>(cb, m) \<in> set ?to. \<not> lockThrows cb m" unfolding to(1) using that by auto
      then show ?thesis by (simp only: invoked_all)
    qed
    moreover have "\<exists>before cb. invoked lockThrows ?to = before @ [(cb, msg)] \<and> lockThrows cb msg
        \<and> (\<forall>(c, m) \<in> set before. \<not> lockThrows c m)" if "\<exists>cb \<in> live ops (lm_behavior_tree_id msg). lockThrows cb msg"
    proof -
      have "\<exists>(cb, m) \<in> set ?to. lockThrows cb m" unfolding to(1) using that by auto
      then obtain zs cb m where z: "invoked lockThrows ?to = zs @ [(cb, m)]" "lockThrows cb m" "\<forall>(c, m') \<in> set zs. \<not> lockThrows c m'"
        using invoked_stops[of ?to lockThrows] by blast
      then have "(cb, m) \<in> set (invoked lockThrows ?to)" by simp
      moreover have "set (invoked lockThrows ?to) \<subseteq> set ?to" using p by (metis set_append Un_upper1)
      ultimately have "(cb, m) \<in> set ?to" by blast
      then have "m = msg" by auto
      with z show ?thesis by blast
    qed
    ultimately show ?thesis using Some LockMsg to(1) by (simp add: onmessage_def route_message_def)
  qed (simp_all add: onmessage_def route_message_def Some)
qed

definition plain_parse :: "string \<Rightarrow> ws_message option" where
  "plain_parse data =
     (if data = [] \<or> CHR 0x0A \<in> set data then None
      else Some (LockMsg \<lparr>lm_behavior_tree_id = data, lm_action = WsReleased, lm_locked_by = None, lm_session_id = None, lm_expires_at = None\<rparr>))"

theorem lock_message_delivery_witness:
  "case onmessage plain_parse (\<lambda>cb m. cb = (9::nat)) (\<lambda>_ _. False)
      (run_ops subscribeEvents unsubscribeEvents [] [Subscribe ''t'' 3, Unsubscribe ''t'' 2, Subscribe ''t'' 2, Subscribe ''u'' 9])
      ([] :: nat subscribers) ''t'' of (seen, locks, syncs) \<Rightarrow> set (map fst locks) = {3} \<and> syncs = []"
proof -
  let ?ops = "[Subscribe ''t'' 3, Unsubscribe ''t'' 2, Subscribe ''t'' 2, Subscribe ''u'' (9::nat)]"
  let ?on = "onmessage plain_parse (\<lambda>cb m. cb = 9) (\<lambda>_ _. False) (run_ops subscribeEvents unsubscribeEvents [] ?ops) ([] :: nat subscribers) ''t''"
  obtain seen locks syncs where o: "?on = (seen, locks, syncs)" by (cases ?on)
  obtain msg where m: "plain_parse ''t'' = Some (LockMsg msg)" "lm_behavior_tree_id msg = ''t''" by (simp add: plain_parse_def)
  have "live ?ops ''t'' = {3}" by auto
  with lock_message_delivery[where parse = plain_parse and lockThrows = "\<lambda>cb m. cb = 9" and syncThrows = "\<lambda>_ _. False" and ops = ?ops
      and syncSubs = "[] :: nat subscribers" and data = "''t''"] m
  have "set locks = {3} \<times> {msg}" "syncs = []" unfolding o by (simp_all add: Let_def)
  then show ?thesis unfolding o by auto
qed

text \<open>
  The server writes the messages queued for a client into one frame, separated by newlines. As such a frame is not a JSON text, the
  client drops all of them: with two or more messages queued, no subscriber is told of any.
\<close>

definition one_document :: "(string \<Rightarrow> ws_message option) \<Rightarrow> bool" where
  "one_document parse = (\<forall>ms. length ms \<ge> 2 \<and> list_all (\<lambda>m. parse m \<noteq> None) ms \<longrightarrow> parse (writePump ms) = None)"

theorem queued_messages_lost:
  assumes "one_document parse" "length ms \<ge> 2" "list_all (\<lambda>m. parse m \<noteq> None) ms"
  shows "onmessage parse lockThrows syncThrows lockSubs syncSubs (writePump ms) = (None, [], [])"
  using assms by (simp add: one_document_def onmessage_def)

lemma newline_joined: "length ms \<ge> 2 \<Longrightarrow> CHR 0x0A \<in> set (js_join [CHR 0x0A] ms)"
  by (cases ms; cases "tl ms") auto

theorem queued_messages_lost_witness:
  "onmessage plain_parse (\<lambda>_ _. False) (\<lambda>_ _. False) (subscribeEvents ''t'' (1::nat) []) ([] :: nat subscribers) (writePump [''t'', ''u''])
     = (None, [], [])"
proof -
  have "one_document plain_parse"
    using newline_joined by (simp add: one_document_def plain_parse_def writePump_def)
  moreover have "list_all (\<lambda>m. plain_parse m \<noteq> None) [''t'', ''u'']" by code_simp
  ultimately show ?thesis using queued_messages_lost[of plain_parse "[''t'', ''u'']"] by simp
qed

text \<open>A subscription taken back by its returned function leaves the map as it was, also when other tasks are
  subscribed, so a component that mounts and unmounts leaks nothing.\<close>

theorem unsubscribe_undoes:
  assumes "registry_ok m" "cb \<notin> set (subscribers_of m g)"
  shows "map_of (unsubscribeEvents g cb (subscribeEvents g cb m)) = map_of m
    \<and> registry_ok (unsubscribeEvents g cb (subscribeEvents g cb m))"
proof -
  have f: "filter (\<lambda>x. x \<noteq> cb) (set_add cb (subscribers_of m g)) = subscribers_of m g"
    using assms(2) by (auto simp: set_add_def filter_id_conv)
  have "map_of (unsubscribeEvents g cb (subscribeEvents g cb m)) = map_of m"
    using registry_ok_lookup[OF assms(1), of g] f
    by (auto simp: unsubscribeEvents_def subscribeEvents_eq Let_def update_conv delete_conv' fun_eq_iff subscribers_of_def
        split: option.splits)
  with assms(1) show ?thesis by (simp add: unsubscribe_ok ws_reg.ok_sub)
qed

theorem unsubscribe_undoes_witness:
  "map_of (unsubscribeEvents ''g'' (7::nat) (subscribeEvents ''g'' 7 [(''h'', [1])])) = map_of [(''h'', [1])]"
proof -
  have "registry_ok [(''h'', [1::nat])]" "7 \<notin> set (subscribers_of [(''h'', [1::nat])] ''g'')" by code_simp+
  from unsubscribe_undoes[OF this] show ?thesis by blast
qed

section \<open>The connection\<close>

datatype ready_state = CONNECTING | OPEN | CLOSING | CLOSED

text \<open>
  All sockets the page has created with their state, the one \<open>wsRef\<close> holds, and the pending reconnect timers with
  the one \<open>reconnectTimeoutRef\<close> holds. Sockets and timers are numbered by one counter.
\<close>

record ws_state =
  ws_sockets :: "(nat \<times> ready_state) list"
  ws_ref :: "nat option"
  ws_isConnected :: bool
  ws_timers :: "nat list"
  ws_timerRef :: "nat option"
  ws_next :: nat

definition init_ws :: ws_state where
  "init_ws = \<lparr>ws_sockets = [], ws_ref = None, ws_isConnected = False, ws_timers = [], ws_timerRef = None, ws_next = 0\<rparr>"

abbreviation readyState :: "ws_state \<Rightarrow> nat \<Rightarrow> ready_state option" where
  "readyState s \<equiv> map_of (ws_sockets s)"

definition ws_connect :: "ws_state \<Rightarrow> ws_state" where
  "ws_connect s =
     (if Option.bind (ws_ref s) (readyState s) = Some OPEN then s
      else s\<lparr>ws_sockets := map_set (ws_next s) CONNECTING (ws_sockets s), ws_ref := Some (ws_next s),
             ws_next := Suc (ws_next s)\<rparr>)"

definition ws_onopen :: "nat \<Rightarrow> ws_state \<Rightarrow> ws_state" where
  "ws_onopen k s = s\<lparr>ws_sockets := map_set k OPEN (ws_sockets s), ws_isConnected := True\<rparr>"

definition ws_onclose :: "nat \<Rightarrow> ws_state \<Rightarrow> ws_state" where
  "ws_onclose k s =
     s\<lparr>ws_sockets := map_set k CLOSED (ws_sockets s), ws_isConnected := False, ws_ref := None,
       ws_timers := ws_timers s @ [ws_next s], ws_timerRef := Some (ws_next s), ws_next := Suc (ws_next s)\<rparr>"

definition ws_timeout :: "nat \<Rightarrow> ws_state \<Rightarrow> ws_state" where
  "ws_timeout t s = ws_connect (s\<lparr>ws_timers := filter (\<lambda>u. u \<noteq> t) (ws_timers s)\<rparr>)"

text \<open>The cleanup of the mount effect: \<open>clearTimeout\<close> and \<open>close()\<close>, which only starts the closing handshake.\<close>

definition ws_unmount :: "ws_state \<Rightarrow> ws_state" where
  "ws_unmount s =
     (let s1 = (case ws_timerRef s of None \<Rightarrow> s | Some t \<Rightarrow> s\<lparr>ws_timers := filter (\<lambda>u. u \<noteq> t) (ws_timers s)\<rparr>)
      in case ws_ref s1 of
           None \<Rightarrow> s1
         | Some k \<Rightarrow> if readyState s1 k = Some CLOSED then s1
                     else s1\<lparr>ws_sockets := map_set k CLOSING (ws_sockets s1)\<rparr>)"

text \<open>The events of a mounted provider; the mount effect runs \<open>connect\<close> once.\<close>

inductive ws_step :: "ws_state \<Rightarrow> ws_state \<Rightarrow> bool" where
  opened: "readyState s k = Some CONNECTING \<Longrightarrow> ws_step s (ws_onopen k s)"
| closed: "readyState s k = Some r \<Longrightarrow> r \<noteq> CLOSED \<Longrightarrow> ws_step s (ws_onclose k s)"
| timeout: "t \<in> set (ws_timers s) \<Longrightarrow> ws_step s (ws_timeout t s)"

definition live_of :: "(nat \<times> ready_state) list \<Rightarrow> nat set" where
  "live_of m = {k. \<exists>r. map_of m k = Some r \<and> r \<noteq> CLOSED}"

abbreviation live_sockets :: "ws_state \<Rightarrow> nat set" where
  "live_sockets s \<equiv> live_of (ws_sockets s)"

text \<open>
  What the provider promises while it is mounted: either exactly one socket is live, it is the one the
  reference holds, no reconnect is scheduled and \<open>isConnected\<close> tells whether it is open; or no socket is
  live and exactly one reconnect is scheduled.
\<close>

definition ws_inv :: "ws_state \<Rightarrow> bool" where
  "ws_inv s =
     ((\<forall>k \<in> set (map fst (ws_sockets s)) \<union> set (ws_timers s). k < ws_next s)
      \<and> ((\<exists>k. live_sockets s = {k} \<and> ws_ref s = Some k \<and> ws_timers s = []
              \<and> readyState s k = Some (if ws_isConnected s then OPEN else CONNECTING))
         \<or> (live_sockets s = {} \<and> ws_ref s = None \<and> \<not> ws_isConnected s \<and> length (ws_timers s) = 1)))"

lemma live_map_set [simp]:
  "live_of (map_set k r m) = (if r = CLOSED then live_of m - {k} else insert k (live_of m))"
  by (auto simp: live_of_def update_conv)

lemma liveI: "readyState s k = Some r \<Longrightarrow> r \<noteq> CLOSED \<Longrightarrow> k \<in> live_sockets s"
  by (simp add: live_of_def)

lemma live_bound: "ws_inv s \<Longrightarrow> k \<in> live_sockets s \<Longrightarrow> k < ws_next s"
  by (force simp: ws_inv_def live_of_def dest: map_of_SomeD)

lemma ws_step_inv: "ws_step s s' \<Longrightarrow> ws_inv s \<Longrightarrow> ws_inv s'"
proof (induction rule: ws_step.induct)
  case (opened s k)
  then have k: "k \<in> live_sockets s" by (simp add: liveI)
  have "map_of (map_set k OPEN (ws_sockets s)) k = Some OPEN" by (simp add: update_conv)
  moreover have "k < ws_next s" using opened k by (simp add: live_bound)
  ultimately show ?case
    using opened k by (auto simp: ws_inv_def ws_onopen_def map_set_keys dom_update)
next
  case (closed s k r)
  then have k: "k \<in> live_sockets s" by (simp add: liveI)
  then have "k < ws_next s" using closed by (simp add: live_bound)
  with k closed show ?case
    by (auto simp: ws_inv_def ws_onclose_def map_set_keys dom_update less_Suc_eq)
next
  case (timeout t s)
  then have "ws_timers s = [t]" "live_sockets s = {}" "ws_ref s = None" "\<not> ws_isConnected s"
      "\<forall>k \<in> set (map fst (ws_sockets s)). k < ws_next s"
    by (auto simp: ws_inv_def length_Suc_conv)
  then show ?case
    by (auto simp: ws_inv_def ws_timeout_def ws_connect_def map_set_keys dom_update update_conv less_Suc_eq)
qed

text \<open>C8. While the provider is mounted, in every order of opens, closes and timer events there is exactly one live
  socket or exactly one scheduled reconnect, never both and never neither: the connection is not lost for
  good and not opened twice, and the connected flag is right.\<close>

theorem ws_single_connection:
  assumes "ws_step\<^sup>*\<^sup>* (ws_connect init_ws) s"
  shows "ws_inv s"
  using assms
proof (induction rule: rtranclp_induct)
  case base
  show ?case
    by (simp add: ws_inv_def init_ws_def ws_connect_def live_of_def)
qed (rule ws_step_inv)

definition reconnected :: ws_state where
  "reconnected = ws_timeout 1 (ws_onclose 0 (ws_onopen 0 (ws_connect init_ws)))"

theorem ws_single_connection_witness: "ws_inv reconnected"
proof (rule ws_single_connection)
  let ?s0 = "ws_connect init_ws"
  have "ws_step ?s0 (ws_onopen 0 ?s0)" by (rule ws_step.opened) code_simp
  moreover have "ws_step (ws_onopen 0 ?s0) (ws_onclose 0 (ws_onopen 0 ?s0))" by (rule ws_step.closed[of _ _ OPEN]; code_simp)
  moreover have "ws_step (ws_onclose 0 (ws_onopen 0 ?s0)) reconnected"
    unfolding reconnected_def by (rule ws_step.timeout) code_simp
  ultimately show "ws_step\<^sup>*\<^sup>* ?s0 reconnected" by (meson converse_rtranclp_into_rtranclp rtranclp.rtrancl_refl)
qed

text \<open>Unmounting a provider whose socket is live does not end the connection: closing the socket fires
  \<open>onclose\<close> after the cleanup, which schedules a reconnect that nobody cancels, and the reconnect opens a
  new socket.\<close>

theorem ws_unmount_reconnects:
  assumes "ws_inv s" "ws_ref s = Some k"
  shows "readyState (ws_unmount s) k = Some CLOSING
    \<and> ws_timers (ws_onclose k (ws_unmount s)) = [ws_next s]
    \<and> live_sockets (ws_timeout (ws_next s) (ws_onclose k (ws_unmount s))) = {Suc (ws_next s)}"
proof -
  let ?u = "ws_unmount s"
  from assms have live: "live_sockets s = {k}" "ws_timers s = []" "readyState s k \<noteq> Some CLOSED"
    by (auto simp: ws_inv_def live_of_def split: if_splits)
  then have "ws_timers ?u = []" "ws_next ?u = ws_next s" "ws_sockets ?u = map_set k CLOSING (ws_sockets s)"
    using assms(2) by (auto simp: ws_unmount_def Let_def split: option.splits)
  with live(1) show ?thesis
    by (simp add: update_conv ws_timeout_def ws_onclose_def ws_connect_def)
qed

theorem ws_unmount_reconnects_witness:
  "live_sockets (ws_timeout 3 (ws_onclose 2 (ws_unmount reconnected))) = {4}"
proof -
  have r: "ws_ref reconnected = Some 2" "ws_next reconnected = 3" "ws_isConnected reconnected = False"
      "ws_sockets reconnected = [(0, CLOSED), (2, CONNECTING)]" "ws_timers reconnected = []" by code_simp+
  then have "ws_inv reconnected" by (auto simp: ws_inv_def live_of_def)
  from ws_unmount_reconnects[OF this r(1)] r(2) show ?thesis by simp
qed

end
