(* ===== verification/Edit_Lock.thy ===== *)
theory Edit_Lock
  imports Graph_Save Web_Socket
begin

text \<open>
  The edit lock of the task editor (\<^verbatim>\<open>pages/ActionGraph/index.tsx\<close>): acquiring, releasing and overriding the
  lock of a task, the heartbeat timer that keeps it, the status fetched when another task is selected and
  the lock events pushed over the WebSocket. Replies of the server are arguments of the handlers; the
  handlers form the step relation \<open>lock_step\<close>, in which replies arrive in any order (an answer may arrive
  after another task has been selected). A handler that awaits a reply is cut there: the first part records what is awaited,
  the second part is a handler of its own, and any other step may come between. Timers are modelled as the browser keeps them: \<open>setInterval\<close> adds
  a timer, \<open>clearInterval\<close> removes it, and the reference holds the id of the last one.
\<close>

section \<open>State\<close>

record lock_status =
  lk_isLocked :: bool
  lk_lockedBy :: "string option"
  lk_expiresAt :: "jsnum option"
  lk_isOwnLock :: bool

definition unlocked :: lock_status where
  "unlocked = \<lparr>lk_isLocked = False, lk_lockedBy = None, lk_expiresAt = None, lk_isOwnLock = False\<rparr>"

text \<open>What the editor sends, with its session, and what it waits for.\<close>

datatype lock_request =
    SendUpdate string "graph_step list" "string option" planning_task_spec string
  | SendRelease string string
  | SendForce string string

datatype lock_awaited = SaveAnswer string | ReleaseAnswer string | ForceAnswer string

text \<open>The order of events that matters for saving before a release: the user asks for it with a canvas that has unsaved changes
  or not, requests are sent, and a save is answered (whether it failed, and whether the user goes on then).\<close>

datatype lock_log =
    AskedRelease string bool "flow_node list" "flow_edge list" planning_task_spec
  | Sent lock_request
  | SaveAnswered string bool bool

record lock_state =
  ls_template :: "string option"
  ls_isEditing :: bool
  ls_lockStatus :: lock_status
  ls_heartbeatRef :: "nat option"
  ls_timers :: "(nat \<times> string) list"  \<comment> \<open>live intervals with the task they keep locked\<close>
  ls_nextTimer :: nat
  ls_awaited :: "lock_awaited list"  \<comment> \<open>requests without an answer yet\<close>
  ls_log :: "lock_log list"

definition init_lock :: lock_state where
  "init_lock = \<lparr>ls_template = None, ls_isEditing = False, ls_lockStatus = unlocked, ls_heartbeatRef = None,
     ls_timers = [], ls_nextTimer = 0, ls_awaited = [], ls_log = []\<rparr>"

definition clearInterval :: "nat option \<Rightarrow> lock_state \<Rightarrow> lock_state" where
  "clearInterval i s =
     (case i of None \<Rightarrow> s | Some k \<Rightarrow> s\<lparr>ls_timers := filter (\<lambda>t. fst t \<noteq> k) (ls_timers s)\<rparr>)"

text \<open>\<open>v || null\<close> on a time stamp: \<open>0\<close> and \<open>NaN\<close> are falsy.\<close>

definition num_or_null :: "jsnum option \<Rightarrow> jsnum option" where
  "num_or_null v = (if v = Some (Fin 0) \<or> v = Some NaN then None else v)"

text \<open>\<open>if (ref) clearInterval(ref); ref = setInterval(...)\<close>.\<close>

definition startHeartbeat :: "string \<Rightarrow> lock_state \<Rightarrow> lock_state" where
  "startHeartbeat tmpl s =
     (let s1 = clearInterval (ls_heartbeatRef s) s
      in s1\<lparr>ls_timers := ls_timers s1 @ [(ls_nextTimer s1, tmpl)], ls_heartbeatRef := Some (ls_nextTimer s1),
            ls_nextTimer := Suc (ls_nextTimer s1)\<rparr>)"

text \<open>\<open>if (ref) { clearInterval(ref); ref = null }\<close>.\<close>

definition stopHeartbeat :: "lock_state \<Rightarrow> lock_state" where
  "stopHeartbeat s =
     (case ls_heartbeatRef s of None \<Rightarrow> s | Some k \<Rightarrow> (clearInterval (Some k) s)\<lparr>ls_heartbeatRef := None\<rparr>)"

section \<open>Handlers\<close>

datatype acquire_result =
    Acquired string jsnum                        \<comment> \<open>\<open>success\<close>: locked_by, expires_at\<close>
  | Executing                                    \<comment> \<open>\<open>error === 'executing'\<close>\<close>
  | HeldBy "string option" "jsnum option"        \<comment> \<open>any other refusal\<close>
  | AcquireThrows

text \<open>The continuation of \<open>acquireLock\<close> for the task it was called for; the boolean is its result.\<close>

definition acquireLock :: "string \<Rightarrow> acquire_result \<Rightarrow> lock_state \<Rightarrow> lock_state \<times> bool" where
  "acquireLock tmpl r s =
     (case r of
        Acquired lockedBy expiresAt \<Rightarrow>
          (startHeartbeat tmpl (s\<lparr>ls_isEditing := True,
             ls_lockStatus := \<lparr>lk_isLocked = True, lk_lockedBy = Some lockedBy, lk_expiresAt = Some expiresAt, lk_isOwnLock = True\<rparr>\<rparr>), True)
      | Executing \<Rightarrow> (s, False)
      | HeldBy lockedBy expiresAt \<Rightarrow>
          (s\<lparr>ls_lockStatus := \<lparr>lk_isLocked = True, lk_lockedBy = Some (orS lockedBy ''Another user''),
             lk_expiresAt = num_or_null expiresAt, lk_isOwnLock = False\<rparr>\<rparr>, False)
      | AcquireThrows \<Rightarrow> (s, False))"

text \<open>The body of the interval after the heartbeat was answered: \<open>None\<close> is a failure.\<close>

definition onHeartbeat :: "jsnum option option \<Rightarrow> lock_state \<Rightarrow> lock_state" where
  "onHeartbeat r s =
     (case r of
        None \<Rightarrow> stopHeartbeat (s\<lparr>ls_isEditing := False, ls_lockStatus := unlocked\<rparr>)
      | Some expiresAt \<Rightarrow>
          if num_or_null expiresAt = None then s
          else s\<lparr>ls_lockStatus := (ls_lockStatus s)\<lparr>lk_expiresAt := expiresAt\<rparr>\<rparr>)"

definition send_request :: "lock_request \<Rightarrow> lock_awaited \<Rightarrow> lock_state \<Rightarrow> lock_state" where
  "send_request rq a s = s\<lparr>ls_log := ls_log s @ [Sent rq], ls_awaited := ls_awaited s @ [a]\<rparr>"

definition answered :: "lock_awaited \<Rightarrow> lock_state \<Rightarrow> lock_state" where
  "answered a s = s\<lparr>ls_awaited := remove1 a (ls_awaited s)\<rparr>"

text \<open>\<open>forceUnlock\<close> up to its request, and after the answer.\<close>

definition forceUnlock :: "string \<Rightarrow> bool \<Rightarrow> lock_state \<Rightarrow> lock_state" where
  "forceUnlock sessionId proceed s =
     (case ls_template s of
        None \<Rightarrow> s
      | Some tmpl \<Rightarrow> if \<not> proceed then s else send_request (SendForce tmpl sessionId) (ForceAnswer tmpl) s)"

definition forceUnlock_answered :: "string \<Rightarrow> bool \<Rightarrow> lock_state \<Rightarrow> lock_state" where
  "forceUnlock_answered tmpl throws s =
     (let s1 = answered (ForceAnswer tmpl) s in if throws then s1 else s1\<lparr>ls_lockStatus := unlocked\<rparr>)"

text \<open>
  \<open>releaseLock\<close> in three parts: up to the update or, without unsaved changes, up to the release; after the answer to the
  update (\<open>saveFails\<close>: it throws; \<open>proceed\<close>: the answer to the confirmation that follows); and after the answer to
  the release, whatever it is.
\<close>

definition releaseLock_request :: "string \<Rightarrow> string \<Rightarrow> lock_state \<Rightarrow> lock_state" where
  "releaseLock_request sessionId tmpl s = send_request (SendRelease tmpl sessionId) (ReleaseAnswer tmpl) (stopHeartbeat s)"

definition releaseLock ::
  "string \<Rightarrow> bool \<Rightarrow> flow_node list \<Rightarrow> flow_edge list \<Rightarrow> planning_task_spec \<Rightarrow> lock_state \<Rightarrow> lock_state" where
  "releaseLock sessionId hasUnsavedChanges nodes edges planningTask s =
     (case ls_template s of
        None \<Rightarrow> s
      | Some tmpl \<Rightarrow>
          if \<not> ls_isEditing s then s
          else
            let s1 = s\<lparr>ls_log := ls_log s @ [AskedRelease tmpl hasUnsavedChanges nodes edges planningTask]\<rparr>;
                (steps, entryPoint) = convertGraphToSteps nodes edges
            in if hasUnsavedChanges
               then send_request (SendUpdate tmpl steps (if truthy entryPoint then entryPoint else None) planningTask sessionId)
                      (SaveAnswer tmpl) s1
               else releaseLock_request sessionId tmpl s1)"

definition releaseLock_saved :: "string \<Rightarrow> string \<Rightarrow> bool \<Rightarrow> bool \<Rightarrow> lock_state \<Rightarrow> lock_state" where
  "releaseLock_saved sessionId tmpl saveFails proceed s =
     (let s1 = (answered (SaveAnswer tmpl) s)\<lparr>ls_log := ls_log s @ [SaveAnswered tmpl saveFails proceed]\<rparr>
      in if saveFails \<and> \<not> proceed then s1 else releaseLock_request sessionId tmpl s1)"

definition releaseLock_released :: "string \<Rightarrow> lock_state \<Rightarrow> lock_state" where
  "releaseLock_released tmpl s =
     (answered (ReleaseAnswer tmpl) s)\<lparr>ls_isEditing := False, ls_lockStatus := unlocked\<rparr>"

record status_reply =
  sr_isLocked :: bool
  sr_lockedBy :: "string option"
  sr_expiresAt :: "jsnum option"
  sr_isOwnLock :: bool

text \<open>The effect on a change of the selected task, and the continuation of \<open>fetchLockStatus\<close>.\<close>

definition selectTemplate :: "string option \<Rightarrow> lock_state \<Rightarrow> lock_state" where
  "selectTemplate tmpl s =
     (if truthy tmpl then s\<lparr>ls_template := tmpl\<rparr>
      else s\<lparr>ls_template := None, ls_lockStatus := unlocked, ls_isEditing := False\<rparr>)"

definition onLockStatus :: "string \<Rightarrow> status_reply \<Rightarrow> lock_state \<Rightarrow> lock_state" where
  "onLockStatus tmpl r s =
     (let s1 = s\<lparr>ls_lockStatus := \<lparr>lk_isLocked = sr_isLocked r, lk_lockedBy = orO (sr_lockedBy r) None,
                    lk_expiresAt = num_or_null (sr_expiresAt r), lk_isOwnLock = sr_isOwnLock r\<rparr>,
                 ls_isEditing := sr_isOwnLock r\<rparr>
      in if sr_isOwnLock r then startHeartbeat tmpl s1 else s1)"

definition onLockEvent :: "string \<Rightarrow> lock_message \<Rightarrow> lock_state \<Rightarrow> lock_state" where
  "onLockEvent sessionId msg s =
     (if lm_action msg = WsAcquired
      then (if lm_session_id msg \<noteq> Some sessionId
            then s\<lparr>ls_lockStatus := \<lparr>lk_isLocked = True, lk_lockedBy = Some (orS (lm_locked_by msg) ''Another user''),
                      lk_expiresAt = num_or_null (lm_expires_at msg), lk_isOwnLock = False\<rparr>\<rparr>
            else s)
      else
        let s1 = (if ls_isEditing s \<and> lm_session_id msg \<noteq> Some sessionId
                  then stopHeartbeat (s\<lparr>ls_isEditing := False\<rparr>) else s)
        in s1\<lparr>ls_lockStatus := unlocked\<rparr>)"

definition unmountEditor :: "lock_state \<Rightarrow> lock_state" where
  "unmountEditor s = stopHeartbeat s"

section \<open>The state machine\<close>

text \<open>
  What can happen to the editor: a reply arrives, a timer fires and is answered, the user acts, another task is selected, the
  server pushes an event. The buttons that release and override the lock are shown in edit mode and, for the lock of
  another session, outside of it.
\<close>

datatype lock_input =
    AcquireReply string acquire_result
  | HeartbeatReply "jsnum option option"
  | ForceAsked bool
  | ForceReply string bool
  | ReleaseAsked bool "flow_node list" "flow_edge list" planning_task_spec
  | SaveReply string bool bool
  | ReleaseReply string
  | Selected "string option"
  | StatusReply string status_reply
  | Pushed lock_message

fun lock_do :: "string \<Rightarrow> lock_input \<Rightarrow> lock_state \<Rightarrow> lock_state" where
  "lock_do sid (AcquireReply t r) s = fst (acquireLock t r s)"
| "lock_do sid (HeartbeatReply r) s = onHeartbeat r s"
| "lock_do sid (ForceAsked proceed) s = forceUnlock sid proceed s"
| "lock_do sid (ForceReply t throws) s = forceUnlock_answered t throws s"
| "lock_do sid (ReleaseAsked u ns es pt) s = releaseLock sid u ns es pt s"
| "lock_do sid (SaveReply t fails proceed) s = releaseLock_saved sid t fails proceed s"
| "lock_do sid (ReleaseReply t) s = releaseLock_released t s"
| "lock_do sid (Selected t) s = selectTemplate t s"
| "lock_do sid (StatusReply t r) s = onLockStatus t r s"
| "lock_do sid (Pushed msg) s = onLockEvent sid msg s"

fun lock_enabled :: "lock_input \<Rightarrow> lock_state \<Rightarrow> bool" where
  "lock_enabled (ForceAsked _) s = (lk_isLocked (ls_lockStatus s) \<and> \<not> lk_isOwnLock (ls_lockStatus s) \<and> \<not> ls_isEditing s)"
| "lock_enabled (ForceReply t _) s = (ForceAnswer t \<in> set (ls_awaited s))"
| "lock_enabled (SaveReply t _ _) s = (SaveAnswer t \<in> set (ls_awaited s))"
| "lock_enabled (ReleaseReply t) s = (ReleaseAnswer t \<in> set (ls_awaited s))"
| "lock_enabled _ s = True"

inductive lock_step :: "string \<Rightarrow> lock_state \<Rightarrow> lock_state \<Rightarrow> bool" for sid where
  step: "lock_enabled i s \<Longrightarrow> lock_step sid s (lock_do sid i s)"

inductive_cases lock_stepE: "lock_step sid s s'"

text \<open>The timers that run are the one the reference holds, and an editing session has one unless the answer to its release
  is still awaited.\<close>

definition releasing :: "lock_state \<Rightarrow> bool" where
  "releasing s = list_ex (\<lambda>a. case a of ReleaseAnswer _ \<Rightarrow> True | _ \<Rightarrow> False) (ls_awaited s)"

definition one_timer :: "lock_state \<Rightarrow> bool" where
  "one_timer s = (map fst (ls_timers s) = (case ls_heartbeatRef s of None \<Rightarrow> [] | Some k \<Rightarrow> [k]))"

definition timers_ok :: "lock_state \<Rightarrow> bool" where
  "timers_ok s = (one_timer s \<and> (ls_isEditing s \<longrightarrow> ls_heartbeatRef s \<noteq> None \<or> releasing s))"

lemma one_timer_upd [simp]:
  "one_timer (s\<lparr>ls_lockStatus := l\<rparr>) = one_timer s" "one_timer (s\<lparr>ls_template := t\<rparr>) = one_timer s"
  "one_timer (s\<lparr>ls_isEditing := e\<rparr>) = one_timer s" "one_timer (s\<lparr>ls_awaited := a\<rparr>) = one_timer s"
  "one_timer (s\<lparr>ls_log := g\<rparr>) = one_timer s"
  by (simp_all add: one_timer_def)

lemma startHeartbeat_ok:
  assumes "one_timer s"
  shows "one_timer (startHeartbeat tmpl s)" "ls_heartbeatRef (startHeartbeat tmpl s) \<noteq> None"
  using assms
  by (cases "ls_heartbeatRef s"; auto simp: one_timer_def startHeartbeat_def clearInterval_def Let_def)+

lemma stopHeartbeat_ok:
  assumes "one_timer s"
  shows "one_timer (stopHeartbeat s)" "ls_timers (stopHeartbeat s) = []" "ls_heartbeatRef (stopHeartbeat s) = None"
  using assms
  by (cases "ls_heartbeatRef s"; auto simp: one_timer_def stopHeartbeat_def clearInterval_def)+

lemma stopHeartbeat_sel [simp]:
  "ls_isEditing (stopHeartbeat s) = ls_isEditing s" "ls_lockStatus (stopHeartbeat s) = ls_lockStatus s"
  "ls_template (stopHeartbeat s) = ls_template s" "ls_awaited (stopHeartbeat s) = ls_awaited s"
  "ls_log (stopHeartbeat s) = ls_log s" "ls_nextTimer (stopHeartbeat s) = ls_nextTimer s"
  by (simp_all add: stopHeartbeat_def clearInterval_def split: option.splits)

lemma startHeartbeat_sel [simp]:
  "ls_isEditing (startHeartbeat t s) = ls_isEditing s" "ls_lockStatus (startHeartbeat t s) = ls_lockStatus s"
  "ls_template (startHeartbeat t s) = ls_template s" "ls_awaited (startHeartbeat t s) = ls_awaited s"
  "ls_log (startHeartbeat t s) = ls_log s" "ls_nextTimer (startHeartbeat t s) = Suc (ls_nextTimer s)"
  by (simp_all add: startHeartbeat_def clearInterval_def Let_def split: option.splits)

lemmas lock_handler_defs = acquireLock_def onHeartbeat_def forceUnlock_def forceUnlock_answered_def releaseLock_def
  releaseLock_saved_def releaseLock_released_def releaseLock_request_def send_request_def answered_def selectTemplate_def
  onLockStatus_def onLockEvent_def Let_def case_prod_unfold

lemma releasing_simps [simp]:
  "releasing (s\<lparr>ls_lockStatus := l\<rparr>) = releasing s" "releasing (s\<lparr>ls_template := t\<rparr>) = releasing s"
  "releasing (s\<lparr>ls_isEditing := e\<rparr>) = releasing s" "releasing (s\<lparr>ls_log := g\<rparr>) = releasing s"
  "releasing (stopHeartbeat s) = releasing s" "releasing (startHeartbeat t' s) = releasing s"
  by (simp_all add: releasing_def)

lemma releasing_send: "releasing (s\<lparr>ls_awaited := ls_awaited s @ [a]\<rparr>) \<longleftrightarrow> releasing s \<or> (\<exists>t. a = ReleaseAnswer t)"
  by (auto simp: releasing_def split: lock_awaited.splits)

lemma releasing_answered:
  "releasing s \<Longrightarrow> \<not> (\<exists>t. a = ReleaseAnswer t) \<Longrightarrow> releasing (s\<lparr>ls_awaited := remove1 a (ls_awaited s)\<rparr>)"
  unfolding releasing_def list_ex_iff by (auto split: lock_awaited.splits) (metis in_set_remove1 lock_awaited.exhaust)

lemma lock_do_one_timer: "one_timer s \<Longrightarrow> one_timer (lock_do sid i s)"
  by (cases i) (auto simp: lock_handler_defs startHeartbeat_ok stopHeartbeat_ok split: acquire_result.splits option.splits)

lemma lock_do_timers:
  assumes "lock_enabled i s" "timers_ok s"
  shows "timers_ok (lock_do sid i s)"
proof -
  have o: "one_timer s" and e: "ls_isEditing s \<longrightarrow> ls_heartbeatRef s \<noteq> None \<or> releasing s" using assms(2) by (simp_all add: timers_ok_def)
  have "ls_isEditing (lock_do sid i s) \<longrightarrow> ls_heartbeatRef (lock_do sid i s) \<noteq> None \<or> releasing (lock_do sid i s)"
  proof (cases i)
    case (AcquireReply t r)
    have "ls_heartbeatRef (startHeartbeat t s') \<noteq> None" for s' by (simp add: startHeartbeat_def Let_def)
    with e show ?thesis by (simp add: AcquireReply acquireLock_def split: acquire_result.split)
  next
    case (ForceReply t throws)
    then show ?thesis using e releasing_answered[of s "ForceAnswer t"] by (auto simp: forceUnlock_answered_def answered_def Let_def)
  next
    case (ReleaseAsked u ns es pt)
    then show ?thesis using e by (auto simp: lock_handler_defs releasing_def split: option.splits)
  next
    case (SaveReply t fails proceed)
    then show ?thesis using e releasing_answered[of s "SaveAnswer t"] by (auto simp: lock_handler_defs releasing_def)
  next
    case (StatusReply t r)
    have "ls_heartbeatRef (startHeartbeat t s') \<noteq> None" for s' by (simp add: startHeartbeat_def Let_def)
    then show ?thesis by (simp add: StatusReply onLockStatus_def Let_def)
  next
    case (Pushed msg)
    then show ?thesis using e by (auto simp: onLockEvent_def Let_def)
  next
    case (ForceAsked p)
    then show ?thesis using e by (auto simp: lock_handler_defs releasing_def split: option.splits)
  qed (use e in \<open>auto simp: lock_handler_defs split: option.splits\<close>)
  with lock_do_one_timer[OF o] show ?thesis by (simp add: timers_ok_def)
qed

text \<open>C5. However replies, heartbeats, WebSocket events and user actions interleave, at most one heartbeat timer runs and it
  is the one the editor can stop; and in edit mode one runs, except between the request that releases the lock, before
  which the timer is stopped, and its answer, with which edit mode ends.\<close>

theorem lock_timers_invariant:
  assumes "(lock_step sid)\<^sup>*\<^sup>* init_lock s"
  shows "length (ls_timers s) \<le> 1 \<and> timers_ok s"
proof -
  have "timers_ok s"
    using assms
  proof (induction rule: rtranclp_induct)
    case base
    show ?case by (simp add: timers_ok_def one_timer_def init_lock_def)
  qed (auto elim!: lock_stepE intro: lock_do_timers)
  then show ?thesis
    by (auto simp: timers_ok_def one_timer_def simp flip: length_map[of fst] split: option.splits)
qed

fun lock_run :: "string \<Rightarrow> lock_input list \<Rightarrow> lock_state \<Rightarrow> lock_state" where
  "lock_run sid [] s = s"
| "lock_run sid (i # is) s = lock_run sid is (lock_do sid i s)"

fun lock_can :: "string \<Rightarrow> lock_input list \<Rightarrow> lock_state \<Rightarrow> bool" where
  "lock_can sid [] s = True"
| "lock_can sid (i # is) s = (lock_enabled i s \<and> lock_can sid is (lock_do sid i s))"

lemma lock_run_steps: "lock_can sid is s \<Longrightarrow> (lock_step sid)\<^sup>*\<^sup>* s (lock_run sid is s)"
proof (induction sid "is" s rule: lock_run.induct)
  case (2 sid i "is" s)
  then have "lock_step sid s (lock_do sid i s)" by (auto intro: lock_step.step)
  with 2 show ?case by (auto intro: converse_rtranclp_into_rtranclp)
qed simp

definition editing_state :: lock_state where
  "editing_state = lock_run ''sid'' [Selected (Some ''a''), AcquireReply ''a'' (Acquired ''me'' (Fin 9))] init_lock"

definition releasing_state :: lock_state where
  "releasing_state = lock_do ''sid'' (ReleaseAsked False [] [] no_planning_task) editing_state"

theorem lock_timers_invariant_witness:
  "ls_isEditing releasing_state \<and> ls_timers releasing_state = [] \<and> timers_ok releasing_state"
proof -
  have "(lock_step ''sid'')\<^sup>*\<^sup>* init_lock
      (lock_run ''sid'' [Selected (Some ''a''), AcquireReply ''a'' (Acquired ''me'' (Fin 9)), ReleaseAsked False [] [] no_planning_task] init_lock)"
    by (rule lock_run_steps) code_simp
  then have "(lock_step ''sid'')\<^sup>*\<^sup>* init_lock releasing_state" by (simp add: releasing_state_def editing_state_def)
  from lock_timers_invariant[OF this] have "timers_ok releasing_state" by blast
  moreover have "ls_isEditing releasing_state" "ls_timers releasing_state = []" by code_simp+
  ultimately show ?thesis by blast
qed

section \<open>Losing the lock\<close>

text \<open>Timers are numbered in the order in which they start: without a new one, none runs that did not run before.\<close>

lemma lock_do_numbered:
  "ls_nextTimer s \<le> ls_nextTimer (lock_do sid i s)
   \<and> (ls_timers s = [] \<longrightarrow> ls_nextTimer (lock_do sid i s) = ls_nextTimer s \<longrightarrow> ls_timers (lock_do sid i s) = [])"
  by (cases i) (auto simp: lock_handler_defs stopHeartbeat_def clearInterval_def split: acquire_result.splits option.splits)

lemma steps_numbered:
  "(lock_step sid)\<^sup>*\<^sup>* s s' \<Longrightarrow> ls_nextTimer s \<le> ls_nextTimer s'
   \<and> (ls_timers s = [] \<longrightarrow> ls_nextTimer s' = ls_nextTimer s \<longrightarrow> ls_timers s' = [])"
proof (induction rule: rtranclp_induct)
  case (step y z)
  from step(2) obtain i where "z = lock_do sid i y" by (auto elim: lock_stepE)
  with step(3) lock_do_numbered[of y sid i] show ?case by auto
qed simp

text \<open>C35. Three ways of losing the lock end edit mode, show the task as unlocked and leave no heartbeat timer behind: a refused
  heartbeat, a release or expiry pushed for another session while editing, and the answer to the user's own release, unless a
  lock was acquired or found to be the own one between the request and the answer (then only its timer runs). An
  acquisition pushed for another session and a release pushed for the own one do not: they leave edit mode as it was.\<close>

theorem lock_loss_stops_editing:
  assumes "timers_ok s"
  shows "(\<not> ls_isEditing (onHeartbeat None s) \<and> ls_timers (onHeartbeat None s) = [] \<and> ls_lockStatus (onHeartbeat None s) = unlocked)
    \<and> (lm_action msg \<noteq> WsAcquired \<and> lm_session_id msg \<noteq> Some sid \<and> ls_isEditing s \<longrightarrow>
         \<not> ls_isEditing (onLockEvent sid msg s) \<and> ls_timers (onLockEvent sid msg s) = [] \<and> ls_lockStatus (onLockEvent sid msg s) = unlocked)
    \<and> (lm_action msg = WsAcquired \<or> lm_session_id msg = Some sid \<longrightarrow> ls_isEditing (onLockEvent sid msg s) = ls_isEditing s)
    \<and> ((lock_step sid)\<^sup>*\<^sup>* (releaseLock_request sid t s) s' \<longrightarrow>
         \<not> ls_isEditing (releaseLock_released t s') \<and> ls_lockStatus (releaseLock_released t s') = unlocked
         \<and> (ls_nextTimer s' = ls_nextTimer s \<longrightarrow> ls_timers (releaseLock_released t s') = []))"
proof -
  have o: "one_timer s" using assms by (simp add: timers_ok_def)
  have "ls_timers (releaseLock_request sid t s) = []" "ls_nextTimer (releaseLock_request sid t s) = ls_nextTimer s"
    using stopHeartbeat_ok(2)[OF o] by (simp_all add: releaseLock_request_def send_request_def)
  with steps_numbered[of sid "releaseLock_request sid t s" s'] have
    "(lock_step sid)\<^sup>*\<^sup>* (releaseLock_request sid t s) s' \<and> ls_nextTimer s' = ls_nextTimer s \<longrightarrow> ls_timers s' = []" by simp
  then show ?thesis
    using o stopHeartbeat_ok(2)[of "s\<lparr>ls_isEditing := False, ls_lockStatus := unlocked\<rparr>"] stopHeartbeat_ok(2)[of "s\<lparr>ls_isEditing := False\<rparr>"]
    by (simp add: onHeartbeat_def onLockEvent_def releaseLock_released_def answered_def Let_def)
qed

theorem lock_loss_stops_editing_witness:
  "ls_timers (onHeartbeat None editing_state) = [] \<and> \<not> ls_isEditing (releaseLock_released ''a'' releasing_state)"
proof -
  have t: "timers_ok editing_state" by code_simp
  have "lock_step ''sid'' (releaseLock_request ''sid'' ''a'' editing_state)
      (lock_do ''sid'' (HeartbeatReply (Some None)) (releaseLock_request ''sid'' ''a'' editing_state))"
    by (rule lock_step.step) simp
  then have "\<not> ls_isEditing (releaseLock_released ''a'' (lock_do ''sid'' (HeartbeatReply (Some None)) (releaseLock_request ''sid'' ''a'' editing_state)))"
    using lock_loss_stops_editing[OF t, where sid = "''sid''" and t = "''a''"] by (meson r_into_rtranclp)
  moreover have "ls_timers (onHeartbeat None editing_state) = []" using lock_loss_stops_editing[OF t] by blast
  ultimately show ?thesis by (simp add: releaseLock_released_def answered_def)
qed

section \<open>Saving before a release\<close>

text \<open>The update that saves a canvas, and the events after which a release request may be sent.\<close>

definition update_request :: "string \<Rightarrow> string \<Rightarrow> flow_node list \<Rightarrow> flow_edge list \<Rightarrow> planning_task_spec \<Rightarrow> lock_request" where
  "update_request sid t ns es pt =
     (case convertGraphToSteps ns es of
        (steps, entry) \<Rightarrow> SendUpdate t steps (if truthy entry then entry else None) pt sid)"

definition update_asked :: "string \<Rightarrow> string \<Rightarrow> lock_log list \<Rightarrow> bool" where
  "update_asked sid t lg =
     (\<exists>us ns es pt vs. lg = us @ [AskedRelease t True ns es pt, Sent (update_request sid t ns es pt)] @ vs)"

definition release_justified :: "string \<Rightarrow> string \<Rightarrow> lock_log list \<Rightarrow> bool" where
  "release_justified sid t before =
     ((\<exists>us ns es pt. before = us @ [AskedRelease t False ns es pt])
      \<or> (\<exists>us fails proceed. before = us @ [SaveAnswered t fails proceed] \<and> update_asked sid t us \<and> (fails \<longrightarrow> proceed)))"

definition log_ok :: "string \<Rightarrow> lock_state \<Rightarrow> bool" where
  "log_ok sid s =
     ((\<forall>before t sid' after. ls_log s = before @ Sent (SendRelease t sid') # after \<longrightarrow> sid' = sid \<and> release_justified sid t before)
      \<and> (\<forall>t. SaveAnswer t \<in> set (ls_awaited s) \<longrightarrow> update_asked sid t (ls_log s)))"

lemma update_askedI:
  "lg = us @ [AskedRelease t True ns es pt, Sent (update_request sid t ns es pt)] @ vs \<Longrightarrow> update_asked sid t lg"
  unfolding update_asked_def by (intro exI)

lemma update_asked_append: "update_asked sid t lg \<Longrightarrow> update_asked sid t (lg @ xs)"
  unfolding update_asked_def by (metis append.assoc)

lemma snoc_split: "xs @ [y] = before @ z # after \<longleftrightarrow> (after = [] \<and> xs = before \<and> y = z) \<or> (\<exists>as. after = as @ [y] \<and> xs = before @ z # as)"
  by (cases after rule: rev_cases) auto

lemma log_ok_snoc:
  assumes "log_ok sid s" "ls_log s' = ls_log s @ [x]"
    and "\<And>t sid'. x = Sent (SendRelease t sid') \<Longrightarrow> sid' = sid \<and> release_justified sid t (ls_log s)"
    and "\<And>t. SaveAnswer t \<in> set (ls_awaited s') \<Longrightarrow> SaveAnswer t \<in> set (ls_awaited s) \<or> update_asked sid t (ls_log s')"
  shows "log_ok sid s'"
  using assms update_asked_append unfolding log_ok_def assms(2) snoc_split by blast

lemma log_ok_same:
  "log_ok sid s \<Longrightarrow> ls_log s' = ls_log s \<Longrightarrow> set (ls_awaited s') \<subseteq> set (ls_awaited s) \<Longrightarrow> log_ok sid s'"
  unfolding log_ok_def by auto

lemma request_log:
  "ls_log (releaseLock_request sid t s) = ls_log s @ [Sent (SendRelease t sid)]"
  "ls_awaited (releaseLock_request sid t s) = ls_awaited s @ [ReleaseAnswer t]"
  by (simp_all add: releaseLock_request_def send_request_def)

lemma log_ok_request:
  "log_ok sid s \<Longrightarrow> release_justified sid t (ls_log s) \<Longrightarrow> log_ok sid (releaseLock_request sid t s)"
  by (rule log_ok_snoc[of sid s _ "Sent (SendRelease t sid)"]) (auto simp: request_log)

lemma lock_do_log:
  assumes "lock_enabled i s" "log_ok sid s"
  shows "log_ok sid (lock_do sid i s)"
proof (cases i)
  case (ReleaseAsked u ns es pt)
  show ?thesis
  proof (cases "ls_template s = None \<or> \<not> ls_isEditing s")
    case True
    with assms(2) show ?thesis by (auto simp: ReleaseAsked releaseLock_def split: option.splits)
  next
    case False
    then obtain t where t: "ls_template s = Some t" "ls_isEditing s" by (cases "ls_template s") simp_all
    let ?s1 = "s\<lparr>ls_log := ls_log s @ [AskedRelease t u ns es pt]\<rparr>"
    have s1: "log_ok sid ?s1" by (rule log_ok_snoc[OF assms(2), of _ "AskedRelease t u ns es pt"]) auto
    show ?thesis
    proof (cases u)
      case True
      have "update_asked sid t (ls_log ?s1 @ [Sent (update_request sid t ns es pt)])"
        by (rule update_askedI[of _ "ls_log s" _ ns es pt _ "[]"]) (simp add: True)
      then have "log_ok sid (send_request (update_request sid t ns es pt) (SaveAnswer t) ?s1)"
        by (intro log_ok_snoc[OF s1, of _ "Sent (update_request sid t ns es pt)"])
           (auto simp: send_request_def update_request_def split: prod.splits)
      then show ?thesis by (simp add: ReleaseAsked releaseLock_def t True Let_def update_request_def case_prod_unfold)
    next
      case False
      have "release_justified sid t (ls_log ?s1)" unfolding release_justified_def using False by auto
      from log_ok_request[OF s1 this] show ?thesis by (simp add: ReleaseAsked releaseLock_def t False Let_def case_prod_unfold)
    qed
  qed
next
  case (SaveReply t fails proceed)
  let ?s1 = "(answered (SaveAnswer t) s)\<lparr>ls_log := ls_log s @ [SaveAnswered t fails proceed]\<rparr>"
  have s1: "log_ok sid ?s1"
    by (rule log_ok_snoc[OF assms(2), of _ "SaveAnswered t fails proceed"]) (auto simp: answered_def dest: subsetD[OF set_remove1_subset])
  have "update_asked sid t (ls_log s)" using assms SaveReply by (simp add: log_ok_def)
  then have "fails \<longrightarrow> proceed \<Longrightarrow> release_justified sid t (ls_log ?s1)" unfolding release_justified_def by auto
  then show ?thesis using s1 log_ok_request[OF s1] by (auto simp: SaveReply releaseLock_saved_def Let_def)
next
  case (ForceAsked p)
  show ?thesis
  proof (cases "ls_template s = None \<or> \<not> p")
    case False
    then obtain t where "ls_template s = Some t" "p" by (cases "ls_template s") simp_all
    then show ?thesis
      using log_ok_snoc[OF assms(2), of "send_request (SendForce t sid) (ForceAnswer t) s" "Sent (SendForce t sid)"]
      by (simp add: ForceAsked forceUnlock_def send_request_def)
  qed (use assms(2) in \<open>auto simp: ForceAsked forceUnlock_def split: option.splits\<close>)
qed (use assms(2) in \<open>auto simp: lock_handler_defs dest: subsetD[OF set_remove1_subset] intro!: log_ok_same[OF assms(2)]
       split: acquire_result.splits option.splits\<close>)

text \<open>C36. Unsaved changes are never given up silently. In every run of the editor, each request that releases the lock carries the
  session of the editor and comes directly after one of two events: the user asked for the release while there were no unsaved changes;
  or the answer to a save, which had been requested for the same task with the compiled canvas as it was when the user asked
  for the release, and which succeeded or whose failure the user accepted. A failed save the user does not accept
  leaves edit mode, the lock and its timer as they were.\<close>

theorem release_saves_first:
  assumes "(lock_step sid)\<^sup>*\<^sup>* init_lock s"
  shows "(\<forall>before t sid' after. ls_log s = before @ Sent (SendRelease t sid') # after \<longrightarrow> sid' = sid \<and> release_justified sid t before)
    \<and> (let s' = releaseLock_saved sid t True False s
       in ls_isEditing s' = ls_isEditing s \<and> ls_lockStatus s' = ls_lockStatus s \<and> ls_timers s' = ls_timers s
          \<and> ls_log s' = ls_log s @ [SaveAnswered t True False])"
proof -
  have "log_ok sid s"
    using assms
  proof (induction rule: rtranclp_induct)
    case base
    show ?case by (simp add: log_ok_def init_lock_def)
  qed (auto elim!: lock_stepE intro: lock_do_log)
  then show ?thesis by (simp add: log_ok_def releaseLock_saved_def answered_def)
qed

theorem release_saves_first_witness:
  "\<exists>before after. ls_log (lock_run ''sid'' [ReleaseAsked True [end_node] [entry_edge] no_planning_task, SaveReply ''a'' False False] editing_state)
      = before @ Sent (SendRelease ''a'' ''sid'') # after \<and> release_justified ''sid'' ''a'' before
      \<and> Sent (update_request ''sid'' ''a'' [end_node] [entry_edge] no_planning_task) \<in> set before"
proof -
  let ?is = "[ReleaseAsked True [end_node] [entry_edge] no_planning_task, SaveReply ''a'' False False]"
  let ?a = "[Selected (Some ''a''), AcquireReply ''a'' (Acquired ''me'' (Fin 9))]"
  let ?s = "lock_run ''sid'' ?is editing_state" and ?u = "update_request ''sid'' ''a'' [end_node] [entry_edge] no_planning_task"
  have "(lock_step ''sid'')\<^sup>*\<^sup>* init_lock (lock_run ''sid'' (?a @ ?is) init_lock)" by (rule lock_run_steps) code_simp
  then have r: "(lock_step ''sid'')\<^sup>*\<^sup>* init_lock ?s" by (simp add: editing_state_def)
  let ?b = "[AskedRelease ''a'' True [end_node] [entry_edge] no_planning_task, Sent ?u, SaveAnswered ''a'' False False]"
  have l: "ls_log ?s = ?b @ Sent (SendRelease ''a'' ''sid'') # []"
  proof -
    have "ls_template editing_state = Some ''a''" "ls_isEditing editing_state" "ls_log editing_state = []" by code_simp+
    then show ?thesis
      by (simp add: releaseLock_def releaseLock_saved_def request_log send_request_def answered_def update_request_def case_prod_unfold Let_def)
  qed
  with release_saves_first[OF r] have "release_justified ''sid'' ''a'' ?b" by blast
  with l show ?thesis by (intro exI[of _ ?b] exI[of _ "[]"]) simp
qed

section \<open>Edit mode and ownership\<close>

text \<open>What can leave the editor in edit mode without owning the lock it shows.\<close>

fun ownership_gap :: "string \<Rightarrow> lock_input \<Rightarrow> bool" where
  "ownership_gap sid (AcquireReply _ (HeldBy _ _)) = True"
| "ownership_gap sid (ForceReply _ throws) = (\<not> throws)"
| "ownership_gap sid (Pushed msg) = (if lm_action msg = WsAcquired then lm_session_id msg \<noteq> Some sid else lm_session_id msg = Some sid)"
| "ownership_gap sid _ = False"

text \<open>C37. When the editor is in edit mode only with a lock it shows as its own, this stays so after every event but four, and after these
  four it fails whenever the editor was in edit mode: a refused acquisition, the answer to a forced release, an acquisition pushed
  for another session, and a release or expiry pushed for the own session. None of them ends edit mode.\<close>

theorem edit_mode_ownership:
  assumes "ls_isEditing s \<longrightarrow> lk_isOwnLock (ls_lockStatus s)"
  shows "ls_isEditing (lock_do sid i s) \<and> \<not> lk_isOwnLock (ls_lockStatus (lock_do sid i s)) \<longleftrightarrow> ls_isEditing s \<and> ownership_gap sid i"
proof (cases i)
  case (AcquireReply t r)
  with assms show ?thesis by (cases r) (auto simp: acquireLock_def)
qed (use assms in \<open>auto simp: lock_handler_defs unlocked_def split: option.splits\<close>)

theorem edit_mode_ownership_witness:
  "lk_isOwnLock (ls_lockStatus (lock_do ''sid'' (Selected (Some ''b'')) editing_state))
   \<and> \<not> lk_isOwnLock (ls_lockStatus (lock_do ''sid'' (ForceReply ''a'' False) editing_state))"
proof -
  have own: "ls_isEditing editing_state" "ls_isEditing editing_state \<longrightarrow> lk_isOwnLock (ls_lockStatus editing_state)"
    "ls_isEditing (lock_do ''sid'' (Selected (Some ''b'')) editing_state)" by code_simp+
  have "\<not> ownership_gap ''sid'' (Selected (Some ''b''))" "ownership_gap ''sid'' (ForceReply ''a'' False)" by simp_all
  with edit_mode_ownership[OF own(2), of "''sid''"] own(1,3) show ?thesis by metis
qed

text \<open>Selecting another task does not stop the heartbeat of the one being edited: when the status of the newly
  selected task says that its lock is not the editor's own, edit mode ends but the timer that keeps the
  previous task locked goes on running.\<close>

theorem switch_keeps_old_lock:
  assumes "\<not> sr_isOwnLock r"
  shows "let s = onLockStatus ''b'' r (selectTemplate (Some ''b'') editing_state)
         in \<not> ls_isEditing s \<and> ls_template s = Some ''b'' \<and> ls_timers s = [(0, ''a'')]"
proof -
  have "ls_template (selectTemplate (Some ''b'') editing_state) = Some ''b''"
      "ls_timers (selectTemplate (Some ''b'') editing_state) = [(0, ''a'')]" by code_simp+
  with assms show ?thesis by (simp add: onLockStatus_def Let_def)
qed

theorem switch_keeps_old_lock_witness:
  "ls_timers (onLockStatus ''b'' \<lparr>sr_isLocked = False, sr_lockedBy = None, sr_expiresAt = None, sr_isOwnLock = False\<rparr>
      (selectTemplate (Some ''b'') editing_state)) = [(0, ''a'')]"
  using switch_keeps_old_lock[of "\<lparr>sr_isLocked = False, sr_lockedBy = None, sr_expiresAt = None, sr_isOwnLock = False\<rparr>"]
  by (simp add: Let_def)

end
