(* ===== verification/Node_Utils.thy ===== *)
theory Node_Utils
  imports Editor_Helpers
begin

text \<open>
  Helpers of the canvas nodes (\<^verbatim>\<open>nodes/utils.ts\<close>, \<^verbatim>\<open>nodes/constants.ts\<close>): reading a capability's goal schema
  into parameter fields, the input widget of a ROS type, and the second copy of the outcome inference the
  node components use. The lemmas relate the two copies. A field of a schema that the code asserts to be a
  string is read as one; other JSON values there are taken as absent.
\<close>

section \<open>Access to JSON values\<close>

fun jget :: "json \<Rightarrow> string \<Rightarrow> json" where
  "jget (JObj ob) k = coalesce (map_of ob k) JUndef"
| "jget _ k = JUndef"

fun jstr :: "json \<Rightarrow> string option" where
  "jstr (JStr s) = Some s"
| "jstr _ = None"

fun json_truthy :: "json \<Rightarrow> bool" where
  "json_truthy JUndef = False"
| "json_truthy JNull = False"
| "json_truthy (JBool b) = b"
| "json_truthy (JNum NaN) = False"
| "json_truthy (JNum (Fin r)) = (r \<noteq> 0)"
| "json_truthy (JNum _) = True"
| "json_truthy (JStr s) = (s \<noteq> [])"
| "json_truthy (JArr _) = True"
| "json_truthy (JObj _) = True"

text \<open>\<open>typeof v === 'object' && v !== null\<close>.\<close>

fun is_object :: "json \<Rightarrow> bool" where
  "is_object (JArr _) = True"
| "is_object (JObj _) = True"
| "is_object _ = False"

text \<open>\<open>Object.entries\<close>.\<close>

fun jentries :: "json \<Rightarrow> (string \<times> json) list" where
  "jentries (JObj ob) = obj_entries ob"
| "jentries (JArr xs) = map (\<lambda>(i, x). (show_nat i, x)) (enumerate 0 xs)"
| "jentries _ = []"

lemma jget_size: "is_object (jget v k) \<Longrightarrow> size (jget v k) < size v"
proof (induction v k rule: jget.induct)
  case (1 ob k)
  have "map_of ob k = Some x \<Longrightarrow> size x < size_list (size_prod (\<lambda>_. 0) size) ob" for x
    by (induction ob) (auto split: if_splits)
  with 1 show ?case by (cases "map_of ob k") auto
qed auto

section \<open>ROS types of a schema\<close>

record ros_type =
  rt_type :: string
  rt_isArray :: bool

text \<open>The three replacements of the namespace separators.\<close>

definition normalize_namespace :: "string \<Rightarrow> string" where
  "normalize_namespace ns = collapse_slashes (substitute ''__'' ''/'' (substitute ''::'' ''/'' ns))"

function extractRosType :: "json \<Rightarrow> ros_type" where
  "extractRosType info =
     (if jstr (jget info ''type'') = Some ''array'' \<and> is_object (jget info ''items'')
      then \<lparr>rt_type = rt_type (extractRosType (jget info ''items'')), rt_isArray = True\<rparr>
      else
        let rosNamespace = jstr (jget info ''x-ros-namespace''); rosName = jstr (jget info ''x-ros-name'');
            xRosType = jstr (jget info ''x-ros-type'')
        in if truthy rosNamespace \<and> truthy rosName
           then \<lparr>rt_type = normalize_namespace (the rosNamespace) @ ''/'' @ the rosName, rt_isArray = False\<rparr>
           else if truthy xRosType \<and> xRosType \<noteq> Some ''message'' \<and> xRosType \<noteq> Some ''object''
           then \<lparr>rt_type = the xRosType, rt_isArray = False\<rparr>
           else \<lparr>rt_type = orS (jstr (jget info ''type'')) ''string'', rt_isArray = False\<rparr>)"
  by pat_completeness auto
termination
  by (relation "measure size") (auto intro: jget_size)

declare extractRosType.simps [simp del]

record action_field =
  af_name :: string
  af_type :: string
  af_default :: json
  af_is_array :: bool
  af_is_constant :: bool

text \<open>The body of both loops: an object or a string describes a field, anything else is skipped.\<close>

definition schema_field :: "string \<times> json \<Rightarrow> action_field list" where
  "schema_field e =
     (let (name, fieldInfo) = e
      in if is_object fieldInfo
         then [\<lparr>af_name = name, af_type = rt_type (extractRosType fieldInfo), af_default = jget fieldInfo ''default'',
                af_is_array = rt_isArray (extractRosType fieldInfo) \<or> json_truthy (jget fieldInfo ''is_array''),
                af_is_constant = False\<rparr>]
         else case jstr fieldInfo of
                Some ty \<Rightarrow> [\<lparr>af_name = name, af_type = ty, af_default = JUndef, af_is_array = False, af_is_constant = False\<rparr>]
              | None \<Rightarrow> [])"

definition metadataFields :: "string list" where
  "metadataFields = [''type'', ''properties'', ''x-ros-name'', ''x-ros-namespace'', ''required'', ''additionalProperties'']"

definition schemaToFields :: "json \<Rightarrow> action_field list" where
  "schemaToFields schema =
     (if \<not> json_truthy schema then []
      else if jstr (jget schema ''type'') = Some ''object'' \<and> is_object (jget schema ''properties'')
      then concat (map schema_field (jentries (jget schema ''properties'')))
      else concat (map schema_field (filter (\<lambda>(name, _). name \<notin> set metadataFields) (jentries schema))))"

datatype input_type = InNumber | InText | InCheckbox | InPose | InTrajectory | InComplex

definition numericTypes :: "string list" where
  "numericTypes = [''int8'', ''int16'', ''int32'', ''int64'', ''uint8'', ''uint16'', ''uint32'', ''uint64'',
     ''float32'', ''float64'', ''double'']"

definition getInputType :: "string \<Rightarrow> bool \<Rightarrow> input_type" where
  "getInputType rosType isArray =
     (if str_includes rosType ''/''
      then (let lowerType = toLowerCase rosType
            in if str_includes lowerType ''pose'' \<or> str_includes lowerType ''point'' \<or> str_includes lowerType ''transform''
               then InPose
               else if str_includes lowerType ''trajectory'' \<or> str_includes lowerType ''jointtrajectory'' then InTrajectory
               else InComplex)
      else if rosType = ''bool'' then InCheckbox
      else if rosType \<in> set numericTypes then InNumber
      else if rosType = ''string'' then InText
      else if isArray then InComplex
      else InText)"

definition isNumericArrayType :: "string \<Rightarrow> bool" where
  "isNumericArrayType ty =
     (let l = toLowerCase ty
      in str_includes l ''float64[]'' \<or> str_includes l ''double[]'' \<or> str_includes l ''float32[]''
         \<or> str_includes l ''sequence<double>'' \<or> str_includes l ''sequence<float64>'' \<or> str_includes l ''sequence<float32>''
         \<or> (str_includes l ''float'' \<and> str_includes l ''[]'') \<or> (str_includes l ''double'' \<and> str_includes l ''[]''))"

definition isStringArrayType :: "string \<Rightarrow> bool" where
  "isStringArrayType ty =
     (let l = toLowerCase ty in str_includes l ''string[]'' \<or> str_includes l ''sequence<string>'')"

section \<open>The nodes' copy of the outcome inference\<close>

definition normalizeOutcomeValue :: "string option \<Rightarrow> action_outcome option" where
  "normalizeOutcomeValue value =
     (if \<not> truthy value then None
      else let lower = toLowerCase (the value) in
        if lower = ''success'' \<or> lower = ''succeeded'' then Some Success
        else if lower = ''failed'' \<or> lower = ''failure'' \<or> lower = ''error'' then Some Failed
        else if lower = ''aborted'' \<or> lower = ''abort'' then Some Aborted
        else if lower = ''cancelled'' \<or> lower = ''canceled'' \<or> lower = ''cancel'' then Some Cancelled
        else if lower = ''timeout'' \<or> lower = ''timed_out'' then Some Timeout
        else if lower = ''rejected'' then Some Rejected
        else None)"

definition inferOutcomeFromEndState :: "end_state \<Rightarrow> action_outcome" where
  "inferOutcomeFromEndState es =
     (let label = toLowerCase (orS (es_label es) []); stateValue = toLowerCase (es_state es)
      in if str_includes label ''timeout'' \<or> str_includes stateValue ''timeout'' then Timeout
         else if str_includes label ''cancel'' \<or> str_includes stateValue ''cancel'' then Cancelled
         else if str_includes label ''abort'' \<or> str_includes stateValue ''abort'' then Aborted
         else if str_includes label ''fail'' \<or> str_includes label ''error''
                 \<or> str_includes stateValue ''fail'' \<or> str_includes stateValue ''error'' then Failed
         else if str_includes label ''success'' \<or> str_includes label ''complete''
                 \<or> str_includes stateValue ''idle'' \<or> str_includes stateValue ''ready'' then Success
         else Success)"

text \<open>The outcome a node works with (\<^verbatim>\<open>EndStatesSection.tsx\<close>, \<^verbatim>\<open>StateActionNode.tsx\<close>): the stored text as it is, or the inferred one.\<close>

definition node_outcome :: "end_state \<Rightarrow> string" where
  "node_outcome es = (if truthy (es_outcome es) then the (es_outcome es) else outcome_str (inferOutcomeFromEndState es))"

fun OUTCOME_COLORS :: "action_outcome \<Rightarrow> string" where
  "OUTCOME_COLORS Success = ''#22c55e''"
| "OUTCOME_COLORS Failed = ''#ef4444''"
| "OUTCOME_COLORS Aborted = ''#ef4444''"
| "OUTCOME_COLORS Cancelled = ''#6b7280''"
| "OUTCOME_COLORS Timeout = ''#f59e0b''"
| "OUTCOME_COLORS Rejected = ''#ef4444''"

fun OUTCOME_HANDLE_IDS :: "action_outcome \<Rightarrow> string" where
  "OUTCOME_HANDLE_IDS Success = ''success''"
| "OUTCOME_HANDLE_IDS Failed = ''failed''"
| "OUTCOME_HANDLE_IDS Aborted = ''aborted''"
| "OUTCOME_HANDLE_IDS Cancelled = ''cancelled''"
| "OUTCOME_HANDLE_IDS Timeout = ''timeout''"
| "OUTCOME_HANDLE_IDS Rejected = ''failed''"

definition END_STATE_COLORS :: "(string \<times> string) list" where
  "END_STATE_COLORS =
     [(''success'', ''#22c55e''), (''completed'', ''#22c55e''), (''idle'', ''#22c55e''), (''error'', ''#ef4444''),
      (''failed'', ''#ef4444''), (''timeout'', ''#f59e0b''), (''partial'', ''#eab308''), (''cancelled'', ''#6b7280'')]"

text \<open>\<open>OUTCOME_COLORS[endState.outcome]\<close>: a value outside the six outcomes has no entry.\<close>

definition outcome_color_of :: "string \<Rightarrow> string option" where
  "outcome_color_of s =
     map_option OUTCOME_COLORS (find (\<lambda>k. outcome_str k = s) [Success, Failed, Aborted, Cancelled, Timeout, Rejected])"

definition getEndStateColor :: "end_state \<Rightarrow> string" where
  "getEndStateColor es =
     (if truthy (es_color es) then the (es_color es)
      else if truthy (es_outcome es) \<and> outcome_color_of (the (es_outcome es)) \<noteq> None
      then the (outcome_color_of (the (es_outcome es)))
      else
        let l = toLowerCase (orS (es_label es) []);
            byState = coalesce (map_of END_STATE_COLORS (toLowerCase (es_state es))) ''#6b7280''
        in if truthy (es_label es)
           then (if str_includes l ''success'' \<or> str_includes l ''complete'' then ''#22c55e''
                 else if str_includes l ''error'' \<or> str_includes l ''fail'' \<or> str_includes l ''abort'' then ''#ef4444''
                 else if str_includes l ''timeout'' then ''#f59e0b'' else byState)
           else byState)"

section \<open>Properties\<close>

lemma infer_keyword:
  "inferOutcomeFromEndState es =
     coalesce (keyword_outcome (toLowerCase (orS (es_label es) [])) (toLowerCase (es_state es))) Success"
  by (simp add: inferOutcomeFromEndState_def keyword_outcome_def Let_def)

text \<open>C40. The two copies of the outcome logic: the nodes normalise outcomes like the editor does and colour them like the edges. The outcome
  a node works with is the one the editor saves for the end state at an index exactly if: a stored outcome is one of the six names (a
  synonym such as \<^verbatim>\<open>succeeded\<close> is not, though it means the same outcome; any other text the node takes as it is, and the editor does not); or
  none is stored and a keyword in the label or state decides, or the end state is the first one. Otherwise, with neither an outcome nor a keyword at a
  later index, the node shows a success and the editor saves a failure.\<close>

theorem outcome_copies_agree:
  "normalizeOutcomeValue v = normalizeOutcome v \<and> OUTCOME_COLORS k = OUTCOME_EDGE_COLORS k
   \<and> (node_outcome es = outcome_str (inferOutcome es i) \<longleftrightarrow>
        (case normalizeOutcome (es_outcome es) of
           Some out \<Rightarrow> es_outcome es = Some (outcome_str out)
         | None \<Rightarrow> \<not> truthy (es_outcome es)
             \<and> (i = 0 \<or> keyword_outcome (toLowerCase (orS (es_label es) [])) (toLowerCase (es_state es)) \<noteq> None)))
   \<and> (normalizeOutcomeValue (Some (node_outcome es)) = Some (inferOutcome es i) \<longleftrightarrow>
        (case normalizeOutcome (es_outcome es) of
           Some out \<Rightarrow> True
         | None \<Rightarrow> \<not> truthy (es_outcome es)
             \<and> (i = 0 \<or> keyword_outcome (toLowerCase (orS (es_label es) [])) (toLowerCase (es_state es)) \<noteq> None)))
   \<and> (\<not> truthy (es_outcome es) \<and> 0 < i \<and> keyword_outcome (toLowerCase (orS (es_label es) [])) (toLowerCase (es_state es)) = None \<longrightarrow>
        node_outcome es = ''success'' \<and> inferOutcome es i = Failed)"
proof -
  have n: "normalizeOutcomeValue v = normalizeOutcome v" for v
    by (simp add: normalizeOutcomeValue_def normalizeOutcome_def)
  have c: "OUTCOME_COLORS k = OUTCOME_EDGE_COLORS k" by (cases k) simp_all
  have untruthy: "normalizeOutcome (es_outcome es) = None" if "\<not> truthy (es_outcome es)" using that by (simp add: normalizeOutcome_def)
  show ?thesis
  proof (cases "normalizeOutcome (es_outcome es)")
    case (Some out)
    then have t: "truthy (es_outcome es)" using untruthy by auto
    then have "es_outcome es = Some (the (es_outcome es))" by (cases "es_outcome es") simp_all
    then have "node_outcome es = outcome_str (inferOutcome es i) \<longleftrightarrow> es_outcome es = Some (outcome_str out)"
        "normalizeOutcome (Some (node_outcome es)) = Some out"
      using t Some by (auto simp: node_outcome_def inferOutcome_def)
    with c n t Some show ?thesis by (simp add: inferOutcome_def)
  next
    case None
    show ?thesis
    proof (cases "truthy (es_outcome es)")
      case True
      then have "normalizeOutcome (Some (node_outcome es)) = None" using None by (cases "es_outcome es") (simp_all add: node_outcome_def)
      then have "node_outcome es \<noteq> outcome_str (inferOutcome es i)" "normalizeOutcome (Some (node_outcome es)) \<noteq> Some (inferOutcome es i)"
        by (metis normalizeOutcome_outcome_str option.distinct(1), metis option.distinct(1))
      with c n True None show ?thesis by simp
    next
      case False
      with c n None normalizeOutcome_outcome_str[of Success, unfolded outcome_str.simps] show ?thesis
        by (cases "keyword_outcome (toLowerCase (orS (es_label es) [])) (toLowerCase (es_state es))")
           (auto simp: node_outcome_def infer_keyword inferOutcome_def coalesce_def)
    qed
  qed
qed

theorem outcome_copies_agree_witness:
  "let es = \<lparr>es_id = ''x'', es_state = ''parked'', es_label = None, es_color = None, es_outcome = None\<rparr>
   in node_outcome es = ''success'' \<and> inferOutcome es 1 = Failed"
proof -
  let ?es = "\<lparr>es_id = ''x'', es_state = ''parked'', es_label = None, es_color = None, es_outcome = None\<rparr> :: end_state"
  have "keyword_outcome (toLowerCase (orS (es_label ?es) [])) (toLowerCase (es_state ?es)) = None" "\<not> truthy (es_outcome ?es)"
    by code_simp+
  with outcome_copies_agree[of None Success ?es 1] show ?thesis by (simp add: Let_def)
qed

subsection \<open>Schemas\<close>

definition describes_field :: "json \<Rightarrow> bool" where
  "describes_field v = (is_object v \<or> jstr v \<noteq> None)"

lemma schema_field_names:
  "map af_name (schema_field e) = (if describes_field (snd e) then [fst e] else [])"
  by (auto simp: schema_field_def describes_field_def Let_def split: prod.splits option.splits)

lemma concat_fields_names:
  "map af_name (concat (map schema_field es)) = map fst (filter (\<lambda>e. describes_field (snd e)) es)"
  by (induction es) (simp_all add: schema_field_names)

text \<open>A goal schema yields one parameter field per described property, in the order the language enumerates
  them: for a JSON schema the properties that are objects or strings, for the legacy format the top-level
  entries without the metadata keys.\<close>

lemma schema_field_list:
  "map af_name (schemaToFields schema) =
     map fst (filter (\<lambda>(k, v). describes_field v)
       (if \<not> json_truthy schema then []
        else if jstr (jget schema ''type'') = Some ''object'' \<and> is_object (jget schema ''properties'')
        then jentries (jget schema ''properties'')
        else filter (\<lambda>(k, v). k \<notin> set metadataFields) (jentries schema)))"
  by (simp add: schemaToFields_def concat_fields_names case_prod_unfold)

text \<open>Arrays in a schema may be nested: wrapping a description in an array keeps the ROS type of the innermost
  items and sets the array flag.\<close>

theorem array_schema_type:
  assumes "is_object items"
  shows "extractRosType (JObj [(''type'', JStr ''array''), (''items'', items)]) =
         \<lparr>rt_type = rt_type (extractRosType items), rt_isArray = True\<rparr>"
  using assms by (subst extractRosType.simps) simp

theorem array_schema_type_witness:
  "extractRosType (JObj [(''type'', JStr ''array''), (''items'',
      JObj [(''x-ros-namespace'', JStr ''geometry_msgs::msg''), (''x-ros-name'', JStr ''Pose'')])]) =
   \<lparr>rt_type = ''geometry_msgs/msg/Pose'', rt_isArray = True\<rparr>"
proof -
  let ?i = "JObj [(''x-ros-namespace'', JStr ''geometry_msgs::msg''), (''x-ros-name'', JStr ''Pose'')]"
  have "is_object ?i" "rt_type (extractRosType ?i) = ''geometry_msgs/msg/Pose''" by code_simp+
  with array_schema_type[of ?i] show ?thesis by simp
qed

end
