(* ===== verification/Telemetry_Mapping.thy ===== *)
theory Telemetry_Mapping
  imports Node_Utils
begin

text \<open>
  Telemetry capture (\<^verbatim>\<open>utils/telemetryMapping.ts\<close>): which telemetry path fills a goal parameter of a given ROS
  type. The module builds the reverse table at load time; \<open>GOAL_TO_TELEMETRY_MAPPING\<close> is that loop.
\<close>

definition numeric_array_types :: "string list" where
  "numeric_array_types = [''array'', ''float64[]'', ''double[]'', ''sequence<double>'', ''sequence<float64>'']"

definition TELEMETRY_TO_GOAL_MAPPING :: "(string \<times> string list) list" where
  "TELEMETRY_TO_GOAL_MAPPING =
     [(''odometry.pose'',
        [''geometry_msgs/msg/Pose'', ''geometry_msgs/msg/PoseStamped'', ''geometry_msgs/msg/PoseWithCovariance'',
         ''geometry_msgs/msg/PoseWithCovarianceStamped'']),
      (''odometry.pose.position'',
        [''geometry_msgs/msg/Point'', ''geometry_msgs/msg/PointStamped'', ''geometry_msgs/msg/Vector3'']),
      (''odometry.pose.orientation'', [''geometry_msgs/msg/Quaternion'']),
      (''odometry.twist'',
        [''geometry_msgs/msg/Twist'', ''geometry_msgs/msg/TwistStamped'', ''geometry_msgs/msg/TwistWithCovariance'']),
      (''joint_state'', [''sensor_msgs/msg/JointState'', ''trajectory_msgs/msg/JointTrajectoryPoint'']),
      (''joint_state.position'', numeric_array_types),
      (''joint_state.velocity'', numeric_array_types),
      (''joint_state.effort'', numeric_array_types),
      (''joint_state.name'', [''array'', ''string[]'', ''sequence<string>''])]"

definition GOAL_TO_TELEMETRY_MAPPING :: "(string \<times> string) list" where
  "GOAL_TO_TELEMETRY_MAPPING =
     fold (\<lambda>(path, types) m. fold (\<lambda>ty m. map_set (toLowerCase ty) path (map_set ty path m)) types m)
       TELEMETRY_TO_GOAL_MAPPING []"

definition findCompatibleTelemetryPath :: "string \<Rightarrow> string option" where
  "findCompatibleTelemetryPath goalType =
     orO (map_of GOAL_TO_TELEMETRY_MAPPING goalType)
       (orO (map_of GOAL_TO_TELEMETRY_MAPPING (toLowerCase goalType)) None)"

definition isTelemetryCompatible :: "string \<Rightarrow> string \<Rightarrow> bool" where
  "isTelemetryCompatible telemetryPath goalType =
     (let compatibleTypes = arr (map_of TELEMETRY_TO_GOAL_MAPPING telemetryPath);
          normalizedGoalType = toLowerCase goalType
      in list_ex (\<lambda>t. toLowerCase t = normalizedGoalType) compatibleTypes)"

definition zero_stamp :: json where
  "zero_stamp = JObj [(''sec'', JNum (Fin 0)), (''nanosec'', JNum (Fin 0))]"

definition stamped :: "string \<Rightarrow> string \<Rightarrow> json \<Rightarrow> json" where
  "stamped frame field v =
     JObj [(''header'', JObj [(''stamp'', zero_stamp), (''frame_id'', JStr frame)]), (field, v)]"

text \<open>\<open>js.position || []\<close>.\<close>

definition json_or_empty :: "json \<Rightarrow> json" where
  "json_or_empty v = (if json_truthy v then v else JArr [])"

definition convertTelemetryToGoalParam :: "string \<Rightarrow> json \<Rightarrow> string \<Rightarrow> json" where
  "convertTelemetryToGoalParam telemetryPath telemetryValue targetType =
     (if \<not> json_truthy telemetryValue then JNull
      else
        let lowerType = toLowerCase targetType
        in if str_includes lowerType ''posestamped'' \<and> telemetryPath = ''odometry.pose''
           then stamped ''map'' ''pose'' telemetryValue
           else if str_includes lowerType ''twiststamped'' \<and> telemetryPath = ''odometry.twist''
           then stamped ''base_link'' ''twist'' telemetryValue
           else if str_includes lowerType ''pointstamped'' \<and> telemetryPath = ''odometry.pose.position''
           then stamped ''map'' ''point'' telemetryValue
           else if str_includes lowerType ''jointtrajectorypoint'' \<and> telemetryPath = ''joint_state''
           then JObj [(''positions'', json_or_empty (jget telemetryValue ''position'')),
                      (''velocities'', json_or_empty (jget telemetryValue ''velocity'')),
                      (''accelerations'', JArr []),
                      (''effort'', json_or_empty (jget telemetryValue ''effort'')),
                      (''time_from_start'', zero_stamp)]
           else telemetryValue)"

section \<open>Properties\<close>

text \<open>The nested loops are one loop of \<open>set\<close> calls over the pairs they visit, so the contract of \<open>Map\<close> gives what
  the table holds.\<close>

definition reverse_pairs :: "(string \<times> string) list" where
  "reverse_pairs =
     concat (map (\<lambda>(path, types). concat (map (\<lambda>ty. [(ty, path), (toLowerCase ty, path)]) types)) TELEMETRY_TO_GOAL_MAPPING)"

lemma fold_pairs: "fold (\<lambda>ty m. map_set (toLowerCase ty) path (map_set ty path m)) types m =
   fold (\<lambda>x. map_set (fst x) (snd x)) (concat (map (\<lambda>ty. [(ty, path), (toLowerCase ty, path)]) types)) m"
  by (induction types arbitrary: m) simp_all

lemma reverse_table_fold: "GOAL_TO_TELEMETRY_MAPPING = fold (\<lambda>x. map_set (fst x) (snd x)) reverse_pairs []"
proof -
  have "fold (\<lambda>(path, types) m. fold (\<lambda>ty m. map_set (toLowerCase ty) path (map_set ty path m)) types m) ts m =
      fold (\<lambda>x. map_set (fst x) (snd x))
        (concat (map (\<lambda>(path, types). concat (map (\<lambda>ty. [(ty, path), (toLowerCase ty, path)]) types)) ts)) m" for ts m
    by (induction ts arbitrary: m) (simp_all add: fold_pairs case_prod_unfold)
  then show ?thesis by (simp add: GOAL_TO_TELEMETRY_MAPPING_def reverse_pairs_def)
qed

lemma reverse_table_get:
  "map_of GOAL_TO_TELEMETRY_MAPPING k = map_option snd (find (\<lambda>x. fst x = k) (rev reverse_pairs))"
  by (simp add: reverse_table_fold js_map.fold_set_get option.case_eq_if map_option_case)

lemma forward_paths: "distinct (map fst TELEMETRY_TO_GOAL_MAPPING)" "[] \<notin> fst ` set TELEMETRY_TO_GOAL_MAPPING"
  by code_simp+

lemma compatible_toLowerCase: "isTelemetryCompatible p (toLowerCase ty) = isTelemetryCompatible p ty"
  by (simp add: isTelemetryCompatible_def)

lemma reverse_lookup_sound:
  assumes "map_of GOAL_TO_TELEMETRY_MAPPING ty = Some p"
  shows "p \<noteq> [] \<and> isTelemetryCompatible p ty"
proof -
  from assms have "(ty, p) \<in> set reverse_pairs" by (auto simp: reverse_table_get dest!: find_SomeD)
  then obtain types t where t: "(p, types) \<in> set TELEMETRY_TO_GOAL_MAPPING" "t \<in> set types" "ty = t \<or> ty = toLowerCase t"
    by (auto simp: reverse_pairs_def)
  from t(1) forward_paths(1) have "map_of TELEMETRY_TO_GOAL_MAPPING p = Some types" by simp
  with t forward_paths(2) show ?thesis by (force simp: isTelemetryCompatible_def list_ex_iff)
qed

lemma reverse_lookup_complete:
  assumes "map_of TELEMETRY_TO_GOAL_MAPPING p = Some types" "t \<in> set types"
  shows "map_of GOAL_TO_TELEMETRY_MAPPING (toLowerCase t) \<noteq> None"
proof -
  have "(toLowerCase t, p) \<in> set (concat (map (\<lambda>ty. [(ty, p), (toLowerCase ty, p)]) types))"
    using assms(2) by auto
  with map_of_SomeD[OF assms(1)] have "(toLowerCase t, p) \<in> set reverse_pairs"
    unfolding reverse_pairs_def by (simp only: set_concat set_map) (rule UnionI, rule imageI, erule imageI, simp)
  then show ?thesis by (auto simp: reverse_table_get find_None_iff)
qed

text \<open>The path found for a goal type is one whose values are accepted for that type, in any spelling of the
  case, and a path is found exactly when some telemetry path is compatible with the type.\<close>

theorem telemetry_path_correct:
  "(\<forall>p. findCompatibleTelemetryPath ty = Some p \<longrightarrow> isTelemetryCompatible p ty)
   \<and> (findCompatibleTelemetryPath ty \<noteq> None \<longleftrightarrow> (\<exists>p. isTelemetryCompatible p ty))"
proof -
  have sound: "isTelemetryCompatible p ty" if "findCompatibleTelemetryPath ty = Some p" for p
    using that reverse_lookup_sound[of ty p] reverse_lookup_sound[of "toLowerCase ty" p] compatible_toLowerCase[of p ty]
    by (auto simp: findCompatibleTelemetryPath_def orO_def split: if_splits)
  moreover have "findCompatibleTelemetryPath ty \<noteq> None" if c: "isTelemetryCompatible p ty" for p
  proof -
    from c obtain types t where "map_of TELEMETRY_TO_GOAL_MAPPING p = Some types" "t \<in> set types" "toLowerCase t = toLowerCase ty"
      by (cases "map_of TELEMETRY_TO_GOAL_MAPPING p") (auto simp: isTelemetryCompatible_def list_ex_iff Let_def)
    then have "map_of GOAL_TO_TELEMETRY_MAPPING (toLowerCase ty) \<noteq> None"
      using reverse_lookup_complete by metis
    then obtain q where "map_of GOAL_TO_TELEMETRY_MAPPING (toLowerCase ty) = Some q" by blast
    with reverse_lookup_sound[OF this] show ?thesis by (auto simp: findCompatibleTelemetryPath_def orO_def truthy_def split: option.splits)
  qed
  ultimately show ?thesis by blast
qed

lemma joint_array_paths:
  "findCompatibleTelemetryPath ''float64[]'' = Some ''joint_state.effort''"
  "findCompatibleTelemetryPath ''array'' = Some ''joint_state.name''"
proof -
  have "find (\<lambda>x. fst x = ''float64[]'') (rev reverse_pairs) = Some (''float64[]'', ''joint_state.effort'')"
    "find (\<lambda>x. fst x = ''array'') (rev reverse_pairs) = Some (''array'', ''joint_state.name'')" by code_simp+
  then show "findCompatibleTelemetryPath ''float64[]'' = Some ''joint_state.effort''"
    "findCompatibleTelemetryPath ''array'' = Some ''joint_state.name''"
    by (simp_all add: findCompatibleTelemetryPath_def reverse_table_get)
qed

theorem telemetry_path_correct_witness:
  "isTelemetryCompatible ''joint_state.effort'' ''float64[]''"
  using telemetry_path_correct joint_array_paths(1) by blast

text \<open>The reverse table keeps the last path that lists a type, so a joint array is never captured from the
  joint positions: numeric arrays are filled from the joint efforts and a generic array from the joint names.\<close>

theorem joint_arrays_shadowed:
  "findCompatibleTelemetryPath ''float64[]'' = Some ''joint_state.effort''
   \<and> findCompatibleTelemetryPath ''array'' = Some ''joint_state.name''
   \<and> isTelemetryCompatible ''joint_state.position'' ''float64[]''"
proof (intro conjI)
  show "findCompatibleTelemetryPath ''float64[]'' = Some ''joint_state.effort''"
    "findCompatibleTelemetryPath ''array'' = Some ''joint_state.name''" by (rule joint_array_paths)+
  show "isTelemetryCompatible ''joint_state.position'' ''float64[]''" by code_simp
qed

end
