(* ===== verification/User_Store.thy ===== *)
theory User_Store
  imports Js_Prelude
begin

text \<open>
  The persisted user store (\<^verbatim>\<open>stores/userStore.ts\<close>): the session id the editor sends as an HTTP header is derived from
  the user name. The time stamp and the random part of an id are arguments, given as the strings
  \<open>Date.now().toString(36)\<close> and \<open>Math.random().toString(36).slice(2)\<close> produce.
\<close>

record user_state =
  us_username :: "string option"
  us_sessionId :: "string option"

text \<open>\<open>encodeURIComponent\<close> on the characters of the model, which UTF-8 encodes in one or two bytes.\<close>

definition uri_unreserved :: "char \<Rightarrow> bool" where
  "uri_unreserved c =
     (let n = (of_char c :: nat)
      in (48 \<le> n \<and> n \<le> 57) \<or> (65 \<le> n \<and> n \<le> 90) \<or> (97 \<le> n \<and> n \<le> 122) \<or> c \<in> set ''-_.!~*()'' \<or> n = 39)"

definition hex_digit :: "nat \<Rightarrow> char" where
  "hex_digit d = (if d < 10 then char_of (48 + d) else char_of (55 + d))"

definition percent :: "nat \<Rightarrow> string" where
  "percent b = [CHR ''%'', hex_digit (b div 16), hex_digit (b mod 16)]"

definition utf8 :: "char \<Rightarrow> nat list" where
  "utf8 c = (let n = (of_char c :: nat) in if n < 128 then [n] else [192 + n div 64, 128 + n mod 64])"

definition encodeURIComponent :: "string \<Rightarrow> string" where
  "encodeURIComponent s = concat (map (\<lambda>c. if uri_unreserved c then [c] else concat (map percent (utf8 c))) s)"

definition generateSessionId :: "string \<Rightarrow> string \<Rightarrow> string \<Rightarrow> string" where
  "generateSessionId now random username = ''session_'' @ encodeURIComponent username @ ''_'' @ now @ ''_'' @ random"

definition isAsciiOnly :: "string \<Rightarrow> bool" where
  "isAsciiOnly = list_all (\<lambda>c. (of_char c :: nat) < 128)"

definition setUsername :: "string \<Rightarrow> string \<Rightarrow> string \<Rightarrow> user_state \<Rightarrow> user_state" where
  "setUsername now random name s =
     (if us_username s = Some name \<and> truthy (us_sessionId s) \<and> isAsciiOnly (the (us_sessionId s)) then s
      else \<lparr>us_username = Some name, us_sessionId = Some (generateSessionId now random name)\<rparr>)"

definition clearUser :: "user_state \<Rightarrow> user_state" where
  "clearUser s = \<lparr>us_username = None, us_sessionId = None\<rparr>"

text \<open>The migration of a stored state of an older version.\<close>

definition migrate :: "string \<Rightarrow> string \<Rightarrow> nat \<Rightarrow> user_state \<Rightarrow> user_state" where
  "migrate now random version s =
     (if version = 0 \<and> truthy (us_sessionId s) \<and> \<not> isAsciiOnly (the (us_sessionId s))
      then s\<lparr>us_sessionId := (if truthy (us_username s) then Some (generateSessionId now random (the (us_username s))) else None)\<rparr>
      else s)"

section \<open>Header-safe session ids\<close>

lemma ascii_append [simp]: "isAsciiOnly (s @ t) \<longleftrightarrow> isAsciiOnly s \<and> isAsciiOnly t"
  by (simp add: isAsciiOnly_def)

lemma utf8_bytes: "b \<in> set (utf8 c) \<Longrightarrow> b < 256"
proof -
  have "(of_char c :: nat) div 64 < 64" using nat_of_char_less_256[of c] by linarith
  then show "b \<in> set (utf8 c) \<Longrightarrow> b < 256" by (auto simp: utf8_def Let_def split: if_splits)
qed

lemma percent_ascii: "b < 256 \<Longrightarrow> isAsciiOnly (percent b)"
  by (auto simp: isAsciiOnly_def percent_def hex_digit_def)

lemma encode_ascii: "isAsciiOnly (encodeURIComponent s)"
proof -
  have "isAsciiOnly (concat xss)" if "\<And>xs. xs \<in> set xss \<Longrightarrow> isAsciiOnly xs" for xss
    using that by (induction xss) (simp_all add: isAsciiOnly_def)
  moreover have "isAsciiOnly [c]" if "uri_unreserved c" for c
    using that by (auto simp: isAsciiOnly_def uri_unreserved_def Let_def)
  moreover have "isAsciiOnly (concat (map percent (utf8 c)))" for c
    using utf8_bytes percent_ascii calculation(1)[of "map percent (utf8 c)"] by auto
  ultimately have "isAsciiOnly (if uri_unreserved c then [c] else concat (map percent (utf8 c)))" for c by simp
  then show ?thesis
    unfolding encodeURIComponent_def by (induction s) (simp_all add: isAsciiOnly_def)
qed

definition header_safe :: "user_state \<Rightarrow> bool" where
  "header_safe s = (case us_sessionId s of None \<Rightarrow> True | Some i \<Rightarrow> isAsciiOnly i)"

text \<open>Whatever characters a user name has, the session id is safe for an HTTP header: it is after the name has
  been set, after logging out and after the migration of a version 0 state, and setting the same name again keeps
  the session.\<close>

theorem session_id_header_safe:
  assumes "isAsciiOnly now" "isAsciiOnly random"
  shows "header_safe (setUsername now random name s)
    \<and> header_safe (clearUser s)
    \<and> header_safe (migrate now random 0 s)
    \<and> setUsername now' random' name (setUsername now random name s) = setUsername now random name s"
proof -
  have g: "isAsciiOnly (generateSessionId now random u)" for u
    using assms encode_ascii by (simp add: generateSessionId_def) (simp add: isAsciiOnly_def)
  have nil: "isAsciiOnly []" by (simp add: isAsciiOnly_def)
  have t: "truthy (Some (generateSessionId now random u))" for u by (simp add: generateSessionId_def)
  show ?thesis
    using g t by (auto simp: header_safe_def setUsername_def clearUser_def migrate_def truthy_def nil
        split: option.splits if_splits)
qed

theorem session_id_header_safe_witness:
  "header_safe (setUsername ''abc'' ''x9'' [CHR 0xFC, CHR ''b''] \<lparr>us_username = None, us_sessionId = None\<rparr>)"
proof -
  have "isAsciiOnly ''abc''" "isAsciiOnly ''x9''" by code_simp+
  from session_id_header_safe[OF this] show ?thesis by blast
qed

end
