(* ===== verification/Pddl_Drafts.thy ===== *)
theory Pddl_Drafts
  imports Fleet_Types
begin

text \<open>
  The drafts of the planning page (\<^verbatim>\<open>pages/PDDL/index.tsx\<close>): what is kept in the browser's storage per task
  distributor, how it is restored on load, switched with the distributor and reset when the selection changes.
  The storage maps keys to parsed values: a draft with optional fields, a plain text, or text that does
  not parse. Writing a draft writes its JSON, in which a number that is not finite becomes \<open>null\<close>; writes are
  taken to succeed. An effect of the page is a function on its state, run when React runs it.
\<close>

section \<open>Drafts\<close>

record pddl_draft =
  dr_selectedBTIds :: "string list"
  dr_selectedDistributorId :: "string option"
  dr_selectedAgentIds :: "string list"
  dr_goalState :: "(string \<times> string) list"
  dr_initialState :: "(string \<times> string) list"
  dr_showInitialState :: bool
  dr_plan :: "plan_result option"
  dr_executionId :: "string option"
  dr_realtimeGoals :: "realtime_goal_rule list"
  dr_realtimeTickIntervalSec :: jsnum
  dr_realtimeSessionId :: "string option"

record partial_draft =
  sd_selectedBTIds :: "string list option"
  sd_selectedDistributorId :: "string option"
  sd_selectedAgentIds :: "string list option"
  sd_goalState :: "(string \<times> string) list option"
  sd_initialState :: "(string \<times> string) list option"
  sd_showInitialState :: "bool option"
  sd_plan :: "plan_result option"
  sd_executionId :: "string option"
  sd_realtimeGoals :: "realtime_goal_rule list option"
  sd_realtimeTickIntervalSec :: "jsnum option"
  sd_realtimeSessionId :: "string option"

definition no_draft :: partial_draft where
  "no_draft = \<lparr>sd_selectedBTIds = None, sd_selectedDistributorId = None, sd_selectedAgentIds = None, sd_goalState = None,
     sd_initialState = None, sd_showInitialState = None, sd_plan = None, sd_executionId = None, sd_realtimeGoals = None,
     sd_realtimeTickIntervalSec = None, sd_realtimeSessionId = None\<rparr>"

definition PDDL_DRAFT_STORAGE_KEY :: string where
  "PDDL_DRAFT_STORAGE_KEY = ''mcs.pddl.draft.v2''"

definition PDDL_SCOPED_DRAFT_STORAGE_PREFIX :: string where
  "PDDL_SCOPED_DRAFT_STORAGE_PREFIX = ''mcs.pddl.draft.v3:''"

definition PDDL_LAST_DISTRIBUTOR_STORAGE_KEY :: string where
  "PDDL_LAST_DISTRIBUTOR_STORAGE_KEY = ''mcs.pddl.lastDistributorId.v1''"

definition PDDL_NO_DISTRIBUTOR_SCOPE :: string where
  "PDDL_NO_DISTRIBUTOR_SCOPE = ''__none__''"

definition getPddlDraftScopeKey :: "string option \<Rightarrow> string" where
  "getPddlDraftScopeKey distributorId = PDDL_SCOPED_DRAFT_STORAGE_PREFIX @ orS distributorId PDDL_NO_DISTRIBUTOR_SCOPE"

definition normalizePddlDraft :: "partial_draft option \<Rightarrow> pddl_draft" where
  "normalizePddlDraft raw =
     (let r = coalesce raw no_draft
      in \<lparr>dr_selectedBTIds = arr (sd_selectedBTIds r), dr_selectedDistributorId = orO (sd_selectedDistributorId r) None,
          dr_selectedAgentIds = arr (sd_selectedAgentIds r), dr_goalState = arr (sd_goalState r),
          dr_initialState = arr (sd_initialState r), dr_showInitialState = coalesce (sd_showInitialState r) False,
          dr_plan = sd_plan r, dr_executionId = orO (sd_executionId r) None, dr_realtimeGoals = arr (sd_realtimeGoals r),
          dr_realtimeTickIntervalSec = coalesce (sd_realtimeTickIntervalSec r) (Fin 2),
          dr_realtimeSessionId = orO (sd_realtimeSessionId r) None\<rparr>)"

text \<open>The parsed form of \<open>JSON.stringify(draft)\<close>.\<close>

definition stringify_draft :: "pddl_draft \<Rightarrow> partial_draft" where
  "stringify_draft d =
     \<lparr>sd_selectedBTIds = Some (dr_selectedBTIds d), sd_selectedDistributorId = dr_selectedDistributorId d,
      sd_selectedAgentIds = Some (dr_selectedAgentIds d), sd_goalState = Some (dr_goalState d),
      sd_initialState = Some (dr_initialState d), sd_showInitialState = Some (dr_showInitialState d), sd_plan = dr_plan d,
      sd_executionId = dr_executionId d, sd_realtimeGoals = Some (dr_realtimeGoals d),
      sd_realtimeTickIntervalSec = (if isFinite (dr_realtimeTickIntervalSec d) then Some (dr_realtimeTickIntervalSec d) else None),
      sd_realtimeSessionId = dr_realtimeSessionId d\<rparr>"

text \<open>A draft passed on as it is, without a detour through JSON.\<close>

definition as_partial :: "pddl_draft \<Rightarrow> partial_draft" where
  "as_partial d = (stringify_draft d)\<lparr>sd_realtimeTickIntervalSec := Some (dr_realtimeTickIntervalSec d)\<rparr>"

section \<open>The storage\<close>

datatype stored = StoredDraft partial_draft | StoredText string | Unparsable

type_synonym storage = "string \<rightharpoonup> stored"

text \<open>\<open>None\<close> also stands for the exception of \<open>JSON.parse\<close>, which is caught.\<close>

definition readStoredDraft :: "storage \<Rightarrow> string option \<Rightarrow> pddl_draft option" where
  "readStoredDraft st distributorId =
     (case st (getPddlDraftScopeKey distributorId) of
        Some (StoredDraft p) \<Rightarrow> Some (normalizePddlDraft (Some p))
      | _ \<Rightarrow> None)"

definition writeStoredDraft :: "string option \<Rightarrow> pddl_draft \<Rightarrow> storage \<Rightarrow> storage" where
  "writeStoredDraft distributorId draft st =
     (let st1 = st(getPddlDraftScopeKey distributorId \<mapsto>
            StoredDraft (stringify_draft (draft\<lparr>dr_selectedDistributorId := distributorId\<rparr>)))
      in if truthy distributorId then st1(PDDL_LAST_DISTRIBUTOR_STORAGE_KEY \<mapsto> StoredText (the distributorId)) else st1)"

definition stored_text :: "storage \<Rightarrow> string \<Rightarrow> string option" where
  "stored_text st k = (case st k of Some (StoredText t) \<Rightarrow> Some t | _ \<Rightarrow> None)"

section \<open>The page\<close>

text \<open>The part of the page's state the drafts are about: the drafted values and the values cleared with them.\<close>

record pddl_page =
  pg_draft :: pddl_draft
  pg_knownAgents :: "string list"
  pg_execution :: "plan_execution option"
  pg_realtimeExecutionMap :: "(string \<times> plan_execution) list"
  pg_resourceAllocations :: "resource_allocation list"
  pg_realtimeSession :: "realtime_session option"
  pg_typeInstanceDrafts :: "(string \<times> string) list"
  pg_skipNextSelectionReset :: bool
  pg_restoredSelectionKey :: "string option"
  pg_isApplyingScopedDraft :: bool
  pg_storage :: storage

abbreviation pg_distributor :: "pddl_page \<Rightarrow> string option" where
  "pg_distributor s \<equiv> dr_selectedDistributorId (pg_draft s)"

definition resolvedSelectedAgentIds :: "pddl_page \<Rightarrow> string list" where
  "resolvedSelectedAgentIds s = uniq (filter (\<lambda>i. i \<in> set (pg_knownAgents s)) (dr_selectedAgentIds (pg_draft s)))"

definition buildCurrentDraft :: "pddl_page \<Rightarrow> pddl_draft" where
  "buildCurrentDraft s = (pg_draft s)\<lparr>dr_selectedAgentIds := resolvedSelectedAgentIds s\<rparr>"

definition selection_key :: "string list \<Rightarrow> string option \<Rightarrow> string" where
  "selection_key bts distributorId = js_join '','' (js_sort code_unit_cmp bts) @ ''|'' @ orS distributorId []"

definition selectionKey :: "pddl_page \<Rightarrow> string" where
  "selectionKey s = selection_key (dr_selectedBTIds (pg_draft s)) (pg_distributor s)"

definition applyStoredDraft :: "string option \<Rightarrow> partial_draft option \<Rightarrow> pddl_page \<Rightarrow> pddl_page" where
  "applyStoredDraft distributorId rawDraft s =
     (let draft = normalizePddlDraft rawDraft
      in s\<lparr>pg_skipNextSelectionReset := True,
           pg_restoredSelectionKey := Some (selection_key (dr_selectedBTIds draft) distributorId),
           pg_isApplyingScopedDraft := True,
           pg_draft := draft\<lparr>dr_selectedDistributorId := distributorId\<rparr>,
           pg_execution := None, pg_realtimeExecutionMap := [], pg_resourceAllocations := [],
           pg_realtimeSession := None, pg_typeInstanceDrafts := []\<rparr>)"

definition switchDistributorScope :: "string option \<Rightarrow> pddl_page \<Rightarrow> pddl_page" where
  "switchDistributorScope next s =
     (let s1 = s\<lparr>pg_storage := writeStoredDraft (pg_distributor s) (buildCurrentDraft s) (pg_storage s)\<rparr>
      in case readStoredDraft (pg_storage s1) next of
           Some nextDraft \<Rightarrow> applyStoredDraft next (Some (as_partial nextDraft)) s1
         | None \<Rightarrow> applyStoredDraft next (Some (no_draft\<lparr>sd_selectedDistributorId := next\<rparr>)) s1)"

text \<open>The mount effect: it migrates the draft of the old format, then applies the draft of the last distributor.\<close>

definition restoreDraft :: "pddl_page \<Rightarrow> pddl_page" where
  "restoreDraft s =
     (let st = pg_storage s
      in if st PDDL_DRAFT_STORAGE_KEY = Some Unparsable then s
         else
           let legacy = (case st PDDL_DRAFT_STORAGE_KEY of Some (StoredDraft p) \<Rightarrow> Some (normalizePddlDraft (Some p)) | _ \<Rightarrow> None);
               st1 = (case legacy of None \<Rightarrow> st | Some d \<Rightarrow>
                        let k = getPddlDraftScopeKey (dr_selectedDistributorId d);
                            stA = (if st k = None then st(k \<mapsto> StoredDraft (stringify_draft d)) else st)
                        in if truthy (dr_selectedDistributorId d) \<and> stA PDDL_LAST_DISTRIBUTOR_STORAGE_KEY = None
                           then stA(PDDL_LAST_DISTRIBUTOR_STORAGE_KEY \<mapsto> StoredText (the (dr_selectedDistributorId d))) else stA);
               last = orO (stored_text st1 PDDL_LAST_DISTRIBUTOR_STORAGE_KEY) (Option.bind legacy dr_selectedDistributorId);
               draft = (case readStoredDraft st1 last of Some d \<Rightarrow> Some d | None \<Rightarrow> legacy);
               s1 = s\<lparr>pg_storage := st1\<rparr>
           in case draft of
                Some d \<Rightarrow> applyStoredDraft (orO (dr_selectedDistributorId d) (orO last None)) (Some (as_partial d)) s1
              | None \<Rightarrow> if truthy last then s1\<lparr>pg_draft := (pg_draft s1)\<lparr>dr_selectedDistributorId := last\<rparr>\<rparr> else s1)"

text \<open>The effect that persists the draft after a change.\<close>

definition persistDraft :: "pddl_page \<Rightarrow> pddl_page" where
  "persistDraft s =
     (if pg_isApplyingScopedDraft s then s\<lparr>pg_isApplyingScopedDraft := False\<rparr>
      else
        let draft = buildCurrentDraft s;
            st1 = (pg_storage s)(PDDL_DRAFT_STORAGE_KEY \<mapsto> StoredDraft (stringify_draft draft));
            st2 = writeStoredDraft (pg_distributor s) draft st1
        in s\<lparr>pg_storage := (if truthy (pg_distributor s)
                then st2(PDDL_LAST_DISTRIBUTOR_STORAGE_KEY \<mapsto> StoredText (the (pg_distributor s))) else st2)\<rparr>)"

text \<open>The effect on a change of the selection key.\<close>

definition selectionEffect :: "pddl_page \<Rightarrow> pddl_page" where
  "selectionEffect s =
     (if pg_skipNextSelectionReset s then s\<lparr>pg_skipNextSelectionReset := False\<rparr>
      else if truthy (pg_restoredSelectionKey s) \<and> pg_restoredSelectionKey s = Some (selectionKey s)
      then s\<lparr>pg_restoredSelectionKey := None\<rparr>
      else s\<lparr>pg_draft := (pg_draft s)\<lparr>dr_goalState := [], dr_initialState := [], dr_plan := None, dr_executionId := None\<rparr>,
             pg_execution := None, pg_realtimeExecutionMap := [], pg_resourceAllocations := [], pg_typeInstanceDrafts := []\<rparr>)"

text \<open>
  The effects after a change of the page, in the order of the code: the persistence, then, when the selection key changed, the reset (a
  reset changes the page, after which the effects run again).
\<close>

definition run_effects :: "pddl_page \<Rightarrow> pddl_page \<Rightarrow> pddl_page" where
  "run_effects old s =
     (let s1 = persistDraft s in if selectionKey s = selectionKey old then s1 else selectionEffect s1)"

section \<open>Round trips\<close>

text \<open>Drafts the page can hold: identifiers are absent or not empty, the tick interval is a finite number.\<close>

definition draft_ok :: "pddl_draft \<Rightarrow> bool" where
  "draft_ok d =
     (dr_executionId d \<noteq> Some [] \<and> dr_realtimeSessionId d \<noteq> Some [] \<and> dr_selectedDistributorId d \<noteq> Some []
      \<and> isFinite (dr_realtimeTickIntervalSec d))"

lemma orO_None [simp]: "v \<noteq> Some [] \<Longrightarrow> orO v None = v"
  by (cases v) auto

lemma parse_stringify: "draft_ok d \<Longrightarrow> normalizePddlDraft (Some (stringify_draft d)) = d"
  by (simp add: draft_ok_def normalizePddlDraft_def stringify_draft_def)

lemma normalize_as_partial: "draft_ok d \<Longrightarrow> normalizePddlDraft (Some (as_partial d)) = d"
  by (simp add: draft_ok_def normalizePddlDraft_def as_partial_def stringify_draft_def)

lemma normalize_ok: "draft_ok (normalizePddlDraft r) \<longleftrightarrow> isFinite (dr_realtimeTickIntervalSec (normalizePddlDraft r))"
  by (auto simp: draft_ok_def normalizePddlDraft_def Let_def orO_def truthy_def split: option.splits)

lemma scope_key_inj:
  assumes "getPddlDraftScopeKey a = getPddlDraftScopeKey b" "a \<noteq> Some PDDL_NO_DISTRIBUTOR_SCOPE" "b \<noteq> Some PDDL_NO_DISTRIBUTOR_SCOPE"
    and "a \<noteq> Some []" "b \<noteq> Some []"
  shows "a = b"
  using assms by (cases a; cases b) (auto simp: getPddlDraftScopeKey_def orS_def)

lemma other_keys [simp]:
  "getPddlDraftScopeKey a \<noteq> PDDL_LAST_DISTRIBUTOR_STORAGE_KEY" "PDDL_LAST_DISTRIBUTOR_STORAGE_KEY \<noteq> getPddlDraftScopeKey a"
  "getPddlDraftScopeKey a \<noteq> PDDL_DRAFT_STORAGE_KEY" "PDDL_DRAFT_STORAGE_KEY \<noteq> getPddlDraftScopeKey a"
  "PDDL_DRAFT_STORAGE_KEY \<noteq> PDDL_LAST_DISTRIBUTOR_STORAGE_KEY" "PDDL_LAST_DISTRIBUTOR_STORAGE_KEY \<noteq> PDDL_DRAFT_STORAGE_KEY"
  by (auto simp: getPddlDraftScopeKey_def PDDL_LAST_DISTRIBUTOR_STORAGE_KEY_def PDDL_DRAFT_STORAGE_KEY_def
      PDDL_SCOPED_DRAFT_STORAGE_PREFIX_def)

lemma read_write_same:
  "draft_ok (d\<lparr>dr_selectedDistributorId := a\<rparr>) \<Longrightarrow> readStoredDraft (writeStoredDraft a d st) a = Some (d\<lparr>dr_selectedDistributorId := a\<rparr>)"
  by (simp add: readStoredDraft_def writeStoredDraft_def Let_def parse_stringify)

lemma read_write_other:
  "getPddlDraftScopeKey a \<noteq> getPddlDraftScopeKey b \<Longrightarrow> readStoredDraft (writeStoredDraft a d st) b = readStoredDraft st b"
  by (simp add: readStoredDraft_def writeStoredDraft_def Let_def)

lemma apply_draft: "draft_ok d \<Longrightarrow> pg_draft (applyStoredDraft a (Some (as_partial d)) s) = d\<lparr>dr_selectedDistributorId := a\<rparr>"
  by (simp add: applyStoredDraft_def Let_def normalize_as_partial)

lemma current_distributor: "dr_selectedDistributorId (buildCurrentDraft s) = pg_distributor s"
  by (simp add: buildCurrentDraft_def)

lemma current_upd [simp]: "(buildCurrentDraft s)\<lparr>dr_selectedDistributorId := pg_distributor s\<rparr> = buildCurrentDraft s"
  by (simp add: buildCurrentDraft_def)

lemma applying_effects:
  assumes "pg_skipNextSelectionReset s" "pg_isApplyingScopedDraft s"
  shows "pg_draft (run_effects old s) = pg_draft s" "pg_storage (run_effects old s) = pg_storage s"
    "pg_knownAgents (run_effects old s) = pg_knownAgents s"
  using assms by (simp_all add: run_effects_def persistDraft_def selectionEffect_def Let_def)

lemma switch_facts:
  "pg_storage (switchDistributorScope b s) = writeStoredDraft (pg_distributor s) (buildCurrentDraft s) (pg_storage s)"
  "pg_skipNextSelectionReset (switchDistributorScope b s)" "pg_isApplyingScopedDraft (switchDistributorScope b s)"
  "pg_distributor (switchDistributorScope b s) = b"
  by (simp_all add: switchDistributorScope_def applyStoredDraft_def Let_def split: option.splits)

text \<open>C27. Switching to another task distributor and back brings back everything that was drafted for the first one:
  the effects in between neither reset nor overwrite it. Agents that are no longer known are dropped from the
  selection.\<close>

theorem scope_switch_roundtrip:
  assumes "draft_ok (buildCurrentDraft s)" "b \<noteq> pg_distributor s" "b \<noteq> Some []"
    and "pg_distributor s \<noteq> Some PDDL_NO_DISTRIBUTOR_SCOPE" "b \<noteq> Some PDDL_NO_DISTRIBUTOR_SCOPE"
    and "s1 = run_effects s (switchDistributorScope b s)"
    and "s2 = run_effects s1 (switchDistributorScope (pg_distributor s) s1)"
  shows "pg_draft s2 = buildCurrentDraft s"
proof -
  let ?a = "pg_distributor s" and ?d = "buildCurrentDraft s"
  have a: "?a \<noteq> Some []" using assms(1) by (simp add: draft_ok_def current_distributor)
  have keys: "getPddlDraftScopeKey b \<noteq> getPddlDraftScopeKey ?a" using scope_key_inj[of b ?a] assms(2-5) a by blast
  have s1: "pg_storage s1 = writeStoredDraft ?a ?d (pg_storage s)" "pg_distributor s1 = b"
    unfolding assms(6) using switch_facts[of b s] by (simp_all add: applying_effects)
  have "readStoredDraft (writeStoredDraft b (buildCurrentDraft s1) (pg_storage s1)) ?a = Some ?d"
    unfolding s1(1) using read_write_other[OF keys] read_write_same[where d = ?d and a = ?a and st = "pg_storage s"] assms(1) by simp
  then have "pg_draft (switchDistributorScope ?a s1) = ?d\<lparr>dr_selectedDistributorId := ?a\<rparr>"
    unfolding switchDistributorScope_def Let_def using s1(2) apply_draft[OF assms(1)] by simp
  then show ?thesis unfolding assms(7) using switch_facts[of ?a s1] by (simp add: applying_effects)
qed

text \<open>C32. Reloading the page restores what was last persisted, when a task distributor was selected: the drafted
  values of the new page are those of the old one.\<close>

theorem reload_restores_draft:
  assumes "draft_ok (buildCurrentDraft s)" "\<not> pg_isApplyingScopedDraft s" "pg_distributor s = Some d" "d \<noteq> []"
    and "pg_storage new = pg_storage (persistDraft s)"
  shows "pg_draft (restoreDraft new) = buildCurrentDraft s"
proof -
  let ?c = "buildCurrentDraft s" and ?st = "pg_storage new"
  have c: "dr_selectedDistributorId ?c = Some d" using assms(3) by (simp add: current_distributor)
  then have upd: "?c\<lparr>dr_selectedDistributorId := Some d\<rparr> = ?c" by simp
  have st: "?st = (writeStoredDraft (Some d) ?c ((pg_storage s)(PDDL_DRAFT_STORAGE_KEY \<mapsto> StoredDraft (stringify_draft ?c))))
      (PDDL_LAST_DISTRIBUTOR_STORAGE_KEY \<mapsto> StoredText d)"
    using assms(2-5) by (simp add: persistDraft_def Let_def)
  have "?st PDDL_DRAFT_STORAGE_KEY = Some (StoredDraft (stringify_draft ?c))"
      "?st (getPddlDraftScopeKey (Some d)) = Some (StoredDraft (stringify_draft ?c))"
      "?st PDDL_LAST_DISTRIBUTOR_STORAGE_KEY = Some (StoredText d)"
    unfolding st writeStoredDraft_def Let_def upd by simp_all
  then show ?thesis
    using assms(1,4) c apply_draft[OF assms(1)] upd
    by (simp add: restoreDraft_def Let_def parse_stringify stored_text_def readStoredDraft_def)
qed

text \<open>A page without a selected distributor is not restored: the key of the last distributor is never cleared, so
  after a reload the draft of the distributor that was left is applied instead of the one persisted last.\<close>

theorem none_scope_lost:
  assumes "pg_distributor s = None" "\<not> pg_isApplyingScopedDraft s"
    and "stored_text (pg_storage s) PDDL_LAST_DISTRIBUTOR_STORAGE_KEY = Some d" "d \<noteq> []" "d \<noteq> PDDL_NO_DISTRIBUTOR_SCOPE"
    and "readStoredDraft (pg_storage s) (Some d) = Some old" "draft_ok old" "dr_selectedDistributorId old = Some d"
    and "pg_storage new = pg_storage (persistDraft s)"
  shows "pg_draft (restoreDraft new) = old"
proof -
  let ?c = "buildCurrentDraft s" and ?st = "pg_storage new"
  have st: "?st = writeStoredDraft None ?c ((pg_storage s)(PDDL_DRAFT_STORAGE_KEY \<mapsto> StoredDraft (stringify_draft ?c)))"
    using assms(1,2,9) by (simp add: persistDraft_def Let_def)
  have key: "getPddlDraftScopeKey None \<noteq> getPddlDraftScopeKey (Some d)"
    using assms(4,5) by (simp add: getPddlDraftScopeKey_def PDDL_SCOPED_DRAFT_STORAGE_PREFIX_def)
  have "dr_selectedDistributorId (normalizePddlDraft (Some (stringify_draft ?c))) = None"
    using assms(1) current_distributor[of s] by (simp add: normalizePddlDraft_def stringify_draft_def Let_def orO_def)
  moreover have "?st PDDL_DRAFT_STORAGE_KEY = Some (StoredDraft (stringify_draft ?c))"
      "?st (getPddlDraftScopeKey None) \<noteq> None" "stored_text ?st PDDL_LAST_DISTRIBUTOR_STORAGE_KEY = Some d"
      "readStoredDraft ?st (Some d) = Some old"
    using assms(3,6) key unfolding st writeStoredDraft_def Let_def by (simp_all add: stored_text_def readStoredDraft_def)
  ultimately have "pg_draft (restoreDraft new) = old\<lparr>dr_selectedDistributorId := Some d\<rparr>"
    using assms(4,8) apply_draft[OF assms(7)] by (auto simp: restoreDraft_def Let_def)
  then show ?thesis using assms(8) by simp
qed

section \<open>Concrete pages\<close>

definition draft_for :: "string option \<Rightarrow> pddl_draft" where
  "draft_for a = (normalizePddlDraft None)\<lparr>dr_selectedDistributorId := a, dr_goalState := [(''docked'', ''true'')], dr_selectedAgentIds := [''r1'']\<rparr>"

definition page_for :: "string option \<Rightarrow> storage \<Rightarrow> pddl_page" where
  "page_for a st = \<lparr>pg_draft = draft_for a, pg_knownAgents = [''r1''], pg_execution = None, pg_realtimeExecutionMap = [],
     pg_resourceAllocations = [], pg_realtimeSession = None, pg_typeInstanceDrafts = [], pg_skipNextSelectionReset = False,
     pg_restoredSelectionKey = None, pg_isApplyingScopedDraft = False, pg_storage = st\<rparr>"

lemma page_for_current: "buildCurrentDraft (page_for a st) = draft_for a"
  by (simp add: buildCurrentDraft_def page_for_def resolvedSelectedAgentIds_def draft_for_def)

lemma draft_for_ok: "a \<noteq> Some [] \<Longrightarrow> draft_ok (draft_for a)"
  by (simp add: draft_ok_def draft_for_def normalizePddlDraft_def no_draft_def Let_def)

lemma page_for_sel [simp]: "pg_distributor (page_for a st) = a" "pg_isApplyingScopedDraft (page_for a st) = False" "pg_storage (page_for a st) = st"
  by (simp_all add: page_for_def draft_for_def)

theorem scope_switch_roundtrip_witness:
  "let s = page_for (Some ''d1'') Map.empty; s1 = run_effects s (switchDistributorScope None s)
   in dr_goalState (pg_draft (run_effects s1 (switchDistributorScope (Some ''d1'') s1))) = [(''docked'', ''true'')]"
proof -
  let ?s = "page_for (Some ''d1'') Map.empty"
  have "draft_ok (buildCurrentDraft ?s)" "None \<noteq> pg_distributor ?s" "None \<noteq> Some []"
      "pg_distributor ?s \<noteq> Some PDDL_NO_DISTRIBUTOR_SCOPE" "None \<noteq> Some PDDL_NO_DISTRIBUTOR_SCOPE"
    by (simp_all add: page_for_current draft_for_ok PDDL_NO_DISTRIBUTOR_SCOPE_def)
  from scope_switch_roundtrip[OF this refl refl] show ?thesis by (simp add: page_for_current draft_for_def Let_def)
qed

theorem reload_restores_draft_witness:
  "dr_goalState (pg_draft (restoreDraft (page_for None (pg_storage (persistDraft (page_for (Some ''d1'') Map.empty)))))) = [(''docked'', ''true'')]"
proof -
  let ?s = "page_for (Some ''d1'') Map.empty"
  have "draft_ok (buildCurrentDraft ?s)" "\<not> pg_isApplyingScopedDraft ?s" "pg_distributor ?s = Some ''d1''" "''d1'' \<noteq> []"
    by (simp_all add: page_for_current draft_for_ok)
  from reload_restores_draft[OF this, of "page_for None (pg_storage (persistDraft ?s))"]
  show ?thesis by (simp add: page_for_current draft_for_def)
qed

theorem none_scope_lost_witness:
  "dr_selectedDistributorId (pg_draft (restoreDraft (page_for None (pg_storage (persistDraft
      (page_for None (writeStoredDraft (Some ''d1'') (draft_for (Some ''d1'')) Map.empty))))))) = Some ''d1''"
proof -
  let ?st = "writeStoredDraft (Some ''d1'') (draft_for (Some ''d1'')) Map.empty"
  let ?s = "page_for None ?st" and ?old = "draft_for (Some ''d1'')"
  have upd: "?old\<lparr>dr_selectedDistributorId := Some ''d1''\<rparr> = ?old" by (simp add: draft_for_def)
  have "pg_distributor ?s = None" "\<not> pg_isApplyingScopedDraft ?s" by simp_all
  moreover have "stored_text (pg_storage ?s) PDDL_LAST_DISTRIBUTOR_STORAGE_KEY = Some ''d1''"
    by (simp add: stored_text_def writeStoredDraft_def Let_def)
  moreover have "''d1'' \<noteq> PDDL_NO_DISTRIBUTOR_SCOPE" "''d1'' \<noteq> []" by (simp_all add: PDDL_NO_DISTRIBUTOR_SCOPE_def)
  moreover have "readStoredDraft (pg_storage ?s) (Some ''d1'') = Some ?old"
    using read_write_same[where d = ?old and a = "Some ''d1''" and st = Map.empty] upd by (simp add: draft_for_ok)
  moreover have "draft_ok ?old" "dr_selectedDistributorId ?old = Some ''d1''" by (simp_all add: draft_for_ok) (simp add: draft_for_def)
  ultimately show ?thesis
    using none_scope_lost[of ?s "''d1''" ?old "page_for None (pg_storage (persistDraft ?s))"] by simp
qed

end
