(* ===== verification/Pddl_Timeline.thy ===== *)
theory Pddl_Timeline
  imports Fleet_Types
begin

text \<open>
  The task timeline of the planning page (\<^verbatim>\<open>pages/PDDL/index.tsx\<close>): the status of a task and how the statuses of
  its steps combine, the blocks of planned and of executed tasks per agent, and the row that merges
  both into a timeline with its previous, current and next task.
\<close>

section \<open>Status\<close>

datatype sequence_status = Pending | Running | Completed | Failed | Cancelled

fun sequenceStatusRank :: "sequence_status \<Rightarrow> nat" where
  "sequenceStatusRank Running = 5"
| "sequenceStatusRank Failed = 4"
| "sequenceStatusRank Cancelled = 3"
| "sequenceStatusRank Pending = 2"
| "sequenceStatusRank Completed = 1"

definition normalizeSequenceStatus :: "string option \<Rightarrow> sequence_status" where
  "normalizeSequenceStatus status =
     (let normalized = toLowerCase (orS status [])
      in if normalized = ''running'' then Running else if normalized = ''failed'' then Failed
         else if normalized = ''cancelled'' then Cancelled else if normalized = ''completed'' then Completed else Pending)"

definition mergeSequenceStatus :: "sequence_status \<Rightarrow> sequence_status \<Rightarrow> sequence_status" where
  "mergeSequenceStatus current next = (if sequenceStatusRank next > sequenceStatusRank current then next else current)"

text \<open>The rank is a linear order on the statuses.\<close>

lemma sequenceStatusRank_inj [simp]: "sequenceStatusRank a = sequenceStatusRank b \<longleftrightarrow> a = b"
  by (cases a; cases b) auto

instantiation sequence_status :: linorder
begin

definition less_eq_sequence_status :: "sequence_status \<Rightarrow> sequence_status \<Rightarrow> bool" where
  "less_eq_sequence_status a b = (sequenceStatusRank a \<le> sequenceStatusRank b)"

definition less_sequence_status :: "sequence_status \<Rightarrow> sequence_status \<Rightarrow> bool" where
  "less_sequence_status a b = (sequenceStatusRank a < sequenceStatusRank b)"

instance
  by standard (auto simp: less_eq_sequence_status_def less_sequence_status_def)

end

lemma merge_is_max: "mergeSequenceStatus a b = max a b"
  by (auto simp: mergeSequenceStatus_def max_def less_eq_sequence_status_def)

lemma completed_least [simp]: "Completed \<le> s"
  by (cases s) (simp_all add: less_eq_sequence_status_def)

definition appendUnique :: "string list option \<Rightarrow> string option \<Rightarrow> string list" where
  "appendUnique values v =
     (let xs = arr values; normalized = trim (orS v [])
      in if normalized = [] then xs else if normalized \<in> set xs then xs else xs @ [normalized])"

section \<open>Blocks\<close>

record task_block =
  tb_agentId :: string
  tb_taskId :: string
  tb_taskName :: string
  tb_behaviorTreeId :: "string option"
  tb_order :: int
  tb_status :: sequence_status
  tb_runtimeTaskId :: "string option"
  tb_currentStepId :: "string option"
  tb_currentStepName :: "string option"
  tb_completedStepIds :: "string list option"
  tb_failedStepIds :: "string list option"
  tb_completedStepCount :: "nat option"
  tb_totalStepCount :: "nat option"
  tb_error :: "string option"

definition by_order :: "task_block \<Rightarrow> task_block \<Rightarrow> int" where
  "by_order l r = tb_order l - tb_order r"

interpretation block_order: sort_order by_order
  by unfold_locales (auto simp: by_order_def)

subsection \<open>Planned tasks\<close>

definition assignment_task :: "step_assignment \<Rightarrow> string" where
  "assignment_task a =
     orS (Some (as_task_id a)) (orS (as_behavior_tree_id a) (orS (Some (as_task_name a)) (as_step_id a)))"

definition assignment_name :: "step_assignment \<Rightarrow> string" where
  "assignment_name a = orS (Some (as_task_name a)) (orS (Some (as_step_name a)) (assignment_task a))"

definition planned_block :: "step_assignment \<Rightarrow> task_block" where
  "planned_block a =
     \<lparr>tb_agentId = as_agent_id a, tb_taskId = assignment_task a, tb_taskName = assignment_name a,
      tb_behaviorTreeId = as_behavior_tree_id a, tb_order = as_order a, tb_status = Pending, tb_runtimeTaskId = None,
      tb_currentStepId = None, tb_currentStepName = None, tb_completedStepIds = None, tb_failedStepIds = None,
      tb_completedStepCount = None, tb_totalStepCount = None, tb_error = None\<rparr>"

definition add_assignment :: "step_assignment \<Rightarrow> task_block list \<Rightarrow> task_block list" where
  "add_assignment a bs =
     (if bs \<noteq> [] \<and> tb_taskId (last bs) = assignment_task a
      then butlast bs @ [(last bs)\<lparr>tb_order := min (tb_order (last bs)) (as_order a),
             tb_status := mergeSequenceStatus (tb_status (last bs)) Pending\<rparr>]
      else bs @ [planned_block a])"

definition planned_step ::
  "step_assignment \<Rightarrow> (string \<times> task_block list) list \<Rightarrow> (string \<times> task_block list) list" where
  "planned_step a grouped =
     (if as_agent_id a = [] \<or> assignment_task a = [] \<or> assignment_name a = [] then grouped
      else map_set (as_agent_id a) (add_assignment a (coalesce (map_of grouped (as_agent_id a)) [])) grouped)"

definition plannedTaskBlocksByAgent :: "step_assignment list \<Rightarrow> (string \<times> task_block list) list" where
  "plannedTaskBlocksByAgent assignments =
     map (\<lambda>(k, bs). (k, js_sort by_order bs)) (fold planned_step assignments [])"

text \<open>The assignments shown: those of the realtime session's last plan, or else those of the plan.\<close>

definition shown_assignments :: "realtime_session option \<Rightarrow> plan_result option \<Rightarrow> step_assignment list" where
  "shown_assignments session plan =
     (case Option.bind session rs_last_plan of
        Some p \<Rightarrow> pl_assignments p
      | None \<Rightarrow> (case plan of Some p \<Rightarrow> pl_assignments p | None \<Rightarrow> []))"

subsection \<open>Executed tasks\<close>

definition step_task :: "plan_execution_step \<Rightarrow> string" where
  "step_task s = orS (Some (xs_task_id s)) (orS (xs_behavior_tree_id s) (orS (xs_task_name s) (xs_step_id s)))"

definition step_task_name :: "plan_execution_step \<Rightarrow> string" where
  "step_task_name s = orS (xs_task_name s) (orS (Some (xs_step_name s)) (step_task s))"

definition step_status :: "plan_execution_step \<Rightarrow> sequence_status" where
  "step_status s = normalizeSequenceStatus (Some (xs_status s))"

definition execution_block :: "plan_execution_step \<Rightarrow> task_block" where
  "execution_block s =
     (let status = step_status s; failed = (status = Failed \<or> status = Cancelled)
      in \<lparr>tb_agentId = xs_agent_id s, tb_taskId = step_task s, tb_taskName = step_task_name s,
          tb_behaviorTreeId = xs_behavior_tree_id s, tb_order = xs_order s, tb_status = status,
          tb_runtimeTaskId = xs_runtime_task_id s,
          tb_currentStepId = (if status = Running then Some (xs_step_id s) else None),
          tb_currentStepName = (if status = Running then Some (orS (Some (xs_step_name s)) (xs_step_id s)) else None),
          tb_completedStepIds = Some (if status = Completed then [xs_step_id s] else []),
          tb_failedStepIds = Some (if failed then [xs_step_id s] else []),
          tb_completedStepCount = Some (if status = Completed then 1 else 0), tb_totalStepCount = Some 1,
          tb_error = (if failed then orO (xs_error s) None else None)\<rparr>)"

definition extend_block :: "plan_execution_step \<Rightarrow> task_block \<Rightarrow> task_block" where
  "extend_block s prev =
     (let status = step_status s; failed = (status = Failed \<or> status = Cancelled)
      in prev\<lparr>tb_order := min (tb_order prev) (xs_order s), tb_status := mergeSequenceStatus (tb_status prev) status,
              tb_runtimeTaskId := orO (tb_runtimeTaskId prev) (xs_runtime_task_id s),
              tb_behaviorTreeId := orO (tb_behaviorTreeId prev) (xs_behavior_tree_id s),
              tb_totalStepCount := Some (coalesce (tb_totalStepCount prev) 0 + 1),
              tb_completedStepIds := (if status = Completed then Some (appendUnique (tb_completedStepIds prev) (Some (xs_step_id s)))
                                      else tb_completedStepIds prev),
              tb_completedStepCount := (if status = Completed then Some (coalesce (tb_completedStepCount prev) 0 + 1)
                                        else tb_completedStepCount prev),
              tb_failedStepIds := (if failed then Some (appendUnique (tb_failedStepIds prev) (Some (xs_step_id s)))
                                   else tb_failedStepIds prev),
              tb_error := (if failed then orO (tb_error prev) (orO (xs_error s) None) else tb_error prev),
              tb_currentStepId := (if status = Running then Some (xs_step_id s) else tb_currentStepId prev),
              tb_currentStepName := (if status = Running then Some (orS (Some (xs_step_name s)) (xs_step_id s))
                                     else tb_currentStepName prev)\<rparr>)"

definition add_step :: "plan_execution_step \<Rightarrow> task_block list \<Rightarrow> task_block list" where
  "add_step s bs =
     (if bs \<noteq> [] \<and> tb_taskId (last bs) = step_task s then butlast bs @ [extend_block s (last bs)] else bs @ [execution_block s])"

definition shown_step :: "plan_execution_step \<Rightarrow> bool" where
  "shown_step s = (xs_agent_id s \<noteq> [] \<and> step_task s \<noteq> [] \<and> step_task_name s \<noteq> [])"

definition execution_step ::
  "plan_execution_step \<Rightarrow> (string \<times> task_block list) list \<Rightarrow> (string \<times> task_block list) list" where
  "execution_step s grouped =
     (if \<not> shown_step s then grouped
      else map_set (xs_agent_id s) (add_step s (coalesce (map_of grouped (xs_agent_id s)) [])) grouped)"

definition executionTaskBlocksByAgent :: "plan_execution_step list \<Rightarrow> (string \<times> task_block list) list" where
  "executionTaskBlocksByAgent steps =
     map (\<lambda>(k, bs). (k, js_sort by_order bs)) (fold execution_step steps [])"

section \<open>Rows\<close>

record task_row =
  tw_timeline :: "task_block list"
  tw_previous :: "task_block option"
  tw_current :: "task_block option"
  tw_next :: "task_block option"

text \<open>
  The merge of an executed block into a planned one of the same task: every key of the executed block
  overrides, then the listed fields.
\<close>

definition merge_blocks :: "task_block \<Rightarrow> task_block \<Rightarrow> task_block" where
  "merge_blocks existing task =
     task\<lparr>tb_order := min (tb_order existing) (tb_order task),
          tb_status := mergeSequenceStatus (tb_status existing) (tb_status task),
          tb_completedStepIds := (if tb_completedStepIds task = None then tb_completedStepIds existing else tb_completedStepIds task),
          tb_failedStepIds := (if tb_failedStepIds task = None then tb_failedStepIds existing else tb_failedStepIds task),
          tb_currentStepId := orO (tb_currentStepId task) (orO (tb_currentStepId existing) None),
          tb_currentStepName := orO (tb_currentStepName task) (orO (tb_currentStepName existing) None),
          tb_completedStepCount := (if tb_completedStepCount task = None then tb_completedStepCount existing else tb_completedStepCount task),
          tb_totalStepCount := (if tb_totalStepCount task = None then tb_totalStepCount existing else tb_totalStepCount task),
          tb_runtimeTaskId := orO (tb_runtimeTaskId task) (tb_runtimeTaskId existing),
          tb_error := orO (tb_error task) (orO (tb_error existing) None)\<rparr>"

definition merged_timeline :: "task_block list \<Rightarrow> task_block list \<Rightarrow> (string \<times> task_block) list" where
  "merged_timeline plannedTasks executionTasks =
     fold (\<lambda>t m. case map_of m (tb_taskId t) of
                   None \<Rightarrow> map_set (tb_taskId t) t m
                 | Some existing \<Rightarrow> map_set (tb_taskId t) (merge_blocks existing t) m) executionTasks
       (fold (\<lambda>t. map_set (tb_taskId t) t) plannedTasks [])"

fun findIndex :: "('a \<Rightarrow> bool) \<Rightarrow> 'a list \<Rightarrow> nat option" where
  "findIndex P [] = None"
| "findIndex P (x # xs) = (if P x then Some 0 else map_option Suc (findIndex P xs))"

definition realtimeTaskRow :: "task_block list \<Rightarrow> task_block list \<Rightarrow> task_row" where
  "realtimeTaskRow plannedTasks executionTasks =
     (let timeline = js_sort by_order (map snd (merged_timeline plannedTasks executionTasks));
          currentIndex = (case findIndex (\<lambda>t. tb_status t = Running) timeline of
                            Some i \<Rightarrow> Some i | None \<Rightarrow> findIndex (\<lambda>t. tb_status t = Pending) timeline)
      in case currentIndex of
           Some i \<Rightarrow>
             \<lparr>tw_timeline = timeline, tw_previous = (if i > 0 then Some (timeline ! (i - 1)) else None),
              tw_current = Some (timeline ! i),
              tw_next = (if i + 1 < length timeline then Some (timeline ! (i + 1)) else None)\<rparr>
         | None \<Rightarrow>
             \<lparr>tw_timeline = timeline, tw_previous = (if timeline = [] then None else Some (last timeline)),
              tw_current = None, tw_next = None\<rparr>)"

definition realtimeTaskRows ::
  "string list \<Rightarrow> step_assignment list \<Rightarrow> plan_execution_step list \<Rightarrow> (string \<times> task_row) list" where
  "realtimeTaskRows agentIds assignments steps =
     map (\<lambda>a. (a, realtimeTaskRow (coalesce (map_of (plannedTaskBlocksByAgent assignments) a) [])
                                  (coalesce (map_of (executionTaskBlocksByAgent steps) a) []))) agentIds"

section \<open>What the blocks account for\<close>

text \<open>Both groupings are one loop: the entries of a key are those of its own items, in their order.\<close>

lemma grouped_lookup:
  assumes "\<And>x m. step x m = (if ok x then map_set (key x) (add x (coalesce (map_of m (key x)) [])) m else m)"
  shows "map_of (fold step xs []) k =
     (let ys = filter (\<lambda>x. ok x \<and> key x = k) xs in if ys = [] then None else Some (fold add ys []))"
proof (induction xs rule: rev_induct)
  case (snoc x xs)
  then show ?case by (auto simp: assms update_conv Let_def)
qed simp

lemma map_of_map_snd: "map_of (map (\<lambda>(k, v). (k, f v)) m) k = map_option f (map_of m k)"
  by (induction m) auto

abbreviation agent_steps :: "string \<Rightarrow> plan_execution_step list \<Rightarrow> plan_execution_step list" where
  "agent_steps a steps \<equiv> filter (\<lambda>s. shown_step s \<and> xs_agent_id s = a) steps"

lemma execution_blocks_of:
  "map_of (executionTaskBlocksByAgent steps) a =
     (if agent_steps a steps = [] then None else Some (js_sort by_order (fold add_step (agent_steps a steps) [])))"
  unfolding executionTaskBlocksByAgent_def map_of_map_snd
  by (subst grouped_lookup[where ok = shown_step and key = xs_agent_id and add = add_step])
     (auto simp: execution_step_def Let_def)

definition total_of :: "task_block \<Rightarrow> nat" where
  "total_of b = coalesce (tb_totalStepCount b) 0"

definition completed_of :: "task_block \<Rightarrow> nat" where
  "completed_of b = coalesce (tb_completedStepCount b) 0"

text \<open>Every block: its counts, its status and the status of its step ids.\<close>

lemma block_counts [simp]:
  "total_of (execution_block s) = 1" "total_of (extend_block s b) = total_of b + 1"
  "completed_of (execution_block s) = (if step_status s = Completed then 1 else 0)"
  "completed_of (extend_block s b) = completed_of b + (if step_status s = Completed then 1 else 0)"
  "tb_status (execution_block s) = step_status s" "tb_status (extend_block s b) = max (tb_status b) (step_status s)"
  "tb_taskId (execution_block s) = step_task s" "tb_taskId (extend_block s b) = tb_taskId b"
  by (simp_all add: total_of_def completed_of_def execution_block_def extend_block_def Let_def merge_is_max)

lemma sum_add_step:
  "sum_list (map total_of (add_step s bs)) = sum_list (map total_of bs) + 1"
  "sum_list (map completed_of (add_step s bs)) = sum_list (map completed_of bs) + (if step_status s = Completed then 1 else 0)"
  "fold max (map tb_status (add_step s bs)) Completed = max (fold max (map tb_status bs) Completed) (step_status s)"
  "set (map tb_taskId (add_step s bs)) = insert (step_task s) (set (map tb_taskId bs))"
  by (cases bs rule: rev_cases; auto simp: add_step_def max.assoc max.commute max.left_commute)+

lemma add_step_nonempty [simp]: "add_step s bs \<noteq> []"
  by (simp add: add_step_def)

lemma fold_add_step:
  "sum_list (map total_of (fold add_step ss [])) = length ss"
  "sum_list (map completed_of (fold add_step ss [])) = length (filter (\<lambda>s. step_status s = Completed) ss)"
  "fold max (map tb_status (fold add_step ss [])) Completed = fold max (map step_status ss) Completed"
  "set (map tb_taskId (fold add_step ss [])) = step_task ` set ss"
proof -
  show "sum_list (map total_of (fold add_step ss [])) = length ss"
      "sum_list (map completed_of (fold add_step ss [])) = length (filter (\<lambda>s. step_status s = Completed) ss)"
    by (induction ss rule: rev_induct; simp add: sum_add_step)+
  show "fold max (map tb_status (fold add_step ss [])) Completed = fold max (map step_status ss) Completed"
    by (induction ss rule: rev_induct) (simp_all add: sum_add_step max.commute)
  show "set (map tb_taskId (fold add_step ss [])) = step_task ` set ss"
    by (induction ss rule: rev_induct) (simp_all add: sum_add_step(4)[simplified])
qed

lemma sum_list_permuted:
  fixes f :: "'a \<Rightarrow> nat"
  assumes "mset xs = mset ys"
  shows "sum_list (map f xs) = sum_list (map f ys)"
  using arg_cong[OF assms, of "\<lambda>M. sum_mset (image_mset f M)"] by (simp flip: sum_mset_sum_list)

lemma fold_max_mset:
  fixes xs ys :: "sequence_status list"
  shows "mset xs = mset ys \<Longrightarrow> fold max xs z = fold max ys z"
  by (rule fold_permuted_eq[where P = "\<lambda>_. True"]) (auto simp: max.left_commute)

text \<open>C29. The blocks shown for an agent account for its execution: their step counts add up to the steps of the agent,
  their completed counts to its completed steps, the highest status among them is the highest among the
  steps, they mention exactly the tasks of those steps, and they are in the order of the plan.\<close>

theorem execution_blocks_account:
  assumes "map_of (executionTaskBlocksByAgent steps) a = Some bs"
  shows "sum_list (map total_of bs) = length (agent_steps a steps)
    \<and> sum_list (map completed_of bs) = length (filter (\<lambda>s. step_status s = Completed) (agent_steps a steps))
    \<and> fold max (map tb_status bs) Completed = fold max (map step_status (agent_steps a steps)) Completed
    \<and> tb_taskId ` set bs = step_task ` set (agent_steps a steps)
    \<and> sorted (map tb_order bs)"
proof -
  let ?ss = "agent_steps a steps"
  from assms have bs: "bs = js_sort by_order (fold add_step ?ss [])"
    unfolding execution_blocks_of by (simp split: if_splits)
  then have m: "mset bs = mset (fold add_step ?ss [])" by simp
  have "sum_list (map f bs) = sum_list (map f (fold add_step ?ss []))" for f :: "task_block \<Rightarrow> nat"
    using m by (rule sum_list_permuted)
  moreover have "fold max (map tb_status bs) Completed = fold max (map tb_status (fold add_step ?ss [])) Completed"
    using m by (intro fold_max_mset) simp
  moreover have "tb_taskId ` set bs = step_task ` set ?ss"
    using fold_add_step(4)[of ?ss] unfolding mset_eq_setD[OF m] set_map .
  moreover have "sorted (map tb_order bs)"
    unfolding bs sorted_wrt_map by (rule sorted_wrt_mono_rel[OF _ block_order.sorted_js_sort]) (simp add: by_order_def)
  ultimately show ?thesis by (simp only: fold_add_step)
qed

definition exec_step :: "string \<Rightarrow> string \<Rightarrow> int \<Rightarrow> string \<Rightarrow> plan_execution_step" where
  "exec_step task step order status = \<lparr>xs_task_id = task, xs_task_name = None, xs_behavior_tree_id = None, xs_runtime_task_id = None,
     xs_step_id = step, xs_step_name = step, xs_agent_id = ''r1'', xs_agent_name = ''r1'', xs_order = order, xs_status = status,
     xs_started_at = None, xs_ended_at = None, xs_error = None\<rparr>"

theorem execution_blocks_account_witness:
  "\<exists>bs. map_of (executionTaskBlocksByAgent [exec_step ''t'' ''s1'' 1 ''completed'', exec_step ''t'' ''s2'' 2 ''running'']) ''r1'' = Some bs
     \<and> sum_list (map total_of bs) = 2"
proof -
  let ?steps = "[exec_step ''t'' ''s1'' 1 ''completed'', exec_step ''t'' ''s2'' 2 ''running'']"
  have a: "agent_steps ''r1'' ?steps = ?steps" by (simp add: shown_step_def exec_step_def step_task_def step_task_name_def)
  then obtain bs where bs: "map_of (executionTaskBlocksByAgent ?steps) ''r1'' = Some bs" unfolding execution_blocks_of by simp
  from execution_blocks_account[OF bs] a bs show ?thesis by auto
qed

section \<open>The row of an agent\<close>

lemma findIndex_Some:
  "findIndex P xs = Some i \<Longrightarrow> i < length xs \<and> P (xs ! i) \<and> (\<forall>j < i. \<not> P (xs ! j))"
  by (induction xs arbitrary: i) (auto split: if_splits simp: less_Suc_eq_0_disj nth_Cons')

lemma findIndex_None: "findIndex P xs = None \<longleftrightarrow> (\<forall>x \<in> set xs. \<not> P x)"
  by (induction xs) auto

lemma last_take: "0 < i \<Longrightarrow> i \<le> length xs \<Longrightarrow> last (take i xs) = xs ! (i - 1)"
  by (subst last_conv_nth) (auto simp: min_def)

text \<open>The row of an agent shows the right task as current: a running task if there is one, the first in order;
  otherwise the first pending one; and none only when every task has ended, the last of which is then shown
  as the previous one. The tasks before and after it are its neighbours in the timeline.\<close>

theorem row_current_task:
  "(let row = realtimeTaskRow plannedTasks executionTasks; tl = tw_timeline row
    in case tw_current row of
         None \<Rightarrow> list_all (\<lambda>t. tb_status t \<notin> {Running, Pending}) tl
                 \<and> tw_previous row = (if tl = [] then None else Some (last tl)) \<and> tw_next row = None
       | Some t \<Rightarrow> (\<exists>before after. tl = before @ t # after
             \<and> tb_status t = (if list_ex (\<lambda>u. tb_status u = Running) tl then Running else Pending)
             \<and> list_all (\<lambda>u. tb_status u \<noteq> tb_status t) before
             \<and> tw_previous row = (if before = [] then None else Some (last before))
             \<and> tw_next row = (if after = [] then None else Some (hd after))))"
proof -
  define tl where "tl = js_sort by_order (map snd (merged_timeline plannedTasks executionTasks))"
  define ix where "ix = (case findIndex (\<lambda>t. tb_status t = Running) tl of
                            Some i \<Rightarrow> Some i | None \<Rightarrow> findIndex (\<lambda>t. tb_status t = Pending) tl)"
  have row: "realtimeTaskRow plannedTasks executionTasks =
     (case ix of
        Some i \<Rightarrow> \<lparr>tw_timeline = tl, tw_previous = (if i > 0 then Some (tl ! (i - 1)) else None), tw_current = Some (tl ! i),
                   tw_next = (if i + 1 < length tl then Some (tl ! (i + 1)) else None)\<rparr>
      | None \<Rightarrow> \<lparr>tw_timeline = tl, tw_previous = (if tl = [] then None else Some (last tl)), tw_current = None, tw_next = None\<rparr>)"
    unfolding realtimeTaskRow_def Let_def tl_def ix_def ..
  show ?thesis
  proof (cases ix)
    case None
    then have "list_all (\<lambda>t. tb_status t \<notin> {Running, Pending}) tl"
      by (auto simp: ix_def findIndex_None list_all_iff split: option.splits)
    with None show ?thesis by (simp add: row)
  next
    case (Some i)
    let ?b = "take i tl" and ?a = "drop (Suc i) tl"
    have i: "i < length tl" "tb_status (tl ! i) = (if list_ex (\<lambda>u. tb_status u = Running) tl then Running else Pending)"
        "\<forall>j < i. tb_status (tl ! j) \<noteq> tb_status (tl ! i)"
      using Some findIndex_Some[of "\<lambda>t. tb_status t = Running" tl i] findIndex_Some[of "\<lambda>t. tb_status t = Pending" tl i]
        findIndex_None[of "\<lambda>t. tb_status t = Running" tl]
      by (auto simp: ix_def list_ex_iff split: option.splits)
    have "tl = ?b @ tl ! i # ?a" using i(1) by (rule id_take_nth_drop)
    moreover have "list_all (\<lambda>u. tb_status u \<noteq> tb_status (tl ! i)) ?b"
      using i(1,3) by (auto simp: list_all_iff in_set_conv_nth)
    moreover have "(if i > 0 then Some (tl ! (i - 1)) else None) = (if ?b = [] then None else Some (last ?b))"
      using i(1) last_take[of i tl] by auto
    moreover have "(if i + 1 < length tl then Some (tl ! (i + 1)) else None) = (if ?a = [] then None else Some (hd ?a))"
      by (simp add: hd_drop_conv_nth)
    ultimately show ?thesis unfolding row Some Let_def option.case task_row.simps using i(2) by blast
  qed
qed

lemma merged_timeline_snoc:
  "merged_timeline ps (es @ [t]) =
     map_set (tb_taskId t) (case map_of (merged_timeline ps es) (tb_taskId t) of None \<Rightarrow> t | Some x \<Rightarrow> merge_blocks x t)
       (merged_timeline ps es)"
  by (simp add: merged_timeline_def split: option.splits)

lemma merged_timeline_other:
  "k \<notin> tb_taskId ` set es \<Longrightarrow> map_of (merged_timeline ps es) k = map_of (merged_timeline ps []) k"
proof (induction es rule: rev_induct)
  case (snoc t es)
  then show ?case unfolding merged_timeline_snoc by (simp add: update_conv)
qed simp

lemma merged_timeline_planned:
  assumes "distinct (map tb_taskId ps)" "p \<in> set ps"
  shows "map_of (merged_timeline ps []) (tb_taskId p) = Some p"
proof -
  have "find (\<lambda>t. tb_taskId t = tb_taskId p) (rev ps) = Some p"
    using assms by (intro find_unique) (auto simp: distinct_map inj_on_def)
  then show ?thesis by (simp add: merged_timeline_def js_map.fold_set_get)
qed

lemma merged_timeline_executed:
  assumes "distinct (map tb_taskId ps)" "distinct (map tb_taskId es)" "p \<in> set ps" "e \<in> set es" "tb_taskId p = tb_taskId e"
  shows "map_of (merged_timeline ps es) (tb_taskId e) = Some (merge_blocks p e)"
  using assms(2,4)
proof (induction es rule: rev_induct)
  case (snoc t es)
  show ?case
  proof (cases "t = e")
    case True
    then have "map_of (merged_timeline ps es) (tb_taskId e) = Some p"
      using snoc.prems merged_timeline_other[of "tb_taskId e" es ps] merged_timeline_planned[OF assms(1,3)] assms(5) by simp
    with True show ?thesis unfolding merged_timeline_snoc by (simp add: update_conv)
  next
    case False
    with snoc.prems have "e \<in> set es" "distinct (map tb_taskId es)" "tb_taskId t \<noteq> tb_taskId e" by auto
    with snoc.IH show ?thesis unfolding merged_timeline_snoc by (simp add: update_conv)
  qed
qed simp

lemma merged_timeline_distinct: "distinct (map fst (merged_timeline ps es))"
proof (induction es rule: rev_induct)
  case Nil
  show ?case unfolding merged_timeline_def using js_map.fold_set_distinct[of "[]" tb_taskId id ps] by simp
next
  case (snoc t es)
  then show ?case unfolding merged_timeline_snoc by (simp add: distinct_update)
qed

text \<open>A task that is part of the plan shown is never shown as completed: when all its executed steps have completed,
  merging the executed block with the planned one yields a pending task, because pending outranks completed.\<close>

theorem completed_task_shown_pending:
  assumes "distinct (map tb_taskId plannedTasks)" "distinct (map tb_taskId executionTasks)"
    and "p \<in> set plannedTasks" "e \<in> set executionTasks" "tb_taskId p = tb_taskId e"
    and "tb_status p = Pending" "tb_status e = Completed"
  shows "\<exists>t \<in> set (tw_timeline (realtimeTaskRow plannedTasks executionTasks)). tb_taskId t = tb_taskId e \<and> tb_status t = Pending"
proof -
  let ?t = "merge_blocks p e"
  have "?t \<in> snd ` set (merged_timeline plannedTasks executionTasks)"
    using map_of_SomeD[OF merged_timeline_executed[OF assms(1-5)]] by force
  moreover have "tw_timeline (realtimeTaskRow plannedTasks executionTasks) =
      js_sort by_order (map snd (merged_timeline plannedTasks executionTasks))"
    by (simp add: realtimeTaskRow_def Let_def split: option.splits)
  moreover have "tb_taskId ?t = tb_taskId e" "tb_status ?t = Pending"
    using assms(6,7) by (simp_all add: merge_blocks_def mergeSequenceStatus_def)
  ultimately show ?thesis by force
qed

definition assigned :: "string \<Rightarrow> step_assignment" where
  "assigned task = \<lparr>as_task_id = task, as_task_name = task, as_behavior_tree_id = None, as_step_id = ''s1'', as_step_name = ''s1'',
     as_agent_id = ''r1'', as_agent_name = ''r1'', as_order = 1, as_reason = []\<rparr>"

theorem completed_task_shown_pending_witness:
  "\<exists>t \<in> set (tw_timeline (realtimeTaskRow [planned_block (assigned ''t'')]
        [execution_block (exec_step ''t'' ''s1'' 1 ''completed'')])). tb_taskId t = ''t'' \<and> tb_status t = Pending"
proof -
  let ?p = "planned_block (assigned ''t'')" and ?e = "execution_block (exec_step ''t'' ''s1'' 1 ''completed'')"
  have "tb_taskId ?p = ''t''" "tb_taskId ?e = ''t''"
    by (simp_all add: step_task_def exec_step_def planned_block_def assigned_def assignment_task_def)
  moreover have "tb_status ?p = Pending" "tb_status ?e = Completed" by code_simp+
  ultimately show ?thesis using completed_task_shown_pending[of "[?p]" "[?e]" ?p ?e] by simp
qed

end
