(* ===== verification/Pddl_Policies.thy ===== *)
theory Pddl_Policies
  imports Pddl_Resources
begin

text \<open>
  State templates and merge policies of a task distributor (\<^verbatim>\<open>pages/PDDL/index.tsx\<close>): the normalised list of
  policies, the expansion of a policy pattern over agents and resources, its translation to a regular
  expression and the states it matches, and the states created from a template. Regular expressions are
  read in the fragment the code produces: literals, escaped characters and \<open>.*\<close>.
\<close>

record agent_with_caps =
  ac_agent :: agent
  ac_capabilities :: "string list"
  ac_isOnline :: bool

record merge_preset =
  mpr_pattern :: string
  mpr_defaultPriority :: string
  mpr_titleKey :: string
  mpr_descriptionKey :: string

definition STATE_MERGE_POLICY_PRESETS :: "merge_preset list" where
  "STATE_MERGE_POLICY_PRESETS =
    [\<lparr>mpr_pattern = ''{{agent.name}}_status'', mpr_defaultPriority = ''live'',
      mpr_titleKey = ''pddl.mergePolicyAgentStatusTitle'', mpr_descriptionKey = ''pddl.mergePolicyAgentStatusDesc''\<rparr>,
     \<lparr>mpr_pattern = ''{{agent.name}}_mode'', mpr_defaultPriority = ''live'',
      mpr_titleKey = ''pddl.mergePolicyAgentModeTitle'', mpr_descriptionKey = ''pddl.mergePolicyAgentModeDesc''\<rparr>,
     \<lparr>mpr_pattern = ''{{agent.name}}_location'', mpr_defaultPriority = ''live'',
      mpr_titleKey = ''pddl.mergePolicyAgentLocationTitle'', mpr_descriptionKey = ''pddl.mergePolicyAgentLocationDesc''\<rparr>,
     \<lparr>mpr_pattern = ''{{agent.name}}_battery_*'', mpr_defaultPriority = ''live'',
      mpr_titleKey = ''pddl.mergePolicyAgentBatteryTitle'', mpr_descriptionKey = ''pddl.mergePolicyAgentBatteryDesc''\<rparr>,
     \<lparr>mpr_pattern = ''{{agent.name}}_*msg*'', mpr_defaultPriority = ''planner'',
      mpr_titleKey = ''pddl.mergePolicyAgentMsgTitle'', mpr_descriptionKey = ''pddl.mergePolicyAgentMsgDesc''\<rparr>,
     \<lparr>mpr_pattern = ''{{resource.name}}_status'', mpr_defaultPriority = ''live'',
      mpr_titleKey = ''pddl.mergePolicyResourceStatusTitle'', mpr_descriptionKey = ''pddl.mergePolicyResourceStatusDesc''\<rparr>,
     \<lparr>mpr_pattern = ''{{resource.name}}_location'', mpr_defaultPriority = ''live'',
      mpr_titleKey = ''pddl.mergePolicyResourceLocationTitle'', mpr_descriptionKey = ''pddl.mergePolicyResourceLocationDesc''\<rparr>,
     \<lparr>mpr_pattern = ''{{resource.name}}_reserved_by'', mpr_defaultPriority = ''planner'',
      mpr_titleKey = ''pddl.mergePolicyResourceReservedTitle'', mpr_descriptionKey = ''pddl.mergePolicyResourceReservedDesc''\<rparr>,
     \<lparr>mpr_pattern = ''{{resource.name}}_*msg*'', mpr_defaultPriority = ''planner'',
      mpr_titleKey = ''pddl.mergePolicyResourceMsgTitle'', mpr_descriptionKey = ''pddl.mergePolicyResourceMsgDesc''\<rparr>]"

definition preset_patterns :: "string list" where
  "preset_patterns = map mpr_pattern STATE_MERGE_POLICY_PRESETS"

section \<open>Policies\<close>

text \<open>The entries a list of policies puts into the map, and the map of presets and policies.\<close>

definition policy_entries :: "td_merge_policy list \<Rightarrow> (string \<times> string) list" where
  "policy_entries policies =
     List.map_filter (\<lambda>p. let pattern = map_option trim (mp_pattern p)
       in if truthy pattern then Some (the pattern, if mp_priority p = ''planner'' then ''planner'' else ''live'') else None) policies"

definition by_pattern :: "td_merge_policy list option \<Rightarrow> (string \<times> string) list" where
  "by_pattern policies =
     fold (\<lambda>e. map_set (fst e) (snd e))
       (map (\<lambda>p. (mpr_pattern p, mpr_defaultPriority p)) STATE_MERGE_POLICY_PRESETS @ policy_entries (arr policies)) []"

definition normalizeStateMergePolicies :: "td_merge_policy list option \<Rightarrow> td_merge_policy list" where
  "normalizeStateMergePolicies policies =
     (let byPattern = by_pattern policies;
          orderedPatterns = preset_patterns @ filter (\<lambda>p. p \<notin> set preset_patterns) (map fst byPattern)
      in List.map_filter (\<lambda>p. map_option (\<lambda>prio. \<lparr>mp_pattern = Some p, mp_priority = prio\<rparr>) (map_of byPattern p)) orderedPatterns)"

definition handleSetStateMergePriority :: "string \<Rightarrow> string \<Rightarrow> td_merge_policy list \<Rightarrow> td_merge_policy list" where
  "handleSetStateMergePriority pattern priority draft =
     map (\<lambda>p. if mp_pattern p = Some pattern then p\<lparr>mp_priority := priority\<rparr> else p) draft"

text \<open>The policies \<open>handleSaveStateMergePolicies\<close> sends.\<close>

definition handleSaveStateMergePolicies :: "td_merge_policy list \<Rightarrow> td_merge_policy list" where
  "handleSaveStateMergePolicies draft =
     map (\<lambda>p. p\<lparr>mp_priority := (if mp_priority p = ''planner'' then ''planner'' else ''live'')\<rparr>) (normalizeStateMergePolicies (Some draft))"

section \<open>Patterns\<close>

definition dashes_to_underscores :: "string \<Rightarrow> string" where
  "dashes_to_underscores = map (\<lambda>c. if c = CHR ''-'' then CHR ''_'' else c)"

definition collectStateMergeAgentTokens :: "agent_with_caps list \<Rightarrow> string list" where
  "collectStateMergeAgentTokens agents =
     uniq (concat (map (\<lambda>item.
       let i = trim (ag_id (ac_agent item)); name = trim (if ag_name (ac_agent item) = [] then i else ag_name (ac_agent item))
       in filter (\<lambda>s. s \<noteq> []) [name, i, dashes_to_underscores name, dashes_to_underscores i]) agents))"

definition collectStateMergeResourceTokens :: "td_resource list \<Rightarrow> string list" where
  "collectStateMergeResourceTokens resources =
     uniq (concat (map (\<lambda>r.
       let name = trim (tr_name r); i = trim (tr_id r)
       in filter (\<lambda>s. s \<noteq> []) [name, i, dashes_to_underscores name, dashes_to_underscores i]) resources))"

definition mentions :: "string \<Rightarrow> string \<Rightarrow> bool" where
  "mentions kind s =
     (str_includes s (''{{'' @ kind @ ''.name}}'') \<or> str_includes s (''{{'' @ kind @ ''.id}}'') \<or> str_includes s (''{{'' @ kind @ ''}}''))"

definition fill :: "string \<Rightarrow> string \<Rightarrow> string \<Rightarrow> string \<Rightarrow> string" where
  "fill kind name i s =
     substitute (''{{'' @ kind @ ''}}'') name (substitute (''{{'' @ kind @ ''.id}}'') i (substitute (''{{'' @ kind @ ''.name}}'') name s))"

definition buildStateMergePatternVariants ::
  "string \<Rightarrow> td_resource list \<Rightarrow> agent_with_caps list \<Rightarrow> string list" where
  "buildStateMergePatternVariants pattern resources agents =
     (if trim pattern = [] then []
      else
        let agentTokens = collectStateMergeAgentTokens agents;
            resourceTokens = collectStateMergeResourceTokens (filter isResourceInstance resources);
            v1 = (if mentions ''agent'' pattern
                  then concat (map (\<lambda>tok. map (fill ''agent'' tok tok) [trim pattern]) agentTokens) else [trim pattern]);
            v2 = (if mentions ''resource'' pattern
                  then concat (map (\<lambda>tok. map (fill ''resource'' tok tok) v1) resourceTokens) else v1)
        in if mentions ''agent'' pattern \<and> agentTokens = [] then []
           else if mentions ''resource'' pattern \<and> resourceTokens = [] then []
           else uniq (filter (\<lambda>s. s \<noteq> []) (map trim v2)))"

definition regex_special :: "char \<Rightarrow> bool" where
  "regex_special c = (c \<in> set ''.*+?^${}()|[]'' \<or> c = CHR 0x5C)"

definition escapeRegExp :: "string \<Rightarrow> string" where
  "escapeRegExp s = concat (map (\<lambda>c. if regex_special c then [CHR 0x5C, c] else [c]) s)"

text \<open>The source text of the expression, without its anchors.\<close>

definition patternVariantToRegex :: "string \<Rightarrow> string" where
  "patternVariantToRegex variant = substitute [CHR 0x5C, CHR ''*''] ''.*'' (escapeRegExp variant)"

datatype regex_item = Lit char | AnyStar

text \<open>Reading the source text: \<open>None\<close> outside the fragment.\<close>

fun compile_regex :: "string \<Rightarrow> regex_item list option" where
  "compile_regex [] = Some []"
| "compile_regex (c # cs) =
     (if c = CHR 0x5C then (case cs of [] \<Rightarrow> None | d # ds \<Rightarrow> map_option ((#) (Lit d)) (compile_regex ds))
      else if c = CHR ''.'' then (case cs of [] \<Rightarrow> None | d # ds \<Rightarrow> if d = CHR ''*'' then map_option ((#) AnyStar) (compile_regex ds) else None)
      else if regex_special c then None
      else map_option ((#) (Lit c)) (compile_regex cs))"

fun regex_test :: "regex_item list \<Rightarrow> string \<Rightarrow> bool" where
  "regex_test [] s = (s = [])"
| "regex_test (Lit c # r) [] = False"
| "regex_test (Lit c # r) (x # xs) = (x = c \<and> regex_test r xs)"
| "regex_test (AnyStar # r) [] = regex_test r []"
| "regex_test (AnyStar # r) (x # xs) = (regex_test r (x # xs) \<or> \<not> is_line_end x \<and> regex_test (AnyStar # r) xs)"

definition matchStateMergePolicyStates ::
  "string \<Rightarrow> td_state list \<Rightarrow> td_resource list \<Rightarrow> agent_with_caps list \<Rightarrow> td_state list" where
  "matchStateMergePolicyStates pattern states resources agents =
     (let variants = buildStateMergePatternVariants pattern resources agents
      in if variants = [] then []
         else let matchers = map (\<lambda>v. compile_regex (patternVariantToRegex v)) variants
              in filter (\<lambda>s. list_ex (\<lambda>m. case m of None \<Rightarrow> False | Some r \<Rightarrow> regex_test r (ts_name s)) matchers) states)"

record policy_row =
  row_preset :: merge_preset
  row_priority :: string
  row_matchedStates :: "td_state list"

definition stateMergePolicyRows ::
  "td_merge_policy list \<Rightarrow> td_state list \<Rightarrow> td_resource list \<Rightarrow> agent_with_caps list \<Rightarrow> policy_row list" where
  "stateMergePolicyRows policies stateVars resources agents =
     (let active = normalizeStateMergePolicies (Some policies)
      in map (\<lambda>preset.
           let prio = (case find (\<lambda>p. mp_pattern p = Some (mpr_pattern preset)) active of
                         None \<Rightarrow> mpr_defaultPriority preset | Some p \<Rightarrow> mp_priority p)
           in \<lparr>row_preset = preset, row_priority = (if prio = ''planner'' then ''planner'' else ''live''),
               row_matchedStates = matchStateMergePolicyStates (mpr_pattern preset) stateVars resources agents\<rparr>)
         STATE_MERGE_POLICY_PRESETS)"

section \<open>Templates\<close>

record named_agent =
  na_id :: string
  na_name :: string

definition unique_agents :: "named_agent list \<Rightarrow> named_agent list" where
  "unique_agents agents =
     map snd (fold (\<lambda>a. map_set (na_id a @ ''::'' @ na_name a) a)
       (filter (\<lambda>a. na_id a \<noteq> [] \<or> na_name a \<noteq> [])
         (map (\<lambda>a. \<lparr>na_id = trim (na_id a), na_name = orS (Some (trim (na_name a))) (trim (na_id a))\<rparr>) agents)) [])"

definition expandStateNameByTemplate :: "string \<Rightarrow> td_resource list \<Rightarrow> named_agent list \<Rightarrow> string list" where
  "expandStateNameByTemplate template resources agents =
     (let trimmed = trim template;
          hasResource = mentions ''resource'' trimmed; hasAgent = mentions ''agent'' trimmed;
          instances = filter isResourceInstance resources; uniqueAgents = unique_agents agents
      in if trimmed = [] then []
         else if \<not> hasResource \<and> \<not> hasAgent then [trimmed]
         else if hasResource \<and> instances = [] then []
         else
           let v1 = (if hasResource then concat (map (\<lambda>r. map (fill ''resource'' (tr_name r) (tr_id r)) [trimmed]) instances) else [trimmed])
           in if hasAgent \<and> uniqueAgents = [] then []
              else let v2 = (if hasAgent then concat (map (\<lambda>a. map (fill ''agent'' (na_name a) (na_id a)) v1) uniqueAgents) else v1)
                   in uniq (filter (\<lambda>n. n \<noteq> []) (map trim v2)))"

datatype add_state_result =
    AddNothing | NeedsResource | NeedsAgent | NothingToCreate | AllExist
  | CreateStates "(string \<times> string \<times> string option) list" nat  \<comment> \<open>name, type, initial value; skipped duplicates\<close>

definition handleAddState ::
  "td_resource list option \<Rightarrow> td_state list option \<Rightarrow> agent_with_caps list \<Rightarrow> string \<Rightarrow> string \<Rightarrow> string \<Rightarrow> add_state_result" where
  "handleAddState resources states agents newStateName newStateType newStateInitialValue =
     (let template = trim newStateName;
          expanded = expandStateNameByTemplate template (arr resources)
            (map (\<lambda>item. \<lparr>na_id = ag_id (ac_agent item), na_name = orS (Some (ag_name (ac_agent item))) (ag_id (ac_agent item))\<rparr>) agents);
          uniqueNames = uniq expanded;
          targetNames = filter (\<lambda>n. n \<notin> ts_name ` set (arr states)) uniqueNames;
          initial = (if newStateType = ''bool'' then Some (if newStateInitialValue = [] then ''false'' else newStateInitialValue)
                     else if newStateInitialValue = [] then None else Some newStateInitialValue)
      in if template = [] then AddNothing
         else if expanded = []
         then (if mentions ''resource'' template \<and> filter isResourceInstance (arr resources) = [] then NeedsResource
               else if mentions ''agent'' template \<and> agents = [] then NeedsAgent else NothingToCreate)
         else if targetNames = [] then AllExist
         else CreateStates (map (\<lambda>n. (n, newStateType, initial)) targetNames) (length uniqueNames - length targetNames))"

section \<open>Normalised policies\<close>

lemma preset_facts:
  "distinct preset_patterns" "list_all (\<lambda>p. p \<noteq> [] \<and> trim p = p) preset_patterns"
  "list_all (\<lambda>p. mpr_defaultPriority p \<in> {''live'', ''planner''}) STATE_MERGE_POLICY_PRESETS"
  by code_simp+

lemma alist_eqI: "map fst m = map fst n \<Longrightarrow> distinct (map fst m) \<Longrightarrow> map_of m = map_of n \<Longrightarrow> m = n"
proof (induction m arbitrary: n)
  case (Cons x m)
  then obtain y n' where n: "n = y # n'" "fst y = fst x" "map fst m = map fst n'" by (cases n) auto
  have "snd x = snd y" using Cons.prems(3) n by (metis map_of_Cons_code(2) option.inject prod.collapse)
  moreover have "map_of m = map_of n'"
  proof
    fix k
    show "map_of m k = map_of n' k"
    proof (cases "k = fst x")
      case True
      then have "k \<notin> set (map fst m)" using Cons.prems(2) by simp
      then show ?thesis using n(3) by (metis map_of_eq_None_iff set_map)
    next
      case False
      with n show ?thesis using fun_cong[OF Cons.prems(3), of k] by (cases x; cases y) auto
    qed
  qed
  ultimately show ?case using Cons n by (metis distinct.simps(2) list.simps(9) prod.expand)
qed simp

abbreviation preset_entries :: "(string \<times> string) list" where
  "preset_entries \<equiv> map (\<lambda>p. (mpr_pattern p, mpr_defaultPriority p)) STATE_MERGE_POLICY_PRESETS"

lemma by_pattern_keys:
  "map fst (by_pattern ps) = uniq (preset_patterns @ map fst (policy_entries (arr ps)))"
  using js_map.fold_set_keys_order[of "[]" fst snd "preset_entries @ policy_entries (arr ps)"]
  by (simp add: by_pattern_def preset_patterns_def comp_def)

lemma uniq_append_distinct: "distinct xs \<Longrightarrow> uniq (xs @ ys) = xs @ filter (\<lambda>y. y \<notin> set xs) (uniq ys)"
proof (induction ys rule: rev_induct)
  case (snoc y ys)
  then show ?case by (auto simp: uniq_def)
qed (simp add: uniq_distinct)

definition policy_of :: "string \<times> string \<Rightarrow> td_merge_policy" where
  "policy_of e = \<lparr>mp_pattern = Some (fst e), mp_priority = snd e\<rparr>"

lemma map_filter_entries:
  "distinct (map fst m) \<Longrightarrow>
   List.map_filter (\<lambda>p. map_option (\<lambda>prio. \<lparr>mp_pattern = Some p, mp_priority = prio\<rparr>) (map_of m p)) (map fst m) = map policy_of m"
proof -
  assume d: "distinct (map fst m)"
  then have "map_of m (fst e) = Some (snd e)" if "e \<in> set m" for e using that by simp
  then have "List.map_filter (\<lambda>e. map_option (\<lambda>prio. \<lparr>mp_pattern = Some (fst e), mp_priority = prio\<rparr>) (map_of m (fst e))) m = map policy_of m"
    by (simp add: map_filter_def policy_of_def cong: filter_cong)
  then show ?thesis by (simp add: map_filter_def filter_map comp_def)
qed

lemma normalized_policies_eq: "normalizeStateMergePolicies ps = map policy_of (by_pattern ps)"
proof -
  let ?m = "by_pattern ps"
  have d: "distinct (map fst ?m)" by (simp add: by_pattern_keys)
  have "preset_patterns @ filter (\<lambda>p. p \<notin> set preset_patterns) (map fst ?m) = map fst ?m"
    unfolding by_pattern_keys uniq_append_distinct[OF preset_facts(1)] by (simp add: filter_id_conv)
  then show ?thesis unfolding normalizeStateMergePolicies_def Let_def using map_filter_entries[OF d] by simp
qed

lemma policy_entries_facts:
  "e \<in> set (policy_entries ps) \<Longrightarrow> fst e \<noteq> [] \<and> trim (fst e) = fst e \<and> snd e \<in> {''live'', ''planner''}"
  by (auto simp: policy_entries_def map_filter_def Let_def truthy_def split: if_splits option.splits)

lemma by_pattern_get:
  "map_of (by_pattern ps) k =
     (case find (\<lambda>e. fst e = k) (rev (policy_entries (arr ps))) of
        Some e \<Rightarrow> Some (snd e) | None \<Rightarrow> map_option snd (find (\<lambda>e. fst e = k) (rev preset_entries)))"
  unfolding by_pattern_def js_map.fold_set_get by (simp add: find_append split: option.splits)

lemma by_pattern_entry: "e \<in> set (by_pattern ps) \<Longrightarrow> fst e \<noteq> [] \<and> trim (fst e) = fst e \<and> snd e \<in> {''live'', ''planner''}"
proof -
  assume e: "e \<in> set (by_pattern ps)"
  have "distinct (map fst (by_pattern ps))" by (simp add: by_pattern_keys)
  with e have "map_of (by_pattern ps) (fst e) = Some (snd e)" by simp
  then obtain f where f: "f \<in> set (policy_entries (arr ps)) \<or> f \<in> set preset_entries" "fst f = fst e" "snd f = snd e"
  proof (cases "find (\<lambda>f. fst f = fst e) (rev (policy_entries (arr ps)))")
    case None
    with \<open>map_of (by_pattern ps) (fst e) = Some (snd e)\<close>
    have "map_option snd (find (\<lambda>f. fst f = fst e) (rev preset_entries)) = Some (snd e)" unfolding by_pattern_get by simp
    then obtain f where f: "find (\<lambda>f. fst f = fst e) (rev preset_entries) = Some f" "snd f = snd e"
      unfolding map_option_eq_Some by blast
    from find_SomeD[OF f(1)] have "f \<in> set preset_entries" "fst f = fst e" unfolding set_rev by blast+
    with f(2) show ?thesis by (intro that[of f] disjI2)
  next
    case (Some f)
    with that[of f] \<open>map_of (by_pattern ps) (fst e) = Some (snd e)\<close> find_SomeD[OF Some] show ?thesis
      unfolding by_pattern_get by simp
  qed
  have "fst f \<noteq> [] \<and> trim (fst f) = fst f \<and> snd f \<in> {''live'', ''planner''}" if "f \<in> set preset_entries"
  proof -
    from that obtain q where q: "q \<in> set STATE_MERGE_POLICY_PRESETS" "f = (mpr_pattern q, mpr_defaultPriority q)"
      unfolding set_map by blast
    with preset_facts(2,3) show ?thesis unfolding preset_patterns_def list_all_iff set_map by simp
  qed
  with policy_entries_facts[of f "arr ps"] f(1)
  have "fst f \<noteq> [] \<and> trim (fst f) = fst f \<and> snd f \<in> {''live'', ''planner''}" by (elim disjE) simp_all
  then show ?thesis unfolding f(2,3) .
qed

lemma policy_entries_again: "policy_entries (map policy_of (by_pattern ps)) = by_pattern ps"
proof -
  have "policy_entries (map policy_of m) = m"
    if "\<And>e. e \<in> set m \<Longrightarrow> fst e \<noteq> [] \<and> trim (fst e) = fst e \<and> snd e \<in> {''live'', ''planner''}" for m
    using that
  proof (induction m)
    case (Cons e m)
    then have "policy_entries (map policy_of m) = m" by simp
    moreover have "policy_entries (policy_of e # ps) = e # policy_entries ps" for ps
      using Cons.prems[of e] by (cases e) (auto simp: policy_entries_def policy_of_def map_filter_simps Let_def)
    ultimately show ?case by simp
  qed (simp add: policy_entries_def map_filter_simps)
  then show ?thesis using by_pattern_entry by blast
qed

lemma policies_idem: "normalizeStateMergePolicies (Some (normalizeStateMergePolicies ps)) = normalizeStateMergePolicies ps"
proof -
  let ?m = "by_pattern ps"
  have again: "policy_entries (arr (Some (normalizeStateMergePolicies ps))) = ?m"
    by (simp add: normalized_policies_eq policy_entries_again)
  have "by_pattern (Some (normalizeStateMergePolicies ps)) = ?m"
  proof (rule alist_eqI)
    have "set preset_patterns \<subseteq> set (map fst ?m)" by (simp add: by_pattern_keys)
    then show "map fst (by_pattern (Some (normalizeStateMergePolicies ps))) = map fst ?m"
      unfolding by_pattern_keys[of "Some _"] again uniq_append_distinct[OF preset_facts(1)]
      by (simp add: by_pattern_keys uniq_append_distinct[OF preset_facts(1)] uniq_distinct filter_id_conv)
    show "distinct (map fst (by_pattern (Some (normalizeStateMergePolicies ps))))" by (simp add: by_pattern_keys)
    have "map_of (by_pattern (Some (normalizeStateMergePolicies ps))) k = map_of ?m k" for k
    proof (cases "find (\<lambda>e. fst e = k) (rev ?m)")
      case None
      then have "k \<notin> set (map fst ?m)" by (auto simp: find_None_iff)
      then have "k \<notin> set (map fst preset_entries)" by (simp add: by_pattern_keys preset_patterns_def comp_def)
      then have "find (\<lambda>e. fst e = k) (rev preset_entries) = None" by (auto simp: find_None_iff)
      moreover have "map_of ?m k = None" using \<open>k \<notin> set (map fst ?m)\<close> by (simp add: map_of_eq_None_iff)
      ultimately show ?thesis unfolding by_pattern_get[of "Some _"] again None by simp
    next
      case (Some e)
      from find_SomeD[OF Some] have "e \<in> set ?m" "fst e = k" by auto
      moreover have "distinct (map fst ?m)" by (simp add: by_pattern_keys)
      ultimately have "map_of ?m k = Some (snd e)" by auto
      with Some show ?thesis unfolding by_pattern_get[of "Some _"] again by simp
    qed
    then show "map_of (by_pattern (Some (normalizeStateMergePolicies ps))) = map_of ?m" by blast
  qed
  then show ?thesis by (simp add: normalized_policies_eq)
qed

text \<open>The priority a pattern ends up with: the last policy that names it, or else the preset.\<close>

definition effective_priority :: "td_merge_policy list \<Rightarrow> string \<Rightarrow> string option" where
  "effective_priority policies pattern =
     (case find (\<lambda>e. fst e = pattern) (rev (policy_entries policies)) of
        Some e \<Rightarrow> Some (snd e)
      | None \<Rightarrow> map_option snd (find (\<lambda>e. fst e = pattern) (rev preset_entries)))"

text \<open>Normalising the merge policies of a distributor gives every preset first and then the other patterns in the
  order they were first named, each once; the last policy for a pattern decides, a preset applies where there
  is none; and what is stored normalises to itself, so saving an unchanged list changes nothing.\<close>

theorem policies_normalized:
  "map mp_pattern (normalizeStateMergePolicies ps) =
     map Some (preset_patterns @ filter (\<lambda>p. p \<notin> set preset_patterns) (uniq (map fst (policy_entries (arr ps)))))
   \<and> list_all (\<lambda>p. Some (mp_priority p) = effective_priority (arr ps) (the (mp_pattern p))) (normalizeStateMergePolicies ps)
   \<and> handleSaveStateMergePolicies (normalizeStateMergePolicies ps) = normalizeStateMergePolicies ps"
proof (intro conjI)
  show "map mp_pattern (normalizeStateMergePolicies ps) =
     map Some (preset_patterns @ filter (\<lambda>p. p \<notin> set preset_patterns) (uniq (map fst (policy_entries (arr ps)))))"
    unfolding normalized_policies_eq uniq_append_distinct[OF preset_facts(1), symmetric] by_pattern_keys[symmetric]
    by (simp add: policy_of_def)
  have "map_of (by_pattern ps) (fst e) = Some (snd e)" if "e \<in> set (by_pattern ps)" for e
    using that by (simp add: by_pattern_keys)
  then show "list_all (\<lambda>p. Some (mp_priority p) = effective_priority (arr ps) (the (mp_pattern p))) (normalizeStateMergePolicies ps)"
    unfolding normalized_policies_eq effective_priority_def by_pattern_get[symmetric] by (simp add: list_all_iff policy_of_def)
  have "policy_of e\<lparr>mp_priority := if mp_priority (policy_of e) = ''planner'' then ''planner'' else ''live''\<rparr> = policy_of e"
    if "e \<in> set (by_pattern ps)" for e
    using by_pattern_entry[OF that] by (auto simp: policy_of_def)
  then show "handleSaveStateMergePolicies (normalizeStateMergePolicies ps) = normalizeStateMergePolicies ps"
    unfolding handleSaveStateMergePolicies_def policies_idem unfolding normalized_policies_eq by simp
qed

section \<open>Patterns as regular expressions\<close>

text \<open>The reading of a pattern its users have in mind: a star stands for any text of one line, every other
  character for itself.\<close>

inductive glob_match :: "string \<Rightarrow> string \<Rightarrow> bool" where
  glob_end: "glob_match [] []"
| glob_lit: "c \<noteq> CHR ''*'' \<Longrightarrow> glob_match v s \<Longrightarrow> glob_match (c # v) (c # s)"
| glob_star: "list_all (\<lambda>x. \<not> is_line_end x) g \<Longrightarrow> glob_match v s \<Longrightarrow> glob_match (CHR ''*'' # v) (g @ s)"

inductive_cases glob_NilE: "glob_match [] s"
inductive_cases glob_ConsE: "glob_match (c # v) s"

definition glob_items :: "string \<Rightarrow> regex_item list" where
  "glob_items v = map (\<lambda>c. if c = CHR ''*'' then AnyStar else Lit c) v"

lemma regex_star: "regex_test (AnyStar # r) s \<longleftrightarrow> (\<exists>g t. s = g @ t \<and> list_all (\<lambda>x. \<not> is_line_end x) g \<and> regex_test r t)"
proof (induction s)
  case (Cons x xs)
  show ?case
  proof
    assume "regex_test (AnyStar # r) (x # xs)"
    then consider "regex_test r (x # xs)" | "\<not> is_line_end x" "regex_test (AnyStar # r) xs" by auto
    then show "\<exists>g t. x # xs = g @ t \<and> list_all (\<lambda>x. \<not> is_line_end x) g \<and> regex_test r t"
    proof cases
      case 1
      show ?thesis by (rule exI[of _ "[]"]) (simp add: 1)
    next
      case 2
      with Cons.IH obtain g t where "xs = g @ t" "list_all (\<lambda>x. \<not> is_line_end x) g" "regex_test r t" by blast
      with 2(1) show ?thesis by (intro exI[of _ "x # g"] exI[of _ t]) simp
    qed
  next
    assume "\<exists>g t. x # xs = g @ t \<and> list_all (\<lambda>x. \<not> is_line_end x) g \<and> regex_test r t"
    then obtain g t where "x # xs = g @ t" "list_all (\<lambda>x. \<not> is_line_end x) g" "regex_test r t" by blast
    with Cons.IH show "regex_test (AnyStar # r) (x # xs)" by (cases g) auto
  qed
qed simp

lemma regex_glob: "regex_test (glob_items v) s \<longleftrightarrow> glob_match v s"
proof (induction v arbitrary: s)
  case Nil
  show ?case by (auto simp: glob_items_def intro: glob_end elim: glob_NilE)
next
  case (Cons c v)
  show ?case
  proof (cases "c = CHR ''*''")
    case True
    then have "regex_test (glob_items (c # v)) s \<longleftrightarrow> (\<exists>g t. s = g @ t \<and> list_all (\<lambda>x. \<not> is_line_end x) g \<and> glob_match v t)"
      using Cons.IH by (simp add: glob_items_def regex_star)
    with True show ?thesis by (auto intro: glob_star elim: glob_ConsE)
  next
    case False
    then have "regex_test (glob_items (c # v)) s \<longleftrightarrow> (\<exists>t. s = c # t \<and> glob_match v t)"
      using Cons.IH by (cases s) (auto simp: glob_items_def)
    with False show ?thesis by (auto intro: glob_lit elim: glob_ConsE)
  qed
qed

lemma join_split_go_acc: "js_join w (split_go pat acc s) = rev acc @ js_join w (split_go pat [] s)"
proof (induction s arbitrary: acc rule: length_induct)
  case (1 s)
  show ?case
  proof (cases "pat \<noteq> [] \<and> prefix pat s")
    case True
    then show ?thesis by (subst (1 2) split_go.simps) (simp add: js_join_Cons split_go_nonempty)
  next
    case False
    show ?thesis
    proof (cases s)
      case Nil
      with False show ?thesis by (subst (1 2) split_go.simps) simp
    next
      case (Cons c cs)
      then have "js_join w (split_go pat (c # acc) cs) = rev (c # acc) @ js_join w (split_go pat [] cs)"
          "js_join w (split_go pat [c] cs) = rev [c] @ js_join w (split_go pat [] cs)"
        using 1 by (metis length_Cons lessI)+
      with False Cons show ?thesis by (subst (1 2) split_go.simps) auto
    qed
  qed
qed

lemma substitute_rec:
  assumes "pat \<noteq> []"
  shows "substitute pat w [] = []"
    and "substitute pat w (c # cs) =
      (if prefix pat (c # cs) then w @ substitute pat w (drop (length pat) (c # cs)) else c # substitute pat w cs)"
proof -
  show "substitute pat w [] = []" using assms by (simp add: substitute_def js_split_def split_go.simps)
  show "substitute pat w (c # cs) =
      (if prefix pat (c # cs) then w @ substitute pat w (drop (length pat) (c # cs)) else c # substitute pat w cs)"
    using assms join_split_go_acc[of w pat "[c]" cs] unfolding substitute_def js_split_def
    by (subst split_go.simps) (auto simp: js_join_Cons split_go_nonempty)
qed

lemma escape_no_star: "escapeRegExp v \<noteq> CHR ''*'' # r"
  by (cases v) (auto simp: escapeRegExp_def regex_special_def)

lemma escape_Cons: "escapeRegExp (c # v) = (if regex_special c then CHR 0x5C # c # escapeRegExp v else c # escapeRegExp v)"
  by (simp add: escapeRegExp_def)

lemma variant_regex_Cons:
  "patternVariantToRegex (c # v) =
     (if c = CHR ''*'' then ''.*'' else if regex_special c then [CHR 0x5C, c] else [c]) @ patternVariantToRegex v"
proof -
  have np: "\<not> prefix [CHR 0x5C, CHR ''*''] (d # escapeRegExp v)" for d
    using escape_no_star[of v] by (auto simp: prefix_def)
  have special: "regex_special (CHR ''*'')" "regex_special (CHR 0x5C)" by code_simp+
  show ?thesis
    using np[of c] special by (auto simp: patternVariantToRegex_def escape_Cons substitute_rec)
qed

lemma compile_variant: "compile_regex (patternVariantToRegex v) = Some (glob_items v)"
proof (induction v)
  case Nil
  show ?case by (simp add: patternVariantToRegex_def escapeRegExp_def substitute_rec glob_items_def)
next
  case (Cons c v)
  have special: "regex_special (CHR ''*'')" "regex_special (CHR ''.'')" "regex_special (CHR 0x5C)" by code_simp+
  show ?case
    using Cons special by (cases "c = CHR ''*''"; cases "regex_special c") (auto simp: variant_regex_Cons glob_items_def)
qed

text \<open>C24. The regular expression built from a pattern variant means what the pattern says, whatever characters it
  contains: the states a policy matches are those whose name is a glob match of one of its variants.\<close>

theorem policy_pattern_semantics:
  "matchStateMergePolicyStates pattern states resources agents =
     filter (\<lambda>s. list_ex (\<lambda>v. glob_match v (ts_name s)) (buildStateMergePatternVariants pattern resources agents)) states"
  by (simp add: matchStateMergePolicyStates_def Let_def compile_variant regex_glob list_ex_iff)

section \<open>Expanding a template\<close>

text \<open>The fillings a template asks for: one per resource instance when it mentions resources, one per agent when
  it mentions agents.\<close>

definition resource_fillings :: "string \<Rightarrow> td_resource list \<Rightarrow> (string \<Rightarrow> string) set" where
  "resource_fillings t resources =
     (if mentions ''resource'' t then (\<lambda>r. fill ''resource'' (tr_name r) (tr_id r)) ` set (filter isResourceInstance resources) else {id})"

definition agent_fillings :: "string \<Rightarrow> named_agent list \<Rightarrow> (string \<Rightarrow> string) set" where
  "agent_fillings t agents =
     (if mentions ''agent'' t then (\<lambda>a. fill ''agent'' (na_name a) (na_id a)) ` set (unique_agents agents) else {id})"

text \<open>Expanding a state template creates one name for every combination of a resource instance and an agent it
  mentions, trimmed, never empty, each once; a template that mentions resources or agents where there are
  none creates nothing.\<close>

theorem expand_state_template:
  assumes "trim template \<noteq> []"
  shows "set (expandStateNameByTemplate template resources agents) =
     {n. n \<noteq> [] \<and> (\<exists>fr \<in> resource_fillings (trim template) resources. \<exists>fa \<in> agent_fillings (trim template) agents.
        n = trim (fa (fr (trim template))))}
   \<and> distinct (expandStateNameByTemplate template resources agents)"
  using assms
  by (auto simp: expandStateNameByTemplate_def Let_def resource_fillings_def agent_fillings_def filter_empty_conv)

definition agent_r1 :: named_agent where
  "agent_r1 = \<lparr>na_id = ''a1'', na_name = ''rover''\<rparr>"

theorem expand_state_template_witness:
  "distinct (expandStateNameByTemplate '' {{agent.name}}_at_{{resource}} '' [named_resource ''dock'' None None] [agent_r1, agent_r1])"
proof -
  have "trim '' {{agent.name}}_at_{{resource}} '' \<noteq> []" by code_simp
  from expand_state_template[OF this] show ?thesis by blast
qed

text \<open>Adding a state from a template creates only names that do not exist yet, each once, and together with the
  skipped ones they are the whole expansion; an empty expansion is reported with its reason and creates
  nothing.\<close>

theorem add_state_fresh:
  assumes "handleAddState resources states agents name ty initial = CreateStates rqs skipped"
  shows "distinct (map fst rqs) \<and> set (map fst rqs) \<inter> ts_name ` set (arr states) = {} \<and> rqs \<noteq> []
    \<and> length rqs + skipped = length (expandStateNameByTemplate (trim name) (arr resources)
        (map (\<lambda>item. \<lparr>na_id = ag_id (ac_agent item), na_name = orS (Some (ag_name (ac_agent item))) (ag_id (ac_agent item))\<rparr>) agents))"
proof -
  let ?e = "expandStateNameByTemplate (trim name) (arr resources)
        (map (\<lambda>item. \<lparr>na_id = ag_id (ac_agent item), na_name = orS (Some (ag_name (ac_agent item))) (ag_id (ac_agent item))\<rparr>) agents)"
  let ?new = "filter (\<lambda>n. n \<notin> ts_name ` set (arr states)) ?e"
  have "distinct ?e" by (simp add: expandStateNameByTemplate_def Let_def)
  then have u: "uniq ?e = ?e" by (rule uniq_distinct)
  have "map fst rqs = ?new" "?new \<noteq> []" "skipped = length ?e - length ?new"
    using assms unfolding handleAddState_def Let_def u by (auto simp: comp_def split: if_splits)
  moreover from this have "length rqs = length ?new" by (metis length_map)
  ultimately show ?thesis using \<open>distinct ?e\<close> by auto
qed

theorem add_state_fresh_witness:
  "distinct (map fst [(''dock_free'', ''bool'', Some ''false'')])
   \<and> handleAddState (Some [named_resource ''dock'' None None]) None [] ''{{resource}}_free'' ''bool'' [] =
       CreateStates [(''dock_free'', ''bool'', Some ''false'')] 0"
proof -
  have c: "handleAddState (Some [named_resource ''dock'' None None]) None [] ''{{resource}}_free'' ''bool'' [] =
     CreateStates [(''dock_free'', ''bool'', Some ''false'')] 0" by code_simp
  show ?thesis by (rule conjI[OF add_state_fresh[OF c, THEN conjunct1] c])
qed

end
