(* ===== verification/Pddl_Runtime.thy ===== *)
theory Pddl_Runtime
  imports Pddl_Policies
begin

text \<open>
  The run-time views of the planning page (\<^verbatim>\<open>pages/PDDL/index.tsx\<close>): the executions of a realtime session and the
  resources they hold, the newest snapshot of every agent, the dispatches and resources per agent, the
  planning state shown, and the agents recommended for the selected tasks. Answers of the server are arguments.
\<close>

section \<open>Executions and resources\<close>

definition realtimeActiveExecutionIds :: "realtime_session option \<Rightarrow> string list" where
  "realtimeActiveExecutionIds session =
     uniq (filter (\<lambda>i. i \<noteq> []) (arr (Option.bind session rs_active_execution_ids))
           @ (case Option.bind session rs_active_execution_id of None \<Rightarrow> [] | Some i \<Rightarrow> if i = [] then [] else [i]))"

definition ended :: "plan_execution \<Rightarrow> bool" where
  "ended exec = (toLowerCase (px_status exec) \<in> {''completed'', ''failed'', ''cancelled''})"

text \<open>A missing part of a key reads \<open>undefined\<close>.\<close>

definition resource_key :: "resource_allocation \<Rightarrow> string" where
  "resource_key a =
     (if ra_resource a \<noteq> [] then ra_resource a
      else js_join '':'' (map (\<lambda>v. coalesce v ''undefined'') [ra_holder_agent_id a, ra_task_id a, ra_step_id a]))"

definition merge_resources :: "resource_allocation list \<Rightarrow> resource_allocation list \<Rightarrow> resource_allocation list" where
  "merge_resources new merged =
     fold (\<lambda>a m. if resource_key a \<in> set (map resource_key m) then m else m @ [a]) new merged"

text \<open>The answers, in the order of the ids; \<open>None\<close> is a request that failed.\<close>

definition refreshRealtimeExecutions ::
  "(string \<times> plan_execution) option list \<Rightarrow> (string \<times> plan_execution) list \<times> resource_allocation list" where
  "refreshRealtimeExecutions fetched =
     (let running = filter (\<lambda>(i, e). \<not> ended e) (List.map_filter id fetched)
      in (fold (\<lambda>(i, e). map_set i e) running [],
          fold (\<lambda>(i, e). merge_resources (arr (px_resources e))) running []))"

definition realtimeExecutionSteps :: "string list \<Rightarrow> (string \<times> plan_execution) list \<Rightarrow> plan_execution_step list" where
  "realtimeExecutionSteps ids m = concat (map (\<lambda>i. case map_of m i of None \<Rightarrow> [] | Some e \<Rightarrow> px_steps e) ids)"

definition effectiveExecutionSteps ::
  "string option \<Rightarrow> plan_execution_step list \<Rightarrow> plan_execution option \<Rightarrow> plan_execution_step list" where
  "effectiveExecutionSteps sessionId realtimeSteps execution =
     (if truthy sessionId then realtimeSteps else case execution of None \<Rightarrow> [] | Some e \<Rightarrow> px_steps e)"

definition runtimeAgentIds ::
  "string list \<Rightarrow> plan_result option \<Rightarrow> plan_execution_step list \<Rightarrow> string list" where
  "runtimeAgentIds selectedAgentIds plan steps =
     uniq (selectedAgentIds
           @ filter (\<lambda>i. i \<noteq> []) (map as_agent_id (case plan of None \<Rightarrow> [] | Some p \<Rightarrow> pl_assignments p))
           @ filter (\<lambda>i. i \<noteq> []) (map xs_agent_id steps))"

section \<open>Snapshots\<close>

text \<open>\<open><\<close> on numbers; every comparison with \<open>NaN\<close> is false.\<close>

fun num_lt :: "jsnum \<Rightarrow> jsnum \<Rightarrow> bool" where
  "num_lt (Fin a) (Fin b) = (a < b)"
| "num_lt (Fin a) PosInf = True"
| "num_lt NegInf (Fin b) = True"
| "num_lt NegInf PosInf = True"
| "num_lt _ _ = False"

definition staleness :: "robot_snapshot \<Rightarrow> jsnum" where
  "staleness r = coalesce (rb_staleness_sec r) PosInf"

definition snapshot_agent :: "robot_snapshot \<Rightarrow> string option" where
  "snapshot_agent r = (let i = orO (rb_agent_id r) (rb_id r) in if truthy i then i else None)"

definition snapshot_step :: "robot_snapshot \<Rightarrow> (string \<times> robot_snapshot) list \<Rightarrow> (string \<times> robot_snapshot) list" where
  "snapshot_step runtime m =
     (case snapshot_agent runtime of
        None \<Rightarrow> m
      | Some agentId \<Rightarrow>
          (case map_of m agentId of
             None \<Rightarrow> map_set agentId runtime m
           | Some existing \<Rightarrow>
               let prefersCurrent = (rb_is_executing runtime = Some True \<and> rb_is_executing existing \<noteq> Some True);
                   fresher = num_lt (staleness runtime) (staleness existing)
               in if prefersCurrent \<or> fresher then map_set agentId runtime m else m))"

definition refreshRuntime :: "(string \<times> robot_snapshot) list \<Rightarrow> (string \<times> robot_snapshot) list" where
  "refreshRuntime robots = fold snapshot_step (map snd (obj_entries robots)) []"

definition resolveRuntimeStateLabel :: "robot_snapshot option \<Rightarrow> agent option \<Rightarrow> string" where
  "resolveRuntimeStateLabel runtime fallback =
     orS (Option.bind runtime rb_current_state) (orS (Option.bind runtime rb_state_code)
       (orS (Option.bind fallback ag_current_state_code) (orS (Option.bind fallback ag_current_state) ''idle'')))"

definition resolveRuntimeStepId :: "behavior_tree option \<Rightarrow> robot_snapshot option \<Rightarrow> string option" where
  "resolveRuntimeStepId graph runtime =
     (case (graph, runtime) of
        (Some g, Some r) \<Rightarrow>
          if \<not> truthy (rb_current_step_id r) then None
          else if truthy (rb_current_graph_id r) \<and> rb_current_graph_id r \<noteq> Some (bt_id g) then None
          else rb_current_step_id r
      | _ \<Rightarrow> None)"

section \<open>Views per agent\<close>

definition activeResourceAllocations :: "td_resource list \<Rightarrow> resource_allocation list \<Rightarrow> resource_allocation list" where
  "activeResourceAllocations aggregated allocations = filter (\<lambda>a. ra_resource a \<in> set (map tr_name aggregated)) allocations"

definition allocationMap :: "resource_allocation list \<Rightarrow> (string \<times> resource_allocation) list" where
  "allocationMap active = fold (\<lambda>a. map_set (ra_resource a) a) active []"

definition heldResourcesByAgent :: "resource_allocation list \<Rightarrow> (string \<times> resource_allocation list) list" where
  "heldResourcesByAgent active =
     fold (\<lambda>a m. fold (\<lambda>k m'. map_set k (coalesce (map_of m' k) [] @ [a]) m')
        (filter (\<lambda>k. k \<noteq> []) (List.map_filter id [ra_holder_agent_id a, ra_holder_agent_name a, ra_holder_agent a])) m) active []"

definition dispatch_rank :: "string \<Rightarrow> int" where
  "dispatch_rank status =
     (if status = ''running'' then 0 else if status = ''pending'' then 1 else if status = ''failed'' then 2
      else if status = ''completed'' then 3 else 4)"

definition dispatch_cmp :: "plan_execution_step \<Rightarrow> plan_execution_step \<Rightarrow> int" where
  "dispatch_cmp l r =
     (let byStatus = dispatch_rank (xs_status l) - dispatch_rank (xs_status r)
      in if byStatus \<noteq> 0 then byStatus else xs_order l - xs_order r)"

interpretation dispatch_order: sort_order dispatch_cmp
  by unfold_locales (auto simp: dispatch_cmp_def Let_def split: if_splits)

definition agentDispatchMap :: "plan_execution_step list \<Rightarrow> (string \<times> plan_execution_step list) list" where
  "agentDispatchMap steps =
     fold (\<lambda>d m. map_set (xs_agent_id d) (js_sort dispatch_cmp (coalesce (map_of m (xs_agent_id d)) [] @ [d])) m) steps []"

definition runtimePlanningState ::
  "td_state list \<Rightarrow> (string \<times> string) list \<Rightarrow> (string \<times> string) list option \<Rightarrow> (string \<times> string) list" where
  "runtimePlanningState stateVars initialState planningState =
     fold (\<lambda>(k, v). map_set k v)
       (List.map_filter (\<lambda>s. case ts_initial_value s of None \<Rightarrow> None | Some v \<Rightarrow> if v = [] then None else Some (ts_name s, v)) stateVars
        @ obj_entries initialState @ obj_entries (arr planningState)) []"

section \<open>Agents and tasks\<close>

definition requiredActionTypes :: "behavior_tree \<Rightarrow> string list" where
  "requiredActionTypes bt =
     (if arr (bt_required_action_types bt) \<noteq> [] then arr (bt_required_action_types bt)
      else uniq (filter (\<lambda>t. t \<noteq> [])
        (List.map_filter (\<lambda>s. Option.bind (gs_action s) sa_type) (arr (bt_steps bt)))))"

definition recommendedAgents :: "agent_with_caps list \<Rightarrow> behavior_tree list \<Rightarrow> agent_with_caps list" where
  "recommendedAgents agents selectedBTs =
     filter (\<lambda>a. ac_isOnline a \<and> length selectedBTs > 0
       \<and> list_ex (\<lambda>bt. requiredActionTypes bt = [] \<or> list_all (\<lambda>ty. ty \<in> set (ac_capabilities a)) (requiredActionTypes bt)) selectedBTs) agents"

definition agent_cmp ::
  "(string \<Rightarrow> string \<Rightarrow> int) \<Rightarrow> string list \<Rightarrow> string list \<Rightarrow> agent_with_caps \<Rightarrow> agent_with_caps \<Rightarrow> int" where
  "agent_cmp lc selected recommended a b =
     (let num = (\<lambda>c :: bool. if c then 1 else 0 :: int);
          aSelected = num (ag_id (ac_agent a) \<in> set selected); bSelected = num (ag_id (ac_agent b) \<in> set selected);
          aRec = num (ag_id (ac_agent a) \<in> set recommended); bRec = num (ag_id (ac_agent b) \<in> set recommended)
      in if aSelected \<noteq> bSelected then bSelected - aSelected
         else if aRec \<noteq> bRec then bRec - aRec
         else if ac_isOnline a \<noteq> ac_isOnline b then (if ac_isOnline a then - 1 else 1)
         else lc (ag_name (ac_agent a)) (ag_name (ac_agent b)))"

definition sortedAgents ::
  "(string \<Rightarrow> string \<Rightarrow> int) \<Rightarrow> string list \<Rightarrow> string list \<Rightarrow> agent_with_caps list \<Rightarrow> agent_with_caps list" where
  "sortedAgents lc selected recommended agents = js_sort (agent_cmp lc selected recommended) agents"

definition load_agents :: "agent list \<Rightarrow> (string \<times> string list) list \<Rightarrow> agent_with_caps list" where
  "load_agents agentList actionTypes =
     map (\<lambda>a. \<lparr>ac_agent = a, ac_capabilities = map fst (filter (\<lambda>(ty, ids). ag_id a \<in> set ids) actionTypes),
               ac_isOnline = (ag_status a = ''online'')\<rparr>) agentList"

text \<open>The agents after a poll: the new list, with the capabilities known before.\<close>

definition poll_agents :: "agent list \<Rightarrow> agent_with_caps list \<Rightarrow> agent_with_caps list" where
  "poll_agents agentList prev =
     map (\<lambda>a. \<lparr>ac_agent = a,
               ac_capabilities = (case find (\<lambda>x. ag_id (ac_agent x) = ag_id a) prev of None \<Rightarrow> [] | Some x \<Rightarrow> ac_capabilities x),
               ac_isOnline = (ag_status a = ''online'')\<rparr>) agentList"

definition toggleAgent :: "string \<Rightarrow> string list \<Rightarrow> string list \<Rightarrow> string list" where
  "toggleAgent i known prev =
     (let sanitized = uniq (filter (\<lambda>a. a \<in> set known) prev)
      in if i \<in> set sanitized then filter (\<lambda>a. a \<noteq> i) sanitized else sanitized @ [i])"

section \<open>Sorting as the items arrive\<close>

text \<open>Sorting after every push is the same as sorting once: insertions of elements that are not equal in the order
  commute, so the stable sort does not see that its input was sorted before.\<close>

context sort_order
begin

lemma insort_commute:
  "\<not> cmp a y \<le> 0 \<Longrightarrow> js_insort cmp y (js_insort cmp a zs) = js_insort cmp a (js_insort cmp y zs)"
proof (induction zs)
  case Nil
  then show ?case using total[of a y] by auto
next
  case (Cons z zs)
  have "cmp y z \<le> 0" if "cmp a z \<le> 0" using that Cons.prems total[of a y] trans[of y a z] by blast
  then show ?case using Cons total[of a y] by auto
qed

lemma foldr_insort: "foldr (js_insort cmp) (js_insort cmp a ys) acc = js_insort cmp a (foldr (js_insort cmp) ys acc)"
  by (induction ys) (auto intro: insort_commute)

lemma foldr_js_sort: "foldr (js_insort cmp) (js_sort cmp xs) acc = foldr (js_insort cmp) xs acc"
  by (induction xs) (simp_all add: foldr_insort)

lemma js_sort_again: "js_sort cmp (js_sort cmp xs @ ys) = js_sort cmp (xs @ ys)"
  by (simp add: js_sort_def[of cmp "_ @ ys"] foldr_js_sort)

end

lemma dispatch_lookup:
  "map_of (agentDispatchMap steps) a =
     (let ds = filter (\<lambda>d. xs_agent_id d = a) steps in if ds = [] then None else Some (js_sort dispatch_cmp ds))"
proof (induction steps rule: rev_induct)
  case (snoc d steps)
  then show ?case unfolding agentDispatchMap_def by (auto simp: update_conv Let_def dispatch_order.js_sort_again)
qed (simp add: agentDispatchMap_def)

text \<open>The dispatches listed for an agent are its steps, all of them and no others, running ones first, then pending,
  failed and completed ones, each group in the order of the plan and, within one order, in the order they
  were reported: sorting the list again after every step gives the stable sort of the whole.\<close>

theorem dispatches_sorted:
  assumes "map_of (agentDispatchMap steps) a = Some ds"
  shows "ds = js_sort dispatch_cmp (filter (\<lambda>d. xs_agent_id d = a) steps)
    \<and> mset ds = mset (filter (\<lambda>d. xs_agent_id d = a) steps)
    \<and> sorted_wrt (\<lambda>l r. dispatch_rank (xs_status l) < dispatch_rank (xs_status r)
         \<or> dispatch_rank (xs_status l) = dispatch_rank (xs_status r) \<and> xs_order l \<le> xs_order r) ds"
proof -
  from assms have ds: "ds = js_sort dispatch_cmp (filter (\<lambda>d. xs_agent_id d = a) steps)"
    unfolding dispatch_lookup by (simp add: Let_def split: if_splits)
  have "sorted_wrt (\<lambda>l r. dispatch_rank (xs_status l) < dispatch_rank (xs_status r)
         \<or> dispatch_rank (xs_status l) = dispatch_rank (xs_status r) \<and> xs_order l \<le> xs_order r) ds"
    unfolding ds by (rule sorted_wrt_mono_rel[OF _ dispatch_order.sorted_js_sort]) (auto simp: dispatch_cmp_def Let_def split: if_splits)
  with ds show ?thesis by simp
qed

definition dispatch :: "string \<Rightarrow> int \<Rightarrow> string \<Rightarrow> plan_execution_step" where
  "dispatch step order status = \<lparr>xs_task_id = ''t'', xs_task_name = None, xs_behavior_tree_id = None, xs_runtime_task_id = None,
     xs_step_id = step, xs_step_name = step, xs_agent_id = ''r1'', xs_agent_name = ''r1'', xs_order = order, xs_status = status,
     xs_started_at = None, xs_ended_at = None, xs_error = None\<rparr>"

theorem dispatches_sorted_witness:
  "js_sort dispatch_cmp [dispatch ''a'' 1 ''completed'', dispatch ''b'' 2 ''running''] = [dispatch ''b'' 2 ''running'', dispatch ''a'' 1 ''completed'']
   \<and> map_of (agentDispatchMap [dispatch ''a'' 1 ''completed'', dispatch ''b'' 2 ''running'']) ''r1'' =
       Some [dispatch ''b'' 2 ''running'', dispatch ''a'' 1 ''completed'']"
proof -
  let ?ds = "[dispatch ''a'' 1 ''completed'', dispatch ''b'' 2 ''running'']"
  obtain ds where ds: "map_of (agentDispatchMap ?ds) ''r1'' = Some ds" unfolding dispatch_lookup by (simp add: dispatch_def)
  have "js_sort dispatch_cmp ?ds = [dispatch ''b'' 2 ''running'', dispatch ''a'' 1 ''completed'']"
    by (simp add: dispatch_cmp_def dispatch_rank_def dispatch_def)
  with dispatches_sorted[OF ds] ds show ?thesis by (simp add: dispatch_def)
qed

section \<open>Resources of the running executions\<close>

lemma merge_resources_keys:
  "set (map resource_key (merge_resources new m)) = set (map resource_key m) \<union> resource_key ` set new"
  "distinct (map resource_key m) \<Longrightarrow> distinct (map resource_key (merge_resources new m))"
  "set (merge_resources new m) \<subseteq> set m \<union> set new"
proof -
  show "set (map resource_key (merge_resources new m)) = set (map resource_key m) \<union> resource_key ` set new"
    unfolding merge_resources_def by (induction new arbitrary: m) auto
  show "distinct (map resource_key m) \<Longrightarrow> distinct (map resource_key (merge_resources new m))"
    unfolding merge_resources_def by (induction new arbitrary: m) auto
  show "set (merge_resources new m) \<subseteq> set m \<union> set new"
    unfolding merge_resources_def
  proof (induction new arbitrary: m)
    case (Cons a new)
    show ?case using Cons[of m] Cons[of "m @ [a]"] by auto
  qed simp
qed

lemma fold_merge_resources:
  fixes running :: "(string \<times> plan_execution) list"
  defines "rs \<equiv> fold (\<lambda>(i, e). merge_resources (arr (px_resources e))) running []"
  shows "distinct (map resource_key rs)"
    and "resource_key ` set rs = resource_key ` (\<Union>(i, e) \<in> set running. set (arr (px_resources e)))"
    and "set rs \<subseteq> (\<Union>(i, e) \<in> set running. set (arr (px_resources e)))"
  unfolding rs_def
proof (induction running rule: rev_induct)
  case (snoc x xs)
  {
    case 1
    show ?case using snoc(1) by (cases x) (simp add: merge_resources_keys(2))
  next
    case 2
    show ?case using snoc(2) merge_resources_keys(1) by (cases x) (simp add: image_Un Un_commute)
  next
    case 3
    show ?case using snoc(3) merge_resources_keys(3) by (cases x) fastforce
  }
qed simp_all

text \<open>The resources shown for a realtime session are those its running executions hold: one entry per resource,
  every entry reported by an execution that has not ended, and every resource of such an execution shown.\<close>

theorem realtime_resources:
  "(let (executions, resources) = refreshRealtimeExecutions fetched;
        running = filter (\<lambda>(i, e). \<not> ended e) (List.map_filter id fetched)
    in distinct (map resource_key resources)
       \<and> set resources \<subseteq> (\<Union>(i, e) \<in> set running. set (arr (px_resources e)))
       \<and> resource_key ` set resources = resource_key ` (\<Union>(i, e) \<in> set running. set (arr (px_resources e)))
       \<and> set (map fst executions) = fst ` set running)"
proof -
  have "set (map fst (fold (\<lambda>(i, e). map_set i e) running [])) = fst ` set running" for running :: "(string \<times> plan_execution) list"
    using js_map.fold_set_keys[of fst snd running "[]"] by (simp add: case_prod_unfold)
  then show ?thesis
    unfolding refreshRealtimeExecutions_def Let_def prod.case by (intro conjI fold_merge_resources)
qed

section \<open>The snapshot of an agent\<close>

lemma num_lt_trans: "num_lt a b \<Longrightarrow> num_lt b c \<Longrightarrow> num_lt a c"
  by (cases a; cases b; cases c) auto

lemma num_lt_irrefl [simp]: "\<not> num_lt a a"
  by (cases a) auto

definition snapshots_of :: "string \<Rightarrow> robot_snapshot list \<Rightarrow> robot_snapshot list" where
  "snapshots_of a rs = filter (\<lambda>r. snapshot_agent r = Some a) rs"

lemma snapshot_other: "snapshot_agent r \<noteq> Some a \<Longrightarrow> map_of (snapshot_step r m) a = map_of m a"
  by (auto simp: snapshot_step_def update_conv Let_def split: option.splits)

lemma snapshot_same:
  "snapshot_agent r = Some a \<Longrightarrow>
   map_of (snapshot_step r m) a =
     (case map_of m a of None \<Rightarrow> Some r
      | Some x \<Rightarrow> if rb_is_executing r = Some True \<and> rb_is_executing x \<noteq> Some True \<or> num_lt (staleness r) (staleness x)
                  then Some r else Some x)"
  by (auto simp: snapshot_step_def update_conv Let_def split: option.splits)

text \<open>The chosen snapshot is one of the list, and a freshest one when the list agrees on executing.\<close>

definition freshest :: "robot_snapshot list \<Rightarrow> robot_snapshot \<Rightarrow> bool" where
  "freshest xs r = (r \<in> set xs \<and> (\<forall>e. list_all (\<lambda>x. rb_is_executing x = e) xs \<longrightarrow> list_all (\<lambda>x. \<not> num_lt (staleness x) (staleness r)) xs))"

lemma freshest_single: "freshest [r] r"
  by (simp add: freshest_def)

lemma freshest_step:
  assumes "freshest xs x"
  shows "freshest (xs @ [r])
     (if rb_is_executing r = Some True \<and> rb_is_executing x \<noteq> Some True \<or> num_lt (staleness r) (staleness x) then r else x)"
proof (cases "num_lt (staleness r) (staleness x)")
  case True
  have "list_all (\<lambda>y. \<not> num_lt (staleness y) (staleness r)) xs" if "list_all (\<lambda>x. rb_is_executing x = e) xs" for e
    using assms that True num_lt_trans[of _ "staleness r" "staleness x"] by (auto simp: freshest_def list_all_iff)
  with True show ?thesis by (simp add: freshest_def)
next
  case False
  from assms have x: "x \<in> set xs" by (simp add: freshest_def)
  show ?thesis
  proof (cases "rb_is_executing r = Some True \<and> rb_is_executing x \<noteq> Some True")
    case True
    with x have "\<not> list_all (\<lambda>x. rb_is_executing x = e) (xs @ [r])" for e by (auto simp: list_all_iff)
    with True show ?thesis by (simp add: freshest_def del: list_all_append)
  next
    case different: False
    with False assms x show ?thesis by (auto simp: freshest_def)
  qed
qed

lemma fold_snapshots:
  "case map_of (fold snapshot_step rs []) a of None \<Rightarrow> snapshots_of a rs = [] | Some r \<Rightarrow> freshest (snapshots_of a rs) r"
proof (induction rs rule: rev_induct)
  case (snoc r rs)
  show ?case
  proof (cases "snapshot_agent r = Some a")
    case False
    then have "snapshots_of a (rs @ [r]) = snapshots_of a rs" by (simp add: snapshots_of_def)
    with snoc False show ?thesis by (simp add: snapshot_other split: option.splits)
  next
    case True
    then have app: "snapshots_of a (rs @ [r]) = snapshots_of a rs @ [r]" by (simp add: snapshots_of_def)
    show ?thesis
    proof (cases "map_of (fold snapshot_step rs []) a")
      case None
      with snoc True app show ?thesis by (simp add: snapshot_same freshest_single)
    next
      case (Some x)
      with snoc have "freshest (snapshots_of a rs) x" by simp
      from freshest_step[OF this, of r] Some True app show ?thesis by (auto simp: snapshot_same split: if_splits)
    qed
  qed
qed (simp add: snapshots_of_def)

text \<open>The state shown for an agent is one of its own snapshots, an agent that reports any has one, and among snapshots
  that agree on whether the agent is executing it is one no other is fresher than.\<close>

theorem snapshot_choice:
  assumes "snapshots_of a (map snd robots) \<noteq> []"
    and "\<forall>x \<in> set (snapshots_of a (map snd robots)). rb_is_executing x = e"
  shows "\<exists>r \<in> set (snapshots_of a (map snd robots)). map_of (refreshRuntime robots) a = Some r
     \<and> (\<forall>x \<in> set (snapshots_of a (map snd robots)). \<not> num_lt (staleness x) (staleness r))"
proof -
  let ?rs = "map snd (obj_entries robots)"
  have s: "set (snapshots_of a ?rs) = set (snapshots_of a (map snd robots))" by (auto simp: snapshots_of_def)
  with assms(1) have "snapshots_of a ?rs \<noteq> []" by (metis set_empty)
  then obtain r where r: "map_of (refreshRuntime robots) a = Some r" "freshest (snapshots_of a ?rs) r"
    using fold_snapshots[of a ?rs] by (auto simp: refreshRuntime_def split: option.splits)
  have "list_all (\<lambda>x. rb_is_executing x = e) (snapshots_of a ?rs)" using assms(2) by (simp add: list_all_iff s)
  with r(2) have "r \<in> set (snapshots_of a (map snd robots))" "\<forall>x \<in> set (snapshots_of a (map snd robots)). \<not> num_lt (staleness x) (staleness r)"
    unfolding freshest_def list_all_iff s by blast+
  with r(1) show ?thesis by blast
qed

definition robot :: "string \<Rightarrow> rat \<Rightarrow> robot_snapshot" where
  "robot i t = \<lparr>rb_id = Some i, rb_name = None, rb_agent_id = Some ''r1'', rb_current_state = None, rb_state_code = None,
     rb_current_graph_id = None, rb_execution_phase = None, rb_semantic_tags = None, rb_is_online = None, rb_is_executing = None,
     rb_current_task_id = None, rb_current_step_id = None, rb_staleness_sec = Some (Fin t), rb_is_waiting_for_precondition = None,
     rb_waiting_for_precondition_since = None, rb_blocking_conditions = None, rb_precondition_timeout_sec = None,
     rb_agent_name = None, rb_state = None, rb_state_updated_at = None\<rparr>"

theorem snapshot_choice_witness:
  "\<exists>r. map_of (refreshRuntime [(''a'', robot ''a'' 3), (''b'', robot ''b'' 1)]) ''r1'' = Some r \<and> \<not> num_lt (Fin 1) (staleness r)"
proof -
  let ?rs = "[(''a'', robot ''a'' 3), (''b'', robot ''b'' 1)]"
  have f: "snapshots_of ''r1'' (map snd ?rs) = [robot ''a'' 3, robot ''b'' 1]"
    by (simp add: snapshots_of_def snapshot_agent_def robot_def Let_def)
  have "snapshots_of ''r1'' (map snd ?rs) \<noteq> []" "\<forall>x \<in> set (snapshots_of ''r1'' (map snd ?rs)). rb_is_executing x = None"
    unfolding f by (simp_all add: robot_def)
  from snapshot_choice[OF this] obtain r where "map_of (refreshRuntime ?rs) ''r1'' = Some r"
      "\<not> num_lt (staleness (robot ''b'' 1)) (staleness r)" unfolding f by auto
  then show ?thesis by (intro exI[of _ r]) (simp add: staleness_def robot_def)
qed

end
