(* ===== verification/Pddl_Profile.thy ===== *)
theory Pddl_Profile
  imports Pddl_Policies
begin

text \<open>
  Profiles of a task distributor (\<^verbatim>\<open>pages/PDDL/index.tsx\<close>): writing states, resources, merge policies and the selection of
  the page to a file, and loading such a file, which rebuilds the distributor on the server and binds the selected
  tasks to it.

  The server is an argument: \<open>newId k\<close> is the id it gives the \<open>k\<close>-th resource created by an import, \<open>ok\<close> says of
  every request whether it succeeds, and the distributor it returns after the import is passed in. Ids and names
  that a file may lack are options; a value of a state record is a string, as the page writes it.
\<close>

section \<open>The file\<close>

record profile_state =
  fs_name :: string
  fs_type :: "string option"
  fs_initial_value :: "string option"
  fs_description :: "string option"

record profile_resource =
  fr_id :: "string option"
  fr_name :: string
  fr_kind :: "string option"
  fr_parent_name :: "string option"
  fr_description :: "string option"

text \<open>A reference to a task or to an agent.\<close>

record profile_ref =
  ref_id :: "string option"
  ref_name :: "string option"

record profile_distributor =
  fd_id :: "string option"
  fd_name :: string
  fd_description :: "string option"

record profile_realtime =
  fl_tick_interval_sec :: "jsnum option"
  fl_goals :: "realtime_goal_rule list option"

record distributor_profile =
  fp_version :: nat
  fp_exported_at :: "string option"
  fp_distributor :: profile_distributor
  fp_states :: "profile_state list"
  fp_resources :: "profile_resource list"
  fp_state_merge_policies :: "td_merge_policy list option"
  fp_selected_tasks :: "profile_ref list option"
  fp_selected_agents :: "profile_ref list option"
  fp_initial_state :: "(string \<times> string) list option"
  fp_goal_state :: "(string \<times> string) list option"
  fp_realtime :: "profile_realtime option"

section \<open>Export\<close>

text \<open>\<open>resource.parent_resource_id ? resourceById.get(...)?.name : undefined\<close>.\<close>

definition parent_name :: "td_resource list \<Rightarrow> td_resource \<Rightarrow> string option" where
  "parent_name resources r =
     (if truthy (tr_parent_resource_id r)
      then map_option tr_name (resource_by_id resources (the (tr_parent_resource_id r))) else None)"

definition export_resource :: "td_resource list \<Rightarrow> td_resource \<Rightarrow> profile_resource" where
  "export_resource resources r =
     \<lparr>fr_id = None, fr_name = tr_name r, fr_kind = Some (orS (tr_kind r) ''instance''),
      fr_parent_name = parent_name resources r, fr_description = tr_description r\<rparr>"

definition handleExportDistributorProfile ::
  "string \<Rightarrow> behavior_tree list \<Rightarrow> agent_with_caps list \<Rightarrow> string list \<Rightarrow> (string \<times> string) list \<Rightarrow> (string \<times> string) list
   \<Rightarrow> jsnum \<Rightarrow> realtime_goal_rule list \<Rightarrow> task_distributor \<Rightarrow> distributor_profile" where
  "handleExportDistributorProfile now selectedBTs agents selectedAgentIds initialState goalState tick goals d =
     \<lparr>fp_version = 1, fp_exported_at = Some now,
      fp_distributor = \<lparr>fd_id = Some (td_id d), fd_name = td_name d, fd_description = td_description d\<rparr>,
      fp_states = map (\<lambda>s. \<lparr>fs_name = ts_name s, fs_type = Some (ts_type s), fs_initial_value = ts_initial_value s,
                            fs_description = ts_description s\<rparr>) (arr (td_states d)),
      fp_resources = map (export_resource (arr (td_resources d))) (arr (td_resources d)),
      fp_state_merge_policies = Some (normalizeStateMergePolicies (td_state_merge_policies d)),
      fp_selected_tasks = Some (map (\<lambda>bt. \<lparr>ref_id = Some (bt_id bt), ref_name = Some (bt_name bt)\<rparr>) selectedBTs),
      fp_selected_agents = Some (map (\<lambda>a. \<lparr>ref_id = Some (ag_id a), ref_name = Some (ag_name a)\<rparr>)
        (List.map_filter (\<lambda>i. map_option ac_agent (find (\<lambda>item. ag_id (ac_agent item) = i) agents)) selectedAgentIds)),
      fp_initial_state = Some initialState, fp_goal_state = Some goalState,
      fp_realtime = Some \<lparr>fl_tick_interval_sec = Some tick, fl_goals = Some goals\<rparr>\<rparr>"

section \<open>Rebuilding the distributor\<close>

text \<open>\<open>v?.trim() || undefined\<close>.\<close>

definition trimmed_or_undefined :: "string option \<Rightarrow> string option" where
  "trimmed_or_undefined v = orO (map_option trim v) None"

datatype profile_request =
    CreateDistributor string "string option"
  | UpdateDistributor string string "string option"
  | DeleteState string string
  | DeleteResource string string
  | CreateState string string "string option" "string option"
  | NewResource resource_request
  | UpdatePolicies string "td_merge_policy list"

definition state_requests :: "profile_state list \<Rightarrow> profile_request list" where
  "state_requests states =
     map (\<lambda>s. CreateState (trim (fs_name s)) (trim (orS (fs_type s) ''string'')) (fs_initial_value s)
                (trimmed_or_undefined (fs_description s)))
       (filter (\<lambda>s. trim (fs_name s) \<noteq> []) states)"

definition normalize_resource :: "profile_resource \<Rightarrow> profile_resource" where
  "normalize_resource r =
     \<lparr>fr_id = map_option trim (fr_id r), fr_name = trim (fr_name r),
      fr_kind = Some (toLowerCase (trim (orS (fr_kind r) ''instance''))),
      fr_parent_name = map_option trim (fr_parent_name r), fr_description = map_option trim (fr_description r)\<rparr>"

definition profile_resources :: "profile_resource list \<Rightarrow> profile_resource list" where
  "profile_resources resources = map normalize_resource (filter (\<lambda>r. trim (fr_name r) \<noteq> []) resources)"

abbreviation type_kind :: "profile_resource \<Rightarrow> bool" where
  "type_kind r \<equiv> fr_kind r = Some ''type''"

text \<open>The requests sent so far and \<open>typeResourceByName\<close>.\<close>

type_synonym rebuild = "resource_request list \<times> (string \<times> string) list"

definition create_type :: "(nat \<Rightarrow> string) \<Rightarrow> profile_resource \<Rightarrow> rebuild \<Rightarrow> rebuild" where
  "create_type newId r acc =
     (case acc of (rqs, byName) \<Rightarrow>
        (rqs @ [CreateResource (fr_name r) ''type'' None (orO (fr_description r) None)],
         map_set (fr_name r) (newId (length rqs)) byName))"

definition create_instance :: "(nat \<Rightarrow> string) \<Rightarrow> profile_resource \<Rightarrow> rebuild \<Rightarrow> rebuild" where
  "create_instance newId r acc =
     (case acc of (rqs, byName) \<Rightarrow>
        let parentName = orS (fr_parent_name r) [];
            instance_of = (\<lambda>parent rs. rs @ [CreateResource (fr_name r) ''instance'' parent (orO (fr_description r) None)])
        in if parentName = [] then (instance_of None rqs, byName)
           else if truthy (map_of byName parentName) then (instance_of (map_of byName parentName) rqs, byName)
           else (instance_of (Some (newId (length rqs))) (rqs @ [CreateResource parentName ''type'' None None]),
                 map_set parentName (newId (length rqs)) byName))"

definition rebuild_resources :: "(nat \<Rightarrow> string) \<Rightarrow> profile_resource list \<Rightarrow> rebuild" where
  "rebuild_resources newId resources =
     (let rs = profile_resources resources
      in fold (create_instance newId) (filter (\<lambda>r. \<not> type_kind r) rs)
           (fold (create_type newId) (filter type_kind rs) ([], [])))"

text \<open>The distributor a profile is loaded into: the one with its id, or the one with its name.\<close>

definition profile_target :: "task_distributor list \<Rightarrow> profile_distributor \<Rightarrow> task_distributor option" where
  "profile_target distributors d =
     (case (if truthy (fd_id d) then find (\<lambda>item. Some (td_id item) = fd_id d) distributors else None) of
        Some t \<Rightarrow> Some t
      | None \<Rightarrow> find (\<lambda>item. td_name item = trim (fd_name d)) distributors)"

text \<open>The requests in the order they are sent; those of one group are sent together. \<open>current\<close> is the distributor
  as the server returns it after the first request.\<close>

definition profile_requests ::
  "(nat \<Rightarrow> string) \<Rightarrow> task_distributor list \<Rightarrow> task_distributor \<Rightarrow> distributor_profile \<Rightarrow> profile_request list list" where
  "profile_requests newId distributors current p =
     (let name = trim (fd_name (fp_distributor p)); desc = trimmed_or_undefined (fd_description (fp_distributor p)); i = td_id current
      in [case profile_target distributors (fp_distributor p) of
            None \<Rightarrow> CreateDistributor name desc | Some d \<Rightarrow> UpdateDistributor (td_id d) name desc]
         # map (\<lambda>s. DeleteState i (ts_id s)) (arr (td_states current))
         # map (\<lambda>r. DeleteResource i (tr_id r)) (arr (td_resources current))
         # map (\<lambda>r. [r]) (state_requests (fp_states p)
             @ map NewResource (fst (rebuild_resources newId (fp_resources p)))
             @ [UpdatePolicies i (normalizeStateMergePolicies (Some (arr (fp_state_merge_policies p))))]))"

fun send_groups :: "('r \<Rightarrow> bool) \<Rightarrow> 'r list list \<Rightarrow> 'r list \<times> bool" where
  "send_groups ok [] = ([], True)"
| "send_groups ok (g # gs) =
     (if list_all ok g then (let (sent, fine) = send_groups ok gs in (g @ sent, fine)) else (g, False))"

section \<open>Binding tasks, agents and goals\<close>

definition server_alias :: "td_resource \<Rightarrow> (string \<times> string) list \<Rightarrow> (string \<times> string) list" where
  "server_alias r m = (if isResourceType r then map_set (tr_name r) (tr_id r) (map_set (tr_id r) (tr_id r) m) else m)"

definition file_alias :: "(string \<times> string) list \<Rightarrow> profile_resource \<Rightarrow> (string \<times> string) list \<Rightarrow> (string \<times> string) list" where
  "file_alias byName r m =
     (let createdID = orS (map_of byName (fr_name r)) []; m1 = map_set (fr_name r) createdID m
      in if createdID = [] then m
         else if truthy (fr_id r) then map_set (the (fr_id r)) createdID m1 else m1)"

definition resourceTypeIdByAlias ::
  "td_resource list \<Rightarrow> profile_resource list \<Rightarrow> (string \<times> string) list \<Rightarrow> (string \<times> string) list" where
  "resourceTypeIdByAlias full types byName = fold (file_alias byName) types (fold server_alias full [])"

text \<open>A reference is resolved by id, else by name; \<open>known\<close> lists ids and names.\<close>

definition resolve_ref :: "(string \<times> string) list \<Rightarrow> profile_ref \<Rightarrow> string option" where
  "resolve_ref known r =
     (if truthy (ref_id r) \<and> the (ref_id r) \<in> set (map fst known) then ref_id r
      else if truthy (ref_name r) then map_option fst (find (\<lambda>(i, n). Some n = ref_name r) known) else None)"

definition resolve_refs :: "(string \<times> string) list \<Rightarrow> profile_ref list option \<Rightarrow> string list" where
  "resolve_refs known refs = uniq (filter (\<lambda>i. i \<noteq> []) (List.map_filter (resolve_ref known) (arr refs)))"

definition resource_token :: "td_resource \<Rightarrow> string" where
  "resource_token r = (if isResourceType r then ''type'' else ''instance'') @ '':'' @ tr_id r"

definition remap_token :: "td_resource list \<Rightarrow> td_resource list \<Rightarrow> string \<Rightarrow> string" where
  "remap_token oldResources newResources token =
     (let t = trim token
      in if t = [] then []
         else if t \<in> set (map resource_token newResources) then t
         else let parts = js_split '':'' t; prefix = hd parts; value = (if length parts > 1 then parts ! 1 else []);
                  resourceKind = (if prefix = ''instance'' then ''instance'' else ''type'');
                  legacyName = map_of (fold (\<lambda>r. map_set (resource_token r) (tr_name r)) oldResources []) t;
                  fallbackName = (if value \<noteq> [] \<and> \<not> str_includes value ''-'' then value else []);
                  targetName = orS legacyName fallbackName
              in if targetName = [] then []
                 else case find (\<lambda>r. tr_kind r = Some resourceKind \<and> tr_name r = targetName) newResources of
                        None \<Rightarrow> [] | Some m \<Rightarrow> resourceKind @ '':'' @ tr_id m)"

definition remap_required :: "td_resource list \<Rightarrow> td_resource list \<Rightarrow> string list option \<Rightarrow> string list" where
  "remap_required oldResources newResources tokens =
     uniq (filter (\<lambda>t. t \<noteq> []) (map (remap_token oldResources newResources) (arr tokens)))"

text \<open>The update of a selected task: \<open>cached\<close> gives the distributor a task was bound to (\<open>None\<close>: it cannot be read, and
  the task is not updated).\<close>

definition bind_task ::
  "string \<Rightarrow> td_resource list \<Rightarrow> (string \<Rightarrow> task_distributor option) \<Rightarrow> behavior_tree \<Rightarrow> (string \<times> string \<times> planning_task_spec option) option" where
  "bind_task distributorId newResources cached tree =
     (let original = orS (bt_task_distributor_id tree) [];
          oldResources = (if original \<noteq> [] \<and> original \<noteq> distributorId
                          then map_option (\<lambda>d. arr (td_resources d)) (cached original) else Some [])
      in map_option (\<lambda>old.
           (bt_id tree, distributorId,
            map_option (\<lambda>spec. spec\<lparr>pt_required_resources := Some (remap_required old newResources (pt_required_resources spec))\<rparr>)
              (bt_planning_task tree))) oldResources)"

definition goal_scopes :: "realtime_goal_rule \<Rightarrow> string list" where
  "goal_scopes g =
     filter (\<lambda>v. v \<noteq> []) (map trim (arr (rg_resource_type_ids g)
       @ (if truthy (rg_resource_type_id g) then [the (rg_resource_type_id g)] else [])))"

definition import_goal :: "(string \<times> string) list \<Rightarrow> string \<Rightarrow> nat \<Rightarrow> realtime_goal_rule \<Rightarrow> realtime_goal_rule" where
  "import_goal aliases now index g =
     (let resolved = uniq (filter (\<lambda>v. v \<noteq> []) (map (\<lambda>v. orS (map_of aliases v) []) (goal_scopes g)))
      in g\<lparr>rg_id := orS (Some (rg_id g)) (''goal_'' @ now @ ''_'' @ show_nat index),
           rg_name := orS (Some (rg_name g)) (''Goal '' @ show_nat (index + 1)),
           rg_resource_type_id := Some (case resolved of [] \<Rightarrow> [] | v # _ \<Rightarrow> v),
           rg_resource_type_ids := Some resolved\<rparr>)"

definition unresolved_scopes :: "(string \<times> string) list \<Rightarrow> realtime_goal_rule list \<Rightarrow> string list" where
  "unresolved_scopes aliases goals =
     uniq (filter (\<lambda>v. \<not> truthy (map_of aliases v)) (concat (map goal_scopes goals)))"

record imported_profile =
  ip_distributorId :: string
  ip_selectedBTIds :: "string list"
  ip_boundTasks :: "(string \<times> string \<times> planning_task_spec option) list"   \<comment> \<open>the updates sent for them\<close>
  ip_selectedAgentIds :: "string list"
  ip_initialState :: "(string \<times> string) list"
  ip_goalState :: "(string \<times> string) list"
  ip_showInitialState :: bool
  ip_goals :: "realtime_goal_rule list"
  ip_tick :: "jsnum option"   \<comment> \<open>\<open>None\<close>: the interval of the page is kept\<close>
  ip_unresolved :: "string list"

datatype profile_result = InvalidProfile | ProfileFailed "profile_request list" | ProfileImported "profile_request list" imported_profile

text \<open>\<open>full\<close>: the distributor the server returns at the end; \<open>trees\<close>: the tasks by id (\<open>None\<close>: the task cannot be read).
  The updates of the tasks run concurrently, so one that fails does not keep the others from being sent.\<close>

definition handleImportDistributorProfile ::
  "(profile_request \<Rightarrow> bool) \<Rightarrow> (nat \<Rightarrow> string) \<Rightarrow> string \<Rightarrow> task_distributor list \<Rightarrow> (string \<times> string) list \<Rightarrow> agent_with_caps list
   \<Rightarrow> (string \<Rightarrow> behavior_tree option) \<Rightarrow> (string \<Rightarrow> task_distributor option) \<Rightarrow> task_distributor \<Rightarrow> task_distributor
   \<Rightarrow> distributor_profile \<Rightarrow> profile_result" where
  "handleImportDistributorProfile ok newId now distributors treeList agents trees cached current full p =
     (if trim (fd_name (fp_distributor p)) = [] then InvalidProfile
      else let (sent, fine) = send_groups ok (profile_requests newId distributors current p)
           in if \<not> fine then ProfileFailed sent
              else let types = filter type_kind (profile_resources (fp_resources p));
                       aliases = resourceTypeIdByAlias (arr (td_resources full)) types (snd (rebuild_resources newId (fp_resources p)));
                       selected = resolve_refs treeList (fp_selected_tasks p);
                       goals = arr (Option.bind (fp_realtime p) fl_goals);
                       tick = Option.bind (fp_realtime p) fl_tick_interval_sec
                   in ProfileImported sent
                        \<lparr>ip_distributorId = td_id current,
                         ip_selectedBTIds = selected,
                         ip_boundTasks = List.map_filter (\<lambda>i. Option.bind (trees i)
                           (bind_task (td_id current) (arr (td_resources full)) cached)) selected,
                         ip_selectedAgentIds = resolve_refs (map (\<lambda>a. (ag_id (ac_agent a), ag_name (ac_agent a))) agents) (fp_selected_agents p),
                         ip_initialState = arr (fp_initial_state p), ip_goalState = arr (fp_goal_state p),
                         ip_showInitialState = (arr (fp_initial_state p) \<noteq> []),
                         ip_goals = map (\<lambda>(i, g). import_goal aliases now i g) (enumerate 0 goals),
                         ip_tick = (case tick of Some t \<Rightarrow> if gt0 t then Some t else None | None \<Rightarrow> None),
                         ip_unresolved = unresolved_scopes aliases goals\<rparr>)"

section \<open>Resource tokens\<close>

lemma split_go_char: "c \<notin> set a \<Longrightarrow> split_go [c] acc (a @ c # s) = (rev acc @ a) # split_go [c] [] s"
proof (induction a arbitrary: acc)
  case Nil
  then show ?case by (subst split_go.simps) simp
next
  case (Cons x xs)
  then show ?case by (subst split_go.simps) simp
qed

lemma js_split_char: "c \<notin> set a \<Longrightarrow> js_split [c] (a @ c # s) = a # js_split [c] s"
  by (simp add: js_split_def split_go_char)

lemma token_parts:
  "js_split '':'' (resource_token r) = (if isResourceType r then ''type'' else ''instance'') # js_split '':'' (tr_id r)"
  using js_split_char[of "CHR '':''" "if isResourceType r then ''type'' else ''instance''" "tr_id r"]
  by (cases "isResourceType r") (simp_all add: resource_token_def)

lemma token_trimmed: "trimmed (tr_id r) \<Longrightarrow> tr_id r \<noteq> [] \<Longrightarrow> trim (resource_token r) = resource_token r"
proof -
  assume "trimmed (tr_id r)" "tr_id r \<noteq> []"
  moreover have "\<not> is_space (CHR ''t'')" "\<not> is_space (CHR ''i'')" by code_simp+
  ultimately show ?thesis
    unfolding trimmed_def[symmetric] trimmed_iff by (cases "isResourceType r") (simp_all add: resource_token_def)
qed

lemma find_token:
  assumes "find (\<lambda>r. tr_kind r = Some (if b then ''instance'' else ''type'') \<and> tr_name r = n) rs = Some m"
  shows "(if b then ''instance'' else ''type'') @ '':'' @ tr_id m = resource_token m \<and> m \<in> set rs \<and> tr_name m = n
    \<and> tr_kind m = Some (if b then ''instance'' else ''type'')"
  using find_SomeD[OF assms] by (auto simp: resource_token_def isResourceType_def)

lemma find_token_or_none:
  "(case find (\<lambda>r. tr_kind r = Some (if b then ''instance'' else ''type'') \<and> tr_name r = n) rs of
      None \<Rightarrow> [] | Some m \<Rightarrow> (if b then ''instance'' else ''type'') @ '':'' @ tr_id m) \<in> insert [] (resource_token ` set rs)"
  using find_token[of b n rs] by (cases "find (\<lambda>r. tr_kind r = Some (if b then ''instance'' else ''type'') \<and> tr_name r = n) rs") auto

lemma if_mem: "x \<in> A \<Longrightarrow> y \<in> A \<Longrightarrow> (if c then x else y) \<in> A"
  by simp

lemma remap_token_cases: "remap_token old new t \<in> insert [] (resource_token ` set new)"
proof (cases "trim t = [] \<or> trim t \<in> set (map resource_token new)")
  case True
  then show ?thesis unfolding remap_token_def Let_def by (elim disjE) simp_all
next
  case False
  then have "(trim t = []) = False" "(trim t \<in> set (map resource_token new)) = False" by simp_all
  then show ?thesis unfolding remap_token_def Let_def
    by (simp only: if_False) (rule if_mem, rule insertI1, rule find_token_or_none)
qed

lemma remap_token_valid: "remap_token old new t \<noteq> [] \<Longrightarrow> remap_token old new t \<in> set (map resource_token new)"
  using remap_token_cases[of old new t] by auto

text \<open>A token of a resource that is gone, whose namesake of the same kind exists, becomes the token of a namesake.\<close>

lemma remap_token_namesake:
  assumes "r \<in> set old" "distinct (map resource_token old)" "trimmed (tr_id r)" "tr_id r \<noteq> []" "tr_name r \<noteq> []"
    and "tr_kind r = Some ''type'' \<or> tr_kind r = Some ''instance''"
    and "r' \<in> set new" "tr_kind r' = tr_kind r" "tr_name r' = tr_name r"
    and "resource_token r \<notin> set (map resource_token new)"
  shows "\<exists>m \<in> set new. tr_name m = tr_name r \<and> tr_kind m = tr_kind r \<and> remap_token old new (resource_token r) = resource_token m"
proof -
  have tr: "trim (resource_token r) = resource_token r" by (rule token_trimmed) (use assms in auto)
  have ne: "resource_token r \<noteq> []" by (simp add: resource_token_def)
  have "find (\<lambda>x. resource_token x = resource_token r) (rev old) = Some r"
  proof (rule find_unique)
    show "y = r" if "y \<in> set (rev old)" "resource_token y = resource_token r" for y
      using inj_onD[of resource_token "set old" y r] that assms(1,2) by (simp add: distinct_map)
  qed (use assms(1) in auto)
  then have legacy: "map_of (fold (\<lambda>x. map_set (resource_token x) (tr_name x)) old []) (resource_token r) = Some (tr_name r)"
    by (simp add: js_map.fold_set_get)
  let ?b = "tr_kind r = Some ''instance''"
  have kind: "(if ?b then ''instance'' else ''type'') = the (tr_kind r)" "tr_kind r = Some (the (tr_kind r))"
    using assms(6) by auto
  have prefix: "(hd (js_split '':'' (resource_token r)) = ''instance'') = ?b"
    using assms(6) by (auto simp: token_parts isResourceType_def)
  obtain m where m: "find (\<lambda>x. tr_kind x = Some (if ?b then ''instance'' else ''type'') \<and> tr_name x = tr_name r) new = Some m"
  proof (cases "find (\<lambda>x. tr_kind x = Some (if ?b then ''instance'' else ''type'') \<and> tr_name x = tr_name r) new")
    case None
    then have "\<not> (tr_kind r' = Some (if ?b then ''instance'' else ''type'') \<and> tr_name r' = tr_name r)"
      using assms(7) by (auto simp: find_None_iff)
    then show ?thesis using assms(8,9) kind by simp
  qed (use that in blast)
  have "remap_token old new (resource_token r) = (if ?b then ''instance'' else ''type'') @ '':'' @ tr_id m"
    unfolding remap_token_def Let_def tr prefix legacy using ne assms(5,10) m by simp
  then show ?thesis using find_token[OF m] kind by auto
qed

text \<open>A resource another one can stand for: with an id the token can be read back from, and a name and kind that it shares.\<close>

definition namesakes :: "td_resource \<Rightarrow> td_resource \<Rightarrow> bool" where
  "namesakes r r' \<longleftrightarrow> trimmed (tr_id r) \<and> tr_id r \<noteq> [] \<and> tr_name r \<noteq> [] \<and> (tr_kind r = Some ''type'' \<or> tr_kind r = Some ''instance'')
     \<and> tr_kind r' = tr_kind r \<and> tr_name r' = tr_name r"

lemma remap_required_new: "trim t \<in> set (map resource_token new) \<Longrightarrow> t \<in> set (arr tokens) \<Longrightarrow> trim t \<in> set (remap_required old new tokens)"
proof -
  assume t: "trim t \<in> set (map resource_token new)" "t \<in> set (arr tokens)"
  then have "trim t \<noteq> []" by (auto simp: resource_token_def)
  with t(1) have "remap_token old new t = trim t" by (simp add: remap_token_def Let_def)
  with t(2) \<open>trim t \<noteq> []\<close> show ?thesis by (force simp: remap_required_def)
qed

text \<open>C26. Binding a task to an imported distributor keeps its resource requirements as far as they exist there. Of the task only the distributor and the
  requirements of its annotation change; every requirement afterwards is the token of a resource of the imported distributor, each
  once; a requirement that is one already (but for surrounding spaces) stays. If the task was bound to another distributor, whose resources have
  distinct tokens, a requirement on one of them, with a name and a trimmed id, becomes one on a resource of the same name and kind whenever
  the imported distributor has one and does not itself use the old token. (A task bound to the
  imported distributor itself loses such requirements, see \<open>rebinding_drops_resources\<close>.)\<close>

theorem requirements_rebound:
  assumes "bind_task d new cached tree = Some (i, d', Some spec')"
  shows "i = bt_id tree \<and> d' = d
    \<and> (\<exists>spec. bt_planning_task tree = Some spec \<and> spec' = spec\<lparr>pt_required_resources := pt_required_resources spec'\<rparr>
        \<and> set (arr (pt_required_resources spec')) \<subseteq> set (map resource_token new) \<and> distinct (arr (pt_required_resources spec'))
        \<and> (\<forall>t \<in> set (arr (pt_required_resources spec)). trim t \<in> set (map resource_token new) \<longrightarrow> trim t \<in> set (arr (pt_required_resources spec')))
        \<and> (\<forall>b D r r'. bt_task_distributor_id tree = Some b \<and> b \<noteq> '''' \<and> b \<noteq> d \<and> cached b = Some D
             \<and> distinct (map resource_token (arr (td_resources D)))
             \<and> r \<in> set (arr (td_resources D)) \<and> r' \<in> set new \<and> namesakes r r'
             \<and> resource_token r \<in> set (arr (pt_required_resources spec)) \<and> resource_token r \<notin> set (map resource_token new) \<longrightarrow>
             (\<exists>m \<in> set new. tr_name m = tr_name r \<and> tr_kind m = tr_kind r
                \<and> resource_token m \<in> set (arr (pt_required_resources spec')))))"
proof -
  obtain spec old where sp: "bt_planning_task tree = Some spec"
      "spec' = spec\<lparr>pt_required_resources := Some (remap_required old new (pt_required_resources spec))\<rparr>"
    and old: "(if orS (bt_task_distributor_id tree) [] \<noteq> [] \<and> orS (bt_task_distributor_id tree) [] \<noteq> d
        then map_option (\<lambda>d. arr (td_resources d)) (cached (orS (bt_task_distributor_id tree) [])) else Some []) = Some old"
    and i: "i = bt_id tree" "d' = d"
    using assms by (auto simp: bind_task_def Let_def)
  let ?rs = "remap_required old new (pt_required_resources spec)"
  have rs: "arr (pt_required_resources spec') = ?rs" by (simp add: sp)
  have "set ?rs \<subseteq> set (map resource_token new)" "distinct ?rs"
    using remap_token_valid by (auto simp: remap_required_def)
  moreover have "\<exists>m \<in> set new. tr_name m = tr_name r \<and> tr_kind m = tr_kind r \<and> resource_token m \<in> set ?rs"
    if r: "bt_task_distributor_id tree = Some b" "b \<noteq> ''''" "b \<noteq> d" "cached b = Some D" "distinct (map resource_token (arr (td_resources D)))"
      "r \<in> set (arr (td_resources D))" "r' \<in> set new" "namesakes r r'" "resource_token r \<in> set (arr (pt_required_resources spec))"
      "resource_token r \<notin> set (map resource_token new)" for b D r r'
  proof -
    have "old = arr (td_resources D)" using old r(1-4) by (simp add: orS_def truthy_def)
    then obtain m where m: "m \<in> set new" "tr_name m = tr_name r" "tr_kind m = tr_kind r" "remap_token old new (resource_token r) = resource_token m"
      using remap_token_namesake[of r old r' new] r(5-10) by (auto simp: namesakes_def)
    moreover have "resource_token m \<in> set ?rs"
      using r(9) m(4)[symmetric] by (auto simp: remap_required_def resource_token_def)
    ultimately show ?thesis by blast
  qed
  ultimately show ?thesis
    using sp(1) i remap_required_new[of _ new "pt_required_resources spec" old] unfolding rs
    by (intro conjI exI[of _ spec]) (simp_all add: sp(2), blast+)
qed

text \<open>A task that is already bound to the distributor loses its requirements when the profile is loaded again: the
  resources get new ids, and the old ones are looked up only for other distributors.\<close>

theorem rebinding_drops_resources:
  assumes "bt_task_distributor_id tree = Some d" "d \<noteq> []" "bt_planning_task tree = Some spec"
    and "list_all (\<lambda>t. \<exists>r. t = resource_token r \<and> trimmed (tr_id r) \<and> \<not> str_includes (tr_id r) '':'' \<and> str_includes (tr_id r) ''-''
           \<and> t \<notin> set (map resource_token new)) (arr (pt_required_resources spec))"
  shows "\<exists>spec'. bind_task d new cached tree = Some (bt_id tree, d, Some spec') \<and> pt_required_resources spec' = Some []"
proof -
  have "remap_token [] new (resource_token r) = []"
    if "trimmed (tr_id r)" "\<not> str_includes (tr_id r) '':''" "str_includes (tr_id r) ''-''" "resource_token r \<notin> set (map resource_token new)" for r
  proof -
    have ne: "tr_id r \<noteq> []" using that(3) by auto
    have "js_split '':'' (tr_id r) = [tr_id r]" using that(2) by (simp add: js_split_def split_go_no_sep)
    then show ?thesis using that(3,4) ne by (simp add: remap_token_def token_trimmed[OF that(1) ne] token_parts Let_def)
  qed
  then have "map (remap_token [] new) (arr (pt_required_resources spec)) = map (\<lambda>_. []) (arr (pt_required_resources spec))"
    using assms(4) by (auto simp: list_all_iff)
  then have "remap_required [] new (pt_required_resources spec) = []"
    by (simp add: remap_required_def uniq_def)
  then show ?thesis using assms(1-3) by (simp add: bind_task_def)
qed

section \<open>Resources survive an export and import\<close>

text \<open>The resources the server holds after the creation requests of an import.\<close>

definition created_resource :: "string \<Rightarrow> (nat \<Rightarrow> string) \<Rightarrow> nat \<times> resource_request \<Rightarrow> td_resource" where
  "created_resource d newId = (\<lambda>(k, rq). case rq of CreateResource n kd p desc \<Rightarrow>
     \<lparr>tr_id = newId k, tr_task_distributor_id = d, tr_name = n, tr_kind = Some kd, tr_parent_resource_id = p, tr_description = desc\<rparr>)"

definition created_resources :: "string \<Rightarrow> (nat \<Rightarrow> string) \<Rightarrow> resource_request list \<Rightarrow> td_resource list" where
  "created_resources d newId rqs = map (created_resource d newId) (enumerate 0 rqs)"

text \<open>Resources as the page creates them: unique ids, trimmed names, types with distinct names and without a parent,
  and instances whose parent is a type.\<close>

definition tidy_text :: "string option \<Rightarrow> bool" where
  "tidy_text v = (case v of None \<Rightarrow> True | Some s \<Rightarrow> trimmed s \<and> s \<noteq> [])"

definition tidy_resource :: "td_resource list \<Rightarrow> td_resource \<Rightarrow> bool" where
  "tidy_resource rs r = (tidy_text (Some (tr_name r)) \<and> tidy_text (tr_description r)
     \<and> (if isResourceType r then tr_parent_resource_id r = None
        else (tr_kind r = None \<or> tr_kind r = Some ''instance'')
           \<and> (case tr_parent_resource_id r of None \<Rightarrow> True
              | Some p \<Rightarrow> p \<noteq> [] \<and> list_ex (\<lambda>q. tr_id q = p \<and> isResourceType q) rs)))"

definition tidy_resources :: "td_resource list \<Rightarrow> bool" where
  "tidy_resources rs = (distinct (map tr_id rs) \<and> distinct (map tr_name (filter isResourceType rs)) \<and> list_all (tidy_resource rs) rs)"

definition resource_view :: "td_resource list \<Rightarrow> td_resource \<Rightarrow> string \<times> string \<times> string option \<times> string option" where
  "resource_view rs r = (tr_name r, orS (tr_kind r) ''instance'', parent_name rs r, tr_description r)"

lemma resource_by_id_unique:
  "distinct (map tr_id rs) \<Longrightarrow> r \<in> set rs \<Longrightarrow> resource_by_id rs (tr_id r) = Some r"
proof -
  assume d: "distinct (map tr_id rs)" and r: "r \<in> set rs"
  have "find (\<lambda>x. tr_id x = tr_id r) (rev rs) = Some r"
  proof (rule find_unique)
    show "y = r" if "y \<in> set (rev rs)" "tr_id y = tr_id r" for y
      using inj_onD[of tr_id "set rs" y r] that d r by (simp add: distinct_map)
  qed (use r in auto)
  then show ?thesis by (simp add: resource_by_id_def js_map.fold_set_get)
qed

text \<open>What is left of a resource in the file, after reading it.\<close>

lemma normalize_exported:
  assumes "tidy_resource rs r"
    and "case parent_name rs r of None \<Rightarrow> True | Some n \<Rightarrow> trimmed n"
  shows "normalize_resource (export_resource rs r) =
     \<lparr>fr_id = None, fr_name = tr_name r, fr_kind = Some (if isResourceType r then ''type'' else ''instance''),
      fr_parent_name = parent_name rs r, fr_description = tr_description r\<rparr>"
proof -
  have k: "toLowerCase (trim ''type'') = ''type''" "toLowerCase (trim ''instance'') = ''instance''" by code_simp+
  have kind: "toLowerCase (trim (orS (tr_kind r) ''instance'')) = (if isResourceType r then ''type'' else ''instance'')"
    using assms(1) k by (auto simp: tidy_resource_def isResourceType_def split: if_splits)
  have desc: "map_option trim (tr_description r) = tr_description r"
    using assms(1) by (auto simp: tidy_resource_def tidy_text_def trimmed_def split: option.splits)
  have "map_option trim (parent_name rs r) = parent_name rs r"
    using assms(2) by (auto simp: trimmed_def split: option.splits)
  moreover have "orS (Some (orS (tr_kind r) ''instance'')) ''instance'' = orS (tr_kind r) ''instance''"
    by (simp add: orS_def split: option.split)
  ultimately show ?thesis using assms(1) kind desc
    by (simp add: normalize_resource_def export_resource_def tidy_resource_def tidy_text_def trimmed_def)
qed

lemma tidy_parent:
  assumes "tidy_resources rs" "r \<in> set rs"
  shows "parent_name rs r = None \<or> (\<exists>q \<in> set rs. isResourceType q \<and> parent_name rs r = Some (tr_name q))"
proof -
  from assms have r: "tidy_resource rs r" and d: "distinct (map tr_id rs)" by (simp_all add: tidy_resources_def list_all_iff)
  show ?thesis
  proof (cases "truthy (tr_parent_resource_id r)")
    case True
    then obtain q where "q \<in> set rs" "isResourceType q" "tr_parent_resource_id r = Some (tr_id q)"
      using r by (auto simp: tidy_resource_def truthy_def list_ex_iff split: if_splits option.splits)
    then show ?thesis using resource_by_id_unique[OF d] True by (auto simp: parent_name_def)
  qed (simp add: parent_name_def)
qed

definition exported_view :: "td_resource list \<Rightarrow> td_resource \<Rightarrow> profile_resource" where
  "exported_view rs r =
     \<lparr>fr_id = None, fr_name = tr_name r, fr_kind = Some (if isResourceType r then ''type'' else ''instance''),
      fr_parent_name = parent_name rs r, fr_description = tr_description r\<rparr>"

lemma profile_resources_exported:
  assumes "tidy_resources rs"
  shows "profile_resources (map (export_resource rs) rs) = map (exported_view rs) rs"
proof -
  have "trim (fr_name (export_resource rs r)) \<noteq> []" "normalize_resource (export_resource rs r) = exported_view rs r" if "r \<in> set rs" for r
  proof -
    have t: "tidy_resource rs r" using assms that by (simp add: tidy_resources_def list_all_iff)
    then show "trim (fr_name (export_resource rs r)) \<noteq> []"
      by (simp add: export_resource_def tidy_resource_def tidy_text_def trimmed_def)
    have "trimmed n" if "parent_name rs r = Some n" for n
      using tidy_parent[OF assms \<open>r \<in> set rs\<close>] assms that
      by (auto simp: tidy_resources_def list_all_iff tidy_resource_def tidy_text_def)
    then show "normalize_resource (export_resource rs r) = exported_view rs r"
      unfolding exported_view_def by (intro normalize_exported[OF t]) (simp split: option.split)
  qed
  then show ?thesis by (simp add: profile_resources_def filter_id_conv[THEN iffD2] list_all_iff)
qed

text \<open>Types first, each under the id of its position.\<close>

lemma create_types:
  assumes "distinct (map fr_name ts)" "fst ` set byName \<inter> fr_name ` set ts = {}"
  shows "fold (create_type newId) ts (rqs, byName) =
     (rqs @ map (\<lambda>r. CreateResource (fr_name r) ''type'' None (orO (fr_description r) None)) ts,
      byName @ map (\<lambda>(k, r). (fr_name r, newId k)) (enumerate (length rqs) ts))"
  using assms
proof (induction ts arbitrary: rqs byName)
  case (Cons r ts)
  then have "map_set (fr_name r) (newId (length rqs)) byName = byName @ [(fr_name r, newId (length rqs))]"
    by (intro map_set_fresh) auto
  with Cons show ?case by (auto simp: create_type_def)
qed simp

lemma create_instances:
  assumes "list_all (\<lambda>r. fr_parent_name r = None \<or> truthy (fr_parent_name r) \<and> truthy (map_of byName (the (fr_parent_name r)))) rs"
  shows "fold (create_instance newId) rs (rqs, byName) =
     (rqs @ map (\<lambda>r. CreateResource (fr_name r) ''instance'' (Option.bind (fr_parent_name r) (map_of byName)) (orO (fr_description r) None)) rs,
      byName)"
  using assms
proof (induction rs arbitrary: rqs)
  case (Cons r rs)
  then show ?case by (cases "fr_parent_name r") (auto simp: create_instance_def Let_def)
qed simp

lemma map_of_enumerate:
  "distinct (map f xs) \<Longrightarrow> i < length xs \<Longrightarrow> map_of (map (\<lambda>(k, x). (f x, g k)) (enumerate n xs)) (f (xs ! i)) = Some (g (n + i))"
proof (induction xs arbitrary: n i)
  case (Cons x xs)
  show ?case
  proof (cases i)
    case (Suc j)
    moreover have "f (xs ! j) \<noteq> f x" using Cons.prems Suc by (metis distinct.simps(2) image_eqI length_Cons list.map(2) list.set_map not_less_eq nth_mem)
    ultimately show ?thesis using Cons.IH[of j "Suc n"] Cons.prems by simp
  qed simp
qed simp

lemma created_nth: "k < length rqs \<Longrightarrow> created_resources d newId rqs ! k = created_resource d newId (k, rqs ! k)"
  by (simp add: created_resources_def nth_enumerate_eq)

lemma created_id [simp]: "tr_id (created_resource d newId (k, rq)) = newId k"
  by (simp add: created_resource_def split: resource_request.split)

lemma created_ids: "map tr_id (created_resources d newId rqs) = map newId [0..<length rqs]"
  by (rule nth_equalityI) (simp_all add: created_resources_def nth_enumerate_eq)

lemma tidy_description: "tidy_resource rs r \<Longrightarrow> orO (tr_description r) None = tr_description r"
  by (auto simp: tidy_resource_def tidy_text_def split: option.splits)

lemma created_by_id:
  assumes "inj newId" "k < length rqs"
  shows "resource_by_id (created_resources d newId rqs) (newId k) = Some (created_resource d newId (k, rqs ! k))"
proof -
  let ?c = "created_resources d newId rqs"
  have "distinct (map tr_id ?c)" unfolding created_ids using assms(1) by (simp add: distinct_map inj_on_subset[OF _ subset_UNIV])
  moreover have "?c ! k \<in> set ?c" using assms(2) by (intro nth_mem) (simp add: created_resources_def)
  ultimately have "resource_by_id ?c (tr_id (?c ! k)) = Some (?c ! k)" by (rule resource_by_id_unique)
  then show ?thesis using assms(2) by (simp add: created_nth)
qed

text \<open>The parent of an instance is the type at some position, and \<open>type_ids\<close> gives that type its id.\<close>

definition type_ids :: "(nat \<Rightarrow> string) \<Rightarrow> td_resource list \<Rightarrow> string \<Rightarrow> string option" where
  "type_ids newId rs = map_of (map (\<lambda>(k, r). (tr_name r, newId k)) (enumerate 0 (filter isResourceType rs)))"

lemma parent_position:
  assumes "tidy_resources rs" "r \<in> set rs" "parent_name rs r = Some n"
  obtains k where "k < length (filter isResourceType rs)" "n = tr_name (filter isResourceType rs ! k)" "n \<noteq> []"
    "type_ids newId rs n = Some (newId k)"
proof -
  let ?T = "filter isResourceType rs"
  from tidy_parent[OF assms(1,2)] assms(3) obtain q where q: "q \<in> set rs" "isResourceType q" "n = tr_name q" by auto
  then obtain k where k: "k < length ?T" "?T ! k = q" using in_set_conv_nth[of q ?T] by auto
  have "distinct (map tr_name ?T)" using assms(1) by (simp add: tidy_resources_def)
  from map_of_enumerate[OF this k(1), of newId 0] have "type_ids newId rs n = Some (newId k)"
    by (simp add: type_ids_def k(2) q(3))
  moreover have "n \<noteq> []" using assms(1) q(1,3) by (simp add: tidy_resources_def list_all_iff tidy_resource_def tidy_text_def)
  ultimately show thesis using that k q(3) by blast
qed

text \<open>The requests an import makes of an exported profile.\<close>

lemma rebuild_exported:
  assumes "tidy_resources rs" "\<And>k. newId k \<noteq> []"
  shows "fst (rebuild_resources newId (map (export_resource rs) rs)) =
      map (\<lambda>r. CreateResource (tr_name r) ''type'' None (tr_description r)) (filter isResourceType rs)
      @ map (\<lambda>r. CreateResource (tr_name r) ''instance'' (Option.bind (parent_name rs r) (type_ids newId rs)) (tr_description r))
          (filter (\<lambda>r. \<not> isResourceType r) rs)"
proof -
  let ?T = "filter isResourceType rs" and ?I = "filter (\<lambda>r. \<not> isResourceType r) rs"
  let ?byName = "map (\<lambda>(k, r). (fr_name r, newId k)) (enumerate 0 (map (exported_view rs) ?T))"
  have T: "filter type_kind (map (exported_view rs) rs) = map (exported_view rs) ?T"
    and I: "filter (\<lambda>r. \<not> type_kind r) (map (exported_view rs) rs) = map (exported_view rs) ?I"
    by (simp_all add: filter_map comp_def exported_view_def)
  have view: "fr_name (exported_view rs r) = tr_name r" "fr_parent_name (exported_view rs r) = parent_name rs r"
      "fr_description (exported_view rs r) = tr_description r" for r by (simp_all add: exported_view_def)
  have bn: "?byName = map (\<lambda>(k, r). (tr_name r, newId k)) (enumerate 0 ?T)"
    by (simp add: enumerate_map_upt enumerate_eq_zip zip_map2 comp_def case_prod_unfold view)
  have desc: "orO (tr_description r) None = tr_description r" if "r \<in> set rs" for r
    using assms(1) that by (intro tidy_description[of rs]) (simp add: tidy_resources_def list_all_iff)
  have parents: "parent_name rs r = None \<or> truthy (parent_name rs r) \<and> truthy (type_ids newId rs (the (parent_name rs r)))"
    if "r \<in> set rs" for r
  proof (cases "parent_name rs r")
    case (Some n)
    with assms that show ?thesis by (metis option.sel parent_position truthy_simps(2))
  qed simp
  have types: "fold (create_type newId) (map (exported_view rs) ?T) ([], []) =
      (map (\<lambda>r. CreateResource (tr_name r) ''type'' None (tr_description r)) ?T, ?byName)"
    using assms(1) desc by (subst create_types) (simp_all add: view comp_def tidy_resources_def)
  show ?thesis
    unfolding rebuild_resources_def Let_def profile_resources_exported[OF assms(1)] T I types bn
    using parents desc by (subst create_instances) (simp_all add: list_all_iff view type_ids_def cong: map_cong)
qed

text \<open>C25. Exporting a profile and loading it rebuilds the resources: the server ends with the types first, then the
  instances, in the order of the distributor, each with its name, kind and description, and each instance under the
  type of the same name as before.\<close>

theorem profile_resources_restored:
  assumes "tidy_resources (arr (td_resources td))" "inj newId" "\<forall>k. newId k \<noteq> []"
    and "p = handleExportDistributorProfile now bts ags ids ini goal tick goals td"
    and "created = created_resources d newId (fst (rebuild_resources newId (fp_resources p)))"
  shows "map (resource_view created) created =
    map (resource_view (arr (td_resources td)))
      (filter isResourceType (arr (td_resources td)) @ filter (\<lambda>r. \<not> isResourceType r) (arr (td_resources td)))"
proof -
  let ?rs = "arr (td_resources td)"
  let ?T = "filter isResourceType ?rs" and ?I = "filter (\<lambda>r. \<not> isResourceType r) ?rs"
  define typeRq where "typeRq = (\<lambda>r :: td_resource. CreateResource (tr_name r) ''type'' None (tr_description r))"
  define instRq where "instRq = (\<lambda>r :: td_resource. CreateResource (tr_name r) ''instance''
      (Option.bind (parent_name ?rs r) (type_ids newId ?rs)) (tr_description r))"
  let ?rqs = "map typeRq ?T @ map instRq ?I"
  have "fp_resources p = map (export_resource ?rs) ?rs" by (simp add: assms(4) handleExportDistributorProfile_def)
  then have c: "created = created_resources d newId ?rqs"
    using rebuild_exported[OF assms(1) assms(3)[rule_format]] by (simp add: assms(5) typeRq_def instRq_def)
  have views: "resource_view created (created_resource d newId (k, typeRq r)) = resource_view ?rs r" if "r \<in> set ?T" for k r
    using assms(1) that by (auto simp: tidy_resources_def list_all_iff tidy_resource_def resource_view_def
        parent_name_def created_resource_def typeRq_def isResourceType_def)
  have "resource_view created (created_resource d newId (k, instRq r)) = resource_view ?rs r" if "r \<in> set ?I" for k r
  proof -
    have r: "r \<in> set ?rs" "tidy_resource ?rs r" "\<not> isResourceType r"
      using assms(1) that by (simp_all add: tidy_resources_def list_all_iff)
    have "parent_name created (created_resource d newId (k, instRq r)) = parent_name ?rs r"
    proof (cases "parent_name ?rs r")
      case (Some n)
      from parent_position[OF assms(1) r(1) Some] obtain j where j: "j < length ?T" "n = tr_name (?T ! j)"
          "type_ids newId ?rs n = Some (newId j)" .
      then have "resource_by_id created (newId j) = Some (created_resource d newId (j, typeRq (?T ! j)))"
        unfolding c using created_by_id[OF assms(2), of j ?rqs] by (simp add: nth_append)
      then show ?thesis using Some j assms(3) by (simp add: parent_name_def[of created] created_resource_def instRq_def typeRq_def)
    qed (simp add: parent_name_def[of created] created_resource_def instRq_def)
    then show ?thesis using r(2,3) by (auto simp: resource_view_def created_resource_def instRq_def tidy_resource_def)
  qed
  note insts = this
  have nth: "resource_view created (created ! k) = map (resource_view ?rs) (?T @ ?I) ! k" if "k < length ?T + length ?I" for k
  proof (cases "k < length ?T")
    case True
    then show ?thesis using views[OF nth_mem[OF True], of k] by (simp add: c created_nth nth_append)
  next
    case False
    then have "k - length ?T < length ?I" using that by simp
    from insts[OF nth_mem[OF this], of k] show ?thesis using False that by (simp add: c created_nth nth_append)
  qed
  have "length created = length ?T + length ?I" by (simp add: c created_resources_def)
  with nth show ?thesis by (intro nth_equalityI) simp_all
qed

section \<open>Scopes of realtime goals\<close>

lemma keys_map_set: "fst ` set (map_set k i m) = insert k (fst ` set m)"
proof -
  have "set (map fst (map_set k i m)) = insert k (set (map fst m))" unfolding map_set_keys by auto
  then show ?thesis by simp
qed

lemma server_alias_keys: "fst ` set (server_alias r m) \<subseteq> fst ` set m \<union> {v. isResourceType r \<and> (v = tr_id r \<or> v = tr_name r)}"
  by (cases "isResourceType r") (auto simp: server_alias_def keys_map_set simp del: AList.update.simps)

lemma file_alias_keys: "fst ` set (file_alias byName r m) \<subseteq> fst ` set m \<union> {v. v = fr_name r \<or> fr_id r = Some v}"
proof (cases "truthy (fr_id r)")
  case True
  then obtain i where "fr_id r = Some i" by (cases "fr_id r") auto
  then show ?thesis by (cases "orS (map_of byName (fr_name r)) [] = []") (auto simp: file_alias_def Let_def keys_map_set)
next
  case False
  then show ?thesis by (cases "orS (map_of byName (fr_name r)) [] = []") (auto simp: file_alias_def Let_def keys_map_set)
qed

lemma fold_keys:
  assumes "\<And>x m. fst ` set (f x m) \<subseteq> fst ` set m \<union> K x"
  shows "fst ` set (fold f xs m) \<subseteq> fst ` set m \<union> (\<Union>x \<in> set xs. K x)"
proof (induction xs arbitrary: m)
  case (Cons x xs)
  show ?case using Cons.IH[of "f x m"] assms[of x m] by (simp only: fold_Cons comp_apply list.set UN_insert) blast
qed simp

lemma alias_keys:
  assumes "v \<in> fst ` set (resourceTypeIdByAlias full types byName)"
  shows "(\<exists>r \<in> set full. isResourceType r \<and> (v = tr_id r \<or> v = tr_name r)) \<or> (\<exists>r \<in> set types. v = fr_name r \<or> fr_id r = Some v)"
proof -
  have "fst ` set (fold (file_alias byName) types m) \<subseteq> fst ` set m \<union> (\<Union>r \<in> set types. {v. v = fr_name r \<or> fr_id r = Some v})" for m
    by (rule fold_keys) (rule file_alias_keys)
  note types_part = this
  have "fst ` set (fold server_alias full m) \<subseteq> fst ` set m \<union> (\<Union>r \<in> set full. {v. isResourceType r \<and> (v = tr_id r \<or> v = tr_name r)})" for m
    by (rule fold_keys) (rule server_alias_keys)
  note server_part = this
  have "v \<in> fst ` set (fold (file_alias byName) types (fold server_alias full []))"
    using assms by (simp only: resourceTypeIdByAlias_def)
  from subsetD[OF types_part this] show ?thesis
  proof (rule UnE)
    assume "v \<in> fst ` set (fold server_alias full [])"
    from subsetD[OF server_part this] show ?thesis by auto
  qed auto
qed

text \<open>The resource scope of a realtime goal does not survive an export and import: goals name types by id, but the file
  holds no ids of resources, so a scope is resolved only when it happens to be the name or the new id of a
  type.\<close>

theorem goal_scopes_lost:
  assumes "p = handleExportDistributorProfile now bts ags ids ini goal tick goals td"
    and "\<forall>v \<in> set (goal_scopes g). (\<forall>r \<in> set full. isResourceType r \<longrightarrow> v \<noteq> tr_id r \<and> v \<noteq> tr_name r)
          \<and> (\<forall>r \<in> set (arr (td_resources td)). v \<noteq> trim (tr_name r))"
  shows "rg_resource_type_ids (import_goal
      (resourceTypeIdByAlias full (filter type_kind (profile_resources (fp_resources p))) byName) now' i g) = Some []"
proof -
  let ?types = "filter type_kind (profile_resources (fp_resources p))"
  have t: "fr_id r = None \<and> (\<exists>x \<in> set (arr (td_resources td)). fr_name r = trim (tr_name x))" if "r \<in> set ?types" for r
    using that by (auto simp: assms(1) handleExportDistributorProfile_def profile_resources_def normalize_resource_def export_resource_def)
  have "map_of (resourceTypeIdByAlias full ?types byName) v = None" if v: "v \<in> set (goal_scopes g)" for v
  proof (rule ccontr)
    assume "map_of (resourceTypeIdByAlias full ?types byName) v \<noteq> None"
    then have "v \<in> fst ` set (resourceTypeIdByAlias full ?types byName)" by (simp add: map_of_eq_None_iff)
    from alias_keys[OF this] obtain r where "r \<in> set ?types" "v = fr_name r \<or> fr_id r = Some v"
      using assms(2) v by blast
    with t[of r] show False using assms(2) v by auto
  qed
  then have "map (\<lambda>v. orS (map_of (resourceTypeIdByAlias full ?types byName) v) []) (goal_scopes g) = map (\<lambda>_. []) (goal_scopes g)"
    by simp
  then have "filter (\<lambda>v. v \<noteq> []) (map (\<lambda>v. orS (map_of (resourceTypeIdByAlias full ?types byName) v) []) (goal_scopes g)) = []"
    by (simp only: filter_map comp_def) simp
  then show ?thesis by (simp add: import_goal_def Let_def uniq_def)
qed

section \<open>A concrete distributor\<close>

definition sample_resource :: "string \<Rightarrow> string \<Rightarrow> string \<Rightarrow> string option \<Rightarrow> td_resource" where
  "sample_resource i n k p = \<lparr>tr_id = i, tr_task_distributor_id = ''td1'', tr_name = n, tr_kind = Some k, tr_parent_resource_id = p, tr_description = None\<rparr>"

definition sample_distributor :: task_distributor where
  "sample_distributor = \<lparr>td_id = ''td1'', td_name = ''Hall'', td_description = None, td_created_at = ''t0'', td_updated_at = ''t0'',
     td_state_merge_policies = None, td_states = None,
     td_resources = Some [sample_resource ''r-2'' ''Dock1'' ''instance'' (Some ''r-1''), sample_resource ''r-1'' ''Dock'' ''type'' None]\<rparr>"

definition sample_ids :: "nat \<Rightarrow> string" where
  "sample_ids k = ''n'' @ replicate k (CHR ''x'')"

theorem profile_resources_restored_witness:
  "(let p = handleExportDistributorProfile ''now'' [] [] [] [] [] (Fin 1) [] sample_distributor;
        created = created_resources ''td2'' sample_ids (fst (rebuild_resources sample_ids (fp_resources p)))
    in map (resource_view created) created = [(''Dock'', ''type'', None, None), (''Dock1'', ''instance'', Some ''Dock'', None)])"
proof -
  have 1: "tidy_resources (arr (td_resources sample_distributor))" by code_simp
  have 2: "inj sample_ids"
  proof (rule injI)
    show "x = y" if "sample_ids x = sample_ids y" for x y
      using arg_cong[OF that, of length] by (simp add: sample_ids_def)
  qed
  have 3: "\<forall>k. sample_ids k \<noteq> []" by (simp add: sample_ids_def)
  have "map (resource_view (arr (td_resources sample_distributor))) (filter isResourceType (arr (td_resources sample_distributor))
      @ filter (\<lambda>r. \<not> isResourceType r) (arr (td_resources sample_distributor))) =
      [(''Dock'', ''type'', None, None), (''Dock1'', ''instance'', Some ''Dock'', None)]" by code_simp
  then show ?thesis unfolding Let_def profile_resources_restored[OF 1 2 3 refl refl] .
qed

definition bound_task :: behavior_tree where
  "bound_task =
     \<lparr>bt_id = ''t'', bt_name = ''t'', bt_description = None, bt_agent_id = None, bt_agent_name = None, bt_entry_point = None,
      bt_preconditions = None, bt_steps = Some [], bt_states = None, bt_planning_states = None,
      bt_planning_task = Some (\<lparr>pt_preconditions = None, pt_required_resources = None, pt_during_state = None, pt_result_states = None, pt_warning_result_states = None,
        pt_error_result_states = None, pt_warning_message_variable = None, pt_error_message_variable = None\<rparr>\<lparr>pt_required_resources := Some [''type:r-1'']\<rparr>),
      bt_task_distributor_id = Some ''old'', bt_required_action_types = None, bt_auto_generate_states = None, bt_version = 1,
      bt_is_template = True, bt_deployment_status = None, bt_created_at = [], bt_updated_at = None\<rparr>"

definition old_distributor :: task_distributor where
  "old_distributor = sample_distributor\<lparr>td_id := ''old'', td_resources := Some [sample_resource ''r-1'' ''Dock'' ''type'' None]\<rparr>"

theorem requirements_rebound_witness:
  "\<exists>spec'. bind_task ''td2'' [sample_resource ''n-1'' ''Dock'' ''type'' None] (\<lambda>_. Some old_distributor) bound_task
       = Some (bt_id bound_task, ''td2'', Some spec')
     \<and> resource_token (sample_resource ''n-1'' ''Dock'' ''type'' None) \<in> set (arr (pt_required_resources spec'))"
proof -
  let ?r = "sample_resource ''r-1'' ''Dock'' ''type'' None" and ?n = "sample_resource ''n-1'' ''Dock'' ''type'' None"
  let ?bind = "bind_task ''td2'' [?n] (\<lambda>_. Some old_distributor) bound_task"
  obtain spec' where b: "?bind = Some (bt_id bound_task, ''td2'', Some spec')" by (simp add: bind_task_def bound_task_def Let_def)
  have h: "bt_task_distributor_id bound_task = Some ''old'' \<and> ''old'' \<noteq> '''' \<and> ''old'' \<noteq> ''td2'' \<and> Some old_distributor = Some old_distributor
      \<and> distinct (map resource_token (arr (td_resources old_distributor)))
      \<and> ?r \<in> set (arr (td_resources old_distributor)) \<and> ?n \<in> set [?n] \<and> namesakes ?r ?n
      \<and> resource_token ?r \<in> set (arr (pt_required_resources (the (bt_planning_task bound_task)))) \<and> resource_token ?r \<notin> set (map resource_token [?n])"
    by code_simp
  note all = requirements_rebound[OF b, THEN conjunct2, THEN conjunct2]
  then obtain spec where "bt_planning_task bound_task = Some spec"
    and all: "\<forall>b D r r'. bt_task_distributor_id bound_task = Some b \<and> b \<noteq> '''' \<and> b \<noteq> ''td2'' \<and> Some old_distributor = Some D
             \<and> distinct (map resource_token (arr (td_resources D)))
             \<and> r \<in> set (arr (td_resources D)) \<and> r' \<in> set [?n] \<and> namesakes r r'
             \<and> resource_token r \<in> set (arr (pt_required_resources spec)) \<and> resource_token r \<notin> set (map resource_token [?n]) \<longrightarrow>
             (\<exists>m \<in> set [?n]. tr_name m = tr_name r \<and> tr_kind m = tr_kind r
                \<and> resource_token m \<in> set (arr (pt_required_resources spec')))" by (elim exE conjE) assumption
  then have "spec = the (bt_planning_task bound_task)" by simp
  with all[rule_format, of "''old''" old_distributor ?r ?n] h have "\<exists>m \<in> set [?n]. resource_token m \<in> set (arr (pt_required_resources spec'))"
    by (simp only: simp_thms) blast
  with b show ?thesis by auto
qed

end
