(* ===== verification/Pddl_Page.thy ===== *)
theory Pddl_Page
  imports Pddl_Drafts Pddl_Timeline Pddl_Runtime
begin

text \<open>
  The handlers of the planning page that connect its parts (\<^verbatim>\<open>pages/PDDL/index.tsx\<close>): selecting tasks and linking them to a
  distributor, loading the selected tasks, creating and deleting distributors, the cards that monitor a realtime session
  and their reset, the rows of the agents at run time, and the drawing of a task of the timeline. Answers of the server
  are arguments; notices are not part of the state.
\<close>

section \<open>Tasks and distributors\<close>

record bt_page =
  bp_page :: pddl_page
  bp_btCache :: "(string \<times> behavior_tree) list"
  bp_autoSelectedTask :: bool

datatype page_request =
    GetTree string
  | LinkTree string string
  | CreateTd string
  | RenameTd string string
  | DeleteTd string
  | DeleteState string string
  | ResetSession string "(string \<times> string) list" "string list"

abbreviation bp_selected :: "bt_page \<Rightarrow> string list" where
  "bp_selected s \<equiv> dr_selectedBTIds (pg_draft (bp_page s))"

definition set_selected :: "string list \<Rightarrow> bt_page \<Rightarrow> bt_page" where
  "set_selected ids s = s\<lparr>bp_page := (bp_page s)\<lparr>pg_draft := (pg_draft (bp_page s))\<lparr>dr_selectedBTIds := ids\<rparr>\<rparr>\<rparr>"

definition set_distributor :: "string option \<Rightarrow> bt_page \<Rightarrow> bt_page" where
  "set_distributor d s = s\<lparr>bp_page := (bp_page s)\<lparr>pg_draft := (pg_draft (bp_page s))\<lparr>dr_selectedDistributorId := d\<rparr>\<rparr>\<rparr>"

definition cache_tree :: "behavior_tree \<Rightarrow> bt_page \<Rightarrow> bt_page" where
  "cache_tree t s = s\<lparr>bp_btCache := map_set (bt_id t) t (bp_btCache s)\<rparr>"

definition selectedBTs :: "bt_page \<Rightarrow> behavior_tree list" where
  "selectedBTs s = List.map_filter (\<lambda>i. map_of (bp_btCache s) i) (bp_selected s)"

definition singleSelectedBT :: "bt_page \<Rightarrow> behavior_tree option" where
  "singleSelectedBT s = (case selectedBTs s of [t] \<Rightarrow> Some t | _ \<Rightarrow> None)"

text \<open>The effects that forget tasks which no longer exist and, once, select the first task.\<close>

definition keepExistingEffect :: "string list \<Rightarrow> bt_page \<Rightarrow> bt_page" where
  "keepExistingEffect treeIds s =
     (if treeIds = [] then s else set_selected (filter (\<lambda>i. i \<in> set treeIds) (bp_selected s)) s)"

definition autoSelectEffect :: "string list \<Rightarrow> bt_page \<Rightarrow> bt_page" where
  "autoSelectEffect treeIds s =
     (if bp_autoSelectedTask s then s
      else if bp_selected s \<noteq> [] then s\<lparr>bp_autoSelectedTask := True\<rparr>
      else case treeIds of
        [] \<Rightarrow> s
      | i # _ \<Rightarrow> set_selected [i] (s\<lparr>bp_autoSelectedTask := True\<rparr>))"

definition missingIds :: "bt_page \<Rightarrow> string list" where
  "missingIds s = filter (\<lambda>i. map_of (bp_btCache s) i = None) (bp_selected s)"

text \<open>\<open>Promise.all\<close> over the missing tasks: all answers or none; an effect that was cleaned up drops them.\<close>

definition loadMissingBTs :: "bool \<Rightarrow> 'e + behavior_tree list \<Rightarrow> bt_page \<Rightarrow> bt_page" where
  "loadMissingBTs cancelled reply s =
     (case reply of
        Inl _ \<Rightarrow> s
      | Inr trees \<Rightarrow> if cancelled then s else fold cache_tree trees s)"

definition handleToggleBT ::
  "(string \<Rightarrow> 'e + behavior_tree) \<Rightarrow> (string \<Rightarrow> string \<Rightarrow> 'e + behavior_tree) \<Rightarrow> string \<Rightarrow> bt_page \<Rightarrow>
   page_request list \<times> bt_page" where
  "handleToggleBT get link i s =
     (if i \<in> set (bp_selected s) then ([], set_selected (filter (\<lambda>x. x \<noteq> i) (bp_selected s)) s)
      else
        case (case map_of (bp_btCache s) i of
                Some bt \<Rightarrow> Some (bt, [], s)
              | None \<Rightarrow> (case get i of
                          Inl _ \<Rightarrow> None
                        | Inr bt \<Rightarrow> Some (bt, [GetTree i], s\<lparr>bp_btCache := map_set i bt (bp_btCache s)\<rparr>))) of
          None \<Rightarrow> ([GetTree i], s)
        | Some (bt, requests, s1) \<Rightarrow>
            let s2 = set_selected (bp_selected s1 @ [i]) s1; selectedDistributorId = pg_distributor (bp_page s)
            in if truthy (bt_task_distributor_id bt) \<and> \<not> truthy selectedDistributorId
               then (requests, set_distributor (bt_task_distributor_id bt) s2)
               else if truthy selectedDistributorId \<and> \<not> truthy (bt_task_distributor_id bt)
               then (requests @ [LinkTree i (the selectedDistributorId)],
                     case link i (the selectedDistributorId) of
                       Inr updated \<Rightarrow> cache_tree updated s2
                     | Inl _ \<Rightarrow> s2)
               else (requests, s2))"

definition handleSelectDistributor ::
  "'e + behavior_tree list \<Rightarrow> string \<Rightarrow> bt_page \<Rightarrow> page_request list \<times> bt_page" where
  "handleSelectDistributor reply distributorId s =
     (let s1 = (if Some distributorId \<noteq> pg_distributor (bp_page s)
                then s\<lparr>bp_page := switchDistributorScope (Some distributorId) (bp_page s)\<rparr> else s);
          targets = filter (\<lambda>bt. bt_task_distributor_id bt \<noteq> Some distributorId) (selectedBTs s)
      in if targets = [] then ([], s1)
         else (map (\<lambda>bt. LinkTree (bt_id bt) distributorId) targets,
               case reply of Inr updatedTrees \<Rightarrow> fold cache_tree updatedTrees s1 | Inl _ \<Rightarrow> s1))"

text \<open>Creating, renaming and deleting a distributor; \<open>reply\<close> is the answer of the server, for a new distributor its id. The text of the
  name and the row under edit are returned beside the page.\<close>

definition handleCreateTd ::
  "'e + string \<Rightarrow> string \<Rightarrow> bt_page \<Rightarrow> page_request list \<times> string \<times> bt_page" where
  "handleCreateTd reply newTdName s =
     (if trim newTdName = '''' then ([], newTdName, s)
      else ([CreateTd (trim newTdName)],
            case reply of
              Inr created \<Rightarrow> ('''', s\<lparr>bp_page := switchDistributorScope (Some created) (bp_page s)\<rparr>)
            | Inl _ \<Rightarrow> (newTdName, s)))"

definition handleRenameTd ::
  "'e + unit \<Rightarrow> string \<Rightarrow> string \<Rightarrow> string option \<Rightarrow> page_request list \<times> string option" where
  "handleRenameTd reply i editTdName editingTdId =
     (if trim editTdName = '''' then ([], editingTdId)
      else ([RenameTd i (trim editTdName)], case reply of Inr _ \<Rightarrow> None | Inl _ \<Rightarrow> editingTdId))"

definition handleDeleteTd :: "'e + unit \<Rightarrow> string \<Rightarrow> bt_page \<Rightarrow> page_request list \<times> bt_page" where
  "handleDeleteTd reply i s =
     ([DeleteTd i],
      case reply of
        Inr _ \<Rightarrow> if pg_distributor (bp_page s) = Some i
                 then s\<lparr>bp_page := switchDistributorScope None (bp_page s)\<rparr> else s
      | Inl _ \<Rightarrow> s)"

definition page_handleDeleteState :: "task_distributor option \<Rightarrow> string \<Rightarrow> page_request list" where
  "page_handleDeleteState selectedDistributor stateId =
     (case selectedDistributor of None \<Rightarrow> [] | Some d \<Rightarrow> [DeleteState (td_id d) stateId])"

section \<open>Monitoring\<close>

text \<open>\<open>unquote\<close> is \<open>JSON.parse\<close> on a quoted text: a string, or nothing when it throws.\<close>

definition normalizePlanningStateInitialValue :: "(string \<Rightarrow> string option) \<Rightarrow> string option \<Rightarrow> string" where
  "normalizePlanningStateInitialValue unquote v =
     (let raw = coalesce v ''''; trimmed = trim raw
      in if trimmed = '''' then ''''
         else if trimmed = ''null'' then ''''
         else if startsWith trimmed [CHR 0x22] \<and> endsWith trimmed [CHR 0x22] then coalesce (unquote trimmed) raw
         else raw)"

datatype card_kind = AgentCard | ResourceCard

record monitoring_card =
  mc_id :: string
  mc_label :: string
  mc_kind :: card_kind
  mc_statusKey :: "string option"
  mc_statusValue :: string
  mc_msgKey :: "string option"
  mc_msgValue :: string
  mc_resetValues :: "(string \<times> string) list"
  mc_resetKeys :: "string list"

definition session_state :: "realtime_session option \<Rightarrow> (string \<times> string) list" where
  "session_state session =
     (case session of
        None \<Rightarrow> []
      | Some r \<Rightarrow> (case rs_effective_state r of Some m \<Rightarrow> m
                   | None \<Rightarrow> (case rs_live_state r of Some m \<Rightarrow> m | None \<Rightarrow> rs_current_state r)))"

definition defaultsByKey :: "(string \<Rightarrow> string option) \<Rightarrow> td_state list \<Rightarrow> (string \<times> string) list" where
  "defaultsByKey unquote stateVars =
     foldl (\<lambda>m sv. map_set (ts_name sv) (normalizePlanningStateInitialValue unquote (ts_initial_value sv)) m) [] stateVars"

definition monitoring_card_of ::
  "(string \<Rightarrow> string option) \<Rightarrow> (string \<times> string) list \<Rightarrow> (string \<times> string) list \<Rightarrow> card_kind \<Rightarrow> string \<Rightarrow> string \<Rightarrow> monitoring_card" where
  "monitoring_card_of unquote defaults effectiveState kind i label =
     (let statusKey = label @ ''_status''; msgKey = label @ ''_msg'';
          resetKeys = filter (\<lambda>k. map_of defaults k \<noteq> None) [statusKey, msgKey];
          shown = (\<lambda>k. if map_of defaults k \<noteq> None \<or> map_of effectiveState k \<noteq> None then Some k else None);
          val = (\<lambda>k. coalesce (map_of effectiveState k) (normalizePlanningStateInitialValue unquote (map_of defaults k)))
      in \<lparr>mc_id = i, mc_label = label, mc_kind = kind, mc_statusKey = shown statusKey, mc_statusValue = val statusKey,
          mc_msgKey = shown msgKey, mc_msgValue = val msgKey,
          mc_resetValues = foldl (\<lambda>acc k. map_set k (normalizePlanningStateInitialValue unquote (map_of defaults k)) acc) [] resetKeys,
          mc_resetKeys = resetKeys\<rparr>)"

definition realtimeMonitoringCards ::
  "(string \<Rightarrow> string option) \<Rightarrow> td_state list \<Rightarrow> realtime_session option \<Rightarrow> agent_with_caps list \<Rightarrow> string list \<Rightarrow> td_resource list \<Rightarrow>
   monitoring_card list" where
  "realtimeMonitoringCards unquote stateVars session agents selectedAgentIds resources =
     (let defaults = defaultsByKey unquote stateVars; effectiveState = session_state session;
          agentRows = filter (\<lambda>row. (case session of Some r \<Rightarrow> ag_id (ac_agent row) \<in> set (rs_agent_ids r) | None \<Rightarrow> False)
                                    \<or> ag_id (ac_agent row) \<in> set selectedAgentIds) agents
      in map (\<lambda>row. monitoring_card_of unquote defaults effectiveState AgentCard
                (''monitor-agent:'' @ ag_id (ac_agent row)) (ag_name (ac_agent row))) agentRows
         @ map (\<lambda>r. monitoring_card_of unquote defaults effectiveState ResourceCard
                (''monitor-resource:'' @ tr_id r) (tr_name r)) resources)"

text \<open>The reset of a card: the request, and the session shown afterwards.\<close>

definition handleResetRealtimeMonitorCard ::
  "'e + realtime_session \<Rightarrow> string option \<Rightarrow> realtime_session option \<Rightarrow> monitoring_card \<Rightarrow>
   page_request list \<times> realtime_session option" where
  "handleResetRealtimeMonitorCard reply realtimeSessionId session mcard =
     (if \<not> truthy realtimeSessionId \<or> session = None then ([], session)
      else if mc_resetValues mcard = [] then ([], session)
      else ([ResetSession (the realtimeSessionId) (mc_resetValues mcard) (mc_resetKeys mcard)],
            case reply of Inr s \<Rightarrow> Some s | Inl _ \<Rightarrow> session))"

section \<open>Agents at run time\<close>

record runtime_view =
  rv_agentId :: string
  rv_agent :: "agent option"
  rv_isOnline :: bool
  rv_runtime :: "robot_snapshot option"
  rv_currentStepId :: "string option"
  rv_currentStepName :: "string option"
  rv_dispatches :: "plan_execution_step list"
  rv_heldResources :: "resource_allocation list"
  rv_stateLabel :: string

definition step_label :: "behavior_tree \<Rightarrow> string \<Rightarrow> string" where
  "step_label g i =
     (case List.find (\<lambda>st. gs_id st = i) (arr (bt_steps g)) of
        Some st \<Rightarrow> orS (gs_job_name st) (orS (gs_name st) i)
      | None \<Rightarrow> i)"

definition runtime_view_of ::
  "agent_with_caps list \<Rightarrow> (string \<times> robot_snapshot) list \<Rightarrow> behavior_tree option \<Rightarrow> (string \<times> plan_execution_step list) list \<Rightarrow>
   (string \<times> resource_allocation list) list \<Rightarrow> string \<Rightarrow> runtime_view" where
  "runtime_view_of agents runtimeMap bt dispatches held agentId =
     (let entry = List.find (\<lambda>a. ag_id (ac_agent a) = agentId) agents; runtime = map_of runtimeMap agentId;
          stepId = resolveRuntimeStepId bt runtime
      in \<lparr>rv_agentId = agentId, rv_agent = map_option ac_agent entry,
          rv_isOnline = (case entry of Some e \<Rightarrow> ac_isOnline e | None \<Rightarrow> Option.bind runtime rb_is_online = Some True),
          rv_runtime = runtime, rv_currentStepId = stepId,
          rv_currentStepName = (if truthy stepId then map_option (\<lambda>g. step_label g (the stepId)) bt else None),
          rv_dispatches = arr (map_of dispatches agentId),
          rv_heldResources =
            (case map_of held agentId of
               Some r \<Rightarrow> r
             | None \<Rightarrow> arr (Option.bind entry (\<lambda>e. map_of held (ag_name (ac_agent e))))),
          rv_stateLabel = resolveRuntimeStateLabel runtime (map_option ac_agent entry)\<rparr>)"

definition runtimeViewAgents ::
  "(string \<Rightarrow> string \<Rightarrow> int) \<Rightarrow> agent_with_caps list \<Rightarrow> (string \<times> robot_snapshot) list \<Rightarrow> behavior_tree option \<Rightarrow>
   (string \<times> plan_execution_step list) list \<Rightarrow> (string \<times> resource_allocation list) list \<Rightarrow> string list \<Rightarrow> runtime_view list" where
  "runtimeViewAgents lc agents runtimeMap bt dispatches held agentIds =
     js_sort (\<lambda>l r. lc (rv_agentId l) (rv_agentId r)) (map (runtime_view_of agents runtimeMap bt dispatches held) agentIds)"

section \<open>The drawing of a task\<close>

record flow_view =
  fv_tree :: "behavior_tree option"
  fv_label :: string
  fv_agentId :: "string option"
  fv_taskId :: "string option"
  fv_isLoading :: bool
  fv_cache :: "(string \<times> behavior_tree) list"

text \<open>The loop over the candidates: the first one the server knows.\<close>

fun fetch_first :: "(string \<Rightarrow> 'e + behavior_tree) \<Rightarrow> string list \<Rightarrow> page_request list \<times> behavior_tree option" where
  "fetch_first get [] = ([], None)"
| "fetch_first get (i # is) =
     (if i = '''' then fetch_first get is
      else case get i of
             Inr t \<Rightarrow> ([GetTree i], Some t)
           | Inl _ \<Rightarrow> (let (rs, r) = fetch_first get is in (GetTree i # rs, r)))"

definition candidateIds :: "task_block \<Rightarrow> string list" where
  "candidateIds task =
     (if truthy (tb_behaviorTreeId task) then [the (tb_behaviorTreeId task)] else [])
     @ (if tb_taskId task \<noteq> '''' then [tb_taskId task] else [])"

definition first_cached :: "(string \<times> behavior_tree) list \<Rightarrow> string list \<Rightarrow> behavior_tree option" where
  "first_cached cache is = (case List.map_filter (map_of cache) is of [] \<Rightarrow> None | t # _ \<Rightarrow> Some t)"

definition handleOpenTaskFlow ::
  "(string \<Rightarrow> 'e + behavior_tree) \<Rightarrow> behavior_tree list \<Rightarrow> task_block option \<Rightarrow> flow_view \<Rightarrow> page_request list \<times> flow_view" where
  "handleOpenTaskFlow get treeList block s =
     (case block of
        None \<Rightarrow> ([], s)
      | Some task \<Rightarrow>
          let s1 = s\<lparr>fv_agentId := Some (tb_agentId task), fv_taskId := Some (tb_taskId task)\<rparr>;
              ids = candidateIds task;
              byName = List.find (\<lambda>t. bt_name t = tb_taskName task) treeList;
              cached = (case first_cached (fv_cache s) ids of
                          Some t \<Rightarrow> Some t
                        | None \<Rightarrow> Option.bind byName (\<lambda>t. map_of (fv_cache s) (bt_id t)))
          in case cached of
               Some t \<Rightarrow> ([], s1\<lparr>fv_label := tb_taskName task, fv_tree := Some t\<rparr>)
             | None \<Rightarrow>
                 let candidates = ids @ (case byName of Some t \<Rightarrow> [bt_id t] | None \<Rightarrow> []);
                     s2 = (if candidates = [] then s1 else s1\<lparr>fv_isLoading := False\<rparr>);
                     (requests, fetched) = fetch_first get candidates
                 in case fetched of
                      None \<Rightarrow> (requests, s2)
                    | Some t \<Rightarrow>
                        (requests, s2\<lparr>fv_cache := map_set (bt_id t) t (fv_cache s2), fv_label := tb_taskName task,
                                     fv_tree := Some t\<rparr>))"

definition selectedFlowBlock :: "(string \<times> task_block list) list \<Rightarrow> flow_view \<Rightarrow> task_block option" where
  "selectedFlowBlock rows s =
     (if \<not> truthy (fv_agentId s) \<or> \<not> truthy (fv_taskId s) then None
      else Option.bind (map_of rows (the (fv_agentId s))) (List.find (\<lambda>b. Some (tb_taskId b) = fv_taskId s)))"

definition selectedFlowLiveStepId :: "task_block option \<Rightarrow> robot_snapshot option \<Rightarrow> flow_view \<Rightarrow> string option" where
  "selectedFlowLiveStepId block runtime s =
     (case (fv_tree s, runtime) of
        (Some t, Some r) \<Rightarrow>
          if truthy (Option.bind block tb_runtimeTaskId) \<and> truthy (rb_current_task_id r)
             \<and> rb_current_task_id r \<noteq> Option.bind block tb_runtimeTaskId
          then None else resolveRuntimeStepId (Some t) (Some r)
      | _ \<Rightarrow> None)"

definition selectedFlowLiveStepName :: "string option \<Rightarrow> flow_view \<Rightarrow> string option" where
  "selectedFlowLiveStepName stepId s =
     (case fv_tree s of Some t \<Rightarrow> if truthy stepId then Some (step_label t (the stepId)) else None | None \<Rightarrow> None)"

definition selectedFlowStepIds :: "flow_view \<Rightarrow> string list" where
  "selectedFlowStepIds s = (case fv_tree s of Some t \<Rightarrow> uniq (map gs_id (arr (bt_steps t))) | None \<Rightarrow> [])"

definition selectedFlowCompletedSteps :: "task_block option \<Rightarrow> flow_view \<Rightarrow> string list" where
  "selectedFlowCompletedSteps block s =
     filter (\<lambda>i. i \<in> set (selectedFlowStepIds s)) (arr (Option.bind block tb_completedStepIds))"

definition selectedFlowFailedSteps :: "task_block option \<Rightarrow> flow_view \<Rightarrow> string list" where
  "selectedFlowFailedSteps block s =
     filter (\<lambda>i. i \<in> set (selectedFlowStepIds s)) (arr (Option.bind block tb_failedStepIds))"

definition closeTaskFlow :: "flow_view \<Rightarrow> flow_view" where
  "closeTaskFlow s = s\<lparr>fv_tree := None, fv_label := ''Task flow'', fv_agentId := None, fv_taskId := None, fv_isLoading := False\<rparr>"

section \<open>The selection of tasks\<close>

lemma set_selected_simps [simp]:
  "bp_selected (set_selected ids s) = ids" "bp_btCache (set_selected ids s) = bp_btCache s"
  "bp_selected (set_distributor d s) = bp_selected s" "bp_btCache (set_distributor d s) = bp_btCache s"
  "pg_distributor (bp_page (set_distributor d s)) = d" "pg_distributor (bp_page (set_selected ids s)) = pg_distributor (bp_page s)"
  "bp_page (cache_tree t s) = bp_page s" "bp_btCache (cache_tree t s) = map_set (bt_id t) t (bp_btCache s)"
  by (simp_all add: set_selected_def set_distributor_def cache_tree_def)

lemma fold_cache_page [simp]: "bp_page (fold cache_tree ts s) = bp_page s"
  by (induction ts arbitrary: s) simp_all

lemma fold_cache_other: "i \<notin> bt_id ` set ts \<Longrightarrow> map_of (bp_btCache (fold cache_tree ts s)) i = map_of (bp_btCache s) i"
  by (induction ts arbitrary: s) (auto simp: update_conv')

lemma fold_cache_mem: "i \<in> bt_id ` set ts \<Longrightarrow> \<exists>t \<in> set ts. bt_id t = i \<and> map_of (bp_btCache (fold cache_tree ts s)) i = Some t"
proof (induction ts arbitrary: s)
  case (Cons t ts)
  show ?case
  proof (cases "i \<in> bt_id ` set ts")
    case True
    then show ?thesis using Cons.IH[of "cache_tree t s"] by auto
  next
    case False
    then have "bt_id t = i" using Cons.prems by auto
    then show ?thesis using fold_cache_other[OF False, of "cache_tree t s"] by (auto simp: update_conv')
  qed
qed simp

text \<open>
  One answer of the server with the tasks that were asked for makes every selected task available, so that the effect
  sends no further request; a failed request changes nothing.
\<close>

theorem missing_loaded_once:
  assumes "set (missingIds s) \<subseteq> bt_id ` set trees"
  shows "missingIds (loadMissingBTs False (Inr trees) s) = []
    \<and> length (selectedBTs (loadMissingBTs False (Inr trees) s)) = length (bp_selected s)"
proof -
  let ?s = "fold cache_tree trees s"
  have av: "map_of (bp_btCache ?s) i \<noteq> None" if "i \<in> set (bp_selected s)" for i
  proof (cases "i \<in> bt_id ` set trees")
    case True
    then show ?thesis using fold_cache_mem[OF True, of s] by auto
  next
    case False
    then have "map_of (bp_btCache s) i \<noteq> None" using assms that by (auto simp: missingIds_def)
    then show ?thesis using fold_cache_other[OF False] by simp
  qed
  then have "length (List.map_filter (\<lambda>i. map_of (bp_btCache ?s) i) (bp_selected s)) = length (bp_selected s)"
    by (auto simp: List.map_filter_def filter_id_conv)
  with av show ?thesis by (auto simp: loadMissingBTs_def missingIds_def selectedBTs_def filter_empty_conv)
qed

lemma keep_existing:
  "treeIds \<noteq> [] \<Longrightarrow> set (bp_selected (keepExistingEffect treeIds s)) = set (bp_selected s) \<inter> set treeIds"
  "keepExistingEffect treeIds (keepExistingEffect treeIds s) = keepExistingEffect treeIds s"
  by (auto simp: keepExistingEffect_def) (simp add: set_selected_def)

text \<open>The first task is selected once: when the user empties the selection afterwards it stays empty.\<close>

lemma auto_select_once:
  "autoSelectEffect ids (autoSelectEffect ids s) = autoSelectEffect ids s"
  "bp_autoSelectedTask (autoSelectEffect (i # ids) s)"
  by (auto simp: autoSelectEffect_def set_selected_def split: list.splits)

text \<open>A click on a task toggles it, unless it cannot be loaded; the selection holds no task twice.\<close>

lemma toggle_selection:
  "bp_selected (snd (handleToggleBT get link i s)) =
     (if i \<in> set (bp_selected s) then filter (\<lambda>x. x \<noteq> i) (bp_selected s)
      else if map_of (bp_btCache s) i = None \<and> (\<exists>e. get i = Inl e) then bp_selected s
      else bp_selected s @ [i])"
  by (auto simp: handleToggleBT_def Let_def split: option.splits sum.splits)

lemma toggle_distinct: "distinct (bp_selected s) \<Longrightarrow> distinct (bp_selected (snd (handleToggleBT get link i s)))"
  by (simp add: toggle_selection)

lemma toggle_twice:
  assumes "i \<notin> set (bp_selected s)" "map_of (bp_btCache s) i \<noteq> None \<or> (\<exists>t. get i = Inr t)"
  shows "bp_selected (snd (handleToggleBT get link i (snd (handleToggleBT get link i s)))) = bp_selected s"
proof -
  have "bp_selected (snd (handleToggleBT get link i s)) = bp_selected s @ [i]" using assms by (auto simp: toggle_selection)
  then show ?thesis using assms(1) by (simp add: toggle_selection) (auto simp: filter_id_conv)
qed

text \<open>A task is linked to a distributor only when it has none: a click never moves a task from one distributor to another.\<close>

lemma toggle_links:
  "LinkTree j d \<in> set (fst (handleToggleBT get link i s)) \<Longrightarrow>
   j = i \<and> pg_distributor (bp_page s) = Some d \<and> d \<noteq> ''''
   \<and> (\<exists>t. (map_of (bp_btCache s) i = Some t \<or> map_of (bp_btCache s) i = None \<and> get i = Inr t) \<and> \<not> truthy (bt_task_distributor_id t))"
  by (auto simp: handleToggleBT_def Let_def truthy_def split: option.splits sum.splits if_splits)

section \<open>Distributors and their drafts\<close>

lemma select_storage:
  "pg_storage (bp_page (set_distributor d s)) = pg_storage (bp_page s)" "pg_storage (bp_page (set_selected ids s)) = pg_storage (bp_page s)"
  "pg_isApplyingScopedDraft (bp_page (set_distributor d s)) = pg_isApplyingScopedDraft (bp_page s)"
  "pg_isApplyingScopedDraft (bp_page (set_selected ids s)) = pg_isApplyingScopedDraft (bp_page s)"
  by (simp_all add: set_selected_def set_distributor_def)

lemma toggle_auto_links:
  assumes "pg_distributor (bp_page s) = None" "i \<notin> set (bp_selected s)" "map_of (bp_btCache s) i = Some bt"
    and "bt_task_distributor_id bt = Some d" "d \<noteq> ''''"
  shows "handleToggleBT get link i s = ([], set_distributor (Some d) (set_selected (bp_selected s @ [i]) s))"
  using assms by (simp add: handleToggleBT_def Let_def)

lemma persist_stored:
  assumes "\<not> pg_isApplyingScopedDraft p" "draft_ok (buildCurrentDraft p)"
  shows "readStoredDraft (pg_storage (persistDraft p)) (pg_distributor p) = Some (buildCurrentDraft p)"
proof -
  have "readStoredDraft (writeStoredDraft (pg_distributor p) (buildCurrentDraft p) st) (pg_distributor p) = Some (buildCurrentDraft p)"
    for st using read_write_same[of "pg_distributor p" "buildCurrentDraft p" st] assms(2) by simp
  then show ?thesis using assms(1) by (simp add: persistDraft_def Let_def readStoredDraft_def)
qed

text \<open>
  Choosing a distributor in its list brings up the draft stored for it. Choosing a task of that distributor on a page without
  a distributor only sets the id: the goals on the page stay, and the next write of the draft replaces the stored draft of
  the distributor by them.
\<close>

theorem auto_link_overwrites_draft:
  assumes "pg_distributor (bp_page s) = None" "i \<notin> set (bp_selected s)" "map_of (bp_btCache s) i = Some bt"
    and "bt_task_distributor_id bt = Some d" "d \<noteq> ''''" "\<not> pg_isApplyingScopedDraft (bp_page s)" "draft_ok (pg_draft (bp_page s))"
    and "readStoredDraft (pg_storage (bp_page s)) (Some d) = Some stored" "draft_ok stored" "d \<noteq> PDDL_NO_DISTRIBUTOR_SCOPE"
  shows "dr_goalState (pg_draft (bp_page (snd (handleSelectDistributor (Inr []) d s)))) = dr_goalState stored
    \<and> map_option dr_goalState (readStoredDraft (pg_storage (persistDraft (bp_page (snd (handleToggleBT get link i s))))) (Some d))
       = Some (dr_goalState (pg_draft (bp_page s)))"
proof
  let ?p = "bp_page s" and ?t = "bp_page (set_distributor (Some d) (set_selected (bp_selected s @ [i]) s))"
  have "getPddlDraftScopeKey None \<noteq> getPddlDraftScopeKey (Some d)"
    using scope_key_inj[of None "Some d"] assms(5,10) by auto
  then have "readStoredDraft (pg_storage (switchDistributorScope (Some d) ?p)) (Some d) = Some stored"
    using assms(8) by (simp add: switch_facts assms(1) read_write_other)
  then have "switchDistributorScope (Some d) ?p = applyStoredDraft (Some d) (Some (as_partial stored))
      (?p\<lparr>pg_storage := writeStoredDraft None (buildCurrentDraft ?p) (pg_storage ?p)\<rparr>)"
    by (simp add: switch_facts assms(1)) (simp add: switchDistributorScope_def assms(1) Let_def)
  then show "dr_goalState (pg_draft (bp_page (snd (handleSelectDistributor (Inr []) d s)))) = dr_goalState stored"
    using assms(1,9) by (simp add: handleSelectDistributor_def Let_def apply_draft)
  have ok: "draft_ok (buildCurrentDraft ?t)"
    using assms(5,7) by (simp add: draft_ok_def buildCurrentDraft_def set_distributor_def set_selected_def)
  have "readStoredDraft (pg_storage (persistDraft ?t)) (Some d) = Some (buildCurrentDraft ?t)"
    using persist_stored[OF _ ok] assms(6) by (simp add: select_storage)
  then show "map_option dr_goalState (readStoredDraft (pg_storage (persistDraft (bp_page (snd (handleToggleBT get link i s))))) (Some d))
       = Some (dr_goalState (pg_draft (bp_page s)))"
    by (simp add: toggle_auto_links[OF assms(1-5)]) (simp add: buildCurrentDraft_def set_distributor_def set_selected_def)
qed

text \<open>
  Choosing a distributor asks the server to move every selected task to it, and only those; with the answers every task that
  was selected is cached with the distributor.
\<close>

lemma select_distributor_requests:
  "fst (handleSelectDistributor reply d s) =
     map (\<lambda>bt. LinkTree (bt_id bt) d) (filter (\<lambda>bt. bt_task_distributor_id bt \<noteq> Some d) (selectedBTs s))"
  by (auto simp: handleSelectDistributor_def Let_def)

lemma selected_cached:
  assumes "\<forall>(i, t) \<in> set (bp_btCache s). bt_id t = i" "t \<in> set (selectedBTs s)"
  shows "map_of (bp_btCache s) (bt_id t) = Some t"
proof -
  from assms(2) obtain i where i: "map_of (bp_btCache s) i = Some t" by (auto simp: selectedBTs_def List.map_filter_def)
  with assms(1) show ?thesis using map_of_SomeD by fastforce
qed

theorem select_distributor_links:
  assumes cache: "\<forall>(i, t) \<in> set (bp_btCache s). bt_id t = i" and t: "t \<in> set (selectedBTs s)"
    and reply: "map bt_id updated = map bt_id (filter (\<lambda>bt. bt_task_distributor_id bt \<noteq> Some d) (selectedBTs s))"
      "\<forall>u \<in> set updated. bt_task_distributor_id u = Some d"
  shows "Option.bind (map_of (bp_btCache (snd (handleSelectDistributor (Inr updated) d s))) (bt_id t)) bt_task_distributor_id = Some d"
    (is "Option.bind (map_of (bp_btCache ?r) _) _ = _")
proof -
  let ?ts = "filter (\<lambda>bt. bt_task_distributor_id bt \<noteq> Some d) (selectedBTs s)"
  obtain s1 where s1: "?r = fold cache_tree updated s1" "bp_btCache s1 = bp_btCache s"
  proof (cases "?ts = []")
    case True
    with reply(1) have "updated = []" by simp
    with True that[of ?r] show ?thesis
      by (auto simp: handleSelectDistributor_def Let_def filter_empty_conv)
  next
    case False
    with that show ?thesis by (auto simp: handleSelectDistributor_def Let_def)
  qed
  show ?thesis
  proof (cases "bt_id t \<in> bt_id ` set updated")
    case True
    from fold_cache_mem[OF this, of s1] reply(2) show ?thesis by (auto simp: s1)
  next
    case False
    moreover have "bt_id ` set updated = bt_id ` set ?ts" using reply(1) by (metis set_map)
    ultimately have "bt_task_distributor_id t = Some d" using t by auto
    then show ?thesis using fold_cache_other[OF False, of s1] selected_cached[OF cache t] by (simp add: s1)
  qed
qed

text \<open>
  When one of the updates fails no answer is taken over, though the server has already moved the other tasks: the cache keeps
  them at their old distributor.
\<close>

lemma select_distributor_fails:
  "bp_btCache (snd (handleSelectDistributor (Inl e) d s)) = bp_btCache s"
  by (simp add: handleSelectDistributor_def Let_def)

lemma create_td: "trim n \<noteq> '''' \<Longrightarrow> pg_distributor (bp_page (snd (snd (handleCreateTd (Inr i) n s)))) = Some i"
  by (simp add: handleCreateTd_def switch_facts)

text \<open>Deleting the distributor that is selected leaves none selected; its draft is written once more before.\<close>

lemma delete_td:
  "pg_distributor (bp_page (snd (handleDeleteTd (Inr ()) i s))) \<noteq> Some i"
  "pg_distributor (bp_page s) \<noteq> Some i \<Longrightarrow> snd (handleDeleteTd reply i s) = s"
  by (auto simp: handleDeleteTd_def switch_facts split: sum.splits)

lemma delete_td_keeps_draft:
  assumes "pg_distributor (bp_page s) = Some i" "draft_ok (buildCurrentDraft (bp_page s))"
  shows "readStoredDraft (pg_storage (bp_page (snd (handleDeleteTd (Inr ()) i s)))) (Some i) = Some (buildCurrentDraft (bp_page s))"
proof -
  have "readStoredDraft (writeStoredDraft (pg_distributor (bp_page s)) (buildCurrentDraft (bp_page s)) (pg_storage (bp_page s)))
      (pg_distributor (bp_page s)) = Some (buildCurrentDraft (bp_page s))"
    using read_write_same[of "pg_distributor (bp_page s)" "buildCurrentDraft (bp_page s)" "pg_storage (bp_page s)"] assms(2) by simp
  then show ?thesis using assms(1) by (simp add: handleDeleteTd_def switch_facts)
qed

section \<open>The monitoring cards\<close>

lemma defaults_dom: "map_of (defaultsByKey unquote vars) k \<noteq> None \<longleftrightarrow> k \<in> ts_name ` set vars"
proof -
  have "map_of (foldl (\<lambda>m sv. map_set (ts_name sv) (g sv) m) m0 vars) k \<noteq> None \<longleftrightarrow> k \<in> ts_name ` set vars \<or> map_of m0 k \<noteq> None"
    for g :: "td_state \<Rightarrow> string" and m0
    by (induction vars arbitrary: m0) (auto simp: update_conv')
  then show ?thesis by (simp add: defaultsByKey_def)
qed

text \<open>
  The keys a card resets are the status and the message of its agent or resource, as far as the distributor defines such
  states, each with the default of the state; a card of something without such states sends no request.
\<close>

theorem reset_card_keys:
  "let c = monitoring_card_of unquote (defaultsByKey unquote vars) st kind i label
   in set (mc_resetKeys c) = {label @ ''_status'', label @ ''_msg''} \<inter> ts_name ` set vars
    \<and> distinct (mc_resetKeys c)
    \<and> mc_resetValues c = map (\<lambda>k. (k, normalizePlanningStateInitialValue unquote (map_of (defaultsByKey unquote vars) k))) (mc_resetKeys c)
    \<and> (fst (handleResetRealtimeMonitorCard reply (Some sid) (Some session) c) = [] \<longleftrightarrow> sid = '''' \<or> mc_resetKeys c = [])"
  using defaults_dom[of unquote vars "label @ ''_status''"] defaults_dom[of unquote vars "label @ ''_msg''"]
  by (auto simp: monitoring_card_of_def Let_def handleResetRealtimeMonitorCard_def)

text \<open>A card shows the value of the session, or the default when the session has none.\<close>

lemma card_values:
  assumes "map_of st (label @ ''_status'') = Some v"
  shows "mc_statusValue (monitoring_card_of unquote defaults st kind i label) = v"
    "mc_statusKey (monitoring_card_of unquote defaults st kind i label) = Some (label @ ''_status'')"
  using assms by (simp_all add: monitoring_card_of_def Let_def)

text \<open>
  Two things of one name share the keys: resetting the card of an agent also resets the resource that has its name.
\<close>

lemma cards_share_keys:
  "mc_resetKeys (monitoring_card_of unquote defaults st AgentCard i label) = mc_resetKeys (monitoring_card_of unquote defaults st ResourceCard j label)"
  by (simp add: monitoring_card_of_def Let_def)

section \<open>Agents at run time and the drawing of a task\<close>

lemma runtime_view_agent [simp]: "rv_agentId (runtime_view_of agents runtimeMap bt dispatches held i) = i"
  by (simp add: runtime_view_of_def Let_def)

lemma runtime_agents_perm:
  "mset (map rv_agentId (runtimeViewAgents lc agents runtimeMap bt dispatches held ids)) = mset ids"
  unfolding runtimeViewAgents_def mset_map by (simp add: image_mset.compositionality comp_def)

lemma fetch_first_result:
  "snd (fetch_first get ids) = Some t \<longleftrightarrow>
     (\<exists>pre i post. ids = pre @ i # post \<and> i \<noteq> '''' \<and> get i = Inr t \<and> (\<forall>j \<in> set pre. j = '''' \<or> (\<exists>e. get j = Inl e)))"
proof (induction ids)
  case (Cons i ids)
  show ?case
  proof (cases "i = '''' \<or> (\<exists>e. get i = Inl e)")
    case True
    then have "snd (fetch_first get (i # ids)) = snd (fetch_first get ids)" by (auto split: prod.splits)
    then show ?thesis using Cons.IH True
      by (auto simp: Cons_eq_append_conv) (metis append_Cons set_ConsD sum.distinct(1))+
  next
    case False
    then obtain t' where "get i = Inr t'" by (cases "get i") auto
    then have "snd (fetch_first get (i # ids)) = Some t'" using False by simp
    moreover have "pre = []" if "i # ids = pre @ k # post" "\<forall>j \<in> set pre. j = '''' \<or> (\<exists>e. get j = Inl e)" for pre k post
      using that False by (cases pre) auto
    ultimately show ?thesis using False \<open>get i = Inr t'\<close> by (metis append_Nil list.inject empty_iff list.set(1) option.inject sum.inject(2))
  qed
qed simp

text \<open>
  Opening the drawing of a block: a tree in the cache is shown without a request; otherwise the candidates (the task of the
  block, its id, a task of its name) are asked for in that order until one is found, which is then cached.
\<close>

lemma flow_cached:
  assumes "first_cached (fv_cache s) (candidateIds task) = Some t"
  shows "fst (handleOpenTaskFlow get trees (Some task) s) = []" "fv_tree (snd (handleOpenTaskFlow get trees (Some task) s)) = Some t"
  using assms by (simp_all add: handleOpenTaskFlow_def Let_def)

lemma flow_fetched:
  assumes "first_cached (fv_cache s) (candidateIds task) = None" "List.find (\<lambda>t. bt_name t = tb_taskName task) trees = None"
    and "snd (fetch_first get (candidateIds task)) = Some t"
  shows "fv_tree (snd (handleOpenTaskFlow get trees (Some task) s)) = Some t"
    "map_of (fv_cache (snd (handleOpenTaskFlow get trees (Some task) s))) (bt_id t) = Some t"
  using assms by (simp_all add: handleOpenTaskFlow_def Let_def case_prod_beta update_conv')

text \<open>The steps marked on the drawing are steps of the tree.\<close>

lemma flow_marks:
  "set (selectedFlowCompletedSteps b s) \<union> set (selectedFlowFailedSteps b s) \<subseteq> (case fv_tree s of Some t \<Rightarrow> gs_id ` set (arr (bt_steps t)) | None \<Rightarrow> {})"
  by (auto simp: selectedFlowCompletedSteps_def selectedFlowFailedSteps_def selectedFlowStepIds_def split: option.splits)

lemma flow_closed: "selectedFlowBlock rows (closeTaskFlow s) = None" "selectedFlowStepIds (closeTaskFlow s) = []"
  by (simp_all add: selectedFlowBlock_def closeTaskFlow_def selectedFlowStepIds_def)

end
