(* ===== verification/Pddl_Goals.thy ===== *)
theory Pddl_Goals
  imports Fleet_Types
begin

text \<open>
  The editors of goals on the planning page: \<open>GoalEditor\<close> (\<^verbatim>\<open>pages/PDDL/components/GoalEditor.tsx\<close>), which edits a map from
  variables to wanted values, and \<open>RealtimeGoalEditor\<close> (\<^verbatim>\<open>components/RealtimeGoalEditor.tsx\<close>), which edits the rules of a
  realtime session. Each handler is a function from the current value to the one passed to \<open>onChange\<close>.
\<close>

section \<open>Goal values\<close>

type_synonym goal_values = "(string \<times> string) list"

definition unusedVars :: "td_state list \<Rightarrow> goal_values \<Rightarrow> td_state list" where
  "unusedVars stateVars values = filter (\<lambda>sv. ts_name sv \<notin> fst ` set values) stateVars"

definition updateValue :: "string \<Rightarrow> string \<Rightarrow> goal_values \<Rightarrow> goal_values" where
  "updateValue variable val values = map_set variable val values"

definition removeEntry :: "string \<Rightarrow> goal_values \<Rightarrow> goal_values" where
  "removeEntry variable values = AList.delete variable values"

text \<open>\<open>sv?.initial_value ?? ''\<close>\<close>

definition initial_of :: "td_state list \<Rightarrow> string \<Rightarrow> string" where
  "initial_of stateVars variable =
     (case List.find (\<lambda>s. ts_name s = variable) stateVars of
        Some sv \<Rightarrow> coalesce (ts_initial_value sv) ''''
      | None \<Rightarrow> '''')"

definition addEntry :: "td_state list \<Rightarrow> string \<Rightarrow> goal_values \<Rightarrow> goal_values" where
  "addEntry stateVars variable values = map_set variable (initial_of stateVars variable) values"

text \<open>The values and the text of the input for a variable of one's own.\<close>

definition addCustomEntry :: "td_state list \<Rightarrow> goal_values \<times> string \<Rightarrow> goal_values \<times> string" where
  "addCustomEntry stateVars st =
     (let (values, customVariableName) = st; variable = trim customVariableName
      in if variable = '''' \<or> map_of values variable \<noteq> None then st
         else (map_set variable (initial_of stateVars variable) values, ''''))"

definition customDisabled :: "goal_values \<Rightarrow> string \<Rightarrow> bool" where
  "customDisabled values customVariableName \<longleftrightarrow>
     trim customVariableName = '''' \<or> map_of values (trim customVariableName) \<noteq> None"

section \<open>Realtime goals\<close>

record resource_type_option =
  ro_id :: string
  ro_name :: string
  ro_instanceCount :: "nat option"

definition cloneCondition :: "planning_condition \<Rightarrow> planning_condition" where
  "cloneCondition c = \<lparr>pc_variable = pc_variable c, pc_operator = pc_operator c, pc_value = pc_value c\<rparr>"

definition createEmptyGoal :: "nat \<Rightarrow> realtime_goal_rule" where
  "createEmptyGoal index =
     \<lparr>rg_id = ''realtime_goal_'' @ show_nat (index + 1), rg_name = ''Realtime goal '' @ show_nat (index + 1),
      rg_priority = int index + 1, rg_enabled = True, rg_resource_type_id = None, rg_resource_type_ids = None,
      rg_activation_conditions = Some [], rg_goal_state = []\<rparr>"

definition createDefaultCondition :: "td_state list \<Rightarrow> planning_condition" where
  "createDefaultCondition stateVars =
     (case stateVars of
        [] \<Rightarrow> \<lparr>pc_variable = '''', pc_operator = Some ''=='', pc_value = ''''\<rparr>
      | sv # _ \<Rightarrow> \<lparr>pc_variable = ts_name sv, pc_operator = Some ''=='',
                  pc_value = (if ts_type sv = ''bool'' then ''true'' else orS (ts_initial_value sv) '''')\<rparr>)"

definition stateVarMap :: "td_state list \<Rightarrow> (string \<times> td_state) list" where
  "stateVarMap stateVars = foldl (\<lambda>m sv. map_set (ts_name sv) sv m) [] stateVars"

definition activationVariableSuggestions :: "td_state list \<Rightarrow> string list" where
  "activationVariableSuggestions stateVars =
     uniq (map ts_name stateVars @ [''{{agent.name}}_status'', ''{{agent.name}}_location'', ''{{resource.name}}_status''])"

definition updateGoal ::
  "string \<Rightarrow> (realtime_goal_rule \<Rightarrow> realtime_goal_rule) \<Rightarrow> realtime_goal_rule list \<Rightarrow> realtime_goal_rule list" where
  "updateGoal goalID updater goals = map (\<lambda>g. if rg_id g = goalID then updater g else g) goals"

definition getGoalResourceTypeIDs :: "realtime_goal_rule \<Rightarrow> string list" where
  "getGoalResourceTypeIDs goal =
     (let ids = arr (rg_resource_type_ids goal)
      in if length ids > 0 then uniq (filter (\<lambda>i. i \<noteq> '''') (map trim ids))
         else case rg_resource_type_id goal of
                Some i \<Rightarrow> if trim i \<noteq> '''' then [trim i] else []
              | None \<Rightarrow> [])"

definition addGoalResourceTypeID :: "string \<Rightarrow> string \<Rightarrow> realtime_goal_rule list \<Rightarrow> realtime_goal_rule list" where
  "addGoalResourceTypeID goalID resourceTypeID goals =
     (let nextID = trim resourceTypeID
      in if nextID = '''' then goals
         else updateGoal goalID (\<lambda>goal.
           let current = getGoalResourceTypeIDs goal
           in if nextID \<in> set current then goal
              else goal\<lparr>rg_resource_type_ids := Some (current @ [nextID]), rg_resource_type_id := None\<rparr>) goals)"

definition removeGoalResourceTypeID :: "string \<Rightarrow> string \<Rightarrow> realtime_goal_rule list \<Rightarrow> realtime_goal_rule list" where
  "removeGoalResourceTypeID goalID resourceTypeID goals =
     updateGoal goalID (\<lambda>goal.
       goal\<lparr>rg_resource_type_ids := Some (filter (\<lambda>i. i \<noteq> resourceTypeID) (getGoalResourceTypeIDs goal)),
            rg_resource_type_id := None\<rparr>) goals"

definition clearGoalResourceTypes :: "string \<Rightarrow> realtime_goal_rule list \<Rightarrow> realtime_goal_rule list" where
  "clearGoalResourceTypes goalID goals =
     updateGoal goalID (\<lambda>goal. goal\<lparr>rg_resource_type_ids := Some [], rg_resource_type_id := None\<rparr>) goals"

definition selectedResourceTypes :: "resource_type_option list \<Rightarrow> realtime_goal_rule \<Rightarrow> resource_type_option list" where
  "selectedResourceTypes resourceTypes goal =
     map (\<lambda>i. case List.find (\<lambda>t. ro_id t = i) resourceTypes of
                Some t \<Rightarrow> t | None \<Rightarrow> \<lparr>ro_id = i, ro_name = i, ro_instanceCount = None\<rparr>) (getGoalResourceTypeIDs goal)"

definition availableResourceTypes :: "resource_type_option list \<Rightarrow> realtime_goal_rule \<Rightarrow> resource_type_option list" where
  "availableResourceTypes resourceTypes goal =
     filter (\<lambda>t. ro_id t \<notin> set (getGoalResourceTypeIDs goal)) resourceTypes"

definition addGoal :: "realtime_goal_rule list \<Rightarrow> realtime_goal_rule list" where
  "addGoal goals = goals @ [createEmptyGoal (length goals)]"

definition removeGoal :: "string \<Rightarrow> realtime_goal_rule list \<Rightarrow> realtime_goal_rule list" where
  "removeGoal goalID goals = filter (\<lambda>g. rg_id g \<noteq> goalID) goals"

text \<open>\<open>Number(text) || goalIndex + 1\<close>: \<open>None\<close> for a text that is no number; priorities are whole numbers.\<close>

definition setGoalPriority :: "string \<Rightarrow> nat \<Rightarrow> int option \<Rightarrow> realtime_goal_rule list \<Rightarrow> realtime_goal_rule list" where
  "setGoalPriority goalID goalIndex parsed goals =
     updateGoal goalID (\<lambda>g. g\<lparr>rg_priority := (case parsed of Some n \<Rightarrow> if n = 0 then int goalIndex + 1 else n
                                                   | None \<Rightarrow> int goalIndex + 1)\<rparr>) goals"

definition goal_addCondition :: "td_state list \<Rightarrow> string \<Rightarrow> realtime_goal_rule list \<Rightarrow> realtime_goal_rule list" where
  "goal_addCondition stateVars goalID goals =
     updateGoal goalID (\<lambda>g. g\<lparr>rg_activation_conditions :=
       Some (arr (rg_activation_conditions g) @ [createDefaultCondition stateVars])\<rparr>) goals"

definition goal_updateCondition ::
  "string \<Rightarrow> nat \<Rightarrow> (planning_condition \<Rightarrow> planning_condition) \<Rightarrow> realtime_goal_rule list \<Rightarrow> realtime_goal_rule list" where
  "goal_updateCondition goalID index updater goals =
     updateGoal goalID (\<lambda>g. g\<lparr>rg_activation_conditions :=
       Some (map (\<lambda>(k, c). if k = index then updater c else cloneCondition c)
              (zip [0..<length (arr (rg_activation_conditions g))] (arr (rg_activation_conditions g))))\<rparr>) goals"

definition goal_removeCondition :: "string \<Rightarrow> nat \<Rightarrow> realtime_goal_rule list \<Rightarrow> realtime_goal_rule list" where
  "goal_removeCondition goalID index goals =
     updateGoal goalID (\<lambda>g. g\<lparr>rg_activation_conditions :=
       Some (map snd (filter (\<lambda>(k, c). k \<noteq> index)
              (zip [0..<length (arr (rg_activation_conditions g))] (arr (rg_activation_conditions g)))))\<rparr>) goals"

text \<open>Typing the variable of a condition: a known state brings its default value, another text keeps the value.\<close>

definition setConditionVariable :: "td_state list \<Rightarrow> string \<Rightarrow> planning_condition \<Rightarrow> planning_condition" where
  "setConditionVariable stateVars v c =
     c\<lparr>pc_variable := v,
       pc_value := (case map_of (stateVarMap stateVars) v of
                      Some sv \<Rightarrow> if ts_type sv = ''bool'' then ''true'' else orS (ts_initial_value sv) ''''
                    | None \<Rightarrow> pc_value c)\<rparr>"

definition setGoalName :: "string \<Rightarrow> string \<Rightarrow> realtime_goal_rule list \<Rightarrow> realtime_goal_rule list" where
  "setGoalName goalID v goals = updateGoal goalID (\<lambda>g. g\<lparr>rg_name := v\<rparr>) goals"

definition setGoalEnabled :: "string \<Rightarrow> bool \<Rightarrow> realtime_goal_rule list \<Rightarrow> realtime_goal_rule list" where
  "setGoalEnabled goalID checked goals = updateGoal goalID (\<lambda>g. g\<lparr>rg_enabled := checked\<rparr>) goals"

definition setGoalState :: "string \<Rightarrow> goal_values \<Rightarrow> realtime_goal_rule list \<Rightarrow> realtime_goal_rule list" where
  "setGoalState goalID nextGoalState goals = updateGoal goalID (\<lambda>g. g\<lparr>rg_goal_state := nextGoalState\<rparr>) goals"

definition setConditionOperator :: "string \<Rightarrow> planning_condition \<Rightarrow> planning_condition" where
  "setConditionOperator v c = c\<lparr>pc_operator := Some v\<rparr>"

definition setConditionValue :: "string \<Rightarrow> planning_condition \<Rightarrow> planning_condition" where
  "setConditionValue v c = c\<lparr>pc_value := v\<rparr>"

section \<open>Properties of the goal editor\<close>

lemma add_then_remove:
  "variable \<notin> fst ` set values \<Longrightarrow> removeEntry variable (addEntry stateVars variable values) = values"
  by (simp add: removeEntry_def addEntry_def map_set_fresh AList.delete_eq filter_id_conv image_iff) force

lemma unused_partition:
  "sv \<in> set stateVars \<Longrightarrow> sv \<in> set (unusedVars stateVars values) \<longleftrightarrow> map_of values (ts_name sv) = None"
  by (auto simp: unusedVars_def map_of_eq_None_iff)

text \<open>The button for a variable of one's own is enabled exactly when it adds an entry.\<close>

lemma custom_button:
  "\<not> customDisabled values name \<longleftrightarrow>
     addCustomEntry stateVars (values, name) = (values @ [(trim name, initial_of stateVars (trim name))], '''')"
  by (auto simp: customDisabled_def addCustomEntry_def Let_def map_of_eq_None_iff map_set_fresh)

lemma goal_keys:
  "distinct (map fst values) \<Longrightarrow> distinct (map fst (updateValue v x values))"
  "distinct (map fst values) \<Longrightarrow> distinct (map fst (removeEntry v values))"
  "distinct (map fst values) \<Longrightarrow> distinct (map fst (addEntry sv v values))"
  by (simp_all add: updateValue_def removeEntry_def addEntry_def distinct_update distinct_delete)

section \<open>Properties of the realtime goals\<close>

lemma zip_index_map: "map snd (zip [0..<length xs] xs) = xs"
  by (simp add: map_snd_zip)

lemma clone_id [simp]: "cloneCondition c = c"
  by (simp add: cloneCondition_def)

lemma map_at_index: "k < length xs \<Longrightarrow> map (\<lambda>(j, x). if j = k then f x else x) (zip [0..<length xs] xs) = xs[k := f (xs ! k)]"
  by (rule nth_equalityI) (auto simp: nth_list_update)

lemma goal_condition_update:
  "index < length (arr (rg_activation_conditions g)) \<Longrightarrow>
   goal_updateCondition (rg_id g) index f [g] =
     [g\<lparr>rg_activation_conditions := Some ((arr (rg_activation_conditions g))[index := f (arr (rg_activation_conditions g) ! index)])\<rparr>]"
  by (simp add: goal_updateCondition_def updateGoal_def map_at_index cong: if_cong)

text \<open>Every edit but the addition of a goal keeps the ids; with distinct ids an edit changes the one rule it names.\<close>

lemma updateGoal_ids:
  "(\<And>g. rg_id (f g) = rg_id g) \<Longrightarrow> map rg_id (updateGoal i f goals) = map rg_id goals"
  by (simp add: updateGoal_def)

lemma goal_edits_keep_ids:
  "map rg_id (setGoalName i v goals) = map rg_id goals" "map rg_id (setGoalEnabled i b goals) = map rg_id goals"
  "map rg_id (setGoalState i gs goals) = map rg_id goals" "map rg_id (setGoalPriority i k n goals) = map rg_id goals"
  "map rg_id (addGoalResourceTypeID i ty goals) = map rg_id goals" "map rg_id (removeGoalResourceTypeID i ty goals) = map rg_id goals"
  "map rg_id (goal_addCondition vars i goals) = map rg_id goals" "map rg_id (goal_updateCondition i k f goals) = map rg_id goals"
  "map rg_id (goal_removeCondition i k goals) = map rg_id goals"
  by (simp_all add: setGoalName_def setGoalEnabled_def setGoalState_def setGoalPriority_def addGoalResourceTypeID_def
      removeGoalResourceTypeID_def goal_addCondition_def goal_updateCondition_def goal_removeCondition_def updateGoal_ids Let_def)

lemma updateGoal_local:
  assumes "distinct (map rg_id goals)" "k < length goals"
  shows "updateGoal (rg_id (goals ! k)) f goals = goals[k := f (goals ! k)]"
proof (rule nth_equalityI)
  fix j assume "j < length (updateGoal (rg_id (goals ! k)) f goals)"
  then have j: "j < length goals" by (simp add: updateGoal_def)
  have "rg_id (goals ! j) = rg_id (goals ! k) \<longleftrightarrow> j = k"
    using assms j by (auto simp: distinct_conv_nth)
  then show "updateGoal (rg_id (goals ! k)) f goals ! j = goals[k := f (goals ! k)] ! j"
    using j by (auto simp: updateGoal_def nth_list_update)
qed (simp add: updateGoal_def)

text \<open>The scope of a goal: adding a type adds it, removing it removes it, whatever form the scope was stored in.\<close>

lemma scope_ids: "distinct (getGoalResourceTypeIDs g) \<and> (\<forall>i \<in> set (getGoalResourceTypeIDs g). i \<noteq> '''' \<and> trimmed i)"
  by (auto simp: getGoalResourceTypeIDs_def Let_def trimmed_def split: option.splits)

lemma scope_stored:
  assumes "ids \<noteq> []" "distinct ids" "\<And>i. i \<in> set ids \<Longrightarrow> i \<noteq> '''' \<and> trimmed i"
  shows "getGoalResourceTypeIDs (g\<lparr>rg_resource_type_ids := Some ids, rg_resource_type_id := None\<rparr>) = ids"
proof -
  have "map trim ids = ids" by (rule map_idI) (use assms(3) in \<open>auto simp: trimmed_def\<close>)
  moreover have "filter (\<lambda>i. i \<noteq> '''') ids = ids" using assms(3) by (auto simp: filter_id_conv)
  ultimately show ?thesis using assms(1,2) by (simp add: getGoalResourceTypeIDs_def Let_def uniq_distinct)
qed

lemma scope_add:
  assumes "trim i \<noteq> ''''"
  shows "getGoalResourceTypeIDs (hd (addGoalResourceTypeID (rg_id g) i [g])) =
           set_add (trim i) (getGoalResourceTypeIDs g)"
proof (cases "trim i \<in> set (getGoalResourceTypeIDs g)")
  case True
  then show ?thesis using assms by (simp add: addGoalResourceTypeID_def updateGoal_def Let_def set_add_def)
next
  case False
  have "getGoalResourceTypeIDs (g\<lparr>rg_resource_type_ids := Some (getGoalResourceTypeIDs g @ [trim i]), rg_resource_type_id := None\<rparr>)
      = getGoalResourceTypeIDs g @ [trim i]"
    by (rule scope_stored) (use False scope_ids[of g] assms in \<open>auto simp: trimmed_def\<close>)
  then show ?thesis using assms False by (simp add: addGoalResourceTypeID_def updateGoal_def Let_def set_add_def)
qed

text \<open>
  Removing the last type of a scope stores an empty list, which means no restriction: the goal then applies to all resources.
\<close>

lemma scope_remove:
  "getGoalResourceTypeIDs (hd (removeGoalResourceTypeID (rg_id g) i [g])) = filter (\<lambda>x. x \<noteq> i) (getGoalResourceTypeIDs g)"
proof (cases "filter (\<lambda>x. x \<noteq> i) (getGoalResourceTypeIDs g) = []")
  case True
  then show ?thesis by (simp add: removeGoalResourceTypeID_def updateGoal_def getGoalResourceTypeIDs_def[of "_\<lparr>rg_resource_type_id := None\<rparr>"])
next
  case False
  have "getGoalResourceTypeIDs (g\<lparr>rg_resource_type_ids := Some (filter (\<lambda>x. x \<noteq> i) (getGoalResourceTypeIDs g)), rg_resource_type_id := None\<rparr>)
      = filter (\<lambda>x. x \<noteq> i) (getGoalResourceTypeIDs g)"
    by (rule scope_stored) (use False scope_ids[of g] in auto)
  then show ?thesis by (simp add: removeGoalResourceTypeID_def updateGoal_def)
qed

text \<open>
  The id of a new goal is made from the number of goals. After a goal was removed it is the id of another goal, so that an
  edit of one changes both and removing one removes both.
\<close>

lemma new_goal_id_clash:
  "let goals = removeGoal ''realtime_goal_1'' (addGoal (addGoal [])) in
     map rg_id (addGoal goals) = [''realtime_goal_2'', ''realtime_goal_2'']
     \<and> removeGoal ''realtime_goal_2'' (addGoal goals) = []"
  by code_simp

lemma new_goal_fresh:
  assumes "\<And>g. g \<in> set goals \<Longrightarrow> \<exists>n \<le> length goals. rg_id g = ''realtime_goal_'' @ show_nat n"
  shows "rg_id (createEmptyGoal (length goals)) \<notin> rg_id ` set goals"
proof
  assume "rg_id (createEmptyGoal (length goals)) \<in> rg_id ` set goals"
  then obtain g where g: "g \<in> set goals" "rg_id g = ''realtime_goal_'' @ show_nat (length goals + 1)"
    by (auto simp: createEmptyGoal_def)
  then obtain n where "n \<le> length goals" "show_nat n = show_nat (length goals + 1)" using assms[OF g(1)] by auto
  then show False by simp
qed

text \<open>A goal on a state of type bool starts with the initial value of the state, which may be neither true nor false.\<close>

lemma bool_goal_starts_empty:
  "ts_type sv = ''bool'' \<Longrightarrow> ts_initial_value sv = None \<Longrightarrow> addEntry [sv] (ts_name sv) [] = [(ts_name sv, '''')]"
  by (simp add: addEntry_def initial_of_def)

end
