(* ===== verification/Rest_Client.thy ===== *)
theory Rest_Client
  imports Node_Utils
begin

text \<open>
  The REST client (\<^verbatim>\<open>api/client.ts\<close>): every function is a definition of the request it sends, with method, URL below the base
  \<open>/api\<close>, query, headers and body. Bodies are \<open>json\<close>; a query value \<open>JUndef\<close> is one that axios leaves out. The answers are
  returned as they are, but for those the last section changes.
\<close>

section \<open>Requests\<close>

datatype http_method = GET | POST | PUT | PATCH | DELETE

record api_request =
  rq_method :: http_method
  rq_url :: string
  rq_query :: "(string \<times> json) list"
  rq_headers :: "(string \<times> string) list"
  rq_body :: "json option"

text \<open>A template literal such as \<^verbatim>\<open>/agents/${id}/logs\<close> is the list of its segments.\<close>

definition url :: "string list \<Rightarrow> string" where
  "url segs = concat (map (\<lambda>s. ''/'' @ s) segs)"

definition api_get :: "string list \<Rightarrow> api_request" where
  "api_get segs = \<lparr>rq_method = GET, rq_url = url segs, rq_query = [], rq_headers = [], rq_body = None\<rparr>"

definition api_post :: "string list \<Rightarrow> json option \<Rightarrow> api_request" where
  "api_post segs body = \<lparr>rq_method = POST, rq_url = url segs, rq_query = [], rq_headers = [], rq_body = body\<rparr>"

definition api_put :: "string list \<Rightarrow> json option \<Rightarrow> api_request" where
  "api_put segs body = \<lparr>rq_method = PUT, rq_url = url segs, rq_query = [], rq_headers = [], rq_body = body\<rparr>"

definition api_patch :: "string list \<Rightarrow> json option \<Rightarrow> api_request" where
  "api_patch segs body = \<lparr>rq_method = PATCH, rq_url = url segs, rq_query = [], rq_headers = [], rq_body = body\<rparr>"

definition api_delete :: "string list \<Rightarrow> api_request" where
  "api_delete segs = \<lparr>rq_method = DELETE, rq_url = url segs, rq_query = [], rq_headers = [], rq_body = None\<rparr>"

datatype offline_mode = OffAll | OffTemplateOnly | OffNone

fun offline_mode_str :: "offline_mode \<Rightarrow> string" where
  "offline_mode_str OffAll = ''all''"
| "offline_mode_str OffTemplateOnly = ''template_only''"
| "offline_mode_str OffNone = ''none''"

text \<open>\<open>URLSearchParams.toString\<close> for names and values that need no encoding.\<close>

definition query_string :: "(string \<times> string) list \<Rightarrow> string" where
  "query_string params = js_join ''&'' (map (\<lambda>(k, v). k @ ''='' @ v) params)"

definition session_header :: "string option \<Rightarrow> (string \<times> string) list" where
  "session_header sessionId = (if truthy sessionId then [(''X-Session-ID'', the sessionId)] else [])"

definition limit_query :: "rat option \<Rightarrow> (string \<times> json) list" where
  "limit_query limit = (case limit of Some n \<Rightarrow> if n \<noteq> 0 then [(''limit'', JNum (Fin n))] else [] | None \<Rightarrow> [])"

text \<open>
  \<open>encodeURIComponent\<close>: letters, digits and the marks below stay, every other character becomes its UTF-8 bytes in hexadecimal.
  Characters are code points up to 255.
\<close>

definition hex_digit :: "nat \<Rightarrow> char" where
  "hex_digit n = (if n < 10 then char_of (48 + n) else char_of (55 + n))"

definition percent :: "nat \<Rightarrow> string" where
  "percent b = [CHR ''%'', hex_digit (b div 16), hex_digit (b mod 16)]"

definition uri_mark :: "char \<Rightarrow> bool" where
  "uri_mark c \<longleftrightarrow> c \<in> set [CHR ''-'', CHR ''_'', CHR ''.'', CHR ''!'', CHR ''~'', CHR ''*'', CHR 0x27, CHR ''('', CHR '')'']"

definition uri_unreserved :: "char \<Rightarrow> bool" where
  "uri_unreserved c \<longleftrightarrow>
     (let n = (of_char c :: nat) in 48 \<le> n \<and> n \<le> 57 \<or> 65 \<le> n \<and> n \<le> 90 \<or> 97 \<le> n \<and> n \<le> 122) \<or> uri_mark c"

definition uri_char :: "char \<Rightarrow> string" where
  "uri_char c =
     (let n = (of_char c :: nat)
      in if uri_unreserved c then [c]
         else if n < 128 then percent n
         else percent (192 + n div 64) @ percent (128 + n mod 64))"

definition encodePathSegment :: "string \<Rightarrow> string" where
  "encodePathSegment v = concat (map uri_char v)"

section \<open>The functions of the client\<close>

subsection \<open>Agents\<close>

definition agentApi_list :: "offline_mode option \<Rightarrow> bool option \<Rightarrow> api_request" where
  "agentApi_list offlineMode cleanupStale =
     (let params = (case offlineMode of Some m \<Rightarrow> [(''offline_mode'', offline_mode_str m)] | None \<Rightarrow> [])
                  @ (if cleanupStale = Some True then [(''cleanup_stale'', ''true'')] else []);
          query = query_string params
      in (api_get [''agents''])\<lparr>rq_url := (if query \<noteq> '''' then ''/agents?'' @ query else ''/agents'')\<rparr>)"

definition agentApi_get :: "string \<Rightarrow> api_request" where
  "agentApi_get i = api_get [''agents'', i]"

definition agentApi_update :: "string \<Rightarrow> json \<Rightarrow> api_request" where
  "agentApi_update i updates = api_patch [''agents'', i] (Some updates)"

definition agentApi_delete :: "string \<Rightarrow> api_request" where
  "agentApi_delete i = api_delete [''agents'', i]"

definition agentApi_saveCapabilityTemplate :: "string \<Rightarrow> api_request" where
  "agentApi_saveCapabilityTemplate agentId = api_post [''agents'', agentId, ''capability-template''] None"

definition agentApi_getCapabilities :: "string \<Rightarrow> api_request" where
  "agentApi_getCapabilities agentId = api_get [''agents'', agentId, ''capabilities'']"

definition agentApi_getCompatibleTemplates :: "string \<Rightarrow> api_request" where
  "agentApi_getCompatibleTemplates agentId = api_get [''agents'', agentId, ''compatible-templates'']"

definition agentApi_getConnectionStatus :: "api_request" where
  "agentApi_getConnectionStatus = api_get [''agents'', ''connection-status'']"

definition agentApi_getSingleConnectionStatus :: "string \<Rightarrow> api_request" where
  "agentApi_getSingleConnectionStatus agentId = api_get [''agents'', agentId, ''connection-status'']"

definition agentApi_resetState :: "string \<Rightarrow> api_request" where
  "agentApi_resetState agentId = api_post [''agents'', agentId, ''reset-state''] None"

definition agentApi_getAssignedBehaviorTrees :: "string \<Rightarrow> api_request" where
  "agentApi_getAssignedBehaviorTrees agentId = api_get [''agents'', agentId, ''behavior-trees'']"

definition agentApi_getAssignedActionGraphs :: "string \<Rightarrow> api_request" where
  "agentApi_getAssignedActionGraphs agentId = api_get [''agents'', agentId, ''behavior-trees'']"

definition agentApi_getAssignedActionGraph :: "string \<Rightarrow> string \<Rightarrow> api_request" where
  "agentApi_getAssignedActionGraph agentId graphId = api_get [''agents'', agentId, ''behavior-trees'', graphId]"

definition agentApi_removeAssignedBehaviorTree :: "string \<Rightarrow> string \<Rightarrow> api_request" where
  "agentApi_removeAssignedBehaviorTree agentId graphId = api_delete [''agents'', agentId, ''behavior-trees'', graphId]"

definition agentApi_deployBehaviorTree :: "string \<Rightarrow> string \<Rightarrow> api_request" where
  "agentApi_deployBehaviorTree graphId agentId = api_post [''behavior-trees'', graphId, ''deploy'', agentId] None"

definition agentApi_deployActionGraph :: "string \<Rightarrow> string \<Rightarrow> api_request" where
  "agentApi_deployActionGraph graphId agentId = api_post [''behavior-trees'', graphId, ''deploy'', agentId] None"

subsection \<open>Capabilities\<close>

definition capabilityApi_getAllActionTypes :: "api_request" where
  "capabilityApi_getAllActionTypes = api_get [''capabilities'', ''action-types'']"

definition capabilityApi_listAll :: "api_request" where
  "capabilityApi_listAll = api_get [''capabilities'']"

definition capabilityApi_getByActionType :: "string \<Rightarrow> api_request" where
  "capabilityApi_getByActionType actionType = api_get [''capabilities'', ''action-type'', actionType]"

subsection \<open>Robots\<close>

definition robotApi_list :: "api_request" where
  "robotApi_list = api_get [''robots'']"

definition robotApi_get :: "string \<Rightarrow> api_request" where
  "robotApi_get i = api_get [''robots'', i]"

definition robotApi_delete :: "string \<Rightarrow> api_request" where
  "robotApi_delete i = api_delete [''robots'', i]"

subsection \<open>State definitions\<close>

definition stateDefinitionApi_list :: "api_request" where
  "stateDefinitionApi_list = api_get [''state-definitions'']"

definition stateDefinitionApi_get :: "string \<Rightarrow> api_request" where
  "stateDefinitionApi_get i = api_get [''state-definitions'', i]"

definition stateDefinitionApi_create :: "json \<Rightarrow> api_request" where
  "stateDefinitionApi_create stateDef = api_post [''state-definitions''] (Some stateDef)"

definition stateDefinitionApi_update :: "string \<Rightarrow> json \<Rightarrow> api_request" where
  "stateDefinitionApi_update i stateDef = api_put [''state-definitions'', i] (Some stateDef)"

definition stateDefinitionApi_delete :: "string \<Rightarrow> api_request" where
  "stateDefinitionApi_delete i = api_delete [''state-definitions'', i]"

definition stateDefinitionApi_deploy :: "string \<Rightarrow> json option \<Rightarrow> api_request" where
  "stateDefinitionApi_deploy i agentIds = api_post [''state-definitions'', i, ''deploy''] agentIds"

subsection \<open>Behavior trees\<close>

definition behaviorTreeApi_list :: "string option \<Rightarrow> bool option \<Rightarrow> api_request" where
  "behaviorTreeApi_list agentId includeTemplates =
     (api_get [''behavior-trees''])\<lparr>rq_query :=
       (if truthy agentId then [(''agent_id'', JStr (the agentId))] else [])
       @ (case includeTemplates of Some b \<Rightarrow> [(''include_templates'', JBool b)] | None \<Rightarrow> [])\<rparr>"

definition behaviorTreeApi_get :: "string \<Rightarrow> api_request" where
  "behaviorTreeApi_get i = api_get [''behavior-trees'', i]"

definition behaviorTreeApi_create :: "json \<Rightarrow> api_request" where
  "behaviorTreeApi_create behaviorTree = api_post [''behavior-trees''] (Some behaviorTree)"

definition behaviorTreeApi_update :: "string \<Rightarrow> json \<Rightarrow> string option \<Rightarrow> api_request" where
  "behaviorTreeApi_update i behaviorTree sessionId = (api_put [''behavior-trees'', i] (Some behaviorTree))\<lparr>rq_headers := session_header sessionId\<rparr>"

definition behaviorTreeApi_delete :: "string \<Rightarrow> api_request" where
  "behaviorTreeApi_delete i = api_delete [''behavior-trees'', i]"

definition behaviorTreeApi_execute :: "string \<Rightarrow> string \<Rightarrow> (string \<times> json) list \<Rightarrow> api_request" where
  "behaviorTreeApi_execute i agentId params = (api_post [''behavior-trees'', i, ''execute''] None)\<lparr>rq_query := AList.updates (map fst params) (map snd params) [(''agent_id'', JStr agentId)]\<rparr>"

definition behaviorTreeApi_checkExecutability :: "string \<Rightarrow> string \<Rightarrow> api_request" where
  "behaviorTreeApi_checkExecutability graphId agentId = (api_get [''behavior-trees'', graphId, ''check-executability''])\<lparr>rq_query := [(''agent_id'', JStr agentId)]\<rparr>"

definition behaviorTreeApi_executeMulti :: "string \<Rightarrow> string list \<Rightarrow> json option \<Rightarrow> json option \<Rightarrow> string option \<Rightarrow> rat option \<Rightarrow> api_request" where
  "behaviorTreeApi_executeMulti graphId agentIds commonParams agentParams syncMode timeoutSec =
     api_post [''behavior-trees'', graphId, ''execute-multi''] (Some (JObj
       [(''agent_ids'', JArr (map JStr agentIds)), (''params'', coalesce commonParams JUndef), (''agent_params'', coalesce agentParams JUndef),
        (''sync_mode'', JStr (orS syncMode ''barrier'')),
        (''timeout_sec'', JNum (Fin (case timeoutSec of Some n \<Rightarrow> if n = 0 then 30 else n | None \<Rightarrow> 30)))]))"

definition behaviorTreeApi_validate :: "string \<Rightarrow> api_request" where
  "behaviorTreeApi_validate i = api_post [''behavior-trees'', i, ''validate''] None"

subsection \<open>Edit locks\<close>

definition behaviorTreeLockApi_acquire :: "string \<Rightarrow> string \<Rightarrow> string option \<Rightarrow> api_request" where
  "behaviorTreeLockApi_acquire graphId sessionId userName =
     api_post [''behavior-trees'', graphId, ''lock'']
       (Some (JObj [(''session_id'', JStr sessionId), (''user_name'', JStr (orS userName ''User''))]))"

definition behaviorTreeLockApi_release :: "string \<Rightarrow> string \<Rightarrow> api_request" where
  "behaviorTreeLockApi_release graphId sessionId = (api_delete [''behavior-trees'', graphId, ''lock''])\<lparr>rq_headers := [(''X-Session-ID'', sessionId)]\<rparr>"

definition behaviorTreeLockApi_getStatus :: "string \<Rightarrow> string option \<Rightarrow> api_request" where
  "behaviorTreeLockApi_getStatus graphId sessionId = (api_get [''behavior-trees'', graphId, ''lock''])\<lparr>rq_headers := session_header sessionId\<rparr>"

definition behaviorTreeLockApi_forceRelease :: "string \<Rightarrow> string \<Rightarrow> string \<Rightarrow> api_request" where
  "behaviorTreeLockApi_forceRelease graphId sessionId userName =
     (api_delete [''behavior-trees'', graphId, ''lock'', ''force''])
       \<lparr>rq_body := Some (JObj [(''session_id'', JStr sessionId), (''user_name'', JStr userName)])\<rparr>"

definition behaviorTreeLockApi_heartbeat :: "string \<Rightarrow> string \<Rightarrow> api_request" where
  "behaviorTreeLockApi_heartbeat graphId sessionId = (api_post [''behavior-trees'', graphId, ''lock'', ''heartbeat''] None)\<lparr>rq_headers := [(''X-Session-ID'', sessionId)]\<rparr>"

subsection \<open>Tasks\<close>

definition taskApi_list :: "string option \<Rightarrow> string option \<Rightarrow> api_request" where
  "taskApi_list status agentId =
     (api_get [''tasks''])\<lparr>rq_query :=
       (if truthy status then [(''status_filter'', JStr (the status))] else [])
       @ (if truthy agentId then [(''agent_id'', JStr (the agentId))] else [])\<rparr>"

definition taskApi_get :: "string \<Rightarrow> api_request" where
  "taskApi_get i = api_get [''tasks'', i]"

definition taskApi_cancel :: "string \<Rightarrow> string option \<Rightarrow> api_request" where
  "taskApi_cancel i reason = (api_post [''tasks'', i, ''cancel''] None)\<lparr>rq_query := [(''reason'', case reason of Some r \<Rightarrow> JStr r | None \<Rightarrow> JUndef)]\<rparr>"

definition taskApi_pause :: "string \<Rightarrow> api_request" where
  "taskApi_pause i = api_post [''tasks'', i, ''pause''] None"

definition taskApi_resume :: "string \<Rightarrow> api_request" where
  "taskApi_resume i = api_post [''tasks'', i, ''resume''] None"

definition taskApi_getLogs :: "string \<Rightarrow> rat option \<Rightarrow> api_request" where
  "taskApi_getLogs taskId limit = (api_get [''tasks'', taskId, ''logs''])\<lparr>rq_query := limit_query limit\<rparr>"

subsection \<open>Logs\<close>

definition logsApi_getRecent :: "rat option \<Rightarrow> api_request" where
  "logsApi_getRecent limit = (api_get [''logs''])\<lparr>rq_query := limit_query limit\<rparr>"

definition logsApi_getAgentLogs :: "string \<Rightarrow> rat option \<Rightarrow> api_request" where
  "logsApi_getAgentLogs agentId limit = (api_get [''agents'', agentId, ''logs''])\<lparr>rq_query := limit_query limit\<rparr>"

definition logsApi_getStats :: "api_request" where
  "logsApi_getStats = api_get [''logs'', ''stats'']"

subsection \<open>Waypoints\<close>

definition waypointApi_list :: "string option \<Rightarrow> api_request" where
  "waypointApi_list waypointType = (api_get [''waypoints''])\<lparr>rq_query := (if truthy waypointType then [(''waypoint_type'', JStr (the waypointType))] else [])\<rparr>"

definition waypointApi_get :: "string \<Rightarrow> api_request" where
  "waypointApi_get i = api_get [''waypoints'', i]"

definition waypointApi_create :: "json \<Rightarrow> api_request" where
  "waypointApi_create waypoint = api_post [''waypoints''] (Some waypoint)"

definition waypointApi_update :: "string \<Rightarrow> json \<Rightarrow> api_request" where
  "waypointApi_update i waypoint = api_put [''waypoints'', i] (Some waypoint)"

definition waypointApi_delete :: "string \<Rightarrow> api_request" where
  "waypointApi_delete i = api_delete [''waypoints'', i]"

definition waypointApi_teach :: "string \<Rightarrow> json \<Rightarrow> api_request" where
  "waypointApi_teach robotId request = api_post [''robots'', robotId, ''teach''] (Some request)"

subsection \<open>Actions\<close>

definition actionApi_list :: "api_request" where
  "actionApi_list = api_get [''actions'']"

definition actionApi_get :: "string \<Rightarrow> api_request" where
  "actionApi_get actionType = api_get [''actions'', actionType]"

subsection \<open>Templates\<close>

definition templateApi_list :: "api_request" where
  "templateApi_list = api_get [''templates'']"

definition templateApi_get :: "string \<Rightarrow> api_request" where
  "templateApi_get i = api_get [''templates'', i]"

definition templateApi_create :: "json \<Rightarrow> api_request" where
  "templateApi_create template = api_post [''templates''] (Some template)"

definition templateApi_update :: "string \<Rightarrow> json \<Rightarrow> string option \<Rightarrow> api_request" where
  "templateApi_update i template sessionId = (api_put [''templates'', i] (Some template))\<lparr>rq_headers := session_header sessionId\<rparr>"

definition templateApi_updateIdentity :: "string \<Rightarrow> json \<Rightarrow> api_request" where
  "templateApi_updateIdentity i payload = api_patch [''templates'', i, ''identity''] (Some payload)"

definition templateApi_delete :: "string \<Rightarrow> api_request" where
  "templateApi_delete i = api_delete [''templates'', i]"

definition templateApi_getAssignments :: "string \<Rightarrow> api_request" where
  "templateApi_getAssignments templateId = api_get [''templates'', templateId, ''assignments'']"

definition templateApi_assign :: "string \<Rightarrow> string \<Rightarrow> bool option \<Rightarrow> rat option \<Rightarrow> api_request" where
  "templateApi_assign templateId agentId enabled priority =
     api_post [''templates'', templateId, ''assignments'']
       (Some (JObj [(''agent_id'', JStr agentId), (''enabled'', JBool (coalesce enabled True)), (''priority'', JNum (Fin (coalesce priority 0)))]))"

definition templateApi_unassign :: "string \<Rightarrow> string \<Rightarrow> api_request" where
  "templateApi_unassign templateId agentId = api_delete [''templates'', templateId, ''assignments'', agentId]"

definition templateApi_getAgentsOverview :: "api_request" where
  "templateApi_getAgentsOverview = api_get [''templates'', ''agents-overview'']"

definition templateApi_getAvailableForAgent :: "string \<Rightarrow> api_request" where
  "templateApi_getAvailableForAgent agentId = api_get [''templates'', ''agents'', agentId, ''available-templates'']"

definition templateApi_getCompatibleAgents :: "string \<Rightarrow> api_request" where
  "templateApi_getCompatibleAgents templateId = api_get [''templates'', templateId, ''compatible-agents'']"

subsection \<open>Fleet state\<close>

definition fleetApi_getState :: "string list option \<Rightarrow> rat option \<Rightarrow> api_request" where
  "fleetApi_getState agentIds maxStalenessSec =
     (api_get [''fleet'', ''state''])\<lparr>rq_query :=
       (case agentIds of Some ids \<Rightarrow> [(''agent_ids'', JStr (js_join '','' ids))] | None \<Rightarrow> [])
       @ (case maxStalenessSec of Some n \<Rightarrow> [(''max_staleness_sec'', JNum (Fin n))] | None \<Rightarrow> [])\<rparr>"

definition fleetApi_getRobotState :: "string \<Rightarrow> api_request" where
  "fleetApi_getRobotState robotId = api_get [''fleet'', ''robots'', robotId]"

definition fleetApi_getAgentState :: "string \<Rightarrow> api_request" where
  "fleetApi_getAgentState agentId = api_get [''fleet'', ''agents'', agentId, ''robots'']"

definition fleetApi_validate :: "string \<Rightarrow> json \<Rightarrow> api_request" where
  "fleetApi_validate executingAgentId conditions = api_post [''fleet'', ''validate''] (Some (JObj [(''executing_agent_id'', JStr executingAgentId), (''conditions'', conditions)]))"

definition fleetApi_getSummary :: "api_request" where
  "fleetApi_getSummary = api_get [''fleet'', ''summary'']"

subsection \<open>System\<close>

definition systemApi_getSystemStates :: "api_request" where
  "systemApi_getSystemStates = api_get [''system'', ''states'']"

definition systemApi_getCacheStats :: "api_request" where
  "systemApi_getCacheStats = api_get [''system'', ''cache'', ''stats'']"

definition systemApi_evictStaleCache :: "rat option \<Rightarrow> api_request" where
  "systemApi_evictStaleCache maxAgeMinutes =
     api_post [''system'', ''cache'', ''evict''] (Some (JObj [(''max_age_minutes'',
       JNum (Fin (case maxAgeMinutes of Some n \<Rightarrow> if n = 0 then 60 else n | None \<Rightarrow> 60)))]))"

subsection \<open>Telemetry\<close>

definition telemetryApi_getRobotTelemetry :: "string \<Rightarrow> api_request" where
  "telemetryApi_getRobotTelemetry robotId = api_get [''fleet'', ''robots'', robotId, ''telemetry'']"

definition telemetryApi_getJointState :: "string \<Rightarrow> api_request" where
  "telemetryApi_getJointState robotId = api_get [''fleet'', ''robots'', robotId, ''telemetry'', ''joint-state'']"

definition telemetryApi_getOdometry :: "string \<Rightarrow> api_request" where
  "telemetryApi_getOdometry robotId = api_get [''fleet'', ''robots'', robotId, ''telemetry'', ''odometry'']"

definition telemetryApi_getTransforms :: "string \<Rightarrow> api_request" where
  "telemetryApi_getTransforms robotId = api_get [''fleet'', ''robots'', robotId, ''telemetry'', ''transforms'']"

subsection \<open>Planning\<close>

definition pddlApi_listProblems :: "string option \<Rightarrow> api_request" where
  "pddlApi_listProblems behaviorTreeId =
     (api_get [''pddl'', ''problems''])\<lparr>rq_url := ''/pddl/problems'' @
       (if truthy behaviorTreeId then ''?behavior_tree_id='' @ the behaviorTreeId else '''')\<rparr>"

definition pddlApi_createProblem :: "json \<Rightarrow> api_request" where
  "pddlApi_createProblem req = api_post [''pddl'', ''problems''] (Some req)"

definition pddlApi_getProblem :: "string \<Rightarrow> api_request" where
  "pddlApi_getProblem i = api_get [''pddl'', ''problems'', i]"

definition pddlApi_deleteProblem :: "string \<Rightarrow> api_request" where
  "pddlApi_deleteProblem i = api_delete [''pddl'', ''problems'', i]"

definition pddlApi_solveProblem :: "string \<Rightarrow> api_request" where
  "pddlApi_solveProblem i = api_post [''pddl'', ''problems'', i, ''solve''] None"

definition pddlApi_executePlan :: "string \<Rightarrow> api_request" where
  "pddlApi_executePlan i = api_post [''pddl'', ''problems'', i, ''execute''] None"

definition pddlApi_preview :: "json \<Rightarrow> api_request" where
  "pddlApi_preview req = api_post [''pddl'', ''preview''] (Some req)"

definition pddlApi_listExecutions :: "api_request" where
  "pddlApi_listExecutions = api_get [''pddl'', ''executions'']"

definition pddlApi_getExecution :: "string \<Rightarrow> api_request" where
  "pddlApi_getExecution i = api_get [''pddl'', ''executions'', i]"

definition pddlApi_cancelExecution :: "string \<Rightarrow> api_request" where
  "pddlApi_cancelExecution i = api_post [''pddl'', ''executions'', i, ''cancel''] None"

definition pddlApi_listRealtimeSessions :: "api_request" where
  "pddlApi_listRealtimeSessions = api_get [''pddl'', ''realtime-sessions'']"

definition pddlApi_getRealtimeSession :: "string \<Rightarrow> api_request" where
  "pddlApi_getRealtimeSession i = api_get [''pddl'', ''realtime-sessions'', i]"

definition pddlApi_startRealtimeSession :: "json \<Rightarrow> api_request" where
  "pddlApi_startRealtimeSession req = api_post [''pddl'', ''realtime-sessions''] (Some req)"

definition pddlApi_stopRealtimeSession :: "string \<Rightarrow> api_request" where
  "pddlApi_stopRealtimeSession i = api_post [''pddl'', ''realtime-sessions'', i, ''stop''] None"

definition pddlApi_resetRealtimeSessionState :: "string \<Rightarrow> json \<Rightarrow> api_request" where
  "pddlApi_resetRealtimeSessionState i req = api_post [''pddl'', ''realtime-sessions'', i, ''reset-state''] (Some req)"

definition pddlApi_getResources :: "api_request" where
  "pddlApi_getResources = api_get [''pddl'', ''resources'']"

subsection \<open>Task distributors\<close>

definition taskDistributorApi_list :: "api_request" where
  "taskDistributorApi_list = api_get [''task-distributors'']"

definition taskDistributorApi_get :: "string \<Rightarrow> api_request" where
  "taskDistributorApi_get i = api_get [''task-distributors'', i]"

definition taskDistributorApi_getFull :: "string \<Rightarrow> api_request" where
  "taskDistributorApi_getFull i = api_get [''task-distributors'', i, ''full'']"

definition taskDistributorApi_create :: "json \<Rightarrow> api_request" where
  "taskDistributorApi_create req = api_post [''task-distributors''] (Some req)"

definition taskDistributorApi_update :: "string \<Rightarrow> json \<Rightarrow> api_request" where
  "taskDistributorApi_update i req = api_put [''task-distributors'', i] (Some req)"

definition taskDistributorApi_delete :: "string \<Rightarrow> api_request" where
  "taskDistributorApi_delete i = api_delete [''task-distributors'', i]"

definition taskDistributorApi_getStateMergePolicies :: "string \<Rightarrow> api_request" where
  "taskDistributorApi_getStateMergePolicies distributorId = api_get [''task-distributors'', distributorId, ''state-merge-policies'']"

definition taskDistributorApi_updateStateMergePolicies :: "string \<Rightarrow> json \<Rightarrow> api_request" where
  "taskDistributorApi_updateStateMergePolicies distributorId policies = api_put [''task-distributors'', distributorId, ''state-merge-policies''] (Some (JObj [(''policies'', policies)]))"

definition taskDistributorApi_listStates :: "string \<Rightarrow> api_request" where
  "taskDistributorApi_listStates distributorId = api_get [''task-distributors'', distributorId, ''states'']"

definition taskDistributorApi_createState :: "string \<Rightarrow> json \<Rightarrow> api_request" where
  "taskDistributorApi_createState distributorId req = api_post [''task-distributors'', distributorId, ''states''] (Some req)"

definition taskDistributorApi_updateState :: "string \<Rightarrow> string \<Rightarrow> json \<Rightarrow> api_request" where
  "taskDistributorApi_updateState distributorId stateId req = api_put [''task-distributors'', distributorId, ''states'', stateId] (Some req)"

definition taskDistributorApi_deleteState :: "string \<Rightarrow> string \<Rightarrow> api_request" where
  "taskDistributorApi_deleteState distributorId stateId = api_delete [''task-distributors'', distributorId, ''states'', stateId]"

definition taskDistributorApi_listResources :: "string \<Rightarrow> api_request" where
  "taskDistributorApi_listResources distributorId = api_get [''task-distributors'', distributorId, ''resources'']"

definition taskDistributorApi_createResource :: "string \<Rightarrow> json \<Rightarrow> api_request" where
  "taskDistributorApi_createResource distributorId req = api_post [''task-distributors'', distributorId, ''resources''] (Some req)"

definition taskDistributorApi_updateResource :: "string \<Rightarrow> string \<Rightarrow> json \<Rightarrow> api_request" where
  "taskDistributorApi_updateResource distributorId resourceId req = api_put [''task-distributors'', distributorId, ''resources'', resourceId] (Some req)"

definition taskDistributorApi_deleteResource :: "string \<Rightarrow> string \<Rightarrow> api_request" where
  "taskDistributorApi_deleteResource distributorId resourceId = api_delete [''task-distributors'', distributorId, ''resources'', resourceId]"

subsection \<open>Saved files\<close>

definition saveFilesApi_listTaskSets :: "api_request" where
  "saveFilesApi_listTaskSets = api_get [''save-files'', ''task-sets'']"

definition saveFilesApi_saveTaskSet :: "string \<Rightarrow> json \<Rightarrow> api_request" where
  "saveFilesApi_saveTaskSet fileName payload = api_post [''save-files'', ''task-sets''] (Some (JObj [(''file_name'', JStr fileName), (''payload'', payload)]))"

definition saveFilesApi_loadTaskSet :: "string \<Rightarrow> api_request" where
  "saveFilesApi_loadTaskSet fileName = api_get [''save-files'', ''task-sets'', encodePathSegment fileName]"

definition saveFilesApi_listTasks :: "api_request" where
  "saveFilesApi_listTasks = api_get [''save-files'', ''tasks'']"

definition saveFilesApi_saveTask :: "string \<Rightarrow> json \<Rightarrow> api_request" where
  "saveFilesApi_saveTask fileName payload = api_post [''save-files'', ''tasks''] (Some (JObj [(''file_name'', JStr fileName), (''payload'', payload)]))"

definition saveFilesApi_loadTask :: "string \<Rightarrow> api_request" where
  "saveFilesApi_loadTask fileName = api_get [''save-files'', ''tasks'', encodePathSegment fileName]"

definition saveFilesApi_listPddlProfiles :: "api_request" where
  "saveFilesApi_listPddlProfiles = api_get [''save-files'', ''pddl-profiles'']"

definition saveFilesApi_savePddlProfile :: "string \<Rightarrow> json \<Rightarrow> api_request" where
  "saveFilesApi_savePddlProfile fileName payload = api_post [''save-files'', ''pddl-profiles''] (Some (JObj [(''file_name'', JStr fileName), (''payload'', payload)]))"

definition saveFilesApi_loadPddlProfile :: "string \<Rightarrow> api_request" where
  "saveFilesApi_loadPddlProfile fileName = api_get [''save-files'', ''pddl-profiles'', encodePathSegment fileName]"

section \<open>Answers\<close>

text \<open>The answers the client changes: lists of files, payloads, and a heartbeat that was refused.\<close>

definition files_of :: "json \<Rightarrow> json" where
  "files_of data = (if json_truthy (jget data ''files'') then jget data ''files'' else JArr [])"

definition payload_of :: "json \<Rightarrow> json" where
  "payload_of data = jget data ''payload''"

record http_failure =
  hf_status :: "nat option"
  hf_error :: "string option"

record heartbeat_answer =
  hb_success :: bool
  hb_error :: "string option"

definition heartbeat_result :: "http_failure + heartbeat_answer \<Rightarrow> http_failure + heartbeat_answer" where
  "heartbeat_result reply =
     (case reply of
        Inr answer \<Rightarrow> Inr answer
      | Inl failure \<Rightarrow> if hf_status failure = Some 409 \<or> hf_status failure = Some 403
                      then Inr \<lparr>hb_success = False, hb_error = Some (orS (hf_error failure) ''Lock lost'')\<rparr>
                      else Inl failure)"

section \<open>Properties of the requests\<close>

text \<open>Only a conflict or a refusal of a heartbeat becomes an answer; every other failure is thrown on.\<close>

lemma heartbeat_failures:
  "heartbeat_result (Inl e) = Inl e \<longleftrightarrow> hf_status e \<noteq> Some 409 \<and> hf_status e \<noteq> Some 403"
  "heartbeat_result (Inl e) = Inr r \<Longrightarrow> \<not> hb_success r \<and> truthy (hb_error r)"
  by (auto simp: heartbeat_result_def orS_def split: if_splits option.splits)

text \<open>A timeout or an age of 0 is replaced by the default.\<close>

lemma zero_is_default:
  "behaviorTreeApi_executeMulti g as p q m (Some 0) = behaviorTreeApi_executeMulti g as p q m None"
  "systemApi_evictStaleCache (Some 0) = systemApi_evictStaleCache None"
  by (simp_all add: behaviorTreeApi_executeMulti_def systemApi_evictStaleCache_def)

text \<open>A parameter of an execution that is named like the agent replaces the agent.\<close>

lemma execute_agent_overridden:
  "map_of (rq_query (behaviorTreeApi_execute i agent [(''agent_id'', v)])) ''agent_id'' = Some v"
  by (simp add: behaviorTreeApi_execute_def update_conv')

text \<open>
  Ids are put into paths as they are: an id with a slash addresses something else. Deleting a task with such an id removes the
  assignment of another task, and an agent of the name of a collection cannot be asked for.
\<close>

lemma slash_in_id: "templateApi_delete (t @ ''/assignments/'' @ a) = templateApi_unassign t a"
  by (simp add: templateApi_delete_def templateApi_unassign_def api_delete_def url_def)

lemma reserved_id: "agentApi_get ''connection-status'' = agentApi_getConnectionStatus"
  "templateApi_get ''agents-overview'' = templateApi_getAgentsOverview"
  by (simp_all add: agentApi_get_def agentApi_getConnectionStatus_def templateApi_get_def templateApi_getAgentsOverview_def)

section \<open>Encoding of file names\<close>

lemma utf8_range: "192 + (of_char c :: nat) div 64 < 256" "128 + (of_char c :: nat) mod 64 < 256"
proof -
  have "(of_char c :: nat) div 64 < 4" using nat_of_char_less_256[of c] by (simp only: div_less_iff_less_mult)
  moreover have "(of_char c :: nat) mod 64 < 64" by simp
  ultimately show "192 + (of_char c :: nat) div 64 < 256" "128 + (of_char c :: nat) mod 64 < 256" by linarith+
qed

text \<open>The inverse of the encoding: the bytes of the text, and the characters of the bytes.\<close>

definition hex_value :: "char \<Rightarrow> nat" where
  "hex_value c = (let n = of_char c in if n < 58 then n - 48 else n - 55)"

fun uri_bytes :: "string \<Rightarrow> nat list" where
  "uri_bytes (c # h # l # cs) =
     (if c = CHR ''%'' then (16 * hex_value h + hex_value l) # uri_bytes cs else of_char c # uri_bytes (h # l # cs))"
| "uri_bytes (c # cs) = of_char c # uri_bytes cs"
| "uri_bytes [] = []"

fun utf8_chars :: "nat list \<Rightarrow> string" where
  "utf8_chars (b # c # bs) = (if b < 128 then char_of b # utf8_chars (c # bs) else char_of (64 * (b - 192) + (c - 128)) # utf8_chars bs)"
| "utf8_chars [b] = [char_of b]"
| "utf8_chars [] = []"

lemma hex_value_digit: "n < 16 \<Longrightarrow> hex_value (hex_digit n) = n"
  by (auto simp: hex_value_def hex_digit_def of_char_of Let_def)

lemma uri_bytes_plain: "c \<noteq> CHR ''%'' \<Longrightarrow> uri_bytes (c # cs) = of_char c # uri_bytes cs"
  by (cases cs; cases "tl cs") auto

lemma uri_bytes_percent: "b < 256 \<Longrightarrow> uri_bytes (percent b @ cs) = b # uri_bytes cs"
proof -
  assume "b < 256"
  then have "b div 16 < 16" "b mod 16 < 16" by auto
  then show ?thesis by (simp add: percent_def hex_value_digit)
qed

lemma uri_bytes_char:
  "uri_bytes (uri_char c @ cs) =
     (let n = of_char c in if n < 128 then n # uri_bytes cs else (192 + n div 64) # (128 + n mod 64) # uri_bytes cs)"
proof -
  have n: "(of_char c :: nat) < 256" by (rule nat_of_char_less_256)
  have "uri_unreserved c \<Longrightarrow> (of_char c :: nat) < 128 \<and> c \<noteq> CHR ''%''" by (auto simp: uri_unreserved_def uri_mark_def Let_def)
  then show ?thesis using n utf8_range[of c] by (auto simp: uri_char_def Let_def uri_bytes_plain uri_bytes_percent)
qed

lemma utf8_first: "b < 128 \<Longrightarrow> utf8_chars (b # bs) = char_of b # utf8_chars bs"
  by (cases bs) auto

lemma utf8_second: "n < 256 \<Longrightarrow> utf8_chars ((192 + n div 64) # (128 + n mod 64) # bs) = char_of (n :: nat) # utf8_chars bs"
  by simp

text \<open>No file name is lost: the name can be read back from its encoding, which is one segment of a path.\<close>

theorem encoding_roundtrip: "utf8_chars (uri_bytes (encodePathSegment v)) = v"
proof (induction v)
  case (Cons c v)
  have "(of_char c :: nat) < 256" by (rule nat_of_char_less_256)
  then show ?case using Cons
    by (auto simp: encodePathSegment_def uri_bytes_char Let_def utf8_first utf8_second simp del: utf8_chars.simps(1))
qed (simp add: encodePathSegment_def)

lemma encoding_chars: "c \<in> set (encodePathSegment v) \<Longrightarrow> uri_unreserved c \<or> c = CHR ''%''"
proof -
  have h: "uri_unreserved (hex_digit n)" if "n < 16" for n
    using that by (auto simp: uri_unreserved_def hex_digit_def of_char_of Let_def)
  have p: "x \<in> set (percent b) \<Longrightarrow> uri_unreserved x \<or> x = CHR ''%''" if "b < 256" for x b
  proof -
    have "b div 16 < 16" "b mod 16 < 16" using that by auto
    then show "x \<in> set (percent b) \<Longrightarrow> ?thesis" using h by (auto simp: percent_def)
  qed
  have "x \<in> set (uri_char d) \<Longrightarrow> uri_unreserved x \<or> x = CHR ''%''" for x d
  proof -
    have "(of_char d :: nat) < 256" by (rule nat_of_char_less_256)
    then show "x \<in> set (uri_char d) \<Longrightarrow> ?thesis"
      using p[of "of_char d"] p[of "192 + of_char d div 64"] p[of "128 + of_char d mod 64"] utf8_range[of d] \<open>(of_char d :: nat) < 256\<close>
      by (auto simp: uri_char_def Let_def split: if_splits)
  qed
  then show "c \<in> set (encodePathSegment v) \<Longrightarrow> ?thesis" by (auto simp: encodePathSegment_def)
qed

lemma encoding_segment: "CHR ''/'' \<notin> set (encodePathSegment v)" "CHR ''?'' \<notin> set (encodePathSegment v)"
  using encoding_chars[of "CHR ''/''" v] encoding_chars[of "CHR ''?''" v] by (auto simp: uri_unreserved_def uri_mark_def Let_def)

lemma encoding_empty: "encodePathSegment v = '''' \<longleftrightarrow> v = ''''"
  using encoding_roundtrip[of v] by (metis encodePathSegment_def concat.simps(1) list.simps(8) uri_bytes.simps(4) utf8_chars.simps(3))

lemma encoding_inj: "encodePathSegment v = encodePathSegment w \<Longrightarrow> v = w"
  by (metis encoding_roundtrip)

lemma encoding_plain: "list_all uri_unreserved v \<Longrightarrow> encodePathSegment v = v"
  by (induction v) (auto simp: encodePathSegment_def uri_char_def Let_def)

end
