(* ===== verification/Rest_Routes.thy ===== *)
theory Rest_Routes
  imports Rest_Client
begin

text \<open>
  The routes of the server (\<^verbatim>\<open>central_server_go/internal/api/router.go\<close>) and the requests of the client. A route is a method with a
  pattern of segments. Of the router only the documented meaning of patterns is used: a placeholder takes one segment that is
  not empty, a star the rest; a literal is preferred to a placeholder and a placeholder to a star. Between the two stands the browser, which parses the URL of a
  request (\<open>request_segs\<close>): a query and a fragment are cut off, dot segments are resolved and characters are encoded. Every request of the
  client is shown to be served by the handler it is meant for.
\<close>

section \<open>The routes of the server\<close>

datatype pat_seg = Lit string | Par string | Rest

record route =
  ro_method :: http_method
  ro_pattern :: "pat_seg list"
  ro_handler :: string

definition rte :: "http_method \<Rightarrow> pat_seg list \<Rightarrow> string \<Rightarrow> route" where
  "rte m p h = \<lparr>ro_method = m, ro_pattern = p, ro_handler = h\<rparr>"

definition routes_robots :: "route list" where
  "routes_robots =
     [rte GET [Lit ''robots''] ''ListRobots'',
      rte POST [Lit ''robots''] ''RegisterRobot'',
      rte POST [Lit ''robots'', Lit ''connect''] ''ConnectRobot'',
      rte GET [Lit ''robots'', Par ''robotID''] ''GetRobot'',
      rte PATCH [Lit ''robots'', Par ''robotID''] ''UpdateRobot'',
      rte DELETE [Lit ''robots'', Par ''robotID''] ''DeleteRobot'',
      rte GET [Lit ''robots'', Par ''robotID'', Lit ''commands''] ''GetCommands'',
      rte POST [Lit ''robots'', Par ''robotID'', Lit ''commands'', Par ''commandID'', Lit ''result''] ''ReportCommandResult'',
      rte PUT [Lit ''robots'', Par ''robotID'', Lit ''capabilities''] ''RegisterCapabilities'',
      rte GET [Lit ''robots'', Par ''robotID'', Lit ''capabilities''] ''GetRobotCapabilities'',
      rte PATCH [Lit ''robots'', Par ''robotID'', Lit ''capabilities'', Lit ''status''] ''UpdateCapabilityStatus'',
      rte POST [Lit ''robots'', Par ''robotID'', Lit ''teach''] ''TeachWaypoint'']"

definition routes_capabilities :: "route list" where
  "routes_capabilities =
     [rte GET [Lit ''capabilities''] ''ListAllCapabilities'',
      rte GET [Lit ''capabilities'', Lit ''action-types''] ''GetAllActionTypesWithStats'',
      rte GET [Lit ''capabilities'', Lit ''changed''] ''GetCapabilitiesChangedSince'',
      rte GET [Lit ''capabilities'', Lit ''by-category'', Par ''category''] ''GetCapabilitiesByCategoryAPI'',
      rte GET [Lit ''capabilities'', Par ''capabilityID''] ''GetCapabilityByID'',
      rte PATCH [Lit ''capabilities'', Par ''capabilityID''] ''UpdateCapabilityMetadata'',
      rte GET [Lit ''capabilities'', Lit ''action-type'', Rest] ''GetCapabilitiesByActionType'']"

definition routes_behavior_trees :: "route list" where
  "routes_behavior_trees =
     [rte GET [Lit ''behavior-trees''] ''ListBehaviorTrees'',
      rte POST [Lit ''behavior-trees''] ''CreateBehaviorTree'',
      rte POST [Lit ''behavior-trees'', Lit ''import''] ''ImportBehaviorTree'',
      rte GET [Lit ''behavior-trees'', Par ''graphID''] ''GetBehaviorTree'',
      rte PUT [Lit ''behavior-trees'', Par ''graphID''] ''UpdateBehaviorTree'',
      rte DELETE [Lit ''behavior-trees'', Par ''graphID''] ''DeleteBehaviorTree'',
      rte GET [Lit ''behavior-trees'', Par ''graphID'', Lit ''check-executability''] ''CheckExecutability'',
      rte POST [Lit ''behavior-trees'', Par ''graphID'', Lit ''execute''] ''ExecuteBehaviorTree'',
      rte POST [Lit ''behavior-trees'', Par ''graphID'', Lit ''execute-multi''] ''ExecuteMultiBehaviorTree'',
      rte POST [Lit ''behavior-trees'', Par ''graphID'', Lit ''validate''] ''ValidateBehaviorTree'',
      rte GET [Lit ''behavior-trees'', Par ''graphID'', Lit ''export''] ''ExportBehaviorTree'',
      rte POST [Lit ''behavior-trees'', Par ''graphID'', Lit ''lock''] ''AcquireBehaviorTreeLock'',
      rte DELETE [Lit ''behavior-trees'', Par ''graphID'', Lit ''lock''] ''ReleaseBehaviorTreeLock'',
      rte GET [Lit ''behavior-trees'', Par ''graphID'', Lit ''lock''] ''GetBehaviorTreeLockStatus'',
      rte POST [Lit ''behavior-trees'', Par ''graphID'', Lit ''lock'', Lit ''heartbeat''] ''HeartbeatBehaviorTreeLock'',
      rte DELETE [Lit ''behavior-trees'', Par ''graphID'', Lit ''lock'', Lit ''force''] ''ForceReleaseBehaviorTreeLock'',
      rte GET [Lit ''behavior-trees'', Par ''graphID'', Lit ''canonical''] ''GetCanonicalGraph'',
      rte POST [Lit ''behavior-trees'', Par ''graphID'', Lit ''validate-canonical''] ''ValidateCanonicalGraph'',
      rte POST [Lit ''behavior-trees'', Par ''graphID'', Lit ''deploy'', Par ''agentID''] ''DeployBehaviorTreeToAgent'',
      rte POST [Lit ''behavior-trees'', Par ''graphID'', Lit ''copy-blocks''] ''CopyBehaviorTreeBlocks'',
      rte POST [Lit ''behavior-trees'', Par ''graphID'', Lit ''paste-blocks''] ''PasteBehaviorTreeBlocks'',
      rte POST [Lit ''behavior-trees'', Par ''graphID'', Lit ''copy''] ''CopyBehaviorTree'']"

definition routes_agents :: "route list" where
  "routes_agents =
     [rte GET [Lit ''agents''] ''ListAgents'',
      rte POST [Lit ''agents''] ''CreateAgent'',
      rte GET [Lit ''agents'', Lit ''connection-status''] ''GetAgentConnectionStatus'',
      rte GET [Lit ''agents'', Par ''agentID''] ''GetAgent'',
      rte PATCH [Lit ''agents'', Par ''agentID''] ''UpdateAgent'',
      rte DELETE [Lit ''agents'', Par ''agentID''] ''DeleteAgent'',
      rte POST [Lit ''agents'', Par ''agentID'', Lit ''capability-template''] ''SaveAgentCapabilityTemplate'',
      rte GET [Lit ''agents'', Par ''agentID'', Lit ''capabilities''] ''GetAgentCapabilities'',
      rte GET [Lit ''agents'', Par ''agentID'', Lit ''connection-status''] ''GetSingleAgentConnectionStatus'',
      rte GET [Lit ''agents'', Par ''agentID'', Lit ''logs''] ''GetAgentLogs'',
      rte POST [Lit ''agents'', Par ''agentID'', Lit ''reset-state''] ''ResetAgentState'',
      rte GET [Lit ''agents'', Par ''agentID'', Lit ''behavior-trees''] ''ListAgentBehaviorTrees'',
      rte POST [Lit ''agents'', Par ''agentID'', Lit ''behavior-trees''] ''AssignBehaviorTree'',
      rte GET [Lit ''agents'', Par ''agentID'', Lit ''behavior-trees'', Par ''graphID''] ''GetAgentBehaviorTree'',
      rte DELETE [Lit ''agents'', Par ''agentID'', Lit ''behavior-trees'', Par ''graphID''] ''RemoveAgentBehaviorTree'',
      rte POST [Lit ''agents'', Par ''agentID'', Lit ''behavior-trees'', Par ''graphID'', Lit ''deploy''] ''DeployBehaviorTree'',
      rte GET [Lit ''agents'', Par ''agentID'', Lit ''behavior-trees'', Par ''graphID'', Lit ''logs''] ''GetDeploymentLogs'',
      rte GET [Lit ''agents'', Par ''agentID'', Lit ''compatible-templates''] ''GetAgentCompatibleTemplates'']"

definition routes_tasks :: "route list" where
  "routes_tasks =
     [rte GET [Lit ''tasks''] ''ListTasks'',
      rte GET [Lit ''tasks'', Par ''taskID''] ''GetTask'',
      rte POST [Lit ''tasks'', Par ''taskID'', Lit ''cancel''] ''CancelTask'',
      rte POST [Lit ''tasks'', Par ''taskID'', Lit ''pause''] ''PauseTask'',
      rte POST [Lit ''tasks'', Par ''taskID'', Lit ''resume''] ''ResumeTask'',
      rte GET [Lit ''tasks'', Par ''taskID'', Lit ''logs''] ''GetTaskLogs'',
      rte GET [Lit ''tasks'', Par ''taskID'', Lit ''precondition-status''] ''GetTaskPreconditionStatus'']"

definition routes_logs :: "route list" where
  "routes_logs =
     [rte GET [Lit ''logs''] ''GetRecentLogs'',
      rte GET [Lit ''logs'', Lit ''stats''] ''GetLogStats'']"

definition routes_waypoints :: "route list" where
  "routes_waypoints =
     [rte GET [Lit ''waypoints''] ''ListWaypoints'',
      rte POST [Lit ''waypoints''] ''CreateWaypoint'',
      rte GET [Lit ''waypoints'', Par ''waypointID''] ''GetWaypoint'',
      rte PUT [Lit ''waypoints'', Par ''waypointID''] ''UpdateWaypoint'',
      rte DELETE [Lit ''waypoints'', Par ''waypointID''] ''DeleteWaypoint'']"

definition routes_state_definitions :: "route list" where
  "routes_state_definitions =
     [rte GET [Lit ''state-definitions''] ''ListStateDefinitions'',
      rte POST [Lit ''state-definitions''] ''CreateStateDefinition'',
      rte GET [Lit ''state-definitions'', Par ''stateDefID''] ''GetStateDefinition'',
      rte PUT [Lit ''state-definitions'', Par ''stateDefID''] ''UpdateStateDefinition'',
      rte DELETE [Lit ''state-definitions'', Par ''stateDefID''] ''DeleteStateDefinition'',
      rte POST [Lit ''state-definitions'', Par ''stateDefID'', Lit ''deploy''] ''DeployStateDefinition'']"

definition routes_fleet :: "route list" where
  "routes_fleet =
     [rte GET [Lit ''fleet'', Lit ''state''] ''GetFleetState'',
      rte GET [Lit ''fleet'', Lit ''summary''] ''GetFleetSummary'',
      rte GET [Lit ''fleet'', Lit ''robots'', Par ''robotID''] ''GetRobotState'',
      rte GET [Lit ''fleet'', Lit ''robots'', Par ''robotID'', Lit ''telemetry''] ''GetRobotTelemetry'',
      rte GET [Lit ''fleet'', Lit ''robots'', Par ''robotID'', Lit ''telemetry'', Lit ''joint-state''] ''GetRobotJointState'',
      rte GET [Lit ''fleet'', Lit ''robots'', Par ''robotID'', Lit ''telemetry'', Lit ''odometry''] ''GetRobotOdometry'',
      rte GET [Lit ''fleet'', Lit ''robots'', Par ''robotID'', Lit ''telemetry'', Lit ''transforms''] ''GetRobotTransforms'',
      rte GET [Lit ''fleet'', Lit ''agents'', Par ''agentID'', Lit ''robots''] ''GetAgentRobotsState'',
      rte POST [Lit ''fleet'', Lit ''validate''] ''ValidatePreconditions'']"

definition routes_templates :: "route list" where
  "routes_templates =
     [rte GET [Lit ''templates''] ''ListTemplates'',
      rte POST [Lit ''templates''] ''CreateTemplate'',
      rte GET [Lit ''templates'', Lit ''agents-overview''] ''GetAgentsOverview'',
      rte GET [Lit ''templates'', Lit ''agents'', Par ''agentID'', Lit ''available-templates''] ''GetAvailableTemplatesForAgent'',
      rte GET [Lit ''templates'', Par ''templateID''] ''GetTemplate'',
      rte PUT [Lit ''templates'', Par ''templateID''] ''UpdateTemplate'',
      rte PATCH [Lit ''templates'', Par ''templateID'', Lit ''identity''] ''UpdateTemplateIdentity'',
      rte DELETE [Lit ''templates'', Par ''templateID''] ''DeleteTemplate'',
      rte GET [Lit ''templates'', Par ''templateID'', Lit ''assignments''] ''GetTemplateAssignments'',
      rte GET [Lit ''templates'', Par ''templateID'', Lit ''compatible-agents''] ''GetTemplateCompatibleAgents'',
      rte POST [Lit ''templates'', Par ''templateID'', Lit ''assignments''] ''AssignTemplateToAgent'',
      rte POST [Lit ''templates'', Par ''templateID'', Lit ''assignments'', Par ''agentID'', Lit ''deploy''] ''DeployTemplateAssignment'',
      rte DELETE [Lit ''templates'', Par ''templateID'', Lit ''assignments'', Par ''agentID''] ''UnassignTemplate'']"

definition routes_actions :: "route list" where
  "routes_actions =
     [rte GET [Lit ''actions''] ''ListActions'',
      rte GET [Lit ''actions'', Rest] ''GetAction'']"

definition routes_pddl :: "route list" where
  "routes_pddl =
     [rte GET [Lit ''pddl'', Lit ''problems''] ''ListPlanningProblems'',
      rte POST [Lit ''pddl'', Lit ''problems''] ''CreatePlanningProblem'',
      rte GET [Lit ''pddl'', Lit ''problems'', Par ''problemID''] ''GetPlanningProblem'',
      rte DELETE [Lit ''pddl'', Lit ''problems'', Par ''problemID''] ''DeletePlanningProblem'',
      rte POST [Lit ''pddl'', Lit ''problems'', Par ''problemID'', Lit ''solve''] ''SolvePlanningProblem'',
      rte POST [Lit ''pddl'', Lit ''problems'', Par ''problemID'', Lit ''execute''] ''ExecutePlan'',
      rte POST [Lit ''pddl'', Lit ''preview''] ''PreviewDistribution'',
      rte GET [Lit ''pddl'', Lit ''executions''] ''ListPlanExecutions'',
      rte GET [Lit ''pddl'', Lit ''executions'', Par ''executionID''] ''GetPlanExecution'',
      rte POST [Lit ''pddl'', Lit ''executions'', Par ''executionID'', Lit ''cancel''] ''CancelPlanExecution'',
      rte GET [Lit ''pddl'', Lit ''realtime-sessions''] ''ListRealtimeSessions'',
      rte POST [Lit ''pddl'', Lit ''realtime-sessions''] ''StartRealtimeSession'',
      rte GET [Lit ''pddl'', Lit ''realtime-sessions'', Par ''sessionID''] ''GetRealtimeSession'',
      rte POST [Lit ''pddl'', Lit ''realtime-sessions'', Par ''sessionID'', Lit ''reset-state''] ''ResetRealtimeSessionState'',
      rte POST [Lit ''pddl'', Lit ''realtime-sessions'', Par ''sessionID'', Lit ''stop''] ''StopRealtimeSession'',
      rte GET [Lit ''pddl'', Lit ''resources''] ''GetPlanResources'']"

definition routes_task_distributors :: "route list" where
  "routes_task_distributors =
     [rte GET [Lit ''task-distributors''] ''ListTaskDistributors'',
      rte POST [Lit ''task-distributors''] ''CreateTaskDistributor'',
      rte GET [Lit ''task-distributors'', Par ''distributorID''] ''GetTaskDistributor'',
      rte GET [Lit ''task-distributors'', Par ''distributorID'', Lit ''full''] ''GetTaskDistributorFull'',
      rte PUT [Lit ''task-distributors'', Par ''distributorID''] ''UpdateTaskDistributor'',
      rte DELETE [Lit ''task-distributors'', Par ''distributorID''] ''DeleteTaskDistributor'',
      rte GET [Lit ''task-distributors'', Par ''distributorID'', Lit ''state-merge-policies''] ''GetTaskDistributorStateMergePolicies'',
      rte PUT [Lit ''task-distributors'', Par ''distributorID'', Lit ''state-merge-policies''] ''UpdateTaskDistributorStateMergePolicies'',
      rte GET [Lit ''task-distributors'', Par ''distributorID'', Lit ''states''] ''ListTaskDistributorStates'',
      rte POST [Lit ''task-distributors'', Par ''distributorID'', Lit ''states''] ''CreateTaskDistributorState'',
      rte PUT [Lit ''task-distributors'', Par ''distributorID'', Lit ''states'', Par ''stateID''] ''UpdateTaskDistributorState'',
      rte DELETE [Lit ''task-distributors'', Par ''distributorID'', Lit ''states'', Par ''stateID''] ''DeleteTaskDistributorState'',
      rte GET [Lit ''task-distributors'', Par ''distributorID'', Lit ''resources''] ''ListTaskDistributorResources'',
      rte POST [Lit ''task-distributors'', Par ''distributorID'', Lit ''resources''] ''CreateTaskDistributorResource'',
      rte PUT [Lit ''task-distributors'', Par ''distributorID'', Lit ''resources'', Par ''resourceID''] ''UpdateTaskDistributorResource'',
      rte DELETE [Lit ''task-distributors'', Par ''distributorID'', Lit ''resources'', Par ''resourceID''] ''DeleteTaskDistributorResource'',
      rte GET [Lit ''task-distributors'', Par ''distributorID'', Lit ''runtime-state''] ''ListTaskDistributorRuntimeState'',
      rte POST [Lit ''task-distributors'', Par ''distributorID'', Lit ''runtime-state''] ''UpsertTaskDistributorRuntimeState'',
      rte DELETE [Lit ''task-distributors'', Par ''distributorID'', Lit ''runtime-state''] ''ClearTaskDistributorRuntimeState'']"

definition routes_save_files :: "route list" where
  "routes_save_files =
     [rte GET [Lit ''save-files'', Lit ''task-sets''] ''ListTaskSetSaveFiles'',
      rte POST [Lit ''save-files'', Lit ''task-sets''] ''SaveTaskSetFile'',
      rte GET [Lit ''save-files'', Lit ''task-sets'', Par ''fileName''] ''LoadTaskSetFile'',
      rte GET [Lit ''save-files'', Lit ''tasks''] ''ListTaskSaveFiles'',
      rte POST [Lit ''save-files'', Lit ''tasks''] ''SaveTaskFile'',
      rte GET [Lit ''save-files'', Lit ''tasks'', Par ''fileName''] ''LoadTaskFile'',
      rte GET [Lit ''save-files'', Lit ''pddl-profiles''] ''ListPddlProfileSaveFiles'',
      rte POST [Lit ''save-files'', Lit ''pddl-profiles''] ''SavePddlProfileFile'',
      rte GET [Lit ''save-files'', Lit ''pddl-profiles'', Par ''fileName''] ''LoadPddlProfileFile'']"

definition routes_system :: "route list" where
  "routes_system =
     [rte GET [Lit ''system'', Lit ''cache'', Lit ''stats''] ''GetCacheStats'',
      rte POST [Lit ''system'', Lit ''cache'', Lit ''evict''] ''EvictStaleCache'',
      rte GET [Lit ''system'', Lit ''states''] ''GetSystemStates'']"

definition routes :: "route list" where
  "routes = routes_robots @ routes_capabilities @ routes_behavior_trees @ routes_agents @ routes_tasks @ routes_logs @ routes_waypoints @ routes_state_definitions @ routes_fleet @ routes_templates @ routes_actions @ routes_pddl @ routes_task_distributors @ routes_save_files @ routes_system"

text \<open>
  What the browser makes of a URL (the language's URL parser, on a path): blanks at its ends and line breaks and tabs in it are
  dropped; the path ends at a question mark or a hash; a slash or a backslash ends a segment; a segment that is one dot is dropped
  and one that is two dots takes the segment before it along, also when a dot is written as \<^verbatim>\<open>%2e\<close>; and characters that cannot
  stand in a path are encoded. The requests go below the base \<^verbatim>\<open>/api\<close>.
\<close>

definition one_dot :: "string list" where
  "one_dot = [''.'', ''%2e'', ''%2E'']"

definition two_dots :: "string list" where
  "two_dots = [''..'', ''.%2e'', ''.%2E'', ''%2e.'', ''%2E.'', ''%2e%2e'', ''%2e%2E'', ''%2E%2e'', ''%2E%2E'']"

definition url_blank :: "char \<Rightarrow> bool" where
  "url_blank c = ((of_char c :: nat) \<le> 32)"

definition url_input :: "string \<Rightarrow> string" where
  "url_input u =
     filter (\<lambda>c. (of_char c :: nat) \<notin> {9, 10, 13}) (rev (dropWhile url_blank (rev (dropWhile url_blank u))))"

fun segs_acc :: "string \<Rightarrow> string \<Rightarrow> string list" where
  "segs_acc acc [] = [rev acc]"
| "segs_acc acc (c # cs) =
     (if c = CHR ''/'' \<or> c = CHR 0x5C then rev acc # segs_acc [] cs
      else if c = CHR ''?'' \<or> c = CHR ''#'' then [rev acc] else segs_acc (c # acc) cs)"

fun walk_segs :: "string list \<Rightarrow> string list \<Rightarrow> string list" where
  "walk_segs path [] = rev path"
| "walk_segs path (s # ss) =
     (if s \<in> set two_dots then walk_segs ((if ss = [] then [''''] else []) @ tl path) ss
      else if s \<in> set one_dot then walk_segs ((if ss = [] then [''''] else []) @ path) ss
      else walk_segs (s # path) ss)"

definition path_char :: "char \<Rightarrow> string" where
  "path_char c =
     (if (of_char c :: nat) \<le> 32 \<or> 127 \<le> (of_char c :: nat) \<or> c \<in> set [CHR 0x22, CHR ''<'', CHR ''>'', CHR 0x5E, CHR 0x60, CHR 0x7B, CHR 0x7D]
      then uri_char c else [c])"

text \<open>The segments below \<^verbatim>\<open>/api\<close> that the server gets; a URL that leaves it has none.\<close>

definition request_segs :: "api_request \<Rightarrow> string list" where
  "request_segs r =
     (case walk_segs [] (tl (segs_acc [] (url_input (''/api'' @ rq_url r)))) of
        s # ss \<Rightarrow> if s = ''api'' then map (\<lambda>x. concat (map path_char x)) ss else []
      | [] \<Rightarrow> [])"

text \<open>Matching a pattern gives the segments of its placeholders.\<close>

fun match_segs :: "pat_seg list \<Rightarrow> string list \<Rightarrow> (string \<times> string list) list option" where
  "match_segs [] [] = Some []"
| "match_segs [Rest] ss = Some [(''*'', ss)]"
| "match_segs (Lit l # ps) (s # ss) = (if l = s then match_segs ps ss else None)"
| "match_segs (Par x # ps) (s # ss) = (if s = '''' then None else map_option (\<lambda>b. (x, [s]) # b) (match_segs ps ss))"
| "match_segs _ _ = None"

fun seg_rank :: "pat_seg \<Rightarrow> nat" where
  "seg_rank (Lit _) = 0"
| "seg_rank (Par _) = 1"
| "seg_rank Rest = 2"

fun preferred :: "pat_seg list \<Rightarrow> pat_seg list \<Rightarrow> bool" where
  "preferred (p # ps) (q # qs) = (seg_rank p < seg_rank q \<or> seg_rank p = seg_rank q \<and> preferred ps qs)"
| "preferred [] (q # qs) = True"
| "preferred _ _ = False"

definition route_matches :: "http_method \<Rightarrow> string list \<Rightarrow> route \<Rightarrow> (string \<times> string list) list option" where
  "route_matches m ss r = (if ro_method r = m then match_segs (ro_pattern r) ss else None)"

text \<open>
  A request is served by a handler: a route of the handler matches with the given placeholders, and is preferred to every other
  route that matches.
\<close>

definition matching :: "http_method \<Rightarrow> string list \<Rightarrow> (route \<times> (string \<times> string list) list) list" where
  "matching m ss = List.map_filter (\<lambda>r. map_option (Pair r) (route_matches m ss r)) routes"

definition best_among :: "(route \<times> (string \<times> string list) list) list \<Rightarrow> string \<Rightarrow> (string \<times> string list) list \<Rightarrow> bool" where
  "best_among ms h b \<longleftrightarrow>
     list_ex (\<lambda>(r, b'). ro_handler r = h \<and> b' = b
       \<and> list_all (\<lambda>(q, _). q = r \<or> preferred (ro_pattern r) (ro_pattern q)) ms) ms"

definition serves_segs :: "http_method \<Rightarrow> string list \<Rightarrow> string \<Rightarrow> (string \<times> string list) list \<Rightarrow> bool" where
  "serves_segs m ss h b \<longleftrightarrow> best_among (matching m ss) h b"

definition serves :: "api_request \<Rightarrow> string \<Rightarrow> (string \<times> string list) list \<Rightarrow> bool" where
  "serves r h b \<longleftrightarrow> serves_segs (rq_method r) (request_segs r) h b"

text \<open>What two handlers read of a request (\<^verbatim>\<open>tasks.go\<close>): the filters of the list of tasks, the reason of a cancellation.\<close>

definition query_get :: "(string \<times> json) list \<Rightarrow> string \<Rightarrow> string" where
  "query_get q k = (case map_of q k of Some (JStr s) \<Rightarrow> s | _ \<Rightarrow> '''')"

definition ListTasks :: "api_request \<Rightarrow> string \<times> string" where
  "ListTasks r = (query_get (rq_query r) ''agent_id'', query_get (rq_query r) ''status'')"

definition CancelTask :: "api_request \<Rightarrow> string" where
  "CancelTask r =
     (let reason = (case rq_body r of
                      Some body \<Rightarrow> (case jget body ''reason'' of JStr s \<Rightarrow> s | _ \<Rightarrow> '''')
                    | None \<Rightarrow> '''')
      in if reason = '''' then ''User requested cancellation'' else reason)"

section \<open>Every request is served\<close>

text \<open>The other arguments of the calls, on which the route does not depend.\<close>

record call_args =
  xa_body :: json
  xa_session :: "string option"
  xa_mode :: "offline_mode option"
  xa_flag :: "bool option"
  xa_query :: "(string \<times> json) list"
  xa_ids :: "string list"
  xa_number :: "rat option"

definition agentApi_calls :: "string \<Rightarrow> string \<Rightarrow> string \<Rightarrow> call_args \<Rightarrow> (api_request \<times> string \<times> (string \<times> string list) list) list" where
  "agentApi_calls i j f a =
     [(agentApi_list (xa_mode a) (xa_flag a), ''ListAgents'', []),
      (agentApi_get i, ''GetAgent'', [(''agentID'', [i])]),
      (agentApi_update i (xa_body a), ''UpdateAgent'', [(''agentID'', [i])]),
      (agentApi_delete i, ''DeleteAgent'', [(''agentID'', [i])]),
      (agentApi_saveCapabilityTemplate i, ''SaveAgentCapabilityTemplate'', [(''agentID'', [i])]),
      (agentApi_getCapabilities i, ''GetAgentCapabilities'', [(''agentID'', [i])]),
      (agentApi_getCompatibleTemplates i, ''GetAgentCompatibleTemplates'', [(''agentID'', [i])]),
      (agentApi_getConnectionStatus, ''GetAgentConnectionStatus'', []),
      (agentApi_getSingleConnectionStatus i, ''GetSingleAgentConnectionStatus'', [(''agentID'', [i])]),
      (agentApi_resetState i, ''ResetAgentState'', [(''agentID'', [i])]),
      (agentApi_getAssignedBehaviorTrees i, ''ListAgentBehaviorTrees'', [(''agentID'', [i])]),
      (agentApi_getAssignedActionGraphs i, ''ListAgentBehaviorTrees'', [(''agentID'', [i])]),
      (agentApi_getAssignedActionGraph i j, ''GetAgentBehaviorTree'', [(''agentID'', [i]), (''graphID'', [j])]),
      (agentApi_removeAssignedBehaviorTree i j, ''RemoveAgentBehaviorTree'', [(''agentID'', [i]), (''graphID'', [j])]),
      (agentApi_deployBehaviorTree i j, ''DeployBehaviorTreeToAgent'', [(''graphID'', [i]), (''agentID'', [j])]),
      (agentApi_deployActionGraph i j, ''DeployBehaviorTreeToAgent'', [(''graphID'', [i]), (''agentID'', [j])])]"

definition capabilityApi_calls :: "string \<Rightarrow> string \<Rightarrow> string \<Rightarrow> call_args \<Rightarrow> (api_request \<times> string \<times> (string \<times> string list) list) list" where
  "capabilityApi_calls i j f a =
     [(capabilityApi_getAllActionTypes, ''GetAllActionTypesWithStats'', []),
      (capabilityApi_listAll, ''ListAllCapabilities'', []),
      (capabilityApi_getByActionType i, ''GetCapabilitiesByActionType'', [(''*'', [i])])]"

definition robotApi_calls :: "string \<Rightarrow> string \<Rightarrow> string \<Rightarrow> call_args \<Rightarrow> (api_request \<times> string \<times> (string \<times> string list) list) list" where
  "robotApi_calls i j f a =
     [(robotApi_list, ''ListRobots'', []),
      (robotApi_get i, ''GetRobot'', [(''robotID'', [i])]),
      (robotApi_delete i, ''DeleteRobot'', [(''robotID'', [i])])]"

definition stateDefinitionApi_calls :: "string \<Rightarrow> string \<Rightarrow> string \<Rightarrow> call_args \<Rightarrow> (api_request \<times> string \<times> (string \<times> string list) list) list" where
  "stateDefinitionApi_calls i j f a =
     [(stateDefinitionApi_list, ''ListStateDefinitions'', []),
      (stateDefinitionApi_get i, ''GetStateDefinition'', [(''stateDefID'', [i])]),
      (stateDefinitionApi_create (xa_body a), ''CreateStateDefinition'', []),
      (stateDefinitionApi_update i (xa_body a), ''UpdateStateDefinition'', [(''stateDefID'', [i])]),
      (stateDefinitionApi_delete i, ''DeleteStateDefinition'', [(''stateDefID'', [i])]),
      (stateDefinitionApi_deploy i (Some (xa_body a)), ''DeployStateDefinition'', [(''stateDefID'', [i])])]"

definition behaviorTreeApi_calls :: "string \<Rightarrow> string \<Rightarrow> string \<Rightarrow> call_args \<Rightarrow> (api_request \<times> string \<times> (string \<times> string list) list) list" where
  "behaviorTreeApi_calls i j f a =
     [(behaviorTreeApi_list (xa_session a) (xa_flag a), ''ListBehaviorTrees'', []),
      (behaviorTreeApi_get i, ''GetBehaviorTree'', [(''graphID'', [i])]),
      (behaviorTreeApi_create (xa_body a), ''CreateBehaviorTree'', []),
      (behaviorTreeApi_update i (xa_body a) (xa_session a), ''UpdateBehaviorTree'', [(''graphID'', [i])]),
      (behaviorTreeApi_delete i, ''DeleteBehaviorTree'', [(''graphID'', [i])]),
      (behaviorTreeApi_execute i j (xa_query a), ''ExecuteBehaviorTree'', [(''graphID'', [i])]),
      (behaviorTreeApi_checkExecutability i j, ''CheckExecutability'', [(''graphID'', [i])]),
      (behaviorTreeApi_executeMulti i (xa_ids a) (Some (xa_body a)) None (xa_session a) (xa_number a), ''ExecuteMultiBehaviorTree'', [(''graphID'', [i])]),
      (behaviorTreeApi_validate i, ''ValidateBehaviorTree'', [(''graphID'', [i])])]"

definition behaviorTreeLockApi_calls :: "string \<Rightarrow> string \<Rightarrow> string \<Rightarrow> call_args \<Rightarrow> (api_request \<times> string \<times> (string \<times> string list) list) list" where
  "behaviorTreeLockApi_calls i j f a =
     [(behaviorTreeLockApi_acquire i j (xa_session a), ''AcquireBehaviorTreeLock'', [(''graphID'', [i])]),
      (behaviorTreeLockApi_release i j, ''ReleaseBehaviorTreeLock'', [(''graphID'', [i])]),
      (behaviorTreeLockApi_getStatus i (xa_session a), ''GetBehaviorTreeLockStatus'', [(''graphID'', [i])]),
      (behaviorTreeLockApi_forceRelease i j j, ''ForceReleaseBehaviorTreeLock'', [(''graphID'', [i])]),
      (behaviorTreeLockApi_heartbeat i j, ''HeartbeatBehaviorTreeLock'', [(''graphID'', [i])])]"

definition taskApi_calls :: "string \<Rightarrow> string \<Rightarrow> string \<Rightarrow> call_args \<Rightarrow> (api_request \<times> string \<times> (string \<times> string list) list) list" where
  "taskApi_calls i j f a =
     [(taskApi_list (xa_session a) (xa_session a), ''ListTasks'', []),
      (taskApi_get i, ''GetTask'', [(''taskID'', [i])]),
      (taskApi_cancel i (xa_session a), ''CancelTask'', [(''taskID'', [i])]),
      (taskApi_pause i, ''PauseTask'', [(''taskID'', [i])]),
      (taskApi_resume i, ''ResumeTask'', [(''taskID'', [i])]),
      (taskApi_getLogs i (xa_number a), ''GetTaskLogs'', [(''taskID'', [i])])]"

definition logsApi_calls :: "string \<Rightarrow> string \<Rightarrow> string \<Rightarrow> call_args \<Rightarrow> (api_request \<times> string \<times> (string \<times> string list) list) list" where
  "logsApi_calls i j f a =
     [(logsApi_getRecent (xa_number a), ''GetRecentLogs'', []),
      (logsApi_getAgentLogs i (xa_number a), ''GetAgentLogs'', [(''agentID'', [i])]),
      (logsApi_getStats, ''GetLogStats'', [])]"

definition waypointApi_calls :: "string \<Rightarrow> string \<Rightarrow> string \<Rightarrow> call_args \<Rightarrow> (api_request \<times> string \<times> (string \<times> string list) list) list" where
  "waypointApi_calls i j f a =
     [(waypointApi_list (xa_session a), ''ListWaypoints'', []),
      (waypointApi_get i, ''GetWaypoint'', [(''waypointID'', [i])]),
      (waypointApi_create (xa_body a), ''CreateWaypoint'', []),
      (waypointApi_update i (xa_body a), ''UpdateWaypoint'', [(''waypointID'', [i])]),
      (waypointApi_delete i, ''DeleteWaypoint'', [(''waypointID'', [i])]),
      (waypointApi_teach i (xa_body a), ''TeachWaypoint'', [(''robotID'', [i])])]"

definition actionApi_calls :: "string \<Rightarrow> string \<Rightarrow> string \<Rightarrow> call_args \<Rightarrow> (api_request \<times> string \<times> (string \<times> string list) list) list" where
  "actionApi_calls i j f a =
     [(actionApi_list, ''ListActions'', []),
      (actionApi_get i, ''GetAction'', [(''*'', [i])])]"

definition templateApi_calls :: "string \<Rightarrow> string \<Rightarrow> string \<Rightarrow> call_args \<Rightarrow> (api_request \<times> string \<times> (string \<times> string list) list) list" where
  "templateApi_calls i j f a =
     [(templateApi_list, ''ListTemplates'', []),
      (templateApi_get i, ''GetTemplate'', [(''templateID'', [i])]),
      (templateApi_create (xa_body a), ''CreateTemplate'', []),
      (templateApi_update i (xa_body a) (xa_session a), ''UpdateTemplate'', [(''templateID'', [i])]),
      (templateApi_updateIdentity i (xa_body a), ''UpdateTemplateIdentity'', [(''templateID'', [i])]),
      (templateApi_delete i, ''DeleteTemplate'', [(''templateID'', [i])]),
      (templateApi_getAssignments i, ''GetTemplateAssignments'', [(''templateID'', [i])]),
      (templateApi_assign i j (xa_flag a) (xa_number a), ''AssignTemplateToAgent'', [(''templateID'', [i])]),
      (templateApi_unassign i j, ''UnassignTemplate'', [(''templateID'', [i]), (''agentID'', [j])]),
      (templateApi_getAgentsOverview, ''GetAgentsOverview'', []),
      (templateApi_getAvailableForAgent i, ''GetAvailableTemplatesForAgent'', [(''agentID'', [i])]),
      (templateApi_getCompatibleAgents i, ''GetTemplateCompatibleAgents'', [(''templateID'', [i])])]"

definition fleetApi_calls :: "string \<Rightarrow> string \<Rightarrow> string \<Rightarrow> call_args \<Rightarrow> (api_request \<times> string \<times> (string \<times> string list) list) list" where
  "fleetApi_calls i j f a =
     [(fleetApi_getState (Some (xa_ids a)) (xa_number a), ''GetFleetState'', []),
      (fleetApi_getRobotState i, ''GetRobotState'', [(''robotID'', [i])]),
      (fleetApi_getAgentState i, ''GetAgentRobotsState'', [(''agentID'', [i])]),
      (fleetApi_validate i (xa_body a), ''ValidatePreconditions'', []),
      (fleetApi_getSummary, ''GetFleetSummary'', [])]"

definition systemApi_calls :: "string \<Rightarrow> string \<Rightarrow> string \<Rightarrow> call_args \<Rightarrow> (api_request \<times> string \<times> (string \<times> string list) list) list" where
  "systemApi_calls i j f a =
     [(systemApi_getSystemStates, ''GetSystemStates'', []),
      (systemApi_getCacheStats, ''GetCacheStats'', []),
      (systemApi_evictStaleCache (xa_number a), ''EvictStaleCache'', [])]"

definition telemetryApi_calls :: "string \<Rightarrow> string \<Rightarrow> string \<Rightarrow> call_args \<Rightarrow> (api_request \<times> string \<times> (string \<times> string list) list) list" where
  "telemetryApi_calls i j f a =
     [(telemetryApi_getRobotTelemetry i, ''GetRobotTelemetry'', [(''robotID'', [i])]),
      (telemetryApi_getJointState i, ''GetRobotJointState'', [(''robotID'', [i])]),
      (telemetryApi_getOdometry i, ''GetRobotOdometry'', [(''robotID'', [i])]),
      (telemetryApi_getTransforms i, ''GetRobotTransforms'', [(''robotID'', [i])])]"

definition pddlApi_calls :: "string \<Rightarrow> string \<Rightarrow> string \<Rightarrow> call_args \<Rightarrow> (api_request \<times> string \<times> (string \<times> string list) list) list" where
  "pddlApi_calls i j f a =
     [(pddlApi_listProblems (xa_session a), ''ListPlanningProblems'', []),
      (pddlApi_createProblem (xa_body a), ''CreatePlanningProblem'', []),
      (pddlApi_getProblem i, ''GetPlanningProblem'', [(''problemID'', [i])]),
      (pddlApi_deleteProblem i, ''DeletePlanningProblem'', [(''problemID'', [i])]),
      (pddlApi_solveProblem i, ''SolvePlanningProblem'', [(''problemID'', [i])]),
      (pddlApi_executePlan i, ''ExecutePlan'', [(''problemID'', [i])]),
      (pddlApi_preview (xa_body a), ''PreviewDistribution'', []),
      (pddlApi_listExecutions, ''ListPlanExecutions'', []),
      (pddlApi_getExecution i, ''GetPlanExecution'', [(''executionID'', [i])]),
      (pddlApi_cancelExecution i, ''CancelPlanExecution'', [(''executionID'', [i])]),
      (pddlApi_listRealtimeSessions, ''ListRealtimeSessions'', []),
      (pddlApi_getRealtimeSession i, ''GetRealtimeSession'', [(''sessionID'', [i])]),
      (pddlApi_startRealtimeSession (xa_body a), ''StartRealtimeSession'', []),
      (pddlApi_stopRealtimeSession i, ''StopRealtimeSession'', [(''sessionID'', [i])]),
      (pddlApi_resetRealtimeSessionState i (xa_body a), ''ResetRealtimeSessionState'', [(''sessionID'', [i])]),
      (pddlApi_getResources, ''GetPlanResources'', [])]"

definition taskDistributorApi_calls :: "string \<Rightarrow> string \<Rightarrow> string \<Rightarrow> call_args \<Rightarrow> (api_request \<times> string \<times> (string \<times> string list) list) list" where
  "taskDistributorApi_calls i j f a =
     [(taskDistributorApi_list, ''ListTaskDistributors'', []),
      (taskDistributorApi_get i, ''GetTaskDistributor'', [(''distributorID'', [i])]),
      (taskDistributorApi_getFull i, ''GetTaskDistributorFull'', [(''distributorID'', [i])]),
      (taskDistributorApi_create (xa_body a), ''CreateTaskDistributor'', []),
      (taskDistributorApi_update i (xa_body a), ''UpdateTaskDistributor'', [(''distributorID'', [i])]),
      (taskDistributorApi_delete i, ''DeleteTaskDistributor'', [(''distributorID'', [i])]),
      (taskDistributorApi_getStateMergePolicies i, ''GetTaskDistributorStateMergePolicies'', [(''distributorID'', [i])]),
      (taskDistributorApi_updateStateMergePolicies i (xa_body a), ''UpdateTaskDistributorStateMergePolicies'', [(''distributorID'', [i])]),
      (taskDistributorApi_listStates i, ''ListTaskDistributorStates'', [(''distributorID'', [i])]),
      (taskDistributorApi_createState i (xa_body a), ''CreateTaskDistributorState'', [(''distributorID'', [i])]),
      (taskDistributorApi_updateState i j (xa_body a), ''UpdateTaskDistributorState'', [(''distributorID'', [i]), (''stateID'', [j])]),
      (taskDistributorApi_deleteState i j, ''DeleteTaskDistributorState'', [(''distributorID'', [i]), (''stateID'', [j])]),
      (taskDistributorApi_listResources i, ''ListTaskDistributorResources'', [(''distributorID'', [i])]),
      (taskDistributorApi_createResource i (xa_body a), ''CreateTaskDistributorResource'', [(''distributorID'', [i])]),
      (taskDistributorApi_updateResource i j (xa_body a), ''UpdateTaskDistributorResource'', [(''distributorID'', [i]), (''resourceID'', [j])]),
      (taskDistributorApi_deleteResource i j, ''DeleteTaskDistributorResource'', [(''distributorID'', [i]), (''resourceID'', [j])])]"

definition saveFilesApi_calls :: "string \<Rightarrow> string \<Rightarrow> string \<Rightarrow> call_args \<Rightarrow> (api_request \<times> string \<times> (string \<times> string list) list) list" where
  "saveFilesApi_calls i j f a =
     [(saveFilesApi_listTaskSets, ''ListTaskSetSaveFiles'', []),
      (saveFilesApi_saveTaskSet i (xa_body a), ''SaveTaskSetFile'', []),
      (saveFilesApi_loadTaskSet f, ''LoadTaskSetFile'', [(''fileName'', [encodePathSegment f])]),
      (saveFilesApi_listTasks, ''ListTaskSaveFiles'', []),
      (saveFilesApi_saveTask i (xa_body a), ''SaveTaskFile'', []),
      (saveFilesApi_loadTask f, ''LoadTaskFile'', [(''fileName'', [encodePathSegment f])]),
      (saveFilesApi_listPddlProfiles, ''ListPddlProfileSaveFiles'', []),
      (saveFilesApi_savePddlProfile i (xa_body a), ''SavePddlProfileFile'', []),
      (saveFilesApi_loadPddlProfile f, ''LoadPddlProfileFile'', [(''fileName'', [encodePathSegment f])])]"

text \<open>All calls of the client with the handler each is meant for.\<close>

definition client_calls :: "string \<Rightarrow> string \<Rightarrow> string \<Rightarrow> call_args \<Rightarrow> (api_request \<times> string \<times> (string \<times> string list) list) list" where
  "client_calls i j f a =
     agentApi_calls i j f a
     @ capabilityApi_calls i j f a
     @ robotApi_calls i j f a
     @ stateDefinitionApi_calls i j f a
     @ behaviorTreeApi_calls i j f a
     @ behaviorTreeLockApi_calls i j f a
     @ taskApi_calls i j f a
     @ logsApi_calls i j f a
     @ waypointApi_calls i j f a
     @ actionApi_calls i j f a
     @ templateApi_calls i j f a
     @ fleetApi_calls i j f a
     @ systemApi_calls i j f a
     @ telemetryApi_calls i j f a
     @ pddlApi_calls i j f a
     @ taskDistributorApi_calls i j f a
     @ saveFilesApi_calls i j f a"

definition lits :: "pat_seg list \<Rightarrow> string list" where
  "lits p = List.map_filter (\<lambda>x. case x of Lit l \<Rightarrow> Some l | _ \<Rightarrow> None) p"

definition route_literals :: "string list" where
  "route_literals = concat (map (\<lambda>r. lits (ro_pattern r)) routes)"

text \<open>
  A segment that reaches the server as it is: letters, digits, marks and encoded bytes only, and not dots. An id that can stand
  in a path is one without encoded bytes that is not empty and none of the words of the routes; the ids the system makes are of this form.
\<close>

definition plain_seg :: "string \<Rightarrow> bool" where
  "plain_seg s \<longleftrightarrow> list_all (\<lambda>c. uri_unreserved c \<or> c = CHR ''%'') s \<and> s \<notin> set one_dot \<and> s \<notin> set two_dots"

definition path_id :: "string \<Rightarrow> bool" where
  "path_id i \<longleftrightarrow> i \<noteq> '''' \<and> list_all uri_unreserved i \<and> i \<noteq> ''.'' \<and> i \<noteq> ''..'' \<and> i \<notin> set route_literals"

section \<open>Segments of a request\<close>

lemma unreserved_range: "uri_unreserved c \<or> c = CHR ''%'' \<Longrightarrow> 32 < (of_char c :: nat) \<and> (of_char c :: nat) < 127"
  by (auto simp: uri_unreserved_def uri_mark_def Let_def)

lemma unreserved_not:
  "\<not> uri_unreserved (CHR ''/'')" "\<not> uri_unreserved (CHR 0x5C)" "\<not> uri_unreserved (CHR ''?'')" "\<not> uri_unreserved (CHR ''#'')"
  "\<not> uri_unreserved (CHR 0x22)" "\<not> uri_unreserved (CHR ''<'')" "\<not> uri_unreserved (CHR ''>'')" "\<not> uri_unreserved (CHR 0x5E)"
  "\<not> uri_unreserved (CHR 0x60)" "\<not> uri_unreserved (CHR 0x7B)" "\<not> uri_unreserved (CHR 0x7D)" "\<not> uri_unreserved (CHR ''%'')"
  by code_simp+

lemma unreserved_plain:
  assumes "uri_unreserved c \<or> c = CHR ''%''"
  shows "32 < (of_char c :: nat)" "c \<noteq> CHR ''/''" "c \<noteq> CHR 0x5C" "c \<noteq> CHR ''?''" "c \<noteq> CHR ''#''" "path_char c = [c]"
proof -
  have "c \<noteq> d" if "\<not> uri_unreserved d" "d \<noteq> CHR ''%''" for d using assms that by auto
  from this[OF unreserved_not(1)] this[OF unreserved_not(2)] this[OF unreserved_not(3)] this[OF unreserved_not(4)]
    this[OF unreserved_not(5)] this[OF unreserved_not(6)] this[OF unreserved_not(7)] this[OF unreserved_not(8)]
    this[OF unreserved_not(9)] this[OF unreserved_not(10)] this[OF unreserved_not(11)] unreserved_range[OF assms]
  show "32 < (of_char c :: nat)" "c \<noteq> CHR ''/''" "c \<noteq> CHR 0x5C" "c \<noteq> CHR ''?''" "c \<noteq> CHR ''#''" "path_char c = [c]"
    by (simp_all add: path_char_def)
qed

lemma input_kept: "list_all (\<lambda>c. 32 < (of_char c :: nat)) u \<Longrightarrow> url_input u = u"
proof -
  assume u: "list_all (\<lambda>c. 32 < (of_char c :: nat)) u"
  have "dropWhile url_blank v = v" if "list_all (\<lambda>c. 32 < (of_char c :: nat)) v" for v
    using that by (cases v) (auto simp: url_blank_def)
  then have "url_input u = filter (\<lambda>c. (of_char c :: nat) \<notin> {9, 10, 13}) u" using u by (simp add: url_input_def)
  also have "\<dots> = u" using u by (auto simp: list_all_iff filter_id_conv)
  finally show ?thesis .
qed

lemma segs_acc_seg: "list_all (\<lambda>c. uri_unreserved c \<or> c = CHR ''%'') s \<Longrightarrow>
    segs_acc acc (s @ CHR ''/'' # t) = (rev acc @ s) # segs_acc [] t \<and> segs_acc acc s = [rev acc @ s]"
proof (induction s arbitrary: acc)
  case (Cons c s)
  then show ?case using unreserved_plain(2-5)[of c] by simp
qed simp

lemma segs_url: "list_all plain_seg ss \<Longrightarrow> segs_acc [] (url ss) = '''' # ss"
proof (induction ss)
  case (Cons s ss)
  have s: "list_all (\<lambda>c. uri_unreserved c \<or> c = CHR ''%'') s" using Cons.prems by (simp add: plain_seg_def)
  show ?case
  proof (cases ss)
    case Nil
    then show ?thesis using segs_acc_seg[OF s, of "[]" "[]"] by (simp add: url_def)
  next
    case (Cons s' ss')
    then have "url (s # ss) = CHR ''/'' # s @ CHR ''/'' # tl (url ss)" "url ss = CHR ''/'' # tl (url ss)" by (simp_all add: url_def)
    moreover from this(2) have "segs_acc [] (url ss) = '''' # segs_acc [] (tl (url ss))" by (metis (full_types) rev.simps(1) segs_acc.simps(2))
    ultimately show ?thesis using Cons.IH Cons.prems segs_acc_seg[OF s, of "[]" "tl (url ss)"] by simp
  qed
qed (simp add: url_def)

lemma walk_plain: "list_all plain_seg ss \<Longrightarrow> walk_segs path ss = rev path @ ss"
  by (induction ss arbitrary: path) (simp_all add: plain_seg_def)

lemma chars_plain: "plain_seg s \<Longrightarrow> concat (map path_char s) = s"
proof -
  assume "plain_seg s"
  then have "\<forall>c \<in> set s. path_char c = [c]" using unreserved_plain(6) by (simp add: plain_seg_def list_all_iff)
  then show ?thesis by (induction s) simp_all
qed

lemma plain_api: "plain_seg ''api''"
  by code_simp

lemma segs_of_url: "list_all plain_seg ss \<Longrightarrow> rq_url r = url ss \<Longrightarrow> request_segs r = ss"
proof -
  assume p: "list_all plain_seg ss" and u: "rq_url r = url ss"
  have "list_all (\<lambda>c. 32 < (of_char c :: nat)) (url ss)" if "list_all plain_seg ss" for ss
    using that unreserved_plain(1) by (auto simp: url_def plain_seg_def list_all_iff)
  moreover have a: "''/api'' @ url ss = url (''api'' # ss)" by (simp add: url_def)
  moreover have q: "list_all plain_seg (''api'' # ss)" using p plain_api by simp
  ultimately have "url_input (''/api'' @ rq_url r) = url (''api'' # ss)" using u input_kept by metis
  then have "request_segs r = map (\<lambda>x. concat (map path_char x)) ss" using walk_plain[OF q, of "[]"] segs_url[OF q] by (simp add: request_segs_def)
  then show ?thesis using p by (simp add: list_all_iff chars_plain map_idI)
qed

lemma request_segs_simps:
  "list_all plain_seg ss \<Longrightarrow> request_segs (api_get ss) = ss"
  "list_all plain_seg ss \<Longrightarrow> request_segs (api_post ss b) = ss"
  "list_all plain_seg ss \<Longrightarrow> request_segs (api_put ss b) = ss"
  "list_all plain_seg ss \<Longrightarrow> request_segs (api_patch ss b) = ss"
  "list_all plain_seg ss \<Longrightarrow> request_segs (api_delete ss) = ss"
  "request_segs (r\<lparr>rq_query := q\<rparr>) = request_segs r" "request_segs (r\<lparr>rq_headers := hs\<rparr>) = request_segs r"
  "request_segs (r\<lparr>rq_body := bd\<rparr>) = request_segs r"
  by (simp_all add: api_get_def api_post_def api_put_def api_patch_def api_delete_def segs_of_url)
     (simp_all add: request_segs_def)

lemma request_method_simps:
  "rq_method (api_get ss) = GET" "rq_method (api_post ss b) = POST" "rq_method (api_put ss b) = PUT"
  "rq_method (api_patch ss b) = PATCH" "rq_method (api_delete ss) = DELETE"
  "rq_method (r\<lparr>rq_query := q\<rparr>) = rq_method r" "rq_method (r\<lparr>rq_headers := hs\<rparr>) = rq_method r"
  "rq_method (r\<lparr>rq_body := bd\<rparr>) = rq_method r"
  by (simp_all add: api_get_def api_post_def api_put_def api_patch_def api_delete_def)

lemma agent_list_request: "request_segs (agentApi_list m b) = [''agents'']" "rq_method (agentApi_list m b) = GET"
proof -
  have "request_segs (agentApi_list m' b') = [''agents'']"
    if "m' \<in> set [None, Some OffAll, Some OffTemplateOnly, Some OffNone]" "b' \<in> set [None, Some True, Some False]" for m' b'
    using that by (simp only: list.set insert_iff empty_iff simp_thms) (elim disjE; hypsubst; code_simp)
  moreover have "m \<in> set [None, Some OffAll, Some OffTemplateOnly, Some OffNone]"
    by (cases m) (use offline_mode.exhaust in auto)
  moreover have "b \<in> set [None, Some True, Some False]" by (cases b) auto
  ultimately show "request_segs (agentApi_list m b) = [''agents'']" by blast
qed (simp add: agentApi_list_def request_method_simps Let_def)

text \<open>A query in the URL of a request leaves its segments alone.\<close>

lemma input_query:
  assumes "list_all (\<lambda>c. 32 < (of_char c :: nat)) p" "p \<noteq> []"
  shows "\<exists>q'. url_input (p @ CHR ''?'' # q) = p @ CHR ''?'' # q'"
proof -
  have "dropWhile url_blank (p @ CHR ''?'' # q) = p @ CHR ''?'' # q" using assms by (cases p) (auto simp: url_blank_def)
  moreover have "dropWhile url_blank (rev (p @ CHR ''?'' # q)) = dropWhile url_blank (rev q) @ CHR ''?'' # rev p"
    by (induction q rule: rev_induct) (auto simp: url_blank_def)
  moreover have "filter (\<lambda>c. (of_char c :: nat) \<notin> {9, 10, 13}) p = p" using assms(1) by (auto simp: list_all_iff filter_id_conv)
  ultimately show ?thesis by (auto simp: url_input_def)
qed

lemma segs_acc_query:
  "list_all (\<lambda>c. c \<noteq> CHR ''?'' \<and> c \<noteq> CHR ''#'') p \<Longrightarrow> segs_acc acc (p @ CHR ''?'' # q) = segs_acc acc p"
  by (induction p arbitrary: acc) auto

lemma problem_list_request: "request_segs (pddlApi_listProblems b) = [''pddl'', ''problems'']" "rq_method (pddlApi_listProblems b) = GET"
proof -
  have plain: "request_segs (api_get [''pddl'', ''problems'']) = [''pddl'', ''problems'']" by code_simp
  let ?p = "''/api/pddl/problems''"
  obtain q where "url_input (?p @ CHR ''?'' # ''behavior_tree_id='' @ the b) = ?p @ CHR ''?'' # q"
    using input_query[of ?p "''behavior_tree_id='' @ the b"] by auto
  moreover have "url_input ?p = ?p" by code_simp
  ultimately have "request_segs ((api_get [''pddl'', ''problems''])\<lparr>rq_url := ''/pddl/problems'' @ ''?behavior_tree_id='' @ the b\<rparr>)
      = request_segs (api_get [''pddl'', ''problems''])"
    using segs_acc_query[of ?p "[]" q] by (simp add: request_segs_def api_get_def url_def)
  with plain show "request_segs (pddlApi_listProblems b) = [''pddl'', ''problems'']"
    by (auto simp: pddlApi_listProblems_def api_get_def url_def)
qed (simp add: pddlApi_listProblems_def request_method_simps)

section \<open>Matching by the first segment\<close>

definition headed :: "string \<Rightarrow> route list \<Rightarrow> bool" where
  "headed g rs = list_all (\<lambda>r. case ro_pattern r of Lit l # _ \<Rightarrow> l = g | _ \<Rightarrow> False) rs"

definition matches_in :: "http_method \<Rightarrow> string list \<Rightarrow> route list \<Rightarrow> (route \<times> (string \<times> string list) list) list" where
  "matches_in m ss rs = List.map_filter (\<lambda>r. map_option (Pair r) (route_matches m ss r)) rs"

lemma matches_in_simps:
  "matches_in m ss [] = []"
  "matches_in m ss (rte m' p h # rs) =
     (if m' = m then (case match_segs p ss of None \<Rightarrow> matches_in m ss rs | Some b \<Rightarrow> (rte m' p h, b) # matches_in m ss rs)
      else matches_in m ss rs)"
  by (auto simp: matches_in_def List.map_filter_simps route_matches_def rte_def split: option.splits)

lemma matches_in_append: "matches_in m ss (rs @ rs') = matches_in m ss rs @ matches_in m ss rs'"
  by (simp add: matches_in_def List.map_filter_def)

lemma matching_routes: "matching m ss = matches_in m ss routes"
  by (simp add: matching_def matches_in_def)

lemma rte_simps:
  "ro_method (rte m p h) = m" "ro_pattern (rte m p h) = p" "ro_handler (rte m p h) = h"
  "rte m p h = rte m' p' h' \<longleftrightarrow> m = m' \<and> p = p' \<and> h = h'"
  by (auto simp: rte_def)

lemma headed_other: "headed g rs \<Longrightarrow> s \<noteq> g \<Longrightarrow> matches_in m (s # ss) rs = []"
  by (induction rs) (auto simp: headed_def matches_in_def List.map_filter_simps route_matches_def split: list.splits pat_seg.splits option.splits)

lemma headed_robots: "headed ''robots'' routes_robots"
  by (simp add: headed_def routes_robots_def rte_def)

lemma headed_capabilities: "headed ''capabilities'' routes_capabilities"
  by (simp add: headed_def routes_capabilities_def rte_def)

lemma headed_behavior_trees: "headed ''behavior-trees'' routes_behavior_trees"
  by (simp add: headed_def routes_behavior_trees_def rte_def)

lemma headed_agents: "headed ''agents'' routes_agents"
  by (simp add: headed_def routes_agents_def rte_def)

lemma headed_tasks: "headed ''tasks'' routes_tasks"
  by (simp add: headed_def routes_tasks_def rte_def)

lemma headed_logs: "headed ''logs'' routes_logs"
  by (simp add: headed_def routes_logs_def rte_def)

lemma headed_waypoints: "headed ''waypoints'' routes_waypoints"
  by (simp add: headed_def routes_waypoints_def rte_def)

lemma headed_state_definitions: "headed ''state-definitions'' routes_state_definitions"
  by (simp add: headed_def routes_state_definitions_def rte_def)

lemma headed_fleet: "headed ''fleet'' routes_fleet"
  by (simp add: headed_def routes_fleet_def rte_def)

lemma headed_templates: "headed ''templates'' routes_templates"
  by (simp add: headed_def routes_templates_def rte_def)

lemma headed_actions: "headed ''actions'' routes_actions"
  by (simp add: headed_def routes_actions_def rte_def)

lemma headed_pddl: "headed ''pddl'' routes_pddl"
  by (simp add: headed_def routes_pddl_def rte_def)

lemma headed_task_distributors: "headed ''task-distributors'' routes_task_distributors"
  by (simp add: headed_def routes_task_distributors_def rte_def)

lemma headed_save_files: "headed ''save-files'' routes_save_files"
  by (simp add: headed_def routes_save_files_def rte_def)

lemma headed_system: "headed ''system'' routes_system"
  by (simp add: headed_def routes_system_def rte_def)

lemmas headed_rules =
   headed_robots[THEN headed_other] headed_capabilities[THEN headed_other] headed_behavior_trees[THEN headed_other]
   headed_agents[THEN headed_other] headed_tasks[THEN headed_other] headed_logs[THEN headed_other]
   headed_waypoints[THEN headed_other] headed_state_definitions[THEN headed_other] headed_fleet[THEN headed_other]
   headed_templates[THEN headed_other] headed_actions[THEN headed_other] headed_pddl[THEN headed_other]
   headed_task_distributors[THEN headed_other] headed_save_files[THEN headed_other] headed_system[THEN headed_other]

lemma matching_robots: "matching m (''robots'' # ss) = matches_in m (''robots'' # ss) routes_robots"
  by (simp add: matching_routes routes_def matches_in_append headed_rules)

lemma matching_capabilities: "matching m (''capabilities'' # ss) = matches_in m (''capabilities'' # ss) routes_capabilities"
  by (simp add: matching_routes routes_def matches_in_append headed_rules)

lemma matching_behavior_trees: "matching m (''behavior-trees'' # ss) = matches_in m (''behavior-trees'' # ss) routes_behavior_trees"
  by (simp add: matching_routes routes_def matches_in_append headed_rules)

lemma matching_agents: "matching m (''agents'' # ss) = matches_in m (''agents'' # ss) routes_agents"
  by (simp add: matching_routes routes_def matches_in_append headed_rules)

lemma matching_tasks: "matching m (''tasks'' # ss) = matches_in m (''tasks'' # ss) routes_tasks"
  by (simp add: matching_routes routes_def matches_in_append headed_rules)

lemma matching_logs: "matching m (''logs'' # ss) = matches_in m (''logs'' # ss) routes_logs"
  by (simp add: matching_routes routes_def matches_in_append headed_rules)

lemma matching_waypoints: "matching m (''waypoints'' # ss) = matches_in m (''waypoints'' # ss) routes_waypoints"
  by (simp add: matching_routes routes_def matches_in_append headed_rules)

lemma matching_state_definitions: "matching m (''state-definitions'' # ss) = matches_in m (''state-definitions'' # ss) routes_state_definitions"
  by (simp add: matching_routes routes_def matches_in_append headed_rules)

lemma matching_fleet: "matching m (''fleet'' # ss) = matches_in m (''fleet'' # ss) routes_fleet"
  by (simp add: matching_routes routes_def matches_in_append headed_rules)

lemma matching_templates: "matching m (''templates'' # ss) = matches_in m (''templates'' # ss) routes_templates"
  by (simp add: matching_routes routes_def matches_in_append headed_rules)

lemma matching_actions: "matching m (''actions'' # ss) = matches_in m (''actions'' # ss) routes_actions"
  by (simp add: matching_routes routes_def matches_in_append headed_rules)

lemma matching_pddl: "matching m (''pddl'' # ss) = matches_in m (''pddl'' # ss) routes_pddl"
  by (simp add: matching_routes routes_def matches_in_append headed_rules)

lemma matching_task_distributors: "matching m (''task-distributors'' # ss) = matches_in m (''task-distributors'' # ss) routes_task_distributors"
  by (simp add: matching_routes routes_def matches_in_append headed_rules)

lemma matching_save_files: "matching m (''save-files'' # ss) = matches_in m (''save-files'' # ss) routes_save_files"
  by (simp add: matching_routes routes_def matches_in_append headed_rules)

lemma matching_system: "matching m (''system'' # ss) = matches_in m (''system'' # ss) routes_system"
  by (simp add: matching_routes routes_def matches_in_append headed_rules)

lemmas client_defs =
  agentApi_get_def agentApi_update_def agentApi_delete_def agentApi_saveCapabilityTemplate_def
  agentApi_getCapabilities_def agentApi_getCompatibleTemplates_def agentApi_getConnectionStatus_def
  agentApi_getSingleConnectionStatus_def agentApi_resetState_def agentApi_getAssignedBehaviorTrees_def
  agentApi_getAssignedActionGraphs_def agentApi_getAssignedActionGraph_def agentApi_removeAssignedBehaviorTree_def
  agentApi_deployBehaviorTree_def agentApi_deployActionGraph_def capabilityApi_getAllActionTypes_def
  capabilityApi_listAll_def capabilityApi_getByActionType_def robotApi_list_def robotApi_get_def robotApi_delete_def
  stateDefinitionApi_list_def stateDefinitionApi_get_def stateDefinitionApi_create_def stateDefinitionApi_update_def
  stateDefinitionApi_delete_def stateDefinitionApi_deploy_def behaviorTreeApi_list_def behaviorTreeApi_get_def
  behaviorTreeApi_create_def behaviorTreeApi_update_def behaviorTreeApi_delete_def behaviorTreeApi_execute_def
  behaviorTreeApi_checkExecutability_def behaviorTreeApi_executeMulti_def behaviorTreeApi_validate_def
  behaviorTreeLockApi_acquire_def behaviorTreeLockApi_release_def behaviorTreeLockApi_getStatus_def
  behaviorTreeLockApi_forceRelease_def behaviorTreeLockApi_heartbeat_def taskApi_list_def taskApi_get_def
  taskApi_cancel_def taskApi_pause_def taskApi_resume_def taskApi_getLogs_def logsApi_getRecent_def
  logsApi_getAgentLogs_def logsApi_getStats_def waypointApi_list_def waypointApi_get_def waypointApi_create_def
  waypointApi_update_def waypointApi_delete_def waypointApi_teach_def actionApi_list_def actionApi_get_def
  templateApi_list_def templateApi_get_def templateApi_create_def templateApi_update_def templateApi_updateIdentity_def
  templateApi_delete_def templateApi_getAssignments_def templateApi_assign_def templateApi_unassign_def
  templateApi_getAgentsOverview_def templateApi_getAvailableForAgent_def templateApi_getCompatibleAgents_def
  fleetApi_getState_def fleetApi_getRobotState_def fleetApi_getAgentState_def fleetApi_validate_def
  fleetApi_getSummary_def systemApi_getSystemStates_def systemApi_getCacheStats_def systemApi_evictStaleCache_def
  telemetryApi_getRobotTelemetry_def telemetryApi_getJointState_def telemetryApi_getOdometry_def
  telemetryApi_getTransforms_def pddlApi_createProblem_def pddlApi_getProblem_def pddlApi_deleteProblem_def
  pddlApi_solveProblem_def pddlApi_executePlan_def pddlApi_preview_def pddlApi_listExecutions_def
  pddlApi_getExecution_def pddlApi_cancelExecution_def pddlApi_listRealtimeSessions_def pddlApi_getRealtimeSession_def
  pddlApi_startRealtimeSession_def pddlApi_stopRealtimeSession_def pddlApi_resetRealtimeSessionState_def
  pddlApi_getResources_def taskDistributorApi_list_def taskDistributorApi_get_def taskDistributorApi_getFull_def
  taskDistributorApi_create_def taskDistributorApi_update_def taskDistributorApi_delete_def
  taskDistributorApi_getStateMergePolicies_def taskDistributorApi_updateStateMergePolicies_def
  taskDistributorApi_listStates_def taskDistributorApi_createState_def taskDistributorApi_updateState_def
  taskDistributorApi_deleteState_def taskDistributorApi_listResources_def taskDistributorApi_createResource_def
  taskDistributorApi_updateResource_def taskDistributorApi_deleteResource_def saveFilesApi_listTaskSets_def
  saveFilesApi_saveTaskSet_def saveFilesApi_loadTaskSet_def saveFilesApi_listTasks_def saveFilesApi_saveTask_def
  saveFilesApi_loadTask_def saveFilesApi_listPddlProfiles_def saveFilesApi_savePddlProfile_def
  saveFilesApi_loadPddlProfile_def

section \<open>The calls of each part of the client\<close>

text \<open>The words of the routes are plain: they have small letters and dashes.\<close>

definition route_char :: "char \<Rightarrow> bool" where
  "route_char c \<longleftrightarrow> c = CHR ''-'' \<or> CHR ''a'' \<le> c \<and> c \<le> CHR ''z''"

lemma route_chars:
  "route_char (CHR ''a'')" "route_char (CHR ''b'')" "route_char (CHR ''c'')" "route_char (CHR ''d'')" "route_char (CHR ''e'')" "route_char (CHR ''f'')"
  "route_char (CHR ''g'')" "route_char (CHR ''h'')" "route_char (CHR ''i'')" "route_char (CHR ''j'')" "route_char (CHR ''k'')" "route_char (CHR ''l'')"
  "route_char (CHR ''m'')" "route_char (CHR ''n'')" "route_char (CHR ''o'')" "route_char (CHR ''p'')" "route_char (CHR ''q'')" "route_char (CHR ''r'')"
  "route_char (CHR ''s'')" "route_char (CHR ''t'')" "route_char (CHR ''u'')" "route_char (CHR ''v'')" "route_char (CHR ''w'')" "route_char (CHR ''x'')"
  "route_char (CHR ''y'')" "route_char (CHR ''z'')" "route_char (CHR ''-'')"
  by code_simp+

lemma route_char_unreserved: "route_char c \<Longrightarrow> uri_unreserved c \<and> c \<noteq> CHR ''.'' \<and> c \<noteq> CHR ''%''"
  by (auto simp: route_char_def uri_unreserved_def uri_mark_def less_eq_char_def Let_def)

lemma route_word_plain: "list_all route_char s \<Longrightarrow> s \<noteq> [] \<Longrightarrow> plain_seg s"
proof -
  assume s: "list_all route_char s" "s \<noteq> []"
  have "d = [] \<or> CHR ''.'' \<in> set d \<or> CHR ''%'' \<in> set d" if "d \<in> set one_dot \<or> d \<in> set two_dots" for d
    using that by (auto simp: one_dot_def two_dots_def)
  then show ?thesis using s route_char_unreserved by (auto simp: plain_seg_def list_all_iff)
qed

lemma words_plain:
  "plain_seg ''action-type'' \<and> plain_seg ''action-types'' \<and> plain_seg ''actions'' \<and> plain_seg ''agents'' \<and>
    plain_seg ''agents-overview'' \<and> plain_seg ''assignments'' \<and> plain_seg ''available-templates'' \<and> plain_seg ''behavior-trees'' \<and>
    plain_seg ''by-category'' \<and> plain_seg ''cache'' \<and> plain_seg ''cancel'' \<and> plain_seg ''canonical'' \<and>
    plain_seg ''capabilities'' \<and> plain_seg ''capability-template'' \<and> plain_seg ''changed'' \<and> plain_seg ''check-executability'' \<and>
    plain_seg ''commands'' \<and> plain_seg ''compatible-agents'' \<and> plain_seg ''compatible-templates'' \<and> plain_seg ''connect'' \<and>
    plain_seg ''connection-status'' \<and> plain_seg ''copy'' \<and> plain_seg ''copy-blocks'' \<and> plain_seg ''deploy'' \<and>
    plain_seg ''evict'' \<and> plain_seg ''execute'' \<and> plain_seg ''execute-multi'' \<and> plain_seg ''executions'' \<and>
    plain_seg ''export'' \<and> plain_seg ''fleet'' \<and> plain_seg ''force'' \<and> plain_seg ''full'' \<and>
    plain_seg ''heartbeat'' \<and> plain_seg ''identity'' \<and> plain_seg ''import'' \<and> plain_seg ''joint-state'' \<and>
    plain_seg ''lock'' \<and> plain_seg ''logs'' \<and> plain_seg ''odometry'' \<and> plain_seg ''paste-blocks'' \<and>
    plain_seg ''pause'' \<and> plain_seg ''pddl'' \<and> plain_seg ''pddl-profiles'' \<and> plain_seg ''precondition-status'' \<and>
    plain_seg ''preview'' \<and> plain_seg ''problems'' \<and> plain_seg ''realtime-sessions'' \<and> plain_seg ''reset-state'' \<and>
    plain_seg ''resources'' \<and> plain_seg ''result'' \<and> plain_seg ''resume'' \<and> plain_seg ''robots'' \<and>
    plain_seg ''runtime-state'' \<and> plain_seg ''save-files'' \<and> plain_seg ''solve'' \<and> plain_seg ''state'' \<and>
    plain_seg ''state-definitions'' \<and> plain_seg ''state-merge-policies'' \<and> plain_seg ''states'' \<and> plain_seg ''stats'' \<and>
    plain_seg ''status'' \<and> plain_seg ''stop'' \<and> plain_seg ''summary'' \<and> plain_seg ''system'' \<and>
    plain_seg ''task-distributors'' \<and> plain_seg ''task-sets'' \<and> plain_seg ''tasks'' \<and> plain_seg ''teach'' \<and>
    plain_seg ''telemetry'' \<and> plain_seg ''templates'' \<and> plain_seg ''transforms'' \<and> plain_seg ''validate'' \<and>
    plain_seg ''validate-canonical'' \<and> plain_seg ''waypoints''"
  by (intro conjI; rule route_word_plain; simp only: list.pred_inject route_chars simp_thms list.distinct)

text \<open>The words a route may have where another route has an id.\<close>

lemma lits_simps: "lits [] = []" "lits (Lit l # p) = l # lits p" "lits (Par x # p) = lits p" "lits (Rest # p) = lits p"
  by (simp_all add: lits_def List.map_filter_simps)

lemma literals_simps:
  "concat (map (\<lambda>r. lits (ro_pattern r)) []) = []"
  "concat (map (\<lambda>r. lits (ro_pattern r)) (rte m p h # rs)) = lits p @ concat (map (\<lambda>r. lits (ro_pattern r)) rs)"
  by (simp_all add: rte_simps)

lemma path_id_words:
  "path_id i \<Longrightarrow> ''connect'' \<noteq> i \<and> ''commands'' \<noteq> i \<and> ''result'' \<noteq> i \<and> ''capabilities'' \<noteq> i
    \<and> ''status'' \<noteq> i \<and> ''action-types'' \<noteq> i \<and> ''changed'' \<noteq> i \<and> ''by-category'' \<noteq> i
    \<and> ''action-type'' \<noteq> i \<and> ''import'' \<noteq> i \<and> ''check-executability'' \<noteq> i \<and> ''execute'' \<noteq> i
    \<and> ''execute-multi'' \<noteq> i \<and> ''validate'' \<noteq> i \<and> ''export'' \<noteq> i \<and> ''lock'' \<noteq> i
    \<and> ''heartbeat'' \<noteq> i \<and> ''force'' \<noteq> i \<and> ''canonical'' \<noteq> i \<and> ''validate-canonical'' \<noteq> i
    \<and> ''deploy'' \<noteq> i \<and> ''connection-status'' \<noteq> i \<and> ''capability-template'' \<noteq> i \<and> ''logs'' \<noteq> i
    \<and> ''reset-state'' \<noteq> i \<and> ''behavior-trees'' \<noteq> i \<and> ''cancel'' \<noteq> i \<and> ''pause'' \<noteq> i
    \<and> ''resume'' \<noteq> i \<and> ''precondition-status'' \<noteq> i \<and> ''stats'' \<noteq> i \<and> ''state'' \<noteq> i
    \<and> ''summary'' \<noteq> i \<and> ''robots'' \<noteq> i \<and> ''telemetry'' \<noteq> i \<and> ''joint-state'' \<noteq> i
    \<and> ''odometry'' \<noteq> i \<and> ''transforms'' \<noteq> i \<and> ''agents'' \<noteq> i \<and> ''agents-overview'' \<noteq> i
    \<and> ''available-templates'' \<noteq> i \<and> ''identity'' \<noteq> i \<and> ''assignments'' \<noteq> i \<and> ''compatible-agents'' \<noteq> i
    \<and> ''teach'' \<noteq> i \<and> ''copy-blocks'' \<noteq> i \<and> ''paste-blocks'' \<noteq> i \<and> ''copy'' \<noteq> i
    \<and> ''compatible-templates'' \<noteq> i \<and> ''problems'' \<noteq> i \<and> ''solve'' \<noteq> i \<and> ''preview'' \<noteq> i
    \<and> ''executions'' \<noteq> i \<and> ''realtime-sessions'' \<noteq> i \<and> ''stop'' \<noteq> i \<and> ''resources'' \<noteq> i
    \<and> ''full'' \<noteq> i \<and> ''state-merge-policies'' \<noteq> i \<and> ''states'' \<noteq> i \<and> ''runtime-state'' \<noteq> i
    \<and> ''task-sets'' \<noteq> i \<and> ''tasks'' \<noteq> i \<and> ''pddl-profiles'' \<noteq> i \<and> ''cache'' \<noteq> i
    \<and> ''evict'' \<noteq> i"
  apply (simp only: path_id_def route_literals_def routes_def map_append concat_append literals_simps lits_simps set_append Un_iff list.set
      append_Cons append_Nil insert_iff empty_iff simp_thms de_Morgan_disj
      routes_robots_def routes_capabilities_def routes_behavior_trees_def routes_agents_def routes_tasks_def
      routes_logs_def routes_waypoints_def routes_state_definitions_def routes_fleet_def routes_templates_def
      routes_actions_def routes_pddl_def routes_task_distributors_def routes_save_files_def routes_system_def)
  apply (elim conjE)
  apply (intro conjI; rule not_sym; assumption)
  done

lemma path_id_segment:
  assumes "path_id i"
  shows "i \<noteq> []" "plain_seg i"
proof -
  have i: "i \<noteq> ''.''" "i \<noteq> ''..''" "list_all uri_unreserved i" using assms by (simp_all add: path_id_def)
  have "CHR ''%'' \<notin> set i" using i(3) by (auto simp: list_all_iff uri_unreserved_def uri_mark_def Let_def)
  moreover have "s \<in> set one_dot \<or> s \<in> set two_dots \<Longrightarrow> s = ''.'' \<or> s = ''..'' \<or> CHR ''%'' \<in> set s" for s
    by (auto simp: one_dot_def two_dots_def)
  ultimately show "plain_seg i" using i by (auto simp: plain_seg_def list_all_iff)
qed (use assms in \<open>simp add: path_id_def\<close>)

text \<open>The encoding of a file name is plain too, unless the name is dots.\<close>

lemma encoding_dots: "encodePathSegment f \<in> set (one_dot @ two_dots) \<Longrightarrow> f = ''.'' \<or> f = ''..''"
proof -
  have "list_all (\<lambda>s. encodePathSegment (utf8_chars (uri_bytes s)) = s \<longrightarrow> utf8_chars (uri_bytes s) \<in> set [''.'', ''..'']) (one_dot @ two_dots)"
    by code_simp
  then have "f \<in> set [''.'', ''..'']" if "encodePathSegment f \<in> set (one_dot @ two_dots)"
    using that encoding_roundtrip[of f] unfolding list_all_iff by metis
  then show "encodePathSegment f \<in> set (one_dot @ two_dots) \<Longrightarrow> ?thesis" by simp
qed

definition file_name :: "string \<Rightarrow> bool" where
  "file_name f \<longleftrightarrow> f \<noteq> '''' \<and> f \<noteq> ''.'' \<and> f \<noteq> ''..''"

lemma file_name_segment:
  assumes "file_name f"
  shows "f \<noteq> []" "plain_seg (encodePathSegment f)"
  using assms encoding_chars[of _ f] encoding_dots[of f] by (auto simp: file_name_def plain_seg_def list_all_iff)

lemma list_checks:
  "list_all P [] = True" "list_all P (x # xs) = (P x \<and> list_all P xs)"
  "list_ex P [] = False" "list_ex P (x # xs) = (P x \<or> list_ex P xs)"
  by auto

lemma rank_less: "(0::nat) < 1" "(0::nat) < 2" "(1::nat) < 2"
  by simp_all

text \<open>
  All that evaluating a request against a list of routes takes; the literals of the routes are never simplified as lists.
\<close>

lemmas serve_simps = client_defs request_segs_simps request_method_simps agent_list_request problem_list_request
  serves_def serves_segs_def best_among_def matches_in_simps rte_simps words_plain encoding_empty list_checks
  match_segs.simps preferred.simps seg_rank.simps rank_less http_method.simps pat_seg.simps list.inject list.distinct list.set
  list.simps insert_iff empty_iff char.inject prod.case prod.inject option.case option.map simp_thms if_True if_False refl

lemma agentApi_calls_served:
  assumes "path_id i" "path_id j" "file_name f"
  shows "list_all (\<lambda>(r, h, b). serves r h b) (agentApi_calls i j f a)"
  by (simp only: agentApi_calls_def serve_simps file_name_segment[OF assms(3)] path_id_words[OF assms(1)] path_id_segment[OF assms(1)]
      path_id_words[OF assms(2)] path_id_segment[OF assms(2)] matching_agents routes_agents_def matching_behavior_trees routes_behavior_trees_def
      cong: if_weak_cong option.case_cong_weak)

lemma capabilityApi_calls_served:
  assumes "path_id i" "path_id j" "file_name f"
  shows "list_all (\<lambda>(r, h, b). serves r h b) (capabilityApi_calls i j f a)"
  by (simp only: capabilityApi_calls_def serve_simps file_name_segment[OF assms(3)] path_id_words[OF assms(1)] path_id_segment[OF assms(1)]
      path_id_words[OF assms(2)] path_id_segment[OF assms(2)] matching_capabilities routes_capabilities_def
      cong: if_weak_cong option.case_cong_weak)

lemma robotApi_calls_served:
  assumes "path_id i" "path_id j" "file_name f"
  shows "list_all (\<lambda>(r, h, b). serves r h b) (robotApi_calls i j f a)"
  by (simp only: robotApi_calls_def serve_simps file_name_segment[OF assms(3)] path_id_words[OF assms(1)] path_id_segment[OF assms(1)]
      path_id_words[OF assms(2)] path_id_segment[OF assms(2)] matching_robots routes_robots_def
      cong: if_weak_cong option.case_cong_weak)

lemma stateDefinitionApi_calls_served:
  assumes "path_id i" "path_id j" "file_name f"
  shows "list_all (\<lambda>(r, h, b). serves r h b) (stateDefinitionApi_calls i j f a)"
  by (simp only: stateDefinitionApi_calls_def serve_simps file_name_segment[OF assms(3)] path_id_words[OF assms(1)] path_id_segment[OF assms(1)]
      path_id_words[OF assms(2)] path_id_segment[OF assms(2)] matching_state_definitions routes_state_definitions_def
      cong: if_weak_cong option.case_cong_weak)

lemma behaviorTreeApi_calls_served:
  assumes "path_id i" "path_id j" "file_name f"
  shows "list_all (\<lambda>(r, h, b). serves r h b) (behaviorTreeApi_calls i j f a)"
  by (simp only: behaviorTreeApi_calls_def serve_simps file_name_segment[OF assms(3)] path_id_words[OF assms(1)] path_id_segment[OF assms(1)]
      path_id_words[OF assms(2)] path_id_segment[OF assms(2)] matching_behavior_trees routes_behavior_trees_def
      cong: if_weak_cong option.case_cong_weak)

lemma behaviorTreeLockApi_calls_served:
  assumes "path_id i" "path_id j" "file_name f"
  shows "list_all (\<lambda>(r, h, b). serves r h b) (behaviorTreeLockApi_calls i j f a)"
  by (simp only: behaviorTreeLockApi_calls_def serve_simps file_name_segment[OF assms(3)] path_id_words[OF assms(1)] path_id_segment[OF assms(1)]
      path_id_words[OF assms(2)] path_id_segment[OF assms(2)] matching_behavior_trees routes_behavior_trees_def
      cong: if_weak_cong option.case_cong_weak)

lemma taskApi_calls_served:
  assumes "path_id i" "path_id j" "file_name f"
  shows "list_all (\<lambda>(r, h, b). serves r h b) (taskApi_calls i j f a)"
  by (simp only: taskApi_calls_def serve_simps file_name_segment[OF assms(3)] path_id_words[OF assms(1)] path_id_segment[OF assms(1)]
      path_id_words[OF assms(2)] path_id_segment[OF assms(2)] matching_tasks routes_tasks_def
      cong: if_weak_cong option.case_cong_weak)

lemma logsApi_calls_served:
  assumes "path_id i" "path_id j" "file_name f"
  shows "list_all (\<lambda>(r, h, b). serves r h b) (logsApi_calls i j f a)"
  by (simp only: logsApi_calls_def serve_simps file_name_segment[OF assms(3)] path_id_words[OF assms(1)] path_id_segment[OF assms(1)]
      path_id_words[OF assms(2)] path_id_segment[OF assms(2)] matching_agents routes_agents_def matching_logs routes_logs_def
      cong: if_weak_cong option.case_cong_weak)

lemma waypointApi_calls_served:
  assumes "path_id i" "path_id j" "file_name f"
  shows "list_all (\<lambda>(r, h, b). serves r h b) (waypointApi_calls i j f a)"
  by (simp only: waypointApi_calls_def serve_simps file_name_segment[OF assms(3)] path_id_words[OF assms(1)] path_id_segment[OF assms(1)]
      path_id_words[OF assms(2)] path_id_segment[OF assms(2)] matching_robots routes_robots_def matching_waypoints routes_waypoints_def
      cong: if_weak_cong option.case_cong_weak)

lemma actionApi_calls_served:
  assumes "path_id i" "path_id j" "file_name f"
  shows "list_all (\<lambda>(r, h, b). serves r h b) (actionApi_calls i j f a)"
  by (simp only: actionApi_calls_def serve_simps file_name_segment[OF assms(3)] path_id_words[OF assms(1)] path_id_segment[OF assms(1)]
      path_id_words[OF assms(2)] path_id_segment[OF assms(2)] matching_actions routes_actions_def
      cong: if_weak_cong option.case_cong_weak)

lemma templateApi_calls_served:
  assumes "path_id i" "path_id j" "file_name f"
  shows "list_all (\<lambda>(r, h, b). serves r h b) (templateApi_calls i j f a)"
  by (simp only: templateApi_calls_def serve_simps file_name_segment[OF assms(3)] path_id_words[OF assms(1)] path_id_segment[OF assms(1)]
      path_id_words[OF assms(2)] path_id_segment[OF assms(2)] matching_templates routes_templates_def
      cong: if_weak_cong option.case_cong_weak)

lemma fleetApi_calls_served:
  assumes "path_id i" "path_id j" "file_name f"
  shows "list_all (\<lambda>(r, h, b). serves r h b) (fleetApi_calls i j f a)"
  by (simp only: fleetApi_calls_def serve_simps file_name_segment[OF assms(3)] path_id_words[OF assms(1)] path_id_segment[OF assms(1)]
      path_id_words[OF assms(2)] path_id_segment[OF assms(2)] matching_fleet routes_fleet_def
      cong: if_weak_cong option.case_cong_weak)

lemma systemApi_calls_served:
  assumes "path_id i" "path_id j" "file_name f"
  shows "list_all (\<lambda>(r, h, b). serves r h b) (systemApi_calls i j f a)"
  by (simp only: systemApi_calls_def serve_simps file_name_segment[OF assms(3)] path_id_words[OF assms(1)] path_id_segment[OF assms(1)]
      path_id_words[OF assms(2)] path_id_segment[OF assms(2)] matching_system routes_system_def
      cong: if_weak_cong option.case_cong_weak)

lemma telemetryApi_calls_served:
  assumes "path_id i" "path_id j" "file_name f"
  shows "list_all (\<lambda>(r, h, b). serves r h b) (telemetryApi_calls i j f a)"
  by (simp only: telemetryApi_calls_def serve_simps file_name_segment[OF assms(3)] path_id_words[OF assms(1)] path_id_segment[OF assms(1)]
      path_id_words[OF assms(2)] path_id_segment[OF assms(2)] matching_fleet routes_fleet_def
      cong: if_weak_cong option.case_cong_weak)

lemma pddlApi_calls_served:
  assumes "path_id i" "path_id j" "file_name f"
  shows "list_all (\<lambda>(r, h, b). serves r h b) (pddlApi_calls i j f a)"
  by (simp only: pddlApi_calls_def serve_simps file_name_segment[OF assms(3)] path_id_words[OF assms(1)] path_id_segment[OF assms(1)]
      path_id_words[OF assms(2)] path_id_segment[OF assms(2)] matching_pddl routes_pddl_def
      cong: if_weak_cong option.case_cong_weak)

lemma taskDistributorApi_calls_served:
  assumes "path_id i" "path_id j" "file_name f"
  shows "list_all (\<lambda>(r, h, b). serves r h b) (taskDistributorApi_calls i j f a)"
  by (simp only: taskDistributorApi_calls_def serve_simps file_name_segment[OF assms(3)] path_id_words[OF assms(1)] path_id_segment[OF assms(1)]
      path_id_words[OF assms(2)] path_id_segment[OF assms(2)] matching_task_distributors routes_task_distributors_def
      cong: if_weak_cong option.case_cong_weak)

lemma saveFilesApi_calls_served:
  assumes "path_id i" "path_id j" "file_name f"
  shows "list_all (\<lambda>(r, h, b). serves r h b) (saveFilesApi_calls i j f a)"
  by (simp only: saveFilesApi_calls_def serve_simps file_name_segment[OF assms(3)] path_id_words[OF assms(1)] path_id_segment[OF assms(1)]
      path_id_words[OF assms(2)] path_id_segment[OF assms(2)] matching_save_files routes_save_files_def
      cong: if_weak_cong option.case_cong_weak)

section \<open>The client and the server agree\<close>

text \<open>C3. Take ids that can stand in a path (of letters, digits and marks, not empty, not dots, no word of a route) and a name of a file
  that is not empty, \<^verbatim>\<open>.\<close> or \<^verbatim>\<open>..\<close>. Every request the client can send for them is, after the browser has parsed its URL, served by the
  handler it is meant for, with the ids where the handler looks for them and the name of the file as its encoded segment, from which it
  can be decoded; no other route is preferred to it.\<close>

theorem client_requests_served:
  assumes "path_id i" "path_id j" "file_name f"
  shows "(\<forall>(r, h, b) \<in> set (client_calls i j f a). serves r h b) \<and> utf8_chars (uri_bytes (encodePathSegment f)) = f"
proof -
  have "list_all (\<lambda>(r, h, b). serves r h b) (client_calls i j f a)"
    unfolding client_calls_def list_all_append
    by (intro conjI agentApi_calls_served[OF assms] capabilityApi_calls_served[OF assms] robotApi_calls_served[OF assms]
        stateDefinitionApi_calls_served[OF assms] behaviorTreeApi_calls_served[OF assms]
        behaviorTreeLockApi_calls_served[OF assms] taskApi_calls_served[OF assms]
        logsApi_calls_served[OF assms] waypointApi_calls_served[OF assms] actionApi_calls_served[OF assms]
        templateApi_calls_served[OF assms] fleetApi_calls_served[OF assms] systemApi_calls_served[OF assms]
        telemetryApi_calls_served[OF assms] pddlApi_calls_served[OF assms]
        taskDistributorApi_calls_served[OF assms] saveFilesApi_calls_served[OF assms])
  then show ?thesis by (simp add: list_all_iff encoding_roundtrip)
qed

theorem client_requests_served_witness:
  "serves (templateApi_unassign ''pick'' ''agv1'') ''UnassignTemplate'' [(''templateID'', [''pick'']), (''agentID'', [''agv1''])]
   \<and> serves (saveFilesApi_loadTask ''a/b.json'') ''LoadTaskFile'' [(''fileName'', [''a%2Fb.json''])]"
proof -
  have "path_id ''pick''" "path_id ''agv1''" "file_name ''a/b.json''" by code_simp+
  from client_requests_served[OF this, of undefined] have
    "serves (templateApi_unassign ''pick'' ''agv1'') ''UnassignTemplate'' [(''templateID'', [''pick'']), (''agentID'', [''agv1''])]"
    "serves (saveFilesApi_loadTask ''a/b.json'') ''LoadTaskFile'' [(''fileName'', [encodePathSegment ''a/b.json''])]"
    by (simp_all add: client_calls_def templateApi_calls_def saveFilesApi_calls_def)
  moreover have "encodePathSegment ''a/b.json'' = ''a%2Fb.json''" by code_simp
  ultimately show ?thesis by simp
qed

text \<open>A type of an action has slashes; the star of its routes takes all of its segments.\<close>

lemma action_type_served:
  "serves (actionApi_get ''nav2_msgs/action/NavigateToPose'') ''GetAction'' [(''*'', [''nav2_msgs'', ''action'', ''NavigateToPose''])]"
proof -
  have "request_segs (actionApi_get ''nav2_msgs/action/NavigateToPose'') = [''actions'', ''nav2_msgs'', ''action'', ''NavigateToPose'']" by code_simp
  then show ?thesis
    by (simp add: serves_def serves_segs_def actionApi_get_def api_get_def matching_actions routes_actions_def matches_in_simps rte_simps best_among_def)
qed

text \<open>Ids that cannot stand in a path address something else: a hash cuts the path, so that deleting one robot asks for
  deleting another; two dots leave the collection.\<close>

theorem reserved_characters_redirect:
  "request_segs (robotApi_delete ''agv#2'') = [''robots'', ''agv'']"
  "request_segs (saveFilesApi_loadTask ''..'') = [''save-files'', '''']"
  "request_segs (templateApi_getAssignments ''..'') = [''assignments'']"
  by code_simp+

section \<open>What the client sends and the server reads\<close>

text \<open>The list of tasks is filtered by \<^verbatim>\<open>status\<close>; the client sends \<^verbatim>\<open>status_filter\<close>, so that its filter has no effect.\<close>

theorem task_filter_ignored: "ListTasks (taskApi_list st ag) = (orS ag '''', '''')"
  by (auto simp: ListTasks_def taskApi_list_def query_get_def orS_def api_get_def split: option.splits)

text \<open>The reason of a cancellation is sent in the query and read from the body.\<close>

lemma cancel_reason_lost: "CancelTask (taskApi_cancel i r) = ''User requested cancellation''"
  by (simp add: CancelTask_def taskApi_cancel_def api_post_def)

end
