(* ===== verification/Telemetry_Panel.thy ===== *)
theory Telemetry_Panel
  imports Pose_Editor Param_Editors Telemetry_Mapping
begin

text \<open>
  How the telemetry of the robots reaches the parameter editors: the shared context (\<^verbatim>\<open>contexts/TelemetryContext.tsx\<close>), the
  panel that shows and captures telemetry (\<^verbatim>\<open>components/TelemetryPanel.tsx\<close>), the section of an action node that feeds the
  editors (\<^verbatim>\<open>nodes/components/GoalParametersSection.tsx\<close>) and the array editor that takes captured arrays
  (\<^verbatim>\<open>nodes/components/ArrayEditor.tsx\<close>). What React Query holds for a robot is a function of the robot; the three
  components and the answers of the server interleave in \<open>telemetry_step\<close>.
\<close>

section \<open>Telemetry and the context\<close>

record twist_value =
  tw_linear :: vector3
  tw_angular :: vector3

record joint_state_data =
  jd_name :: "string list"
  jd_position :: "real list"
  jd_velocity :: "real list"
  jd_effort :: "real list"
  jd_topic_name :: "string option"

record odometry_data =
  oy_frame_id :: string
  oy_child_frame_id :: string
  oy_pose :: pose_value
  oy_twist :: twist_value
  oy_topic_name :: "string option"

record telemetry_msg =
  tm_joint_state :: "joint_state_data option"
  tm_odometry :: "odometry_data option"
  tm_transforms :: "transform_data list option"
  tm_updated_at :: string
  tm_is_stale :: "bool option"

text \<open>The values of type \<open>unknown\<close> that can be captured.\<close>

datatype captured_value =
    CJointState "string list" "real list" "real list" "real list"
  | CNumbers "real list"
  | CNames "string list"
  | CPose pose_value
  | CPoint vector3
  | CTwist twist_value

record captured_telemetry =
  ct_type :: string
  ct_value :: "captured_value option"
  ct_capturedAt :: nat
  ct_robotId :: "string option"

record telemetry_context =
  cx_capturedValue :: "captured_telemetry option"
  cx_isPanelOpen :: bool
  cx_selectedRobotId :: "string option"
  cx_liveTelemetry :: "telemetry_msg option"

definition TelemetryProvider :: telemetry_context where
  "TelemetryProvider = \<lparr>cx_capturedValue = None, cx_isPanelOpen = False, cx_selectedRobotId = None, cx_liveTelemetry = None\<rparr>"

definition clearCapturedValue :: "telemetry_context \<Rightarrow> telemetry_context" where
  "clearCapturedValue cx = cx\<lparr>cx_capturedValue := None\<rparr>"

definition togglePanel :: "telemetry_context \<Rightarrow> telemetry_context" where
  "togglePanel cx = cx\<lparr>cx_isPanelOpen := \<not> cx_isPanelOpen cx\<rparr>"

section \<open>The panel\<close>

definition TELEMETRY_GOAL_MAPPING :: "(string \<times> string list) list" where
  "TELEMETRY_GOAL_MAPPING =
     [(''odometry.pose'', [''geometry_msgs/msg/Pose'', ''geometry_msgs/msg/PoseStamped'']),
      (''odometry.pose.position'', [''geometry_msgs/msg/Point'']),
      (''odometry.twist'', [''geometry_msgs/msg/Twist'']),
      (''joint_state'', [''sensor_msgs/msg/JointState'', ''trajectory_msgs/msg/JointTrajectoryPoint''])]"

definition extractTelemetryValue :: "telemetry_msg \<Rightarrow> string \<Rightarrow> captured_value option" where
  "extractTelemetryValue telemetry targetPath =
     (if targetPath = ''odometry.pose'' then map_option (CPose \<circ> oy_pose) (tm_odometry telemetry)
      else if targetPath = ''odometry.pose.position'' then map_option (CPoint \<circ> pv_position \<circ> oy_pose) (tm_odometry telemetry)
      else if targetPath = ''odometry.twist'' then map_option (CTwist \<circ> oy_twist) (tm_odometry telemetry)
      else if targetPath = ''joint_state''
      then map_option (\<lambda>js. CJointState (jd_name js) (jd_position js) (jd_velocity js) (jd_effort js)) (tm_joint_state telemetry)
      else None)"

definition panel_findCompatibleTelemetryPath :: "string \<Rightarrow> string option" where
  "panel_findCompatibleTelemetryPath goalType =
     map_option fst (List.find (\<lambda>(path, types). goalType \<in> set types) TELEMETRY_GOAL_MAPPING)"

text \<open>The robot of the panel: the one given from outside, or else that of the context.\<close>

definition panelRobotId :: "string option \<Rightarrow> telemetry_context \<Rightarrow> string option" where
  "panelRobotId externalRobotId cx = orO externalRobotId (cx_selectedRobotId cx)"

definition syncExternalRobot :: "string option \<Rightarrow> telemetry_context \<Rightarrow> telemetry_context" where
  "syncExternalRobot externalRobotId cx =
     (if truthy externalRobotId \<and> externalRobotId \<noteq> cx_selectedRobotId cx then cx\<lparr>cx_selectedRobotId := externalRobotId\<rparr> else cx)"

definition syncLiveTelemetry :: "telemetry_msg option \<Rightarrow> string option \<Rightarrow> telemetry_context \<Rightarrow> telemetry_context" where
  "syncLiveTelemetry telemetry selectedRobotId cx =
     (case telemetry of
        Some t \<Rightarrow> cx\<lparr>cx_liveTelemetry := Some t\<rparr>
      | None \<Rightarrow> if \<not> truthy selectedRobotId then cx\<lparr>cx_liveTelemetry := None\<rparr> else cx)"

text \<open>The selection of a robot in the panel or in a node; the empty option clears it.\<close>

definition selectRobot :: "string \<Rightarrow> telemetry_context \<Rightarrow> telemetry_context" where
  "selectRobot v cx = cx\<lparr>cx_selectedRobotId := (if v = '''' then None else Some v)\<rparr>"

definition capture :: "nat \<Rightarrow> string option \<Rightarrow> string \<Rightarrow> captured_value option \<Rightarrow> telemetry_context \<Rightarrow> telemetry_context" where
  "capture now selectedRobotId ty v cx =
     cx\<lparr>cx_capturedValue := Some \<lparr>ct_type = ty, ct_value = v, ct_capturedAt = now, ct_robotId = orO selectedRobotId None\<rparr>\<rparr>"

definition handleCaptureJointState :: "nat \<Rightarrow> telemetry_msg option \<Rightarrow> string option \<Rightarrow> telemetry_context \<Rightarrow> telemetry_context" where
  "handleCaptureJointState now telemetry robot cx =
     (case telemetry of
        Some t \<Rightarrow> if tm_joint_state t \<noteq> None then capture now robot ''joint_state'' (extractTelemetryValue t ''joint_state'') cx else cx
      | None \<Rightarrow> cx)"

definition handleCapturePosition :: "nat \<Rightarrow> telemetry_msg option \<Rightarrow> string option \<Rightarrow> telemetry_context \<Rightarrow> telemetry_context" where
  "handleCapturePosition now telemetry robot cx =
     (case Option.bind telemetry tm_joint_state of
        Some js \<Rightarrow> capture now robot ''joint_state.position'' (Some (CNumbers (jd_position js))) cx
      | None \<Rightarrow> cx)"

definition handleCaptureVelocity :: "nat \<Rightarrow> telemetry_msg option \<Rightarrow> string option \<Rightarrow> telemetry_context \<Rightarrow> telemetry_context" where
  "handleCaptureVelocity now telemetry robot cx =
     (case Option.bind telemetry tm_joint_state of
        Some js \<Rightarrow> capture now robot ''joint_state.velocity'' (Some (CNumbers (jd_velocity js))) cx
      | None \<Rightarrow> cx)"

definition handleCaptureJointNames :: "nat \<Rightarrow> telemetry_msg option \<Rightarrow> string option \<Rightarrow> telemetry_context \<Rightarrow> telemetry_context" where
  "handleCaptureJointNames now telemetry robot cx =
     (case Option.bind telemetry tm_joint_state of
        Some js \<Rightarrow> capture now robot ''joint_state.name'' (Some (CNames (jd_name js))) cx
      | None \<Rightarrow> cx)"

definition handleCapturePose :: "nat \<Rightarrow> telemetry_msg option \<Rightarrow> string option \<Rightarrow> telemetry_context \<Rightarrow> telemetry_context" where
  "handleCapturePose now telemetry robot cx =
     (case telemetry of
        Some t \<Rightarrow> if tm_odometry t \<noteq> None then capture now robot ''odometry.pose'' (extractTelemetryValue t ''odometry.pose'') cx else cx
      | None \<Rightarrow> cx)"

definition handleCaptureTwist :: "nat \<Rightarrow> telemetry_msg option \<Rightarrow> string option \<Rightarrow> telemetry_context \<Rightarrow> telemetry_context" where
  "handleCaptureTwist now telemetry robot cx =
     (case telemetry of
        Some t \<Rightarrow> if tm_odometry t \<noteq> None then capture now robot ''odometry.twist'' (extractTelemetryValue t ''odometry.twist'') cx else cx
      | None \<Rightarrow> cx)"

definition hasData :: "telemetry_msg option \<Rightarrow> bool" where
  "hasData telemetry \<longleftrightarrow>
     (case telemetry of
        Some t \<Rightarrow> tm_joint_state t \<noteq> None \<or> tm_odometry t \<noteq> None \<or> arr (tm_transforms t) \<noteq> []
      | None \<Rightarrow> False)"

text \<open>The rows of the table of joints; a value that is missing counts as 0.\<close>

definition num_at :: "real list \<Rightarrow> nat \<Rightarrow> real" where
  "num_at xs i = (if i < length xs then xs ! i else 0)"

definition joint_rows :: "joint_state_data \<Rightarrow> (string \<times> real \<times> real \<times> real) list" where
  "joint_rows js = map (\<lambda>(i, n). (n, num_at (jd_position js) i, num_at (jd_velocity js) i, num_at (jd_effort js) i))
     (enumerate 0 (jd_name js))"

definition compact_joint_rows :: "joint_state_data \<Rightarrow> (string \<times> real \<times> real \<times> real) list \<times> nat" where
  "compact_joint_rows js =
     (map (\<lambda>(i, n). (n, num_at (jd_position js) i, num_at (jd_velocity js) i, num_at (jd_effort js) i))
        (enumerate 0 (take 6 (jd_name js))),
      if length (jd_name js) > 6 then length (jd_name js) - 6 else 0)"

datatype panel_view = NoRobot | Loading | NoTelemetry | ShowTelemetry telemetry_msg

definition panel_view_of :: "string option \<Rightarrow> bool \<Rightarrow> telemetry_msg option \<Rightarrow> panel_view" where
  "panel_view_of selectedRobotId isLoading telemetry =
     (if \<not> truthy selectedRobotId then NoRobot
      else if isLoading then Loading
      else if \<not> hasData telemetry then NoTelemetry
      else ShowTelemetry (the telemetry))"

section \<open>The parameters of an action node\<close>

definition autoSelectRobot :: "string list \<Rightarrow> telemetry_context \<Rightarrow> telemetry_context" where
  "autoSelectRobot robots cx =
     (case robots of
        r # _ \<Rightarrow> if \<not> truthy (cx_selectedRobotId cx) then cx\<lparr>cx_selectedRobotId := Some r\<rparr> else cx
      | [] \<Rightarrow> cx)"

definition syncSection :: "telemetry_msg option \<Rightarrow> telemetry_context \<Rightarrow> telemetry_context" where
  "syncSection telemetry cx = (case telemetry of Some t \<Rightarrow> cx\<lparr>cx_liveTelemetry := Some t\<rparr> | None \<Rightarrow> cx)"

text \<open>The spread of both objects: what the live telemetry lacks is taken from the telemetry of the section.\<close>

definition first_some :: "'a option \<Rightarrow> 'a option \<Rightarrow> 'a option" where
  "first_some a b = (case a of Some x \<Rightarrow> Some x | None \<Rightarrow> b)"

definition mergedTelemetry :: "string \<Rightarrow> telemetry_msg option \<Rightarrow> telemetry_msg option \<Rightarrow> telemetry_msg option" where
  "mergedTelemetry now live telemetry =
     (if live = None \<and> telemetry = None then None
      else Some
        \<lparr>tm_joint_state = first_some (Option.bind live tm_joint_state) (Option.bind telemetry tm_joint_state),
         tm_odometry = first_some (Option.bind live tm_odometry) (Option.bind telemetry tm_odometry),
         tm_transforms = (if arr (Option.bind live tm_transforms) \<noteq> [] then Option.bind live tm_transforms
                          else Option.bind telemetry tm_transforms),
         tm_updated_at = orS (map_option tm_updated_at live) (orS (map_option tm_updated_at telemetry) now),
         tm_is_stale = first_some (Option.bind live tm_is_stale) (Option.bind telemetry tm_is_stale)\<rparr>)"

text \<open>The telemetry as the editors take it; of a joint state they use names and positions.\<close>

record editor_telemetry =
  et_joint_state :: "joint_state option"
  et_robot :: robot_telemetry

definition toEditorTelemetry :: "telemetry_msg option \<Rightarrow> editor_telemetry option" where
  "toEditorTelemetry telemetry = map_option (\<lambda>t.
     \<lparr>et_joint_state = map_option (\<lambda>js. \<lparr>js_name = Some (jd_name js), js_position = Some (jd_position js)\<rparr>) (tm_joint_state t),
      et_robot =
        \<lparr>rt_odometry = map_option (\<lambda>od. \<lparr>od_frame_id = Some (oy_frame_id od), od_child_frame_id = Some (oy_child_frame_id od),
                                        od_pose = oy_pose od\<rparr>) (tm_odometry t),
         rt_transforms = map_option (map (\<lambda>tf. \<lparr>tf_frame_id = tf_frame_id tf, tf_child_frame_id = tf_child_frame_id tf,
                           tf_translation = tf_translation tf, tf_rotation = tf_rotation tf, tf_timestamp_ns = tf_timestamp_ns tf\<rparr>))
                           (tm_transforms t)\<rparr>\<rparr>) telemetry"

definition hasTelemetry :: "telemetry_msg option \<Rightarrow> bool" where
  "hasTelemetry merged \<longleftrightarrow>
     Option.bind merged tm_joint_state \<noteq> None \<or> Option.bind merged tm_odometry \<noteq> None \<or> arr (Option.bind merged tm_transforms) \<noteq> []"

section \<open>The array editor\<close>

datatype array_elem = ENum real | EStr string

definition getTelemetryPathForType :: "string \<Rightarrow> string option" where
  "getTelemetryPathForType fieldType =
     map_option fst (List.find (\<lambda>(path, types). list_ex (\<lambda>t. toLowerCase t = toLowerCase fieldType) types) TELEMETRY_TO_GOAL_MAPPING)"

definition captured_array :: "captured_value option \<Rightarrow> array_elem list option" where
  "captured_array v =
     (case v of
        Some (CNumbers xs) \<Rightarrow> Some (map ENum xs)
      | Some (CNames xs) \<Rightarrow> Some (map EStr xs)
      | _ \<Rightarrow> None)"

definition telemetryArray :: "string \<Rightarrow> captured_telemetry option \<Rightarrow> array_elem list option" where
  "telemetryArray fieldType captured =
     (case captured of
        Some c \<Rightarrow> if Some (ct_type c) = getTelemetryPathForType fieldType then captured_array (ct_value c) else None
      | None \<Rightarrow> None)"

definition array_addElement :: "bool \<Rightarrow> array_elem list \<Rightarrow> array_elem list" where
  "array_addElement isNumeric xs = xs @ [if isNumeric then ENum 0 else EStr '''']"

definition array_removeElement :: "nat \<Rightarrow> array_elem list \<Rightarrow> array_elem list" where
  "array_removeElement index xs = map snd (filter (\<lambda>(i, _). i \<noteq> index) (enumerate 0 xs))"

definition array_updateElement :: "nat \<Rightarrow> array_elem \<Rightarrow> array_elem list \<Rightarrow> array_elem list" where
  "array_updateElement index v xs = xs[index := v]"

definition copyFromTelemetry :: "string \<Rightarrow> captured_telemetry option \<Rightarrow> array_elem list option" where
  "copyFromTelemetry fieldType captured = telemetryArray fieldType captured"

definition canCopyFromTelemetry :: "string \<Rightarrow> captured_telemetry option \<Rightarrow> bool" where
  "canCopyFromTelemetry fieldType captured \<longleftrightarrow> length (arr (telemetryArray fieldType captured)) > 0"

definition sizesMatch :: "string \<Rightarrow> captured_telemetry option \<Rightarrow> array_elem list \<Rightarrow> bool" where
  "sizesMatch fieldType captured xs \<longleftrightarrow>
     (let telemetrySize = length (arr (telemetryArray fieldType captured)) in telemetrySize > 0 \<and> length xs = telemetrySize)"

section \<open>Context, panel and nodes together\<close>

text \<open>
  The state: the context and what React Query holds for each robot. \<open>sent\<close> says which telemetry the server may deliver for a
  robot, \<open>ext\<close> is the robot given to the panel from outside, \<open>robots\<close> the list of robots. The data of a component are those of
  the robot it has selected.
\<close>

type_synonym telemetry_state = "telemetry_context \<times> (string \<Rightarrow> telemetry_msg option)"

definition robot_data :: "(string \<Rightarrow> telemetry_msg option) \<Rightarrow> string option \<Rightarrow> telemetry_msg option" where
  "robot_data query robot = (if truthy robot then query (the robot) else None)"

abbreviation panel_data :: "string option \<Rightarrow> telemetry_state \<Rightarrow> telemetry_msg option" where
  "panel_data ext s \<equiv> robot_data (snd s) (panelRobotId ext (fst s))"

inductive telemetry_step :: "(string \<Rightarrow> telemetry_msg set) \<Rightarrow> string option \<Rightarrow> string list \<Rightarrow> telemetry_state \<Rightarrow> telemetry_state \<Rightarrow> bool"
  for sent ext robots where
  answer: "t \<in> sent r \<Longrightarrow> telemetry_step sent ext robots (cx, q) (cx, q(r := Some t))"
| evict: "telemetry_step sent ext robots (cx, q) (cx, q(r := None))"
| external: "telemetry_step sent ext robots (cx, q) (syncExternalRobot ext cx, q)"
| panel: "telemetry_step sent ext robots (cx, q) (syncLiveTelemetry (panel_data ext (cx, q)) (panelRobotId ext cx) cx, q)"
| node: "telemetry_step sent ext robots (cx, q) (syncSection (robot_data q (cx_selectedRobotId cx)) cx, q)"
| auto: "telemetry_step sent ext robots (cx, q) (autoSelectRobot robots cx, q)"
| select: "telemetry_step sent ext robots (cx, q) (selectRobot v cx, q)"
| toggle: "telemetry_step sent ext robots (cx, q) (togglePanel cx, q)"
| cancel: "telemetry_step sent ext robots (cx, q) (clearCapturedValue cx, q)"
| take: "f \<in> {handleCaptureJointState, handleCapturePosition, handleCaptureVelocity, handleCaptureJointNames, handleCapturePose,
    handleCaptureTwist} \<Longrightarrow> telemetry_step sent ext robots (cx, q) (f now (panel_data ext (cx, q)) (panelRobotId ext cx) cx, q)"

text \<open>What a capture of a type takes from a message.\<close>

definition capture_of :: "telemetry_msg \<Rightarrow> string \<Rightarrow> captured_value option" where
  "capture_of t ty =
     (if ty = ''joint_state.position'' then map_option (CNumbers \<circ> jd_position) (tm_joint_state t)
      else if ty = ''joint_state.velocity'' then map_option (CNumbers \<circ> jd_velocity) (tm_joint_state t)
      else if ty = ''joint_state.name'' then map_option (CNames \<circ> jd_name) (tm_joint_state t)
      else extractTelemetryValue t ty)"

definition telemetry_ok :: "(string \<Rightarrow> telemetry_msg set) \<Rightarrow> telemetry_state \<Rightarrow> bool" where
  "telemetry_ok sent s \<longleftrightarrow>
     (\<forall>r t. snd s r = Some t \<longrightarrow> t \<in> sent r)
     \<and> (\<forall>t. cx_liveTelemetry (fst s) = Some t \<longrightarrow> (\<exists>r. t \<in> sent r))
     \<and> (\<forall>c. cx_capturedValue (fst s) = Some c \<longrightarrow>
          (\<exists>r t v. ct_robotId c = Some r \<and> t \<in> sent r \<and> ct_value c = Some v \<and> capture_of t (ct_type c) = Some v))"

lemma robot_data_sent:
  assumes "robot_data q r = Some t" "\<forall>r t. q r = Some t \<longrightarrow> t \<in> sent r"
  shows "r \<noteq> None \<and> t \<in> sent (the r) \<and> orO r None = r"
  using assms by (cases r) (auto simp: robot_data_def split: if_splits)

lemma capture_of_simps:
  "capture_of t ''joint_state.position'' = map_option (CNumbers \<circ> jd_position) (tm_joint_state t)"
  "capture_of t ''joint_state.velocity'' = map_option (CNumbers \<circ> jd_velocity) (tm_joint_state t)"
  "capture_of t ''joint_state.name'' = map_option (CNames \<circ> jd_name) (tm_joint_state t)"
  "capture_of t ''joint_state'' = extractTelemetryValue t ''joint_state''"
  "capture_of t ''odometry.pose'' = extractTelemetryValue t ''odometry.pose''"
  "capture_of t ''odometry.twist'' = extractTelemetryValue t ''odometry.twist''"
  by (simp_all add: capture_of_def)

lemma extract_simps:
  "extractTelemetryValue t ''joint_state'' =
     map_option (\<lambda>js. CJointState (jd_name js) (jd_position js) (jd_velocity js) (jd_effort js)) (tm_joint_state t)"
  "extractTelemetryValue t ''odometry.pose'' = map_option (CPose \<circ> oy_pose) (tm_odometry t)"
  "extractTelemetryValue t ''odometry.twist'' = map_option (CTwist \<circ> oy_twist) (tm_odometry t)"
  by (simp_all add: extractTelemetryValue_def)

definition captured_from :: "telemetry_msg option \<Rightarrow> nat \<Rightarrow> string option \<Rightarrow> telemetry_context \<Rightarrow> telemetry_context \<Rightarrow> bool" where
  "captured_from d now robot cx cx' \<longleftrightarrow>
     cx' = cx \<or> (\<exists>t ty v. d = Some t \<and> capture_of t ty = Some v \<and> cx' = capture now robot ty (Some v) cx)"

lemma captured_fromI: "d = Some t \<Longrightarrow> capture_of t ty = Some v \<Longrightarrow> captured_from d now robot cx (capture now robot ty (Some v) cx)"
  unfolding captured_from_def by blast

lemma captured_from_refl [simp]: "captured_from d now robot cx cx"
  by (simp add: captured_from_def)

lemma captured_joint:
  "captured_from d now robot cx (handleCaptureJointState now d robot cx)"
  by (auto simp: handleCaptureJointState_def extract_simps capture_of_simps split: option.split intro!: captured_fromI)

lemma captured_arrays:
  "captured_from d now robot cx (handleCapturePosition now d robot cx)" "captured_from d now robot cx (handleCaptureVelocity now d robot cx)"
  "captured_from d now robot cx (handleCaptureJointNames now d robot cx)"
  by (cases d; auto simp: handleCapturePosition_def handleCaptureVelocity_def handleCaptureJointNames_def capture_of_simps
      split: option.split intro!: captured_fromI)+

lemma captured_odometry:
  "captured_from d now robot cx (handleCapturePose now d robot cx)" "captured_from d now robot cx (handleCaptureTwist now d robot cx)"
  by (auto simp: handleCapturePose_def handleCaptureTwist_def extract_simps capture_of_simps split: option.split intro!: captured_fromI)

lemma capture_step:
  assumes "f \<in> {handleCaptureJointState, handleCapturePosition, handleCaptureVelocity, handleCaptureJointNames, handleCapturePose,
    handleCaptureTwist}"
  shows "captured_from d now robot cx (f now d robot cx)"
  using assms by (elim insertE emptyE) (simp_all only: captured_joint captured_arrays captured_odometry)

lemma telemetry_ok_step:
  assumes "telemetry_step sent ext robots s s'" "telemetry_ok sent s"
  shows "telemetry_ok sent s'"
  using assms
proof (induction rule: telemetry_step.induct)
  case (panel cx q)
  then show ?case
    using robot_data_sent[of q "panelRobotId ext cx" _ sent]
    by (auto simp: telemetry_ok_def syncLiveTelemetry_def split: option.splits if_splits)
next
  case (node cx q)
  then show ?case
    using robot_data_sent[of q "cx_selectedRobotId cx" _ sent] by (auto simp: telemetry_ok_def syncSection_def split: option.splits)
next
  case (take f cx q now)
  from capture_step[OF take.hyps, of "panel_data ext (cx, q)" now "panelRobotId ext cx" cx] take.prems
  show ?case
    using robot_data_sent[of q "panelRobotId ext cx" _ sent] by (auto simp: telemetry_ok_def capture_def captured_from_def) blast
qed (auto simp: telemetry_ok_def syncExternalRobot_def autoSelectRobot_def selectRobot_def togglePanel_def clearCapturedValue_def
      split: list.splits)

text \<open>The parts of a message that come from one sent for a robot of a set.\<close>

definition parts_sent :: "telemetry_msg set \<Rightarrow> telemetry_msg \<Rightarrow> bool" where
  "parts_sent ts m \<longleftrightarrow>
     (tm_joint_state m \<noteq> None \<longrightarrow> (\<exists>t \<in> ts. tm_joint_state t = tm_joint_state m))
     \<and> (tm_odometry m \<noteq> None \<longrightarrow> (\<exists>t \<in> ts. tm_odometry t = tm_odometry m))
     \<and> (arr (tm_transforms m) \<noteq> [] \<longrightarrow> (\<exists>t \<in> ts. tm_transforms t = tm_transforms m))"

lemma merged_parts:
  assumes "mergedTelemetry now live data = Some m" "\<And>t. live = Some t \<or> data = Some t \<Longrightarrow> t \<in> ts"
  shows "parts_sent ts m"
  using assms by (cases live; cases data)
    (auto simp: mergedTelemetry_def parts_sent_def first_some_def split: option.splits if_splits)

text \<open>C22. However selections, answers, effects and captures interleave, a value captured in the panel was taken from telemetry of the robot it is
  labelled with, and is a value of the type it is labelled with. The telemetry the editors see is put together from two messages, the live
  telemetry, which was sent for some robot, and the answer for the selected robot: its joint state, its odometry and its transforms each were sent for one of these
  two robots, not necessarily for the same one. If the live telemetry was sent for the selected robot, so were all of them.
\<close>

theorem captures_from_their_robot:
  assumes "(telemetry_step sent ext robots)\<^sup>*\<^sup>* (TelemetryProvider, \<lambda>_. None) (cx, q)"
  shows "(\<forall>c. cx_capturedValue cx = Some c \<longrightarrow>
      (\<exists>r t v. ct_robotId c = Some r \<and> t \<in> sent r \<and> ct_value c = Some v \<and> capture_of t (ct_type c) = Some v))
    \<and> (\<forall>t. cx_liveTelemetry cx = Some t \<longrightarrow> (\<exists>r. t \<in> sent r))
    \<and> (\<forall>r now m. (\<forall>t. cx_liveTelemetry cx = Some t \<longrightarrow> t \<in> sent r) \<longrightarrow>
        mergedTelemetry now (cx_liveTelemetry cx) (robot_data q (cx_selectedRobotId cx)) = Some m \<longrightarrow>
        parts_sent (sent r \<union> (case cx_selectedRobotId cx of Some s \<Rightarrow> sent s | None \<Rightarrow> {})) m)"
proof -
  have "telemetry_ok sent (cx, q)"
    using assms
  proof (induction rule: rtranclp_induct)
    case base
    show ?case by (simp add: telemetry_ok_def TelemetryProvider_def)
  next
    case (step y z)
    then show ?case using telemetry_ok_step by blast
  qed
  then have ok: "\<forall>r t. q r = Some t \<longrightarrow> t \<in> sent r"
    and rest: "\<forall>t. cx_liveTelemetry cx = Some t \<longrightarrow> (\<exists>r. t \<in> sent r)"
      "\<forall>c. cx_capturedValue cx = Some c \<longrightarrow>
        (\<exists>r t v. ct_robotId c = Some r \<and> t \<in> sent r \<and> ct_value c = Some v \<and> capture_of t (ct_type c) = Some v)"
    by (simp_all add: telemetry_ok_def)
  have "parts_sent (sent r \<union> (case cx_selectedRobotId cx of Some s \<Rightarrow> sent s | None \<Rightarrow> {})) m"
    if "\<forall>t. cx_liveTelemetry cx = Some t \<longrightarrow> t \<in> sent r"
      "mergedTelemetry now (cx_liveTelemetry cx) (robot_data q (cx_selectedRobotId cx)) = Some m" for r now m
    by (rule merged_parts[OF that(2)])
      (use that(1) robot_data_sent[OF _ ok, of "cx_selectedRobotId cx"] in \<open>auto split: option.split\<close>)
  with rest show ?thesis by blast
qed

definition sample_message :: telemetry_msg where
  "sample_message = \<lparr>tm_joint_state = None,
     tm_odometry = Some \<lparr>oy_frame_id = ''odom'', oy_child_frame_id = ''base_link'', oy_pose = origin_pose,
       oy_twist = \<lparr>tw_linear = pv_position origin_pose, tw_angular = pv_position origin_pose\<rparr>, oy_topic_name = None\<rparr>,
     tm_transforms = None, tm_updated_at = ''12:00'', tm_is_stale = None\<rparr>"

definition sample_sent :: "string \<Rightarrow> telemetry_msg set" where
  "sample_sent r = (if r = ''agv1'' then {sample_message} else {})"

theorem captures_from_their_robot_witness:
  "\<exists>cx q c. (telemetry_step sample_sent None [''agv1''])\<^sup>*\<^sup>* (TelemetryProvider, \<lambda>_. None) (cx, q)
     \<and> cx_capturedValue cx = Some c \<and> ct_robotId c = Some ''agv1''
     \<and> (\<exists>v. ct_value c = Some v \<and> capture_of sample_message (ct_type c) = Some v)"
proof -
  let ?q = "(\<lambda>_. None)(''agv1'' := Some sample_message)" and ?c1 = "autoSelectRobot [''agv1''] TelemetryProvider"
  let ?c2 = "handleCapturePose 7 (panel_data None (?c1, ?q)) (panelRobotId None ?c1) ?c1"
  note step = rtranclp.rtrancl_into_rtrancl
  have "(telemetry_step sample_sent None [''agv1''])\<^sup>*\<^sup>* (TelemetryProvider, \<lambda>_. None) (TelemetryProvider, ?q)"
    by (rule r_into_rtranclp, rule telemetry_step.answer) (simp add: sample_sent_def)
  then have "(telemetry_step sample_sent None [''agv1''])\<^sup>*\<^sup>* (TelemetryProvider, \<lambda>_. None) (?c1, ?q)"
    by (rule step) (rule telemetry_step.auto)
  then have r: "(telemetry_step sample_sent None [''agv1''])\<^sup>*\<^sup>* (TelemetryProvider, \<lambda>_. None) (?c2, ?q)"
    by (rule step) (rule telemetry_step.take, simp)
  have "cx_capturedValue ?c2 \<noteq> None"
    by (simp add: handleCapturePose_def capture_def autoSelectRobot_def TelemetryProvider_def panelRobotId_def robot_data_def sample_message_def)
  then obtain c where c: "cx_capturedValue ?c2 = Some c" by blast
  with captures_from_their_robot[OF r] obtain i t v where
    "ct_robotId c = Some i" "t \<in> sample_sent i" "ct_value c = Some v" "capture_of t (ct_type c) = Some v" by blast
  moreover from this(2) have "i = ''agv1''" "t = sample_message" by (auto simp: sample_sent_def split: if_splits)
  ultimately show ?thesis using r c by blast
qed

section \<open>What the editors see\<close>

text \<open>Once the data of the selected robot are there, the effects of the panel and of a node hand them to the editors.\<close>

lemma live_follows_selection:
  assumes "robot_data q (cx_selectedRobotId cx) = Some t"
  shows "cx_liveTelemetry (syncSection (robot_data q (cx_selectedRobotId cx)) cx) = Some t"
    "cx_liveTelemetry (syncLiveTelemetry (panel_data None (cx, q)) (panelRobotId None cx) cx) = Some t"
  using assms by (simp_all add: syncSection_def syncLiveTelemetry_def panelRobotId_def)

lemma merged_in_step: "tm_updated_at t \<noteq> '''' \<Longrightarrow> mergedTelemetry now (Some t) (Some t) = Some t"
  by (simp add: mergedTelemetry_def first_some_def orS_def truthy_def split: option.splits)

text \<open>The two messages need not be of one robot: right after the answer for a newly selected robot, which has no odometry, the editors see its
  joint state with the odometry of the robot selected before.\<close>

theorem merged_mixes_robots:
  assumes "t \<in> sent a" "u \<in> sent b" "a \<noteq> ''''" "b \<noteq> ''''" "b \<noteq> a"
    and "tm_odometry t = Some od" "tm_joint_state t = None" "tm_joint_state u = Some js" "tm_odometry u = None"
  shows "\<exists>cx q m. (telemetry_step sent None robots)\<^sup>*\<^sup>* (TelemetryProvider, \<lambda>_. None) (cx, q)
    \<and> cx_selectedRobotId cx = Some b
    \<and> mergedTelemetry now (cx_liveTelemetry cx) (robot_data q (Some b)) = Some m \<and> tm_odometry m = Some od \<and> tm_joint_state m = Some js"
proof -
  let ?q0 = "\<lambda>_. None :: telemetry_msg option" and ?c0 = TelemetryProvider
  let ?q1 = "?q0(a := Some t)" and ?c1 = "selectRobot a ?c0"
  let ?c2 = "?c1\<lparr>cx_liveTelemetry := Some t\<rparr>" and ?c3 = "selectRobot b (?c1\<lparr>cx_liveTelemetry := Some t\<rparr>)" and ?q3 = "?q0(a := Some t, b := Some u)"
  note step = rtranclp.rtrancl_into_rtrancl
  have "(telemetry_step sent None robots)\<^sup>*\<^sup>* (?c0, ?q0) (?c0, ?q1)" by (rule r_into_rtranclp, rule telemetry_step.answer, rule assms(1))
  then have "(telemetry_step sent None robots)\<^sup>*\<^sup>* (?c0, ?q0) (?c1, ?q1)" by (rule step) (rule telemetry_step.select)
  moreover have "telemetry_step sent None robots (?c1, ?q1) (?c2, ?q1)"
    using telemetry_step.node[of sent None robots ?c1 ?q1] assms(3) by (simp add: syncSection_def robot_data_def selectRobot_def)
  ultimately have "(telemetry_step sent None robots)\<^sup>*\<^sup>* (?c0, ?q0) (?c2, ?q1)" by (rule step)
  then have "(telemetry_step sent None robots)\<^sup>*\<^sup>* (?c0, ?q0) (?c3, ?q1)" by (rule step) (rule telemetry_step.select)
  then have "(telemetry_step sent None robots)\<^sup>*\<^sup>* (?c0, ?q0) (?c3, ?q3)" by (rule step) (rule telemetry_step.answer, rule assms(2))
  moreover have "robot_data ?q3 (Some b) = Some u" using assms(4) by (simp add: robot_data_def)
  ultimately show ?thesis using assms
    by (intro exI[of _ ?c3] exI[of _ ?q3]) (simp add: selectRobot_def mergedTelemetry_def first_some_def)
qed

text \<open>
  Until then the editors keep the telemetry of the robot selected before: with one robot answered and another selected, every
  effect leaves the first robot's telemetry in place, and a pose captured by an editor is that of the first robot.
\<close>

theorem live_telemetry_other_robot:
  assumes "t \<in> sent a" "a \<noteq> ''''" "b \<noteq> ''''" "b \<noteq> a"
  shows "\<exists>cx q. (telemetry_step sent None robots)\<^sup>*\<^sup>* (TelemetryProvider, \<lambda>_. None) (cx, q)
    \<and> cx_selectedRobotId cx = Some b \<and> cx_liveTelemetry cx = Some t
    \<and> mergedTelemetry now (cx_liveTelemetry cx) (robot_data q (Some b)) = mergedTelemetry now (Some t) None
    \<and> syncSection (robot_data q (Some b)) cx = cx \<and> syncLiveTelemetry (panel_data None (cx, q)) (panelRobotId None cx) cx = cx"
proof -
  let ?q0 = "\<lambda>_. None :: telemetry_msg option" and ?c0 = TelemetryProvider
  let ?q1 = "?q0(a := Some t)" and ?c1 = "selectRobot a ?c0"
  let ?c2 = "?c1\<lparr>cx_liveTelemetry := Some t\<rparr>" and ?c3 = "selectRobot b (?c1\<lparr>cx_liveTelemetry := Some t\<rparr>)"
  note step = rtranclp.rtrancl_into_rtrancl
  have "(telemetry_step sent None robots)\<^sup>*\<^sup>* (?c0, ?q0) (?c0, ?q1)" by (rule r_into_rtranclp, rule telemetry_step.answer, rule assms(1))
  then have "(telemetry_step sent None robots)\<^sup>*\<^sup>* (?c0, ?q0) (?c1, ?q1)" by (rule step) (rule telemetry_step.select)
  moreover have "telemetry_step sent None robots (?c1, ?q1) (?c2, ?q1)"
    using telemetry_step.node[of sent None robots ?c1 ?q1] assms(2) by (simp add: syncSection_def robot_data_def selectRobot_def)
  ultimately have "(telemetry_step sent None robots)\<^sup>*\<^sup>* (?c0, ?q0) (?c2, ?q1)" by (rule step)
  then have "(telemetry_step sent None robots)\<^sup>*\<^sup>* (?c0, ?q0) (?c3, ?q1)" by (rule step) (rule telemetry_step.select)
  moreover have "robot_data ?q1 (Some b) = None" using assms by (simp add: robot_data_def)
  ultimately show ?thesis using assms(3)
    by (intro exI[of _ ?c3] exI[of _ ?q1]) (simp add: selectRobot_def syncSection_def syncLiveTelemetry_def panelRobotId_def)
qed

text \<open>Choosing no robot in the parameters of a node has no lasting effect: the first robot is selected at once.\<close>

lemma deselect_reselects: "cx_selectedRobotId (autoSelectRobot (r # rs) (selectRobot '''' cx)) = Some r"
  by (simp add: autoSelectRobot_def selectRobot_def)

text \<open>The pose the pose editor takes from the odometry is the one the panel captures.\<close>

lemma editor_pose_is_captured_pose:
  assumes "tm_odometry t = Some od"
  shows "map_option (CPose \<circ> lp_pose) (odometry_pose (Plain v) (map_option et_robot (toEditorTelemetry (Some t))))
       = extractTelemetryValue t ''odometry.pose''"
  using assms by (simp add: odometry_pose_def toEditorTelemetry_def extract_simps Let_def)

lemma transforms_unchanged:
  "Option.bind (map_option et_robot (toEditorTelemetry (Some t))) rt_transforms = tm_transforms t"
  by (cases "tm_transforms t") (simp_all add: toEditorTelemetry_def map_idI)

text \<open>
  An array of numbers accepts captured positions only, so captured velocities are offered nowhere; the table of
  \<^verbatim>\<open>utils/telemetryMapping.ts\<close> names the efforts for the same type.
\<close>

lemma lower_lengths: "length s \<noteq> length t \<Longrightarrow> toLowerCase s \<noteq> toLowerCase t"
  by (metis length_toLowerCase)

lemma numeric_array_path: "ty \<in> set numeric_array_types \<Longrightarrow> getTelemetryPathForType ty = Some ''joint_state.position''"
proof -
  have "list_all (\<lambda>ty. getTelemetryPathForType ty = Some ''joint_state.position'') numeric_array_types"
    by (simp add: getTelemetryPathForType_def TELEMETRY_TO_GOAL_MAPPING_def numeric_array_types_def lower_lengths)
  then show "ty \<in> set numeric_array_types \<Longrightarrow> ?thesis" by (simp add: list_all_iff)
qed

lemma velocities_not_offered:
  assumes "fieldType \<in> set numeric_array_types"
  shows "\<not> canCopyFromTelemetry fieldType (cx_capturedValue (handleCaptureVelocity now (Some t) robot (clearCapturedValue cx)))"
  using numeric_array_path[OF assms]
  by (auto simp: canCopyFromTelemetry_def telemetryArray_def handleCaptureVelocity_def capture_def clearCapturedValue_def split: option.splits)

lemma positions_copied:
  assumes "fieldType \<in> set numeric_array_types" "tm_joint_state t = Some js"
  shows "copyFromTelemetry fieldType (cx_capturedValue (handleCapturePosition now (Some t) robot cx)) = Some (map ENum (jd_position js))"
  using numeric_array_path[OF assms(1)] assms(2)
  by (simp add: copyFromTelemetry_def telemetryArray_def handleCapturePosition_def capture_def captured_array_def)

lemma elements_edit:
  "index < length xs \<Longrightarrow> array_removeElement index xs = take index xs @ drop (Suc index) xs"
  "array_removeElement (length xs) (array_addElement b xs) = xs" "length (array_updateElement i v xs) = length xs"
proof -
  have f: "filter (\<lambda>(i, _). i \<noteq> k) (enumerate n ys) = enumerate n ys" if "k < n \<or> n + length ys \<le> k" for k n and ys :: "array_elem list"
    using that by (auto simp: filter_id_conv in_set_enumerate_eq)
  show "array_removeElement index xs = take index xs @ drop (Suc index) xs" if "index < length xs"
  proof -
    have "enumerate 0 xs = enumerate 0 (take index xs) @ (index, xs ! index) # enumerate (Suc index) (drop (Suc index) xs)"
      using that by (metis Cons_nth_drop_Suc add.left_neutral append_take_drop_id enumerate_append_eq enumerate_simps(2) length_take min.absorb4)
    then show ?thesis using that f[of index 0 "take index xs"] f[of index "Suc index" "drop (Suc index) xs"]
      by (simp add: array_removeElement_def)
  qed
  show "array_removeElement (length xs) (array_addElement b xs) = xs"
    using f[of "length xs" 0 xs] by (simp add: array_removeElement_def array_addElement_def enumerate_append_eq)
  show "length (array_updateElement i v xs) = length xs" by (simp add: array_updateElement_def)
qed

text \<open>The compact table shows the head of the full one and counts the rest.\<close>

lemma compact_rows:
  "fst (compact_joint_rows js) = take 6 (joint_rows js)"
  "length (fst (compact_joint_rows js)) + snd (compact_joint_rows js) = length (jd_name js)"
  by (cases "length (jd_name js) \<le> 6"; simp add: compact_joint_rows_def joint_rows_def take_map enumerate_eq_zip take_zip)+

end
