(* ===== verification/Spec2Isabelle.thy ===== *)
theory Spec2Isabelle
  imports Graph_Session Template_Load Task_Backup Agent_Match Tree_Viewer Pose_Editor Param_Editors Agent_Dashboard Planning_Modal Task_Modals Edit_Lock Type_System Telemetry_Mapping Planning_Task User_Store
    Pddl_Drafts Pddl_Timeline Pddl_Runtime Pddl_Realtime Pddl_Profile Pddl_Page Pddl_Goals
    Rest_Routes Telemetry_Panel
begin

text \<open>
  A verification library for the front end of a fleet management system
  (\<^verbatim>\<open>src/central_server/frontend/src\<close>): the editor in which the tasks of robots are drawn as graphs, and the page on which
  tasks are planned, executed and monitored, the dashboard of the agents and the client of the server. The Go server is known to
  the front end only by its replies, which are arguments of the definitions that branch on them, and by its routes.

  \<^bold>\<open>Parts of the program and their theories\<close>

  \<^item> \<^verbatim>\<open>Js_Prelude\<close>: the runtime. Optional and falsy values, strings with \<open>trim\<close>, \<open>split\<close> and \<open>join\<close>, numbers with
    \<open>NaN\<close> and infinities, \<open>Map\<close> and \<open>Set\<close> in insertion order, stable sorting. Its locales state what insertion-ordered
    maps (\<open>insertion_map\<close>) and comparison functions (\<open>sort_order\<close>) promise; the maps and comparators of the code are
    interpretations.
  \<^item> \<^verbatim>\<open>Fleet_Types\<close>: the data model of \<^verbatim>\<open>types/index.ts\<close>, one record or datatype per interface. \<^verbatim>\<open>Type_System\<close>: the
    canonical types for parameter binding in the same file, their compatibility and field paths.
  \<^item> The task editor, \<^verbatim>\<open>pages/ActionGraph\<close>. \<^verbatim>\<open>Editor_Helpers\<close> and \<^verbatim>\<open>Node_Utils\<close>: outcomes, end states, names, goal
    schemas. \<^verbatim>\<open>Graph_Canvas\<close>: nodes and edges. \<^verbatim>\<open>Graph_Save\<close>: \<open>convertGraphToSteps\<close>, \<open>validateGraph\<close>, \<open>handleSave\<close>.
    \<^verbatim>\<open>Graph_Load\<close>: \<open>convertActionGraphToGraph\<close>. \<^verbatim>\<open>Graph_Edit\<close>: the callbacks of the canvas and the relation
    \<open>edit_step\<close>. \<^verbatim>\<open>Graph_Roundtrip\<close> and \<^verbatim>\<open>Graph_Session\<close>: opening, editing and saving together. \<^verbatim>\<open>Template_Load\<close>:
    which task is selected, when the canvas is cleared and loaded (\<open>page_step\<close>). \<^verbatim>\<open>Task_Backup\<close>: task files.
    \<^verbatim>\<open>Edit_Lock\<close>: the edit lock of a task with its heartbeat (\<open>lock_step\<close>). \<^verbatim>\<open>Planning_Task\<close>: planning annotations.
    \<^verbatim>\<open>Planning_Modal\<close>: the dialog that edits them. \<^verbatim>\<open>Task_Modals\<close>: the palette, and the dialogs that create, rename and assign
    tasks and edit state definitions. \<^verbatim>\<open>Agent_Match\<close>: the agents whose capabilities cover a task. \<^verbatim>\<open>Tree_Viewer\<close>
    (\<^verbatim>\<open>components/BehaviorTreeViewer.tsx\<close>): the read-only drawing of a task.
  \<^item> The parameter editors of action nodes (\<^verbatim>\<open>nodes/components/parameter-editors\<close>). \<^verbatim>\<open>Tool_Frames\<close>: the tool frames
    found in the transforms of a robot. \<^verbatim>\<open>Pose_Math\<close>: quaternions and Euler angles. \<^verbatim>\<open>Frame_Chain\<close>: the transform between two
    frames of the telemetry. \<^verbatim>\<open>Pose_Editor\<close>: the live pose, its capture and the edits of a pose. \<^verbatim>\<open>Param_Editors\<close>:
    which editor a field gets, the editors of simple values, of joint states and of the source of a parameter.
    \<^verbatim>\<open>Telemetry_Panel\<close> (\<^verbatim>\<open>contexts/TelemetryContext.tsx\<close>, \<^verbatim>\<open>components/TelemetryPanel.tsx\<close>): how telemetry reaches the
    editors and is captured (\<open>telemetry_step\<close>).
  \<^item> \<^verbatim>\<open>Web_Socket\<close> (\<^verbatim>\<open>contexts/WebSocketContext.tsx\<close>), \<^verbatim>\<open>User_Store\<close> (\<^verbatim>\<open>stores/userStore.ts\<close>) and
    \<^verbatim>\<open>Telemetry_Mapping\<close> (\<^verbatim>\<open>utils/telemetryMapping.ts\<close>).
  \<^item> The planning page, \<^verbatim>\<open>pages/PDDL/index.tsx\<close>. \<^verbatim>\<open>Pddl_Resources\<close>: resource types and instances. \<^verbatim>\<open>Pddl_Policies\<close>:
    state templates and merge policies. \<^verbatim>\<open>Pddl_Profile\<close>: distributor profiles. \<^verbatim>\<open>Pddl_Drafts\<close>: what the browser stores.
    \<^verbatim>\<open>Pddl_Timeline\<close> and \<^verbatim>\<open>Pddl_Runtime\<close>: the views of a running plan. \<^verbatim>\<open>Pddl_Realtime\<close>: planning requests and
    realtime sessions. \<^verbatim>\<open>Pddl_Goals\<close>: the goal editors. \<^verbatim>\<open>Pddl_Page\<close>: selecting tasks and distributors, monitoring cards.
  \<^item> \<^verbatim>\<open>Agent_Dashboard\<close> (\<^verbatim>\<open>pages/AgentDashboard/index.tsx\<close>): selections, deployment and execution of the tasks of an agent.
  \<^item> \<^verbatim>\<open>Rest_Client\<close> (\<^verbatim>\<open>api/client.ts\<close>): the request of every function of the client. \<^verbatim>\<open>Rest_Routes\<close>: the routes of the
    server (\<^verbatim>\<open>central_server_go/internal/api/router.go\<close>), and the handler that serves each request.

  Definitions bear the names of the functions, handlers or state variables they translate; an effect of a React
  component that has no name gets one that says what it does. The state of a page is a record with one field per
  state variable or reference the modelled handlers use, a handler is a function on it, and where several
  handlers can run in any order they are the rules of an inductive relation. A handler that awaits an answer is cut at the await where
  other events matter in between (\<open>releaseLock\<close>, \<open>releaseLock_saved\<close>, \<open>releaseLock_request\<close>, \<open>releaseLock_released\<close> and
  \<open>forceUnlock_answered\<close> in \<open>Edit_Lock\<close>, the \<open>_answered\<close> halves in \<open>Pddl_Realtime\<close>).

  \<^bold>\<open>How the parts interact\<close>

  \<open>Template_Load\<close> opens what \<open>Graph_Load\<close> builds, \<open>Graph_Edit\<close> changes it and \<open>Graph_Save\<close> compiles it, for the server,
  for the release of the lock (\<open>Edit_Lock\<close>) and for a file (\<open>Task_Backup\<close>). \<open>Web_Socket\<close> delivers the lock messages
  \<open>Edit_Lock\<close> reacts to. The annotations of \<open>Planning_Task\<close> refer to the states and resources that
  \<open>Pddl_Resources\<close>, \<open>Pddl_Policies\<close> and \<open>Pddl_Profile\<close> create. \<open>Telemetry_Panel\<close> hands telemetry to the editors of \<open>Pose_Editor\<close>
  and \<open>Param_Editors\<close>.

  \<^bold>\<open>What is shown\<close>

  \<^item> Tasks: opening a canonical task and saving it reproduces it; every sequence of edits keeps the canvas well
    formed, up to edges of nodes whose removal the guard of \<open>onEdgesChange\<close> did not follow (\<open>cv_left\<close>); the transitions and the entry point of a saved task are steps of it; a save is blocked exactly for
    incomplete actions; the read-only view of a saved task has no dangling edge and a layout within its bounds; the canvas shown belongs to the selected task, however selections and replies interleave;
    a task set written to a file is restored by loading it, and failures of a load stay local to a task.
  \<^item> The lock: at most one heartbeat runs, and one in edit mode, but for the time between a release and its answer; which ways of losing
    the lock leave edit mode, and the four that do not; a request that releases the lock follows a save that succeeded or whose failure was accepted, or no
    changes. One socket or one scheduled reconnect exists while the provider is mounted, and a message that parses reaches exactly
    its subscribers, up to the first that throws (a refinement of an abstract registry).
  \<^item> Types: the compatibility of scalar types with its warnings, the meaning of implicit integer conversions, printing and parsing of field
    paths; the two copies of the outcome inference agree in exactly the cases stated.
  \<^item> Poses: the searches in the frame graph end for every telemetry, cyclic ones included; the transform found between two
    frames is the geometric one, whichever path was taken; a captured pose locates a frame of the robot in the frame it names, or is the odometry's; an
    angle that is edited is stored as typed and shown rounded to one digit; the speed factor stays within its limits.
  \<^item> Telemetry: a captured value was taken from telemetry of the robot it names, however selections and answers interleave; what the
    editors see may mix two robots while a selection changes.
  \<^item> Dashboard: when an execution is asked for and when the task is deployed first; failures of a deployment stay local to a task;
    when the effects that repair the selection settle, and when they never do.
  \<^item> Client: every request whose ids are plain path segments is, after the browser has parsed its URL, served by the handler it is meant for, with its
    ids where the handler reads them; file names survive their encoding; what other ids do to a path.
  \<^item> Planning: the dialog saves annotations that refer only to what its distributor has, a distributor without resources excepted; names of instances are fresh and lead back to their type; profiles restore the resources; pattern
    policies match what the pattern says (an equivalence of the generated regular expression with a glob matcher);
    templates expand to all combinations; drafts survive a change of the distributor and a reload; the blocks of the
    timeline account for all steps; dispatch lists are the stable sort of the steps; buttons and their reasons agree, apart from the time a plan is
    computed; an ended session never blocks the page.
  \<^item> Some theorems record what the code does where it does not do what it seems to mean: an empty canvas after a quick
    switch of tasks, a fallback that is no step, lost scopes of goals in profiles, a completed task shown as pending,
    a reconnect after unmounting and others.

  \<^bold>\<open>Choices\<close>

  Strings are lists of characters with codes below 256, which covers everything the code tests for; numbers of the canvas
  are exact rationals with \<open>NaN\<close> and infinities, since the code only copies, compares and adds small constants to
  them. The coordinates and quaternions of poses are real numbers: what is shown of them is geometry, without the rounding of
  floating point arithmetic. Objects are association lists in insertion order; keys that are array indices come first where the code
  enumerates such an object (\<open>obj_entries\<close>). Library code is a parameter with its documented behaviour as a
  hypothesis: \<open>addEdge\<close>, \<open>applyEdgeChanges\<close>, \<open>applyNodeChanges\<close> and the changes React Flow reports for
  \<open>setEdges\<close> (\<open>react_flow_law\<close>), \<open>localeCompare\<close> (\<open>sort_order\<close>, \<open>locale_compare\<close>); \<open>JSON.parse\<close> of a frame is a function that may
  fail, and a callback may throw; \<open>JSON.stringify\<close>, the clock and random numbers are arguments of which nothing or
  only their character set is assumed. No fuel is used. The functions whose
  recursion is not structural (splitting a string, collapsing spaces, parsing a field path, comparing types and reading
  a schema) have their termination proofs beside them; the three loops that work off a queue (two in \<open>Tool_Frames\<close>, one in
  \<open>Frame_Chain\<close>) are partial functions with the result \<open>None\<close> for a run that does not end, and are shown to return for
  every input.

  \<^bold>\<open>Not modelled\<close>

  The rendering of the views and forms, the theme, the translations, the pages of running tasks and of the history of tasks (lists of
  server data), the drawing of nodes and edges on the canvas, three forms that no page shows (those of \<open>ConditionBuilder\<close>,
  \<open>StatesPanel\<close> and \<open>TaskDistributorManager\<close>), and everything outside the front end: of the server only the
  routes are modelled, and of two handlers what they read of a request. The router is known by the documented
  meaning of its patterns; the decoding of path segments by the server is not modelled.
\<close>

end
